(* ===== verification/Prelude.thy ===== *)
theory Prelude
  imports Main "HOL-Library.Word"
begin

text \<open>
  The vocabulary shared by every component of the fakemote model: the C integer types at
  their width, the faults a C execution can end in, the result monad that threads them,
  and byte-addressed buffers with checked reads and writes.  The hardware is a big-endian
  ARM, so a native 16-bit load is big-endian and \<open>le16toh\<close> reads little-endian wire data.
\<close>

unbundle bit_operations_syntax

section \<open>Integer types and collections of rewrite rules\<close>

type_synonym u8 = "8 word"
type_synonym u16 = "16 word"
type_synonym u32 = "32 word"

named_theorems c_consts \<open>unfolding of the C preprocessor constants\<close>
named_theorems result_simps \<open>inversion rules of the result monad\<close>

section \<open>Faults and the result monad\<close>

text \<open>
  An execution of the C code either returns, or stops in \<open>__assert_func\<close> (which never
  returns), or performs an access outside an object, or dereferences a null pointer.
\<close>

datatype fault = Assert_Failed | Out_Of_Bounds | Null_Deref

type_synonym 'a result = "fault + 'a"

definition rbind :: "'a result \<Rightarrow> ('a \<Rightarrow> 'b result) \<Rightarrow> 'b result" where
  "rbind m f = (case m of Inl e \<Rightarrow> Inl e | Inr a \<Rightarrow> f a)"

definition c_assert :: "bool \<Rightarrow> unit result" where
  "c_assert b = (if b then Inr () else Inl Assert_Failed)"

definition deref :: "'a option \<Rightarrow> 'a result" where
  "deref p = (case p of None \<Rightarrow> Inl Null_Deref | Some a \<Rightarrow> Inr a)"

lemma rbind_Inl [simp]: "rbind (Inl e) f = Inl e"
  by (simp add: rbind_def)

lemma rbind_Inr [simp]: "rbind (Inr a) f = f a"
  by (simp add: rbind_def)

lemma rbind_eq_Inr [result_simps]: "rbind m f = Inr b \<longleftrightarrow> (\<exists>a. m = Inr a \<and> f a = Inr b)"
  by (cases m) auto

lemma rbind_eq_Inl [result_simps]:
  "rbind m f = Inl e \<longleftrightarrow> m = Inl e \<or> (\<exists>a. m = Inr a \<and> f a = Inl e)"
  by (cases m) auto

lemma rbind_assoc: "rbind (rbind m f) g = rbind m (\<lambda>a. rbind (f a) g)"
  by (cases m) auto

lemma rbind_return [simp]: "rbind m Inr = m"
  by (cases m) auto

lemma rbind_cong [fundef_cong]:
  "m = m' \<Longrightarrow> (\<And>a. m' = Inr a \<Longrightarrow> f a = f' a) \<Longrightarrow> rbind m f = rbind m' f'"
  by (cases m') auto

lemma c_assert_simps [simp]: "c_assert True = Inr ()" "c_assert False = Inl Assert_Failed"
  by (simp_all add: c_assert_def)

lemma c_assert_eq [result_simps]:
  "c_assert b = Inr u \<longleftrightarrow> b"
  "c_assert b = Inl e \<longleftrightarrow> \<not> b \<and> e = Assert_Failed"
  by (auto simp: c_assert_def)

lemma deref_simps [simp]: "deref (Some a) = Inr a" "deref None = Inl Null_Deref"
  by (simp_all add: deref_def)

lemma deref_eq [result_simps]:
  "deref p = Inr a \<longleftrightarrow> p = Some a"
  "deref p = Inl e \<longleftrightarrow> p = None \<and> e = Null_Deref"
  by (auto simp: deref_def split: option.splits)

text \<open>A computation that ends with a result that satisfies \<open>Post\<close> or with a fault of \<open>X\<close>.\<close>

definition runs :: "fault set \<Rightarrow> 'a result \<Rightarrow> ('a \<Rightarrow> bool) \<Rightarrow> bool" where
  "runs X m Post \<longleftrightarrow> (case m of Inl e \<Rightarrow> e \<in> X | Inr a \<Rightarrow> Post a)"

lemma runs_simps [simp]:
  "runs X (Inr a) Post \<longleftrightarrow> Post a" "runs X (Inl e) Post \<longleftrightarrow> e \<in> X"
  "runs X (rbind m f) Post \<longleftrightarrow> runs X m (\<lambda>a. runs X (f a) Post)"
  by (cases m; simp add: runs_def)+

lemma runs_mono: "runs X m Q \<Longrightarrow> (\<And>a. m = Inr a \<Longrightarrow> Q a \<Longrightarrow> Post a) \<Longrightarrow> runs X m Post"
  by (auto simp: runs_def split: sum.splits)

lemma runs_weaken: "runs X m Post \<Longrightarrow> X \<subseteq> Y \<Longrightarrow> runs Y m Post"
  by (auto simp: runs_def split: sum.splits)

lemma runs_total: "runs {} m Post \<longleftrightarrow> (\<exists>a. m = Inr a \<and> Post a)"
  by (auto simp: runs_def split: sum.splits)

section \<open>Buffers\<close>

text \<open>A buffer is the list of its bytes; every access outside it is a fault.\<close>

definition read_u8 :: "u8 list \<Rightarrow> nat \<Rightarrow> u8 result" where
  "read_u8 m i = (if i < length m then Inr (m ! i) else Inl Out_Of_Bounds)"

definition read_bytes :: "u8 list \<Rightarrow> nat \<Rightarrow> nat \<Rightarrow> u8 list result" where
  "read_bytes m i n = (if i + n \<le> length m then Inr (take n (drop i m)) else Inl Out_Of_Bounds)"

definition write_bytes :: "u8 list \<Rightarrow> nat \<Rightarrow> u8 list \<Rightarrow> u8 list result" where
  "write_bytes m i bs =
     (if i + length bs \<le> length m then Inr (take i m @ bs @ drop (i + length bs) m)
      else Inl Out_Of_Bounds)"

lemma read_bytes_ok: "i + n \<le> length m \<Longrightarrow> read_bytes m i n = Inr (take n (drop i m))"
  by (simp add: read_bytes_def)

lemma write_bytes_ok:
  "i + length bs \<le> length m \<Longrightarrow> write_bytes m i bs = Inr (take i m @ bs @ drop (i + length bs) m)"
  by (simp add: write_bytes_def)

lemma write_bytes_length: "write_bytes m i bs = Inr m' \<Longrightarrow> length m' = length m"
  by (auto simp: write_bytes_def split: if_splits)

lemma write_bytes_eq_Inr [result_simps]:
  "write_bytes m i bs = Inr m' \<longleftrightarrow>
     i + length bs \<le> length m \<and> m' = take i m @ bs @ drop (i + length bs) m"
  by (auto simp: write_bytes_def)

lemma read_write_same:
  "write_bytes m i bs = Inr m' \<Longrightarrow> read_bytes m' i (length bs) = Inr bs"
  by (auto simp: write_bytes_def read_bytes_def split: if_splits)

lemma nth_write_bytes:
  assumes "write_bytes m i bs = Inr m'" and "j < length m"
  shows "m' ! j = (if i \<le> j \<and> j < i + length bs then bs ! (j - i) else m ! j)"
  using assms by (auto simp: write_bytes_def nth_append min_def split: if_splits)

section \<open>16-bit values in memory\<close>

definition le16 :: "u16 \<Rightarrow> u8 list" where
  "le16 x = [ucast x, ucast (drop_bit 8 x)]"

definition be16 :: "u16 \<Rightarrow> u8 list" where
  "be16 x = [ucast (drop_bit 8 x), ucast x]"

definition mk16 :: "u8 \<Rightarrow> u8 \<Rightarrow> u16" where
  "mk16 hi lo = push_bit 8 (ucast hi) OR ucast lo"

definition read_le16 :: "u8 list \<Rightarrow> nat \<Rightarrow> u16 result" where
  "read_le16 m i =
     rbind (read_u8 m i) (\<lambda>lo. rbind (read_u8 m (Suc i)) (\<lambda>hi. Inr (mk16 hi lo)))"

definition read_be16 :: "u8 list \<Rightarrow> nat \<Rightarrow> u16 result" where
  "read_be16 m i =
     rbind (read_u8 m i) (\<lambda>hi. rbind (read_u8 m (Suc i)) (\<lambda>lo. Inr (mk16 hi lo)))"

text \<open>Bit positions of 8- and 16-bit words, for proofs by enumeration of the bits.\<close>

lemma less_8_cases: "(n::nat) < 8 \<longleftrightarrow> n \<in> {0, 1, 2, 3, 4, 5, 6, 7}"
  by (simp, presburger)

lemma less_16_cases:
  "(n::nat) < 16 \<longleftrightarrow> n \<in> {0, 1, 2, 3, 4, 5, 6, 7, 8, 9, 10, 11, 12, 13, 14, 15}"
  by (simp, presburger)

lemma length_le16 [simp]: "length (le16 x) = 2"
  by (simp add: le16_def)

lemma length_be16 [simp]: "length (be16 x) = 2"
  by (simp add: be16_def)

lemma mk16_split [simp]: "mk16 (ucast (drop_bit 8 x)) (ucast x) = x"
  by (rule bit_word_eqI) (auto simp: mk16_def bit_simps)

lemma mk16_hi [simp]: "ucast (drop_bit 8 (mk16 hi lo)) = hi"
  by (rule bit_word_eqI) (auto simp: mk16_def bit_simps dest: bit_imp_le_length)

lemma mk16_lo [simp]: "ucast (mk16 hi lo) = lo"
  by (rule bit_word_eqI) (auto simp: mk16_def bit_simps)

lemma le16_mk16 [simp]: "le16 (mk16 hi lo) = [lo, hi]"
  by (simp add: le16_def)

lemma read_le16_ok:
  "Suc i < length m \<Longrightarrow> read_le16 m i = Inr (mk16 (m ! Suc i) (m ! i))"
  by (simp add: read_le16_def read_u8_def)

lemma read_le16_eq_Inr [result_simps]:
  "read_le16 m i = Inr x \<longleftrightarrow> Suc i < length m \<and> x = mk16 (m ! Suc i) (m ! i)"
  by (auto simp: read_le16_def read_u8_def)

lemma read_le16_write:
  "write_bytes m i (le16 x) = Inr m' \<Longrightarrow> read_le16 m' i = Inr x"
  by (auto simp: result_simps nth_append le16_def)

section \<open>Reachable states of a transition system\<close>

inductive reach :: "('s \<Rightarrow> bool) \<Rightarrow> ('s \<Rightarrow> 's \<Rightarrow> bool) \<Rightarrow> 's \<Rightarrow> bool"
  for init step where
  reach_init: "init s \<Longrightarrow> reach init step s"
| reach_step: "reach init step s \<Longrightarrow> step s t \<Longrightarrow> reach init step t"

lemma reach_invariant:
  assumes "reach init step s"
    and "\<And>s. init s \<Longrightarrow> Inv s"
    and "\<And>s t. Inv s \<Longrightarrow> step s t \<Longrightarrow> Inv t"
  shows "Inv s"
  using assms(1) by induction (auto intro: assms(2,3))

end
