(* ===== verification/Ios.thy ===== *)
theory Ios
  imports Prelude
begin

text \<open>
  The interface of the module to code that is not in the repository: the IOS system calls
  and small helpers of cios-lib, and the embedded-game-controller (egc) library.  Every
  definition of the model takes this record \<open>E\<close> as an argument and threads the opaque state
  \<open>'os\<close> of that outside world; nothing is assumed about the functions here.  What a property
  needs of them is stated as a named hypothesis (\<open>heap_spec\<close>, \<open>queue_spec\<close>).

  Pointers into memory the module shares with IOS are 32-bit addresses.  A pointer to an egc
  device is an opaque number and a null pointer is \<open>None\<close>.
\<close>

type_synonym ptr = "32 word"
type_synonym egc_ptr = nat

text \<open>The part of \<open>egc_input_device_t\<close> the module reads.\<close>

record egc_device_desc =
  available_buttons :: u32
  num_touch_points :: nat
  num_accelerometers :: nat

record egc_gamepad =
  egc_buttons :: u32
  egc_axes :: "u16 list" \<comment> \<open>signed 16-bit values\<close>
  egc_accelerometer_0 :: "u16 \<times> u16 \<times> u16"
  egc_touch_point_0 :: "u16 \<times> u16"

record egc_input_device =
  egc_desc :: egc_device_desc
  egc_state :: egc_gamepad

text \<open>The names of buttons and axes the module maps; their numbers are egc's.\<close>

datatype egc_button = BUTTON_NORTH | BUTTON_EAST | BUTTON_SOUTH | BUTTON_WEST
  | BUTTON_DPAD_UP | BUTTON_DPAD_DOWN | BUTTON_DPAD_LEFT | BUTTON_DPAD_RIGHT
  | BUTTON_START | BUTTON_BACK | BUTTON_LEFT_STICK | BUTTON_RIGHT_STICK
  | BUTTON_LEFT_SHOULDER | BUTTON_RIGHT_SHOULDER | BUTTON_LEFT_PADDLE1 | BUTTON_RIGHT_PADDLE1

datatype egc_axis = AXIS_LEFTX | AXIS_LEFTY | AXIS_RIGHTX | AXIS_RIGHTY

text \<open>The callbacks \<open>egc_handle_events\<close> makes into the module, in order.\<close>

datatype egc_callback = Device_Added egc_ptr | Device_Removed egc_ptr

record 'os ext =
  \<comment> \<open>return codes and flags\<close>
  IOS_OK :: int
  IOS_ENOMEM :: int
  IOS_IOCTLV :: int
  IOS_MESSAGE_NOBLOCK :: u32
  \<comment> \<open>link-time addresses of static objects\<close>
  injmessages_heap_data :: ptr
  usb_intr_hand_down_msg :: ptr
  usb_bulk_in_hand_down_msg :: ptr
  periodic_timer_cookie :: ptr
  \<comment> \<open>heap: \<open>None\<close> is a null result, otherwise the block and its (arbitrary) contents\<close>
  os_heap_alloc :: "int \<Rightarrow> nat \<Rightarrow> 'os \<Rightarrow> (ptr \<times> u8 list) option \<times> 'os"
  os_heap_free :: "int \<Rightarrow> ptr \<Rightarrow> 'os \<Rightarrow> 'os"
  \<comment> \<open>message queues: return code (and the message received)\<close>
  os_message_queue_receive :: "int \<Rightarrow> u32 \<Rightarrow> 'os \<Rightarrow> int \<times> ptr \<times> 'os"
  os_message_queue_send :: "int \<Rightarrow> ptr \<Rightarrow> u32 \<Rightarrow> 'os \<Rightarrow> int \<times> 'os"
  os_message_queue_ack :: "ptr \<Rightarrow> int \<Rightarrow> 'os \<Rightarrow> int \<times> 'os"
  \<comment> \<open>egc: return codes are passed on or ignored\<close>
  egc_input_device_suspend :: "egc_ptr option \<Rightarrow> 'os \<Rightarrow> int \<times> 'os"
  egc_input_device_resume :: "egc_ptr option \<Rightarrow> 'os \<Rightarrow> int \<times> 'os"
  egc_input_device_set_leds :: "egc_ptr option \<Rightarrow> int \<Rightarrow> 'os \<Rightarrow> int \<times> 'os"
  egc_input_device_set_rumble :: "egc_ptr option \<Rightarrow> int \<Rightarrow> 'os \<Rightarrow> int \<times> 'os"
  egc_handle_events ::
    "'os \<Rightarrow> (egc_ptr \<Rightarrow> egc_input_device) \<times> egc_callback list \<times> 'os"
  EGC_GAMEPAD_BUTTON :: "egc_button \<Rightarrow> nat"
  EGC_GAMEPAD_BUTTON_COUNT :: nat
  EGC_GAMEPAD_AXIS :: "egc_axis \<Rightarrow> nat"
  EGC_GAMEPAD_AXIS_COUNT :: nat
  EGC_GAMEPAD_TOUCH_RES :: int
  EGC_RUMBLE_MAX :: int
  EGC_RUMBLE_OFF :: int
  \<comment> \<open>what an uninitialised automatic object holds, byte by byte\<close>
  uninit :: "'os \<Rightarrow> nat \<Rightarrow> u8"
  \<comment> \<open>start-up: a negative return code is a failure\<close>
  os_heap_create :: "'os \<Rightarrow> int \<times> 'os"
  os_message_queue_create :: "nat \<Rightarrow> 'os \<Rightarrow> int \<times> 'os"
  os_create_timer :: "'os \<Rightarrow> int \<times> 'os"
  egc_initialize :: "'os \<Rightarrow> 'os"
  IOS_EINVAL :: int
  IOS_OPEN_READ :: int
  IOS_OPEN_WRITE :: int
  os_open :: "string \<Rightarrow> int \<Rightarrow> 'os \<Rightarrow> int \<times> 'os"
  os_read :: "int \<Rightarrow> nat \<Rightarrow> 'os \<Rightarrow> int \<times> u8 list \<times> 'os"
  os_write :: "int \<Rightarrow> u8 list \<Rightarrow> 'os \<Rightarrow> int \<times> 'os"
  os_close :: "int \<Rightarrow> 'os \<Rightarrow> 'os"
  \<comment> \<open>helpers of cios-lib's \<open>utils.h\<close>\<close>
  memmismatch :: "u8 list \<Rightarrow> u8 list \<Rightarrow> nat \<Rightarrow> nat"
  reverse_memcpy :: "u8 list \<Rightarrow> nat \<Rightarrow> u8 list"

definition stack_bytes :: "'os ext \<Rightarrow> nat \<Rightarrow> 'os \<Rightarrow> u8 list" where
  "stack_bytes E n os = map (uninit E os) [0..<n]"

lemma length_stack_bytes [simp]: "length (stack_bytes E n os) = n"
  by (simp add: stack_bytes_def)

section \<open>Documented behaviour, as hypotheses\<close>

definition INJMESSAGE_HEAP_SIZE :: nat where
  "INJMESSAGE_HEAP_SIZE = 4 * 1024"

text \<open>
  The heap created over \<open>injmessages_heap_data\<close> returns blocks inside that array, of the
  requested size.  The array does not wrap around the address space.
\<close>

definition heap_spec :: "'os ext \<Rightarrow> bool" where
  "heap_spec E \<longleftrightarrow>
     IOS_ENOMEM E \<noteq> IOS_OK E \<and>
     unat (injmessages_heap_data E) + INJMESSAGE_HEAP_SIZE < 2 ^ 32 \<and>
     (\<forall>h n os p init os'. os_heap_alloc E h n os = (Some (p, init), os') \<longrightarrow>
        length init = n \<and> injmessages_heap_data E \<le> p \<and>
        unat p < unat (injmessages_heap_data E) + INJMESSAGE_HEAP_SIZE)"

text \<open>
  IOS message queues are bounded first-in first-out queues: \<open>contents os q\<close> is what queue
  \<open>q\<close> holds and \<open>cap q\<close> its capacity.  A non-blocking receive fails exactly on an
  empty queue and a non-blocking send exactly on a full one; a failing call changes no
  queue, and neither do acknowledging a message and the heap calls.
\<close>

definition queue_spec :: "'os ext \<Rightarrow> ('os \<Rightarrow> int \<Rightarrow> ptr list) \<Rightarrow> (int \<Rightarrow> nat) \<Rightarrow> bool" where
  "queue_spec E contents cap \<longleftrightarrow>
     (\<forall>q os r m os'. os_message_queue_receive E q (IOS_MESSAGE_NOBLOCK E) os = (r, m, os') \<longrightarrow>
        (case contents os q of
           [] \<Rightarrow> r \<noteq> IOS_OK E \<and> contents os' = contents os
         | x # xs \<Rightarrow> r = IOS_OK E \<and> m = x \<and> contents os' = (contents os)(q := xs))) \<and>
     (\<forall>q m os r os'. os_message_queue_send E q m (IOS_MESSAGE_NOBLOCK E) os = (r, os') \<longrightarrow>
        (if length (contents os q) < cap q
         then r = IOS_OK E \<and> contents os' = (contents os)(q := contents os q @ [m])
         else r \<noteq> IOS_OK E \<and> contents os' = contents os)) \<and>
     (\<forall>m r os. contents (snd (os_message_queue_ack E m r os)) = contents os) \<and>
     (\<forall>h n os. contents (snd (os_heap_alloc E h n os)) = contents os) \<and>
     (\<forall>h p os. contents (os_heap_free E h p os) = contents os)"

lemma heap_specD:
  assumes "heap_spec E"
  shows "IOS_ENOMEM E \<noteq> IOS_OK E"
    and "os_heap_alloc E h n os = (Some (p, init), os') \<Longrightarrow> length init = n"
    and "os_heap_alloc E h n os = (Some (p, init), os') \<Longrightarrow> injmessages_heap_data E \<le> p"
    and "os_heap_alloc E h n os = (Some (p, init), os') \<Longrightarrow>
      p < injmessages_heap_data E + of_nat INJMESSAGE_HEAP_SIZE"
proof -
  show "IOS_ENOMEM E \<noteq> IOS_OK E" using assms by (simp add: heap_spec_def)
  assume a: "os_heap_alloc E h n os = (Some (p, init), os')"
  show "length init = n" "injmessages_heap_data E \<le> p"
    using assms a unfolding heap_spec_def by blast+
  have "unat p < unat (injmessages_heap_data E) + INJMESSAGE_HEAP_SIZE"
    and "unat (injmessages_heap_data E) + INJMESSAGE_HEAP_SIZE < 2 ^ 32"
    using assms a unfolding heap_spec_def by blast+
  then show "p < injmessages_heap_data E + of_nat INJMESSAGE_HEAP_SIZE"
    by (simp add: word_less_nat_alt unat_word_ariths INJMESSAGE_HEAP_SIZE_def)
qed

lemma queue_specD:
  assumes "queue_spec E contents cap"
  shows "os_message_queue_receive E q (IOS_MESSAGE_NOBLOCK E) os = (r, m, os') \<Longrightarrow>
      contents os q = [] \<Longrightarrow> r \<noteq> IOS_OK E \<and> contents os' = contents os"
    and "os_message_queue_receive E q (IOS_MESSAGE_NOBLOCK E) os = (r, m, os') \<Longrightarrow>
      contents os q = x # xs \<Longrightarrow>
      r = IOS_OK E \<and> m = x \<and> contents os' = (contents os)(q := xs)"
    and "os_message_queue_send E q m (IOS_MESSAGE_NOBLOCK E) os = (r, os') \<Longrightarrow>
      length (contents os q) < cap q \<Longrightarrow>
      r = IOS_OK E \<and> contents os' = (contents os)(q := contents os q @ [m])"
    and "os_message_queue_send E q m (IOS_MESSAGE_NOBLOCK E) os = (r, os') \<Longrightarrow>
      \<not> length (contents os q) < cap q \<Longrightarrow> r \<noteq> IOS_OK E \<and> contents os' = contents os"
    and "contents (snd (os_message_queue_ack E m i os)) = contents os"
    and "contents (snd (os_heap_alloc E h n os)) = contents os"
    and "contents (os_heap_free E h p os) = contents os"
  using assms unfolding queue_spec_def by (fastforce split: list.splits if_splits)+

text \<open>The numbers of the named buttons and axes are distinct and below their counts.\<close>

definition egc_spec :: "'os ext \<Rightarrow> bool" where
  "egc_spec E \<longleftrightarrow>
     inj (EGC_GAMEPAD_BUTTON E) \<and> range (EGC_GAMEPAD_BUTTON E) \<subseteq> {..<EGC_GAMEPAD_BUTTON_COUNT E} \<and>
     EGC_GAMEPAD_BUTTON_COUNT E \<le> 32 \<and>
     inj (EGC_GAMEPAD_AXIS E) \<and> range (EGC_GAMEPAD_AXIS E) \<subseteq> {..<EGC_GAMEPAD_AXIS_COUNT E} \<and>
     0 < EGC_GAMEPAD_TOUCH_RES E"

end
