(* ===== verification/Usb_Queues.thy ===== *)
theory Usb_Queues
  imports Ios
begin

text \<open>
  The message plumbing of \<open>source/main.c\<close>.  For each of the two read endpoints of the
  Bluetooth dongle (HCI events and ACL data) there are two IOS queues: PendingQ holds host
  reads that wait for data, ReadyQ holds data that waits for a host read.  Data comes from
  messages the module injects (allocated from its own heap) and from one statically
  allocated hand-down message per endpoint, sent to the OH1 driver to read the real dongle.
\<close>

section \<open>State\<close>

record injmessage =
  inj_size :: u16
  inj_data :: "u8 list"

record ioctlv =
  vec_data :: "u8 list"
  vec_len :: nat

record ipcmessage =
  ipc_command :: int
  ipc_result :: int
  ipc_fd :: int
  ioctlv_command :: u32
  ioctlv_num_in :: nat
  ioctlv_num_io :: nat
  ioctlv_vector :: "ioctlv list"

text \<open>
  \<open>inj_store\<close> and \<open>ipc_store\<close> are the memory behind the message pointers: the injected
  messages alive in the heap, and the IPC messages of the host and of the module.
\<close>

record 'os usb =
  os_state :: 'os
  injmessages_heap_id :: int
  inj_store :: "ptr \<Rightarrow> injmessage option"
  ipc_store :: "ptr \<Rightarrow> ipcmessage option"
  ready_usb_intr_msg_queue_id :: int
  pending_usb_intr_msg_queue_id :: int
  ready_usb_bulk_in_msg_queue_id :: int
  pending_usb_bulk_in_msg_queue_id :: int
  usb_intr_hand_down_msg_pending :: bool
  usb_bulk_in_hand_down_msg_pending :: bool

definition HAND_DOWN_MSG_DATA_SIZE :: nat where
  "HAND_DOWN_MSG_DATA_SIZE = 4096"

section \<open>Operations\<close>

definition is_message_injected :: "'os ext \<Rightarrow> ptr \<Rightarrow> bool" where
  "is_message_injected E msg \<longleftrightarrow>
     injmessages_heap_data E \<le> msg \<and>
     msg < injmessages_heap_data E + of_nat INJMESSAGE_HEAP_SIZE"

definition injmessage_free :: "'os ext \<Rightarrow> ptr \<Rightarrow> 'os usb \<Rightarrow> 'os usb" where
  "injmessage_free E msg u =
     u \<lparr> os_state := os_heap_free E (injmessages_heap_id u) msg (os_state u),
         inj_store := (inj_store u)(msg := None) \<rparr>"

definition get_vec :: "ipcmessage \<Rightarrow> nat \<Rightarrow> ioctlv result" where
  "get_vec m i =
     (if i < length (ioctlv_vector m) then Inr (ioctlv_vector m ! i) else Inl Out_Of_Bounds)"

definition copy_data_to_ipcmessage :: "ipcmessage \<Rightarrow> u8 list \<Rightarrow> u16 \<Rightarrow> ipcmessage result" where
  "copy_data_to_ipcmessage dst src len =
     rbind (get_vec dst 2) (\<lambda>v.
     rbind (read_bytes src 0 (unat len)) (\<lambda>bs.
     rbind (write_bytes (vec_data v) 0 bs) (\<lambda>d.
       Inr (dst \<lparr> ioctlv_vector := (ioctlv_vector dst)[2 := v \<lparr> vec_data := d \<rparr>] \<rparr>))))"

definition configure_hand_down_msg ::
  "ptr \<Rightarrow> int \<Rightarrow> u16 \<Rightarrow> 'os usb \<Rightarrow> 'os usb result" where
  "configure_hand_down_msg msg fd wLength u =
     rbind (c_assert (unat wLength \<le> HAND_DOWN_MSG_DATA_SIZE)) (\<lambda>_.
     rbind (deref (ipc_store u msg)) (\<lambda>m.
     rbind (get_vec m 1) (\<lambda>v1.
     rbind (write_bytes (vec_data v1) 0 (be16 wLength)) (\<lambda>d1.
     rbind (get_vec m 2) (\<lambda>v2.
       Inr (u \<lparr> ipc_store := (ipc_store u)(msg \<mapsto>
         m \<lparr> ioctlv_vector := (ioctlv_vector m)
               [1 := v1 \<lparr> vec_data := d1 \<rparr>, 2 := v2 \<lparr> vec_len := unat wLength \<rparr>],
             ipc_fd := fd \<rparr>) \<rparr>))))))"

definition ack_message :: "'os ext \<Rightarrow> ptr \<Rightarrow> int \<Rightarrow> 'os usb \<Rightarrow> int \<times> 'os usb" where
  "ack_message E msg retval u =
     (let (r, os') = os_message_queue_ack E msg retval (os_state u)
      in (r, u \<lparr> os_state := os' \<rparr>))"

definition queue_receive :: "'os ext \<Rightarrow> int \<Rightarrow> 'os usb \<Rightarrow> int \<times> ptr \<times> 'os usb" where
  "queue_receive E q u =
     (let (r, m, os') = os_message_queue_receive E q (IOS_MESSAGE_NOBLOCK E) (os_state u)
      in (r, m, u \<lparr> os_state := os' \<rparr>))"

definition queue_send :: "'os ext \<Rightarrow> int \<Rightarrow> ptr \<Rightarrow> 'os usb \<Rightarrow> int \<times> 'os usb" where
  "queue_send E q m u =
     (let (r, os') = os_message_queue_send E q m (IOS_MESSAGE_NOBLOCK E) (os_state u)
      in (r, u \<lparr> os_state := os' \<rparr>))"

definition copy_and_ack_ipcmessage ::
  "'os ext \<Rightarrow> ptr \<Rightarrow> ptr \<Rightarrow> 'os usb \<Rightarrow> (int \<times> 'os usb) result" where
  "copy_and_ack_ipcmessage E pend_msg ready_msg u =
     (if is_message_injected E ready_msg then
        rbind (deref (inj_store u ready_msg)) (\<lambda>inj.
        rbind (deref (ipc_store u pend_msg)) (\<lambda>pm.
        rbind (copy_data_to_ipcmessage pm (inj_data inj) (inj_size inj)) (\<lambda>pm'.
          let u1 = u \<lparr> ipc_store := (ipc_store u)(pend_msg \<mapsto> pm') \<rparr>;
              u2 = injmessage_free E ready_msg u1
          in Inr (ack_message E pend_msg (uint (inj_size inj)) u2))))
      else
        rbind (deref (ipc_store u ready_msg)) (\<lambda>rm.
        rbind (get_vec rm 2) (\<lambda>rv.
        let retval = ipc_result rm in
        if retval > 0 then
          rbind (deref (ipc_store u pend_msg)) (\<lambda>pm.
          rbind (copy_data_to_ipcmessage pm (vec_data rv) (word_of_int retval)) (\<lambda>pm'.
            Inr (ack_message E pend_msg retval
                   (u \<lparr> ipc_store := (ipc_store u)(pend_msg \<mapsto> pm') \<rparr>))))
        else Inr (ack_message E pend_msg retval u))))"

text \<open>
  A host read arrives.  Besides the return value the function sets the message to hand down
  (\<open>*ret_msg\<close>, null unless set), the flag of the outstanding hand-down message and whether
  the caller is to forward to OH1 (\<open>*fwd_to_usb\<close>).
\<close>

definition handle_bulk_intr_pending_message ::
  "'os ext \<Rightarrow> ptr \<Rightarrow> u16 \<Rightarrow> int \<Rightarrow> int \<Rightarrow> ptr \<Rightarrow> bool \<Rightarrow> bool \<Rightarrow> 'os usb \<Rightarrow>
   (int \<times> ptr option \<times> bool \<times> bool \<times> 'os usb) result" where
  "handle_bulk_intr_pending_message E pend_msg wLength ready_queue_id pending_queue_id
       hand_down_msg hand_down_msg_pending fwd_to_usb u =
     (let (ret, ready_msg, u1) = queue_receive E ready_queue_id u in
      if ret = IOS_OK E then
        rbind (copy_and_ack_ipcmessage E pend_msg ready_msg u1) (\<lambda>(ret, u2).
          Inr (ret, None, hand_down_msg_pending, False, u2))
      else
        (let (ret, u2) = queue_send E pending_queue_id pend_msg u1 in
         if ret = IOS_OK E \<and> \<not> hand_down_msg_pending then
           rbind (deref (ipc_store u2 pend_msg)) (\<lambda>pm.
           rbind (configure_hand_down_msg hand_down_msg (ipc_fd pm) wLength u2) (\<lambda>u3.
             Inr (ret, Some hand_down_msg, True, fwd_to_usb, u3)))
         else Inr (ret, None, hand_down_msg_pending, False, u2)))"

text \<open>Data arrives: from an injected message or from a completed hand-down message.\<close>

definition handle_bulk_intr_ready_message ::
  "'os ext \<Rightarrow> ptr \<Rightarrow> int \<Rightarrow> int \<Rightarrow> 'os usb \<Rightarrow> (int \<times> 'os usb) result" where
  "handle_bulk_intr_ready_message E ready_msg pending_queue_id ready_queue_id u =
     (let (ret, pend_msg, u1) = queue_receive E pending_queue_id u in
      if ret = IOS_OK E then copy_and_ack_ipcmessage E pend_msg ready_msg u1
      else Inr (queue_send E ready_queue_id ready_msg u1))"

definition inject_msg_to_usb_intr_ready_queue ::
  "'os ext \<Rightarrow> ptr \<Rightarrow> 'os usb \<Rightarrow> (int \<times> 'os usb) result" where
  "inject_msg_to_usb_intr_ready_queue E msg u =
     handle_bulk_intr_ready_message E msg (pending_usb_intr_msg_queue_id u)
       (ready_usb_intr_msg_queue_id u) u"

definition inject_msg_to_usb_bulk_in_ready_queue ::
  "'os ext \<Rightarrow> ptr \<Rightarrow> 'os usb \<Rightarrow> (int \<times> 'os usb) result" where
  "inject_msg_to_usb_bulk_in_ready_queue E msg u =
     handle_bulk_intr_ready_message E msg (pending_usb_bulk_in_msg_queue_id u)
       (ready_usb_bulk_in_msg_queue_id u) u"

section \<open>What the operations do to the queues\<close>

lemma ack_message_frame [simp]:
  "inj_store (snd (ack_message E m r u)) = inj_store u"
  "ipc_store (snd (ack_message E m r u)) = ipc_store u"
  by (simp_all add: ack_message_def split: prod.splits)

lemma queue_send_frame:
  "queue_send E q m u = (r, u') \<Longrightarrow> u' = u \<lparr> os_state := os_state u' \<rparr>"
  by (auto simp: queue_send_def split: prod.splits)

lemma queue_receive_frame:
  "queue_receive E q u = (r, m, u') \<Longrightarrow> u' = u \<lparr> os_state := os_state u' \<rparr>"
  by (auto simp: queue_receive_def split: prod.splits)

lemma ack_message_contents:
  "queue_spec E contents cap \<Longrightarrow>
     contents (os_state (snd (ack_message E m r u))) = contents (os_state u)"
  using queue_specD(5) [of E contents cap m r "os_state u"]
  by (auto simp: ack_message_def split: prod.splits)

lemma queue_receive_empty:
  assumes "queue_spec E contents cap" and "contents (os_state u) q = []"
    and "queue_receive E q u = (r, m, u')"
  shows "r \<noteq> IOS_OK E" and "contents (os_state u') = contents (os_state u)"
  using assms queue_specD(1) [OF assms(1), of q "os_state u" r m "os_state u'"]
  by (auto simp: queue_receive_def split: prod.splits)

lemma queue_receive_Cons:
  assumes "queue_spec E contents cap" and "contents (os_state u) q = x # xs"
    and "queue_receive E q u = (r, m, u')"
  shows "r = IOS_OK E" and "m = x"
    and "contents (os_state u') = (contents (os_state u))(q := xs)"
  using assms queue_specD(2) [OF assms(1), of q "os_state u" r m "os_state u'" x xs]
  by (auto simp: queue_receive_def split: prod.splits)

lemma queue_send_room:
  assumes "queue_spec E contents cap" and "length (contents (os_state u) q) < cap q"
    and "queue_send E q m u = (r, u')"
  shows "r = IOS_OK E"
    and "contents (os_state u') = (contents (os_state u))(q := contents (os_state u) q @ [m])"
  using assms queue_specD(3) [OF assms(1), of q m "os_state u" r "os_state u'"]
  by (auto simp: queue_send_def split: prod.splits)

lemma queue_send_full:
  assumes "queue_spec E contents cap" and "\<not> length (contents (os_state u) q) < cap q"
    and "queue_send E q m u = (r, u')"
  shows "r \<noteq> IOS_OK E" and "contents (os_state u') = contents (os_state u)"
  using assms queue_specD(4) [OF assms(1), of q m "os_state u" r "os_state u'"]
  by (auto simp: queue_send_def split: prod.splits)

lemma copy_and_ack_contents:
  assumes spec: "queue_spec E contents cap"
    and "copy_and_ack_ipcmessage E p r u = Inr (ret, u')"
  shows "contents (os_state u') = contents (os_state u)"
  using assms(2) ack_message_contents [OF spec]
  by (auto simp: copy_and_ack_ipcmessage_def result_simps Let_def injmessage_free_def
      queue_specD(7) [OF spec] split: if_splits dest!: arg_cong [where f = snd])

lemma configure_hand_down_msg_frame:
  "configure_hand_down_msg h fd n u = Inr u' \<Longrightarrow>
     os_state u' = os_state u \<and> inj_store u' = inj_store u \<and>
     (\<forall>p. p \<noteq> h \<longrightarrow> ipc_store u' p = ipc_store u p)"
  by (auto simp: configure_hand_down_msg_def result_simps)

section \<open>The channel invariant\<close>

text \<open>
  Data and host reads never wait at the same time, and the single static hand-down buffer is
  in the ReadyQ at most once and never while OH1 still owns it.
\<close>

definition channel_inv :: "ptr \<Rightarrow> ptr list \<Rightarrow> ptr list \<Rightarrow> bool \<Rightarrow> bool" where
  "channel_inv hand_down ready pending flag \<longleftrightarrow>
     (ready = [] \<or> pending = []) \<and>
     count_list ready hand_down \<le> 1 \<and>
     (flag \<longrightarrow> hand_down \<notin> set ready)"

lemma channel_inv_receive:
  "channel_inv h (x # xs) ps flag \<Longrightarrow> channel_inv h xs ps flag"
  by (auto simp: channel_inv_def split: if_splits)

lemma ready_message_queues:
  assumes spec: "queue_spec E contents cap"
    and run: "handle_bulk_intr_ready_message E m pq rq u = Inr (ret, u')"
  shows "case contents (os_state u) pq of
      p # ps \<Rightarrow> contents (os_state u') = (contents (os_state u))(pq := ps)
    | [] \<Rightarrow> contents (os_state u') =
        (if length (contents (os_state u) rq) < cap rq
         then (contents (os_state u))(rq := contents (os_state u) rq @ [m])
         else contents (os_state u))"
proof -
  obtain r p u1 where rcv: "queue_receive E pq u = (r, p, u1)"
    by (metis prod_cases3)
  show ?thesis
  proof (cases "contents (os_state u) pq")
    case Nil
    note e = queue_receive_empty [OF spec Nil rcv]
    obtain r' u2 where snd: "queue_send E rq m u1 = (r', u2)" by fastforce
    with run rcv e(1) have "u' = u2"
      by (simp add: handle_bulk_intr_ready_message_def)
    with Nil e(2) queue_send_room [OF spec _ snd] queue_send_full [OF spec _ snd]
    show ?thesis by auto
  next
    case (Cons x xs)
    note c = queue_receive_Cons [OF spec Cons rcv]
    with run rcv have "copy_and_ack_ipcmessage E p m u1 = Inr (ret, u')"
      by (simp add: handle_bulk_intr_ready_message_def)
    from copy_and_ack_contents [OF spec this] c(3) Cons show ?thesis by simp
  qed
qed

lemma pending_message_queues:
  assumes spec: "queue_spec E contents cap"
    and run: "handle_bulk_intr_pending_message E p n rq pq h flag fwd u = Inr (ret, rm, flag', fwd', u')"
  shows "case contents (os_state u) rq of
      x # xs \<Rightarrow> contents (os_state u') = (contents (os_state u))(rq := xs) \<and>
        flag' = flag \<and> rm = None \<and> \<not> fwd'
    | [] \<Rightarrow> (if length (contents (os_state u) pq) < cap pq
         then contents (os_state u') =
             (contents (os_state u))(pq := contents (os_state u) pq @ [p]) \<and> flag' \<and>
           (if flag then rm = None \<and> \<not> fwd' else rm = Some h \<and> fwd' = fwd)
         else contents (os_state u') = contents (os_state u) \<and> flag' = flag \<and>
           rm = None \<and> \<not> fwd')"
proof -
  obtain r m u1 where rcv: "queue_receive E rq u = (r, m, u1)"
    by (metis prod_cases3)
  show ?thesis
  proof (cases "contents (os_state u) rq")
    case Nil
    note e = queue_receive_empty [OF spec Nil rcv]
    obtain r' u2 where snd: "queue_send E pq p u1 = (r', u2)" by fastforce
    with run rcv e have "contents (os_state u') = contents (os_state u2)"
      "if r' = IOS_OK E \<and> \<not> flag then flag' \<and> rm = Some h \<and> fwd' = fwd
       else flag' = flag \<and> rm = None \<and> \<not> fwd'"
      by (auto simp: handle_bulk_intr_pending_message_def result_simps
          dest!: configure_hand_down_msg_frame split: if_splits)
    with Nil e(2) queue_send_room [OF spec _ snd] queue_send_full [OF spec _ snd]
    show ?thesis by auto
  next
    case (Cons x xs)
    note c = queue_receive_Cons [OF spec Cons rcv]
    with run rcv obtain ret' where "copy_and_ack_ipcmessage E p m u1 = Inr (ret', u')"
      "flag' = flag" "rm = None" "\<not> fwd'"
      by (auto simp: handle_bulk_intr_pending_message_def result_simps)
    with copy_and_ack_contents [OF spec this(1)] c(3) Cons show ?thesis by simp
  qed
qed

end
