(* ===== verification/Usb_Channel.thy ===== *)
theory Usb_Channel
  imports Usb_Queues
begin

text \<open>
  The behaviour of one read endpoint over time: the steps that can reach its two queues, the
  invariant that holds in every reachable state, and what a host read receives.
\<close>

section \<open>The transition system of a channel\<close>

text \<open>
  The state is the number of hand-down messages the dongle driver holds, the module's own flag
  of the outstanding hand-down message and the plumbing state.  A host read runs the
  pending-side handler, and when that hands its message down the driver holds one more; an
  injection runs the ready-side handler on a message of the module's heap; a reply is possible
  exactly when the driver holds a message, whatever the flag says, takes it from the driver,
  clears the flag, stores the result and runs the ready-side handler on the hand-down message;
  anything else leaves the two queues alone.
\<close>

inductive channel_step ::
  "'os ext \<Rightarrow> ('os \<Rightarrow> int \<Rightarrow> ptr list) \<Rightarrow> int \<Rightarrow> int \<Rightarrow> ptr \<Rightarrow>
   nat \<times> bool \<times> 'os usb \<Rightarrow> nat \<times> bool \<times> 'os usb \<Rightarrow> bool"
  for E contents rq pq h where
  host_read:
    "handle_bulk_intr_pending_message E p n rq pq h flag True u = Inr (ret, rm, flag', fwd, u') \<Longrightarrow>
     held' = (if rm = Some h \<and> fwd then Suc held else held) \<Longrightarrow>
     channel_step E contents rq pq h (held, flag, u) (held', flag', u')"
| injection:
    "is_message_injected E m \<Longrightarrow>
     handle_bulk_intr_ready_message E m pq rq u = Inr (ret, u') \<Longrightarrow>
     channel_step E contents rq pq h (held, flag, u) (held, flag, u')"
| oh1_reply:
    "ipc_store u h = Some hm \<Longrightarrow>
     u1 = u \<lparr> ipc_store := (ipc_store u)(h \<mapsto> hm \<lparr> ipc_result := retval \<rparr>) \<rparr> \<Longrightarrow>
     handle_bulk_intr_ready_message E h pq rq u1 = Inr (ret, u') \<Longrightarrow>
     channel_step E contents rq pq h (Suc held, flag, u) (held, False, u')"
| elsewhere:
    "contents (os_state u') rq = contents (os_state u) rq \<Longrightarrow>
     contents (os_state u') pq = contents (os_state u) pq \<Longrightarrow>
     channel_step E contents rq pq h (held, flag, u) (held, flag, u')"

definition channel_init ::
  "('os \<Rightarrow> int \<Rightarrow> ptr list) \<Rightarrow> int \<Rightarrow> int \<Rightarrow> nat \<times> bool \<times> 'os usb \<Rightarrow> bool" where
  "channel_init contents rq pq = (\<lambda>(held, flag, u).
     held = 0 \<and> \<not> flag \<and> contents (os_state u) rq = [] \<and> contents (os_state u) pq = [])"

definition channel_state_inv ::
  "('os \<Rightarrow> int \<Rightarrow> ptr list) \<Rightarrow> int \<Rightarrow> int \<Rightarrow> ptr \<Rightarrow> nat \<times> bool \<times> 'os usb \<Rightarrow> bool" where
  "channel_state_inv contents rq pq h = (\<lambda>(held, flag, u).
     held = of_bool flag \<and> channel_inv h (contents (os_state u) rq) (contents (os_state u) pq) flag)"

lemma channel_inv_ready_message:
  assumes spec: "queue_spec E contents cap" and ne: "rq \<noteq> pq"
    and inv: "channel_inv h (contents (os_state u) rq) (contents (os_state u) pq) flag"
    and run: "handle_bulk_intr_ready_message E m pq rq u = Inr (ret, u')"
    and m: "m = h \<Longrightarrow> flag \<and> \<not> flag'" and m': "m \<noteq> h \<Longrightarrow> flag' = flag"
  shows "channel_inv h (contents (os_state u') rq) (contents (os_state u') pq) flag'"
  using ready_message_queues [OF spec run] inv m m' ne
  by (cases "m = h")
     (auto simp: channel_inv_def count_list_0_iff split: list.splits if_splits)

lemma channel_inv_pending_message:
  assumes spec: "queue_spec E contents cap" and ne: "rq \<noteq> pq"
    and inv: "channel_inv h (contents (os_state u) rq) (contents (os_state u) pq) flag"
    and run: "handle_bulk_intr_pending_message E p n rq pq h flag fwd u =
      Inr (ret, rm, flag', fwd', u')"
  shows "channel_inv h (contents (os_state u') rq) (contents (os_state u') pq) flag'"
  using pending_message_queues [OF spec run] inv ne
  by (auto simp: channel_inv_def split: list.splits if_splits)

text \<open>The handler sets its flag exactly when it hands its message down.\<close>

lemma pending_message_hands_down:
  assumes "handle_bulk_intr_pending_message E p n rq pq h flag True u = Inr (ret, rm, flag', fwd, u')"
  shows "rm = Some h \<and> fwd \<longleftrightarrow> flag' \<and> \<not> flag" and "flag \<longrightarrow> flag'"
  using assms
  by (auto simp: handle_bulk_intr_pending_message_def Let_def result_simps
      split: prod.splits if_splits)

lemma channel_step_inv:
  assumes spec: "queue_spec E contents cap" and ne: "rq \<noteq> pq"
    and h: "\<not> is_message_injected E h"
    and inv: "channel_state_inv contents rq pq h s"
    and step: "channel_step E contents rq pq h s t"
  shows "channel_state_inv contents rq pq h t"
  using step inv
proof cases
  case (host_read p n flag u ret rm flag' fwd u' held' held)
  then show ?thesis
    using inv channel_inv_pending_message [OF spec ne _ host_read(3)]
      pending_message_hands_down [OF host_read(3)]
    by (auto simp: channel_state_inv_def)
next
  case (injection m u ret u' held flag)
  then show ?thesis using inv h
      channel_inv_ready_message [OF spec ne, of h u flag m ret u' flag]
    by (auto simp: channel_state_inv_def)
next
  case (oh1_reply u hm u1 retval ret u' held flag)
  then show ?thesis using inv
      channel_inv_ready_message [OF spec ne, of h u1 True h ret u' False]
    by (cases flag) (simp_all add: channel_state_inv_def)
next
  case (elsewhere u' u held flag)
  then show ?thesis using inv by (simp add: channel_state_inv_def)
qed

end
