(* ===== verification/Hci_Defs.thy ===== *)
theory Hci_Defs
  imports Prelude
begin

text \<open>
  The part of \<open>include/hci.h\<close> the module uses: command opcodes, event codes and
  parameters, and the byte layout (all structs are packed) of the parameter blocks that
  the handlers read or patch: \<open>sizeof_T\<close> is the size of struct \<open>T\<close> and
  \<open>T_f\<close> the offset of its field \<open>f\<close>.
\<close>

section \<open>Opcodes, events and parameters\<close>

definition HCI_KEY_SIZE :: nat where
  "HCI_KEY_SIZE = 16"

definition HCI_CLASS_SIZE :: nat where
  "HCI_CLASS_SIZE = 3"

definition HCI_FEATURES_SIZE :: nat where
  "HCI_FEATURES_SIZE = 8"

definition HCI_UNIT_NAME_SIZE :: nat where
  "HCI_UNIT_NAME_SIZE = 248"

definition HCI_LINK_ACL :: u8 where
  "HCI_LINK_ACL = 0x01"

definition HCI_PAGE_SCAN_ENABLE :: u8 where
  "HCI_PAGE_SCAN_ENABLE = 0x02"

definition HCI_ROLE_MASTER :: u8 where
  "HCI_ROLE_MASTER = 0x00"

definition HCI_ENCRYPTION_MODE_NONE :: u8 where
  "HCI_ENCRYPTION_MODE_NONE = 0x00"

definition HCI_PACKET_START :: u16 where
  "HCI_PACKET_START = 0x2"

definition HCI_POINT2POINT :: u16 where
  "HCI_POINT2POINT = 0x0"

definition HCI_CMD_CREATE_CON :: u16 where
  "HCI_CMD_CREATE_CON = 0x0405"

definition HCI_CMD_DISCONNECT :: u16 where
  "HCI_CMD_DISCONNECT = 0x0406"

definition HCI_CMD_ADD_SCO_CON :: u16 where
  "HCI_CMD_ADD_SCO_CON = 0x0407"

definition HCI_CMD_ACCEPT_CON :: u16 where
  "HCI_CMD_ACCEPT_CON = 0x0409"

definition HCI_CMD_REJECT_CON :: u16 where
  "HCI_CMD_REJECT_CON = 0x040A"

definition HCI_CMD_CHANGE_CON_PACKET_TYPE :: u16 where
  "HCI_CMD_CHANGE_CON_PACKET_TYPE = 0x040F"

definition HCI_CMD_AUTH_REQ :: u16 where
  "HCI_CMD_AUTH_REQ = 0x0411"

definition HCI_CMD_SET_CON_ENCRYPTION :: u16 where
  "HCI_CMD_SET_CON_ENCRYPTION = 0x0413"

definition HCI_CMD_CHANGE_CON_LINK_KEY :: u16 where
  "HCI_CMD_CHANGE_CON_LINK_KEY = 0x0415"

definition HCI_CMD_REMOTE_NAME_REQ :: u16 where
  "HCI_CMD_REMOTE_NAME_REQ = 0x0419"

definition HCI_CMD_READ_REMOTE_FEATURES :: u16 where
  "HCI_CMD_READ_REMOTE_FEATURES = 0x041B"

definition HCI_CMD_READ_REMOTE_EXTENDED_FEATURES :: u16 where
  "HCI_CMD_READ_REMOTE_EXTENDED_FEATURES = 0x041C"

definition HCI_CMD_READ_REMOTE_VER_INFO :: u16 where
  "HCI_CMD_READ_REMOTE_VER_INFO = 0x041D"

definition HCI_CMD_READ_CLOCK_OFFSET :: u16 where
  "HCI_CMD_READ_CLOCK_OFFSET = 0x041F"

definition HCI_CMD_READ_LMP_HANDLE :: u16 where
  "HCI_CMD_READ_LMP_HANDLE = 0x0420"

definition HCI_CMD_SETUP_SCO_CON :: u16 where
  "HCI_CMD_SETUP_SCO_CON = 0x0428"

definition HCI_CMD_HOLD_MODE :: u16 where
  "HCI_CMD_HOLD_MODE = 0x0801"

definition HCI_CMD_SNIFF_MODE :: u16 where
  "HCI_CMD_SNIFF_MODE = 0x0803"

definition HCI_CMD_EXIT_SNIFF_MODE :: u16 where
  "HCI_CMD_EXIT_SNIFF_MODE = 0x0804"

definition HCI_CMD_PARK_MODE :: u16 where
  "HCI_CMD_PARK_MODE = 0x0805"

definition HCI_CMD_EXIT_PARK_MODE :: u16 where
  "HCI_CMD_EXIT_PARK_MODE = 0x0806"

definition HCI_CMD_QOS_SETUP :: u16 where
  "HCI_CMD_QOS_SETUP = 0x0807"

definition HCI_CMD_ROLE_DISCOVERY :: u16 where
  "HCI_CMD_ROLE_DISCOVERY = 0x0809"

definition HCI_CMD_READ_LINK_POLICY_SETTINGS :: u16 where
  "HCI_CMD_READ_LINK_POLICY_SETTINGS = 0x080C"

definition HCI_CMD_WRITE_LINK_POLICY_SETTINGS :: u16 where
  "HCI_CMD_WRITE_LINK_POLICY_SETTINGS = 0x080D"

definition HCI_CMD_FLOW_SPECIFICATION :: u16 where
  "HCI_CMD_FLOW_SPECIFICATION = 0x0810"

definition HCI_CMD_SNIFF_SUBRATING :: u16 where
  "HCI_CMD_SNIFF_SUBRATING = 0x0811"

definition HCI_CMD_RESET :: u16 where
  "HCI_CMD_RESET = 0x0C03"

definition HCI_CMD_FLUSH :: u16 where
  "HCI_CMD_FLUSH = 0x0C08"

definition HCI_CMD_READ_STORED_LINK_KEY :: u16 where
  "HCI_CMD_READ_STORED_LINK_KEY = 0x0C0D"

definition HCI_CMD_WRITE_SCAN_ENABLE :: u16 where
  "HCI_CMD_WRITE_SCAN_ENABLE = 0x0C1A"

definition HCI_CMD_WRITE_UNIT_CLASS :: u16 where
  "HCI_CMD_WRITE_UNIT_CLASS = 0x0C24"

definition HCI_CMD_READ_AUTO_FLUSH_TIMEOUT :: u16 where
  "HCI_CMD_READ_AUTO_FLUSH_TIMEOUT = 0x0C27"

definition HCI_CMD_WRITE_AUTO_FLUSH_TIMEOUT :: u16 where
  "HCI_CMD_WRITE_AUTO_FLUSH_TIMEOUT = 0x0C28"

definition HCI_CMD_READ_XMIT_LEVEL :: u16 where
  "HCI_CMD_READ_XMIT_LEVEL = 0x0C2D"

definition HCI_CMD_HOST_NUM_COMPL_PKTS :: u16 where
  "HCI_CMD_HOST_NUM_COMPL_PKTS = 0x0C35"

definition HCI_CMD_READ_LINK_SUPERVISION_TIMEOUT :: u16 where
  "HCI_CMD_READ_LINK_SUPERVISION_TIMEOUT = 0x0C36"

definition HCI_CMD_WRITE_LINK_SUPERVISION_TIMEOUT :: u16 where
  "HCI_CMD_WRITE_LINK_SUPERVISION_TIMEOUT = 0x0C37"

definition HCI_CMD_REFRESH_ENCRYPTION_KEY :: u16 where
  "HCI_CMD_REFRESH_ENCRYPTION_KEY = 0x0C53"

definition HCI_CMD_ENHANCED_FLUSH :: u16 where
  "HCI_CMD_ENHANCED_FLUSH = 0x0C5F"

definition HCI_CMD_READ_FAILED_CONTACT_CNTR :: u16 where
  "HCI_CMD_READ_FAILED_CONTACT_CNTR = 0x1401"

definition HCI_CMD_RESET_FAILED_CONTACT_CNTR :: u16 where
  "HCI_CMD_RESET_FAILED_CONTACT_CNTR = 0x1402"

definition HCI_CMD_READ_LINK_QUALITY :: u16 where
  "HCI_CMD_READ_LINK_QUALITY = 0x1403"

definition HCI_CMD_READ_RSSI :: u16 where
  "HCI_CMD_READ_RSSI = 0x1405"

definition HCI_CMD_READ_AFH_CHANNEL_MAP :: u16 where
  "HCI_CMD_READ_AFH_CHANNEL_MAP = 0x1406"

definition HCI_CMD_READ_CLOCK :: u16 where
  "HCI_CMD_READ_CLOCK = 0x1407"

definition HCI_EVENT_CON_COMPL :: u8 where
  "HCI_EVENT_CON_COMPL = 0x03"

definition HCI_EVENT_CON_REQ :: u8 where
  "HCI_EVENT_CON_REQ = 0x04"

definition HCI_EVENT_DISCON_COMPL :: u8 where
  "HCI_EVENT_DISCON_COMPL = 0x05"

definition HCI_EVENT_AUTH_COMPL :: u8 where
  "HCI_EVENT_AUTH_COMPL = 0x06"

definition HCI_EVENT_REMOTE_NAME_REQ_COMPL :: u8 where
  "HCI_EVENT_REMOTE_NAME_REQ_COMPL = 0x07"

definition HCI_EVENT_ENCRYPTION_CHANGE :: u8 where
  "HCI_EVENT_ENCRYPTION_CHANGE = 0x08"

definition HCI_EVENT_CHANGE_CON_LINK_KEY_COMPL :: u8 where
  "HCI_EVENT_CHANGE_CON_LINK_KEY_COMPL = 0x09"

definition HCI_EVENT_MASTER_LINK_KEY_COMPL :: u8 where
  "HCI_EVENT_MASTER_LINK_KEY_COMPL = 0x0a"

definition HCI_EVENT_READ_REMOTE_FEATURES_COMPL :: u8 where
  "HCI_EVENT_READ_REMOTE_FEATURES_COMPL = 0x0b"

definition HCI_EVENT_READ_REMOTE_VER_INFO_COMPL :: u8 where
  "HCI_EVENT_READ_REMOTE_VER_INFO_COMPL = 0x0c"

definition HCI_EVENT_QOS_SETUP_COMPL :: u8 where
  "HCI_EVENT_QOS_SETUP_COMPL = 0x0d"

definition HCI_EVENT_COMMAND_COMPL :: u8 where
  "HCI_EVENT_COMMAND_COMPL = 0x0e"

definition HCI_EVENT_COMMAND_STATUS :: u8 where
  "HCI_EVENT_COMMAND_STATUS = 0x0f"

definition HCI_EVENT_FLUSH_OCCUR :: u8 where
  "HCI_EVENT_FLUSH_OCCUR = 0x11"

definition HCI_EVENT_ROLE_CHANGE :: u8 where
  "HCI_EVENT_ROLE_CHANGE = 0x12"

definition HCI_EVENT_NUM_COMPL_PKTS :: u8 where
  "HCI_EVENT_NUM_COMPL_PKTS = 0x13"

definition HCI_EVENT_MODE_CHANGE :: u8 where
  "HCI_EVENT_MODE_CHANGE = 0x14"

definition HCI_EVENT_RETURN_LINK_KEYS :: u8 where
  "HCI_EVENT_RETURN_LINK_KEYS = 0x15"

definition HCI_EVENT_MAX_SLOT_CHANGE :: u8 where
  "HCI_EVENT_MAX_SLOT_CHANGE = 0x1b"

definition HCI_EVENT_READ_CLOCK_OFFSET_COMPL :: u8 where
  "HCI_EVENT_READ_CLOCK_OFFSET_COMPL = 0x1c"

definition HCI_EVENT_CON_PKT_TYPE_CHANGED :: u8 where
  "HCI_EVENT_CON_PKT_TYPE_CHANGED = 0x1d"

definition HCI_EVENT_QOS_VIOLATION :: u8 where
  "HCI_EVENT_QOS_VIOLATION = 0x1e"

definition HCI_EVENT_FLOW_SPECIFICATION_COMPL :: u8 where
  "HCI_EVENT_FLOW_SPECIFICATION_COMPL = 0x21"

definition HCI_EVENT_READ_REMOTE_EXTENDED_FEATURES :: u8 where
  "HCI_EVENT_READ_REMOTE_EXTENDED_FEATURES = 0x23"

definition HCI_EVENT_SCO_CON_COMPL :: u8 where
  "HCI_EVENT_SCO_CON_COMPL = 0x2c"

definition HCI_EVENT_SCO_CON_CHANGED :: u8 where
  "HCI_EVENT_SCO_CON_CHANGED = 0x2d"

definition HCI_EVENT_SNIFF_SUBRATING :: u8 where
  "HCI_EVENT_SNIFF_SUBRATING = 0x2e"

definition HCI_EVENT_ENCRYPTION_KEY_REFRESH :: u8 where
  "HCI_EVENT_ENCRYPTION_KEY_REFRESH = 0x30"

definition HCI_EVENT_LINK_SUPERVISION_TO_CHANGED :: u8 where
  "HCI_EVENT_LINK_SUPERVISION_TO_CHANGED = 0x38"

definition HCI_EVENT_ENHANCED_FLUSH_COMPL :: u8 where
  "HCI_EVENT_ENHANCED_FLUSH_COMPL = 0x39"

lemmas hci_consts [c_consts] =
  HCI_KEY_SIZE_def HCI_CLASS_SIZE_def HCI_FEATURES_SIZE_def HCI_UNIT_NAME_SIZE_def HCI_LINK_ACL_def HCI_PAGE_SCAN_ENABLE_def HCI_ROLE_MASTER_def HCI_ENCRYPTION_MODE_NONE_def HCI_PACKET_START_def HCI_POINT2POINT_def HCI_CMD_CREATE_CON_def HCI_CMD_DISCONNECT_def HCI_CMD_ADD_SCO_CON_def HCI_CMD_ACCEPT_CON_def HCI_CMD_REJECT_CON_def HCI_CMD_CHANGE_CON_PACKET_TYPE_def HCI_CMD_AUTH_REQ_def HCI_CMD_SET_CON_ENCRYPTION_def HCI_CMD_CHANGE_CON_LINK_KEY_def HCI_CMD_REMOTE_NAME_REQ_def HCI_CMD_READ_REMOTE_FEATURES_def HCI_CMD_READ_REMOTE_EXTENDED_FEATURES_def HCI_CMD_READ_REMOTE_VER_INFO_def HCI_CMD_READ_CLOCK_OFFSET_def HCI_CMD_READ_LMP_HANDLE_def HCI_CMD_SETUP_SCO_CON_def HCI_CMD_HOLD_MODE_def HCI_CMD_SNIFF_MODE_def HCI_CMD_EXIT_SNIFF_MODE_def HCI_CMD_PARK_MODE_def HCI_CMD_EXIT_PARK_MODE_def HCI_CMD_QOS_SETUP_def HCI_CMD_ROLE_DISCOVERY_def HCI_CMD_READ_LINK_POLICY_SETTINGS_def HCI_CMD_WRITE_LINK_POLICY_SETTINGS_def HCI_CMD_FLOW_SPECIFICATION_def HCI_CMD_SNIFF_SUBRATING_def HCI_CMD_RESET_def HCI_CMD_FLUSH_def HCI_CMD_READ_STORED_LINK_KEY_def HCI_CMD_WRITE_SCAN_ENABLE_def HCI_CMD_WRITE_UNIT_CLASS_def HCI_CMD_READ_AUTO_FLUSH_TIMEOUT_def HCI_CMD_WRITE_AUTO_FLUSH_TIMEOUT_def HCI_CMD_READ_XMIT_LEVEL_def HCI_CMD_HOST_NUM_COMPL_PKTS_def HCI_CMD_READ_LINK_SUPERVISION_TIMEOUT_def HCI_CMD_WRITE_LINK_SUPERVISION_TIMEOUT_def HCI_CMD_REFRESH_ENCRYPTION_KEY_def HCI_CMD_ENHANCED_FLUSH_def HCI_CMD_READ_FAILED_CONTACT_CNTR_def HCI_CMD_RESET_FAILED_CONTACT_CNTR_def HCI_CMD_READ_LINK_QUALITY_def HCI_CMD_READ_RSSI_def HCI_CMD_READ_AFH_CHANNEL_MAP_def HCI_CMD_READ_CLOCK_def HCI_EVENT_CON_COMPL_def HCI_EVENT_CON_REQ_def HCI_EVENT_DISCON_COMPL_def HCI_EVENT_AUTH_COMPL_def HCI_EVENT_REMOTE_NAME_REQ_COMPL_def HCI_EVENT_ENCRYPTION_CHANGE_def HCI_EVENT_CHANGE_CON_LINK_KEY_COMPL_def HCI_EVENT_MASTER_LINK_KEY_COMPL_def HCI_EVENT_READ_REMOTE_FEATURES_COMPL_def HCI_EVENT_READ_REMOTE_VER_INFO_COMPL_def HCI_EVENT_QOS_SETUP_COMPL_def HCI_EVENT_COMMAND_COMPL_def HCI_EVENT_COMMAND_STATUS_def HCI_EVENT_FLUSH_OCCUR_def HCI_EVENT_ROLE_CHANGE_def HCI_EVENT_NUM_COMPL_PKTS_def HCI_EVENT_MODE_CHANGE_def HCI_EVENT_RETURN_LINK_KEYS_def HCI_EVENT_MAX_SLOT_CHANGE_def HCI_EVENT_READ_CLOCK_OFFSET_COMPL_def HCI_EVENT_CON_PKT_TYPE_CHANGED_def HCI_EVENT_QOS_VIOLATION_def HCI_EVENT_FLOW_SPECIFICATION_COMPL_def HCI_EVENT_READ_REMOTE_EXTENDED_FEATURES_def HCI_EVENT_SCO_CON_COMPL_def HCI_EVENT_SCO_CON_CHANGED_def HCI_EVENT_SNIFF_SUBRATING_def HCI_EVENT_ENCRYPTION_KEY_REFRESH_def HCI_EVENT_LINK_SUPERVISION_TO_CHANGED_def HCI_EVENT_ENHANCED_FLUSH_COMPL_def

section \<open>Layout of the parameter blocks\<close>

definition sizeof_hci_cmd_hdr_t :: nat where
  "sizeof_hci_cmd_hdr_t = 3"

definition sizeof_hci_acldata_hdr_t :: nat where
  "sizeof_hci_acldata_hdr_t = 4"

definition sizeof_hci_event_hdr_t :: nat where
  "sizeof_hci_event_hdr_t = 2"

definition sizeof_hci_command_compl_ep :: nat where
  "sizeof_hci_command_compl_ep = 3"

definition sizeof_hci_num_compl_pkts_ep :: nat where
  "sizeof_hci_num_compl_pkts_ep = 1"

definition sizeof_hci_num_compl_pkts_info :: nat where
  "sizeof_hci_num_compl_pkts_info = 4"

definition sizeof_hci_command_status_ep :: nat where
  "sizeof_hci_command_status_ep = 4"

definition sizeof_hci_con_req_ep :: nat where
  "sizeof_hci_con_req_ep = 10"

definition sizeof_hci_discon_compl_ep :: nat where
  "sizeof_hci_discon_compl_ep = 4"

definition sizeof_hci_con_compl_ep :: nat where
  "sizeof_hci_con_compl_ep = 11"

definition sizeof_hci_role_change_ep :: nat where
  "sizeof_hci_role_change_ep = 8"

definition sizeof_hci_mode_change_ep :: nat where
  "sizeof_hci_mode_change_ep = 6"

definition sizeof_hci_return_link_keys_ep :: nat where
  "sizeof_hci_return_link_keys_ep = 1"

definition sizeof_hci_con_pkt_type_changed_ep :: nat where
  "sizeof_hci_con_pkt_type_changed_ep = 5"

definition sizeof_hci_auth_compl_ep :: nat where
  "sizeof_hci_auth_compl_ep = 3"

definition sizeof_hci_remote_name_req_compl_ep :: nat where
  "sizeof_hci_remote_name_req_compl_ep = 255"

definition sizeof_hci_read_remote_features_compl_ep :: nat where
  "sizeof_hci_read_remote_features_compl_ep = 11"

definition sizeof_hci_read_remote_ver_info_compl_ep :: nat where
  "sizeof_hci_read_remote_ver_info_compl_ep = 8"

definition sizeof_hci_read_clock_offset_compl_ep :: nat where
  "sizeof_hci_read_clock_offset_compl_ep = 5"

definition sizeof_hci_write_link_supervision_timeout_rp :: nat where
  "sizeof_hci_write_link_supervision_timeout_rp = 3"

definition hci_discon_cp_con_handle :: nat where
  "hci_discon_cp_con_handle = 0"

definition hci_add_sco_con_cp_con_handle :: nat where
  "hci_add_sco_con_cp_con_handle = 0"

definition hci_change_con_pkt_type_cp_con_handle :: nat where
  "hci_change_con_pkt_type_cp_con_handle = 0"

definition hci_auth_req_cp_con_handle :: nat where
  "hci_auth_req_cp_con_handle = 0"

definition hci_set_con_encryption_cp_con_handle :: nat where
  "hci_set_con_encryption_cp_con_handle = 0"

definition hci_change_con_link_key_cp_con_handle :: nat where
  "hci_change_con_link_key_cp_con_handle = 0"

definition hci_read_remote_features_cp_con_handle :: nat where
  "hci_read_remote_features_cp_con_handle = 0"

definition hci_read_remote_extended_features_cp_con_handle :: nat where
  "hci_read_remote_extended_features_cp_con_handle = 0"

definition hci_read_remote_ver_info_cp_con_handle :: nat where
  "hci_read_remote_ver_info_cp_con_handle = 0"

definition hci_read_clock_offset_cp_con_handle :: nat where
  "hci_read_clock_offset_cp_con_handle = 0"

definition hci_read_lmp_handle_cp_con_handle :: nat where
  "hci_read_lmp_handle_cp_con_handle = 0"

definition hci_setup_sco_con_cp_con_handle :: nat where
  "hci_setup_sco_con_cp_con_handle = 0"

definition hci_hold_mode_cp_con_handle :: nat where
  "hci_hold_mode_cp_con_handle = 0"

definition hci_sniff_mode_cp_con_handle :: nat where
  "hci_sniff_mode_cp_con_handle = 0"

definition hci_exit_sniff_mode_cp_con_handle :: nat where
  "hci_exit_sniff_mode_cp_con_handle = 0"

definition hci_park_mode_cp_con_handle :: nat where
  "hci_park_mode_cp_con_handle = 0"

definition hci_exit_park_mode_cp_con_handle :: nat where
  "hci_exit_park_mode_cp_con_handle = 0"

definition hci_qos_setup_cp_con_handle :: nat where
  "hci_qos_setup_cp_con_handle = 0"

definition hci_role_discovery_cp_con_handle :: nat where
  "hci_role_discovery_cp_con_handle = 0"

definition hci_read_link_policy_settings_cp_con_handle :: nat where
  "hci_read_link_policy_settings_cp_con_handle = 0"

definition hci_write_link_policy_settings_cp_con_handle :: nat where
  "hci_write_link_policy_settings_cp_con_handle = 0"

definition hci_flow_specification_cp_con_handle :: nat where
  "hci_flow_specification_cp_con_handle = 0"

definition hci_sniff_subrating_cp_con_handle :: nat where
  "hci_sniff_subrating_cp_con_handle = 0"

definition hci_flush_cp_con_handle :: nat where
  "hci_flush_cp_con_handle = 0"

definition hci_read_auto_flush_timeout_cp_con_handle :: nat where
  "hci_read_auto_flush_timeout_cp_con_handle = 0"

definition hci_write_auto_flush_timeout_cp_con_handle :: nat where
  "hci_write_auto_flush_timeout_cp_con_handle = 0"

definition hci_read_xmit_level_cp_con_handle :: nat where
  "hci_read_xmit_level_cp_con_handle = 0"

definition hci_read_link_supervision_timeout_cp_con_handle :: nat where
  "hci_read_link_supervision_timeout_cp_con_handle = 0"

definition hci_write_link_supervision_timeout_cp_con_handle :: nat where
  "hci_write_link_supervision_timeout_cp_con_handle = 0"

definition hci_refresh_encryption_key_cp_con_handle :: nat where
  "hci_refresh_encryption_key_cp_con_handle = 0"

definition hci_enhanced_flush_cp_con_handle :: nat where
  "hci_enhanced_flush_cp_con_handle = 0"

definition hci_read_failed_contact_cntr_cp_con_handle :: nat where
  "hci_read_failed_contact_cntr_cp_con_handle = 0"

definition hci_reset_failed_contact_cntr_cp_con_handle :: nat where
  "hci_reset_failed_contact_cntr_cp_con_handle = 0"

definition hci_read_link_quality_cp_con_handle :: nat where
  "hci_read_link_quality_cp_con_handle = 0"

definition hci_read_rssi_cp_con_handle :: nat where
  "hci_read_rssi_cp_con_handle = 0"

definition hci_read_afh_channel_map_cp_con_handle :: nat where
  "hci_read_afh_channel_map_cp_con_handle = 0"

definition hci_read_clock_cp_con_handle :: nat where
  "hci_read_clock_cp_con_handle = 0"

definition hci_auth_compl_ep_con_handle :: nat where
  "hci_auth_compl_ep_con_handle = 1"

definition hci_encryption_change_ep_con_handle :: nat where
  "hci_encryption_change_ep_con_handle = 1"

definition hci_change_con_link_key_compl_ep_con_handle :: nat where
  "hci_change_con_link_key_compl_ep_con_handle = 1"

definition hci_master_link_key_compl_ep_con_handle :: nat where
  "hci_master_link_key_compl_ep_con_handle = 1"

definition hci_read_remote_features_compl_ep_con_handle :: nat where
  "hci_read_remote_features_compl_ep_con_handle = 1"

definition hci_read_remote_ver_info_compl_ep_con_handle :: nat where
  "hci_read_remote_ver_info_compl_ep_con_handle = 1"

definition hci_qos_setup_compl_ep_con_handle :: nat where
  "hci_qos_setup_compl_ep_con_handle = 1"

definition hci_flush_occur_ep_con_handle :: nat where
  "hci_flush_occur_ep_con_handle = 0"

definition hci_mode_change_ep_con_handle :: nat where
  "hci_mode_change_ep_con_handle = 1"

definition hci_max_slot_change_ep_con_handle :: nat where
  "hci_max_slot_change_ep_con_handle = 0"

definition hci_read_clock_offset_compl_ep_con_handle :: nat where
  "hci_read_clock_offset_compl_ep_con_handle = 1"

definition hci_con_pkt_type_changed_ep_con_handle :: nat where
  "hci_con_pkt_type_changed_ep_con_handle = 1"

definition hci_qos_violation_ep_con_handle :: nat where
  "hci_qos_violation_ep_con_handle = 0"

definition hci_flow_specification_compl_ep_con_handle :: nat where
  "hci_flow_specification_compl_ep_con_handle = 1"

definition hci_read_remote_extended_features_ep_con_handle :: nat where
  "hci_read_remote_extended_features_ep_con_handle = 1"

definition hci_sco_con_compl_ep_con_handle :: nat where
  "hci_sco_con_compl_ep_con_handle = 1"

definition hci_sco_con_changed_ep_con_handle :: nat where
  "hci_sco_con_changed_ep_con_handle = 1"

definition hci_sniff_subrating_ep_con_handle :: nat where
  "hci_sniff_subrating_ep_con_handle = 1"

definition hci_encryption_key_refresh_ep_con_handle :: nat where
  "hci_encryption_key_refresh_ep_con_handle = 1"

definition hci_link_supervision_to_changed_ep_con_handle :: nat where
  "hci_link_supervision_to_changed_ep_con_handle = 0"

definition hci_enhanced_flush_compl_ep_con_handle :: nat where
  "hci_enhanced_flush_compl_ep_con_handle = 0"

definition hci_cmd_hdr_t_opcode :: nat where
  "hci_cmd_hdr_t_opcode = 0"

definition hci_acldata_hdr_t_con_handle :: nat where
  "hci_acldata_hdr_t_con_handle = 0"

definition hci_acldata_hdr_t_length :: nat where
  "hci_acldata_hdr_t_length = 2"

definition hci_event_hdr_t_event :: nat where
  "hci_event_hdr_t_event = 0"

definition hci_write_scan_enable_cp_scan_enable :: nat where
  "hci_write_scan_enable_cp_scan_enable = 0"

definition hci_write_unit_class_cp_uclass :: nat where
  "hci_write_unit_class_cp_uclass = 0"

definition hci_read_stored_link_key_cp_bdaddr :: nat where
  "hci_read_stored_link_key_cp_bdaddr = 0"

definition hci_read_stored_link_key_cp_read_all :: nat where
  "hci_read_stored_link_key_cp_read_all = 6"

definition hci_con_compl_ep_status :: nat where
  "hci_con_compl_ep_status = 0"

definition hci_con_compl_ep_con_handle :: nat where
  "hci_con_compl_ep_con_handle = 1"

definition hci_discon_compl_ep_status :: nat where
  "hci_discon_compl_ep_status = 0"

definition hci_discon_compl_ep_con_handle :: nat where
  "hci_discon_compl_ep_con_handle = 1"

definition hci_command_compl_ep_opcode :: nat where
  "hci_command_compl_ep_opcode = 1"

definition hci_read_stored_link_key_rp_max_num_keys :: nat where
  "hci_read_stored_link_key_rp_max_num_keys = 1"

definition hci_read_stored_link_key_rp_num_keys_read :: nat where
  "hci_read_stored_link_key_rp_num_keys_read = 3"

definition hci_num_compl_pkts_ep_num_con_handles :: nat where
  "hci_num_compl_pkts_ep_num_con_handles = 0"

definition hci_num_compl_pkts_info_con_handle :: nat where
  "hci_num_compl_pkts_info_con_handle = 0"

definition hci_accept_con_cp_bdaddr :: nat where
  "hci_accept_con_cp_bdaddr = 0"

definition hci_accept_con_cp_role :: nat where
  "hci_accept_con_cp_role = 6"

definition hci_reject_con_cp_bdaddr :: nat where
  "hci_reject_con_cp_bdaddr = 0"

definition hci_reject_con_cp_reason :: nat where
  "hci_reject_con_cp_reason = 6"

definition hci_discon_cp_reason :: nat where
  "hci_discon_cp_reason = 2"

definition hci_change_con_pkt_type_cp_pkt_type :: nat where
  "hci_change_con_pkt_type_cp_pkt_type = 2"

definition hci_remote_name_req_cp_bdaddr :: nat where
  "hci_remote_name_req_cp_bdaddr = 0"

definition hci_sniff_mode_cp_max_interval :: nat where
  "hci_sniff_mode_cp_max_interval = 2"

lemmas hci_layout [c_consts] =
  sizeof_hci_cmd_hdr_t_def sizeof_hci_acldata_hdr_t_def sizeof_hci_event_hdr_t_def
  sizeof_hci_command_compl_ep_def sizeof_hci_num_compl_pkts_ep_def sizeof_hci_num_compl_pkts_info_def
  sizeof_hci_command_status_ep_def sizeof_hci_con_req_ep_def sizeof_hci_discon_compl_ep_def
  sizeof_hci_con_compl_ep_def sizeof_hci_role_change_ep_def sizeof_hci_mode_change_ep_def
  sizeof_hci_return_link_keys_ep_def sizeof_hci_con_pkt_type_changed_ep_def sizeof_hci_auth_compl_ep_def
  sizeof_hci_remote_name_req_compl_ep_def sizeof_hci_read_remote_features_compl_ep_def sizeof_hci_read_remote_ver_info_compl_ep_def
  sizeof_hci_read_clock_offset_compl_ep_def sizeof_hci_write_link_supervision_timeout_rp_def hci_discon_cp_con_handle_def
  hci_add_sco_con_cp_con_handle_def hci_change_con_pkt_type_cp_con_handle_def hci_auth_req_cp_con_handle_def
  hci_set_con_encryption_cp_con_handle_def hci_change_con_link_key_cp_con_handle_def hci_read_remote_features_cp_con_handle_def
  hci_read_remote_extended_features_cp_con_handle_def hci_read_remote_ver_info_cp_con_handle_def hci_read_clock_offset_cp_con_handle_def
  hci_read_lmp_handle_cp_con_handle_def hci_setup_sco_con_cp_con_handle_def hci_hold_mode_cp_con_handle_def
  hci_sniff_mode_cp_con_handle_def hci_exit_sniff_mode_cp_con_handle_def hci_park_mode_cp_con_handle_def
  hci_exit_park_mode_cp_con_handle_def hci_qos_setup_cp_con_handle_def hci_role_discovery_cp_con_handle_def
  hci_read_link_policy_settings_cp_con_handle_def hci_write_link_policy_settings_cp_con_handle_def hci_flow_specification_cp_con_handle_def
  hci_sniff_subrating_cp_con_handle_def hci_flush_cp_con_handle_def hci_read_auto_flush_timeout_cp_con_handle_def
  hci_write_auto_flush_timeout_cp_con_handle_def hci_read_xmit_level_cp_con_handle_def hci_read_link_supervision_timeout_cp_con_handle_def
  hci_write_link_supervision_timeout_cp_con_handle_def hci_refresh_encryption_key_cp_con_handle_def hci_enhanced_flush_cp_con_handle_def
  hci_read_failed_contact_cntr_cp_con_handle_def hci_reset_failed_contact_cntr_cp_con_handle_def hci_read_link_quality_cp_con_handle_def
  hci_read_rssi_cp_con_handle_def hci_read_afh_channel_map_cp_con_handle_def hci_read_clock_cp_con_handle_def
  hci_auth_compl_ep_con_handle_def hci_encryption_change_ep_con_handle_def hci_change_con_link_key_compl_ep_con_handle_def
  hci_master_link_key_compl_ep_con_handle_def hci_read_remote_features_compl_ep_con_handle_def hci_read_remote_ver_info_compl_ep_con_handle_def
  hci_qos_setup_compl_ep_con_handle_def hci_flush_occur_ep_con_handle_def hci_mode_change_ep_con_handle_def
  hci_max_slot_change_ep_con_handle_def hci_read_clock_offset_compl_ep_con_handle_def hci_con_pkt_type_changed_ep_con_handle_def
  hci_qos_violation_ep_con_handle_def hci_flow_specification_compl_ep_con_handle_def hci_read_remote_extended_features_ep_con_handle_def
  hci_sco_con_compl_ep_con_handle_def hci_sco_con_changed_ep_con_handle_def hci_sniff_subrating_ep_con_handle_def
  hci_encryption_key_refresh_ep_con_handle_def hci_link_supervision_to_changed_ep_con_handle_def hci_enhanced_flush_compl_ep_con_handle_def
  hci_cmd_hdr_t_opcode_def hci_acldata_hdr_t_con_handle_def hci_acldata_hdr_t_length_def
  hci_event_hdr_t_event_def hci_write_scan_enable_cp_scan_enable_def hci_write_unit_class_cp_uclass_def
  hci_read_stored_link_key_cp_bdaddr_def hci_read_stored_link_key_cp_read_all_def hci_con_compl_ep_status_def
  hci_con_compl_ep_con_handle_def hci_discon_compl_ep_status_def hci_discon_compl_ep_con_handle_def
  hci_command_compl_ep_opcode_def hci_read_stored_link_key_rp_max_num_keys_def hci_read_stored_link_key_rp_num_keys_read_def
  hci_num_compl_pkts_ep_num_con_handles_def hci_num_compl_pkts_info_con_handle_def hci_accept_con_cp_bdaddr_def
  hci_accept_con_cp_role_def hci_reject_con_cp_bdaddr_def hci_reject_con_cp_reason_def
  hci_discon_cp_reason_def hci_change_con_pkt_type_cp_pkt_type_def hci_remote_name_req_cp_bdaddr_def
  hci_sniff_mode_cp_max_interval_def

section \<open>Connection handle fields of ACL headers\<close>

definition HCI_CON_HANDLE :: "u16 \<Rightarrow> u16" where
  "HCI_CON_HANDLE h = h AND 0x0fff"

definition HCI_PB_FLAG :: "u16 \<Rightarrow> u16" where
  "HCI_PB_FLAG h = drop_bit 12 (h AND 0x3000)"

definition HCI_BC_FLAG :: "u16 \<Rightarrow> u16" where
  "HCI_BC_FLAG h = drop_bit 14 (h AND 0xc000)"

definition HCI_MK_CON_HANDLE :: "u16 \<Rightarrow> u16 \<Rightarrow> u16 \<Rightarrow> u16" where
  "HCI_MK_CON_HANDLE h pb bc =
     (h AND 0x0fff) OR push_bit 12 (pb AND 3) OR push_bit 14 (bc AND 3)"

lemma HCI_MK_CON_HANDLE_split [simp]:
  "HCI_MK_CON_HANDLE (HCI_CON_HANDLE x) (HCI_PB_FLAG x) (HCI_BC_FLAG x) = x"
  unfolding HCI_MK_CON_HANDLE_def HCI_CON_HANDLE_def HCI_PB_FLAG_def HCI_BC_FLAG_def
  by (rule bit_word_eqI) (auto simp: bit_simps less_16_cases)

lemma HCI_MK_CON_HANDLE_fields [simp]:
  "HCI_CON_HANDLE (HCI_MK_CON_HANDLE h pb bc) = HCI_CON_HANDLE h"
  "HCI_PB_FLAG (HCI_MK_CON_HANDLE h pb bc) = pb AND 3"
  "HCI_BC_FLAG (HCI_MK_CON_HANDLE h pb bc) = bc AND 3"
  unfolding HCI_MK_CON_HANDLE_def HCI_CON_HANDLE_def HCI_PB_FLAG_def HCI_BC_FLAG_def
  by (rule bit_word_eqI, auto simp: bit_simps less_16_cases)+

lemma HCI_flags_masked [simp]:
  "HCI_PB_FLAG x AND 3 = HCI_PB_FLAG x"
  "HCI_BC_FLAG x AND 3 = HCI_BC_FLAG x"
  unfolding HCI_PB_FLAG_def HCI_BC_FLAG_def
  by (rule bit_word_eqI, auto simp: bit_simps less_16_cases)+

end
