(* ===== verification/L2cap_Defs.thy ===== *)
theory L2cap_Defs
  imports Prelude
begin

text \<open>
  The part of \<open>include/l2cap.h\<close> the module uses: channel identifiers, protocol
  multiplexers, result and option codes, signalling commands and the sizes and field
  offsets of their packed parameter blocks.
\<close>

definition L2CAP_NULL_CID :: u16 where
  "L2CAP_NULL_CID = 0x0000"

definition L2CAP_SIGNAL_CID :: u16 where
  "L2CAP_SIGNAL_CID = 0x0001"

definition L2CAP_MTU_DEFAULT :: u16 where
  "L2CAP_MTU_DEFAULT = 672"

definition L2CAP_FLUSH_TIMO_DEFAULT :: u16 where
  "L2CAP_FLUSH_TIMO_DEFAULT = 0xffff"

definition L2CAP_PSM_SDP :: u16 where
  "L2CAP_PSM_SDP = 0x0001"

definition L2CAP_PSM_HID_CNTL :: u16 where
  "L2CAP_PSM_HID_CNTL = 0x0011"

definition L2CAP_PSM_HID_INTR :: u16 where
  "L2CAP_PSM_HID_INTR = 0x0013"

definition L2CAP_SUCCESS :: u16 where
  "L2CAP_SUCCESS = 0x0000"

definition L2CAP_PSM_NOT_SUPPORTED :: u16 where
  "L2CAP_PSM_NOT_SUPPORTED = 0x0002"

definition L2CAP_NO_INFO :: u16 where
  "L2CAP_NO_INFO = 0x0000"

definition L2CAP_OPT_MTU :: u8 where
  "L2CAP_OPT_MTU = 0x01"

definition L2CAP_OPT_MTU_SIZE :: nat where
  "L2CAP_OPT_MTU_SIZE = 2"

definition L2CAP_OPT_FLUSH_TIMO :: u8 where
  "L2CAP_OPT_FLUSH_TIMO = 0x02"

definition L2CAP_OPT_FLUSH_TIMO_SIZE :: nat where
  "L2CAP_OPT_FLUSH_TIMO_SIZE = 2"

definition L2CAP_CONNECT_REQ :: u8 where
  "L2CAP_CONNECT_REQ = 0x02"

definition L2CAP_CONNECT_RSP :: u8 where
  "L2CAP_CONNECT_RSP = 0x03"

definition L2CAP_CONFIG_REQ :: u8 where
  "L2CAP_CONFIG_REQ = 0x04"

definition L2CAP_CONFIG_RSP :: u8 where
  "L2CAP_CONFIG_RSP = 0x05"

definition L2CAP_DISCONNECT_REQ :: u8 where
  "L2CAP_DISCONNECT_REQ = 0x06"

definition L2CAP_DISCONNECT_RSP :: u8 where
  "L2CAP_DISCONNECT_RSP = 0x07"

lemmas l2cap_consts [c_consts] =
  L2CAP_NULL_CID_def L2CAP_SIGNAL_CID_def L2CAP_MTU_DEFAULT_def L2CAP_FLUSH_TIMO_DEFAULT_def
  L2CAP_PSM_SDP_def L2CAP_PSM_HID_CNTL_def L2CAP_PSM_HID_INTR_def L2CAP_SUCCESS_def
  L2CAP_PSM_NOT_SUPPORTED_def L2CAP_NO_INFO_def L2CAP_OPT_MTU_def L2CAP_OPT_MTU_SIZE_def
  L2CAP_OPT_FLUSH_TIMO_def L2CAP_OPT_FLUSH_TIMO_SIZE_def L2CAP_CONNECT_REQ_def
  L2CAP_CONNECT_RSP_def L2CAP_CONFIG_REQ_def L2CAP_CONFIG_RSP_def L2CAP_DISCONNECT_REQ_def
  L2CAP_DISCONNECT_RSP_def

section \<open>Sizes and field offsets\<close>

definition sizeof_l2cap_hdr_t :: nat where
  "sizeof_l2cap_hdr_t = 4"

definition l2cap_hdr_t_length :: nat where
  "l2cap_hdr_t_length = 0"

definition l2cap_hdr_t_dcid :: nat where
  "l2cap_hdr_t_dcid = 2"

definition sizeof_l2cap_cmd_hdr_t :: nat where
  "sizeof_l2cap_cmd_hdr_t = 4"

definition l2cap_cmd_hdr_t_code :: nat where
  "l2cap_cmd_hdr_t_code = 0"

definition l2cap_cmd_hdr_t_ident :: nat where
  "l2cap_cmd_hdr_t_ident = 1"

definition l2cap_cmd_hdr_t_length :: nat where
  "l2cap_cmd_hdr_t_length = 2"

definition sizeof_l2cap_con_req_cp :: nat where
  "sizeof_l2cap_con_req_cp = 4"

definition l2cap_con_rsp_cp_dcid :: nat where
  "l2cap_con_rsp_cp_dcid = 0"

definition l2cap_con_rsp_cp_scid :: nat where
  "l2cap_con_rsp_cp_scid = 2"

definition l2cap_con_rsp_cp_result :: nat where
  "l2cap_con_rsp_cp_result = 4"

definition l2cap_con_rsp_cp_status :: nat where
  "l2cap_con_rsp_cp_status = 6"

definition sizeof_l2cap_cfg_req_cp :: nat where
  "sizeof_l2cap_cfg_req_cp = 4"

definition l2cap_cfg_req_cp_dcid :: nat where
  "l2cap_cfg_req_cp_dcid = 0"

definition l2cap_cfg_req_cp_flags :: nat where
  "l2cap_cfg_req_cp_flags = 2"

definition sizeof_l2cap_cfg_rsp_cp :: nat where
  "sizeof_l2cap_cfg_rsp_cp = 6"

definition l2cap_cfg_rsp_cp_scid :: nat where
  "l2cap_cfg_rsp_cp_scid = 0"

definition l2cap_cfg_rsp_cp_result :: nat where
  "l2cap_cfg_rsp_cp_result = 4"

definition sizeof_l2cap_cfg_opt_t :: nat where
  "sizeof_l2cap_cfg_opt_t = 2"

definition l2cap_cfg_opt_t_type :: nat where
  "l2cap_cfg_opt_t_type = 0"

definition l2cap_cfg_opt_t_length :: nat where
  "l2cap_cfg_opt_t_length = 1"

definition sizeof_l2cap_discon_req_cp :: nat where
  "sizeof_l2cap_discon_req_cp = 4"

definition l2cap_discon_req_cp_dcid :: nat where
  "l2cap_discon_req_cp_dcid = 0"

definition l2cap_discon_req_cp_scid :: nat where
  "l2cap_discon_req_cp_scid = 2"

definition sizeof_l2cap_discon_rsp_cp :: nat where
  "sizeof_l2cap_discon_rsp_cp = sizeof_l2cap_discon_req_cp"

lemmas l2cap_layout [c_consts] =
  sizeof_l2cap_hdr_t_def l2cap_hdr_t_length_def l2cap_hdr_t_dcid_def sizeof_l2cap_cmd_hdr_t_def
  l2cap_cmd_hdr_t_code_def l2cap_cmd_hdr_t_ident_def l2cap_cmd_hdr_t_length_def
  sizeof_l2cap_con_req_cp_def l2cap_con_rsp_cp_dcid_def l2cap_con_rsp_cp_scid_def
  l2cap_con_rsp_cp_result_def l2cap_con_rsp_cp_status_def sizeof_l2cap_cfg_req_cp_def
  l2cap_cfg_req_cp_dcid_def l2cap_cfg_req_cp_flags_def sizeof_l2cap_cfg_rsp_cp_def
  l2cap_cfg_rsp_cp_scid_def l2cap_cfg_rsp_cp_result_def sizeof_l2cap_cfg_opt_t_def
  l2cap_cfg_opt_t_type_def l2cap_cfg_opt_t_length_def sizeof_l2cap_discon_req_cp_def
  l2cap_discon_req_cp_dcid_def l2cap_discon_req_cp_scid_def sizeof_l2cap_discon_rsp_cp_def

end
