(* ===== verification/Injmessage.thy ===== *)
theory Injmessage
  imports Usb_Queues Hci_Defs L2cap_Defs
begin

text \<open>
  \<open>source/injmessage.c\<close>: the messages the module injects towards the host's Bluetooth
  stack.  A message is allocated from the module's heap with arbitrary contents, its header
  and fields are stored one after the other, and it is handed to the queue plumbing.  Each
  injector is proved to send exactly the wire packet of its event, whatever the heap block
  held before, with one exception: \<open>inject_hci_event_remote_name_req_compl\<close> fills the name field up
  to the terminator of the name only and sends the rest of the block as the heap gave it
  (\<open>Wire_Packets\<close> states it).
\<close>

type_synonym bdaddr = "u8 list"

definition BDADDR_SIZE :: nat where
  "BDADDR_SIZE = 6"

section \<open>Allocation\<close>

text \<open>A store into the data of an injected message.\<close>

definition inj_write :: "ptr \<Rightarrow> nat \<Rightarrow> u8 list \<Rightarrow> 'os usb \<Rightarrow> 'os usb result" where
  "inj_write msg off bs u =
     rbind (deref (inj_store u msg)) (\<lambda>m.
     rbind (write_bytes (inj_data m) off bs) (\<lambda>d.
       Inr (u \<lparr> inj_store := (inj_store u)(msg \<mapsto> m \<lparr> inj_data := d \<rparr>) \<rparr>)))"

definition sizeof_injmessage :: nat where
  "sizeof_injmessage = 2"

definition injmessage_alloc :: "'os ext \<Rightarrow> u16 \<Rightarrow> 'os usb \<Rightarrow> ptr option \<times> 'os usb" where
  "injmessage_alloc E sz u =
     (case os_heap_alloc E (injmessages_heap_id u) (sizeof_injmessage + unat sz) (os_state u) of
        (None, os') \<Rightarrow> (None, u \<lparr> os_state := os' \<rparr>)
      | (Some (p, init), os') \<Rightarrow>
          (Some p, u \<lparr> os_state := os', inj_store := (inj_store u)(p \<mapsto>
             \<lparr> inj_size = sz, inj_data = drop sizeof_injmessage init \<rparr>) \<rparr>))"

text \<open>
  The three layers of headers.  A successful allocation gives the message and the offset of
  its payload; \<open>None\<close> is a null result.
\<close>

definition alloc_hci_event_msg ::
  "'os ext \<Rightarrow> u8 \<Rightarrow> u8 \<Rightarrow> 'os usb \<Rightarrow> ((ptr \<times> nat) option \<times> 'os usb) result" where
  "alloc_hci_event_msg E event event_size u =
     (case injmessage_alloc E (of_nat sizeof_hci_event_hdr_t + ucast event_size) u of
        (None, u1) \<Rightarrow> Inr (None, u1)
      | (Some msg, u1) \<Rightarrow>
          rbind (inj_write msg 0 [event, event_size] u1) (\<lambda>u2.
            Inr (Some (msg, sizeof_hci_event_hdr_t), u2)))"

definition alloc_hci_acl_msg ::
  "'os ext \<Rightarrow> u16 \<Rightarrow> u16 \<Rightarrow> 'os usb \<Rightarrow> ((ptr \<times> nat) option \<times> 'os usb) result" where
  "alloc_hci_acl_msg E hci_con_handle acl_payload_size u =
     (case injmessage_alloc E (of_nat sizeof_hci_acldata_hdr_t + acl_payload_size) u of
        (None, u1) \<Rightarrow> Inr (None, u1)
      | (Some msg, u1) \<Rightarrow>
          rbind (inj_write msg hci_acldata_hdr_t_con_handle
            (le16 (HCI_MK_CON_HANDLE hci_con_handle HCI_PACKET_START HCI_POINT2POINT)) u1) (\<lambda>u2.
          rbind (inj_write msg hci_acldata_hdr_t_length (le16 acl_payload_size) u2) (\<lambda>u3.
            Inr (Some (msg, sizeof_hci_acldata_hdr_t), u3))))"

definition alloc_l2cap_msg ::
  "'os ext \<Rightarrow> u16 \<Rightarrow> u16 \<Rightarrow> u16 \<Rightarrow> 'os usb \<Rightarrow> ((ptr \<times> nat) option \<times> 'os usb) result" where
  "alloc_l2cap_msg E hci_con_handle dcid sz u =
     rbind (alloc_hci_acl_msg E hci_con_handle (of_nat sizeof_l2cap_hdr_t + sz) u) (\<lambda>(r, u1).
     case r of
       None \<Rightarrow> Inr (None, u1)
     | Some (msg, hdr) \<Rightarrow>
         rbind (inj_write msg (hdr + l2cap_hdr_t_length) (le16 sz) u1) (\<lambda>u2.
         rbind (inj_write msg (hdr + l2cap_hdr_t_dcid) (le16 dcid) u2) (\<lambda>u3.
           Inr (Some (msg, hdr + sizeof_l2cap_hdr_t), u3))))"

definition alloc_l2cap_cmd_msg ::
  "'os ext \<Rightarrow> u16 \<Rightarrow> u8 \<Rightarrow> u8 \<Rightarrow> u16 \<Rightarrow> 'os usb \<Rightarrow> ((ptr \<times> nat) option \<times> 'os usb) result" where
  "alloc_l2cap_cmd_msg E hci_con_handle code ident sz u =
     rbind (alloc_l2cap_msg E hci_con_handle L2CAP_SIGNAL_CID
              (of_nat sizeof_l2cap_cmd_hdr_t + sz) u) (\<lambda>(r, u1).
     case r of
       None \<Rightarrow> Inr (None, u1)
     | Some (msg, hdr) \<Rightarrow>
         rbind (inj_write msg (hdr + l2cap_cmd_hdr_t_code) [code] u1) (\<lambda>u2.
         rbind (inj_write msg (hdr + l2cap_cmd_hdr_t_ident) [ident] u2) (\<lambda>u3.
         rbind (inj_write msg (hdr + l2cap_cmd_hdr_t_length) (le16 sz) u3) (\<lambda>u4.
           Inr (Some (msg, hdr + sizeof_l2cap_cmd_hdr_t), u4)))))"

text \<open>The common shape of an injector: allocate, return on failure, fill, enqueue.\<close>

definition inject_filled_event ::
  "'os ext \<Rightarrow> u8 \<Rightarrow> u8 \<Rightarrow> u8 list \<Rightarrow> 'os usb \<Rightarrow> (int \<times> 'os usb) result" where
  "inject_filled_event E event event_size ep u =
     rbind (alloc_hci_event_msg E event event_size u) (\<lambda>(r, u1).
     case r of
       None \<Rightarrow> Inr (IOS_ENOMEM E, u1)
     | Some (msg, off) \<Rightarrow>
         rbind (inj_write msg off ep u1) (\<lambda>u2. inject_msg_to_usb_intr_ready_queue E msg u2))"

definition inject_filled_l2cap_cmd ::
  "'os ext \<Rightarrow> u16 \<Rightarrow> u8 \<Rightarrow> u8 \<Rightarrow> u16 \<Rightarrow> u8 list \<Rightarrow> 'os usb \<Rightarrow> (int \<times> 'os usb) result" where
  "inject_filled_l2cap_cmd E hci_con_handle code ident sz cp u =
     rbind (alloc_l2cap_cmd_msg E hci_con_handle code ident sz u) (\<lambda>(r, u1).
     case r of
       None \<Rightarrow> Inr (IOS_ENOMEM E, u1)
     | Some (msg, off) \<Rightarrow>
         rbind (inj_write msg off cp u1) (\<lambda>u2. inject_msg_to_usb_bulk_in_ready_queue E msg u2))"

section \<open>HCI events\<close>

definition inject_hci_event_command_status ::
  "'os ext \<Rightarrow> u16 \<Rightarrow> 'os usb \<Rightarrow> (int \<times> 'os usb) result" where
  "inject_hci_event_command_status E opcode =
     inject_filled_event E HCI_EVENT_COMMAND_STATUS (of_nat sizeof_hci_command_status_ep)
       ([0] @ [1] @ le16 opcode)"

definition inject_hci_event_command_compl ::
  "'os ext \<Rightarrow> u16 \<Rightarrow> u8 list \<Rightarrow> 'os usb \<Rightarrow> (int \<times> 'os usb) result" where
  "inject_hci_event_command_compl E opcode payload =
     inject_filled_event E HCI_EVENT_COMMAND_COMPL
       (of_nat (sizeof_hci_command_compl_ep + length payload))
       ([1] @ le16 opcode @ payload)"

definition inject_hci_event_con_req ::
  "'os ext \<Rightarrow> bdaddr \<Rightarrow> u8 \<Rightarrow> u8 \<Rightarrow> u8 \<Rightarrow> u8 \<Rightarrow> 'os usb \<Rightarrow> (int \<times> 'os usb) result" where
  "inject_hci_event_con_req E bdaddr uclass0 uclass1 uclass2 link_type =
     inject_filled_event E HCI_EVENT_CON_REQ (of_nat sizeof_hci_con_req_ep)
       (bdaddr @ [uclass0, uclass1, uclass2] @ [link_type])"

definition inject_hci_event_discon_compl ::
  "'os ext \<Rightarrow> u16 \<Rightarrow> u8 \<Rightarrow> u8 \<Rightarrow> 'os usb \<Rightarrow> (int \<times> 'os usb) result" where
  "inject_hci_event_discon_compl E con_handle status reason =
     inject_filled_event E HCI_EVENT_DISCON_COMPL (of_nat sizeof_hci_discon_compl_ep)
       ([status] @ le16 con_handle @ [reason])"

definition inject_hci_event_con_compl ::
  "'os ext \<Rightarrow> bdaddr \<Rightarrow> u16 \<Rightarrow> u8 \<Rightarrow> 'os usb \<Rightarrow> (int \<times> 'os usb) result" where
  "inject_hci_event_con_compl E bdaddr con_handle status =
     inject_filled_event E HCI_EVENT_CON_COMPL (of_nat sizeof_hci_con_compl_ep)
       ([status] @ le16 con_handle @ bdaddr @ [HCI_LINK_ACL] @ [HCI_ENCRYPTION_MODE_NONE])"

definition inject_hci_event_role_change ::
  "'os ext \<Rightarrow> bdaddr \<Rightarrow> u8 \<Rightarrow> 'os usb \<Rightarrow> (int \<times> 'os usb) result" where
  "inject_hci_event_role_change E bdaddr role =
     inject_filled_event E HCI_EVENT_ROLE_CHANGE (of_nat sizeof_hci_role_change_ep)
       ([0] @ bdaddr @ [role])"

text \<open>The two arrays of the C function, with their common length, are a list of pairs.\<close>

definition inject_hci_event_num_compl_pkts ::
  "'os ext \<Rightarrow> (u16 \<times> u16) list \<Rightarrow> 'os usb \<Rightarrow> (int \<times> 'os usb) result" where
  "inject_hci_event_num_compl_pkts E infos =
     inject_filled_event E HCI_EVENT_NUM_COMPL_PKTS
       (of_nat (sizeof_hci_num_compl_pkts_ep + length infos * (2 + 2)))
       ([of_nat (length infos)] @ concat (map (\<lambda>(h, n). le16 h @ le16 n) infos))"

definition inject_hci_event_mode_change ::
  "'os ext \<Rightarrow> u16 \<Rightarrow> u8 \<Rightarrow> u16 \<Rightarrow> 'os usb \<Rightarrow> (int \<times> 'os usb) result" where
  "inject_hci_event_mode_change E con_handle unit_mode interval =
     inject_filled_event E HCI_EVENT_MODE_CHANGE (of_nat sizeof_hci_mode_change_ep)
       ([0] @ le16 con_handle @ [unit_mode] @ le16 interval)"

definition inject_hci_event_return_link_keys ::
  "'os ext \<Rightarrow> (bdaddr \<times> u8 list) list \<Rightarrow> 'os usb \<Rightarrow> (int \<times> 'os usb) result" where
  "inject_hci_event_return_link_keys E keys =
     inject_filled_event E HCI_EVENT_RETURN_LINK_KEYS
       (of_nat (sizeof_hci_return_link_keys_ep + length keys * (BDADDR_SIZE + HCI_KEY_SIZE)))
       ([of_nat (length keys)] @ concat (map (\<lambda>(b, k). b @ k) keys))"

definition inject_hci_event_con_pkt_type_changed ::
  "'os ext \<Rightarrow> u16 \<Rightarrow> u16 \<Rightarrow> 'os usb \<Rightarrow> (int \<times> 'os usb) result" where
  "inject_hci_event_con_pkt_type_changed E con_handle pkt_type =
     inject_filled_event E HCI_EVENT_CON_PKT_TYPE_CHANGED
       (of_nat sizeof_hci_con_pkt_type_changed_ep)
       ([0] @ le16 con_handle @ le16 pkt_type)"

definition inject_hci_event_auth_compl ::
  "'os ext \<Rightarrow> u8 \<Rightarrow> u16 \<Rightarrow> 'os usb \<Rightarrow> (int \<times> 'os usb) result" where
  "inject_hci_event_auth_compl E status con_handle =
     inject_filled_event E HCI_EVENT_AUTH_COMPL (of_nat sizeof_hci_auth_compl_ep)
       ([status] @ le16 con_handle)"

text \<open>
  The name is copied with \<open>strcpy\<close>, terminator included; the rest of the 248-byte field
  keeps what the heap block held.
\<close>

definition inject_hci_event_remote_name_req_compl ::
  "'os ext \<Rightarrow> u8 \<Rightarrow> bdaddr \<Rightarrow> u8 list \<Rightarrow> 'os usb \<Rightarrow> (int \<times> 'os usb) result" where
  "inject_hci_event_remote_name_req_compl E status bdaddr name =
     inject_filled_event E HCI_EVENT_REMOTE_NAME_REQ_COMPL
       (of_nat sizeof_hci_remote_name_req_compl_ep)
       ([status] @ bdaddr @ name @ [0])"

definition inject_hci_event_read_remote_features_compl ::
  "'os ext \<Rightarrow> u16 \<Rightarrow> u8 list \<Rightarrow> 'os usb \<Rightarrow> (int \<times> 'os usb) result" where
  "inject_hci_event_read_remote_features_compl E con_handle features =
     inject_filled_event E HCI_EVENT_READ_REMOTE_FEATURES_COMPL
       (of_nat sizeof_hci_read_remote_features_compl_ep)
       ([0] @ le16 con_handle @ take HCI_FEATURES_SIZE features)"

definition inject_hci_event_read_remote_ver_info_compl ::
  "'os ext \<Rightarrow> u16 \<Rightarrow> u8 \<Rightarrow> u16 \<Rightarrow> u16 \<Rightarrow> 'os usb \<Rightarrow> (int \<times> 'os usb) result" where
  "inject_hci_event_read_remote_ver_info_compl E con_handle lmp_version manufacturer
       lmp_subversion =
     inject_filled_event E HCI_EVENT_READ_REMOTE_VER_INFO_COMPL
       (of_nat sizeof_hci_read_remote_ver_info_compl_ep)
       ([0] @ le16 con_handle @ [lmp_version] @ le16 manufacturer @ le16 lmp_subversion)"

definition inject_hci_event_read_clock_offset_compl ::
  "'os ext \<Rightarrow> u16 \<Rightarrow> u16 \<Rightarrow> 'os usb \<Rightarrow> (int \<times> 'os usb) result" where
  "inject_hci_event_read_clock_offset_compl E con_handle clock_offset =
     inject_filled_event E HCI_EVENT_READ_CLOCK_OFFSET_COMPL
       (of_nat sizeof_hci_read_clock_offset_compl_ep)
       ([0] @ le16 con_handle @ le16 clock_offset)"

section \<open>L2CAP packets\<close>

definition inject_l2cap_packet ::
  "'os ext \<Rightarrow> u16 \<Rightarrow> u16 \<Rightarrow> u8 list \<Rightarrow> 'os usb \<Rightarrow> (int \<times> 'os usb) result" where
  "inject_l2cap_packet E hci_con_handle dcid data u =
     rbind (alloc_l2cap_msg E hci_con_handle dcid (of_nat (length data)) u) (\<lambda>(r, u1).
     case r of
       None \<Rightarrow> Inr (IOS_ENOMEM E, u1)
     | Some (msg, off) \<Rightarrow>
         rbind (inj_write msg off data u1) (\<lambda>u2. inject_msg_to_usb_bulk_in_ready_queue E msg u2))"

definition inject_l2cap_connect_req ::
  "'os ext \<Rightarrow> u16 \<Rightarrow> u16 \<Rightarrow> u16 \<Rightarrow> 'os usb \<Rightarrow> (int \<times> 'os usb) result" where
  "inject_l2cap_connect_req E hci_con_handle psm scid =
     inject_filled_l2cap_cmd E hci_con_handle L2CAP_CONNECT_REQ L2CAP_CONNECT_REQ
       (of_nat sizeof_l2cap_con_req_cp) (le16 psm @ le16 scid)"

definition inject_l2cap_disconnect_req ::
  "'os ext \<Rightarrow> u16 \<Rightarrow> u16 \<Rightarrow> u16 \<Rightarrow> 'os usb \<Rightarrow> (int \<times> 'os usb) result" where
  "inject_l2cap_disconnect_req E hci_con_handle dcid scid =
     inject_filled_l2cap_cmd E hci_con_handle L2CAP_DISCONNECT_REQ L2CAP_DISCONNECT_REQ
       (of_nat sizeof_l2cap_discon_req_cp) (le16 dcid @ le16 scid)"

definition inject_l2cap_disconnect_rsp ::
  "'os ext \<Rightarrow> u16 \<Rightarrow> u8 \<Rightarrow> u16 \<Rightarrow> u16 \<Rightarrow> 'os usb \<Rightarrow> (int \<times> 'os usb) result" where
  "inject_l2cap_disconnect_rsp E hci_con_handle ident dcid scid =
     inject_filled_l2cap_cmd E hci_con_handle L2CAP_DISCONNECT_RSP ident
       (of_nat sizeof_l2cap_discon_rsp_cp) (le16 dcid @ le16 scid)"

text \<open>Options that have their default value are left out of a configuration request.\<close>

definition l2cap_config_req_options :: "u16 \<Rightarrow> u16 \<Rightarrow> u8 list" where
  "l2cap_config_req_options mtu flush_time_out =
     (if mtu \<noteq> L2CAP_MTU_DEFAULT
      then [L2CAP_OPT_MTU, of_nat L2CAP_OPT_MTU_SIZE] @ le16 mtu else []) @
     (if flush_time_out \<noteq> L2CAP_FLUSH_TIMO_DEFAULT
      then [L2CAP_OPT_FLUSH_TIMO, of_nat L2CAP_OPT_FLUSH_TIMO_SIZE] @ le16 flush_time_out
      else [])"

definition inject_l2cap_config_req ::
  "'os ext \<Rightarrow> u16 \<Rightarrow> u16 \<Rightarrow> u16 \<Rightarrow> u16 \<Rightarrow> 'os usb \<Rightarrow> (int \<times> 'os usb) result" where
  "inject_l2cap_config_req E hci_con_handle remote_cid mtu flush_time_out =
     (let options = l2cap_config_req_options mtu flush_time_out;
          sz = sizeof_l2cap_cfg_req_cp + length options
      in inject_filled_l2cap_cmd E hci_con_handle L2CAP_CONFIG_REQ L2CAP_CONFIG_REQ (of_nat sz)
           (le16 remote_cid @ le16 0 @ options))"

text \<open>The options are copied from the buffer of the request, once the message is allocated.\<close>

definition inject_l2cap_config_rsp ::
  "'os ext \<Rightarrow> u16 \<Rightarrow> u16 \<Rightarrow> u8 \<Rightarrow> u8 list \<Rightarrow> nat \<Rightarrow> 'os usb \<Rightarrow> (int \<times> 'os usb) result" where
  "inject_l2cap_config_rsp E hci_con_handle remote_cid ident options options_len u =
     rbind (alloc_l2cap_cmd_msg E hci_con_handle L2CAP_CONFIG_RSP ident
              (of_nat (sizeof_l2cap_cfg_rsp_cp + options_len)) u) (\<lambda>(r, u1).
     case r of
       None \<Rightarrow> Inr (IOS_ENOMEM E, u1)
     | Some (msg, off) \<Rightarrow>
         rbind (read_bytes options 0 options_len) (\<lambda>opts.
         rbind (inj_write msg off (le16 remote_cid @ le16 0 @ le16 L2CAP_SUCCESS @ opts) u1) (\<lambda>u2.
           inject_msg_to_usb_bulk_in_ready_queue E msg u2)))"

section \<open>Specification: the packets on the wire\<close>

datatype usb_endpoint = Intr | Bulk_In

definition hci_event_packet :: "u8 \<Rightarrow> u8 list \<Rightarrow> u8 list" where
  "hci_event_packet event ep = [event, of_nat (length ep)] @ ep"

definition acl_packet :: "u16 \<Rightarrow> u8 list \<Rightarrow> u8 list" where
  "acl_packet h pl =
     le16 (HCI_MK_CON_HANDLE h HCI_PACKET_START HCI_POINT2POINT) @ le16 (of_nat (length pl)) @ pl"

definition l2cap_frame :: "u16 \<Rightarrow> u8 list \<Rightarrow> u8 list" where
  "l2cap_frame dcid pl = le16 (of_nat (length pl)) @ le16 dcid @ pl"

definition l2cap_command :: "u8 \<Rightarrow> u8 \<Rightarrow> u8 list \<Rightarrow> u8 list" where
  "l2cap_command code ident cp = [code, ident] @ le16 (of_nat (length cp)) @ cp"

definition inject_packet ::
  "'os ext \<Rightarrow> usb_endpoint \<Rightarrow> u8 list \<Rightarrow> 'os usb \<Rightarrow> (int \<times> 'os usb) result" where
  "inject_packet E ep pkt u =
     (case injmessage_alloc E (of_nat (length pkt)) u of
        (None, u1) \<Rightarrow> Inr (IOS_ENOMEM E, u1)
      | (Some p, u1) \<Rightarrow>
          (let u2 = u1 \<lparr> inj_store := (inj_store u1)(p \<mapsto>
                 \<lparr> inj_size = of_nat (length pkt), inj_data = pkt \<rparr>) \<rparr>
           in case ep of
                Intr \<Rightarrow> inject_msg_to_usb_intr_ready_queue E p u2
              | Bulk_In \<Rightarrow> inject_msg_to_usb_bulk_in_ready_queue E p u2))"

text \<open>
  A whole packet written into a freshly allocated message does not depend on what the heap
  block held before.  The lemmas below reduce the layered writes of the injectors to it.
\<close>

lemma event_size_eq:
  "n < 256 \<Longrightarrow>
   of_nat sizeof_hci_event_hdr_t + ucast (of_nat n :: u8) = (of_nat (Suc (Suc n)) :: u16)"
  by (rule word_unat_eq_iff [THEN iffD2])
     (simp add: hci_layout unat_word_ariths unsigned_ucast_eq unat_of_nat take_bit_eq_mod)

lemma injmessage_alloc_Some:
  assumes "heap_spec E" and "n < 65536"
    and "injmessage_alloc E (of_nat n) u = (Some p, u1)"
  shows "\<exists>d. inj_store u1 p = Some \<lparr> inj_size = of_nat n, inj_data = d \<rparr> \<and> length d = n"
  using assms(2,3) heap_specD(2) [OF assms(1)]
  by (auto simp: injmessage_alloc_def sizeof_injmessage_def unat_of_nat
      split: prod.splits option.splits)

lemma inj_write_fresh:
  "inj_store u p = Some m \<Longrightarrow> off + length bs \<le> length (inj_data m) \<Longrightarrow>
   inj_write p off bs u = Inr (u \<lparr> inj_store := (inj_store u)(p \<mapsto>
     m \<lparr> inj_data := take off (inj_data m) @ bs @ drop (off + length bs) (inj_data m) \<rparr>) \<rparr>)"
  by (simp add: inj_write_def write_bytes_ok)

lemma inject_filled_event_packet:
  assumes "heap_spec E" and n: "length ep < 256"
  shows "inject_filled_event E event (of_nat (length ep)) ep u =
    inject_packet E Intr (hci_event_packet event ep) u"
proof (cases "injmessage_alloc E (of_nat (Suc (Suc (length ep)))) u")
  case (Pair r u1)
  show ?thesis
  proof (cases r)
    case None
    then show ?thesis using Pair event_size_eq [OF n]
      by (simp add: inject_filled_event_def alloc_hci_event_msg_def
          inject_packet_def hci_event_packet_def del: of_nat_Suc)
  next
    case (Some p)
    with Pair n obtain d where "inj_store u1 p =
        Some \<lparr> inj_size = of_nat (Suc (Suc (length ep))), inj_data = d \<rparr>"
      and "length d = Suc (Suc (length ep))"
      using injmessage_alloc_Some [OF assms(1) _ Pair [unfolded Some]] by auto
    then show ?thesis using Pair Some event_size_eq [OF n]
      by (simp add: inject_filled_event_def alloc_hci_event_msg_def
          inject_packet_def hci_event_packet_def inj_write_fresh hci_layout del: of_nat_Suc)
  qed
qed

lemma inject_event_packetI:
  "heap_spec E \<Longrightarrow> n = of_nat (length ep) \<Longrightarrow> length ep < 256 \<Longrightarrow>
   inject_filled_event E event n ep u = inject_packet E Intr (hci_event_packet event ep) u"
  by (simp add: inject_filled_event_packet)

lemma length_l2cap_command [simp]: "length (l2cap_command code ident cp) = 4 + length cp"
  by (simp add: l2cap_command_def)

lemma length_l2cap_frame [simp]: "length (l2cap_frame dcid pl) = 4 + length pl"
  by (simp add: l2cap_frame_def)

lemma length_acl_packet [simp]: "length (acl_packet h pl) = 4 + length pl"
  by (simp add: acl_packet_def)

lemma alloc_l2cap_msg_packet:
  assumes "heap_spec E" and n: "n < 65528"
    and alloc: "injmessage_alloc E (of_nat (8 + n)) u = (r, u1)"
  shows "\<exists>u2. alloc_l2cap_msg E h dcid (of_nat n) u = Inr (map_option (\<lambda>p. (p, 8)) r, u2) \<and>
    (case r of None \<Rightarrow> u2 = u1 | Some p \<Rightarrow> (\<exists>d. length d = n \<and>
       u2 = u1 \<lparr> inj_store := (inj_store u1)(p \<mapsto> \<lparr> inj_size = of_nat (8 + n),
         inj_data = le16 (HCI_MK_CON_HANDLE h HCI_PACKET_START HCI_POINT2POINT) @
           le16 (of_nat (4 + n)) @ le16 (of_nat n) @ le16 dcid @ d \<rparr>) \<rparr>))"
proof (cases r)
  case None
  with alloc show ?thesis
    by (simp add: alloc_l2cap_msg_def alloc_hci_acl_msg_def c_consts add.assoc [symmetric])
next
  case (Some p)
  obtain d where d: "inj_store u1 p = Some \<lparr> inj_size = of_nat (8 + n), inj_data = d \<rparr>"
    "length d = 8 + n"
    using injmessage_alloc_Some [OF assms(1) _ alloc [unfolded Some]] n by auto
  have "drop 8 d = drop 2 (drop 6 d)" "length (drop 8 d) = n" using d(2) by auto
  with alloc Some d show ?thesis
    by (auto simp: alloc_l2cap_msg_def alloc_hci_acl_msg_def c_consts add.assoc [symmetric]
        inj_write_fresh take_Suc_conv_app_nth intro!: exI [of _ "drop 8 d"])
qed

lemma inject_l2cap_packet_wire:
  assumes spec: "heap_spec E" and n: "length data < 65528"
  shows "inject_l2cap_packet E h dcid data u =
    inject_packet E Bulk_In (acl_packet h (l2cap_frame dcid data)) u"
proof (cases "injmessage_alloc E (of_nat (8 + length data)) u")
  case (Pair r u1)
  from alloc_l2cap_msg_packet [OF spec n Pair, of h dcid] Pair show ?thesis
    by (cases r) (auto simp: inject_l2cap_packet_def inject_packet_def inj_write_fresh
        acl_packet_def l2cap_frame_def add.assoc)
qed

lemma inject_l2cap_cmd_wire:
  assumes spec: "heap_spec E" and n: "n = of_nat (length cp)" and len: "length cp < 65524"
  shows "inject_filled_l2cap_cmd E h code ident n cp u =
    inject_packet E Bulk_In
      (acl_packet h (l2cap_frame L2CAP_SIGNAL_CID (l2cap_command code ident cp))) u"
proof (cases "injmessage_alloc E (of_nat (8 + (4 + length cp))) u")
  case (Pair r u1)
  from len have "4 + length cp < 65528" by simp
  from alloc_l2cap_msg_packet [OF spec this Pair, of h L2CAP_SIGNAL_CID] Pair n show ?thesis
    by (cases r) (auto simp: inject_filled_l2cap_cmd_def alloc_l2cap_cmd_msg_def
        inject_packet_def inj_write_fresh sizeof_l2cap_cmd_hdr_t_def l2cap_cmd_hdr_t_code_def
        l2cap_cmd_hdr_t_ident_def l2cap_cmd_hdr_t_length_def
        acl_packet_def l2cap_frame_def l2cap_command_def add.assoc)
qed

section \<open>The injectors send their wire packets\<close>

named_theorems inj_wire \<open>an injector is the injection of its packet\<close>

lemma command_status_wire [inj_wire]:
  "heap_spec E \<Longrightarrow> inject_hci_event_command_status E opcode u =
     inject_packet E Intr (hci_event_packet HCI_EVENT_COMMAND_STATUS ([0, 1] @ le16 opcode)) u"
  by (simp add: inject_hci_event_command_status_def inject_event_packetI hci_layout)

lemma command_compl_wire [inj_wire]:
  "heap_spec E \<Longrightarrow> length payload < 253 \<Longrightarrow>
   inject_hci_event_command_compl E opcode payload u =
     inject_packet E Intr (hci_event_packet HCI_EVENT_COMMAND_COMPL
       ([1] @ le16 opcode @ payload)) u"
  using inject_event_packetI [of E _ "[1] @ le16 opcode @ payload"]
  by (simp add: inject_hci_event_command_compl_def hci_layout)

lemma con_req_wire [inj_wire]:
  "heap_spec E \<Longrightarrow> length ba = 6 \<Longrightarrow>
   inject_hci_event_con_req E ba c0 c1 c2 link_type u =
     inject_packet E Intr (hci_event_packet HCI_EVENT_CON_REQ (ba @ [c0, c1, c2, link_type])) u"
  by (simp add: inject_hci_event_con_req_def inject_event_packetI hci_layout)

lemma discon_compl_wire [inj_wire]:
  "heap_spec E \<Longrightarrow> inject_hci_event_discon_compl E con_handle status reason u =
     inject_packet E Intr (hci_event_packet HCI_EVENT_DISCON_COMPL
       ([status] @ le16 con_handle @ [reason])) u"
  by (simp add: inject_hci_event_discon_compl_def inject_event_packetI hci_layout)

lemma con_compl_wire [inj_wire]:
  "heap_spec E \<Longrightarrow> length ba = 6 \<Longrightarrow>
   inject_hci_event_con_compl E ba con_handle status u =
     inject_packet E Intr (hci_event_packet HCI_EVENT_CON_COMPL
       ([status] @ le16 con_handle @ ba @ [HCI_LINK_ACL, HCI_ENCRYPTION_MODE_NONE])) u"
  by (simp add: inject_hci_event_con_compl_def inject_event_packetI hci_layout)

lemma role_change_wire [inj_wire]:
  "heap_spec E \<Longrightarrow> length ba = 6 \<Longrightarrow>
   inject_hci_event_role_change E ba role u =
     inject_packet E Intr (hci_event_packet HCI_EVENT_ROLE_CHANGE ([0] @ ba @ [role])) u"
  by (simp add: inject_hci_event_role_change_def inject_event_packetI hci_layout)

lemma length_concat_pairs:
  "(\<And>x. x \<in> set xs \<Longrightarrow> length (f x) = k) \<Longrightarrow> length (concat (map f xs)) = length xs * k"
  by (induction xs) auto

lemma num_compl_pkts_wire [inj_wire]:
  assumes "heap_spec E" and "length infos < 64"
  shows "inject_hci_event_num_compl_pkts E infos u =
     inject_packet E Intr (hci_event_packet HCI_EVENT_NUM_COMPL_PKTS
       ([of_nat (length infos)] @ concat (map (\<lambda>(h, n). le16 h @ le16 n) infos))) u"
proof -
  have len: "length (concat (map (\<lambda>(h, n). le16 h @ le16 n) infos)) = length infos * 4"
    by (rule length_concat_pairs) auto
  then show ?thesis unfolding inject_hci_event_num_compl_pkts_def
    by (intro inject_event_packetI [OF assms(1)])
      (use assms(2) in \<open>simp_all add: hci_layout len\<close>)
qed

lemma mode_change_wire [inj_wire]:
  "heap_spec E \<Longrightarrow> inject_hci_event_mode_change E con_handle unit_mode interval u =
     inject_packet E Intr (hci_event_packet HCI_EVENT_MODE_CHANGE
       ([0] @ le16 con_handle @ [unit_mode] @ le16 interval)) u"
  by (simp add: inject_hci_event_mode_change_def inject_event_packetI hci_layout)

lemma return_link_keys_wire [inj_wire]:
  assumes "heap_spec E" and "length keys < 11"
    and keys: "\<And>b k. (b, k) \<in> set keys \<Longrightarrow> length b = 6 \<and> length k = 16"
  shows "inject_hci_event_return_link_keys E keys u =
     inject_packet E Intr (hci_event_packet HCI_EVENT_RETURN_LINK_KEYS
       ([of_nat (length keys)] @ concat (map (\<lambda>(b, k). b @ k) keys))) u"
proof -
  have len: "length (concat (map (\<lambda>(b, k). b @ k) keys)) = length keys * 22"
    by (rule length_concat_pairs) (use keys in auto)
  then show ?thesis unfolding inject_hci_event_return_link_keys_def
    by (intro inject_event_packetI [OF assms(1)])
      (use assms(2) in \<open>simp_all add: hci_layout HCI_KEY_SIZE_def BDADDR_SIZE_def len\<close>)
qed

lemma con_pkt_type_changed_wire [inj_wire]:
  "heap_spec E \<Longrightarrow> inject_hci_event_con_pkt_type_changed E con_handle pkt_type u =
     inject_packet E Intr (hci_event_packet HCI_EVENT_CON_PKT_TYPE_CHANGED
       ([0] @ le16 con_handle @ le16 pkt_type)) u"
  by (simp add: inject_hci_event_con_pkt_type_changed_def inject_event_packetI hci_layout)

lemma auth_compl_wire [inj_wire]:
  "heap_spec E \<Longrightarrow> inject_hci_event_auth_compl E status con_handle u =
     inject_packet E Intr (hci_event_packet HCI_EVENT_AUTH_COMPL ([status] @ le16 con_handle)) u"
  by (simp add: inject_hci_event_auth_compl_def inject_event_packetI hci_layout)

lemma read_remote_features_compl_wire [inj_wire]:
  "heap_spec E \<Longrightarrow> length features = 8 \<Longrightarrow>
   inject_hci_event_read_remote_features_compl E con_handle features u =
     inject_packet E Intr (hci_event_packet HCI_EVENT_READ_REMOTE_FEATURES_COMPL
       ([0] @ le16 con_handle @ features)) u"
  by (simp add: inject_hci_event_read_remote_features_compl_def inject_event_packetI hci_layout
      HCI_FEATURES_SIZE_def)

lemma read_remote_ver_info_compl_wire [inj_wire]:
  "heap_spec E \<Longrightarrow>
   inject_hci_event_read_remote_ver_info_compl E con_handle lmp_version manufacturer
       lmp_subversion u =
     inject_packet E Intr (hci_event_packet HCI_EVENT_READ_REMOTE_VER_INFO_COMPL
       ([0] @ le16 con_handle @ [lmp_version] @ le16 manufacturer @ le16 lmp_subversion)) u"
  by (simp add: inject_hci_event_read_remote_ver_info_compl_def inject_event_packetI hci_layout)

lemma read_clock_offset_compl_wire [inj_wire]:
  "heap_spec E \<Longrightarrow> inject_hci_event_read_clock_offset_compl E con_handle clock_offset u =
     inject_packet E Intr (hci_event_packet HCI_EVENT_READ_CLOCK_OFFSET_COMPL
       ([0] @ le16 con_handle @ le16 clock_offset)) u"
  by (simp add: inject_hci_event_read_clock_offset_compl_def inject_event_packetI hci_layout)

text \<open>A signalling command is framed three times: command, L2CAP and ACL headers.\<close>

definition l2cap_signal_packet :: "u16 \<Rightarrow> u8 \<Rightarrow> u8 \<Rightarrow> u8 list \<Rightarrow> u8 list" where
  "l2cap_signal_packet h code ident cp =
     acl_packet h (l2cap_frame L2CAP_SIGNAL_CID (l2cap_command code ident cp))"

lemma connect_req_wire [inj_wire]:
  "heap_spec E \<Longrightarrow> inject_l2cap_connect_req E h psm scid u =
     inject_packet E Bulk_In
       (l2cap_signal_packet h L2CAP_CONNECT_REQ L2CAP_CONNECT_REQ (le16 psm @ le16 scid)) u"
  by (simp add: inject_l2cap_connect_req_def inject_l2cap_cmd_wire l2cap_signal_packet_def
      sizeof_l2cap_con_req_cp_def)

lemma disconnect_req_wire [inj_wire]:
  "heap_spec E \<Longrightarrow> inject_l2cap_disconnect_req E h dcid scid u =
     inject_packet E Bulk_In
       (l2cap_signal_packet h L2CAP_DISCONNECT_REQ L2CAP_DISCONNECT_REQ (le16 dcid @ le16 scid)) u"
  by (simp add: inject_l2cap_disconnect_req_def inject_l2cap_cmd_wire l2cap_signal_packet_def
      sizeof_l2cap_discon_req_cp_def)

lemma disconnect_rsp_wire [inj_wire]:
  "heap_spec E \<Longrightarrow> inject_l2cap_disconnect_rsp E h ident dcid scid u =
     inject_packet E Bulk_In
       (l2cap_signal_packet h L2CAP_DISCONNECT_RSP ident (le16 dcid @ le16 scid)) u"
  by (simp add: inject_l2cap_disconnect_rsp_def inject_l2cap_cmd_wire l2cap_signal_packet_def
      sizeof_l2cap_discon_req_cp_def sizeof_l2cap_discon_rsp_cp_def)

lemma config_req_wire [inj_wire]:
  "heap_spec E \<Longrightarrow> inject_l2cap_config_req E h remote_cid mtu flush_time_out u =
     inject_packet E Bulk_In
       (l2cap_signal_packet h L2CAP_CONFIG_REQ L2CAP_CONFIG_REQ
         (le16 remote_cid @ le16 0 @ l2cap_config_req_options mtu flush_time_out)) u"
  unfolding inject_l2cap_config_req_def Let_def l2cap_signal_packet_def
  by (rule inject_l2cap_cmd_wire)
     (auto simp: sizeof_l2cap_cfg_req_cp_def l2cap_config_req_options_def)

lemma config_rsp_wire [inj_wire]:
  assumes "heap_spec E" and "n < 65518" and "n \<le> length options"
  shows "inject_l2cap_config_rsp E h remote_cid ident options n u =
     inject_packet E Bulk_In
       (l2cap_signal_packet h L2CAP_CONFIG_RSP ident
         (le16 remote_cid @ le16 0 @ le16 L2CAP_SUCCESS @ take n options)) u"
proof -
  have opts: "read_bytes options 0 n = Inr (take n options)"
    using assms(3) by (simp add: read_bytes_def)
  have "inject_l2cap_config_rsp E h remote_cid ident options n u =
    inject_filled_l2cap_cmd E h L2CAP_CONFIG_RSP ident (of_nat (sizeof_l2cap_cfg_rsp_cp + n))
      (le16 remote_cid @ le16 0 @ le16 L2CAP_SUCCESS @ take n options) u"
    unfolding inject_l2cap_config_rsp_def inject_filled_l2cap_cmd_def opts rbind_Inr ..
  also have "\<dots> = inject_packet E Bulk_In
       (l2cap_signal_packet h L2CAP_CONFIG_RSP ident
         (le16 remote_cid @ le16 0 @ le16 L2CAP_SUCCESS @ take n options)) u"
    unfolding l2cap_signal_packet_def
    by (rule inject_l2cap_cmd_wire [OF assms(1)])
       (use assms in \<open>auto simp: sizeof_l2cap_cfg_rsp_cp_def\<close>)
  finally show ?thesis .
qed

declare inject_l2cap_packet_wire [inj_wire]

end
