(* ===== verification/Sample_Ext.thy ===== *)
theory Sample_Ext
  imports Usb_Queues
begin

text \<open>
  One concrete outside world, on which the witnesses of the development are evaluated: message
  queues are lists with a capacity, the heap hands out consecutive blocks of the message array
  until it is used up and never takes one back, acknowledged messages are recorded, files and
  game controllers are absent.  It satisfies the documented behaviour that the properties assume.
\<close>

record sample_os =
  so_queues :: "int \<Rightarrow> ptr list"
  so_used :: nat
  so_acked :: "(ptr \<times> int) list"
  so_created :: int

definition sample_capacity :: "int \<Rightarrow> nat" where
  "sample_capacity q = (if q < 2 then 8 else 16)"

definition sample_heap_alloc ::
  "int \<Rightarrow> nat \<Rightarrow> sample_os \<Rightarrow> (ptr \<times> u8 list) option \<times> sample_os" where
  "sample_heap_alloc h n os =
     (if so_used os + n < INJMESSAGE_HEAP_SIZE
      then (Some (0x1000 + of_nat (so_used os), replicate n 0xAA),
            os \<lparr> so_used := so_used os + max 1 n \<rparr>)
      else (None, os))"

definition sample_receive :: "int \<Rightarrow> u32 \<Rightarrow> sample_os \<Rightarrow> int \<times> ptr \<times> sample_os" where
  "sample_receive q flags os =
     (case so_queues os q of
        [] \<Rightarrow> (- 8, 0, os)
      | x # xs \<Rightarrow> (0, x, os \<lparr> so_queues := (so_queues os)(q := xs) \<rparr>))"

definition sample_send :: "int \<Rightarrow> ptr \<Rightarrow> u32 \<Rightarrow> sample_os \<Rightarrow> int \<times> sample_os" where
  "sample_send q m flags os =
     (if length (so_queues os q) < sample_capacity q
      then (0, os \<lparr> so_queues := (so_queues os)(q := so_queues os q @ [m]) \<rparr>)
      else (- 8, os))"

definition sample_ack :: "ptr \<Rightarrow> int \<Rightarrow> sample_os \<Rightarrow> int \<times> sample_os" where
  "sample_ack m r os = (0, os \<lparr> so_acked := so_acked os @ [(m, r)] \<rparr>)"

text \<open>The index of the first difference, or the size.\<close>

fun sample_mismatch :: "u8 list \<Rightarrow> u8 list \<Rightarrow> nat \<Rightarrow> nat" where
  "sample_mismatch (x # xs) (y # ys) (Suc n) = (if x = y then Suc (sample_mismatch xs ys n) else 0)"
| "sample_mismatch _ _ n = n"

primrec sample_button :: "egc_button \<Rightarrow> nat" where
  "sample_button BUTTON_NORTH = 0"
| "sample_button BUTTON_EAST = 1"
| "sample_button BUTTON_SOUTH = 2"
| "sample_button BUTTON_WEST = 3"
| "sample_button BUTTON_DPAD_UP = 4"
| "sample_button BUTTON_DPAD_DOWN = 5"
| "sample_button BUTTON_DPAD_LEFT = 6"
| "sample_button BUTTON_DPAD_RIGHT = 7"
| "sample_button BUTTON_START = 8"
| "sample_button BUTTON_BACK = 9"
| "sample_button BUTTON_LEFT_STICK = 10"
| "sample_button BUTTON_RIGHT_STICK = 11"
| "sample_button BUTTON_LEFT_SHOULDER = 12"
| "sample_button BUTTON_RIGHT_SHOULDER = 13"
| "sample_button BUTTON_LEFT_PADDLE1 = 14"
| "sample_button BUTTON_RIGHT_PADDLE1 = 15"

primrec sample_axis :: "egc_axis \<Rightarrow> nat" where
  "sample_axis AXIS_LEFTX = 0"
| "sample_axis AXIS_LEFTY = 1"
| "sample_axis AXIS_RIGHTX = 2"
| "sample_axis AXIS_RIGHTY = 3"

definition sample_gamepad :: egc_gamepad where
  "sample_gamepad = \<lparr> egc_buttons = 0, egc_axes = [0, 0, 0, 0],
     egc_accelerometer_0 = (0, 0, 0), egc_touch_point_0 = (0, 0) \<rparr>"

definition sample_device :: egc_input_device where
  "sample_device = \<lparr> egc_desc = \<lparr> available_buttons = 0xFFFF, num_touch_points = 0,
       num_accelerometers = 0 \<rparr>, egc_state = sample_gamepad \<rparr>"

definition sample_ext :: "sample_os ext" where
  "sample_ext = \<lparr> IOS_OK = 0, IOS_ENOMEM = - 22, IOS_IOCTLV = 7, IOS_MESSAGE_NOBLOCK = 1,
     injmessages_heap_data = 0x1000, usb_intr_hand_down_msg = 0x8000,
     usb_bulk_in_hand_down_msg = 0x8100, periodic_timer_cookie = 0x8200,
     os_heap_alloc = sample_heap_alloc, os_heap_free = (\<lambda>h p os. os),
     os_message_queue_receive = sample_receive, os_message_queue_send = sample_send,
     os_message_queue_ack = sample_ack,
     egc_input_device_suspend = (\<lambda>p os. (0, os)), egc_input_device_resume = (\<lambda>p os. (0, os)),
     egc_input_device_set_leds = (\<lambda>p n os. (0, os)), egc_input_device_set_rumble = (\<lambda>p n os. (0, os)),
     egc_handle_events = (\<lambda>os. (\<lambda>_. sample_device, [], os)),
     EGC_GAMEPAD_BUTTON = sample_button, EGC_GAMEPAD_BUTTON_COUNT = 16,
     EGC_GAMEPAD_AXIS = sample_axis, EGC_GAMEPAD_AXIS_COUNT = 4, EGC_GAMEPAD_TOUCH_RES = 4096,
     EGC_RUMBLE_MAX = 255, EGC_RUMBLE_OFF = 0, uninit = (\<lambda>os n. 0xAA),
     os_heap_create = (\<lambda>os. (1, os)),
     os_message_queue_create = (\<lambda>n os. (so_created os, os \<lparr> so_created := so_created os + 1 \<rparr>)),
     os_create_timer = (\<lambda>os. (1, os)), egc_initialize = (\<lambda>os. os),
     IOS_EINVAL = - 4, IOS_OPEN_READ = 1, IOS_OPEN_WRITE = 2,
     os_open = (\<lambda>path mode os. (- 6, os)), os_read = (\<lambda>fd n os. (- 4, [], os)),
     os_write = (\<lambda>fd bs os. (- 4, os)), os_close = (\<lambda>fd os. os),
     memmismatch = sample_mismatch, reverse_memcpy = (\<lambda>src n. rev (take n src)) \<rparr>"

lemma sample_ext_sel [simp]:
  "IOS_OK sample_ext = 0" "IOS_ENOMEM sample_ext = - 22" "IOS_IOCTLV sample_ext = 7"
  "IOS_MESSAGE_NOBLOCK sample_ext = 1" "injmessages_heap_data sample_ext = 0x1000"
  "usb_intr_hand_down_msg sample_ext = 0x8000" "usb_bulk_in_hand_down_msg sample_ext = 0x8100"
  "periodic_timer_cookie sample_ext = 0x8200"
  "os_heap_alloc sample_ext = sample_heap_alloc" "os_heap_free sample_ext h p os = os"
  "os_message_queue_receive sample_ext = sample_receive"
  "os_message_queue_send sample_ext = sample_send"
  "os_message_queue_ack sample_ext = sample_ack"
  "egc_input_device_suspend sample_ext d os = (0, os)"
  "egc_input_device_resume sample_ext d os = (0, os)"
  "egc_input_device_set_leds sample_ext d n os = (0, os)"
  "egc_input_device_set_rumble sample_ext d n os = (0, os)"
  "EGC_GAMEPAD_BUTTON sample_ext = sample_button" "EGC_GAMEPAD_BUTTON_COUNT sample_ext = 16"
  "EGC_GAMEPAD_AXIS sample_ext = sample_axis" "EGC_GAMEPAD_AXIS_COUNT sample_ext = 4"
  "uninit sample_ext os k = 0xAA"
  "memmismatch sample_ext = sample_mismatch"
  "reverse_memcpy sample_ext src k = rev (take k src)"
  by (simp_all add: sample_ext_def)

lemma sample_heap_spec [simp]: "heap_spec sample_ext"
  unfolding heap_spec_def
proof (intro conjI allI impI)
  fix h n os p init os'
  assume "os_heap_alloc sample_ext h n os = (Some (p, init), os')"
  then have a: "so_used os + n < 4096" "p = 0x1000 + of_nat (so_used os)" "init = replicate n 0xAA"
    by (auto simp: sample_heap_alloc_def INJMESSAGE_HEAP_SIZE_def split: if_splits)
  then have "unat p = 4096 + so_used os"
    by (simp add: unat_word_ariths unat_of_nat)
  with a show "length init = n" "injmessages_heap_data sample_ext \<le> p"
    "unat p < unat (injmessages_heap_data sample_ext) + INJMESSAGE_HEAP_SIZE"
    by (simp_all add: word_le_nat_alt INJMESSAGE_HEAP_SIZE_def)
qed (simp_all add: INJMESSAGE_HEAP_SIZE_def)

lemma sample_queue_spec [simp]: "queue_spec sample_ext so_queues sample_capacity"
  unfolding queue_spec_def
  by (auto simp: sample_receive_def sample_send_def sample_ack_def sample_heap_alloc_def
      split: list.splits if_splits)

lemma sample_egc_spec [simp]: "egc_spec sample_ext"
proof -
  have "inj sample_button"
    by (rule injI) (rename_tac a b, case_tac a; case_tac b; simp)
  moreover have "range sample_button \<subseteq> {..<16}"
    by (rule image_subsetI) (rename_tac a, case_tac a; simp)
  moreover have "inj sample_axis"
    by (rule injI) (rename_tac a b, case_tac a; case_tac b; simp)
  moreover have "range sample_axis \<subseteq> {..<4}"
    by (rule image_subsetI) (rename_tac a, case_tac a; simp)
  ultimately show ?thesis
    by (simp add: egc_spec_def sample_ext_def)
qed

text \<open>The plumbing state with given queues and messages.\<close>

definition sample_os0 :: sample_os where
  "sample_os0 = \<lparr> so_queues = (\<lambda>_. []), so_used = 0, so_acked = [], so_created = 0 \<rparr>"

definition sample_usb :: "sample_os usb" where
  "sample_usb = \<lparr> os_state = sample_os0, injmessages_heap_id = 1, inj_store = (\<lambda>_. None),
     ipc_store = (\<lambda>_. None), ready_usb_intr_msg_queue_id = 0, pending_usb_intr_msg_queue_id = 1,
     ready_usb_bulk_in_msg_queue_id = 2, pending_usb_bulk_in_msg_queue_id = 3,
     usb_intr_hand_down_msg_pending = False, usb_bulk_in_hand_down_msg_pending = False \<rparr>"

lemma sample_usb_sel [simp]:
  "os_state sample_usb = sample_os0" "injmessages_heap_id sample_usb = 1"
  "inj_store sample_usb = (\<lambda>_. None)" "ipc_store sample_usb = (\<lambda>_. None)"
  "ready_usb_intr_msg_queue_id sample_usb = 0" "pending_usb_intr_msg_queue_id sample_usb = 1"
  "ready_usb_bulk_in_msg_queue_id sample_usb = 2" "pending_usb_bulk_in_msg_queue_id sample_usb = 3"
  "so_queues sample_os0 q = []" "so_used sample_os0 = 0" "so_acked sample_os0 = []"
  by (simp_all add: sample_usb_def sample_os0_def)

text \<open>A host read with a buffer of \<open>n\<close> bytes.\<close>

definition sample_read :: "nat \<Rightarrow> ipcmessage" where
  "sample_read n = \<lparr> ipc_command = 7, ipc_result = 0, ipc_fd = 5, ioctlv_command = 2,
     ioctlv_num_in = 2, ioctlv_num_io = 1,
     ioctlv_vector = [\<lparr> vec_data = [0x81], vec_len = 1 \<rparr>, \<lparr> vec_data = be16 (of_nat n), vec_len = 2 \<rparr>,
       \<lparr> vec_data = replicate n 0, vec_len = n \<rparr>] \<rparr>"

end
