(* ===== verification/Delivery.thy ===== *)
theory Delivery
  imports Usb_Channel Injmessage Sample_Ext
begin

text \<open>
  What the plumbing of \<open>source/main.c\<close> and the injectors of \<open>source/injmessage.c\<close> promise
  together: an injected packet reaches exactly one read of the host, in order, byte for byte and
  with its length as the result; nothing of the heap's old contents is visible; and a read that
  cannot be served goes to the dongle at most once.
\<close>

section \<open>One delivery\<close>

text \<open>The buffer of a read, and the read after \<open>d\<close> was copied to the front of its buffer.\<close>

definition read_room :: "ipcmessage \<Rightarrow> nat \<Rightarrow> bool" where
  "read_room pm n \<longleftrightarrow> 2 < length (ioctlv_vector pm) \<and> n \<le> length (vec_data (ioctlv_vector pm ! 2))"

definition filled_read :: "ipcmessage \<Rightarrow> u8 list \<Rightarrow> ipcmessage" where
  "filled_read pm d =
     (let v = ioctlv_vector pm ! 2
      in pm \<lparr> ioctlv_vector := (ioctlv_vector pm)
           [2 := v \<lparr> vec_data := d @ drop (length d) (vec_data v) \<rparr>] \<rparr>)"

text \<open>The state after read \<open>p\<close> was answered with message \<open>q\<close>, whose data is \<open>d\<close>.\<close>

definition answered :: "'os ext \<Rightarrow> ptr \<Rightarrow> ptr \<Rightarrow> u8 list \<Rightarrow> ipcmessage \<Rightarrow> 'os usb \<Rightarrow> int \<times> 'os usb" where
  "answered E p q d pm u =
     ack_message E p (int (length d))
       (injmessage_free E q (u \<lparr> ipc_store := (ipc_store u)(p \<mapsto> filled_read pm d) \<rparr>))"

lemma copy_data_filled:
  assumes "unat len = length d" and "read_room pm (length d)"
  shows "copy_data_to_ipcmessage pm d len = Inr (filled_read pm d)"
  using assms by (simp add: copy_data_to_ipcmessage_def get_vec_def read_room_def
      read_bytes_def write_bytes_def filled_read_def Let_def)

lemma copy_and_ack_injected:
  assumes "is_message_injected E q"
    and "inj_store u q = Some \<lparr> inj_size = of_nat (length d), inj_data = d \<rparr>"
    and "length d < 65536" and "ipc_store u p = Some pm" and "read_room pm (length d)"
  shows "copy_and_ack_ipcmessage E p q u = Inr (answered E p q d pm u)"
proof -
  have n: "unat (of_nat (length d) :: u16) = length d" "uint (of_nat (length d) :: u16) = int (length d)"
    using assms(3) by (simp_all add: unat_of_nat uint_nat)
  show ?thesis using assms(1,2,4) copy_data_filled [OF n(1) assms(5)] n(2)
    by (simp add: copy_and_ack_ipcmessage_def answered_def del: of_nat_unat)
qed

lemma answered_frame:
  assumes "queue_spec E contents cap"
  shows "contents (os_state (snd (answered E p q d pm u))) = contents (os_state u)"
    and "ipc_store (snd (answered E p q d pm u)) = (ipc_store u)(p \<mapsto> filled_read pm d)"
    and "inj_store (snd (answered E p q d pm u)) = (inj_store u)(q := None)"
  using ack_message_contents [OF assms] queue_specD(7) [OF assms]
  by (simp_all add: answered_def injmessage_free_def)

lemma alloc_injected:
  assumes "heap_spec E" and "injmessage_alloc E n u = (Some q, u1)"
  shows "is_message_injected E q"
  using assms(2) heap_specD(3,4) [OF assms(1)]
  by (auto simp: injmessage_alloc_def is_message_injected_def split: prod.splits option.splits)

lemma injmessage_alloc_frame:
  assumes "queue_spec E contents cap" and "injmessage_alloc E n u = (r, u1)"
  shows "contents (os_state u1) = contents (os_state u)" and "ipc_store u1 = ipc_store u"
    and "pending_usb_intr_msg_queue_id u1 = pending_usb_intr_msg_queue_id u"
    and "ready_usb_intr_msg_queue_id u1 = ready_usb_intr_msg_queue_id u"
    and "pending_usb_bulk_in_msg_queue_id u1 = pending_usb_bulk_in_msg_queue_id u"
    and "ready_usb_bulk_in_msg_queue_id u1 = ready_usb_bulk_in_msg_queue_id u"
  using assms(2)
    queue_specD(6) [OF assms(1), of "injmessages_heap_id u" "sizeof_injmessage + unat n" "os_state u"]
  by (auto simp: injmessage_alloc_def split: prod.splits option.splits)

section \<open>The queues of an endpoint\<close>

primrec pending_queue :: "usb_endpoint \<Rightarrow> 'os usb \<Rightarrow> int" where
  "pending_queue Intr u = pending_usb_intr_msg_queue_id u"
| "pending_queue Bulk_In u = pending_usb_bulk_in_msg_queue_id u"

primrec ready_queue :: "usb_endpoint \<Rightarrow> 'os usb \<Rightarrow> int" where
  "ready_queue Intr u = ready_usb_intr_msg_queue_id u"
| "ready_queue Bulk_In u = ready_usb_bulk_in_msg_queue_id u"

lemma inject_packet_alloc:
  assumes "injmessage_alloc E (of_nat (length pkt)) u = (Some q, u1)"
  shows "inject_packet E ep pkt u =
    (let u2 = u1 \<lparr> inj_store := (inj_store u1)(q \<mapsto>
           \<lparr> inj_size = of_nat (length pkt), inj_data = pkt \<rparr>) \<rparr>
     in handle_bulk_intr_ready_message E q (pending_queue ep u2) (ready_queue ep u2) u2)"
  using assms
  by (cases ep) (simp_all add: inject_packet_def inject_msg_to_usb_intr_ready_queue_def
      inject_msg_to_usb_bulk_in_ready_queue_def Let_def)

lemma ready_message_waiting:
  assumes spec: "queue_spec E contents cap" and "contents (os_state u) pq = p # ps"
  shows "\<exists>u1. handle_bulk_intr_ready_message E q pq rq u = copy_and_ack_ipcmessage E p q u1 \<and>
    contents (os_state u1) = (contents (os_state u))(pq := ps) \<and> u1 = u \<lparr> os_state := os_state u1 \<rparr>"
proof -
  obtain r m u1 where rcv: "queue_receive E pq u = (r, m, u1)" by (metis prod_cases3)
  with queue_receive_Cons [OF assms rcv] queue_receive_frame [OF rcv] show ?thesis
    by (auto simp: handle_bulk_intr_ready_message_def)
qed

lemma pending_message_ready:
  assumes spec: "queue_spec E contents cap" and "contents (os_state u) rq = q # qs"
  shows "\<exists>u1. handle_bulk_intr_pending_message E p n rq pq h flag fwd u =
      rbind (copy_and_ack_ipcmessage E p q u1) (\<lambda>(ret, u2). Inr (ret, None, flag, False, u2)) \<and>
    contents (os_state u1) = (contents (os_state u))(rq := qs) \<and> u1 = u \<lparr> os_state := os_state u1 \<rparr>"
proof -
  obtain r m u1 where rcv: "queue_receive E rq u = (r, m, u1)" by (metis prod_cases3)
  with queue_receive_Cons [OF assms rcv] queue_receive_frame [OF rcv] show ?thesis
    by (auto simp: handle_bulk_intr_pending_message_def)
qed

text \<open>A packet injected while the host waits goes to the oldest waiting read, byte for byte, the
  read is taken off the queue and acknowledged with the length of the packet, and the message is
  given back to the heap.\<close>

lemma injected_packet_delivered:
  assumes spec: "heap_spec E" "queue_spec E contents cap"
    and alloc: "injmessage_alloc E (of_nat (length pkt)) u = (Some q, u1)" "length pkt < 65536"
    and waiting: "contents (os_state u) (pending_queue ep u) = p # ps"
    and reader: "ipc_store u p = Some pm" "read_room pm (length pkt)"
  shows "\<exists>u2. inject_packet E ep pkt u = Inr (answered E p q pkt pm u2) \<and>
    contents (os_state (snd (answered E p q pkt pm u2))) =
      (contents (os_state u))(pending_queue ep u := ps) \<and>
    ipc_store (snd (answered E p q pkt pm u2)) = (ipc_store u)(p \<mapsto> filled_read pm pkt) \<and>
    inj_store (snd (answered E p q pkt pm u2)) q = None"
proof -
  define v where "v = u1 \<lparr> inj_store := (inj_store u1)(q \<mapsto>
    \<lparr> inj_size = of_nat (length pkt), inj_data = pkt \<rparr>) \<rparr>"
  have v: "contents (os_state v) = contents (os_state u)" "ipc_store v = ipc_store u"
    "pending_queue ep v = pending_queue ep u"
    using injmessage_alloc_frame [OF spec(2) alloc(1)] by (cases ep; simp add: v_def)+
  obtain w where w: "handle_bulk_intr_ready_message E q (pending_queue ep v) (ready_queue ep v) v =
      copy_and_ack_ipcmessage E p q w"
    "contents (os_state w) = (contents (os_state v))(pending_queue ep v := ps)"
    "w = v \<lparr> os_state := os_state w \<rparr>"
    using ready_message_waiting [OF spec(2)] waiting v by metis
  have "inj_store w = inj_store v" "ipc_store w = ipc_store v"
    using w(3) by (metis usb.select_convs(3) usb.surjective usb.update_convs(1))
      (metis w(3) usb.select_convs(4) usb.surjective usb.update_convs(1))
  then have "copy_and_ack_ipcmessage E p q w = Inr (answered E p q pkt pm w)"
    using alloc_injected [OF spec(1) alloc(1)] alloc(2) reader v(2)
    by (intro copy_and_ack_injected) (simp_all add: v_def)
  with w v inject_packet_alloc [OF alloc(1), of ep] answered_frame [OF spec(2)]
    \<open>ipc_store w = ipc_store v\<close> show ?thesis
    by (auto simp: v_def Let_def intro!: exI [of _ w])
qed

lemma sample_alloc:
  "so_used (os_state u) + (2 + unat n) < 4096 \<Longrightarrow>
   injmessage_alloc sample_ext n u =
     (Some (0x1000 + of_nat (so_used (os_state u))),
      u \<lparr> os_state := (os_state u) \<lparr> so_used := so_used (os_state u) + (2 + unat n) \<rparr>,
          inj_store := (inj_store u)(0x1000 + of_nat (so_used (os_state u)) \<mapsto>
            \<lparr> inj_size = n, inj_data = replicate (unat n) 0xAA \<rparr>) \<rparr>)"
  by (simp add: injmessage_alloc_def sample_heap_alloc_def sizeof_injmessage_def
      INJMESSAGE_HEAP_SIZE_def)

text \<open>The sample world with one read of eight bytes at \<open>0x9000\<close>, waiting or about to arrive.\<close>

definition one_read :: "ptr list \<Rightarrow> sample_os usb" where
  "one_read waiting = sample_usb \<lparr> ipc_store := [0x9000 \<mapsto> sample_read 8],
     os_state := sample_os0 \<lparr> so_queues := (\<lambda>_. [])(1 := waiting) \<rparr> \<rparr>"

lemma one_read_sel [simp]:
  "ipc_store (one_read ps) = [0x9000 \<mapsto> sample_read 8]" "inj_store (one_read ps) p = None"
  "so_queues (os_state (one_read ps)) = (\<lambda>_. [])(1 := ps)" "so_used (os_state (one_read ps)) = 0"
  "pending_usb_intr_msg_queue_id (one_read ps) = 1" "ready_usb_intr_msg_queue_id (one_read ps) = 0"
  by (simp_all add: one_read_def)

lemma sample_read_room [simp]: "read_room (sample_read n) k \<longleftrightarrow> k \<le> n"
  by (simp add: read_room_def sample_read_def)

lemma sample_read_filled [simp]:
  "vec_data (ioctlv_vector (filled_read (sample_read n) d) ! 2) = d @ drop (length d) (replicate n 0)"
  by (simp add: filled_read_def sample_read_def Let_def)

lemma replicate_4 [simp]: "replicate 4 x = [x, x, x, x]"
  by (simp add: numeral_eq_Suc)

lemma injected_packet_delivered_witness:
  "\<exists>ret u'. inject_packet sample_ext Intr [0x0F, 2, 0, 1] (one_read [0x9000]) = Inr (ret, u') \<and>
    so_queues (os_state u') 1 = [] \<and> inj_store u' 0x1000 = None \<and>
    map_option (\<lambda>m. vec_data (ioctlv_vector m ! 2)) (ipc_store u' 0x9000) =
      Some [0x0F, 2, 0, 1, 0, 0, 0, 0]"
proof -
  have alloc: "injmessage_alloc sample_ext (of_nat (length [0x0F, 2, 0, 1 :: u8])) (one_read [0x9000]) =
      (Some 0x1000, snd (injmessage_alloc sample_ext 4 (one_read [0x9000])))"
    by (simp add: sample_alloc)
  obtain u2 where u2: "inject_packet sample_ext Intr [0x0F, 2, 0, 1] (one_read [0x9000]) =
      Inr (answered sample_ext 0x9000 0x1000 [0x0F, 2, 0, 1] (sample_read 8) u2)"
    "so_queues (os_state (snd (answered sample_ext 0x9000 0x1000 [0x0F, 2, 0, 1] (sample_read 8) u2))) =
      (so_queues (os_state (one_read [0x9000])))(1 := [])"
    "ipc_store (snd (answered sample_ext 0x9000 0x1000 [0x0F, 2, 0, 1] (sample_read 8) u2)) =
      (ipc_store (one_read [0x9000]))(0x9000 \<mapsto> filled_read (sample_read 8) [0x0F, 2, 0, 1])"
    "inj_store (snd (answered sample_ext 0x9000 0x1000 [0x0F, 2, 0, 1] (sample_read 8) u2)) 0x1000 = None"
    using injected_packet_delivered [OF sample_heap_spec sample_queue_spec alloc, of Intr "0x9000" "[]"
        "sample_read 8"]
    by auto
  then show ?thesis
    by (cases "answered sample_ext 0x9000 0x1000 [0x0F, 2, 0, 1] (sample_read 8) u2") auto
qed

section \<open>No read waits\<close>

lemma ready_message_no_reader:
  assumes spec: "queue_spec E contents cap" and "contents (os_state u) pq = []"
    and run: "handle_bulk_intr_ready_message E q pq rq u = Inr (ret, u')"
  shows "u' = u \<lparr> os_state := os_state u' \<rparr>"
    and "if length (contents (os_state u) rq) < cap rq
      then ret = IOS_OK E \<and>
        contents (os_state u') = (contents (os_state u))(rq := contents (os_state u) rq @ [q])
      else ret \<noteq> IOS_OK E \<and> contents (os_state u') = contents (os_state u)"
proof -
  obtain r m u1 where rcv: "queue_receive E pq u = (r, m, u1)" by (metis prod_cases3)
  note e = queue_receive_empty [OF assms(1,2) rcv]
  have snd: "queue_send E rq q u1 = (ret, u')"
    using run rcv e(1) by (simp add: handle_bulk_intr_ready_message_def)
  show "u' = u \<lparr> os_state := os_state u' \<rparr>"
    using queue_receive_frame [OF rcv] queue_send_frame [OF snd]
    by (metis usb.surjective usb.update_convs(1))
  show "if length (contents (os_state u) rq) < cap rq
      then ret = IOS_OK E \<and>
        contents (os_state u') = (contents (os_state u))(rq := contents (os_state u) rq @ [q])
      else ret \<noteq> IOS_OK E \<and> contents (os_state u') = contents (os_state u)"
    using e(2) queue_send_room [OF spec _ snd] queue_send_full [OF spec _ snd] by auto
qed

text \<open>C17: A packet injected while no read waits is appended to the data waiting for the host.
  When that queue is full the injector reports an error and the queues keep their contents,
  but the message stays allocated although nothing refers to it any more.\<close>

lemma injected_packet_waits:
  assumes spec: "heap_spec E" "queue_spec E contents cap"
    and alloc: "injmessage_alloc E (of_nat (length pkt)) u = (Some q, u1)"
    and idle: "contents (os_state u) (pending_queue ep u) = []"
    and run: "inject_packet E ep pkt u = Inr (ret, u')"
  shows "inj_store u' q = Some \<lparr> inj_size = of_nat (length pkt), inj_data = pkt \<rparr> \<and>
    ipc_store u' = ipc_store u \<and>
    (let rq = ready_queue ep u; waiting = contents (os_state u) rq in
     if length waiting < cap rq
     then ret = IOS_OK E \<and> contents (os_state u') = (contents (os_state u))(rq := waiting @ [q])
     else ret \<noteq> IOS_OK E \<and> contents (os_state u') = contents (os_state u))"
proof -
  define v where "v = u1 \<lparr> inj_store := (inj_store u1)(q \<mapsto>
    \<lparr> inj_size = of_nat (length pkt), inj_data = pkt \<rparr>) \<rparr>"
  have v: "contents (os_state v) = contents (os_state u)" "ipc_store v = ipc_store u"
    "pending_queue ep v = pending_queue ep u" "ready_queue ep v = ready_queue ep u"
    using injmessage_alloc_frame [OF spec(2) alloc(1)] by (cases ep; simp add: v_def)+
  have "handle_bulk_intr_ready_message E q (pending_queue ep v) (ready_queue ep v) v = Inr (ret, u')"
    using run inject_packet_alloc [OF alloc, of ep] by (simp add: v_def Let_def)
  from ready_message_no_reader [OF spec(2) _ this] idle v
  have f: "u' = v \<lparr> os_state := os_state u' \<rparr>"
    and c: "if length (contents (os_state u) (ready_queue ep u)) < cap (ready_queue ep u)
      then ret = IOS_OK E \<and> contents (os_state u') = (contents (os_state u))
        (ready_queue ep u := contents (os_state u) (ready_queue ep u) @ [q])
      else ret \<noteq> IOS_OK E \<and> contents (os_state u') = contents (os_state u)"
    by auto
  have "inj_store u' = inj_store v" "ipc_store u' = ipc_store v"
    by (subst f, simp)+
  with c v(2) show ?thesis by (simp add: v_def Let_def)
qed

lemma injected_packet_waits_witness:
  "\<exists>ret u'. inject_packet sample_ext Intr [0x0F, 0] (one_read []) = Inr (ret, u') \<and> ret = 0 \<and>
    so_queues (os_state u') 0 = [0x1000] \<and>
    inj_store u' 0x1000 = Some \<lparr> inj_size = 2, inj_data = [0x0F, 0] \<rparr>"
proof -
  have alloc: "injmessage_alloc sample_ext (of_nat (length [0x0F, 0 :: u8])) (one_read []) =
      (Some 0x1000, snd (injmessage_alloc sample_ext 2 (one_read [])))"
    by (simp add: sample_alloc)
  have run: "\<exists>ret u'. inject_packet sample_ext Intr [0x0F, 0] (one_read []) = Inr (ret, u')"
    by (simp add: inject_packet_alloc [OF alloc] Let_def handle_bulk_intr_ready_message_def
        queue_receive_def sample_receive_def sample_alloc queue_send_def split: prod.splits)
  then obtain ret u' where "inject_packet sample_ext Intr [0x0F, 0] (one_read []) = Inr (ret, u')"
    by blast
  with injected_packet_waits [OF sample_heap_spec sample_queue_spec alloc _ this] show ?thesis
    by (auto simp: sample_capacity_def)
qed

section \<open>A read arrives\<close>

text \<open>A host read that finds data waiting gets the packet that waited longest, byte for byte
  and with its length as the result, and is not forwarded to the dongle.\<close>

lemma host_read_gets_oldest:
  assumes spec: "queue_spec E contents cap"
    and ready: "contents (os_state u) rq = q # qs" "is_message_injected E q"
      "inj_store u q = Some \<lparr> inj_size = of_nat (length pkt), inj_data = pkt \<rparr>" "length pkt < 65536"
    and reader: "ipc_store u p = Some pm" "read_room pm (length pkt)"
  shows "\<exists>ret u'. handle_bulk_intr_pending_message E p n rq pq h flag fwd u =
      Inr (ret, None, flag, False, u') \<and>
    contents (os_state u') = (contents (os_state u))(rq := qs) \<and>
    ipc_store u' = (ipc_store u)(p \<mapsto> filled_read pm pkt) \<and>
    inj_store u' = (inj_store u)(q := None)"
proof -
  obtain u1 where u1: "handle_bulk_intr_pending_message E p n rq pq h flag fwd u =
      rbind (copy_and_ack_ipcmessage E p q u1) (\<lambda>(ret, u2). Inr (ret, None, flag, False, u2))"
    "contents (os_state u1) = (contents (os_state u))(rq := qs)" "u1 = u \<lparr> os_state := os_state u1 \<rparr>"
    using pending_message_ready [OF spec ready(1), of p n pq h flag fwd]
    by (elim exE conjE) (rule that)
  have f: "inj_store u1 = inj_store u" "ipc_store u1 = ipc_store u"
    by (subst u1(3), simp)+
  have "copy_and_ack_ipcmessage E p q u1 = Inr (answered E p q pkt pm u1)"
    using ready reader f by (intro copy_and_ack_injected) simp_all
  with u1(1,2) f answered_frame [OF spec, of p q pkt pm u1] show ?thesis
    by (cases "answered E p q pkt pm u1") auto
qed

text \<open>Two packets wait and a read arrives.\<close>

definition two_waiting :: "sample_os usb" where
  "two_waiting = one_read [] \<lparr> os_state := sample_os0 \<lparr> so_queues := (\<lambda>_. [])(0 := [0x1000, 0x1010]) \<rparr>,
     inj_store := [0x1000 \<mapsto> \<lparr> inj_size = 4, inj_data = [0x0F, 2, 0, 1] \<rparr>] \<rparr>"

lemma two_waiting_sel [simp]:
  "so_queues (os_state two_waiting) = (\<lambda>_. [])(0 := [0x1000, 0x1010])"
  "ipc_store two_waiting = [0x9000 \<mapsto> sample_read 8]"
  "inj_store two_waiting = [0x1000 \<mapsto> \<lparr> inj_size = 4, inj_data = [0x0F, 2, 0, 1] \<rparr>]"
  by (simp_all add: two_waiting_def)

lemma host_read_gets_oldest_witness:
  "\<exists>ret u' m. handle_bulk_intr_pending_message sample_ext 0x9000 8 0 1 0x8000 False True two_waiting =
      Inr (ret, None, False, False, u') \<and>
    so_queues (os_state u') 0 = [0x1010] \<and> ipc_store u' 0x9000 = Some m \<and>
    vec_data (ioctlv_vector m ! 2) = [0x0F, 2, 0, 1, 0, 0, 0, 0]"
proof -
  have i: "is_message_injected sample_ext 0x1000"
    by (simp add: is_message_injected_def INJMESSAGE_HEAP_SIZE_def)
  have q: "so_queues (os_state two_waiting) 0 = 0x1000 # [0x1010]" by simp
  obtain ret u' where "handle_bulk_intr_pending_message sample_ext 0x9000 8 0 1 0x8000 False True
      two_waiting = Inr (ret, None, False, False, u')"
    "so_queues (os_state u') 0 = [0x1010]"
    "ipc_store u' = (ipc_store two_waiting)(0x9000 \<mapsto> filled_read (sample_read 8) [0x0F, 2, 0, 1])"
    using host_read_gets_oldest [OF sample_queue_spec q i, of "[0x0F, 2, 0, 1]" "0x9000"
        "sample_read 8" 8 1 "0x8000" False True] by auto
  then show ?thesis by auto
qed

text \<open>The hand-down message configured for a read of \<open>n\<close> bytes on descriptor \<open>fd\<close>.\<close>

definition handed_down :: "ipcmessage \<Rightarrow> int \<Rightarrow> u16 \<Rightarrow> bool" where
  "handed_down m fd n \<longleftrightarrow> ipc_fd m = fd \<and> 2 < length (ioctlv_vector m) \<and>
     take 2 (vec_data (ioctlv_vector m ! 1)) = be16 n \<and> vec_len (ioctlv_vector m ! 2) = unat n"

lemma configure_hand_down:
  assumes "unat n \<le> HAND_DOWN_MSG_DATA_SIZE" and "ipc_store u h = Some hm"
    and "2 < length (ioctlv_vector hm)" and "2 \<le> length (vec_data (ioctlv_vector hm ! 1))"
  shows "\<exists>u' hm'. configure_hand_down_msg h fd n u = Inr u' \<and> ipc_store u' h = Some hm' \<and>
    handed_down hm' fd n"
  using assms
  by (simp add: configure_hand_down_msg_def get_vec_def write_bytes_def handed_down_def)

text \<open>A host read that finds no data waits, in order, and the first such read makes the module
  hand its own message down to the dongle driver, with the descriptor and the length of the read;
  while that message is outstanding no further read is handed down.\<close>

lemma host_read_handed_down:
  assumes spec: "queue_spec E contents cap"
    and idle: "contents (os_state u) rq = []"
    and room: "length (contents (os_state u) pq) < cap pq"
    and reader: "ipc_store u p = Some pm" "unat n \<le> HAND_DOWN_MSG_DATA_SIZE"
    and hand_down: "ipc_store u h = Some hm" "2 < length (ioctlv_vector hm)"
      "2 \<le> length (vec_data (ioctlv_vector hm ! 1))"
  shows "\<exists>u'. handle_bulk_intr_pending_message E p n rq pq h flag fwd u =
      (if flag then Inr (IOS_OK E, None, True, False, u')
       else Inr (IOS_OK E, Some h, True, fwd, u')) \<and>
    contents (os_state u') = (contents (os_state u))(pq := contents (os_state u) pq @ [p]) \<and>
    (if flag then ipc_store u' = ipc_store u
     else \<exists>hm'. ipc_store u' h = Some hm' \<and> handed_down hm' (ipc_fd pm) n)"
proof -
  obtain r m u1 where rcv: "queue_receive E rq u = (r, m, u1)" by (metis prod_cases3)
  note e = queue_receive_empty [OF spec idle rcv]
  obtain r' u2 where snd: "queue_send E pq p u1 = (r', u2)" by fastforce
  have c: "r' = IOS_OK E"
    "contents (os_state u2) = (contents (os_state u))(pq := contents (os_state u) pq @ [p])"
    using queue_send_room [OF spec _ snd] room e(2) by simp_all
  have "u2 = u \<lparr> os_state := os_state u2 \<rparr>"
    using queue_receive_frame [OF rcv] queue_send_frame [OF snd]
    by (metis usb.surjective usb.update_convs(1))
  then have st: "ipc_store u2 = ipc_store u"
    by (metis usb.select_convs(4) usb.surjective usb.update_convs(1))
  obtain u3 hm' where u3: "configure_hand_down_msg h (ipc_fd pm) n u2 = Inr u3"
    "ipc_store u3 h = Some hm'" "handed_down hm' (ipc_fd pm) n"
    using configure_hand_down [of n u2 h hm "ipc_fd pm"] reader(2) hand_down st by auto
  show ?thesis
  proof (cases flag)
    case True
    with rcv e snd c st show ?thesis
      by (simp add: handle_bulk_intr_pending_message_def)
  next
    case False
    with rcv e snd c st u3 reader(1) configure_hand_down_msg_frame [OF u3(1)] show ?thesis
      by (simp add: handle_bulk_intr_pending_message_def)
  qed
qed

lemma host_read_handed_down_witness:
  "\<exists>u' m. handle_bulk_intr_pending_message sample_ext 0x9000 8 0 1 0x8000 False True
      (one_read [] \<lparr> ipc_store := [0x9000 \<mapsto> sample_read 8, 0x8000 \<mapsto> sample_read 64] \<rparr>) =
      Inr (0, Some 0x8000, True, True, u') \<and>
    so_queues (os_state u') 1 = [0x9000] \<and> ipc_store u' 0x8000 = Some m \<and> handed_down m 5 8"
proof -
  define u where "u = one_read [] \<lparr> ipc_store := [0x9000 \<mapsto> sample_read 8, 0x8000 \<mapsto> sample_read 64] \<rparr>"
  have u: "so_queues (os_state u) = (\<lambda>_. [])" "ipc_store u 0x9000 = Some (sample_read 8)"
    "ipc_store u 0x8000 = Some (sample_read 64)"
    by (simp_all add: u_def fun_eq_iff)
  have hd: "2 < length (ioctlv_vector (sample_read 64))" "ipc_fd (sample_read 8) = 5"
    "2 \<le> length (vec_data (ioctlv_vector (sample_read 64) ! 1))"
    by (simp_all add: sample_read_def)
  obtain u' m where "handle_bulk_intr_pending_message sample_ext 0x9000 8 0 1 0x8000 False True u =
      Inr (0, Some 0x8000, True, True, u')"
    "so_queues (os_state u') = (so_queues (os_state u))(1 := so_queues (os_state u) 1 @ [0x9000])"
    "ipc_store u' 0x8000 = Some m" "handed_down m 5 8"
    using host_read_handed_down [OF sample_queue_spec, of u 0 1 "0x9000" "sample_read 8" 8 "0x8000"
        "sample_read 64" False True] u hd
    by (auto simp: sample_capacity_def HAND_DOWN_MSG_DATA_SIZE_def)
  with u show ?thesis by (auto simp: u_def)
qed

section \<open>Every reachable state\<close>

text \<open>C16: However injections, host reads and replies of the dongle driver interleave, where the
  driver may reply whenever it holds a message that was handed down to it: data and reads never
  wait at the same time, the single hand-down buffer is never in two places, in the driver or
  queued as data, and the module's flag says whether the driver holds it.\<close>

lemma channel_reachable_inv:
  assumes "queue_spec E contents cap" and "rq \<noteq> pq" and "\<not> is_message_injected E h"
    and "reach (channel_init contents rq pq) (channel_step E contents rq pq h) (held, flag, u)"
  shows "(contents (os_state u) rq = [] \<or> contents (os_state u) pq = []) \<and>
    held + count_list (contents (os_state u) rq) h \<le> 1 \<and> (flag \<longleftrightarrow> held = 1)"
proof -
  have "channel_state_inv contents rq pq h (held, flag, u)"
    using assms(4)
  proof (rule reach_invariant)
    show "channel_state_inv contents rq pq h s" if "channel_init contents rq pq s" for s
      using that by (auto simp: channel_state_inv_def channel_init_def channel_inv_def)
    show "channel_state_inv contents rq pq h t"
      if "channel_state_inv contents rq pq h s" "channel_step E contents rq pq h s t" for s t
      using channel_step_inv [OF assms(1-3) that] .
  qed
  then show ?thesis by (auto simp: channel_state_inv_def channel_inv_def count_list_0_iff)
qed

text \<open>A host read that is handed down and a second one that waits behind it.\<close>

definition two_reads :: "sample_os usb" where
  "two_reads = one_read [] \<lparr> ipc_store := [0x9000 \<mapsto> sample_read 8, 0x8000 \<mapsto> sample_read 64] \<rparr>"

lemma channel_reachable_inv_witness:
  "\<exists>u1 u2. channel_step sample_ext so_queues 0 1 0x8000 (0, False, two_reads) (1, True, u1) \<and>
    channel_step sample_ext so_queues 0 1 0x8000 (1, True, u1) (1, True, u2) \<and>
    so_queues (os_state u2) 1 = [0x9000, 0x9001] \<and>
    so_queues (os_state u2) 0 = [] \<and> 1 + count_list (so_queues (os_state u2) 0) 0x8000 \<le> 1"
proof -
  have hd: "2 < length (ioctlv_vector (sample_read 64))" "2 \<le> length (vec_data (ioctlv_vector (sample_read 64) ! 1))"
    and n: "unat (8 :: u16) \<le> HAND_DOWN_MSG_DATA_SIZE"
    by (simp_all add: sample_read_def HAND_DOWN_MSG_DATA_SIZE_def)
  obtain u1 where r1: "handle_bulk_intr_pending_message sample_ext 0x9000 8 0 1 0x8000 False True two_reads =
      Inr (IOS_OK sample_ext, Some 0x8000, True, True, u1)"
    and c1: "so_queues (os_state u1) = (so_queues (os_state two_reads))(1 := so_queues (os_state two_reads) 1 @ [0x9000])"
    and s1: "\<exists>hm. ipc_store u1 0x8000 = Some hm"
    using host_read_handed_down [OF sample_queue_spec, of two_reads 0 1 "0x9000" "sample_read 8" 8 "0x8000"
        "sample_read 64" False True] hd n
    by (auto simp: two_reads_def sample_capacity_def)
  define u2 where "u2 = snd (queue_send sample_ext 1 0x9001 u1)"
  have r2: "handle_bulk_intr_pending_message sample_ext 0x9001 8 0 1 0x8000 True True u1 =
      Inr (0, None, True, False, u2)"
    and c2: "so_queues (os_state u2) = (so_queues (os_state u1))(1 := [0x9000, 0x9001])"
    using c1 by (simp_all add: handle_bulk_intr_pending_message_def queue_receive_def sample_receive_def
        queue_send_def sample_send_def sample_capacity_def two_reads_def u2_def)
  have inj: "\<not> is_message_injected sample_ext 0x8000"
    by (simp add: is_message_injected_def INJMESSAGE_HEAP_SIZE_def)
  have a: "channel_step sample_ext so_queues 0 1 0x8000 (0, False, two_reads) (1, True, u1)"
    by (rule host_read [OF r1]) simp
  have b: "channel_step sample_ext so_queues 0 1 0x8000 (1, True, u1) (1, True, u2)"
    by (rule host_read [OF r2]) simp
  have "reach (channel_init so_queues 0 1) (channel_step sample_ext so_queues 0 1 0x8000) (0, False, two_reads)"
    by (rule reach_init) (simp add: channel_init_def two_reads_def)
  from reach_step [OF reach_step [OF this a] b]
  have "1 + count_list (so_queues (os_state u2) 0) 0x8000 \<le> 1"
    using channel_reachable_inv [OF sample_queue_spec _ inj, of 0 1 1 True u2] by simp
  then show ?thesis using a b c1 c2 by (intro exI [of _ u1] exI [of _ u2]) (simp add: two_reads_def)
qed

end
