(* ===== verification/Channel_Fifo.thy ===== *)
theory Channel_Fifo
  imports Delivery
begin

text \<open>
  The abstract promise of one read endpoint, and the proof that the queues of
  \<open>source/main.c\<close> implement it: whatever packets the module injects, whatever the dongle
  driver answers and whatever reads the host issues, the n-th read gets the n-th packet.  The
  abstract endpoint is a list of packets, a list of waiting reads and a log of deliveries; the
  concrete one is the two IOS queues with the injected messages in the heap and the one static
  hand-down message.
\<close>

section \<open>The abstract endpoint\<close>

datatype pipe_event = Put "u8 list" | Get ptr

record pipe =
  pipe_data :: "u8 list list"
  pipe_readers :: "ptr list"
  pipe_log :: "(ptr \<times> u8 list) list"

primrec pipe_step :: "pipe_event \<Rightarrow> pipe \<Rightarrow> pipe" where
  "pipe_step (Put d) s =
     (case pipe_readers s of
        [] \<Rightarrow> s \<lparr> pipe_data := pipe_data s @ [d] \<rparr>
      | p # ps \<Rightarrow> s \<lparr> pipe_readers := ps, pipe_log := pipe_log s @ [(p, d)] \<rparr>)"
| "pipe_step (Get p) s =
     (case pipe_data s of
        [] \<Rightarrow> s \<lparr> pipe_readers := pipe_readers s @ [p] \<rparr>
      | d # ds \<Rightarrow> s \<lparr> pipe_data := ds, pipe_log := pipe_log s @ [(p, d)] \<rparr>)"

definition pipe_empty :: pipe where
  "pipe_empty = \<lparr> pipe_data = [], pipe_readers = [], pipe_log = [] \<rparr>"

fun puts_of :: "pipe_event list \<Rightarrow> u8 list list" where
  "puts_of [] = []"
| "puts_of (Put d # es) = d # puts_of es"
| "puts_of (Get p # es) = puts_of es"

fun gets_of :: "pipe_event list \<Rightarrow> ptr list" where
  "gets_of [] = []"
| "gets_of (Put d # es) = gets_of es"
| "gets_of (Get p # es) = p # gets_of es"

lemma pipe_accounts:
  assumes "pipe_data s = [] \<or> pipe_readers s = []"
  shows "let t = fold pipe_step es s in
    (pipe_data t = [] \<or> pipe_readers t = []) \<and>
    map snd (pipe_log t) @ pipe_data t = map snd (pipe_log s) @ pipe_data s @ puts_of es \<and>
    map fst (pipe_log t) @ pipe_readers t = map fst (pipe_log s) @ pipe_readers s @ gets_of es"
  using assms
proof (induction es arbitrary: s)
  case (Cons e es)
  show ?case
    using Cons.IH [of "pipe_step e s"] Cons.prems
    by (cases e) (auto simp: Let_def split: list.splits)
qed simp

lemma pipe_fifo:
  "let t = fold pipe_step es pipe_empty in
   pipe_log t = zip (gets_of es) (puts_of es) \<and>
   pipe_data t = drop (length (gets_of es)) (puts_of es) \<and>
   pipe_readers t = drop (length (puts_of es)) (gets_of es)"
proof -
  define t where "t = fold pipe_step es pipe_empty"
  have a: "pipe_data t = [] \<or> pipe_readers t = []" "map snd (pipe_log t) @ pipe_data t = puts_of es"
    "map fst (pipe_log t) @ pipe_readers t = gets_of es"
    using pipe_accounts [of pipe_empty es] by (simp_all add: t_def pipe_empty_def Let_def)
  have "zip (gets_of es) (puts_of es) = zip (map fst (pipe_log t)) (map snd (pipe_log t))"
    unfolding a(2,3) [symmetric] using a(1) by (auto simp: zip_append1 zip_append2)
  also have "\<dots> = pipe_log t" by (simp add: zip_map_fst_snd)
  finally have "pipe_log t = zip (gets_of es) (puts_of es)" ..
  moreover have "pipe_data t = drop (length (gets_of es)) (puts_of es)"
    unfolding a(2,3) [symmetric] using a(1) by auto
  moreover have "pipe_readers t = drop (length (puts_of es)) (gets_of es)"
    unfolding a(2,3) [symmetric] using a(1) by auto
  ultimately show ?thesis by (simp add: t_def Let_def)
qed

section \<open>The heap hands out fresh blocks\<close>

text \<open>
  The documented behaviour of an allocator beyond \<open>heap_spec\<close>: \<open>live os\<close> covers the blocks
  handed out and not yet given back, and a new block is none of them.
\<close>

definition heap_live_spec :: "'os ext \<Rightarrow> ('os \<Rightarrow> ptr set) \<Rightarrow> bool" where
  "heap_live_spec E live \<longleftrightarrow>
     (\<forall>h n os p init os'. os_heap_alloc E h n os = (Some (p, init), os') \<longrightarrow>
        p \<notin> live os \<and> insert p (live os) \<subseteq> live os') \<and>
     (\<forall>h p os. live os - {p} \<subseteq> live (os_heap_free E h p os)) \<and>
     (\<forall>q f os r m os'. os_message_queue_receive E q f os = (r, m, os') \<longrightarrow> live os \<subseteq> live os') \<and>
     (\<forall>q m f os. live os \<subseteq> live (snd (os_message_queue_send E q m f os))) \<and>
     (\<forall>m r os. live os \<subseteq> live (snd (os_message_queue_ack E m r os)))"

lemma heap_liveD:
  assumes "heap_live_spec E live"
  shows "os_heap_alloc E h n os = (Some (p, init), os') \<Longrightarrow> p \<notin> live os"
    and "os_heap_alloc E h n os = (Some (p, init), os') \<Longrightarrow> insert p (live os) \<subseteq> live os'"
    and "live os - {p} \<subseteq> live (os_heap_free E h p os)"
    and "os_message_queue_receive E q f os = (r, m, os') \<Longrightarrow> live os \<subseteq> live os'"
    and "os_message_queue_send E q m f os = (i, os') \<Longrightarrow> live os \<subseteq> live os'"
    and "live os \<subseteq> live (snd (os_message_queue_ack E m i os))"
proof -
  note a = assms [unfolded heap_live_spec_def]
  show "os_heap_alloc E h n os = (Some (p, init), os') \<Longrightarrow> p \<notin> live os"
    "os_heap_alloc E h n os = (Some (p, init), os') \<Longrightarrow> insert p (live os) \<subseteq> live os'"
    using conjunct1 [OF a] by metis+
  show "live os - {p} \<subseteq> live (os_heap_free E h p os)" "live os \<subseteq> live (snd (os_message_queue_ack E m i os))"
    "os_message_queue_receive E q f os = (r, m, os') \<Longrightarrow> live os \<subseteq> live os'"
    using a by simp_all
  show "os_message_queue_send E q m f os = (i, os') \<Longrightarrow> live os \<subseteq> live os'"
    using a by (metis snd_conv)
qed

definition sample_live :: "sample_os \<Rightarrow> ptr set" where
  "sample_live os = {p. \<exists>k < so_used os. p = 0x1000 + of_nat k \<and> k < 4096}"

lemma sample_heap_live [simp]: "heap_live_spec sample_ext sample_live"
proof -
  have ne: "(0x1000 :: ptr) + of_nat a \<noteq> 0x1000 + of_nat b" if "a < 4096" "b < 4096" "a \<noteq> b" for a b
    using that by (simp add: word_unat_eq_iff unat_word_ariths unat_of_nat)
  have "p \<notin> sample_live os \<and> insert p (sample_live os) \<subseteq> sample_live os'"
    if "sample_heap_alloc h n os = (Some (p, init), os')" for h n os p init os'
  proof -
    have p: "p = 0x1000 + of_nat (so_used os)" "so_used os < 4096"
      "os' = os \<lparr> so_used := so_used os + max 1 n \<rparr>"
      using that by (auto simp: sample_heap_alloc_def INJMESSAGE_HEAP_SIZE_def split: if_splits)
    then have "p \<notin> sample_live os" using ne by (force simp: sample_live_def)
    moreover have "p \<in> sample_live os'" using p by (auto simp: sample_live_def intro: exI [of _ "so_used os"])
    moreover have "sample_live os \<subseteq> sample_live os'" unfolding p(3) sample_live_def
      by (clarsimp, metis trans_less_add1)
    ultimately show ?thesis by blast
  qed
  moreover have "sample_live os \<subseteq> sample_live os'" if "sample_receive q f os = (r, m, os')" for q f os r m os'
    using that by (auto simp: sample_receive_def sample_live_def split: list.splits)
  ultimately show ?thesis
    by (auto simp: heap_live_spec_def sample_send_def sample_ack_def sample_live_def)
qed

section \<open>Packets in the concrete queues\<close>

text \<open>Message \<open>q\<close> holds packet \<open>d\<close>: as an injected message or in the hand-down buffer.\<close>

definition holds :: "'os ext \<Rightarrow> ptr \<Rightarrow> 'os usb \<Rightarrow> ptr \<Rightarrow> u8 list \<Rightarrow> bool" where
  "holds E h u q d \<longleftrightarrow> length d < 65536 \<and>
     (if is_message_injected E q
      then inj_store u q = Some \<lparr> inj_size = of_nat (length d), inj_data = d \<rparr>
      else q = h \<and> d \<noteq> [] \<and> (\<exists>hm. ipc_store u h = Some hm \<and> ipc_result hm = int (length d) \<and>
        2 < length (ioctlv_vector hm) \<and> length d \<le> length (vec_data (ioctlv_vector hm ! 2)) \<and>
        take (length d) (vec_data (ioctlv_vector hm ! 2)) = d))"

definition hand_down_ok :: "ptr \<Rightarrow> 'os usb \<Rightarrow> bool" where
  "hand_down_ok h u \<longleftrightarrow> (\<exists>hm. ipc_store u h = Some hm \<and> 2 < length (ioctlv_vector hm) \<and>
     2 \<le> length (vec_data (ioctlv_vector hm ! 1)))"

text \<open>What delivering message \<open>q\<close> to read \<open>p\<close> leaves unchanged.\<close>

definition delivered ::
  "'os ext \<Rightarrow> ('os \<Rightarrow> int \<Rightarrow> ptr list) \<Rightarrow> ('os \<Rightarrow> ptr set) \<Rightarrow> ptr \<Rightarrow> ptr \<Rightarrow> ipcmessage \<Rightarrow> u8 list \<Rightarrow>
   'os usb \<Rightarrow> 'os usb \<Rightarrow> bool" where
  "delivered E contents live p q pm d u u' \<longleftrightarrow>
     contents (os_state u') = contents (os_state u) \<and>
     ipc_store u' = (ipc_store u)(p \<mapsto> filled_read pm d) \<and>
     inj_store u' = (if is_message_injected E q then (inj_store u)(q := None) else inj_store u) \<and>
     live (os_state u) - {q} \<subseteq> live (os_state u') \<and>
     (\<not> is_message_injected E q \<longrightarrow> live (os_state u) \<subseteq> live (os_state u')) \<and>
     (\<forall>ep. ready_queue ep u' = ready_queue ep u \<and> pending_queue ep u' = pending_queue ep u)"

lemma ack_message_ids [simp]:
  "ready_queue ep (snd (ack_message E m r u)) = ready_queue ep u"
  "pending_queue ep (snd (ack_message E m r u)) = pending_queue ep u"
  by (cases ep; simp add: ack_message_def split: prod.splits)+

lemma ack_messageD:
  assumes "ack_message E m r u = (a, b)"
  shows "ipc_store b = ipc_store u" "inj_store b = inj_store u"
    "ready_queue ep b = ready_queue ep u" "pending_queue ep b = pending_queue ep u"
  using assms ack_message_frame [of E m r u] ack_message_ids [of _ E m r u] by simp_all

lemma ack_message_live:
  "heap_live_spec E live \<Longrightarrow> live (os_state u) \<subseteq> live (os_state (snd (ack_message E m r u)))"
  using heap_liveD(6) [of E live "os_state u" m r]
  by (auto simp: ack_message_def split: prod.splits)

lemma copy_and_ack_delivers:
  assumes spec: "queue_spec E contents cap" "heap_live_spec E live"
    and q: "holds E h u q d" and p: "ipc_store u p = Some pm" "read_room pm (length d)"
  shows "\<exists>ret u'. copy_and_ack_ipcmessage E p q u = Inr (ret, u') \<and> delivered E contents live p q pm d u u'"
proof (cases "is_message_injected E q")
  case True
  define v where "v = injmessage_free E q (u \<lparr> ipc_store := (ipc_store u)(p \<mapsto> filled_read pm d) \<rparr>)"
  have "copy_and_ack_ipcmessage E p q u = Inr (answered E p q d pm u)"
    using True q p by (intro copy_and_ack_injected) (simp_all add: holds_def)
  moreover have "live (os_state u) - {q} \<subseteq> live (os_state v)"
    using heap_liveD(3) [OF spec(2)] by (simp add: v_def injmessage_free_def)
  then have "live (os_state u) - {q} \<subseteq> live (os_state (snd (answered E p q d pm u)))"
    using ack_message_live [OF spec(2), of v] by (fastforce simp: answered_def v_def [symmetric])
  moreover have "ready_queue ep v = ready_queue ep u" "pending_queue ep v = pending_queue ep u" for ep
    by (cases ep; simp add: v_def injmessage_free_def)+
  ultimately show ?thesis
    using True answered_frame [OF spec(1), of p q d pm u]
    by (cases "answered E p q d pm u") (auto simp: delivered_def answered_def v_def [symmetric] dest: ack_messageD)
next
  case False
  then obtain hm where h: "q = h" "d \<noteq> []" "ipc_store u h = Some hm" "ipc_result hm = int (length d)"
    "2 < length (ioctlv_vector hm)" "length d \<le> length (vec_data (ioctlv_vector hm ! 2))"
    "take (length d) (vec_data (ioctlv_vector hm ! 2)) = d" "length d < 65536"
    using q by (auto simp: holds_def)
  define v where "v = u \<lparr> ipc_store := (ipc_store u)(p \<mapsto> filled_read pm d) \<rparr>"
  have n: "unat (word_of_int (int (length d)) :: u16) = length d"
    using h(8) by (simp add: unat_of_nat)
  have "copy_data_to_ipcmessage pm (vec_data (ioctlv_vector hm ! 2)) (word_of_int (int (length d))) =
      Inr (filled_read pm d)"
    using p(2) h(6,7) n by (simp add: copy_data_to_ipcmessage_def get_vec_def read_room_def
        read_bytes_def write_bytes_def filled_read_def Let_def)
  then have "copy_and_ack_ipcmessage E p q u = Inr (ack_message E p (int (length d)) v)"
    using False h p(1) by (simp add: copy_and_ack_ipcmessage_def get_vec_def v_def)
  moreover have "ready_queue ep v = ready_queue ep u" "pending_queue ep v = pending_queue ep u" for ep
    by (cases ep; simp add: v_def)+
  ultimately show ?thesis
    using False ack_message_contents [OF spec(1), of p "int (length d)" v]
      ack_message_live [OF spec(2), of v p "int (length d)"]
    by (cases "ack_message E p (int (length d)) v")
       (auto simp: delivered_def v_def dest: ack_messageD)
qed

section \<open>The refinement relation\<close>

definition pipe_rel ::
  "'os ext \<Rightarrow> ('os \<Rightarrow> int \<Rightarrow> ptr list) \<Rightarrow> ('os \<Rightarrow> ptr set) \<Rightarrow> usb_endpoint \<Rightarrow> ptr \<Rightarrow>
   (ptr \<Rightarrow> ipcmessage option) \<Rightarrow> bool \<times> 'os usb \<Rightarrow> pipe \<Rightarrow> bool" where
  "pipe_rel E contents live ep h reads = (\<lambda>(flag, u) s.
     let ready = contents (os_state u) (ready_queue ep u) in
     ready_queue ep u \<noteq> pending_queue ep u \<and>
     contents (os_state u) (pending_queue ep u) = pipe_readers s \<and>
     list_all2 (holds E h u) ready (pipe_data s) \<and> distinct ready \<and>
     (pipe_data s = [] \<or> pipe_readers s = []) \<and>
     (flag \<longrightarrow> h \<notin> set ready) \<and> hand_down_ok h u \<and> \<not> is_message_injected E h \<and>
     dom (inj_store u) \<subseteq> live (os_state u) \<and>
     h \<notin> fst ` set (pipe_log s) \<and> h \<notin> set (pipe_readers s) \<and>
     distinct (map fst (pipe_log s) @ pipe_readers s) \<and>
     (\<forall>(p, d) \<in> set (pipe_log s). \<exists>pm. reads p = Some pm \<and> ipc_store u p = Some (filled_read pm d)) \<and>
     (\<forall>p. p \<noteq> h \<longrightarrow> p \<notin> fst ` set (pipe_log s) \<longrightarrow> ipc_store u p = reads p))"

lemma pipe_relD:
  assumes "pipe_rel E contents live ep h reads (flag, u) s"
  defines "ready \<equiv> contents (os_state u) (ready_queue ep u)"
  shows "ready_queue ep u \<noteq> pending_queue ep u"
    "contents (os_state u) (pending_queue ep u) = pipe_readers s"
    "list_all2 (holds E h u) ready (pipe_data s)" "distinct ready"
    "pipe_data s = [] \<or> pipe_readers s = []" "flag \<Longrightarrow> h \<notin> set ready" "hand_down_ok h u"
    "\<not> is_message_injected E h" "dom (inj_store u) \<subseteq> live (os_state u)"
    "h \<notin> fst ` set (pipe_log s)" "h \<notin> set (pipe_readers s)"
    "distinct (map fst (pipe_log s) @ pipe_readers s)"
    "\<forall>(p, d) \<in> set (pipe_log s). \<exists>pm. reads p = Some pm \<and> ipc_store u p = Some (filled_read pm d)"
    "\<And>p. p \<noteq> h \<Longrightarrow> p \<notin> fst ` set (pipe_log s) \<Longrightarrow> ipc_store u p = reads p"
  using assms(1) unfolding ready_def pipe_rel_def by (simp_all add: Let_def)

text \<open>A message that holds a packet is one the heap has handed out, or the hand-down buffer.\<close>

lemma holds_live:
  "holds E h u q d \<Longrightarrow> dom (inj_store u) \<subseteq> live (os_state u) \<Longrightarrow> q = h \<or> q \<in> live (os_state u)"
  by (auto simp: holds_def split: if_splits)

lemma holds_frame:
  "holds E h u q d \<Longrightarrow> (is_message_injected E q \<Longrightarrow> inj_store u' q = inj_store u q) \<Longrightarrow>
   (q = h \<Longrightarrow> ipc_store u' h = ipc_store u h) \<Longrightarrow> holds E h u' q d"
  by (auto simp: holds_def split: if_splits)

lemma list_all2_frame:
  "list_all2 P xs ys \<Longrightarrow> (\<And>x y. x \<in> set xs \<Longrightarrow> P x y \<Longrightarrow> Q x y) \<Longrightarrow> list_all2 Q xs ys"
  by (auto simp: list_all2_conv_all_nth)

lemma queue_live:
  assumes "heap_live_spec E live"
  shows "queue_send E q m u = (r, u') \<Longrightarrow> live (os_state u) \<subseteq> live (os_state u')"
    and "queue_receive E q u = (r, m, u') \<Longrightarrow> live (os_state u) \<subseteq> live (os_state u')"
proof -
  show "live (os_state u) \<subseteq> live (os_state u')" if "queue_send E q m u = (r, u')"
    using that heap_liveD(5) [OF assms, of q m "IOS_MESSAGE_NOBLOCK E" "os_state u" r "os_state u'"]
    by (auto simp: queue_send_def split: prod.splits)
  show "live (os_state u) \<subseteq> live (os_state u')" if "queue_receive E q u = (r, m, u')"
    using that heap_liveD(4) [OF assms, of q "IOS_MESSAGE_NOBLOCK E" "os_state u" r m "os_state u'"]
    by (auto simp: queue_receive_def split: prod.splits)
qed

text \<open>A state that differs in the queues and the outside world only.\<close>

definition same_stores :: "'os usb \<Rightarrow> 'os usb \<Rightarrow> bool" where
  "same_stores u u' \<longleftrightarrow> ipc_store u' = ipc_store u \<and> inj_store u' = inj_store u \<and>
     (\<forall>ep. ready_queue ep u' = ready_queue ep u \<and> pending_queue ep u' = pending_queue ep u)"

lemma queue_ids_os [simp]:
  "ready_queue ep (u \<lparr> os_state := x \<rparr>) = ready_queue ep u"
  "pending_queue ep (u \<lparr> os_state := x \<rparr>) = pending_queue ep u"
  by (cases ep; simp)+

lemma same_stores_os: "u' = u \<lparr> os_state := x \<rparr> \<Longrightarrow> same_stores u u'"
  by (simp add: same_stores_def)

lemma same_stores_trans: "same_stores u v \<Longrightarrow> same_stores v w \<Longrightarrow> same_stores u w"
  by (simp add: same_stores_def)

lemma queue_same_stores:
  "queue_send E q m u = (r, u') \<Longrightarrow> same_stores u u'"
  "queue_receive E q u = (r, m, u') \<Longrightarrow> same_stores u u'"
  by (rule same_stores_os, erule queue_send_frame) (rule same_stores_os, erule queue_receive_frame)

section \<open>A packet arrives\<close>

lemma put_waits:
  assumes spec: "queue_spec E contents cap" "heap_live_spec E live"
    and rel: "pipe_rel E contents live ep h reads (flag, u) s"
    and q: "holds E h u q d" "q \<notin> set (contents (os_state u) (ready_queue ep u))"
      "flag' \<longrightarrow> flag \<and> q \<noteq> h"
    and idle: "pipe_readers s = []"
    and room: "length (pipe_data s) < cap (ready_queue ep u)"
  shows "\<exists>ret u'. handle_bulk_intr_ready_message E q (pending_queue ep u) (ready_queue ep u) u =
      Inr (ret, u') \<and> pipe_rel E contents live ep h reads (flag', u') (pipe_step (Put d) s)"
proof -
  note R = pipe_relD [OF rel]
  obtain r m u1 where rcv: "queue_receive E (pending_queue ep u) u = (r, m, u1)" by (metis prod_cases3)
  have e: "r \<noteq> IOS_OK E" "contents (os_state u1) = contents (os_state u)"
    using queue_receive_empty [OF spec(1) _ rcv] R(2) idle by simp_all
  obtain r' u2 where snd: "queue_send E (ready_queue ep u) q u1 = (r', u2)" by fastforce
  have len: "length (contents (os_state u) (ready_queue ep u)) = length (pipe_data s)"
    using R(3) by (simp add: list_all2_lengthD)
  have c: "contents (os_state u2) = (contents (os_state u))
      (ready_queue ep u := contents (os_state u) (ready_queue ep u) @ [q])"
    using queue_send_room [OF spec(1) _ snd] room len e(2) by simp
  have st: "same_stores u u2"
    using queue_same_stores(2) [OF rcv] queue_same_stores(1) [OF snd] by (rule same_stores_trans)
  then have eq: "ipc_store u2 = ipc_store u" "inj_store u2 = inj_store u"
    "ready_queue ep u2 = ready_queue ep u" "pending_queue ep u2 = pending_queue ep u"
    by (simp_all add: same_stores_def)
  have lv: "live (os_state u) \<subseteq> live (os_state u2)"
    using queue_live(2) [OF spec(2) rcv] queue_live(1) [OF spec(2) snd] by blast
  have hold: "holds E h u2 = holds E h u" by (intro ext) (simp add: holds_def eq)
  have "pipe_rel E contents live ep h reads (flag', u2) (pipe_step (Put d) s)"
    unfolding pipe_rel_def Let_def prod.case
    using R q idle lv
    by (auto simp: eq c hold hand_down_ok_def list_all2_appendI)
  then show ?thesis using rcv e(1) snd by (simp add: handle_bulk_intr_ready_message_def)
qed

lemma put_delivers:
  assumes spec: "queue_spec E contents cap" "heap_live_spec E live"
    and rel: "pipe_rel E contents live ep h reads (flag, u) s"
    and q: "holds E h u q d" "q \<notin> set (contents (os_state u) (ready_queue ep u))"
      "flag' \<longrightarrow> flag \<and> q \<noteq> h"
    and waiting: "pipe_readers s = p # ps"
    and p: "reads p = Some pm" "read_room pm (length d)"
  shows "\<exists>ret u'. handle_bulk_intr_ready_message E q (pending_queue ep u) (ready_queue ep u) u =
      Inr (ret, u') \<and> pipe_rel E contents live ep h reads (flag', u') (pipe_step (Put d) s)"
proof -
  note R = pipe_relD [OF rel]
  have wait: "contents (os_state u) (pending_queue ep u) = p # ps" using R(2) waiting by simp
  obtain r m u1 where rcv: "queue_receive E (pending_queue ep u) u = (r, m, u1)" by (metis prod_cases3)
  note c = queue_receive_Cons [OF spec(1) wait rcv]
  have eq: "ipc_store u1 = ipc_store u" "inj_store u1 = inj_store u"
    "ready_queue ep u1 = ready_queue ep u" "pending_queue ep u1 = pending_queue ep u"
    using queue_same_stores(2) [OF rcv] by (simp_all add: same_stores_def)
  have none: "pipe_data s = []" "contents (os_state u) (ready_queue ep u) = []"
    using R(3,5) waiting by auto
  have ph: "p \<noteq> h" "p \<notin> fst ` set (pipe_log s)" using R(11,12) waiting by auto
  have "ipc_store u1 p = Some pm" using R(14) [OF ph] p(1) eq by simp
  moreover have "holds E h u1 = holds E h u" by (intro ext) (simp add: holds_def eq)
  then have "holds E h u1 q d" using q(1) by simp
  ultimately obtain ret u2 where run: "copy_and_ack_ipcmessage E p q u1 = Inr (ret, u2)"
    and del: "delivered E contents live p q pm d u1 u2"
    using copy_and_ack_delivers [OF spec, of h u1 q d p pm] p(2) by blast
  have lv: "live (os_state u) \<subseteq> live (os_state u1)" using queue_live(2) [OF spec(2) rcv] .
  have D: "contents (os_state u2) = (contents (os_state u))(pending_queue ep u := ps)"
    "ipc_store u2 = (ipc_store u)(p \<mapsto> filled_read pm d)"
    "inj_store u2 = (if is_message_injected E q then (inj_store u)(q := None) else inj_store u)"
    "ready_queue ep u2 = ready_queue ep u" "pending_queue ep u2 = pending_queue ep u"
    using del c(3) eq by (simp_all add: delivered_def)
  have dom: "dom (inj_store u2) \<subseteq> live (os_state u2)"
  proof (cases "is_message_injected E q")
    case True
    then have "dom (inj_store u2) = dom (inj_store u) - {q}" using D(3) by simp
    then show ?thesis using del lv R(9) unfolding delivered_def by blast
  next
    case False
    then show ?thesis using del lv R(9) D(3) unfolding delivered_def by (simp, blast)
  qed
  have hd: "hand_down_ok h u2" using R(7) ph(1) by (simp add: hand_down_ok_def D(2))
  have logged: "\<exists>pm. reads a = Some pm \<and> ipc_store u2 a = Some (filled_read pm b)"
    if "(a, b) \<in> set (pipe_log s)" for a b
    using R(13) that ph(2) D(2) by force
  have log: "pipe_step (Put d) s = s \<lparr> pipe_readers := ps, pipe_log := pipe_log s @ [(p, d)] \<rparr>"
    using waiting by simp
  have "pipe_rel E contents live ep h reads (flag', u2) (pipe_step (Put d) s)"
    unfolding pipe_rel_def Let_def prod.case log
    using R none waiting dom hd ph p(1) q(3) logged
    by (auto simp: D)
  then show ?thesis using rcv c(1,2) run by (simp add: handle_bulk_intr_ready_message_def)
qed

section \<open>A read arrives\<close>

lemma get_takes:
  assumes spec: "queue_spec E contents cap" "heap_live_spec E live"
    and rel: "pipe_rel E contents live ep h reads (flag, u) s"
    and data: "pipe_data s = d # ds"
    and p: "reads p = Some pm" "read_room pm (length d)" "p \<noteq> h" "p \<notin> fst ` set (pipe_log s)"
  shows "\<exists>ret rm fwd u'. handle_bulk_intr_pending_message E p n (ready_queue ep u) (pending_queue ep u) h
      flag True u = Inr (ret, rm, flag, fwd, u') \<and>
    pipe_rel E contents live ep h reads (flag, u') (pipe_step (Get p) s)"
proof -
  note R = pipe_relD [OF rel]
  obtain q qs where ready: "contents (os_state u) (ready_queue ep u) = q # qs"
    and q: "holds E h u q d" and qs: "list_all2 (holds E h u) qs ds"
    using R(3) data by (auto simp: list_all2_Cons2)
  obtain u1 where u1: "handle_bulk_intr_pending_message E p n (ready_queue ep u) (pending_queue ep u) h
      flag True u = rbind (copy_and_ack_ipcmessage E p q u1) (\<lambda>(ret, u2). Inr (ret, None, flag, False, u2))"
    "contents (os_state u1) = (contents (os_state u))(ready_queue ep u := qs)"
    and rcv: "\<exists>r m. queue_receive E (ready_queue ep u) u = (r, m, u1)"
  proof -
    obtain r m u1 where rcv: "queue_receive E (ready_queue ep u) u = (r, m, u1)" by (metis prod_cases3)
    with queue_receive_Cons [OF spec(1) ready rcv] show ?thesis
      by (intro that [of u1]) (auto simp: handle_bulk_intr_pending_message_def)
  qed
  have eq: "ipc_store u1 = ipc_store u" "inj_store u1 = inj_store u"
    "ready_queue ep u1 = ready_queue ep u" "pending_queue ep u1 = pending_queue ep u"
    using rcv queue_same_stores(2) by (fastforce simp: same_stores_def)+
  have lv: "live (os_state u) \<subseteq> live (os_state u1)" using rcv queue_live(2) [OF spec(2)] by blast
  have none: "pipe_readers s = []" using R(5) data by simp
  have "ipc_store u1 p = Some pm" using R(14) [OF p(3,4)] p(1) eq by simp
  moreover have "holds E h u1 = holds E h u" by (intro ext) (simp add: holds_def eq)
  then have "holds E h u1 q d" using q by simp
  ultimately obtain ret u2 where run: "copy_and_ack_ipcmessage E p q u1 = Inr (ret, u2)"
    and del: "delivered E contents live p q pm d u1 u2"
    using copy_and_ack_delivers [OF spec, of h u1 q d p pm] p(2) by blast
  have D: "contents (os_state u2) = (contents (os_state u))(ready_queue ep u := qs)"
    "ipc_store u2 = (ipc_store u)(p \<mapsto> filled_read pm d)"
    "inj_store u2 = (if is_message_injected E q then (inj_store u)(q := None) else inj_store u)"
    "ready_queue ep u2 = ready_queue ep u" "pending_queue ep u2 = pending_queue ep u"
    using del u1(2) eq by (simp_all add: delivered_def)
  have dom: "dom (inj_store u2) \<subseteq> live (os_state u2)"
  proof (cases "is_message_injected E q")
    case True
    then have "dom (inj_store u2) = dom (inj_store u) - {q}" using D(3) by simp
    then show ?thesis using del lv R(9) unfolding delivered_def by blast
  next
    case False
    then show ?thesis using del lv R(9) D(3) unfolding delivered_def by (simp, blast)
  qed
  have fresh: "q \<notin> set qs" using R(4) ready by simp
  have hold: "list_all2 (holds E h u2) qs ds"
    using qs by (rule list_all2_frame) (use fresh p(3) in \<open>auto elim!: holds_frame simp: D split: if_splits\<close>)
  have hd: "hand_down_ok h u2" using R(7) p(3) by (simp add: hand_down_ok_def D(2))
  have logged: "\<exists>pm. reads a = Some pm \<and> ipc_store u2 a = Some (filled_read pm b)"
    if "(a, b) \<in> set (pipe_log s)" for a b
    using R(13) that p(4) D(2) by force
  have log: "pipe_step (Get p) s = s \<lparr> pipe_data := ds, pipe_log := pipe_log s @ [(p, d)] \<rparr>"
    using data by simp
  have "pipe_rel E contents live ep h reads (flag, u2) (pipe_step (Get p) s)"
    unfolding pipe_rel_def Let_def prod.case log
    using R none ready dom hd p hold logged by (auto simp: D)
  moreover have "handle_bulk_intr_pending_message E p n (ready_queue ep u) (pending_queue ep u) h
      flag True u = Inr (ret, None, flag, False, u2)"
    using u1(1) run by simp
  ultimately show ?thesis by blast
qed

lemma get_waits:
  assumes spec: "queue_spec E contents cap" "heap_live_spec E live"
    and rel: "pipe_rel E contents live ep h reads (flag, u) s"
    and data: "pipe_data s = []"
    and room: "length (pipe_readers s) < cap (pending_queue ep u)"
    and p: "reads p = Some pm" "unat n \<le> HAND_DOWN_MSG_DATA_SIZE" "p \<noteq> h"
      "p \<notin> fst ` set (pipe_log s)" "p \<notin> set (pipe_readers s)"
  shows "\<exists>ret rm fwd u'. handle_bulk_intr_pending_message E p n (ready_queue ep u) (pending_queue ep u) h
      flag True u = Inr (ret, rm, True, fwd, u') \<and>
    pipe_rel E contents live ep h reads (True, u') (pipe_step (Get p) s)"
proof -
  note R = pipe_relD [OF rel]
  have none: "contents (os_state u) (ready_queue ep u) = []" using R(3) data by simp
  obtain r m u1 where rcv: "queue_receive E (ready_queue ep u) u = (r, m, u1)" by (metis prod_cases3)
  note e = queue_receive_empty [OF spec(1) none rcv]
  obtain r' u2 where snd: "queue_send E (pending_queue ep u) p u1 = (r', u2)" by fastforce
  have c: "r' = IOS_OK E" "contents (os_state u2) = (contents (os_state u))
      (pending_queue ep u := pipe_readers s @ [p])"
    using queue_send_room [OF spec(1) _ snd] room e(2) R(2) by simp_all
  have "same_stores u u2"
    using queue_same_stores(2) [OF rcv] queue_same_stores(1) [OF snd] by (rule same_stores_trans)
  then have eq: "ipc_store u2 = ipc_store u" "inj_store u2 = inj_store u"
    "ready_queue ep u2 = ready_queue ep u" "pending_queue ep u2 = pending_queue ep u"
    by (simp_all add: same_stores_def)
  have lv: "live (os_state u) \<subseteq> live (os_state u2)"
    using queue_live(2) [OF spec(2) rcv] queue_live(1) [OF spec(2) snd] by blast
  have pm: "ipc_store u2 p = Some pm" using R(14) [OF p(3,4)] p(1) eq by simp
  have rel': "pipe_rel E contents live ep h reads (True, u') (pipe_step (Get p) s)"
    if "os_state u' = os_state u2" "inj_store u' = inj_store u2" "hand_down_ok h u'"
      "\<forall>p. p \<noteq> h \<longrightarrow> ipc_store u' p = ipc_store u2 p"
      "ready_queue ep u' = ready_queue ep u2" "pending_queue ep u' = pending_queue ep u2" for u'
  proof -
    have log: "\<exists>pm. reads p = Some pm \<and> ipc_store u' p = Some (filled_read pm d)"
      if "(p, d) \<in> set (pipe_log s)" for p d
      using R(10,13) that \<open>\<forall>p. p \<noteq> h \<longrightarrow> ipc_store u' p = ipc_store u2 p\<close> eq by force
    show ?thesis
      unfolding pipe_rel_def Let_def prod.case
      using R none data lv p that log by (auto simp: c eq)
  qed
  show ?thesis
  proof (cases flag)
    case True
    have "pipe_rel E contents live ep h reads (True, u2) (pipe_step (Get p) s)"
      using R(7) by (intro rel') (simp_all add: hand_down_ok_def eq)
    moreover have "handle_bulk_intr_pending_message E p n (ready_queue ep u) (pending_queue ep u) h
        flag True u = Inr (r', None, True, False, u2)"
      using True rcv e(1) snd by (simp add: handle_bulk_intr_pending_message_def)
    ultimately show ?thesis by blast
  next
    case False
    obtain hm where hm: "ipc_store u2 h = Some hm" "2 < length (ioctlv_vector hm)"
      "2 \<le> length (vec_data (ioctlv_vector hm ! 1))"
      using R(7) eq by (auto simp: hand_down_ok_def)
    obtain u3 hm' where u3: "configure_hand_down_msg h (ipc_fd pm) n u2 = Inr u3"
      "ipc_store u3 h = Some hm'" "handed_down hm' (ipc_fd pm) n"
      using configure_hand_down [OF p(2) hm] by blast
    have "hand_down_ok h u3 \<and> ready_queue ep u3 = ready_queue ep u2 \<and>
        pending_queue ep u3 = pending_queue ep u2"
      using u3(1) hm by (cases ep) (auto simp: configure_hand_down_msg_def result_simps hand_down_ok_def
          get_vec_def split: if_splits)
    then have "pipe_rel E contents live ep h reads (True, u3) (pipe_step (Get p) s)"
      using configure_hand_down_msg_frame [OF u3(1)] by (intro rel') simp_all
    moreover have "handle_bulk_intr_pending_message E p n (ready_queue ep u) (pending_queue ep u) h
        flag True u = Inr (r', Some h, True, True, u3)"
      using False rcv e(1) snd c(1) pm u3(1) by (simp add: handle_bulk_intr_pending_message_def)
    ultimately show ?thesis by blast
  qed
qed

section \<open>The events of an endpoint\<close>

datatype channel_event = Inject "u8 list" | Host_Read ptr u16 | Dongle_Reply "u8 list"

text \<open>The hand-down message after the driver read \<open>d\<close> into its buffer.\<close>

definition replied_message :: "ipcmessage \<Rightarrow> u8 list \<Rightarrow> ipcmessage" where
  "replied_message hm d = (filled_read hm d) \<lparr> ipc_result := int (length d) \<rparr>"

text \<open>The handlers run on an event; the state is the flag of the outstanding hand-down message and
  the plumbing.\<close>

primrec channel_do ::
  "'os ext \<Rightarrow> usb_endpoint \<Rightarrow> ptr \<Rightarrow> channel_event \<Rightarrow> bool \<times> 'os usb \<Rightarrow> (bool \<times> 'os usb) result"
where
  "channel_do E ep h (Inject d) st =
     rbind (inject_packet E ep d (snd st)) (\<lambda>(_, u'). Inr (fst st, u'))"
| "channel_do E ep h (Host_Read p n) st =
     rbind (handle_bulk_intr_pending_message E p n (ready_queue ep (snd st)) (pending_queue ep (snd st)) h
              (fst st) True (snd st)) (\<lambda>(_, _, flag, _, u'). Inr (flag, u'))"
| "channel_do E ep h (Dongle_Reply d) st =
     rbind (deref (ipc_store (snd st) h)) (\<lambda>hm.
     rbind (handle_bulk_intr_ready_message E h (pending_queue ep (snd st)) (ready_queue ep (snd st))
              ((snd st) \<lparr> ipc_store := (ipc_store (snd st))(h \<mapsto> replied_message hm d) \<rparr>)) (\<lambda>(_, u').
       Inr (False, u')))"

primrec to_pipe :: "channel_event \<Rightarrow> pipe_event" where
  "to_pipe (Inject d) = Put d"
| "to_pipe (Host_Read p n) = Get p"
| "to_pipe (Dongle_Reply d) = Put d"

text \<open>
  What the environment keeps to: packets have at most \<open>N\<close> bytes and reads room for \<open>N\<close>, a read
  is not issued twice, queues and heap are not exhausted, and the driver answers only the
  message it was handed.
\<close>

primrec admits ::
  "'os ext \<Rightarrow> ('os \<Rightarrow> int \<Rightarrow> ptr list) \<Rightarrow> (int \<Rightarrow> nat) \<Rightarrow> usb_endpoint \<Rightarrow> ptr \<Rightarrow> nat \<Rightarrow> ptr list \<Rightarrow>
   channel_event \<Rightarrow> bool \<times> 'os usb \<Rightarrow> bool" where
  "admits E contents cap ep h N issued (Inject d) st \<longleftrightarrow>
     length d \<le> N \<and> fst (injmessage_alloc E (of_nat (length d)) (snd st)) \<noteq> None \<and>
     (contents (os_state (snd st)) (pending_queue ep (snd st)) = [] \<longrightarrow>
      length (contents (os_state (snd st)) (ready_queue ep (snd st))) < cap (ready_queue ep (snd st)))"
| "admits E contents cap ep h N issued (Host_Read p n) st \<longleftrightarrow>
     p \<noteq> h \<and> p \<notin> set issued \<and> unat n \<le> HAND_DOWN_MSG_DATA_SIZE \<and>
     (\<exists>pm. ipc_store (snd st) p = Some pm \<and> read_room pm N) \<and>
     (contents (os_state (snd st)) (ready_queue ep (snd st)) = [] \<longrightarrow>
      length (contents (os_state (snd st)) (pending_queue ep (snd st))) < cap (pending_queue ep (snd st)))"
| "admits E contents cap ep h N issued (Dongle_Reply d) st \<longleftrightarrow>
     fst st \<and> d \<noteq> [] \<and> length d \<le> N \<and>
     (\<exists>hm. ipc_store (snd st) h = Some hm \<and> read_room hm (length d)) \<and>
     (contents (os_state (snd st)) (pending_queue ep (snd st)) = [] \<longrightarrow>
      length (contents (os_state (snd st)) (ready_queue ep (snd st))) < cap (ready_queue ep (snd st)))"

text \<open>The relation with the sizes, and the reads issued so far.\<close>

definition channel_rel ::
  "'os ext \<Rightarrow> ('os \<Rightarrow> int \<Rightarrow> ptr list) \<Rightarrow> ('os \<Rightarrow> ptr set) \<Rightarrow> usb_endpoint \<Rightarrow> ptr \<Rightarrow> nat \<Rightarrow>
   (ptr \<Rightarrow> ipcmessage option) \<Rightarrow> ptr list \<Rightarrow> bool \<times> 'os usb \<Rightarrow> pipe \<Rightarrow> bool" where
  "channel_rel E contents live ep h N reads issued st s \<longleftrightarrow>
     pipe_rel E contents live ep h reads st s \<and>
     issued = map fst (pipe_log s) @ pipe_readers s \<and>
     (\<forall>d \<in> set (pipe_data s). length d \<le> N) \<and>
     (\<forall>p \<in> set (pipe_readers s). \<exists>pm. reads p = Some pm \<and> read_room pm N)"

lemma read_room_le: "read_room pm n \<Longrightarrow> m \<le> n \<Longrightarrow> read_room pm m"
  by (simp add: read_room_def)

lemma put_step:
  assumes spec: "queue_spec E contents cap" "heap_live_spec E live"
    and rel: "channel_rel E contents live ep h N reads issued (flag, u) s"
    and q: "holds E h u q d" "q \<notin> set (contents (os_state u) (ready_queue ep u))"
      "flag' \<longrightarrow> flag \<and> q \<noteq> h" "length d \<le> N"
    and room: "contents (os_state u) (pending_queue ep u) = [] \<longrightarrow>
      length (contents (os_state u) (ready_queue ep u)) < cap (ready_queue ep u)"
  shows "\<exists>ret u'. handle_bulk_intr_ready_message E q (pending_queue ep u) (ready_queue ep u) u =
      Inr (ret, u') \<and> channel_rel E contents live ep h N reads issued (flag', u') (pipe_step (Put d) s)"
proof -
  have P: "pipe_rel E contents live ep h reads (flag, u) s" using rel by (simp add: channel_rel_def)
  have len: "length (contents (os_state u) (ready_queue ep u)) = length (pipe_data s)"
    using pipe_relD(3) [OF P] by (simp add: list_all2_lengthD)
  have "\<exists>ret u'. handle_bulk_intr_ready_message E q (pending_queue ep u) (ready_queue ep u) u =
      Inr (ret, u') \<and> pipe_rel E contents live ep h reads (flag', u') (pipe_step (Put d) s)"
  proof (cases "pipe_readers s")
    case Nil
    then show ?thesis
      using put_waits [OF spec P q(1-3)] room len pipe_relD(2) [OF P] by simp
  next
    case (Cons p ps)
    then obtain pm where "reads p = Some pm" "read_room pm N" using rel by (auto simp: channel_rel_def)
    then show ?thesis
      using put_delivers [OF spec P q(1-3) Cons] read_room_le q(4) by blast
  qed
  moreover have "channel_rel E contents live ep h N reads issued (flag', u') (pipe_step (Put d) s)"
    if "pipe_rel E contents live ep h reads (flag', u') (pipe_step (Put d) s)" for u'
    using that rel q(4) by (auto simp: channel_rel_def split: list.splits)
  ultimately show ?thesis by blast
qed

lemma get_step:
  assumes spec: "queue_spec E contents cap" "heap_live_spec E live"
    and rel: "channel_rel E contents live ep h N reads issued (flag, u) s"
    and p: "reads p = Some pm" "read_room pm N" "unat n \<le> HAND_DOWN_MSG_DATA_SIZE" "p \<noteq> h"
      "p \<notin> set issued"
    and room: "contents (os_state u) (ready_queue ep u) = [] \<longrightarrow>
      length (contents (os_state u) (pending_queue ep u)) < cap (pending_queue ep u)"
  shows "\<exists>ret rm flag' fwd u'. handle_bulk_intr_pending_message E p n (ready_queue ep u)
      (pending_queue ep u) h flag True u = Inr (ret, rm, flag', fwd, u') \<and>
    channel_rel E contents live ep h N reads (issued @ [p]) (flag', u') (pipe_step (Get p) s)"
proof -
  have P: "pipe_rel E contents live ep h reads (flag, u) s"
    and i: "issued = map fst (pipe_log s) @ pipe_readers s"
    and sz: "\<forall>d \<in> set (pipe_data s). length d \<le> N"
    using rel by (simp_all add: channel_rel_def)
  have fresh: "p \<notin> fst ` set (pipe_log s)" "p \<notin> set (pipe_readers s)" using p(5) i by auto
  have "\<exists>ret rm flag' fwd u'. handle_bulk_intr_pending_message E p n (ready_queue ep u)
      (pending_queue ep u) h flag True u = Inr (ret, rm, flag', fwd, u') \<and>
    pipe_rel E contents live ep h reads (flag', u') (pipe_step (Get p) s)"
  proof (cases "pipe_data s")
    case Nil
    then have "contents (os_state u) (ready_queue ep u) = []" using pipe_relD(3) [OF P] by simp
    then show ?thesis
      using get_waits [OF spec P Nil _ p(1,3,4) fresh] room pipe_relD(2) [OF P] by fastforce
  next
    case (Cons d ds)
    then have "read_room pm (length d)" using read_room_le [OF p(2)] sz by simp
    then show ?thesis using get_takes [OF spec P Cons p(1) _ p(4) fresh(1), of n] by blast
  qed
  moreover have "channel_rel E contents live ep h N reads (issued @ [p]) (flag', u') (pipe_step (Get p) s)"
    if "pipe_rel E contents live ep h reads (flag', u') (pipe_step (Get p) s)" for flag' u'
    using that rel p(1,2) pipe_relD(5) [OF P] by (auto simp: channel_rel_def split: list.splits)
  ultimately show ?thesis by blast
qed

lemma alloc_step:
  assumes spec: "queue_spec E contents cap" "heap_live_spec E live" "heap_spec E"
    and rel: "channel_rel E contents live ep h N reads issued (flag, u) s"
    and alloc: "injmessage_alloc E (of_nat (length d)) u = (Some q, u1)" and d: "length d < 65536"
  defines "v \<equiv> u1 \<lparr> inj_store := (inj_store u1)(q \<mapsto> \<lparr> inj_size = of_nat (length d), inj_data = d \<rparr>) \<rparr>"
  shows "channel_rel E contents live ep h N reads issued (flag, v) s" and "holds E h v q d"
    and "q \<notin> set (contents (os_state v) (ready_queue ep v))" and "q \<noteq> h"
    and "contents (os_state v) = contents (os_state u)"
    and "ready_queue ep v = ready_queue ep u" and "pending_queue ep v = pending_queue ep u"
proof -
  have P: "pipe_rel E contents live ep h reads (flag, u) s" using rel by (simp add: channel_rel_def)
  note R = pipe_relD [OF P]
  have inj: "is_message_injected E q" by (rule alloc_injected [OF spec(3) alloc])
  show qh: "q \<noteq> h" using inj R(8) by auto
  show c: "contents (os_state v) = contents (os_state u)"
    and ids: "ready_queue ep v = ready_queue ep u" "pending_queue ep v = pending_queue ep u"
    using injmessage_alloc_frame [OF spec(1) alloc] by (cases ep; simp add: v_def)+
  obtain init os' m where a: "os_heap_alloc E (injmessages_heap_id u)
        (sizeof_injmessage + unat (of_nat (length d) :: u16)) (os_state u) = (Some (q, init), os')"
    and u1: "u1 = u \<lparr> os_state := os', inj_store := (inj_store u)(q \<mapsto> m) \<rparr>"
    using alloc by (auto simp: injmessage_alloc_def split: prod.splits option.splits)
  have st: "inj_store v = (inj_store u)(q \<mapsto> \<lparr> inj_size = of_nat (length d), inj_data = d \<rparr>)"
    "ipc_store v = ipc_store u" "os_state v = os'"
    by (simp_all add: v_def u1)
  have lv: "q \<notin> live (os_state u)" "insert q (live (os_state u)) \<subseteq> live (os_state v)"
    using heap_liveD(1,2) [OF spec(2) a] st(3) by simp_all
  show "holds E h v q d" using inj d by (simp add: holds_def st(1))
  have notin: "q \<notin> set (contents (os_state u) (ready_queue ep u))"
  proof
    assume "q \<in> set (contents (os_state u) (ready_queue ep u))"
    then obtain d' where "holds E h u q d'" using R(3) by (auto simp: list_all2_conv_all_nth in_set_conv_nth)
    then show False using holds_live [of E h u q d'] R(9) lv(1) qh by blast
  qed
  then show "q \<notin> set (contents (os_state v) (ready_queue ep v))" by (simp add: c ids)
  have hold: "list_all2 (holds E h v) (contents (os_state u) (ready_queue ep u)) (pipe_data s)"
    using R(3) by (rule list_all2_frame) (use notin in \<open>auto elim!: holds_frame simp: st\<close>)
  have dom: "dom (inj_store v) \<subseteq> live (os_state v)" using R(9) lv(2) by (auto simp: st(1))
  have "pipe_rel E contents live ep h reads (flag, v) s"
    unfolding pipe_rel_def Let_def prod.case
    using R hold dom by (simp add: c ids st(2) hand_down_ok_def)
  then show "channel_rel E contents live ep h N reads issued (flag, v) s"
    using rel by (simp add: channel_rel_def)
qed

lemma reply_step:
  assumes rel: "channel_rel E contents live ep h N reads issued (True, u) s"
    and hm: "ipc_store u h = Some hm" "read_room hm (length d)" and d: "d \<noteq> []" "length d < 65536"
  defines "v \<equiv> u \<lparr> ipc_store := (ipc_store u)(h \<mapsto> replied_message hm d) \<rparr>"
  shows "channel_rel E contents live ep h N reads issued (True, v) s" and "holds E h v h d"
    and "h \<notin> set (contents (os_state v) (ready_queue ep v))"
    and "ready_queue ep v = ready_queue ep u" and "pending_queue ep v = pending_queue ep u"
proof -
  have P: "pipe_rel E contents live ep h reads (True, u) s" using rel by (simp add: channel_rel_def)
  note R = pipe_relD [OF P]
  show ids: "ready_queue ep v = ready_queue ep u" "pending_queue ep v = pending_queue ep u"
    by (cases ep; simp add: v_def)+
  have st: "os_state v = os_state u" "inj_store v = inj_store u"
    "ipc_store v = (ipc_store u)(h \<mapsto> replied_message hm d)" by (simp_all add: v_def)
  have v2: "2 < length (ioctlv_vector hm)" "length d \<le> length (vec_data (ioctlv_vector hm ! 2))"
    using hm(2) by (simp_all add: read_room_def)
  then have r: "length (ioctlv_vector (replied_message hm d)) = length (ioctlv_vector hm)"
    "vec_data (ioctlv_vector (replied_message hm d) ! 2) =
       d @ drop (length d) (vec_data (ioctlv_vector hm ! 2))"
    "ioctlv_vector (replied_message hm d) ! 1 = ioctlv_vector hm ! 1"
    "ipc_result (replied_message hm d) = int (length d)"
    by (simp_all add: replied_message_def filled_read_def Let_def)
  show "holds E h v h d" using R(8) d v2 r by (simp add: holds_def st)
  show notin: "h \<notin> set (contents (os_state v) (ready_queue ep v))" using R(6) by (simp add: st ids)
  have hold: "list_all2 (holds E h v) (contents (os_state u) (ready_queue ep u)) (pipe_data s)"
    using R(3) by (rule list_all2_frame) (use notin in \<open>auto elim!: holds_frame simp: st ids\<close>)
  have hd: "hand_down_ok h v" using R(7) hm(1) r by (auto simp: hand_down_ok_def st)
  have logged: "\<exists>pm. reads a = Some pm \<and> ipc_store v a = Some (filled_read pm b)"
    if "(a, b) \<in> set (pipe_log s)" for a b
    using R(10,13) that by (force simp: st)
  have "pipe_rel E contents live ep h reads (True, v) s"
    unfolding pipe_rel_def Let_def prod.case
    using R hold hd logged by (auto simp: ids st)
  then show "channel_rel E contents live ep h N reads issued (True, v) s"
    using rel by (simp add: channel_rel_def)
qed

section \<open>The queues implement the abstract endpoint\<close>

primrec issued_after :: "channel_event \<Rightarrow> ptr list \<Rightarrow> ptr list" where
  "issued_after (Inject d) ps = ps"
| "issued_after (Host_Read p n) ps = ps @ [p]"
| "issued_after (Dongle_Reply d) ps = ps"

text \<open>C8: Every event that keeps to the limits of queues, heap and buffers runs without a fault, and
  the queues, the heap and the hand-down buffer afterwards represent the state of the abstract
  endpoint after the same event: a packet goes to the longest waiting read or waits behind the
  other packets, a read takes the longest waiting packet or waits behind the other reads.\<close>

lemma channel_refines_pipe:
  assumes "queue_spec E contents cap" and "heap_live_spec E live" and "heap_spec E" and "N < 65536"
    and "channel_rel E contents live ep h N reads issued st s"
    and "admits E contents cap ep h N issued e st"
  shows "\<exists>st'. channel_do E ep h e st = Inr st' \<and>
    channel_rel E contents live ep h N reads (issued_after e issued) st' (pipe_step (to_pipe e) s)"
proof -
  obtain flag u where st: "st = (flag, u)" by fastforce
  show ?thesis
  proof (cases e)
    case (Inject d)
    obtain q u1 where alloc: "injmessage_alloc E (of_nat (length d)) u = (Some q, u1)"
      and d: "length d \<le> N" "length d < 65536"
      using assms(4,6)
      by (cases "injmessage_alloc E (of_nat (length d)) u") (auto simp: Inject st)
    note A = alloc_step [OF assms(1-3) assms(5) [unfolded st] alloc d(2)]
    show ?thesis
      using put_step [OF assms(1,2) A(1) A(2) A(3) _ d(1)] A(4-7) assms(6) inject_packet_alloc [OF alloc, of ep]
      by (fastforce simp: Inject st Let_def)
  next
    case (Host_Read p n)
    have "pipe_rel E contents live ep h reads (flag, u) s" "issued = map fst (pipe_log s) @ pipe_readers s"
      using assms(5) by (simp_all add: channel_rel_def st)
    then obtain pm where "reads p = Some pm" "read_room pm N"
      using assms(6) pipe_relD(14) [of E contents live ep h reads flag u s p] by (auto simp: Host_Read st)
    then show ?thesis
      using get_step [OF assms(1,2) assms(5) [unfolded st], of p pm n] assms(6)
      by (fastforce simp: Host_Read st)
  next
    case (Dongle_Reply d)
    then obtain hm where hm: "ipc_store u h = Some hm" "read_room hm (length d)"
      and d: "d \<noteq> []" "length d < 65536" "length d \<le> N" and flag: "flag"
      using assms(4,6) by (auto simp: st)
    note A = reply_step [OF assms(5) [unfolded st, unfolded flag [THEN eqTrueI]] hm d(1,2)]
    show ?thesis
      using put_step [OF assms(1,2) A(1) A(2) A(3) _ d(3), of False] A(4,5) assms(6) hm(1)
      by (fastforce simp: Dongle_Reply st)
  qed
qed

lemma channel_rel_init:
  assumes "ready_queue ep u \<noteq> pending_queue ep u" and "contents (os_state u) (ready_queue ep u) = []"
    and "contents (os_state u) (pending_queue ep u) = []" and "hand_down_ok h u"
    and "\<not> is_message_injected E h" and "dom (inj_store u) \<subseteq> live (os_state u)"
  shows "channel_rel E contents live ep h N (ipc_store u) [] (flag, u) pipe_empty"
  using assms by (simp add: channel_rel_def pipe_rel_def pipe_empty_def Let_def)

text \<open>The sample plumbing with a read of eight bytes at \<open>0x9000\<close> and the hand-down message.\<close>

definition fifo_start :: "sample_os usb" where
  "fifo_start = one_read [] \<lparr> ipc_store := [0x9000 \<mapsto> sample_read 8, 0x8000 \<mapsto> sample_read 64] \<rparr>"

lemma fifo_start_sel [simp]:
  "ipc_store fifo_start = [0x9000 \<mapsto> sample_read 8, 0x8000 \<mapsto> sample_read 64]"
  "so_queues (os_state fifo_start) = (\<lambda>_. [])" "so_used (os_state fifo_start) = 0"
  "ready_queue Intr fifo_start = 0" "pending_queue Intr fifo_start = 1"
  "inj_store fifo_start = (\<lambda>_. None)" "ready_usb_intr_msg_queue_id fifo_start = 0"
  "pending_usb_intr_msg_queue_id fifo_start = 1"
  by (simp_all add: fifo_start_def fun_eq_iff)

lemma fifo_start_rel:
  "channel_rel sample_ext so_queues sample_live Intr 0x8000 8 (ipc_store fifo_start) []
     (False, fifo_start) pipe_empty"
proof (rule channel_rel_init)
  show "hand_down_ok 0x8000 fifo_start" by (simp add: hand_down_ok_def sample_read_def)
qed (simp_all add: is_message_injected_def INJMESSAGE_HEAP_SIZE_def)

lemma fifo_start_admits:
  "admits sample_ext so_queues sample_capacity Intr 0x8000 8 [] (Host_Read 0x9000 8) (False, fifo_start)"
  "admits sample_ext so_queues sample_capacity Intr 0x8000 8 [] (Inject [1, 2]) (False, fifo_start)"
  by (simp_all add: HAND_DOWN_MSG_DATA_SIZE_def sample_capacity_def sample_alloc)

lemma channel_refines_pipe_witness:
  "\<exists>st'. channel_do sample_ext Intr 0x8000 (Inject [1, 2]) (False, fifo_start) = Inr st' \<and>
     channel_rel sample_ext so_queues sample_live Intr 0x8000 8 (ipc_store fifo_start) [] st'
       \<lparr> pipe_data = [[1, 2]], pipe_readers = [], pipe_log = [] \<rparr>"
  using channel_refines_pipe [OF sample_queue_spec sample_heap_live sample_heap_spec _ fifo_start_rel
      fifo_start_admits(2)]
  by (simp add: pipe_empty_def)

section \<open>First in, first out\<close>

inductive channel_run ::
  "'os ext \<Rightarrow> ('os \<Rightarrow> int \<Rightarrow> ptr list) \<Rightarrow> (int \<Rightarrow> nat) \<Rightarrow> usb_endpoint \<Rightarrow> ptr \<Rightarrow> nat \<Rightarrow>
   bool \<times> 'os usb \<Rightarrow> channel_event list \<Rightarrow> bool \<times> 'os usb \<Rightarrow> bool"
  for E contents cap ep h N st0 where
  run_Nil: "channel_run E contents cap ep h N st0 [] st0"
| run_snoc: "channel_run E contents cap ep h N st0 es st \<Longrightarrow>
     admits E contents cap ep h N (gets_of (map to_pipe es)) e st \<Longrightarrow>
     channel_do E ep h e st = Inr st' \<Longrightarrow>
     channel_run E contents cap ep h N st0 (es @ [e]) st'"

lemma gets_of_append [simp]: "gets_of (xs @ ys) = gets_of xs @ gets_of ys"
  by (induction xs rule: gets_of.induct) simp_all

lemma issued_after_eq: "issued_after e (gets_of (map to_pipe es)) = gets_of (map to_pipe (es @ [e]))"
  by (cases e) simp_all

lemma channel_run_rel:
  assumes spec: "queue_spec E contents cap" "heap_live_spec E live" "heap_spec E" "N < 65536"
    and init: "channel_rel E contents live ep h N reads [] st0 pipe_empty"
    and run: "channel_run E contents cap ep h N st0 es st"
  shows "channel_rel E contents live ep h N reads (gets_of (map to_pipe es)) st
    (fold pipe_step (map to_pipe es) pipe_empty)"
  using run
proof induction
  case run_Nil
  then show ?case using init by simp
next
  case (run_snoc es st e st')
  then show ?case
    using channel_refines_pipe [OF spec run_snoc.IH run_snoc.hyps(2)] issued_after_eq [of e es]
    by auto
qed

text \<open>C1: First in, first out, while the channel refuses nothing. Start with empty queues and take any
  sequence of packets of the module, reads of the host and answers of the dongle driver in which each
  step is admitted (\<open>admits\<close>): a packet has at most N bytes, finds a block of the heap and, when no read
  waits, a free place in the ready queue (C17 shows what a refusal does); a read is a request that was
  not issued before, has room for N bytes and, when no packet waits, finds a free place in the pending
  queue; the driver answers while it holds the read handed down, with success, at least one and at most
  N bytes that fit that read, and a free place in the ready queue when no read waits. Then the n-th
  read holds the n-th packet, complete and once; what is left over waits, packets in one queue or
  reads in the other, in order.\<close>

lemma fifo_delivery:
  assumes "queue_spec E contents cap" and "heap_live_spec E live" and "heap_spec E" and "N < 65536"
    and "ready_queue ep u0 \<noteq> pending_queue ep u0" and "contents (os_state u0) (ready_queue ep u0) = []"
    and "contents (os_state u0) (pending_queue ep u0) = []" and "hand_down_ok h u0"
    and "\<not> is_message_injected E h" and "dom (inj_store u0) \<subseteq> live (os_state u0)"
    and "channel_run E contents cap ep h N (flag0, u0) es (flag, u)"
  defines "packets \<equiv> puts_of (map to_pipe es)" and "reads \<equiv> gets_of (map to_pipe es)"
  shows "(\<forall>i < min (length reads) (length packets). \<exists>pm. ipc_store u0 (reads ! i) = Some pm \<and>
      ipc_store u (reads ! i) = Some (filled_read pm (packets ! i))) \<and>
    list_all2 (holds E h u) (contents (os_state u) (ready_queue ep u)) (drop (length reads) packets) \<and>
    contents (os_state u) (pending_queue ep u) = drop (length packets) reads"
proof -
  define s where "s = fold pipe_step (map to_pipe es) pipe_empty"
  have "channel_rel E contents live ep h N (ipc_store u0) reads (flag, u) s"
    unfolding s_def reads_def
  proof (rule channel_run_rel [OF assms(1-4) _ assms(11)])
    show "channel_rel E contents live ep h N (ipc_store u0) [] (flag0, u0) pipe_empty"
      by (rule channel_rel_init) (fact assms)+
  qed
  then have P: "pipe_rel E contents live ep h (ipc_store u0) (flag, u) s"
    by (simp add: channel_rel_def)
  have F: "pipe_log s = zip reads packets" "pipe_data s = drop (length reads) packets"
    "pipe_readers s = drop (length packets) reads"
    using pipe_fifo [of "map to_pipe es"] by (simp_all add: s_def reads_def packets_def Let_def)
  have "(reads ! i, packets ! i) \<in> set (pipe_log s)" if "i < min (length reads) (length packets)" for i
    using that unfolding F(1) set_zip by auto
  with pipe_relD(13) [OF P] pipe_relD(2,3) [OF P] show ?thesis unfolding F(2,3) by fastforce
qed

lemma fifo_delivery_witness:
  "\<exists>flag u. channel_run sample_ext so_queues sample_capacity Intr 0x8000 8 (False, fifo_start)
      [Inject [1, 2], Host_Read 0x9000 8] (flag, u) \<and>
    ipc_store u 0x9000 = Some (filled_read (sample_read 8) [1, 2]) \<and>
    so_queues (os_state u) (pending_queue Intr u) = []"
proof -
  note spec = sample_queue_spec sample_heap_live sample_heap_spec
  obtain flag u where one: "channel_do sample_ext Intr 0x8000 (Inject [1, 2]) (False, fifo_start) = Inr (flag, u)"
    and rel: "channel_rel sample_ext so_queues sample_live Intr 0x8000 8 (ipc_store fifo_start) [] (flag, u)
       \<lparr> pipe_data = [[1, 2]], pipe_readers = [], pipe_log = [] \<rparr>"
    using channel_refines_pipe [OF spec _ fifo_start_rel fifo_start_admits(2)]
    by (auto simp: pipe_empty_def)
  have P: "pipe_rel sample_ext so_queues sample_live Intr 0x8000 (ipc_store fifo_start) (flag, u)
      \<lparr> pipe_data = [[1, 2]], pipe_readers = [], pipe_log = [] \<rparr>"
    using rel by (simp add: channel_rel_def)
  have adm: "admits sample_ext so_queues sample_capacity Intr 0x8000 8 [] (Host_Read 0x9000 8) (flag, u)"
    using pipe_relD(3,14) [OF P] by (auto simp: HAND_DOWN_MSG_DATA_SIZE_def)
  obtain flag' u' where two: "channel_do sample_ext Intr 0x8000 (Host_Read 0x9000 8) (flag, u) = Inr (flag', u')"
    using channel_refines_pipe [OF spec _ rel adm] by auto
  have "channel_run sample_ext so_queues sample_capacity Intr 0x8000 8 (False, fifo_start)
      (([] @ [Inject [1, 2]]) @ [Host_Read 0x9000 8]) (flag', u')"
    by (rule run_snoc [OF run_snoc [OF run_Nil _ one] _ two])
       (use fifo_start_admits(2) adm in simp_all)
  moreover have "hand_down_ok 0x8000 fifo_start" by (simp add: hand_down_ok_def sample_read_def)
  ultimately show ?thesis
    using fifo_delivery [OF spec, of 8 Intr fifo_start "0x8000" False
        "[Inject [1, 2], Host_Read 0x9000 8]" flag' u']
    by (fastforce simp: is_message_injected_def INJMESSAGE_HEAP_SIZE_def)
qed

end
