(* ===== verification/Wiimote_Regs.thy ===== *)
theory Wiimote_Regs
  imports Prelude
begin

text \<open>
  \<open>include/wiimote.h\<close>: the constants of the Wiimote protocol, the offsets of the register
  and memory blocks the module keeps as byte arrays, the layout of every input report, and
  the packed bit fields of the reports in both directions.  Bit fields are allocated from the
  most significant bit, as the big-endian target does.
\<close>

section \<open>HID, identification and size constants\<close>

definition HID_TYPE_DATA :: u8 where
  "HID_TYPE_DATA = 0xA"

definition HID_PARAM_INPUT :: u8 where
  "HID_PARAM_INPUT = 1"

definition HID_PARAM_OUTPUT :: u8 where
  "HID_PARAM_OUTPUT = 2"

definition WIIMOTE_HCI_CLASS_0 :: u8 where
  "WIIMOTE_HCI_CLASS_0 = 0x00"

definition WIIMOTE_HCI_CLASS_1 :: u8 where
  "WIIMOTE_HCI_CLASS_1 = 0x04"

definition WIIMOTE_HCI_CLASS_2 :: u8 where
  "WIIMOTE_HCI_CLASS_2 = 0x48"

definition WIIMOTE_REMOTE_FEATURES :: "u8 list" where
  "WIIMOTE_REMOTE_FEATURES = [0xBC, 0x02, 0x04, 0x38, 0x08, 0x00, 0x00, 0x00]"

definition WIIMOTE_LMP_VERSION :: u8 where
  "WIIMOTE_LMP_VERSION = 0x2"

definition WIIMOTE_LMP_SUBVERSION :: u16 where
  "WIIMOTE_LMP_SUBVERSION = 0x229"

definition WIIMOTE_MANUFACTURER_ID :: u16 where
  "WIIMOTE_MANUFACTURER_ID = 0x000F"

definition WII_REQUEST_MTU :: u16 where
  "WII_REQUEST_MTU = 185"

definition WIIMOTE_MAX_PAYLOAD :: nat where
  "WIIMOTE_MAX_PAYLOAD = 23"

section \<open>Reports\<close>

definition INPUT_REPORT_ID_STATUS :: u8 where
  "INPUT_REPORT_ID_STATUS = 0x20"

definition INPUT_REPORT_ID_READ_DATA_REPLY :: u8 where
  "INPUT_REPORT_ID_READ_DATA_REPLY = 0x21"

definition INPUT_REPORT_ID_ACK :: u8 where
  "INPUT_REPORT_ID_ACK = 0x22"

definition INPUT_REPORT_ID_REPORT_DISABLED :: u8 where
  "INPUT_REPORT_ID_REPORT_DISABLED = 0x00"

definition INPUT_REPORT_ID_BTN :: u8 where
  "INPUT_REPORT_ID_BTN = 0x30"

definition INPUT_REPORT_ID_BTN_ACC :: u8 where
  "INPUT_REPORT_ID_BTN_ACC = 0x31"

definition INPUT_REPORT_ID_BTN_EXP8 :: u8 where
  "INPUT_REPORT_ID_BTN_EXP8 = 0x32"

definition INPUT_REPORT_ID_BTN_ACC_IR :: u8 where
  "INPUT_REPORT_ID_BTN_ACC_IR = 0x33"

definition INPUT_REPORT_ID_BTN_EXP19 :: u8 where
  "INPUT_REPORT_ID_BTN_EXP19 = 0x34"

definition INPUT_REPORT_ID_BTN_ACC_EXP :: u8 where
  "INPUT_REPORT_ID_BTN_ACC_EXP = 0x35"

definition INPUT_REPORT_ID_BTN_IR_EXP :: u8 where
  "INPUT_REPORT_ID_BTN_IR_EXP = 0x36"

definition INPUT_REPORT_ID_BTN_ACC_IR_EXP :: u8 where
  "INPUT_REPORT_ID_BTN_ACC_IR_EXP = 0x37"

definition INPUT_REPORT_ID_EXP21 :: u8 where
  "INPUT_REPORT_ID_EXP21 = 0x3d"

definition OUTPUT_REPORT_ID_RUMBLE :: u8 where
  "OUTPUT_REPORT_ID_RUMBLE = 0x10"

definition OUTPUT_REPORT_ID_LED :: u8 where
  "OUTPUT_REPORT_ID_LED = 0x11"

definition OUTPUT_REPORT_ID_REPORT_MODE :: u8 where
  "OUTPUT_REPORT_ID_REPORT_MODE = 0x12"

definition OUTPUT_REPORT_ID_IR_ENABLE :: u8 where
  "OUTPUT_REPORT_ID_IR_ENABLE = 0x13"

definition OUTPUT_REPORT_ID_SPEAKER_ENABLE :: u8 where
  "OUTPUT_REPORT_ID_SPEAKER_ENABLE = 0x14"

definition OUTPUT_REPORT_ID_STATUS :: u8 where
  "OUTPUT_REPORT_ID_STATUS = 0x15"

definition OUTPUT_REPORT_ID_WRITE_DATA :: u8 where
  "OUTPUT_REPORT_ID_WRITE_DATA = 0x16"

definition OUTPUT_REPORT_ID_READ_DATA :: u8 where
  "OUTPUT_REPORT_ID_READ_DATA = 0x17"

definition OUTPUT_REPORT_ID_SPEAKER_DATA :: u8 where
  "OUTPUT_REPORT_ID_SPEAKER_DATA = 0x18"

definition OUTPUT_REPORT_ID_SPEAKER_MUTE :: u8 where
  "OUTPUT_REPORT_ID_SPEAKER_MUTE = 0x19"

definition OUTPUT_REPORT_ID_IR_ENABLE2 :: u8 where
  "OUTPUT_REPORT_ID_IR_ENABLE2 = 0x1a"

definition ERROR_CODE_SUCCESS :: u8 where
  "ERROR_CODE_SUCCESS = 0"

definition ERROR_CODE_BUSY :: u8 where
  "ERROR_CODE_BUSY = 4"

definition ERROR_CODE_INVALID_SPACE :: u8 where
  "ERROR_CODE_INVALID_SPACE = 6"

definition ERROR_CODE_NACK :: u8 where
  "ERROR_CODE_NACK = 7"

definition ERROR_CODE_INVALID_ADDRESS :: u8 where
  "ERROR_CODE_INVALID_ADDRESS = 8"

definition ADDRESS_SPACE_EEPROM :: u8 where
  "ADDRESS_SPACE_EEPROM = 0x00"

definition ADDRESS_SPACE_I2C_BUS :: u8 where
  "ADDRESS_SPACE_I2C_BUS = 0x01"

definition ADDRESS_SPACE_I2C_BUS_ALT :: u8 where
  "ADDRESS_SPACE_I2C_BUS_ALT = 0x02"

definition EEPROM_I2C_ADDR :: u8 where
  "EEPROM_I2C_ADDR = 0x50"

definition EXTENSION_I2C_ADDR :: u8 where
  "EXTENSION_I2C_ADDR = 0x52"

definition CAMERA_I2C_ADDR :: u8 where
  "CAMERA_I2C_ADDR = 0x58"

definition EEPROM_FREE_SIZE :: nat where
  "EEPROM_FREE_SIZE = 0x1700"

section \<open>Buttons\<close>

definition WIIMOTE_BUTTON_TWO :: u16 where
  "WIIMOTE_BUTTON_TWO = 0x0001"

definition WIIMOTE_BUTTON_ONE :: u16 where
  "WIIMOTE_BUTTON_ONE = 0x0002"

definition WIIMOTE_BUTTON_B :: u16 where
  "WIIMOTE_BUTTON_B = 0x0004"

definition WIIMOTE_BUTTON_A :: u16 where
  "WIIMOTE_BUTTON_A = 0x0008"

definition WIIMOTE_BUTTON_MINUS :: u16 where
  "WIIMOTE_BUTTON_MINUS = 0x0010"

definition WIIMOTE_BUTTON_ZACCEL_BIT6 :: u16 where
  "WIIMOTE_BUTTON_ZACCEL_BIT6 = 0x0020"

definition WIIMOTE_BUTTON_ZACCEL_BIT7 :: u16 where
  "WIIMOTE_BUTTON_ZACCEL_BIT7 = 0x0040"

definition WIIMOTE_BUTTON_HOME :: u16 where
  "WIIMOTE_BUTTON_HOME = 0x0080"

definition WIIMOTE_BUTTON_LEFT :: u16 where
  "WIIMOTE_BUTTON_LEFT = 0x0100"

definition WIIMOTE_BUTTON_RIGHT :: u16 where
  "WIIMOTE_BUTTON_RIGHT = 0x0200"

definition WIIMOTE_BUTTON_DOWN :: u16 where
  "WIIMOTE_BUTTON_DOWN = 0x0400"

definition WIIMOTE_BUTTON_UP :: u16 where
  "WIIMOTE_BUTTON_UP = 0x0800"

definition WIIMOTE_BUTTON_PLUS :: u16 where
  "WIIMOTE_BUTTON_PLUS = 0x1000"

definition WIIMOTE_BUTTON_ZACCEL_BIT4 :: u16 where
  "WIIMOTE_BUTTON_ZACCEL_BIT4 = 0x2000"

definition WIIMOTE_BUTTON_ZACCEL_BIT5 :: u16 where
  "WIIMOTE_BUTTON_ZACCEL_BIT5 = 0x4000"

definition WIIMOTE_BUTTON_UNKNOWN :: u16 where
  "WIIMOTE_BUTTON_UNKNOWN = 0x8000"

definition WIIMOTE_BUTTON_ALL :: u16 where
  "WIIMOTE_BUTTON_ALL = 0x1F9F"

definition CLASSIC_CTRL_BUTTON_UP :: u16 where
  "CLASSIC_CTRL_BUTTON_UP = 0x0001"

definition CLASSIC_CTRL_BUTTON_LEFT :: u16 where
  "CLASSIC_CTRL_BUTTON_LEFT = 0x0002"

definition CLASSIC_CTRL_BUTTON_ZR :: u16 where
  "CLASSIC_CTRL_BUTTON_ZR = 0x0004"

definition CLASSIC_CTRL_BUTTON_X :: u16 where
  "CLASSIC_CTRL_BUTTON_X = 0x0008"

definition CLASSIC_CTRL_BUTTON_A :: u16 where
  "CLASSIC_CTRL_BUTTON_A = 0x0010"

definition CLASSIC_CTRL_BUTTON_Y :: u16 where
  "CLASSIC_CTRL_BUTTON_Y = 0x0020"

definition CLASSIC_CTRL_BUTTON_B :: u16 where
  "CLASSIC_CTRL_BUTTON_B = 0x0040"

definition CLASSIC_CTRL_BUTTON_ZL :: u16 where
  "CLASSIC_CTRL_BUTTON_ZL = 0x0080"

definition CLASSIC_CTRL_BUTTON_FULL_R :: u16 where
  "CLASSIC_CTRL_BUTTON_FULL_R = 0x0200"

definition CLASSIC_CTRL_BUTTON_PLUS :: u16 where
  "CLASSIC_CTRL_BUTTON_PLUS = 0x0400"

definition CLASSIC_CTRL_BUTTON_HOME :: u16 where
  "CLASSIC_CTRL_BUTTON_HOME = 0x0800"

definition CLASSIC_CTRL_BUTTON_MINUS :: u16 where
  "CLASSIC_CTRL_BUTTON_MINUS = 0x1000"

definition CLASSIC_CTRL_BUTTON_FULL_L :: u16 where
  "CLASSIC_CTRL_BUTTON_FULL_L = 0x2000"

definition CLASSIC_CTRL_BUTTON_DOWN :: u16 where
  "CLASSIC_CTRL_BUTTON_DOWN = 0x4000"

definition CLASSIC_CTRL_BUTTON_RIGHT :: u16 where
  "CLASSIC_CTRL_BUTTON_RIGHT = 0x8000"

definition CLASSIC_CTRL_BUTTON_ALL :: u16 where
  "CLASSIC_CTRL_BUTTON_ALL = 0xFEFF"

definition NUNCHUK_BUTTON_Z :: u8 where
  "NUNCHUK_BUTTON_Z = 0x01"

definition NUNCHUK_BUTTON_C :: u8 where
  "NUNCHUK_BUTTON_C = 0x02"

section \<open>Accelerometer and infrared camera\<close>

definition ACCEL_ZERO_G :: u16 where
  "ACCEL_ZERO_G = push_bit 2 0x80"

definition ACCEL_ONE_G :: u16 where
  "ACCEL_ONE_G = push_bit 2 0x9A"

definition IR_MODE_BASIC :: u8 where
  "IR_MODE_BASIC = 1"

definition IR_MODE_EXTENDED :: u8 where
  "IR_MODE_EXTENDED = 3"

definition IR_MODE_FULL :: u8 where
  "IR_MODE_FULL = 5"

definition IR_MAX_DOTS :: nat where
  "IR_MAX_DOTS = 4"

definition IR_LOW_X :: u16 where
  "IR_LOW_X = 0x7F"

definition IR_LOW_Y :: u16 where
  "IR_LOW_Y = 0x5D"

definition IR_HIGH_X :: u16 where
  "IR_HIGH_X = 0x380"

definition IR_HIGH_Y :: u16 where
  "IR_HIGH_Y = 0x2A2"

definition IR_CENTER_X :: u16 where
  "IR_CENTER_X = drop_bit 1 (IR_HIGH_X + IR_LOW_X)"

definition IR_CENTER_Y :: u16 where
  "IR_CENTER_Y = drop_bit 1 (IR_HIGH_Y + IR_LOW_Y)"

definition IR_HORIZONTAL_OFFSET :: u16 where
  "IR_HORIZONTAL_OFFSET = 64"

definition IR_VERTICAL_OFFSET :: u16 where
  "IR_VERTICAL_OFFSET = 110"

definition IR_DOT_SIZE :: u8 where
  "IR_DOT_SIZE = 4"

definition IR_DOT_CENTER_MIN_X :: u16 where
  "IR_DOT_CENTER_MIN_X = IR_LOW_X + IR_HORIZONTAL_OFFSET"

definition IR_DOT_CENTER_MAX_X :: u16 where
  "IR_DOT_CENTER_MAX_X = IR_HIGH_X - IR_HORIZONTAL_OFFSET"

definition IR_DOT_CENTER_MIN_Y :: u16 where
  "IR_DOT_CENTER_MIN_Y = IR_LOW_Y + IR_VERTICAL_OFFSET"

definition IR_DOT_CENTER_MAX_Y :: u16 where
  "IR_DOT_CENTER_MAX_Y = IR_HIGH_Y - IR_VERTICAL_OFFSET"

definition CAMERA_DATA_BYTES :: nat where
  "CAMERA_DATA_BYTES = 36"

definition CONTROLLER_DATA_BYTES :: nat where
  "CONTROLLER_DATA_BYTES = 21"

definition ENCRYPTION_ENABLED :: u8 where
  "ENCRYPTION_ENABLED = 0xaa"

text \<open>The extension port.\<close>

datatype wiimote_ext = WIIMOTE_EXT_NONE | WIIMOTE_EXT_NUNCHUK | WIIMOTE_EXT_CLASSIC
  | WIIMOTE_EXT_CLASSIC_WIIU_PRO | WIIMOTE_EXT_GUITAR | WIIMOTE_EXT_MOTION_PLUS

definition EXT_ID_CODE_NUNCHUNK :: "u8 list" where
  "EXT_ID_CODE_NUNCHUNK = [0x00, 0x00, 0xa4, 0x20, 0x00, 0x00]"

definition EXP_ID_CODE_CLASSIC_CONTROLLER :: "u8 list" where
  "EXP_ID_CODE_CLASSIC_CONTROLLER = [0x00, 0x00, 0xa4, 0x20, 0x01, 0x01]"

definition EXP_ID_CODE_CLASSIC_WIIU_PRO :: "u8 list" where
  "EXP_ID_CODE_CLASSIC_WIIU_PRO = [0x00, 0x00, 0xa4, 0x20, 0x01, 0x20]"

definition EXP_ID_CODE_GUITAR :: "u8 list" where
  "EXP_ID_CODE_GUITAR = [0x00, 0x00, 0xa4, 0x20, 0x01, 0x03]"

definition EXP_ID_CODE_MOTION_PLUS :: "u8 list" where
  "EXP_ID_CODE_MOTION_PLUS = [0x00, 0x00, 0xA6, 0x20, 0x00, 0x05]"

lemmas wiimote_consts [c_consts] =
  HID_TYPE_DATA_def HID_PARAM_INPUT_def
  HID_PARAM_OUTPUT_def WIIMOTE_HCI_CLASS_0_def
  WIIMOTE_HCI_CLASS_1_def WIIMOTE_HCI_CLASS_2_def
  WIIMOTE_REMOTE_FEATURES_def WIIMOTE_LMP_VERSION_def
  WIIMOTE_LMP_SUBVERSION_def WIIMOTE_MANUFACTURER_ID_def
  WII_REQUEST_MTU_def WIIMOTE_MAX_PAYLOAD_def
  INPUT_REPORT_ID_STATUS_def INPUT_REPORT_ID_READ_DATA_REPLY_def
  INPUT_REPORT_ID_ACK_def INPUT_REPORT_ID_REPORT_DISABLED_def
  INPUT_REPORT_ID_BTN_def INPUT_REPORT_ID_BTN_ACC_def
  INPUT_REPORT_ID_BTN_EXP8_def INPUT_REPORT_ID_BTN_ACC_IR_def
  INPUT_REPORT_ID_BTN_EXP19_def INPUT_REPORT_ID_BTN_ACC_EXP_def
  INPUT_REPORT_ID_BTN_IR_EXP_def INPUT_REPORT_ID_BTN_ACC_IR_EXP_def
  INPUT_REPORT_ID_EXP21_def OUTPUT_REPORT_ID_RUMBLE_def
  OUTPUT_REPORT_ID_LED_def OUTPUT_REPORT_ID_REPORT_MODE_def
  OUTPUT_REPORT_ID_IR_ENABLE_def OUTPUT_REPORT_ID_SPEAKER_ENABLE_def
  OUTPUT_REPORT_ID_STATUS_def OUTPUT_REPORT_ID_WRITE_DATA_def
  OUTPUT_REPORT_ID_READ_DATA_def OUTPUT_REPORT_ID_SPEAKER_DATA_def
  OUTPUT_REPORT_ID_SPEAKER_MUTE_def OUTPUT_REPORT_ID_IR_ENABLE2_def
  ERROR_CODE_SUCCESS_def ERROR_CODE_BUSY_def
  ERROR_CODE_INVALID_SPACE_def ERROR_CODE_NACK_def
  ERROR_CODE_INVALID_ADDRESS_def ADDRESS_SPACE_EEPROM_def
  ADDRESS_SPACE_I2C_BUS_def ADDRESS_SPACE_I2C_BUS_ALT_def
  EEPROM_I2C_ADDR_def EXTENSION_I2C_ADDR_def
  CAMERA_I2C_ADDR_def EEPROM_FREE_SIZE_def
  WIIMOTE_BUTTON_TWO_def WIIMOTE_BUTTON_ONE_def
  WIIMOTE_BUTTON_B_def WIIMOTE_BUTTON_A_def
  WIIMOTE_BUTTON_MINUS_def WIIMOTE_BUTTON_ZACCEL_BIT6_def
  WIIMOTE_BUTTON_ZACCEL_BIT7_def WIIMOTE_BUTTON_HOME_def
  WIIMOTE_BUTTON_LEFT_def WIIMOTE_BUTTON_RIGHT_def
  WIIMOTE_BUTTON_DOWN_def WIIMOTE_BUTTON_UP_def
  WIIMOTE_BUTTON_PLUS_def WIIMOTE_BUTTON_ZACCEL_BIT4_def
  WIIMOTE_BUTTON_ZACCEL_BIT5_def WIIMOTE_BUTTON_UNKNOWN_def
  WIIMOTE_BUTTON_ALL_def CLASSIC_CTRL_BUTTON_UP_def
  CLASSIC_CTRL_BUTTON_LEFT_def CLASSIC_CTRL_BUTTON_ZR_def
  CLASSIC_CTRL_BUTTON_X_def CLASSIC_CTRL_BUTTON_A_def
  CLASSIC_CTRL_BUTTON_Y_def CLASSIC_CTRL_BUTTON_B_def
  CLASSIC_CTRL_BUTTON_ZL_def CLASSIC_CTRL_BUTTON_FULL_R_def
  CLASSIC_CTRL_BUTTON_PLUS_def CLASSIC_CTRL_BUTTON_HOME_def
  CLASSIC_CTRL_BUTTON_MINUS_def CLASSIC_CTRL_BUTTON_FULL_L_def
  CLASSIC_CTRL_BUTTON_DOWN_def CLASSIC_CTRL_BUTTON_RIGHT_def
  CLASSIC_CTRL_BUTTON_ALL_def NUNCHUK_BUTTON_Z_def
  NUNCHUK_BUTTON_C_def ACCEL_ZERO_G_def
  ACCEL_ONE_G_def IR_MODE_BASIC_def
  IR_MODE_EXTENDED_def IR_MODE_FULL_def
  IR_MAX_DOTS_def IR_LOW_X_def
  IR_LOW_Y_def IR_HIGH_X_def
  IR_HIGH_Y_def IR_CENTER_X_def
  IR_CENTER_Y_def IR_HORIZONTAL_OFFSET_def
  IR_VERTICAL_OFFSET_def IR_DOT_SIZE_def
  IR_DOT_CENTER_MIN_X_def IR_DOT_CENTER_MAX_X_def
  IR_DOT_CENTER_MIN_Y_def IR_DOT_CENTER_MAX_Y_def
  CAMERA_DATA_BYTES_def CONTROLLER_DATA_BYTES_def
  ENCRYPTION_ENABLED_def EXT_ID_CODE_NUNCHUNK_def
  EXP_ID_CODE_CLASSIC_CONTROLLER_def EXP_ID_CODE_CLASSIC_WIIU_PRO_def
  EXP_ID_CODE_GUITAR_def EXP_ID_CODE_MOTION_PLUS_def

section \<open>Register and memory layout\<close>

definition ir_regs_mode :: nat where
  "ir_regs_mode = 0x33"

definition ir_regs_camera_data :: nat where
  "ir_regs_camera_data = 0x37"

definition ext_regs_controller_data :: nat where
  "ext_regs_controller_data = 0"

definition ext_regs_encryption_key_data :: nat where
  "ext_regs_encryption_key_data = 0x40"

definition ext_regs_encryption :: nat where
  "ext_regs_encryption = 0xF0"

definition ext_regs_identifier :: nat where
  "ext_regs_identifier = 0xFA"

definition eeprom_ir_calibration_1 :: nat where
  "eeprom_ir_calibration_1 = 0"

definition eeprom_ir_calibration_2 :: nat where
  "eeprom_ir_calibration_2 = 11"

definition eeprom_accel_calibration_1 :: nat where
  "eeprom_accel_calibration_1 = 22"

definition eeprom_accel_calibration_2 :: nat where
  "eeprom_accel_calibration_2 = 32"

definition sizeof_ir_camera_registers :: nat where
  "sizeof_ir_camera_registers = 0x100"

definition sizeof_extension_registers :: nat where
  "sizeof_extension_registers = 0x100"

definition ENCRYPTION_KEY_DATA_BEGIN :: nat where
  "ENCRYPTION_KEY_DATA_BEGIN = ext_regs_encryption_key_data"

definition ENCRYPTION_KEY_DATA_END :: nat where
  "ENCRYPTION_KEY_DATA_END = ENCRYPTION_KEY_DATA_BEGIN + 0x10"

lemmas wiimote_layout [c_consts] =
  ir_regs_mode_def ir_regs_camera_data_def
  ext_regs_controller_data_def ext_regs_encryption_key_data_def
  ext_regs_encryption_def ext_regs_identifier_def
  eeprom_ir_calibration_1_def eeprom_ir_calibration_2_def
  eeprom_accel_calibration_1_def eeprom_accel_calibration_2_def
  sizeof_ir_camera_registers_def sizeof_extension_registers_def
  ENCRYPTION_KEY_DATA_BEGIN_def ENCRYPTION_KEY_DATA_END_def

text \<open>A store into a byte array, at an offset where it fits.\<close>

definition put :: "nat \<Rightarrow> u8 list \<Rightarrow> u8 list \<Rightarrow> u8 list" where
  "put off bs m = take off m @ bs @ drop (off + length bs) m"

lemma length_put [simp]: "off + length bs \<le> length m \<Longrightarrow> length (put off bs m) = length m"
  by (simp add: put_def)

lemma nth_put:
  "off + length bs \<le> length m \<Longrightarrow> j < length m \<Longrightarrow>
   put off bs m ! j = (if off \<le> j \<and> j < off + length bs then bs ! (j - off) else m ! j)"
  by (auto simp: put_def nth_append min_def)

lemma put_write_bytes: "off + length bs \<le> length m \<Longrightarrow> write_bytes m off bs = Inr (put off bs m)"
  by (simp add: put_def write_bytes_ok)

lemma take_drop_put:
  "off + length bs \<le> length m \<Longrightarrow> take (length bs) (drop off (put off bs m)) = bs"
  by (simp add: put_def)

section \<open>Layout of the input reports\<close>

definition input_report_has_btn :: "u8 \<Rightarrow> bool" where
  "input_report_has_btn rpt_id = (if rpt_id = INPUT_REPORT_ID_EXP21 then False else True)"

definition input_report_acc_size :: "u8 \<Rightarrow> nat" where
  "input_report_acc_size rpt_id =
     (if rpt_id \<in> {INPUT_REPORT_ID_BTN_ACC, INPUT_REPORT_ID_BTN_ACC_IR,
                   INPUT_REPORT_ID_BTN_ACC_EXP, INPUT_REPORT_ID_BTN_ACC_IR_EXP} then 3 else 0)"

definition input_report_acc_offset :: "u8 \<Rightarrow> nat" where
  "input_report_acc_offset rpt_id =
     (if rpt_id \<in> {INPUT_REPORT_ID_BTN_ACC, INPUT_REPORT_ID_BTN_ACC_IR,
                   INPUT_REPORT_ID_BTN_ACC_EXP, INPUT_REPORT_ID_BTN_ACC_IR_EXP} then 2 else 0)"

definition input_report_ext_size :: "u8 \<Rightarrow> nat" where
  "input_report_ext_size rpt_id =
     (if rpt_id = INPUT_REPORT_ID_BTN_EXP8 then 8
      else if rpt_id = INPUT_REPORT_ID_BTN_EXP19 then 19
      else if rpt_id = INPUT_REPORT_ID_BTN_ACC_EXP then 16
      else if rpt_id = INPUT_REPORT_ID_BTN_IR_EXP then 9
      else if rpt_id = INPUT_REPORT_ID_BTN_ACC_IR_EXP then 6
      else if rpt_id = INPUT_REPORT_ID_EXP21 then 21
      else 0)"

definition input_report_ext_offset :: "u8 \<Rightarrow> nat" where
  "input_report_ext_offset rpt_id =
     (if rpt_id \<in> {INPUT_REPORT_ID_BTN_EXP8, INPUT_REPORT_ID_BTN_EXP19} then 2
      else if rpt_id = INPUT_REPORT_ID_BTN_ACC_EXP then 5
      else if rpt_id = INPUT_REPORT_ID_BTN_IR_EXP then 12
      else if rpt_id = INPUT_REPORT_ID_BTN_ACC_IR_EXP then 15
      else 0)"

definition input_report_ir_size :: "u8 \<Rightarrow> nat" where
  "input_report_ir_size rpt_id =
     (if rpt_id = INPUT_REPORT_ID_BTN_ACC_IR then 12
      else if rpt_id \<in> {INPUT_REPORT_ID_BTN_IR_EXP, INPUT_REPORT_ID_BTN_ACC_IR_EXP} then 10
      else 0)"

definition input_report_ir_offset :: "u8 \<Rightarrow> nat" where
  "input_report_ir_offset rpt_id =
     (if rpt_id \<in> {INPUT_REPORT_ID_BTN_ACC_IR, INPUT_REPORT_ID_BTN_ACC_IR_EXP} then 5
      else if rpt_id = INPUT_REPORT_ID_BTN_IR_EXP then 2
      else 0)"

text \<open>
  The reports that exist; every other value of the reporting mode has the layout of plain
  buttons.
\<close>

definition input_reports :: "u8 list" where
  "input_reports = [INPUT_REPORT_ID_BTN, INPUT_REPORT_ID_BTN_ACC, INPUT_REPORT_ID_BTN_EXP8,
     INPUT_REPORT_ID_BTN_ACC_IR, INPUT_REPORT_ID_BTN_EXP19, INPUT_REPORT_ID_BTN_ACC_EXP,
     INPUT_REPORT_ID_BTN_IR_EXP, INPUT_REPORT_ID_BTN_ACC_IR_EXP, INPUT_REPORT_ID_EXP21]"

lemmas input_report_defs =
  input_report_has_btn_def input_report_acc_size_def input_report_acc_offset_def
  input_report_ext_size_def input_report_ext_offset_def input_report_ir_size_def
  input_report_ir_offset_def

lemma other_report_layout:
  assumes "m \<notin> set input_reports"
  shows "input_report_has_btn m" and "input_report_acc_size m = 0"
    and "input_report_ext_size m = 0" and "input_report_ir_size m = 0"
  using assms by (auto simp: input_reports_def input_report_defs)

lemma report_mode_cases:
  "(\<And>m. m \<in> set input_reports \<Longrightarrow> P m) \<Longrightarrow> (\<And>m. m \<notin> set input_reports \<Longrightarrow> P m) \<Longrightarrow> P m"
  by blast

section \<open>Packed bit fields\<close>

definition bool_bit :: "bool \<Rightarrow> u8" where
  "bool_bit b = (if b then 1 else 0)"

text \<open>\<open>bits b hi w\<close>: the \<open>w\<close>-bit field of a byte whose lowest bit is \<open>lo\<close>.\<close>

definition field :: "nat \<Rightarrow> nat \<Rightarrow> u8 \<Rightarrow> u8" where
  "field lo w b = take_bit w (drop_bit lo b)"

definition input_report_ack :: "u16 \<Rightarrow> u8 \<Rightarrow> u8 \<Rightarrow> u8 list" where
  "input_report_ack btns rpt_id error_code = be16 btns @ [rpt_id, error_code]"

definition input_report_status ::
  "u16 \<Rightarrow> u8 \<Rightarrow> bool \<Rightarrow> bool \<Rightarrow> bool \<Rightarrow> bool \<Rightarrow> u8 list \<Rightarrow> u8 \<Rightarrow> u8 list" where
  "input_report_status btns leds ir speaker extension battery_low padding battery =
     be16 btns @
     [push_bit 4 leds OR push_bit 3 (bool_bit ir) OR push_bit 2 (bool_bit speaker) OR
      push_bit 1 (bool_bit extension) OR bool_bit battery_low] @ padding @ [battery]"

definition input_report_read_data ::
  "u16 \<Rightarrow> u8 \<Rightarrow> u8 \<Rightarrow> u16 \<Rightarrow> u8 list \<Rightarrow> u8 list" where
  "input_report_read_data btns size_minus_one error address data =
     be16 btns @ [push_bit 4 size_minus_one OR take_bit 4 error] @ be16 address @ data"

text \<open>
  The fields of the output reports: \<open>led\<close>, \<open>enable_feature\<close> and \<open>mode\<close> start with one
  byte of flags, \<open>write_data\<close> and \<open>read_data\<close> with the address space and the slave address.
\<close>

definition led_leds :: "u8 \<Rightarrow> u8" where "led_leds b = field 4 4 b"
definition led_ack :: "u8 \<Rightarrow> bool" where "led_ack b = (field 1 1 b \<noteq> 0)"
definition feature_enable :: "u8 \<Rightarrow> bool" where "feature_enable b = (field 2 1 b \<noteq> 0)"
definition feature_ack :: "u8 \<Rightarrow> bool" where "feature_ack b = (field 1 1 b \<noteq> 0)"
definition mode_continuous :: "u8 \<Rightarrow> bool" where "mode_continuous b = (field 2 1 b \<noteq> 0)"
definition mode_ack :: "u8 \<Rightarrow> bool" where "mode_ack b = (field 1 1 b \<noteq> 0)"
definition data_space :: "u8 \<Rightarrow> u8" where "data_space b = field 2 2 b"
definition data_slave_address :: "u8 \<Rightarrow> u8" where "data_slave_address b = field 1 7 b"

lemma data_space_cases: "data_space b \<in> {0, 1, 2, 3}"
proof -
  have "unat (data_space b) < 4"
    by (simp add: data_space_def field_def unsigned_take_bit_eq take_bit_eq_mod unat_mod)
  then have "unat (data_space b) \<in> {0, 1, 2, 3}" by auto
  then show ?thesis by (auto simp: word_unat_eq_iff)
qed

end
