(* ===== verification/Button_Map.thy ===== *)
theory Button_Map
  imports Ios Wiimote_Regs "HOL-Library.Signed_Division"
begin

text \<open>
  \<open>source/button_map.c\<close> and \<open>include/button_map.h\<close>: the translation of a game
  controller's buttons, sticks and touchpad into Wiimote buttons, extension data blocks and
  infrared dots, and the edge detector of the button combinations that switch modes.
\<close>

section \<open>Buttons and sticks\<close>

text \<open>Every set bit of the input contributes the entry of the mapping table at its position.\<close>

fun map_buttons :: "u32 \<Rightarrow> 'a::len word list \<Rightarrow> 'a word \<Rightarrow> 'a word" where
  "map_buttons buttons [] out = out"
| "map_buttons buttons (m # ms) out =
     map_buttons (drop_bit 1 buttons) ms (if buttons AND 1 \<noteq> 0 then out OR m else out)"

definition bm_map_wiimote :: "u32 \<Rightarrow> u16 list \<Rightarrow> u16 \<Rightarrow> u16" where
  "bm_map_wiimote buttons wiimote_button_map wiimote_buttons =
     map_buttons buttons wiimote_button_map wiimote_buttons"

definition s16_to_u8 :: "u16 \<Rightarrow> u8" where
  "s16_to_u8 value = word_of_int (0x80 + sint value div 2 ^ 8)"

text \<open>An entry 0 of the axis table means not mapped, \<open>k + 1\<close> means output axis \<open>k\<close>.\<close>

fun map_analog_axes :: "u16 list \<Rightarrow> nat list \<Rightarrow> u8 list \<Rightarrow> u8 list" where
  "map_analog_axes (v # vs) (m # ms) out =
     map_analog_axes vs ms (if m \<noteq> 0 then out[m - 1 := s16_to_u8 v] else out)"
| "map_analog_axes _ _ out = out"

lemma length_map_analog_axes [simp]: "length (map_analog_axes vs ms out) = length out"
  by (induction vs ms out rule: map_analog_axes.induct) auto

lemma bit_map_buttons:
  "bit (map_buttons b ms out) n \<longleftrightarrow>
     bit out n \<or> (\<exists>i<length ms. bit b i \<and> bit (ms ! i) n)"
proof (induction ms arbitrary: b out)
  case (Cons m ms)
  have odd: "b AND 1 \<noteq> 0 \<longleftrightarrow> bit b 0"
    by (simp add: and_one_eq odd_iff_mod_2_eq_one bit_0)
  have split: "(\<exists>i<length (m # ms). bit b i \<and> bit ((m # ms) ! i) n) \<longleftrightarrow>
      (bit b 0 \<and> bit m n) \<or> (\<exists>i<length ms. bit b (Suc i) \<and> bit (ms ! i) n)"
    by (auto simp: less_Suc_eq_0_disj)
  show ?case unfolding split
    by (auto simp: Cons.IH odd bit_or_iff bit_drop_bit_eq simp del: length_Cons)
qed simp

section \<open>Extension data blocks\<close>

definition BM_NUNCHUK_ANALOG_AXIS_X :: nat where "BM_NUNCHUK_ANALOG_AXIS_X = 1"
definition BM_NUNCHUK_ANALOG_AXIS_Y :: nat where "BM_NUNCHUK_ANALOG_AXIS_Y = 2"
definition BM_NUNCHUK_ANALOG_AXIS__NUM :: nat where
  "BM_NUNCHUK_ANALOG_AXIS__NUM = BM_NUNCHUK_ANALOG_AXIS_Y"

definition BM_CLASSIC_ANALOG_AXIS_LEFT_X :: nat where "BM_CLASSIC_ANALOG_AXIS_LEFT_X = 1"
definition BM_CLASSIC_ANALOG_AXIS_LEFT_Y :: nat where "BM_CLASSIC_ANALOG_AXIS_LEFT_Y = 2"
definition BM_CLASSIC_ANALOG_AXIS_RIGHT_X :: nat where "BM_CLASSIC_ANALOG_AXIS_RIGHT_X = 3"
definition BM_CLASSIC_ANALOG_AXIS_RIGHT_Y :: nat where "BM_CLASSIC_ANALOG_AXIS_RIGHT_Y = 4"
definition BM_CLASSIC_ANALOG_AXIS__NUM :: nat where
  "BM_CLASSIC_ANALOG_AXIS__NUM = BM_CLASSIC_ANALOG_AXIS_RIGHT_Y"

lemmas bm_axis_consts [c_consts] =
  BM_NUNCHUK_ANALOG_AXIS_X_def BM_NUNCHUK_ANALOG_AXIS_Y_def BM_NUNCHUK_ANALOG_AXIS__NUM_def
  BM_CLASSIC_ANALOG_AXIS_LEFT_X_def BM_CLASSIC_ANALOG_AXIS_LEFT_Y_def
  BM_CLASSIC_ANALOG_AXIS_RIGHT_X_def BM_CLASSIC_ANALOG_AXIS_RIGHT_Y_def
  BM_CLASSIC_ANALOG_AXIS__NUM_def

text \<open>The bytes of the two blocks that pack several bit fields.\<close>

definition nunchuk_bt :: "u8 \<Rightarrow> u8 \<Rightarrow> u8 \<Rightarrow> bool \<Rightarrow> bool \<Rightarrow> u8" where
  "nunchuk_bt acc_z_lsb acc_y_lsb acc_x_lsb c z =
     push_bit 6 (take_bit 2 acc_z_lsb) OR push_bit 4 (take_bit 2 acc_y_lsb) OR
     push_bit 2 (take_bit 2 acc_x_lsb) OR push_bit 1 (bool_bit c) OR bool_bit z"

definition classic_byte_01 :: "u8 \<Rightarrow> u8 \<Rightarrow> u8" where
  "classic_byte_01 rx l = push_bit 6 (take_bit 2 rx) OR take_bit 6 l"

definition classic_byte_2 :: "u8 \<Rightarrow> u8 \<Rightarrow> u8 \<Rightarrow> u8" where
  "classic_byte_2 rx1 lt2 ry =
     push_bit 7 (take_bit 1 rx1) OR push_bit 5 (take_bit 2 lt2) OR take_bit 5 ry"

definition classic_byte_3 :: "u8 \<Rightarrow> u8 \<Rightarrow> u8" where
  "classic_byte_3 lt1 rt = push_bit 5 (take_bit 3 lt1) OR take_bit 5 rt"

definition bm_nunchuk_format :: "u8 \<Rightarrow> u8 list \<Rightarrow> u16 \<Rightarrow> u16 \<Rightarrow> u16 \<Rightarrow> u8 list" where
  "bm_nunchuk_format btns analog_axis ax ay az =
     [analog_axis ! (BM_NUNCHUK_ANALOG_AXIS_X - 1), analog_axis ! (BM_NUNCHUK_ANALOG_AXIS_Y - 1),
      ucast (drop_bit 2 ax), ucast (drop_bit 2 ay), ucast (drop_bit 2 az),
      nunchuk_bt (ucast (az AND 3)) (ucast (ay AND 3)) (ucast (ax AND 3))
        (btns AND NUNCHUK_BUTTON_C = 0) (btns AND NUNCHUK_BUTTON_Z = 0)]"

definition bm_classic_format :: "u16 \<Rightarrow> u8 list \<Rightarrow> u8 list" where
  "bm_classic_format btns analog_axis =
     (let lx = drop_bit 2 (analog_axis ! (BM_CLASSIC_ANALOG_AXIS_LEFT_X - 1));
          ly = drop_bit 2 (analog_axis ! (BM_CLASSIC_ANALOG_AXIS_LEFT_Y - 1));
          rx = drop_bit 3 (analog_axis ! (BM_CLASSIC_ANALOG_AXIS_RIGHT_X - 1));
          ry = drop_bit 3 (analog_axis ! (BM_CLASSIC_ANALOG_AXIS_RIGHT_Y - 1));
          lt = (if btns AND CLASSIC_CTRL_BUTTON_FULL_L \<noteq> 0 then 31 else 0);
          rt = (if btns AND CLASSIC_CTRL_BUTTON_FULL_R \<noteq> 0 then 31 else 0)
      in [classic_byte_01 (drop_bit 3 rx AND 3) (lx AND 0x3F),
          classic_byte_01 (drop_bit 1 rx AND 3) (ly AND 0x3F),
          classic_byte_2 (rx AND 1) (drop_bit 3 lt AND 3) (ry AND 0x1F),
          classic_byte_3 (lt AND 0x7) (rt AND 0x1F)] @
         be16 (NOT btns AND CLASSIC_CTRL_BUTTON_ALL))"

definition bm_map_nunchuk ::
  "u32 \<Rightarrow> u16 list \<Rightarrow> u16 \<Rightarrow> u16 \<Rightarrow> u16 \<Rightarrow> u8 list \<Rightarrow> nat list \<Rightarrow> u8 list" where
  "bm_map_nunchuk btns analog_axis ax ay az nunchuk_button_map nunchuk_analog_axis_map =
     bm_nunchuk_format (map_buttons btns nunchuk_button_map 0)
       (map_analog_axes analog_axis nunchuk_analog_axis_map
          (replicate BM_NUNCHUK_ANALOG_AXIS__NUM 0)) ax ay az"

definition bm_map_classic :: "u32 \<Rightarrow> u16 list \<Rightarrow> u16 list \<Rightarrow> nat list \<Rightarrow> u8 list" where
  "bm_map_classic btns analog_axis classic_button_map classic_analog_axis_map =
     bm_classic_format (map_buttons btns classic_button_map 0)
       (map_analog_axes analog_axis classic_analog_axis_map
          (replicate BM_CLASSIC_ANALOG_AXIS__NUM 0))"

lemma length_nunchuk_format [simp]: "length (bm_nunchuk_format btns axs ax ay az) = 6"
  by (simp add: bm_nunchuk_format_def)

lemma length_classic_format [simp]: "length (bm_classic_format btns axs) = 6"
  by (simp add: bm_classic_format_def Let_def)

section \<open>Infrared pointer\<close>

datatype bm_ir_emulation_mode = BM_IR_EMULATION_MODE_NONE | BM_IR_EMULATION_MODE_DIRECT
  | BM_IR_EMULATION_MODE_RELATIVE_ANALOG_AXIS | BM_IR_EMULATION_MODE_ABSOLUTE_ANALOG_AXIS

primrec ir_mode_number :: "bm_ir_emulation_mode \<Rightarrow> nat" where
  "ir_mode_number BM_IR_EMULATION_MODE_NONE = 0"
| "ir_mode_number BM_IR_EMULATION_MODE_DIRECT = 1"
| "ir_mode_number BM_IR_EMULATION_MODE_RELATIVE_ANALOG_AXIS = 2"
| "ir_mode_number BM_IR_EMULATION_MODE_ABSOLUTE_ANALOG_AXIS = 3"

definition BM_IR_AXIS_X :: nat where "BM_IR_AXIS_X = 1"
definition BM_IR_AXIS_Y :: nat where "BM_IR_AXIS_Y = 2"

type_synonym ir_dot = "u16 \<times> u16"

definition bm_ir_emulation_state_reset :: "u16 list \<Rightarrow> u16 list" where
  "bm_ir_emulation_state_reset position =
     position[BM_IR_AXIS_X - 1 := IR_CENTER_X, BM_IR_AXIS_Y - 1 := IR_CENTER_Y]"

definition bm_ir_dots_set_out_of_screen :: "ir_dot list \<Rightarrow> ir_dot list" where
  "bm_ir_dots_set_out_of_screen ir_dots = map (\<lambda>(x, y). (x, 1023)) ir_dots"

definition map_ir_dot :: "bool \<Rightarrow> u16 \<times> u16 \<Rightarrow> ir_dot list \<Rightarrow> ir_dot list" where
  "map_ir_dot s_sensor_bar_position_top dot ir_dots =
     (let (x, y) = dot;
          vert_offset = (if s_sensor_bar_position_top then IR_VERTICAL_OFFSET
                         else - IR_VERTICAL_OFFSET);
          mirrored = IR_DOT_CENTER_MIN_X + (IR_DOT_CENTER_MAX_X - x)
      in ir_dots[0 := (mirrored - IR_HORIZONTAL_OFFSET, y + vert_offset),
                 1 := (mirrored + IR_HORIZONTAL_OFFSET, y + vert_offset)])"

definition bm_map_ir_direct ::
  "'os ext \<Rightarrow> bool \<Rightarrow> u16 \<Rightarrow> u16 \<Rightarrow> ir_dot list \<Rightarrow> ir_dot list" where
  "bm_map_ir_direct E bar_top x y ir_dots =
     (if sint x < 0 then bm_ir_dots_set_out_of_screen ir_dots
      else
        let scale = (\<lambda>v lo hi. lo +
              word_of_int ((sint v * uint (hi - lo)) sdiv EGC_GAMEPAD_TOUCH_RES E))
        in map_ir_dot bar_top (scale x IR_DOT_CENTER_MIN_X IR_DOT_CENTER_MAX_X,
                           scale y IR_DOT_CENTER_MIN_Y IR_DOT_CENTER_MAX_Y) ir_dots)"

definition move_ir_axis :: "bm_ir_emulation_mode \<Rightarrow> nat \<Rightarrow> u16 \<Rightarrow> u16 list \<Rightarrow> u16 list" where
  "move_ir_axis mode m val position =
     (case mode of
        BM_IR_EMULATION_MODE_RELATIVE_ANALOG_AXIS \<Rightarrow>
          position[m - 1 := position ! (m - 1) + word_of_int (sint val sdiv 16)]
      | BM_IR_EMULATION_MODE_ABSOLUTE_ANALOG_AXIS \<Rightarrow>
          position[m - 1 := (if m = BM_IR_AXIS_X then IR_CENTER_X else IR_CENTER_Y) + val]
      | _ \<Rightarrow> position)"

fun move_ir_axes ::
  "bm_ir_emulation_mode \<Rightarrow> u16 list \<Rightarrow> nat list \<Rightarrow> u16 list \<Rightarrow> u16 list" where
  "move_ir_axes mode (v # vs) (m # ms) position =
     move_ir_axes mode vs ms (if m \<noteq> 0 then move_ir_axis mode m v position else position)"
| "move_ir_axes mode _ _ position = position"

definition clamp :: "u16 \<Rightarrow> u16 \<Rightarrow> u16 \<Rightarrow> u16" where
  "clamp lo hi v = (if v < lo then lo else if v > hi then hi else v)"

definition clamp_ir_position :: "u16 list \<Rightarrow> u16 list" where
  "clamp_ir_position p =
     p[0 := clamp IR_DOT_CENTER_MIN_X IR_DOT_CENTER_MAX_X (p ! 0),
       1 := clamp IR_DOT_CENTER_MIN_Y IR_DOT_CENTER_MAX_Y (p ! 1)]"

text \<open>The result is the new state of the emulation and the dots.\<close>

definition bm_map_ir_analog_axis ::
  "bool \<Rightarrow> bm_ir_emulation_mode \<Rightarrow> u16 list \<Rightarrow> u16 list \<Rightarrow> nat list \<Rightarrow> ir_dot list \<Rightarrow>
   u16 list \<times> ir_dot list" where
  "bm_map_ir_analog_axis bar_top mode position analog_axis ir_analog_axis_map ir_dots =
     (let p = clamp_ir_position (move_ir_axes mode analog_axis ir_analog_axis_map position)
      in (p, map_ir_dot bar_top
               (p ! 0, IR_DOT_CENTER_MIN_Y + (IR_DOT_CENTER_MAX_Y - p ! 1)) ir_dots))"

section \<open>Combinations of buttons\<close>

text \<open>The result says whether the switch triggers; the new pressed state is kept.\<close>

definition bm_check_switch_mapping :: "u32 \<Rightarrow> bool \<Rightarrow> u32 \<Rightarrow> bool \<times> bool" where
  "bm_check_switch_mapping btns switch_mapping switch_mapping_combo =
     (let switch_pressed = (btns AND switch_mapping_combo = switch_mapping_combo)
      in (switch_pressed \<and> \<not> switch_mapping, switch_pressed))"

text \<open>The triggers over a run of input samples.\<close>

fun switch_triggers :: "u32 \<Rightarrow> bool \<Rightarrow> u32 list \<Rightarrow> bool list" where
  "switch_triggers combo s [] = []"
| "switch_triggers combo s (b # bs) =
     (let (t, s') = bm_check_switch_mapping b s combo in t # switch_triggers combo s' bs)"

lemma length_switch_triggers [simp]: "length (switch_triggers combo s bs) = length bs"
  by (induction bs arbitrary: s) (auto simp: Let_def split: prod.splits)

section \<open>Properties\<close>

lemma clamp_range: "lo \<le> hi \<Longrightarrow> lo \<le> clamp lo hi v \<and> clamp lo hi v \<le> hi"
  by (auto simp: clamp_def)

lemma ir_limits:
  "IR_LOW_X = 127" "IR_HIGH_X = 896" "IR_LOW_Y = 93" "IR_HIGH_Y = 674"
  "IR_DOT_CENTER_MIN_X = 191" "IR_DOT_CENTER_MAX_X = 832"
  "IR_DOT_CENTER_MIN_Y = 203" "IR_DOT_CENTER_MAX_Y = 564"
  "IR_CENTER_X = 511" "IR_CENTER_Y = 383" "IR_HORIZONTAL_OFFSET = 64" "IR_VERTICAL_OFFSET = 110"
  by (simp_all add: c_consts drop_bit_Suc)

lemma length_move_ir_axes [simp]: "length (move_ir_axes mode vs ms p) = length p"
  by (induction mode vs ms p rule: move_ir_axes.induct)
     (auto simp: move_ir_axis_def split: bm_ir_emulation_mode.splits)

text \<open>The pair of dots drawn for a centre inside the limits.\<close>

definition dots_on_screen :: "ir_dot list \<Rightarrow> bool" where
  "dots_on_screen ds \<longleftrightarrow> (\<exists>x y. take 2 ds = [(x, y), (x + 2 * IR_HORIZONTAL_OFFSET, y)] \<and>
     IR_LOW_X \<le> x \<and> x + 2 * IR_HORIZONTAL_OFFSET \<le> IR_HIGH_X \<and>
     x \<le> x + 2 * IR_HORIZONTAL_OFFSET \<and> IR_LOW_Y \<le> y \<and> y \<le> IR_HIGH_Y)"

lemma map_ir_dot_on_screen:
  assumes x: "IR_DOT_CENTER_MIN_X \<le> x" "x \<le> IR_DOT_CENTER_MAX_X"
    and y: "IR_DOT_CENTER_MIN_Y \<le> y" "y \<le> IR_DOT_CENTER_MAX_Y"
    and ds: "2 \<le> length ds"
  shows "dots_on_screen (map_ir_dot bar_top (x, y) ds)"
proof -
  obtain a b ds' where [simp]: "ds = a # b # ds'"
    using ds by (cases ds; cases "tl ds") auto
  define n m where "n = unat x" and "m = unat y"
  have x_n: "x = of_nat n" "191 \<le> n" "n \<le> 832" and y_m: "y = of_nat m" "203 \<le> m" "m \<le> 564"
    using x y by (simp_all add: n_def m_def ir_limits word_le_nat_alt)
  define i k where "i = 959 - n" and "k = i + 128"
  define j where "j = (if bar_top then m + 110 else m - 110)"
  have dx: "IR_DOT_CENTER_MIN_X + (IR_DOT_CENTER_MAX_X - x) - IR_HORIZONTAL_OFFSET = of_nat i"
    "IR_DOT_CENTER_MIN_X + (IR_DOT_CENTER_MAX_X - x) + IR_HORIZONTAL_OFFSET = of_nat k"
    "of_nat i + 2 * IR_HORIZONTAL_OFFSET = (of_nat k :: u16)"
    using x_n by (simp_all add: i_def k_def ir_limits of_nat_diff)
  have dy: "y + (if bar_top then IR_VERTICAL_OFFSET else - IR_VERTICAL_OFFSET) = of_nat j"
    using y_m by (simp add: j_def ir_limits of_nat_diff)
  have "127 \<le> i" "k \<le> 896" "i \<le> k" "93 \<le> j" "j \<le> 674"
    using x_n(2,3) y_m(2,3) by (auto simp: i_def k_def j_def)
  then show ?thesis
    by (simp add: dots_on_screen_def map_ir_dot_def Let_def dx dy ir_limits(1-4)
        word_le_nat_alt unat_of_nat)
qed

text \<open>C38: Whatever the stick positions and the previous state, the emulated pointer stays inside
  its limits and the two dots it shows lie on the screen, at the same height and at the fixed
  distance of the sensor bar.\<close>

lemma ir_pointer_on_screen:
  assumes "length position = 2" and "2 \<le> length ir_dots"
    and "bm_map_ir_analog_axis bar_top mode position analog_axis axis_map ir_dots = (p', ds)"
  shows "length p' = 2 \<and> IR_DOT_CENTER_MIN_X \<le> p' ! 0 \<and> p' ! 0 \<le> IR_DOT_CENTER_MAX_X \<and>
    IR_DOT_CENTER_MIN_Y \<le> p' ! 1 \<and> p' ! 1 \<le> IR_DOT_CENTER_MAX_Y \<and> dots_on_screen ds"
proof -
  define q where "q = move_ir_axes mode analog_axis axis_map position"
  have q: "length q = 2" using assms(1) by (simp add: q_def)
  have p': "p' = clamp_ir_position q"
    and ds: "ds = map_ir_dot bar_top
      (p' ! 0, IR_DOT_CENTER_MIN_Y + (IR_DOT_CENTER_MAX_Y - p' ! 1)) ir_dots"
    using assms(3) by (auto simp: bm_map_ir_analog_axis_def Let_def q_def)
  have r: "IR_DOT_CENTER_MIN_X \<le> p' ! 0" "p' ! 0 \<le> IR_DOT_CENTER_MAX_X"
    "IR_DOT_CENTER_MIN_Y \<le> p' ! 1" "p' ! 1 \<le> IR_DOT_CENTER_MAX_Y" "length p' = 2"
    using q clamp_range [of IR_DOT_CENTER_MIN_X IR_DOT_CENTER_MAX_X "q ! 0"]
      clamp_range [of IR_DOT_CENTER_MIN_Y IR_DOT_CENTER_MAX_Y "q ! 1"]
    by (simp_all add: p' clamp_ir_position_def ir_limits)
  define m where "m = unat (p' ! 1)"
  have m: "p' ! 1 = of_nat m" "203 \<le> m" "m \<le> 564"
    using r(3,4) by (simp_all add: m_def ir_limits word_le_nat_alt)
  define k where "k = 767 - m"
  have "IR_DOT_CENTER_MIN_Y + (IR_DOT_CENTER_MAX_Y - p' ! 1) = of_nat k" "203 \<le> k" "k \<le> 564"
    using m by (simp_all add: k_def ir_limits of_nat_diff)
  then have "dots_on_screen ds" unfolding ds using r(1,2) assms(2)
    by (intro map_ir_dot_on_screen) (simp_all add: ir_limits word_le_nat_alt unat_of_nat)
  with r show ?thesis by simp
qed

lemma ir_pointer_on_screen_witness:
  "let (p', ds) = bm_map_ir_analog_axis False BM_IR_EMULATION_MODE_RELATIVE_ANALOG_AXIS
      [511, 383] [0x1000, 0] [1, 2] (replicate 4 (0, 0))
   in p' ! 0 = 767 \<and> dots_on_screen ds"
  using ir_pointer_on_screen [OF _ _ surjective_pairing, of "[511, 383]" "replicate 4 (0, 0)" False
    BM_IR_EMULATION_MODE_RELATIVE_ANALOG_AXIS "[0x1000, 0]" "[1, 2]"]
  by (simp add: case_prod_unfold bm_map_ir_analog_axis_def Let_def move_ir_axis_def
      clamp_ir_position_def clamp_def ir_limits)

text \<open>The mathematical step of one relative axis, and what 16 bits make of it.\<close>

definition step_axis :: "u16 \<Rightarrow> u16 \<Rightarrow> u16 \<Rightarrow> u16 \<Rightarrow> int" where
  "step_axis lo hi p v =
     (let t = uint p + sint v sdiv 16
      in if t < 0 then uint hi else max (uint lo) (min (uint hi) t))"

lemma sdiv_16_bounds: "- 2048 \<le> sint (v :: u16) sdiv 16 \<and> sint v sdiv 16 < 2048"
proof -
  have "- 32768 \<le> sint v" "sint v < 32768"
    using sint_ge [of v] sint_lt [of v] by simp_all
  then have "\<bar>sint v\<bar> div 16 \<le> 2048" "0 \<le> sint v \<Longrightarrow> sint v div 16 < 2048"
    by linarith+
  moreover have "0 \<le> \<bar>sint v\<bar> div 16" by simp
  ultimately show ?thesis
    by (cases "sint v" "0 :: int" rule: linorder_cases) (auto simp: signed_divide_int_def)
qed

lemma relative_step:
  assumes p: "(lo :: u16) \<le> p" "p \<le> hi" and hi: "hi \<le> 1024"
  shows "uint (clamp lo hi (p + word_of_int (sint v sdiv 16))) = step_axis lo hi p v"
proof -
  define d where "d = sint v sdiv 16"
  have d: "- 2048 \<le> d" "d < 2048" using sdiv_16_bounds [of v] by (simp_all add: d_def)
  have lim: "uint lo \<le> uint p" "uint p \<le> uint hi" "uint hi \<le> 1024" "0 \<le> uint p" "0 \<le> uint lo"
    using p hi by (auto simp: word_le_def)
  have "uint (p + word_of_int d) = (uint p + d) mod 65536"
    by (simp add: uint_word_ariths uint_word_of_int mod_simps)
  also have "\<dots> = (if uint p + d < 0 then uint p + d + 65536 else uint p + d)"
  proof (cases "uint p + d < 0")
    case True
    then have "(uint p + d + 65536) mod 65536 = uint p + d + 65536"
      using d lim by (intro mod_pos_pos_trivial) linarith+
    with True show ?thesis by simp
  next
    case False
    then show ?thesis using d lim by (simp add: mod_pos_pos_trivial)
  qed
  finally have w: "uint (p + word_of_int d) =
    (if uint p + d < 0 then uint p + d + 65536 else uint p + d)" .
  have "uint hi < uint p + d + 65536" "uint lo \<le> uint hi" using d lim by linarith+
  with w show ?thesis
    by (auto simp: clamp_def word_less_def step_axis_def Let_def d_def [symmetric])
qed

text \<open>One sample of the two stick axes in relative mode moves each coordinate of the pointer
  by a sixteenth of the deflection and stops at its limits, except that a step past 0 wraps
  around in 16 bits and lands on the opposite limit.\<close>

lemma relative_pointer_step:
  assumes "IR_DOT_CENTER_MIN_X \<le> px" "px \<le> IR_DOT_CENTER_MAX_X"
    and "IR_DOT_CENTER_MIN_Y \<le> py" "py \<le> IR_DOT_CENTER_MAX_Y"
  shows "map uint (fst (bm_map_ir_analog_axis bar_top BM_IR_EMULATION_MODE_RELATIVE_ANALOG_AXIS
      [px, py] [vx, vy] [BM_IR_AXIS_X, BM_IR_AXIS_Y] ir_dots)) =
    [step_axis IR_DOT_CENTER_MIN_X IR_DOT_CENTER_MAX_X px vx,
     step_axis IR_DOT_CENTER_MIN_Y IR_DOT_CENTER_MAX_Y py vy]"
  using relative_step [OF assms(1,2), of vx] relative_step [OF assms(3,4), of vy]
  by (simp add: bm_map_ir_analog_axis_def Let_def move_ir_axis_def clamp_ir_position_def
      BM_IR_AXIS_X_def BM_IR_AXIS_Y_def ir_limits)

lemma relative_pointer_step_witness:
  "map uint (fst (bm_map_ir_analog_axis False BM_IR_EMULATION_MODE_RELATIVE_ANALOG_AXIS
      [191, 383] [0x8000, 0x0100] [BM_IR_AXIS_X, BM_IR_AXIS_Y] [])) = [832, 399]"
  using relative_pointer_step [of 191 383 False "0x8000" "0x0100" "[]"]
  by (simp add: ir_limits step_axis_def Let_def signed_divide_int_def)

section \<open>Decoding the extension data blocks\<close>

text \<open>What the host reads out of the six bytes of a Nunchuk or a Classic Controller.\<close>

definition nunchuk_decode :: "u8 list \<Rightarrow> (u8 \<times> u8) \<times> (u16 \<times> u16 \<times> u16) \<times> bool \<times> bool" where
  "nunchuk_decode d =
     (let acc = (\<lambda>b lo. push_bit 2 (ucast b) OR ucast (field lo 2 (d ! 5)))
      in ((d ! 0, d ! 1), (acc (d ! 2) 2, acc (d ! 3) 4, acc (d ! 4) 6),
          \<not> bit (d ! 5) 1, \<not> bit (d ! 5) 0))"

definition classic_decode :: "u8 list \<Rightarrow> (u8 \<times> u8 \<times> u8 \<times> u8) \<times> (u8 \<times> u8) \<times> u16" where
  "classic_decode d =
     ((field 0 6 (d ! 0), field 0 6 (d ! 1),
       push_bit 3 (field 6 2 (d ! 0)) OR push_bit 1 (field 6 2 (d ! 1)) OR field 7 1 (d ! 2),
       field 0 5 (d ! 2)),
      (push_bit 3 (field 5 2 (d ! 2)) OR field 5 3 (d ! 3), field 0 5 (d ! 3)),
      NOT (mk16 (d ! 4) (d ! 5)) AND CLASSIC_CTRL_BUTTON_ALL)"

lemma bool_bit_bit: "bit (bool_bit b) n \<longleftrightarrow> b \<and> n = 0"
  by (simp add: bool_bit_def bit_1_iff)

lemma nunchuk_bt_fields:
  "field 2 2 (nunchuk_bt z y x c b) = take_bit 2 x" "field 4 2 (nunchuk_bt z y x c b) = take_bit 2 y"
  "field 6 2 (nunchuk_bt z y x c b) = take_bit 2 z"
  "bit (nunchuk_bt z y x c b) (Suc 0) = c" "bit (nunchuk_bt z y x c b) 0 = b"
  unfolding nunchuk_bt_def field_def bool_bit_def
  by (cases c; cases b; auto intro!: bit_word_eqI simp: bit_simps less_8_cases)+

lemma ten_bits: "push_bit 2 (ucast (ucast (drop_bit 2 (a :: u16)) :: u8)) OR
    ucast (take_bit 2 (ucast (a AND 3) :: u8)) = take_bit 10 a"
proof (rule bit_word_eqI)
  fix n
  assume "n < LENGTH(16)"
  have three: "a AND 3 = take_bit 2 a"
    by (simp add: take_bit_eq_mask mask_eq_exp_minus_1)
  show "bit (push_bit 2 (ucast (ucast (drop_bit 2 a) :: u8)) OR
      ucast (take_bit 2 (ucast (a AND 3) :: u8)) :: u16) n = bit (take_bit 10 a) n"
    unfolding three
    by (cases "n < 2") (auto simp: bit_simps Suc_diff_le [symmetric] dest: bit_imp_le_length)
qed

text \<open>C39: The Nunchuk block decodes to the sticks, the ten bits of each acceleration and the two
  buttons it was made from.\<close>

lemma nunchuk_format_decode:
  "nunchuk_decode (bm_nunchuk_format btns [jx, jy] ax ay az) =
    ((jx, jy), (take_bit 10 ax, take_bit 10 ay, take_bit 10 az),
     btns AND NUNCHUK_BUTTON_C \<noteq> 0, btns AND NUNCHUK_BUTTON_Z \<noteq> 0)"
  unfolding nunchuk_decode_def bm_nunchuk_format_def Let_def
  by (simp add: BM_NUNCHUK_ANALOG_AXIS_X_def BM_NUNCHUK_ANALOG_AXIS_Y_def
      nunchuk_bt_fields ten_bits)

lemma classic_byte_fields:
  "field 0 6 (classic_byte_01 r l) = take_bit 6 l" "field 6 2 (classic_byte_01 r l) = take_bit 2 r"
  "field 7 1 (classic_byte_2 x y z) = take_bit 1 x" "field 5 2 (classic_byte_2 x y z) = take_bit 2 y"
  "field 0 5 (classic_byte_2 x y z) = take_bit 5 z"
  "field 5 3 (classic_byte_3 t u) = take_bit 3 t" "field 0 5 (classic_byte_3 t u) = take_bit 5 u"
  unfolding field_def classic_byte_01_def classic_byte_2_def classic_byte_3_def
  by (rule bit_word_eqI, simp only: bit_simps o_apply, (auto simp: less_8_cases)[1])+

lemma take_bit_6_and: "take_bit 6 (w AND 0x3F) = take_bit 6 (w :: u8)"
  by (rule bit_word_eqI, simp only: bit_simps o_apply, (auto simp: less_8_cases)[1])

lemma take_bit_5_and: "take_bit 5 (w AND 0x1F) = take_bit 5 (w :: u8)"
  by (rule bit_word_eqI, simp only: bit_simps o_apply, (auto simp: less_8_cases)[1])

lemma take_bit_3_and: "take_bit 3 (w AND 0x7) = take_bit 3 (w :: u8)"
  by (rule bit_word_eqI, simp only: bit_simps o_apply, (auto simp: less_8_cases)[1])

lemma take_bit_2_and: "take_bit 2 (w AND 3) = take_bit 2 (w :: u8)"
  by (rule bit_word_eqI, simp only: bit_simps o_apply, (auto simp: less_8_cases)[1])

lemma take_bit_1_and: "take_bit 1 (w AND 1) = take_bit 1 (w :: u8)"
  by (rule bit_word_eqI, simp only: bit_simps o_apply, (auto simp: less_8_cases)[1])

lemma stick_bits:
  "take_bit 6 (drop_bit 2 a) = drop_bit 2 (a :: u8)" "take_bit 5 (drop_bit 3 a) = drop_bit 3 a"
  "push_bit 3 (take_bit 2 (drop_bit 3 (drop_bit 3 a))) OR
   push_bit 1 (take_bit 2 (drop_bit 1 (drop_bit 3 a))) OR take_bit 1 (drop_bit 3 a) = drop_bit 3 a"
  by (rule bit_word_eqI, simp only: bit_simps o_apply,
      (auto simp: less_8_cases dest: bit_imp_le_length;
       simp add: numeral_2_eq_2 numeral_3_eq_3)[1])+

lemmas field_masks = take_bit_6_and take_bit_5_and take_bit_3_and take_bit_2_and take_bit_1_and

lemma classic_decode_bytes:
  "classic_decode ([classic_byte_01 a b, classic_byte_01 c d, classic_byte_2 e f g,
     classic_byte_3 h i] @ be16 w) =
   ((take_bit 6 b, take_bit 6 d,
     push_bit 3 (take_bit 2 a) OR push_bit 1 (take_bit 2 c) OR take_bit 1 e, take_bit 5 g),
    (push_bit 3 (take_bit 2 f) OR take_bit 3 h, take_bit 5 i),
    NOT w AND CLASSIC_CTRL_BUTTON_ALL)"
  using classic_byte_fields(3) [of e f g]
  by (simp add: classic_decode_def be16_def classic_byte_fields)

text \<open>C40: The Classic Controller block decodes to the upper bits of the four sticks, full or
  released triggers, and the pressed buttons.\<close>

lemma classic_format_decode:
  "classic_decode (bm_classic_format btns [lx, ly, rx, ry]) =
    ((drop_bit 2 lx, drop_bit 2 ly, drop_bit 3 rx, drop_bit 3 ry),
     (if btns AND CLASSIC_CTRL_BUTTON_FULL_L \<noteq> 0 then 31 else 0,
      if btns AND CLASSIC_CTRL_BUTTON_FULL_R \<noteq> 0 then 31 else 0),
     btns AND CLASSIC_CTRL_BUTTON_ALL)"
proof -
  have btns: "NOT (NOT btns AND CLASSIC_CTRL_BUTTON_ALL) AND CLASSIC_CTRL_BUTTON_ALL =
      btns AND CLASSIC_CTRL_BUTTON_ALL"
    by (rule bit_word_eqI) (auto simp: bit_simps)
  have trigger: "push_bit 3 (take_bit 2 (drop_bit 3 t)) OR take_bit 3 t = t"
    if "t = 0 \<or> t = 31" for t :: u8
    using that by auto
  have axes: "[lx, ly, rx, ry] ! (BM_CLASSIC_ANALOG_AXIS_LEFT_X - 1) = lx"
    "[lx, ly, rx, ry] ! (BM_CLASSIC_ANALOG_AXIS_LEFT_Y - 1) = ly"
    "[lx, ly, rx, ry] ! (BM_CLASSIC_ANALOG_AXIS_RIGHT_X - 1) = rx"
    "[lx, ly, rx, ry] ! (BM_CLASSIC_ANALOG_AXIS_RIGHT_Y - 1) = ry"
    by (simp_all add: bm_axis_consts)
  show ?thesis
    unfolding bm_classic_format_def Let_def classic_decode_bytes axes field_masks stick_bits btns
    by (subst trigger) auto
qed

section \<open>Edge detection\<close>

text \<open>Over any run of input samples a combination triggers exactly at the samples where it
  is pressed and was not pressed at the sample before.\<close>

lemma switch_triggers_edges:
  assumes "i < length samples"
  shows "switch_triggers combo s samples ! i \<longleftrightarrow>
    samples ! i AND combo = combo \<and>
    \<not> (if i = 0 then s else samples ! (i - 1) AND combo = combo)"
  using assms
proof (induction samples arbitrary: s i)
  case (Cons b bs)
  then show ?case
    by (cases i) (auto simp: bm_check_switch_mapping_def Let_def)
qed simp

lemma switch_triggers_edges_witness:
  "switch_triggers 3 False [3, 3, 0, 7] ! 3"
  using switch_triggers_edges [of 3 "[3, 3, 0, 7]" 3 False]
  by simp

end
