(* ===== verification/Wiimote_Crypto.thy ===== *)
theory Wiimote_Crypto
  imports Ios
begin

text \<open>
  \<open>source/wiimote_crypto.c\<close>: the byte cipher between an extension controller and the host.
  The key tables are derived from the sixteen bytes the host writes to the extension's key
  registers; the data registers are encrypted byte by byte, the table entry chosen by the
  register address.  The cipher is stated as a contract (locale \<open>stream_cipher\<close>), on which the
  chunked register reads rest.
\<close>

section \<open>Tables\<close>

definition keygen_sbox_1st_party :: "u8 list" where
  "keygen_sbox_1st_party =
    [112,  81,   3, 134,  64,  13,  79, 235,  62, 204, 209, 135,  53, 189, 245,  11,
      94, 208, 248, 242, 213, 226, 108,  49,  12, 173, 252,  33, 195, 120, 193,   6,
     194,  76,  85, 230,  74,  52,  72,  17,  30, 218, 231,  26, 132, 160, 150, 167,
     227, 127, 175,  99, 156, 250,  35,  91, 121, 200, 158, 186, 178, 201,  34,  18,
      75, 179, 161, 182,  50,  73, 162, 225, 137,  57,  16, 102, 197,   7, 143,  84,
     234, 145, 202,  63, 249,  25, 240, 215,  70, 188,  40,  27,  97, 232,  47, 106,
     174, 157, 246,  78,   9,  20, 119,  77, 219,  31,  46, 123, 124, 241,  67, 163,
       0, 184,  19, 140, 133, 185,  41, 117, 136, 253, 210,  86,  28,  80, 151,  65,
     229,  59,  96, 181, 192, 100, 238, 152, 214,  45,  37, 164, 170, 205, 125, 168,
     131, 198, 171, 190,  68, 153,  38,  60, 206, 159, 191, 211, 203, 118, 122, 126,
     130,   1, 138, 154, 128,  29,  14, 176,  92, 212,  56,  98, 244,  48, 224, 142,
      83, 183,   2,  87, 172, 166,  82,  10, 109, 146, 101,  23,  36,  51,  69, 114,
     116, 177, 180, 247,  93, 237,  44, 255,  71,  55,  90, 144, 187, 223,  42,  22,
      89, 149, 217, 196,  39, 103, 115, 199, 104, 254, 165, 221, 107,  95, 147, 216,
     236,   5,  58, 141, 110, 251,  61, 169, 105,  54, 243, 148, 222, 239,  21, 111,
     139, 155,   8,  15, 220, 129,  24,  32,   4, 228, 113, 207, 233,  43,  66,  88]"

definition sbox_1st_party_0 :: "u8 list" where
  "sbox_1st_party_0 =
    [1, 160, 169,  98, 214,  63, 133, 167, 182, 212, 250,  21, 102,  23,   9, 189,
      93,  20,  52,  38,  89, 114, 145,  84,   6,  79, 248, 176,  91, 116, 147, 153,
     140, 242,  69, 205, 234,  78, 173,  16,  74, 229, 202, 238, 223, 198, 111, 159,
     136, 142,   2, 204,   8, 168, 119, 148, 109,  33, 177,  40, 228,  57, 121, 150,
      96, 113, 129,  22,  46, 230, 120, 185, 196,  70, 154,  66, 174, 183, 124,  67,
     179,  34,  26, 134, 194,  50,  61,  45, 156, 210,  41, 233,  99, 155, 209,  49,
      56,  94,  30,  54,  65, 187,   3,  24,  43,  62, 191, 104,  97, 252,  82, 192,
     222, 224,  10,  88,  19,  90,   0, 190,  28, 144,  14,  83,  18, 253, 226, 110,
     186, 206,  36,  39,  68, 127, 135, 163, 161, 213,  80,  64, 227, 249, 131, 247,
     199, 162,  53, 200, 219,  25, 171,  47,  17,  37, 237,  51, 158,  85, 225,  72,
     175, 115, 132, 218,  42, 170,  81, 235, 157, 149, 178, 203, 231, 112, 128, 254,
      76, 101,   4, 239, 197, 241, 195,  58, 180, 245,  95,  35, 137, 221,  48, 165,
     139, 211, 246, 220,  77, 100, 215, 240, 143, 236,  86,  55,  92, 164,  13,   7,
     118, 138,  44,  11, 181, 216, 193,  31, 232,  59, 244,  75,  27,  71, 108,  73,
     103, 123, 146, 207, 117, 126,  32, 217, 125,  60, 151, 122, 208,   5, 107,  15,
      29, 251, 130, 152,  87, 141, 243, 106, 188, 172, 201, 166, 255, 184, 105,  12]"

definition sbox_1st_party_1 :: "u8 list" where
  "sbox_1st_party_1 =
    [76,  77, 114,   7,  90,  73,  51, 141, 162, 171,  70,  61,  99,  13, 160, 151,
     255, 240, 245, 250, 192, 233, 219,  98, 228, 225, 116,  67, 220, 134,  24,  41,
      55, 244,   6, 226, 237, 111, 144,  72,  30,  45,  29, 234, 115, 148,  84, 223,
      37, 246,  71,  39, 217,  17, 119, 201, 132,  28,  91,  92,  81, 129, 166,  34,
      62,  36, 150, 200, 138, 236, 130, 124,   9, 184,  69,  74,  87, 187,  47,  80,
     117, 142,  97, 112, 140, 108, 175, 208, 253, 180,  27, 174, 222, 254,  59, 181,
      54, 189,  85,   1,  14, 156,  65,  86,  95, 179,  38,   3, 131, 186,  19,  75,
     202, 197,  10, 248,  96, 165, 185, 199, 195, 152,  50, 251,  18, 249, 167, 146,
     170, 104, 243, 120, 126,   5,  32,  33,   2, 232, 191, 242, 176,  89, 143, 210,
     203, 135, 101,  21, 241,  26, 178,  48, 173, 238,  88, 163, 139, 102,  31,  44,
     215,  93,  25, 133, 168, 230, 211, 107, 161,  12, 145, 147, 106,  94,  11, 121,
     227, 221,   0,  79,  60, 137, 110, 113, 105, 169, 172,  64, 229, 153,  40, 198,
      49,  78, 122, 205,   8, 158, 125, 239,  23, 252, 136, 216, 164, 109,  68, 149,
     209, 183, 212, 155, 190,  42,  52, 100,  43, 207,  46, 235,  56, 206,  35, 224,
      58,  63, 247, 123, 159,  16,  83, 188,  82, 103,  22, 231, 128, 118,   4, 196,
     182, 193, 194, 127, 154, 218, 213,  57,  66,  20, 157, 177,  15,  53, 214, 204]"

definition sbox_1st_party_2 :: "u8 list" where
  "sbox_1st_party_2 =
    [185, 218,  56,  12, 162, 156,   9,  31,   6, 177, 182, 253,  26, 105,  35,  48,
     196, 222,   1, 209, 244,  88,  41,  55,  28, 125, 213, 191, 255, 189, 200, 201,
     207, 101, 190, 123, 120, 151, 152, 103,   8, 179,  38,  87, 247, 250,  64, 173,
     142, 117, 166, 124, 219, 145, 139,  81, 153, 212,  23, 122, 144, 141, 206,  99,
     203,  78, 160, 171,  24,  58,  91,  80, 127,  33, 116, 193, 187, 184, 183, 186,
      11,  53, 149,  49,  89, 154,  77,   4,   7,  30,  90, 118,  19, 243, 113, 131,
     240, 134,   3, 168,  57,  66, 170,  40, 230, 228, 216,  93, 211, 208, 110, 111,
     150, 251,  94, 188,  86, 194,  95, 133, 155, 231, 175, 210,  59, 132, 106, 167,
      83, 197,  68,  73, 165, 249,  54, 114,  61,  44, 217,  27, 161, 245,  79, 147,
     157, 104,  71,  65,  22, 202,  42,  76, 163, 135, 214, 229,  25,  46, 119,  21,
     109, 112, 192, 223, 178,   0,  70, 237, 198, 108,  67,  96, 146,  45, 169,  34,
      69, 143,  52,  85, 174, 164,  10, 102,  50, 224, 220,   2, 172, 232,  32, 140,
     137,  98,  74, 254, 238, 195, 227,  60, 241, 121,   5, 233, 246,  39,  51, 204,
     242, 158,  17, 129, 126, 128,  16, 138, 130, 159,  72,  13, 215, 180, 252,  47,
     181, 199, 221, 136,  20, 107,  43,  84, 234,  29, 148,  92, 176, 239,  18,  36,
     205, 235, 225, 226, 100, 115,  63,  14,  82,  97,  37,  62, 248,  15,  75, 236]"

definition sbox_1st_party_3 :: "u8 list" where
  "sbox_1st_party_3 =
    [192,   0,  48, 246,   2,  73,  61,  16, 110,  32, 201, 166,  47, 254,  44,  43,
     117,  46,  69,  38, 171,  72, 169, 128, 252,   4, 204, 211, 181, 186, 163,  56,
      49, 125,   1, 217, 167, 123, 150, 182,  99, 105,  78, 247, 222, 224, 120, 202,
      80, 170,  65, 145, 101, 136, 228,  33, 133, 218,  58,  39, 190,  28,  62,  66,
      94,  23,  82, 127,  31, 137,  36, 111, 143,  92, 103, 116,  14,  18, 135, 141,
     233,  52, 237, 115, 196, 248,  97,  91,   5, 223,  89,  76, 151, 121, 131,  24,
     164,  85, 149, 235, 189,  83, 245, 241,  87, 102,  70, 159, 178, 129,   9,  81,
     134,  34,  22, 221,  35, 147, 118,  41, 194, 215,  29, 212, 191,  54,  63, 234,
      75,  17,  50, 185,  98,  84,  96, 214, 109,  67, 154,  13, 146, 156, 176, 239,
      88, 108, 157, 119,  45, 112, 250, 243, 179,  11, 226,  64, 126, 244, 138, 229,
     140,  60,  86, 113, 209, 100, 225, 130,  10, 203,  19,  21, 144, 236,   3, 153,
     175,  20,  93,  15,  51,  74, 148, 165, 168,  53,  27, 227, 106, 198,  40, 255,
      77, 231,  37, 132, 172,   8, 174, 197, 162,  42, 184,  55,  12, 122, 160, 195,
     206, 173,   6,  26, 158, 139, 251, 213, 240, 193,  30, 208, 180, 155, 177,  68,
     242,  71, 199, 104, 207, 114, 187,  79,  90, 249, 220, 107, 219, 210, 232, 124,
     200, 238, 152, 161, 230, 216,  57,   7,  95, 253, 142,  25, 183,  59, 188, 205]"

definition sbox_1st_party_4 :: "u8 list" where
  "sbox_1st_party_4 =
    [124, 227, 129, 115, 178,  17, 191, 111,  32, 152, 254, 117, 150, 239, 108, 218,
      80, 225,   9, 114,  84,  69, 186,  52, 128,  91, 237,  62,  83,  44, 135, 164,
      87, 243,  51,  63,  60, 183, 103, 180, 163,  37,  96,  79,   7, 107,  27,  71,
      21,  15, 228,  10, 234, 209,  50, 120,  54,  73, 141,  75, 210, 188, 165, 220,
      29,  13,  77, 205, 154, 130,  95, 252, 148, 101, 190, 226, 244, 201,  30,  68,
     203, 158,  12, 100, 113,  38,  99, 179,  20, 232,  64, 112, 138,  14,  25,  66,
     109, 172, 136,  16,  92, 223,  65, 169, 173, 229, 251, 116, 204, 213,   6, 142,
      89, 134, 206,  31,  61, 118, 224, 143, 185, 119,  39, 123, 166, 216,  41, 211,
     236, 184,  19, 247, 250, 195,  81, 106, 222,  74,  90, 235, 194, 139,  35,  72,
     146, 207,  98, 168, 153, 248, 208,  46, 133,  97,  67, 200, 189, 240,   5, 147,
     202,  78, 241, 125,  48, 253, 196, 105, 102,  47,   8, 177,  82, 249,  33, 230,
     122,  43, 221,  57, 132, 255, 192, 145, 214,  55, 212, 127,  45, 155,  93, 161,
      59, 110, 181, 197,  70,   4, 245, 144, 238, 126, 131,  28,   3,  86, 182, 170,
       0,  23,   1,  53,  85, 121,  11,  18, 187,  26,  49, 231,   2,  40,  22, 193,
     246, 162, 219,  24, 156, 137, 104,  56, 151, 171, 199,  42, 215,  58, 242, 198,
      36,  76, 176,  88, 160,  34,  94, 157, 217, 167, 233, 174, 175, 140, 149, 159]"

definition sbox_1st_party_5 :: "u8 list" where
  "sbox_1st_party_5 =
    [40, 183,  32, 215, 176,  48, 195,   9,  25, 192, 103, 214,   0,  60, 126, 231,
     233, 244,   8,  90, 248, 184,  46,   5, 166,  37, 158,  92, 216,  21,  13, 225,
     246,  17,  84, 107, 205,  33,  70, 102,  94, 132, 173,   6,  56,  41,  68, 197,
     162, 206, 241, 170, 193,  64, 113, 134, 181, 239, 252,  54, 168, 203,  10,  72,
      39,  69, 100, 163, 175, 140, 178, 198, 159,   7, 137, 220,  23, 211,  73, 121,
     251, 254,  29, 208, 185, 136,  67,  82, 188,   1, 120,  43, 125, 148, 199,  14,
     222, 165, 213, 155, 204, 247,  97, 122, 194, 116, 129,  57,   3, 171, 150, 160,
      55, 189,  45, 114, 117,  63, 201, 212, 142, 111, 249, 141, 237,  98, 219,  28,
     223,   4, 172,  27, 108,  20,  75,  99, 240, 191, 180, 130, 236, 123,  26,  89,
     146, 210,  16,  96, 182,  61,  95, 230, 128, 110, 112, 196, 242,  53, 217, 124,
     238, 229,  65, 164,  91,  80, 221, 187,  76, 243,  31, 157,  93,  87,  85,  81,
     151, 227,  88,  66,  77, 156, 115, 186, 200, 119,  49, 105,  38, 174, 234, 138,
     218,  34, 179, 135,  86, 250, 147,  11,  52,  22,  51, 232, 228,  83, 190, 169,
     177,  58,  62, 245, 144, 106, 207,  59,  18, 253, 143, 154, 167,  71, 145, 153,
     235,  15,  36, 255,  35,  24, 133,  78, 127,  12, 224, 161, 226, 209,  44,  42,
      74,   2,  79,  30, 149, 104, 139, 152, 131, 109, 118, 202, 101,  50,  19,  47]"

definition sbox_1st_party_6 :: "u8 list" where
  "sbox_1st_party_6 =
    [195, 130, 154, 164, 186, 129,  96,  55,  52,  53, 252, 128, 168,  81, 101, 103,
     237,  48,  95,  16, 211,  74,  39,  47,  19, 185,  42, 210, 204, 225, 239, 174,
     235, 190, 244, 189, 207,  67, 179, 197, 136, 132, 183, 221,  57,  64, 206,  72,
     109, 155, 114,  97, 126, 231, 161,  78,  83,  46, 119,  59, 226, 201,  54,  34,
      27, 110, 115, 177,   3, 178,  76, 135, 169, 212,  77,  15, 216,  21, 108, 170,
      24, 246,  73,  87,  93, 251, 122,  20, 148,  99, 160,  17, 176, 158, 222,   5,
      70, 200, 238,  71, 219, 220,  36, 137, 156, 145, 151,  41, 233, 123, 193,   7,
      30, 184, 253, 254, 172, 198,  98, 152,  79, 241, 121, 224, 232, 107, 120,  86,
     182, 141,   4,  80, 134, 202, 111,  32, 230, 234, 229, 118,  23,  28, 116, 127,
     188,  13,  44, 133, 247, 102, 150, 228, 139, 117,  63,  75, 217,  56, 175, 124,
     218,  11, 131,  45,  49,  50, 162, 245,  29,  89,  65,  69, 191,  60,  31, 248,
     249, 138, 208,  22,  37, 105,  18, 153, 157,  33, 149, 171,   1, 166, 215, 181,
     192, 125, 255,  88,  14,  58, 146, 209,  85, 227,   8, 159, 214,  62,  82, 142,
     250, 163, 199,   2, 205, 223, 143, 100,  25, 140, 243, 167,  12,  94,  10, 106,
       9, 240, 147,  91,  66, 194,   6,  35, 236, 113, 173, 180, 203, 187, 112,  40,
     213,  26,  92,  51, 104,  90,   0,  68, 144, 165, 196,  38,  61,  43, 242,  84]"

definition sbox_1st_party_7 :: "u8 list" where
  "sbox_1st_party_7 =
    [150, 173, 218,  31, 237,  51, 225, 129, 105,   8,  13,  10, 219,  53, 119, 154,
     100, 209, 252, 120, 170,  27, 208, 103, 160, 221, 250, 108,  99, 113,   5, 132,
      23, 106, 137,  79, 102, 127, 198,  80,  85, 146, 111, 189, 231, 210,  64, 114,
     141, 187, 236,   6,  66, 138, 228, 136, 157, 126, 122, 130,  39,  19,  65,  26,
     175, 200, 164, 118, 180, 194, 254, 109,  28, 217,  97,  48, 179, 124, 234, 247,
      41,  15, 242,  59,  81, 193, 222,  95, 229,  42,  47, 153,  11,  93, 163,  43,
      74, 171, 149, 165, 211,  88,  86, 238,  40,  49,   0, 204,  21,  70, 202, 230,
     134,  56,  60, 101, 245, 227, 159, 214,  91,   9,  73, 131, 112,  45,  83, 169,
     125, 226, 196, 172, 142,  94, 184,  37, 244, 185,  87, 243, 241, 104,  71, 178,
     162,  89,  32, 206,  52, 121,  92, 144,  14,  30, 190, 213,  34,  35, 177, 201,
      24,  98,  22,  46, 145,  62,   7, 143, 216,  63, 147,  61, 212, 155, 223, 133,
      33, 251,  17, 116, 151, 199, 215, 220,  76,  25,  69, 152, 233,  67,   2,  75,
     188, 195,   4, 156, 107, 240, 117,  82, 167,  38, 246, 197, 186, 207, 176, 183,
     174,  90, 161, 191,   3, 139, 128,  18, 110,  12, 235, 249, 192,  68,  36, 239,
      16, 248, 168, 140, 232, 123, 255, 158,  44, 205,  96,  54, 135, 181, 148, 166,
      84, 115,  58,  20,  78,   1,  29, 182, 253,  55,  72,  77,  57, 203, 224,  50]"

definition sboxes_1st_party :: "u8 list list" where
  "sboxes_1st_party = [sbox_1st_party_0, sbox_1st_party_1, sbox_1st_party_2,
     sbox_1st_party_3, sbox_1st_party_4, sbox_1st_party_5,
     sbox_1st_party_6, sbox_1st_party_7]"

lemmas sbox_defs =
  sbox_1st_party_0_def sbox_1st_party_1_def sbox_1st_party_2_def sbox_1st_party_3_def
  sbox_1st_party_4_def sbox_1st_party_5_def sbox_1st_party_6_def sbox_1st_party_7_def

definition ans_tbl :: "u8 list list" where
  "ans_tbl =
     [[0xa8, 0x77, 0xa6, 0xe0, 0xf7, 0x43],
      [0x5a, 0x35, 0x85, 0xe2, 0x72, 0x97],
      [0x8f, 0xb7, 0x1a, 0x62, 0x87, 0x38],
      [0x0d, 0x67, 0xc7, 0xbe, 0x4f, 0x3e],
      [0x20, 0x76, 0x37, 0x8f, 0x68, 0xb7],
      [0xa9, 0x26, 0x3f, 0x2b, 0x10, 0xe3],
      [0x30, 0x7e, 0x90, 0x0e, 0x85, 0x0a]]"

section \<open>Key generation\<close>

record encryption_key =
  ft :: "u8 list"
  sb :: "u8 list"

definition ror8 :: "u8 \<Rightarrow> u8 \<Rightarrow> u8" where
  "ror8 w shift =
     (let s = unat shift mod 8 in drop_bit s w OR push_bit (8 - s) w)"

text \<open>One byte of the check key: \<open>(ror8(ans ^ x, r) - d) ^ z\<close>.\<close>

definition key_byte :: "u8 \<Rightarrow> u8 \<Rightarrow> u8 \<Rightarrow> u8 \<Rightarrow> u8 \<Rightarrow> u8" where
  "key_byte ans x r d z = (ror8 (ans XOR x) r - d) XOR z"

definition generate_key_data :: "u8 list \<Rightarrow> nat \<Rightarrow> u8 list" where
  "generate_key_data rand idx =
     (let t0 = map (\<lambda>r. keygen_sbox_1st_party ! unat r) (take 10 rand);
          ans = ans_tbl ! idx
      in [key_byte (ans ! 0) (t0 ! 5) (t0 ! 2) (t0 ! 9) (t0 ! 4),
          key_byte (ans ! 1) (t0 ! 1) (t0 ! 0) (t0 ! 5) (t0 ! 7),
          key_byte (ans ! 2) (t0 ! 6) (t0 ! 8) (t0 ! 2) (t0 ! 0),
          key_byte (ans ! 3) (t0 ! 4) (t0 ! 7) (t0 ! 3) (t0 ! 2),
          key_byte (ans ! 4) (t0 ! 1) (t0 ! 6) (t0 ! 3) (t0 ! 4),
          key_byte (ans ! 5) (t0 ! 7) (t0 ! 8) (t0 ! 5) (t0 ! 9)])"

definition generate_tables ::
  "u8 list \<Rightarrow> u8 list \<Rightarrow> u8 list \<Rightarrow> u8 list \<Rightarrow> encryption_key" where
  "generate_tables rand key sbox_a sbox_b =
     (let e = (\<lambda>a b. sbox_a ! unat (a :: u8) XOR sbox_b ! unat (b :: u8))
      in \<lparr> ft = [e (key ! 4) (rand ! 3), e (key ! 2) (rand ! 5), e (key ! 5) (rand ! 7),
                 e (key ! 0) (rand ! 2), e (key ! 1) (rand ! 4), e (key ! 3) (rand ! 9),
                 e (rand ! 0) (rand ! 6), e (rand ! 1) (rand ! 8)],
           sb = [e (key ! 0) (rand ! 1), e (key ! 5) (rand ! 4), e (key ! 3) (rand ! 0),
                 e (key ! 2) (rand ! 9), e (key ! 4) (rand ! 7), e (key ! 1) (rand ! 8),
                 e (rand ! 3) (rand ! 5), e (rand ! 2) (rand ! 6)] \<rparr>)"

text \<open>
  The search stops at the first of the seven indices whose check key matches, and otherwise
  leaves the index at 7.  The table after the last one does not exist.
\<close>

fun find_key_index :: "u8 list \<Rightarrow> u8 list \<Rightarrow> nat list \<Rightarrow> nat" where
  "find_key_index key rand [] = 7"
| "find_key_index key rand (idx # rest) =
     (if key = generate_key_data rand idx then idx else find_key_index key rand rest)"

definition get_sbox :: "nat \<Rightarrow> u8 list result" where
  "get_sbox i =
     (if i < length sboxes_1st_party then Inr (sboxes_1st_party ! i) else Inl Out_Of_Bounds)"

definition wiimote_crypto_generate_key_from_extension_key_data ::
  "'os ext \<Rightarrow> u8 list \<Rightarrow> encryption_key result" where
  "wiimote_crypto_generate_key_from_extension_key_data E key_data =
     (let rand = reverse_memcpy E key_data 10;
          key = reverse_memcpy E (drop 10 key_data) 6;
          idx = find_key_index key rand [0..<7]
      in rbind (get_sbox idx) (\<lambda>sbox_a.
         rbind (get_sbox (idx + 1)) (\<lambda>sbox_b.
           Inr (generate_tables rand key sbox_a sbox_b))))"

section \<open>Encryption\<close>

definition key_index :: "u32 \<Rightarrow> nat" where
  "key_index addr = unat (addr mod 8)"

fun wiimote_crypto_encrypt :: "encryption_key \<Rightarrow> u32 \<Rightarrow> u8 list \<Rightarrow> u8 list" where
  "wiimote_crypto_encrypt key addr [] = []"
| "wiimote_crypto_encrypt key addr (b # bs) =
     ((b - ft key ! key_index addr) XOR sb key ! key_index addr)
     # wiimote_crypto_encrypt key (addr + 1) bs"

text \<open>What the host does with the bytes it reads.\<close>

fun host_decrypt :: "encryption_key \<Rightarrow> u32 \<Rightarrow> u8 list \<Rightarrow> u8 list" where
  "host_decrypt key addr [] = []"
| "host_decrypt key addr (b # bs) =
     ((b XOR sb key ! key_index addr) + ft key ! key_index addr)
     # host_decrypt key (addr + 1) bs"

section \<open>The contract of the cipher\<close>

locale stream_cipher =
  fixes enc :: "'k \<Rightarrow> u32 \<Rightarrow> u8 list \<Rightarrow> u8 list"
    and dec :: "'k \<Rightarrow> u32 \<Rightarrow> u8 list \<Rightarrow> u8 list"
  assumes enc_length: "length (enc k a xs) = length xs"
    and enc_append: "enc k a (xs @ ys) = enc k a xs @ enc k (a + of_nat (length xs)) ys"
    and dec_enc: "dec k a (enc k a xs) = xs"
begin

lemma enc_inj: "enc k a xs = enc k a ys \<Longrightarrow> xs = ys"
  by (metis dec_enc)

lemma enc_Nil: "enc k a [] = []"
  using enc_length [of k a "[]"] by simp

text \<open>Reading a window and encrypting it at its address is a window of the encrypted whole.\<close>

lemma enc_window:
  "enc k (a + of_nat i) (take n (drop i xs)) = take n (drop i (enc k a xs))"
proof -
  have l: "length (enc k a (take i xs)) = min i (length xs)"
    by (simp add: enc_length min.commute)
  have "enc k a xs = enc k a (take i xs) @ enc k (a + of_nat (length (take i xs))) (drop i xs)"
    using enc_append [of k a "take i xs" "drop i xs"] by simp
  then have d: "drop i (enc k a xs) = enc k (a + of_nat i) (drop i xs)"
    using l by (cases "i \<le> length xs") (auto simp: enc_Nil)
  have "enc k b ys = enc k b (take n ys) @ enc k (b + of_nat (length (take n ys))) (drop n ys)"
    for b ys
    using enc_append [of k b "take n ys" "drop n ys"] by simp
  then have t: "take n (enc k b ys) = enc k b (take n ys)" for b ys
    by (metis append_eq_conv_conj append_take_drop_id enc_Nil enc_length length_take
        min.absorb_iff2 nat_le_linear take_all)
  show ?thesis by (simp add: d t)
qed

text \<open>Chunks read one after the other decrypt to the data, whatever their sizes.\<close>

fun chunks :: "'k \<Rightarrow> u32 \<Rightarrow> u8 list list \<Rightarrow> u8 list" where
  "chunks k a [] = []"
| "chunks k a (c # cs) = enc k a c @ chunks k (a + of_nat (length c)) cs"

lemma chunks_concat: "chunks k a cs = enc k a (concat cs)"
  by (induction cs arbitrary: a) (auto simp: enc_Nil enc_append)

lemma dec_chunks: "dec k a (chunks k a cs) = concat cs"
  by (simp add: chunks_concat dec_enc)

end

lemma encrypt_length [simp]: "length (wiimote_crypto_encrypt k a xs) = length xs"
  by (induction xs arbitrary: a) auto

lemma xor_cancel: "((x :: 'a::len word) XOR y) XOR y = x"
  by (simp add: xor.assoc)

interpretation cipher: stream_cipher wiimote_crypto_encrypt host_decrypt
proof (unfold_locales, goal_cases)
  case (1 k a xs)
  show ?case by simp
next
  case (2 k a xs ys)
  show ?case by (induction xs arbitrary: a) (auto simp: ac_simps)
next
  case (3 k a xs)
  show ?case by (induction xs arbitrary: a) (auto simp: xor_cancel)
qed

section \<open>Key generation succeeds exactly on key data of the first-party scheme\<close>

lemma find_key_index_bound: "set is \<subseteq> {..<7} \<Longrightarrow> find_key_index key rand is \<le> 7"
  by (induction "is") auto

lemma find_key_index_found:
  "set is \<subseteq> {..<7} \<Longrightarrow>
   find_key_index key rand is < 7 \<longleftrightarrow> (\<exists>i \<in> set is. key = generate_key_data rand i)"
  by (induction "is") auto

lemma find_key_index_matches:
  "set is \<subseteq> {..<7} \<Longrightarrow> find_key_index key rand is < 7 \<Longrightarrow>
   key = generate_key_data rand (find_key_index key rand is)"
  by (induction "is") (auto split: if_splits)

lemma length_sboxes: "length sboxes_1st_party = 8"
  by (simp add: sboxes_1st_party_def)

lemma generate_tables_size:
  "length (ft (generate_tables rand key a b)) = 8" "length (sb (generate_tables rand key a b)) = 8"
  by (simp_all add: generate_tables_def Let_def)

lemma generate_key_result:
  assumes "rand = reverse_memcpy E key_data 10" and "key = reverse_memcpy E (drop 10 key_data) 6"
  shows "wiimote_crypto_generate_key_from_extension_key_data E key_data =
    (if \<exists>i<7. key = generate_key_data rand i
     then let i = find_key_index key rand [0..<7]
          in Inr (generate_tables rand key (sboxes_1st_party ! i) (sboxes_1st_party ! (i + 1)))
     else Inl Out_Of_Bounds)"
proof -
  have sub: "set [0..<7] \<subseteq> {..<7::nat}" by auto
  note f = find_key_index_found [OF sub, of key rand] find_key_index_bound [OF sub, of key rand]
  have m: "(\<exists>i<7. key = generate_key_data rand i) \<longleftrightarrow> find_key_index key rand [0..<7] < 7"
    using f(1) by (auto simp: Bex_def)
  show ?thesis
  proof (cases "find_key_index key rand [0..<7] < 7")
    case True
    then show ?thesis using assms m
      by (simp add: wiimote_crypto_generate_key_from_extension_key_data_def get_sbox_def
          length_sboxes Let_def)
  next
    case False
    then have "find_key_index key rand [0..<7] = 7" using f(2) by linarith
    then show ?thesis using assms m
      by (simp add: wiimote_crypto_generate_key_from_extension_key_data_def get_sbox_def
          length_sboxes Let_def)
  qed
qed

section \<open>Known answers\<close>

text \<open>A table is looked up without rewriting its entries.\<close>

lemma nth_index_cong: "i = j \<Longrightarrow> xs ! i = xs ! j"
  by simp

lemmas table_at =
  arg_cong [OF keygen_sbox_1st_party_def, of "\<lambda>t. t ! i" for i]
  arg_cong [OF sbox_1st_party_0_def, of "\<lambda>t. t ! i" for i]
  arg_cong [OF sbox_1st_party_1_def, of "\<lambda>t. t ! i" for i]
  arg_cong [OF sbox_1st_party_2_def, of "\<lambda>t. t ! i" for i]
  arg_cong [OF sbox_1st_party_3_def, of "\<lambda>t. t ! i" for i]
  arg_cong [OF sbox_1st_party_4_def, of "\<lambda>t. t ! i" for i]
  arg_cong [OF sbox_1st_party_5_def, of "\<lambda>t. t ! i" for i]
  arg_cong [OF sbox_1st_party_6_def, of "\<lambda>t. t ! i" for i]
  arg_cong [OF sbox_1st_party_7_def, of "\<lambda>t. t ! i" for i]
  arg_cong [OF ans_tbl_def, of "\<lambda>t. t ! i" for i]

lemma sample_check_keys:
  "generate_key_data [0, 1, 2, 3, 4, 5, 6, 7, 8, 9] 0 = [0xA8, 0xF2, 0xD4, 0x8D, 0x87, 0x59]"
  "generate_key_data [0, 1, 2, 3, 4, 5, 6, 7, 8, 9] (Suc 0) = [0x5E, 0xBC, 0x58, 0xCD, 0x80, 0x28]"
  "generate_key_data [0, 1, 2, 3, 4, 5, 6, 7, 8, 9] 2 = [0xC4, 0x32, 0x22, 0xBD, 0x67, 0x8E]"
  "generate_key_data [0, 1, 2, 3, 4, 5, 6, 7, 8, 9] 3 = [0x74, 0xC2, 0x6F, 0x5A, 0xF6, 0x86]"
  "generate_key_data [0, 1, 2, 3, 4, 5, 6, 7, 8, 9] 4 = [0x99, 0xF1, 0xAE, 0x70, 0xAC, 0xA8]"
  "generate_key_data [0, 1, 2, 3, 4, 5, 6, 7, 8, 9] 5 = [0x88, 0x81, 0xCE, 0xE4, 0xBC, 0xDF]"
  "generate_key_data [0, 1, 2, 3, 4, 5, 6, 7, 8, 9] 6 = [0x9B, 0xC9, 0x0C, 0x40, 0x63, 0xB6]"
  by (simp_all add: generate_key_data_def Let_def key_byte_def ror8_def table_at cong: nth_index_cong)

lemma zero_check_keys:
  "generate_key_data [0, 0, 0, 0, 0, 0, 0, 0, 0, 0] 0 = [0x18, 0xE7, 0x16, 0x50, 0x67, 0xB3]"
  "generate_key_data [0, 0, 0, 0, 0, 0, 0, 0, 0, 0] (Suc 0) = [0xCA, 0xA5, 0xF5, 0x52, 0xE2, 0x07]"
  "generate_key_data [0, 0, 0, 0, 0, 0, 0, 0, 0, 0] 2 = [0xFF, 0x27, 0x8A, 0xD2, 0xF7, 0xA8]"
  "generate_key_data [0, 0, 0, 0, 0, 0, 0, 0, 0, 0] 3 = [0x7D, 0xD7, 0x37, 0x2E, 0xBF, 0xAE]"
  "generate_key_data [0, 0, 0, 0, 0, 0, 0, 0, 0, 0] 4 = [0x90, 0xE6, 0xA7, 0xFF, 0xD8, 0x27]"
  "generate_key_data [0, 0, 0, 0, 0, 0, 0, 0, 0, 0] 5 = [0x19, 0x96, 0xAF, 0x9B, 0x80, 0x53]"
  "generate_key_data [0, 0, 0, 0, 0, 0, 0, 0, 0, 0] 6 = [0xA0, 0xEE, 0x00, 0x7E, 0xF5, 0x7A]"
  by (simp_all add: generate_key_data_def Let_def key_byte_def ror8_def table_at cong: nth_index_cong)

lemma sample_tables:
  "generate_tables [0, 1, 2, 3, 4, 5, 6, 7, 8, 9] [0xA8, 0xF2, 0xD4, 0x8D, 0x87, 0x59] sbox_1st_party_0 sbox_1st_party_1 =
     \<lparr> ft = [0xA4, 0xFC, 0x5F, 0xEF, 0xD8, 0x52, 0x32, 0x02], sb = [0xD0, 0x88, 0xB5, 0x1E, 0x2E, 0x20, 0x2B, 0x9A] \<rparr>"
  "generate_tables [0, 1, 2, 3, 4, 5, 6, 7, 8, 9] [0x5E, 0xBC, 0x58, 0xCD, 0x80, 0x28] sbox_1st_party_1 sbox_1st_party_2 =
     \<lparr> ft = [0xA6, 0x61, 0x01, 0x03, 0x47, 0xDC, 0x45, 0x4B], sb = [0xE1, 0xBC, 0xD4, 0x4C, 0xB5, 0xE3, 0x9B, 0x7B] \<rparr>"
  "generate_tables [0, 1, 2, 3, 4, 5, 6, 7, 8, 9] [0xC4, 0x32, 0x22, 0xBD, 0x67, 0x8E] sbox_1st_party_2 sbox_1st_party_3 =
     \<lparr> ft = [0xDE, 0xF7, 0x5F, 0xDE, 0xA4, 0xC8, 0x84, 0xB4], sb = [0xEE, 0x4D, 0x28, 0x9E, 0x38, 0xC8, 0x45, 0x05] \<rparr>"
  "generate_tables [0, 1, 2, 3, 4, 5, 6, 7, 8, 9] [0x74, 0xC2, 0x6F, 0x5A, 0xF6, 0x86] sbox_1st_party_3 sbox_1st_party_4 =
     \<lparr> ft = [0x4A, 0x40, 0x0F, 0xA2, 0x97, 0xC1, 0x7F, 0x20], sb = [0xC0, 0xD2, 0x25, 0xC9, 0x56, 0x05, 0xE7, 0x8F] \<rparr>"
  "generate_tables [0, 1, 2, 3, 4, 5, 6, 7, 8, 9] [0x99, 0xF1, 0xAE, 0x70, 0xAC, 0xA8] sbox_1st_party_4 sbox_1st_party_5 =
     \<lparr> ft = [0x85, 0x11, 0x6F, 0x41, 0xFC, 0x99, 0xBF, 0xFA], sb = [0xD6, 0xD6, 0x71, 0xE1, 0x5B, 0x55, 0x43, 0x42] \<rparr>"
  "generate_tables [0, 1, 2, 3, 4, 5, 6, 7, 8, 9] [0x88, 0x81, 0xCE, 0xE4, 0xBC, 0xDF] sbox_1st_party_5 sbox_1st_party_6 =
     \<lparr> ft = [0x82, 0x3F, 0xAE, 0x6A, 0xBE, 0x16, 0x48, 0x83], sb = [0x72, 0x23, 0xE0, 0x8B, 0x11, 0x30, 0x56, 0x40] \<rparr>"
  "generate_tables [0, 1, 2, 3, 4, 5, 6, 7, 8, 9] [0x9B, 0xC9, 0x0C, 0x40, 0x63, 0xB6] sbox_1st_party_6 sbox_1st_party_7 =
     \<lparr> ft = [0x58, 0x9B, 0x93, 0x91, 0x0E, 0x13, 0x22, 0xEB], sb = [0xE6, 0xFF, 0x8D, 0xA0, 0xC6, 0x8A, 0x97, 0x7B] \<rparr>"
  by (simp_all add: generate_tables_def Let_def table_at cong: nth_index_cong)

lemma sbox_rows:
  "sboxes_1st_party ! 0 = sbox_1st_party_0" "sboxes_1st_party ! Suc 0 = sbox_1st_party_1"
  "sboxes_1st_party ! Suc (Suc 0) = sbox_1st_party_2"
  "sboxes_1st_party ! 2 = sbox_1st_party_2" "sboxes_1st_party ! 3 = sbox_1st_party_3"
  "sboxes_1st_party ! 4 = sbox_1st_party_4" "sboxes_1st_party ! 5 = sbox_1st_party_5"
  "sboxes_1st_party ! 6 = sbox_1st_party_6" "sboxes_1st_party ! 7 = sbox_1st_party_7"
  by (simp_all add: sboxes_1st_party_def)

text \<open>The result for a block of ten and six bytes written backwards.\<close>

lemma generated_key:
  assumes "\<And>src n. reverse_memcpy E src n = rev (take n src)"
    and "length rand = 10" and "length key = 6"
  shows "wiimote_crypto_generate_key_from_extension_key_data E (rev rand @ rev key) =
    rbind (get_sbox (find_key_index key rand [0..<7])) (\<lambda>a.
      rbind (get_sbox (find_key_index key rand [0..<7] + 1)) (\<lambda>b. Inr (generate_tables rand key a b)))"
  using assms by (simp add: wiimote_crypto_generate_key_from_extension_key_data_def Let_def)

lemma first_seven: "[0..<7] = [0, Suc 0, 2, 3, 4, 5, 6]"
  by (simp add: upt_rec)

lemma no_seed_matches:
  "set is \<subseteq> {..<7} \<Longrightarrow> (\<And>i. i < 7 \<Longrightarrow> key \<noteq> generate_key_data rand i) \<Longrightarrow>
   find_key_index key rand is = 7"
  by (induction "is") auto

lemma generated_sample_key:
  assumes "\<And>src n. reverse_memcpy E src n = rev (take n src)" and "length key = 6"
  shows "wiimote_crypto_generate_key_from_extension_key_data E ([9, 8, 7, 6, 5, 4, 3, 2, 1, 0] @ rev key) =
    (let i = find_key_index key [0, 1, 2, 3, 4, 5, 6, 7, 8, 9] [0..<7]
     in rbind (get_sbox i) (\<lambda>a. rbind (get_sbox (i + 1)) (\<lambda>b.
          Inr (generate_tables [0, 1, 2, 3, 4, 5, 6, 7, 8, 9] key a b))))"
  using generated_key [OF assms(1) _ assms(2), of "[0, 1, 2, 3, 4, 5, 6, 7, 8, 9]"]
  by (simp add: Let_def)

lemma sample_answers:
  assumes "\<And>src n. reverse_memcpy E src n = rev (take n src)"
  shows
  "wiimote_crypto_generate_key_from_extension_key_data E
     ([9, 8, 7, 6, 5, 4, 3, 2, 1, 0] @ rev [0xA8, 0xF2, 0xD4, 0x8D, 0x87, 0x59]) =
     Inr \<lparr> ft = [0xA4, 0xFC, 0x5F, 0xEF, 0xD8, 0x52, 0x32, 0x02], sb = [0xD0, 0x88, 0xB5, 0x1E, 0x2E, 0x20, 0x2B, 0x9A] \<rparr>"
  "wiimote_crypto_generate_key_from_extension_key_data E
     ([9, 8, 7, 6, 5, 4, 3, 2, 1, 0] @ rev [0x5E, 0xBC, 0x58, 0xCD, 0x80, 0x28]) =
     Inr \<lparr> ft = [0xA6, 0x61, 0x01, 0x03, 0x47, 0xDC, 0x45, 0x4B], sb = [0xE1, 0xBC, 0xD4, 0x4C, 0xB5, 0xE3, 0x9B, 0x7B] \<rparr>"
  "wiimote_crypto_generate_key_from_extension_key_data E
     ([9, 8, 7, 6, 5, 4, 3, 2, 1, 0] @ rev [0xC4, 0x32, 0x22, 0xBD, 0x67, 0x8E]) =
     Inr \<lparr> ft = [0xDE, 0xF7, 0x5F, 0xDE, 0xA4, 0xC8, 0x84, 0xB4], sb = [0xEE, 0x4D, 0x28, 0x9E, 0x38, 0xC8, 0x45, 0x05] \<rparr>"
  "wiimote_crypto_generate_key_from_extension_key_data E
     ([9, 8, 7, 6, 5, 4, 3, 2, 1, 0] @ rev [0x74, 0xC2, 0x6F, 0x5A, 0xF6, 0x86]) =
     Inr \<lparr> ft = [0x4A, 0x40, 0x0F, 0xA2, 0x97, 0xC1, 0x7F, 0x20], sb = [0xC0, 0xD2, 0x25, 0xC9, 0x56, 0x05, 0xE7, 0x8F] \<rparr>"
  "wiimote_crypto_generate_key_from_extension_key_data E
     ([9, 8, 7, 6, 5, 4, 3, 2, 1, 0] @ rev [0x99, 0xF1, 0xAE, 0x70, 0xAC, 0xA8]) =
     Inr \<lparr> ft = [0x85, 0x11, 0x6F, 0x41, 0xFC, 0x99, 0xBF, 0xFA], sb = [0xD6, 0xD6, 0x71, 0xE1, 0x5B, 0x55, 0x43, 0x42] \<rparr>"
  "wiimote_crypto_generate_key_from_extension_key_data E
     ([9, 8, 7, 6, 5, 4, 3, 2, 1, 0] @ rev [0x88, 0x81, 0xCE, 0xE4, 0xBC, 0xDF]) =
     Inr \<lparr> ft = [0x82, 0x3F, 0xAE, 0x6A, 0xBE, 0x16, 0x48, 0x83], sb = [0x72, 0x23, 0xE0, 0x8B, 0x11, 0x30, 0x56, 0x40] \<rparr>"
  "wiimote_crypto_generate_key_from_extension_key_data E
     ([9, 8, 7, 6, 5, 4, 3, 2, 1, 0] @ rev [0x9B, 0xC9, 0x0C, 0x40, 0x63, 0xB6]) =
     Inr \<lparr> ft = [0x58, 0x9B, 0x93, 0x91, 0x0E, 0x13, 0x22, 0xEB], sb = [0xE6, 0xFF, 0x8D, 0xA0, 0xC6, 0x8A, 0x97, 0x7B] \<rparr>"
  by ((subst generated_sample_key [OF assms], simp,
      simp add: first_seven sample_check_keys get_sbox_def length_sboxes sbox_rows sample_tables)+)

end
