(* ===== verification/Fake_Wiimote_State.thy ===== *)
theory Fake_Wiimote_State
  imports Button_Map Wiimote_Crypto Injmessage
begin

text \<open>
  The state of one fake Wiimote (\<open>include/fake_wiimote.h\<close>) and the part of
  \<open>source/fake_wiimote.c\<close> that only touches that state: initialisation, the EEPROM with its
  checksums, the extension port, what input devices report, and the three register spaces
  the host can read and write.  The register blocks and the EEPROM are byte arrays, as the
  packed structs and unions of the source are.
\<close>

section \<open>State\<close>

datatype baseband_state = BASEBAND_STATE_INACTIVE | BASEBAND_STATE_REQUEST_CONNECTION
  | BASEBAND_STATE_COMPLETE

datatype acl_state = ACL_STATE_INACTIVE | ACL_STATE_LINKING

datatype l2cap_channel_state = L2CAP_CHANNEL_STATE_INACTIVE | L2CAP_CHANNEL_STATE_CONFIG_PEND
  | L2CAP_CHANNEL_STATE_COMPLETE

record l2cap_channel_info =
  chn_valid :: bool
  chn_state :: l2cap_channel_state
  chn_psm :: u16
  chn_local_cid :: u16
  chn_remote_cid :: u16
  chn_remote_mtu :: u16

record read_request =
  rr_space :: u8
  rr_slave_address :: u8
  rr_address :: u16
  rr_size :: u16

text \<open>\<open>input_device\<close> is a pointer into the array of input devices, an index or null.\<close>

record fake_wiimote =
  fw_active :: bool
  fw_bdaddr :: bdaddr
  fw_con_handle :: u16
  baseband_state :: baseband_state
  acl_state :: acl_state
  psm_sdp_chn :: l2cap_channel_info
  psm_hid_cntl_chn :: l2cap_channel_info
  psm_hid_intr_chn :: l2cap_channel_info
  num_completed_acl_data_packets :: u32
  input_device :: "nat option"
  reporting_mode :: u8
  reporting_continuous :: bool
  status_leds :: u8
  status_ir :: bool
  status_speaker :: bool
  fw_buttons :: u16
  input_dirty :: bool
  acc_x :: u16
  acc_y :: u16
  acc_z :: u16
  rumble_on :: bool
  ir_regs :: "u8 list"
  ir_valid_dots :: u8
  extension_regs :: "u8 list"
  extension_key :: encryption_key
  extension_key_dirty :: bool
  cur_extension :: wiimote_ext
  new_extension :: wiimote_ext
  eeprom :: "u8 list"
  fw_read_request :: read_request

definition MAX_FAKE_WIIMOTES :: nat where
  "MAX_FAKE_WIIMOTES = 2"

definition fake_wiimote_is_connected :: "fake_wiimote \<Rightarrow> bool" where
  "fake_wiimote_is_connected w \<longleftrightarrow> fw_active w \<and> baseband_state w = BASEBAND_STATE_COMPLETE"

text \<open>Static objects start zeroed.\<close>

definition channel_zero :: l2cap_channel_info where
  "channel_zero = \<lparr> chn_valid = False, chn_state = L2CAP_CHANNEL_STATE_INACTIVE, chn_psm = 0,
     chn_local_cid = 0, chn_remote_cid = 0, chn_remote_mtu = 0 \<rparr>"

definition encryption_key_zero :: encryption_key where
  "encryption_key_zero = \<lparr> ft = replicate 8 0, sb = replicate 8 0 \<rparr>"

definition fake_wiimote_zero :: fake_wiimote where
  "fake_wiimote_zero = \<lparr> fw_active = False, fw_bdaddr = replicate BDADDR_SIZE 0, fw_con_handle = 0,
     baseband_state = BASEBAND_STATE_INACTIVE, acl_state = ACL_STATE_INACTIVE,
     psm_sdp_chn = channel_zero, psm_hid_cntl_chn = channel_zero, psm_hid_intr_chn = channel_zero,
     num_completed_acl_data_packets = 0, input_device = None, reporting_mode = 0,
     reporting_continuous = False, status_leds = 0, status_ir = False, status_speaker = False,
     fw_buttons = 0, input_dirty = False, acc_x = 0, acc_y = 0, acc_z = 0, rumble_on = False,
     ir_regs = replicate sizeof_ir_camera_registers 0, ir_valid_dots = 0,
     extension_regs = replicate sizeof_extension_registers 0,
     extension_key = encryption_key_zero, extension_key_dirty = False,
     cur_extension = WIIMOTE_EXT_NONE, new_extension = WIIMOTE_EXT_NONE,
     eeprom = replicate EEPROM_FREE_SIZE 0,
     fw_read_request = \<lparr> rr_space = 0, rr_slave_address = 0, rr_address = 0, rr_size = 0 \<rparr> \<rparr>"

section \<open>L2CAP channels\<close>

definition l2cap_channel_is_accepted :: "l2cap_channel_info \<Rightarrow> bool" where
  "l2cap_channel_is_accepted info \<longleftrightarrow> chn_valid info \<and> chn_remote_cid info \<noteq> L2CAP_NULL_CID"

definition l2cap_channel_is_is_remote_configured :: "l2cap_channel_info \<Rightarrow> bool" where
  "l2cap_channel_is_is_remote_configured info \<longleftrightarrow> chn_valid info \<and> chn_remote_mtu info \<noteq> 0"

definition l2cap_channel_is_complete :: "l2cap_channel_info \<Rightarrow> bool" where
  "l2cap_channel_is_complete info \<longleftrightarrow> chn_valid info \<and> l2cap_channel_is_accepted info \<and>
     l2cap_channel_is_is_remote_configured info \<and> chn_state info = L2CAP_CHANNEL_STATE_COMPLETE"

text \<open>A pointer to one of the three channels of a Wiimote.\<close>

datatype channel_ref = SDP_Chn | HID_Cntl_Chn | HID_Intr_Chn

primrec get_chn :: "channel_ref \<Rightarrow> fake_wiimote \<Rightarrow> l2cap_channel_info" where
  "get_chn SDP_Chn w = psm_sdp_chn w"
| "get_chn HID_Cntl_Chn w = psm_hid_cntl_chn w"
| "get_chn HID_Intr_Chn w = psm_hid_intr_chn w"

primrec upd_chn ::
  "channel_ref \<Rightarrow> (l2cap_channel_info \<Rightarrow> l2cap_channel_info) \<Rightarrow> fake_wiimote \<Rightarrow> fake_wiimote"
where
  "upd_chn SDP_Chn f w = w \<lparr> psm_sdp_chn := f (psm_sdp_chn w) \<rparr>"
| "upd_chn HID_Cntl_Chn f w = w \<lparr> psm_hid_cntl_chn := f (psm_hid_cntl_chn w) \<rparr>"
| "upd_chn HID_Intr_Chn f w = w \<lparr> psm_hid_intr_chn := f (psm_hid_intr_chn w) \<rparr>"

definition get_channel_info :: "fake_wiimote \<Rightarrow> u16 \<Rightarrow> channel_ref option" where
  "get_channel_info dev local_cid =
     (if chn_valid (psm_sdp_chn dev) \<and> local_cid = chn_local_cid (psm_sdp_chn dev)
      then Some SDP_Chn
      else if chn_valid (psm_hid_cntl_chn dev) \<and> local_cid = chn_local_cid (psm_hid_cntl_chn dev)
      then Some HID_Cntl_Chn
      else if chn_valid (psm_hid_intr_chn dev) \<and> local_cid = chn_local_cid (psm_hid_intr_chn dev)
      then Some HID_Intr_Chn
      else None)"

definition l2cap_channel_info_setup :: "u16 \<Rightarrow> u16 \<Rightarrow> l2cap_channel_info \<Rightarrow> l2cap_channel_info"
where
  "l2cap_channel_info_setup psm local_cid info =
     info \<lparr> chn_psm := psm, chn_state := L2CAP_CHANNEL_STATE_INACTIVE, chn_local_cid := local_cid,
            chn_remote_cid := L2CAP_NULL_CID, chn_remote_mtu := 0, chn_valid := True \<rparr>"

section \<open>EEPROM\<close>

definition calculate_calibration_data_checksum :: "u8 list \<Rightarrow> u8" where
  "calculate_calibration_data_checksum data = foldl (+) 0x55 data"

definition ir_mix :: "u16 \<Rightarrow> u16 \<Rightarrow> u16 \<Rightarrow> u8" where
  "ir_mix y x_mid x_end =
     ucast (drop_bit 2 (y AND 0x300) OR drop_bit 4 (x_mid AND 0x300) OR
            drop_bit 6 (y AND 0x300) OR drop_bit 8 (x_end AND 0x300))"

definition ir_calibration :: "u8 list" where
  "ir_calibration =
     [ucast (IR_LOW_X AND 0xFF), ucast (IR_LOW_Y AND 0xFF),
      ir_mix IR_LOW_Y IR_LOW_X IR_HIGH_X,
      ucast (IR_HIGH_X AND 0xFF), ucast (IR_LOW_Y AND 0xFF),
      ucast (IR_HIGH_X AND 0xFF), ucast (IR_HIGH_Y AND 0xFF),
      ir_mix IR_HIGH_Y IR_HIGH_X IR_LOW_X,
      ucast (IR_LOW_X AND 0xFF), ucast (IR_HIGH_Y AND 0xFF)]"

definition accel_low_bits :: "u16 \<Rightarrow> u8" where
  "accel_low_bits g = ucast (push_bit 4 (g AND 3) OR push_bit 2 (g AND 3) OR (g AND 3))"

definition accel_calibration :: "u8 list" where
  "accel_calibration =
     [ucast (drop_bit 2 ACCEL_ZERO_G), ucast (drop_bit 2 ACCEL_ZERO_G),
      ucast (drop_bit 2 ACCEL_ZERO_G), accel_low_bits ACCEL_ZERO_G,
      ucast (drop_bit 2 ACCEL_ONE_G), ucast (drop_bit 2 ACCEL_ONE_G),
      ucast (drop_bit 2 ACCEL_ONE_G), accel_low_bits ACCEL_ONE_G, 0]"

definition eeprom_init :: "u8 list" where
  "eeprom_init =
     (let ir = ir_calibration @ [calculate_calibration_data_checksum ir_calibration];
          accel = accel_calibration @ [calculate_calibration_data_checksum accel_calibration]
      in put eeprom_accel_calibration_2 accel
           (put eeprom_accel_calibration_1 accel
             (put eeprom_ir_calibration_2 ir
               (put eeprom_ir_calibration_1 ir (replicate EEPROM_FREE_SIZE 0)))))"

section \<open>Initialisation and the extension port\<close>

definition fake_wiimote_init :: "bdaddr \<Rightarrow> fake_wiimote \<Rightarrow> fake_wiimote" where
  "fake_wiimote_init ba w = w \<lparr> fw_active := False, fw_bdaddr := ba \<rparr>"

definition ext_id_code :: "wiimote_ext \<Rightarrow> u8 list option" where
  "ext_id_code ext =
     (case ext of
        WIIMOTE_EXT_NUNCHUK \<Rightarrow> Some EXT_ID_CODE_NUNCHUNK
      | WIIMOTE_EXT_CLASSIC \<Rightarrow> Some EXP_ID_CODE_CLASSIC_CONTROLLER
      | WIIMOTE_EXT_CLASSIC_WIIU_PRO \<Rightarrow> Some EXP_ID_CODE_CLASSIC_WIIU_PRO
      | WIIMOTE_EXT_GUITAR \<Rightarrow> Some EXP_ID_CODE_GUITAR
      | WIIMOTE_EXT_MOTION_PLUS \<Rightarrow> Some EXP_ID_CODE_MOTION_PLUS
      | WIIMOTE_EXT_NONE \<Rightarrow> None)"

definition fake_wiimote_reset_extension_state :: "fake_wiimote \<Rightarrow> fake_wiimote" where
  "fake_wiimote_reset_extension_state w =
     (let regs0 = replicate sizeof_extension_registers 0;
          regs1 = (case ext_id_code (cur_extension w) of
                     None \<Rightarrow> regs0
                   | Some id_code \<Rightarrow> put ext_regs_identifier id_code regs0);
          regs2 = (if cur_extension w = WIIMOTE_EXT_NUNCHUK then
                     put ext_regs_controller_data
                       (bm_nunchuk_format 0 (replicate BM_NUNCHUK_ANALOG_AXIS__NUM 0x80) 0 0 0) regs1
                   else if cur_extension w = WIIMOTE_EXT_CLASSIC then
                     put ext_regs_controller_data
                       (bm_classic_format 0 (replicate BM_CLASSIC_ANALOG_AXIS__NUM 0x80)) regs1
                   else regs1)
      in w \<lparr> extension_regs := regs2, extension_key := encryption_key_zero,
             extension_key_dirty := True \<rparr>)"

definition invalidate :: "l2cap_channel_info \<Rightarrow> l2cap_channel_info" where
  "invalidate info = info \<lparr> chn_valid := False \<rparr>"

definition fake_wiimote_init_state :: "nat \<Rightarrow> fake_wiimote \<Rightarrow> fake_wiimote" where
  "fake_wiimote_init_state dev w =
     (let w1 = w \<lparr> baseband_state := BASEBAND_STATE_REQUEST_CONNECTION,
            acl_state := ACL_STATE_INACTIVE,
            psm_sdp_chn := invalidate (psm_sdp_chn w),
            psm_hid_cntl_chn := invalidate (psm_hid_cntl_chn w),
            psm_hid_intr_chn := invalidate (psm_hid_intr_chn w),
            num_completed_acl_data_packets := 0, input_device := Some dev,
            status_leds := 0, status_ir := False, status_speaker := False,
            fw_buttons := 0, input_dirty := False,
            acc_x := ACCEL_ZERO_G, acc_y := ACCEL_ZERO_G, acc_z := ACCEL_ONE_G,
            rumble_on := False, ir_regs := replicate sizeof_ir_camera_registers 0,
            ir_valid_dots := 0 \<rparr>;
          w2 = fake_wiimote_reset_extension_state w1
      in w2 \<lparr> cur_extension := WIIMOTE_EXT_NONE, new_extension := WIIMOTE_EXT_NONE,
              eeprom := eeprom_init,
              fw_read_request := (fw_read_request w2) \<lparr> rr_size := 0 \<rparr>,
              reporting_mode := INPUT_REPORT_ID_BTN, reporting_continuous := False \<rparr>)"

definition fake_wiimote_release_input_device :: "fake_wiimote \<Rightarrow> fake_wiimote" where
  "fake_wiimote_release_input_device w = w \<lparr> input_device := None \<rparr>"

definition fake_wiimote_set_extension :: "wiimote_ext \<Rightarrow> fake_wiimote \<Rightarrow> fake_wiimote" where
  "fake_wiimote_set_extension ext w = w \<lparr> new_extension := ext \<rparr>"

section \<open>What input devices report\<close>

definition fake_wiimote_report_input :: "u16 \<Rightarrow> fake_wiimote \<Rightarrow> fake_wiimote" where
  "fake_wiimote_report_input btns w =
     (if fw_buttons w XOR btns \<noteq> 0 then w \<lparr> fw_buttons := btns, input_dirty := True \<rparr> else w)"

definition fake_wiimote_report_accelerometer ::
  "u16 \<Rightarrow> u16 \<Rightarrow> u16 \<Rightarrow> fake_wiimote \<Rightarrow> fake_wiimote" where
  "fake_wiimote_report_accelerometer ax ay az w =
     w \<lparr> acc_x := ax AND 0x3FF, acc_y := ay AND 0x3FF, acc_z := az AND 0x3FF \<rparr>"

text \<open>Low byte, and the bits above it packed with a size, of a coordinate pair.\<close>

definition dot_high :: "ir_dot \<Rightarrow> u8" where
  "dot_high d = ucast (drop_bit 2 (snd d AND 0x300) OR drop_bit 4 (fst d AND 0x300)) OR IR_DOT_SIZE"

definition ir_basic :: "ir_dot \<Rightarrow> ir_dot \<Rightarrow> u8 list" where
  "ir_basic d0 d1 =
     [ucast (fst d0), ucast (snd d0),
      ucast (push_bit 6 (drop_bit 8 (snd d0) AND 3) OR push_bit 4 (drop_bit 8 (fst d0) AND 3) OR
             push_bit 2 (drop_bit 8 (snd d1) AND 3) OR (drop_bit 8 (fst d1) AND 3)),
      ucast (fst d1), ucast (snd d1), 0xFF, 0xFF, 0xFF, 0xFF, 0xFF]"

definition ir_extended :: "ir_dot \<Rightarrow> ir_dot \<Rightarrow> u8 list" where
  "ir_extended d0 d1 =
     [ucast (fst d0), ucast (snd d0), dot_high d0, ucast (fst d1), ucast (snd d1), dot_high d1,
      0xFF, 0xFF, 0xF0, 0xFF, 0xFF, 0xF0]"

definition ir_full :: "ir_dot \<Rightarrow> ir_dot \<Rightarrow> u8 list" where
  "ir_full d0 d1 =
     [ucast (fst d0), ucast (snd d0), dot_high d0, 0, 0x7F, 0, 0x7F, 0, 0xFF,
      ucast (fst d1), ucast (snd d1), dot_high d1, 0, 0x7F, 0, 0x7F, 0, 0xFF] @
     replicate (2 * 9) 0xFF"

definition fake_wiimote_report_ir_dots :: "ir_dot list \<Rightarrow> fake_wiimote \<Rightarrow> fake_wiimote" where
  "fake_wiimote_report_ir_dots ir_dots w =
     (let mode = ir_regs w ! ir_regs_mode; d0 = ir_dots ! 0; d1 = ir_dots ! 1;
          ir_data = (if mode = IR_MODE_BASIC then ir_basic d0 d1
                     else if mode = IR_MODE_EXTENDED then ir_extended d0 d1
                     else if mode = IR_MODE_FULL then ir_full d0 d1
                     else replicate CAMERA_DATA_BYTES 0xFF)
      in w \<lparr> ir_regs := put ir_regs_camera_data ir_data (ir_regs w) \<rparr>)"

text \<open>\<open>memmismatch\<close> gives the index of the first difference, or the size when there is none.\<close>

definition fake_wiimote_report_input_ext ::
  "'os ext \<Rightarrow> u16 \<Rightarrow> u8 list \<Rightarrow> nat \<Rightarrow> fake_wiimote \<Rightarrow> fake_wiimote" where
  "fake_wiimote_report_input_ext E btns ext_data ext_size w =
     (let btn_changed = (fw_buttons w XOR btns \<noteq> 0);
          ext_cmp = memmismatch E (drop ext_regs_controller_data (extension_regs w)) ext_data ext_size
      in if btn_changed \<or> ext_cmp \<noteq> ext_size
         then w \<lparr> fw_buttons := btns,
                  extension_regs :=
                    (if ext_cmp \<noteq> ext_size
                     then put (ext_regs_controller_data + ext_cmp)
                            (take (ext_size - ext_cmp) (drop ext_cmp ext_data)) (extension_regs w)
                     else extension_regs w),
                  input_dirty := True \<rparr>
         else w)"

section \<open>Register spaces\<close>

text \<open>
  The 16-bit addresses and sizes are taken as numbers: the sums of the range checks are
  computed as \<open>int\<close>, without overflow.  \<open>None\<close> is the result false; a write reads its
  source only when the check passes.
\<close>

definition ir_camera_read_data :: "fake_wiimote \<Rightarrow> nat \<Rightarrow> nat \<Rightarrow> u8 list option" where
  "ir_camera_read_data w address n =
     (if address + n > sizeof_ir_camera_registers then None
      else Some (take n (drop address (ir_regs w))))"

definition ir_camera_write_data ::
  "fake_wiimote \<Rightarrow> u8 list \<Rightarrow> nat \<Rightarrow> nat \<Rightarrow> fake_wiimote option result" where
  "ir_camera_write_data w src address n =
     (if address + n > sizeof_ir_camera_registers then Inr None
      else rbind (read_bytes src 0 n) (\<lambda>bs.
        Inr (Some (w \<lparr> ir_regs := put address bs (ir_regs w) \<rparr>))))"

definition extension_key_data :: "fake_wiimote \<Rightarrow> u8 list" where
  "extension_key_data w =
     take (ENCRYPTION_KEY_DATA_END - ENCRYPTION_KEY_DATA_BEGIN)
       (drop ENCRYPTION_KEY_DATA_BEGIN (extension_regs w))"

definition extension_read_data ::
  "'os ext \<Rightarrow> fake_wiimote \<Rightarrow> nat \<Rightarrow> nat \<Rightarrow> (u8 list option \<times> fake_wiimote) result" where
  "extension_read_data E w address n =
     (if address + n > sizeof_extension_registers then Inr (None, w)
      else
        let dst = take n (drop address (extension_regs w)) in
        if extension_regs w ! ext_regs_encryption = ENCRYPTION_ENABLED then
          rbind (if extension_key_dirty w
                 then rbind (wiimote_crypto_generate_key_from_extension_key_data E
                              (extension_key_data w))
                        (\<lambda>k. Inr (w \<lparr> extension_key := k, extension_key_dirty := False \<rparr>))
                 else Inr w) (\<lambda>w1.
            Inr (Some (wiimote_crypto_encrypt (extension_key w1) (of_nat address) dst), w1))
        else Inr (Some dst, w))"

definition extension_write_data ::
  "fake_wiimote \<Rightarrow> u8 list \<Rightarrow> nat \<Rightarrow> nat \<Rightarrow> fake_wiimote option result" where
  "extension_write_data w src address n =
     (if address + n > sizeof_extension_registers then Inr None
      else
        let w1 = (if address + n > ENCRYPTION_KEY_DATA_BEGIN \<and> address < ENCRYPTION_KEY_DATA_END
                  then w \<lparr> extension_key_dirty := True \<rparr> else w)
        in rbind (read_bytes src 0 n) (\<lambda>bs.
             Inr (Some (w1 \<lparr> extension_regs := put address bs (extension_regs w1) \<rparr>))))"

text \<open>The EEPROM accesses of the read and write requests.\<close>

definition eeprom_read_data :: "fake_wiimote \<Rightarrow> nat \<Rightarrow> nat \<Rightarrow> u8 list option" where
  "eeprom_read_data w address n =
     (if address + n > EEPROM_FREE_SIZE then None else Some (take n (drop address (eeprom w))))"

definition eeprom_write_data ::
  "fake_wiimote \<Rightarrow> u8 list \<Rightarrow> nat \<Rightarrow> nat \<Rightarrow> fake_wiimote option result" where
  "eeprom_write_data w src address n =
     (if address + n > EEPROM_FREE_SIZE then Inr None
      else rbind (read_bytes src 0 n) (\<lambda>bs.
        Inr (Some (w \<lparr> eeprom := put address bs (eeprom w) \<rparr>))))"

end
