(* ===== verification/Memory_Spaces.thy ===== *)
theory Memory_Spaces
  imports Fake_Wiimote_State
begin

text \<open>
  The contract of a memory the host accesses with read and write requests (locale
  \<open>memory_block\<close>) and its interpretations on the three memories of a fake Wiimote: the
  infrared camera registers, the extension registers and the EEPROM.  What the host relies on
  (reading back what was written, independence of disjoint ranges, reading a range in chunks)
  is proved once from the contract.
\<close>

section \<open>The contract\<close>

locale memory_block =
  fixes inv :: "'s \<Rightarrow> bool"
    and sz :: nat
    and rd :: "'s \<Rightarrow> nat \<Rightarrow> nat \<Rightarrow> u8 list option"
    and wr :: "'s \<Rightarrow> nat \<Rightarrow> u8 list \<Rightarrow> 's option"
  assumes rd_refused: "rd s a n = None \<longleftrightarrow> sz < a + n"
    and wr_refused: "wr s a bs = None \<longleftrightarrow> sz < a + length bs"
    and rd_length: "inv s \<Longrightarrow> rd s a n = Some bs \<Longrightarrow> length bs = n"
    and rd_append: "inv s \<Longrightarrow> rd s a m = Some xs \<Longrightarrow> rd s (a + m) n = Some ys \<Longrightarrow>
      rd s a (m + n) = Some (xs @ ys)"
    and wr_inv: "inv s \<Longrightarrow> wr s a bs = Some t \<Longrightarrow> inv t"
    and rd_wr: "inv s \<Longrightarrow> wr s a bs = Some t \<Longrightarrow> rd t a (length bs) = Some bs"
    and rd_wr_other: "inv s \<Longrightarrow> wr s a bs = Some t \<Longrightarrow> b + n \<le> a \<or> a + length bs \<le> b \<Longrightarrow>
      rd t b n = rd s b n"
begin

lemma rd_in_range: "inv s \<Longrightarrow> a + n \<le> sz \<Longrightarrow> \<exists>bs. rd s a n = Some bs \<and> length bs = n"
  using rd_refused [of s a n] rd_length [of s a n] by fastforce

lemma wr_in_range: "a + length bs \<le> sz \<Longrightarrow> \<exists>t. wr s a bs = Some t"
  using wr_refused [of s a bs] by fastforce

text \<open>Writes to disjoint ranges can be read back in either order.\<close>

lemma wr_wr_disjoint:
  assumes "inv s" "wr s a xs = Some t" "wr t b ys = Some t'"
    and "a + length xs \<le> b \<or> b + length ys \<le> a"
  shows "rd t' a (length xs) = Some xs \<and> rd t' b (length ys) = Some ys"
  using assms rd_wr [OF assms(1,2)] wr_inv [OF assms(1,2)]
    rd_wr [of t b ys t'] rd_wr_other [of t b ys t' a "length xs"] by auto

text \<open>Reading chunk after chunk.\<close>

fun rd_chunks :: "'s \<Rightarrow> nat \<Rightarrow> nat list \<Rightarrow> u8 list option" where
  "rd_chunks s a [] = Some []"
| "rd_chunks s a (n # ns) =
     (case rd s a n of None \<Rightarrow> None | Some bs \<Rightarrow> map_option ((@) bs) (rd_chunks s (a + n) ns))"

lemma rd_chunks_eq:
  "inv s \<Longrightarrow> a + sum_list ns \<le> sz \<Longrightarrow> rd_chunks s a ns = rd s a (sum_list ns)"
proof (induction ns arbitrary: a)
  case Nil
  then show ?case using rd_in_range [of s a 0] by auto
next
  case (Cons n ns)
  obtain xs where xs: "rd s a n = Some xs" using rd_in_range [of s a n] Cons.prems by auto
  obtain ys where "rd s (a + n) (sum_list ns) = Some ys"
    using rd_in_range [of s "a + n" "sum_list ns"] Cons.prems by (auto simp: add.assoc)
  with Cons xs rd_append [OF Cons.prems(1) xs] show ?case by (simp add: add.assoc)
qed

end

section \<open>Byte arrays implement it\<close>

definition mem_read :: "nat \<Rightarrow> u8 list \<Rightarrow> nat \<Rightarrow> nat \<Rightarrow> u8 list option" where
  "mem_read sz m a n = (if a + n > sz then None else Some (take n (drop a m)))"

text \<open>A write function of the source on a buffer that holds exactly the bytes to write.\<close>

definition exact_write ::
  "('s \<Rightarrow> u8 list \<Rightarrow> nat \<Rightarrow> nat \<Rightarrow> 's option result) \<Rightarrow> 's \<Rightarrow> nat \<Rightarrow> u8 list \<Rightarrow> 's option" where
  "exact_write f s a bs = (case f s bs a (length bs) of Inl _ \<Rightarrow> None | Inr r \<Rightarrow> r)"

lemma drop_take_put_other:
  assumes "a + length bs \<le> length m" and "b + n \<le> a \<or> a + length bs \<le> b"
  shows "take n (drop b (put a bs m)) = take n (drop b m)"
  using assms
proof (elim disjE)
  assume "b + n \<le> a"
  with assms(1) show ?thesis
    by (intro nth_equalityI) (auto simp: nth_put)
next
  assume "a + length bs \<le> b"
  with assms(1) show ?thesis
    by (intro nth_equalityI) (auto simp: nth_put)
qed

lemma mem_block_laws:
  assumes len: "\<And>s. ok s \<longleftrightarrow> length (get s) = sz"
    and rd: "\<And>s a n. rd s a n = mem_read sz (get s) a n"
    and wr: "\<And>s a bs. wr s a bs = None \<longleftrightarrow> sz < a + length bs"
    and eff: "\<And>s a bs t. wr s a bs = Some t \<Longrightarrow> get t = put a bs (get s)"
  shows "memory_block ok sz rd wr"
proof
  fix s a n bs t b m xs ys
  show "rd s a n = None \<longleftrightarrow> sz < a + n" by (simp add: rd mem_read_def)
  show "wr s a bs = None \<longleftrightarrow> sz < a + length bs" by (rule wr)
  assume i: "ok s"
  show "rd s a n = Some bs \<Longrightarrow> length bs = n"
    using i by (auto simp: rd mem_read_def len split: if_splits)
  show "rd s a m = Some xs \<Longrightarrow> rd s (a + m) n = Some ys \<Longrightarrow> rd s a (m + n) = Some (xs @ ys)"
    by (auto simp: rd mem_read_def take_add add.commute split: if_splits)
  assume w: "wr s a bs = Some t"
  then have r: "a + length bs \<le> length (get s)" using wr [of s a bs] i by (auto simp: len)
  show "ok t" using eff [OF w] i r by (simp add: len)
  show "rd t a (length bs) = Some bs"
    using eff [OF w] i r by (simp add: rd mem_read_def len take_drop_put)
  assume "b + n \<le> a \<or> a + length bs \<le> b"
  then show "rd t b n = rd s b n"
    using eff [OF w] r by (simp add: rd mem_read_def drop_take_put_other)
qed

lemma exact_write_result [simp]:
  "exact_write ir_camera_write_data w a bs =
     (if a + length bs > sizeof_ir_camera_registers then None
      else Some (w \<lparr> ir_regs := put a bs (ir_regs w) \<rparr>))"
  "exact_write eeprom_write_data w a bs =
     (if a + length bs > EEPROM_FREE_SIZE then None
      else Some (w \<lparr> eeprom := put a bs (eeprom w) \<rparr>))"
  "exact_write extension_write_data w a bs =
     (if a + length bs > sizeof_extension_registers then None
      else Some (w \<lparr> extension_regs := put a bs (extension_regs w),
        extension_key_dirty := extension_key_dirty w \<or>
          (a + length bs > ENCRYPTION_KEY_DATA_BEGIN \<and> a < ENCRYPTION_KEY_DATA_END) \<rparr>))"
  by (auto simp: exact_write_def ir_camera_write_data_def eeprom_write_data_def
      extension_write_data_def read_bytes_def Let_def intro: fake_wiimote.equality)

definition ir_inv :: "fake_wiimote \<Rightarrow> bool" where
  "ir_inv w \<longleftrightarrow> length (ir_regs w) = sizeof_ir_camera_registers"

definition eeprom_inv :: "fake_wiimote \<Rightarrow> bool" where
  "eeprom_inv w \<longleftrightarrow> length (eeprom w) = EEPROM_FREE_SIZE"

definition ext_inv :: "fake_wiimote \<Rightarrow> bool" where
  "ext_inv w \<longleftrightarrow> length (extension_regs w) = sizeof_extension_registers"

text \<open>The extension registers as they are, before encryption.\<close>

definition extension_plain :: "fake_wiimote \<Rightarrow> nat \<Rightarrow> nat \<Rightarrow> u8 list option" where
  "extension_plain w address n = mem_read sizeof_extension_registers (extension_regs w) address n"

interpretation ir: memory_block ir_inv sizeof_ir_camera_registers ir_camera_read_data
    "exact_write ir_camera_write_data"
  by (rule mem_block_laws [where get = ir_regs])
     (auto simp: ir_inv_def ir_camera_read_data_def mem_read_def split: if_splits)

interpretation ee: memory_block eeprom_inv EEPROM_FREE_SIZE eeprom_read_data
    "exact_write eeprom_write_data"
  by (rule mem_block_laws [where get = eeprom])
     (auto simp: eeprom_inv_def eeprom_read_data_def mem_read_def split: if_splits)

interpretation extn: memory_block ext_inv sizeof_extension_registers extension_plain
    "exact_write extension_write_data"
  by (rule mem_block_laws [where get = extension_regs])
     (auto simp: ext_inv_def extension_plain_def split: if_splits)

section \<open>Encrypted reads\<close>

text \<open>The key in use after a read: a pending key change takes effect first.\<close>

definition current_key :: "'os ext \<Rightarrow> fake_wiimote \<Rightarrow> encryption_key result" where
  "current_key E w =
     (if extension_key_dirty w
      then wiimote_crypto_generate_key_from_extension_key_data E (extension_key_data w)
      else Inr (extension_key w))"

definition encryption_enabled :: "fake_wiimote \<Rightarrow> bool" where
  "encryption_enabled w \<longleftrightarrow> extension_regs w ! ext_regs_encryption = ENCRYPTION_ENABLED"

lemma extension_read_plain:
  "\<not> encryption_enabled w \<Longrightarrow> extension_read_data E w a n = Inr (extension_plain w a n, w)"
  by (simp add: extension_read_data_def encryption_enabled_def extension_plain_def mem_read_def)

lemma extension_read_encrypted:
  assumes "encryption_enabled w" and "current_key E w = Inr k"
    and "extension_plain w a n = Some bs"
  shows "\<exists>w'. extension_read_data E w a n = Inr (Some (wiimote_crypto_encrypt k (of_nat a) bs), w') \<and>
    w' = w \<lparr> extension_key := k, extension_key_dirty := False \<rparr>"
  using assms
  by (auto simp: extension_read_data_def encryption_enabled_def extension_plain_def mem_read_def
      current_key_def Let_def split: if_splits)

lemma extension_read_state:
  "extension_read_data E w a n = Inr (r, w') \<Longrightarrow>
     \<exists>k d. w' = w \<lparr> extension_key := k, extension_key_dirty := d \<rparr>"
proof -
  assume "extension_read_data E w a n = Inr (r, w')"
  then have "w' = w \<or> (\<exists>k d. w' = w \<lparr> extension_key := k, extension_key_dirty := d \<rparr>)"
    by (auto simp: extension_read_data_def result_simps Let_def split: if_splits)
  moreover have "w = w \<lparr> extension_key := extension_key w,
      extension_key_dirty := extension_key_dirty w \<rparr>" by simp
  ultimately show ?thesis by metis
qed

end
