(* ===== verification/Fake_Wiimote_Hid.thy ===== *)
theory Fake_Wiimote_Hid
  imports Memory_Spaces
begin

text \<open>
  The HID side of \<open>source/fake_wiimote.c\<close>: input reports sent to the host, memory read and
  write requests, changes of the extension port, and the configuration requests of new L2CAP
  channels.  These functions touch one Wiimote and the message plumbing only.
\<close>

section \<open>Sending reports\<close>

definition send_hid_data ::
  "'os ext \<Rightarrow> u16 \<Rightarrow> u16 \<Rightarrow> u8 \<Rightarrow> u8 list \<Rightarrow> 'os usb \<Rightarrow> (int \<times> 'os usb) result" where
  "send_hid_data E con_handle dcid hid_type data u =
     rbind (c_assert (length data \<le> WIIMOTE_MAX_PAYLOAD - 1)) (\<lambda>_.
       inject_l2cap_packet E con_handle dcid (hid_type # data) u)"

definition send_hid_input_report ::
  "'os ext \<Rightarrow> u16 \<Rightarrow> u16 \<Rightarrow> u8 \<Rightarrow> u8 list \<Rightarrow> 'os usb \<Rightarrow> (int \<times> 'os usb) result" where
  "send_hid_input_report E con_handle dcid report_id data u =
     rbind (c_assert (length data \<le> WIIMOTE_MAX_PAYLOAD - 2)) (\<lambda>_.
       send_hid_data E con_handle dcid (push_bit 4 HID_TYPE_DATA OR HID_PARAM_INPUT)
         (report_id # data) u)"

text \<open>A report on the interrupt channel of a Wiimote.\<close>

definition wiimote_send_report ::
  "'os ext \<Rightarrow> u8 \<Rightarrow> u8 list \<Rightarrow> fake_wiimote \<Rightarrow> 'os usb \<Rightarrow> (int \<times> 'os usb) result" where
  "wiimote_send_report E report_id data w u =
     send_hid_input_report E (fw_con_handle w) (chn_remote_cid (psm_hid_intr_chn w)) report_id data u"

definition wiimote_send_ack ::
  "'os ext \<Rightarrow> u8 \<Rightarrow> u8 \<Rightarrow> fake_wiimote \<Rightarrow> 'os usb \<Rightarrow> (int \<times> 'os usb) result" where
  "wiimote_send_ack E rpt_id error_code w u =
     wiimote_send_report E INPUT_REPORT_ID_ACK (input_report_ack (fw_buttons w) rpt_id error_code) w u"

text \<open>The two padding bytes of the status report are never written.\<close>

definition wiimote_send_input_report_status ::
  "'os ext \<Rightarrow> fake_wiimote \<Rightarrow> 'os usb \<Rightarrow> (int \<times> 'os usb) result" where
  "wiimote_send_input_report_status E w u =
     wiimote_send_report E INPUT_REPORT_ID_STATUS
       (input_report_status (fw_buttons w) (status_leds w) (status_ir w) False
          (cur_extension w \<noteq> WIIMOTE_EXT_NONE) False (stack_bytes E 2 (os_state u)) 0xFF) w u"

section \<open>Read requests\<close>

text \<open>The error code and the sixteen data bytes of a reply, and the Wiimote after the read.\<close>

definition reply_block ::
  "nat \<Rightarrow> u8 \<Rightarrow> u8 list option \<times> fake_wiimote \<Rightarrow> u8 \<times> u8 list \<times> fake_wiimote" where
  "reply_block read_size refused r =
     (case r of
        (None, w) \<Rightarrow> (refused, replicate 16 0, w)
      | (Some bs, w) \<Rightarrow> (ERROR_CODE_SUCCESS, put 0 (take read_size bs) (replicate 16 0), w))"

definition read_request_data ::
  "'os ext \<Rightarrow> nat \<Rightarrow> fake_wiimote \<Rightarrow> (u8 \<times> u8 list \<times> fake_wiimote) result" where
  "read_request_data E read_size w =
     (let rr = fw_read_request w; address = unat (rr_address rr);
          space = rr_space rr; slave = rr_slave_address rr
      in if space = ADDRESS_SPACE_EEPROM then
           Inr (reply_block read_size ERROR_CODE_INVALID_ADDRESS
                  (eeprom_read_data w address (unat (rr_size rr)), w))
         else if space = ADDRESS_SPACE_I2C_BUS \<or> space = ADDRESS_SPACE_I2C_BUS_ALT then
           if slave = EEPROM_I2C_ADDR then
             Inr (ERROR_CODE_INVALID_ADDRESS, replicate 16 0, w)
           else if slave = EXTENSION_I2C_ADDR then
             rbind (extension_read_data E w address read_size) (\<lambda>r.
               Inr (reply_block read_size ERROR_CODE_NACK r))
           else if slave = CAMERA_I2C_ADDR then
             Inr (reply_block read_size ERROR_CODE_NACK (ir_camera_read_data w address read_size, w))
           else Inr (ERROR_CODE_SUCCESS, replicate 16 0, w)
         else Inr (ERROR_CODE_INVALID_SPACE, replicate 16 0, w))"

text \<open>The request after a reply, and the size the reply announces.\<close>

definition advance_read_request :: "u8 \<Rightarrow> nat \<Rightarrow> fake_wiimote \<Rightarrow> nat \<times> fake_wiimote" where
  "advance_read_request error read_size w =
     (let rr = fw_read_request w in
      if error \<noteq> ERROR_CODE_SUCCESS
      then (16, w \<lparr> fw_read_request := rr \<lparr> rr_size := 0 \<rparr> \<rparr>)
      else (read_size, w \<lparr> fw_read_request :=
              rr \<lparr> rr_address := rr_address rr + of_nat read_size,
                   rr_size := rr_size rr - of_nat read_size \<rparr> \<rparr>))"

definition fake_wiimote_process_read_request ::
  "'os ext \<Rightarrow> fake_wiimote \<Rightarrow> 'os usb \<Rightarrow> (bool \<times> fake_wiimote \<times> 'os usb) result" where
  "fake_wiimote_process_read_request E w u =
     (let read_size = min 16 (unat (rr_size (fw_read_request w)));
          address = rr_address (fw_read_request w)
      in if read_size = 0 then Inr (False, w, u)
         else
           rbind (read_request_data E read_size w) (\<lambda>(error, data, w1).
             let (reply_size, w2) = advance_read_request error read_size w1 in
             rbind (wiimote_send_report E INPUT_REPORT_ID_READ_DATA_REPLY
                      (input_report_read_data (fw_buttons w2) (of_nat (reply_size - 1)) error
                         address data) w2 u) (\<lambda>(_, u1).
               Inr (True, w2, u1))))"

section \<open>Write requests\<close>

text \<open>
  \<open>write\<close> is the request from its second byte on: address space, slave address, 16-bit
  big-endian address, size and data.
\<close>

definition write_block ::
  "(fake_wiimote \<Rightarrow> u8 list \<Rightarrow> nat \<Rightarrow> nat \<Rightarrow> fake_wiimote option result) \<Rightarrow> u8 \<Rightarrow>
   fake_wiimote \<Rightarrow> u8 list \<Rightarrow> nat \<Rightarrow> (u8 \<times> fake_wiimote) result" where
  "write_block wr refused w write n =
     rbind (read_be16 write 2) (\<lambda>address.
     rbind (wr w (drop 5 write) (unat address) n) (\<lambda>r.
       Inr (case r of None \<Rightarrow> (refused, w) | Some w' \<Rightarrow> (ERROR_CODE_SUCCESS, w'))))"

definition write_request_data ::
  "fake_wiimote \<Rightarrow> u8 list \<Rightarrow> nat \<Rightarrow> (u8 \<times> fake_wiimote) result" where
  "write_request_data w write n =
     rbind (read_u8 write 0) (\<lambda>flags.
     let space = data_space flags in
     if space = ADDRESS_SPACE_EEPROM then
       write_block eeprom_write_data ERROR_CODE_INVALID_ADDRESS w write n
     else if space = ADDRESS_SPACE_I2C_BUS \<or> space = ADDRESS_SPACE_I2C_BUS_ALT then
       rbind (read_u8 write 1) (\<lambda>b.
       let slave = data_slave_address b in
       if slave = EEPROM_I2C_ADDR then Inr (ERROR_CODE_INVALID_ADDRESS, w)
       else if slave = EXTENSION_I2C_ADDR then
         write_block extension_write_data ERROR_CODE_NACK w write n
       else if slave = CAMERA_I2C_ADDR then
         write_block ir_camera_write_data ERROR_CODE_NACK w write n
       else Inr (ERROR_CODE_SUCCESS, w))
     else Inr (ERROR_CODE_INVALID_SPACE, w))"

definition fake_wiimote_process_write_request ::
  "'os ext \<Rightarrow> u8 list \<Rightarrow> fake_wiimote \<Rightarrow> 'os usb \<Rightarrow> (fake_wiimote \<times> 'os usb) result" where
  "fake_wiimote_process_write_request E write w u =
     rbind (read_u8 write 4) (\<lambda>sz.
     if sz = 0 \<or> sz > 16 then Inr (w, u)
     else
       rbind (write_request_data w write (unat sz)) (\<lambda>(error, w1).
       rbind (wiimote_send_ack E OUTPUT_REPORT_ID_WRITE_DATA error w1 u) (\<lambda>(_, u1).
         Inr (w1, u1))))"

section \<open>Changes of the extension port\<close>

definition extension_change :: "fake_wiimote \<Rightarrow> fake_wiimote" where
  "extension_change w =
     fake_wiimote_reset_extension_state (w \<lparr>
       reporting_mode := INPUT_REPORT_ID_REPORT_DISABLED,
       cur_extension := (if cur_extension w = WIIMOTE_EXT_NONE then new_extension w
                         else WIIMOTE_EXT_NONE) \<rparr>)"

definition fake_wiimote_process_extension_change ::
  "'os ext \<Rightarrow> fake_wiimote \<Rightarrow> 'os usb \<Rightarrow> (bool \<times> fake_wiimote \<times> 'os usb) result" where
  "fake_wiimote_process_extension_change E w u =
     (if new_extension w = cur_extension w then Inr (False, w, u)
      else
        let w1 = extension_change w in
        rbind (wiimote_send_input_report_status E w1 u) (\<lambda>(_, u1). Inr (True, w1, u1)))"

section \<open>Data reports\<close>

text \<open>The buttons with the low bits of the acceleration mixed in.\<close>

definition mix_acc_bits :: "fake_wiimote \<Rightarrow> u16" where
  "mix_acc_bits w =
     fw_buttons w OR push_bit 13 (acc_x w AND 3) OR push_bit 4 (acc_y w AND 2) OR
     push_bit 5 (acc_z w AND 2)"

definition report_size_of :: "u8 \<Rightarrow> nat" where
  "report_size_of mode =
     (if input_report_has_btn mode then 2 else 0) + input_report_acc_size mode +
     input_report_ext_size mode + input_report_ir_size mode"

text \<open>
  The report is assembled in an uninitialised buffer of 21 bytes.  Reading the extension may
  compute a new key.
\<close>

definition build_data_report ::
  "'os ext \<Rightarrow> u8 list \<Rightarrow> fake_wiimote \<Rightarrow> (u8 list \<times> fake_wiimote) result" where
  "build_data_report E buf w =
     (let mode = reporting_mode w;
          acc_size = input_report_acc_size mode; acc_offset = input_report_acc_offset mode;
          ext_size = input_report_ext_size mode; ext_offset = input_report_ext_offset mode;
          ir_size = input_report_ir_size mode; ir_offset = input_report_ir_offset mode;
          btns = (if acc_size \<noteq> 0 then mix_acc_bits w else fw_buttons w);
          d1 = (if acc_size \<noteq> 0
                then put acc_offset [ucast (drop_bit 2 (acc_x w)), ucast (drop_bit 2 (acc_y w)),
                       ucast (drop_bit 2 (acc_z w))] buf
                else buf);
          d2 = (if ir_size \<noteq> 0
                then put ir_offset (take ir_size (drop ir_regs_camera_data (ir_regs w))) d1
                else d1)
      in rbind (if ext_size \<noteq> 0 then
                  rbind (extension_read_data E w 0 ext_size) (\<lambda>(r, w1).
                    Inr (case r of None \<Rightarrow> d2 | Some bs \<Rightarrow> put ext_offset bs d2, w1))
                else Inr (d2, w)) (\<lambda>(d3, w1).
           Inr (take (report_size_of mode)
                  (if input_report_has_btn mode then put 0 (be16 btns) d3 else d3), w1)))"

definition fake_wiimote_send_data_report ::
  "'os ext \<Rightarrow> fake_wiimote \<Rightarrow> 'os usb \<Rightarrow> (fake_wiimote \<times> 'os usb) result" where
  "fake_wiimote_send_data_report E w u =
     (if reporting_mode w = INPUT_REPORT_ID_REPORT_DISABLED then Inr (w, u)
      else if reporting_continuous w \<or> input_dirty w then
        rbind (build_data_report E (stack_bytes E CONTROLLER_DATA_BYTES (os_state u)) w)
          (\<lambda>(report_data, w1).
        rbind (wiimote_send_report E (reporting_mode w1) report_data w1 u) (\<lambda>(_, u1).
          Inr (w1 \<lparr> input_dirty := False \<rparr>, u1)))
      else Inr (w, u))"

section \<open>Configuring channels\<close>

definition check_send_config_for_new_channel ::
  "'os ext \<Rightarrow> channel_ref \<Rightarrow> fake_wiimote \<Rightarrow> 'os usb \<Rightarrow> (fake_wiimote \<times> 'os usb) result" where
  "check_send_config_for_new_channel E c w u =
     (let info = get_chn c w in
      if l2cap_channel_is_accepted info \<and> chn_state info = L2CAP_CHANNEL_STATE_INACTIVE then
        rbind (inject_l2cap_config_req E (fw_con_handle w) (chn_remote_cid info) WII_REQUEST_MTU
                 L2CAP_FLUSH_TIMO_DEFAULT u) (\<lambda>(ret, u1).
          Inr (if ret = IOS_OK E
               then upd_chn c (\<lambda>i. i \<lparr> chn_state := L2CAP_CHANNEL_STATE_CONFIG_PEND \<rparr>) w
               else w, u1))
      else Inr (w, u))"

text \<open>
  The loop over the options of a configuration request: each has a type, a length and a value.
  The result is the configured MTU.  \<open>pos\<close> stays below \<open>options_size\<close>, which bounds the
  number of rounds.
\<close>

function config_options :: "u8 list \<Rightarrow> nat \<Rightarrow> nat \<Rightarrow> u16 \<Rightarrow> u16 result" where
  "config_options options options_size pos remote_mtu =
     (if pos < options_size then
        rbind (read_u8 options (pos + l2cap_cfg_opt_t_type)) (\<lambda>ty.
        rbind (read_u8 options (pos + l2cap_cfg_opt_t_length)) (\<lambda>len.
        let val = pos + sizeof_l2cap_cfg_opt_t in
        rbind (if ty = L2CAP_OPT_MTU then
                 rbind (c_assert (unat len = L2CAP_OPT_MTU_SIZE)) (\<lambda>_. read_le16 options val)
               else if ty = L2CAP_OPT_FLUSH_TIMO then
                 rbind (c_assert (unat len = L2CAP_OPT_FLUSH_TIMO_SIZE)) (\<lambda>_. Inr remote_mtu)
               else Inr remote_mtu) (\<lambda>mtu.
          config_options options options_size (val + unat len) mtu)))
      else Inr remote_mtu)"
  by auto
termination config_options
  by (relation "measure (\<lambda>(_, options_size, pos, _). options_size - pos)")
     (auto simp: sizeof_l2cap_cfg_opt_t_def)

declare config_options.simps [simp del]

definition handle_l2cap_config_req ::
  "'os ext \<Rightarrow> u8 \<Rightarrow> u16 \<Rightarrow> u16 \<Rightarrow> u8 list \<Rightarrow> nat \<Rightarrow> fake_wiimote \<Rightarrow> 'os usb \<Rightarrow>
   (fake_wiimote \<times> 'os usb) result" where
  "handle_l2cap_config_req E ident dcid flags options options_size w u =
     rbind (c_assert (flags = 0)) (\<lambda>_.
     case get_channel_info w dcid of
       None \<Rightarrow> Inl Assert_Failed
     | Some c \<Rightarrow>
         rbind (config_options options options_size 0 L2CAP_MTU_DEFAULT) (\<lambda>remote_mtu.
         let w1 = upd_chn c (\<lambda>i. i \<lparr> chn_remote_mtu := remote_mtu \<rparr>) w in
         rbind (inject_l2cap_config_rsp E (fw_con_handle w1) (chn_remote_cid (get_chn c w1)) ident
                  options options_size u) (\<lambda>(_, u1).
           Inr (w1, u1))))"

end
