(* ===== verification/Hci_Table.thy ===== *)
theory Hci_Table
  imports Hci_Defs
begin

text \<open>
  The static state of \<open>source/hci_state.c\<close> and the functions on it: the snooped host
  settings, the allocator of virtual connection handles, and the table that maps the
  physical handles of the Bluetooth dongle to the virtual handles the host sees.
  The table is proved to implement a partial one-to-one map (locale
  \<open>handle_translation\<close>), which is all the event and command handlers rely on.
\<close>

section \<open>State\<close>

definition MAX_HCI_CONNECTIONS :: nat where
  "MAX_HCI_CONNECTIONS = 32"

record hci_con_handle_entry =
  entry_valid :: bool
  entry_virt :: u16
  entry_phys :: u16

record hci_state =
  hci_unit_class :: "u8 list"
  hci_page_scan_enable :: u8
  hci_read_stored_link_key_read_all :: u8
  last_hci_virt_con_handle :: u16
  hci_virt_con_handle_map_table :: "hci_con_handle_entry list"

text \<open>Static objects start zeroed.\<close>

definition hci_state_initial :: hci_state where
  "hci_state_initial = \<lparr> hci_unit_class = replicate HCI_CLASS_SIZE 0,
     hci_page_scan_enable = 0, hci_read_stored_link_key_read_all = 0,
     last_hci_virt_con_handle = 0,
     hci_virt_con_handle_map_table =
       replicate MAX_HCI_CONNECTIONS \<lparr> entry_valid = False, entry_virt = 0, entry_phys = 0 \<rparr> \<rparr>"

section \<open>Operations\<close>

definition hci_state_reset :: "hci_state \<Rightarrow> hci_state" where
  "hci_state_reset s = s \<lparr>
     hci_virt_con_handle_map_table :=
       map (\<lambda>e. e \<lparr> entry_valid := False \<rparr>) (hci_virt_con_handle_map_table s),
     hci_unit_class := replicate HCI_CLASS_SIZE 0,
     hci_page_scan_enable := 0,
     hci_read_stored_link_key_read_all := 0,
     last_hci_virt_con_handle := 0 \<rparr>"

definition hci_con_handle_virt_alloc :: "hci_state \<Rightarrow> u16 \<times> hci_state" where
  "hci_con_handle_virt_alloc s =
     (last_hci_virt_con_handle s,
      s \<lparr> last_hci_virt_con_handle := (last_hci_virt_con_handle s + 1) AND 0x0EFF \<rparr>)"

definition hci_can_request_connection :: "hci_state \<Rightarrow> bool" where
  "hci_can_request_connection s \<longleftrightarrow> hci_page_scan_enable s AND HCI_PAGE_SCAN_ENABLE \<noteq> 0"

text \<open>The four loops over the table, each stopping at the first entry that matches.\<close>

fun table_map :: "u16 \<Rightarrow> u16 \<Rightarrow> hci_con_handle_entry list \<Rightarrow> hci_con_handle_entry list option" where
  "table_map phys virt [] = None"
| "table_map phys virt (e # es) =
     (if \<not> entry_valid e
      then Some (e \<lparr> entry_virt := virt, entry_phys := phys, entry_valid := True \<rparr> # es)
      else map_option ((#) e) (table_map phys virt es))"

fun table_unmap_virt :: "u16 \<Rightarrow> hci_con_handle_entry list \<Rightarrow> hci_con_handle_entry list option" where
  "table_unmap_virt virt [] = None"
| "table_unmap_virt virt (e # es) =
     (if entry_valid e \<and> entry_virt e = virt
      then Some (e \<lparr> entry_valid := False \<rparr> # es)
      else map_option ((#) e) (table_unmap_virt virt es))"

fun table_get_virt :: "hci_con_handle_entry list \<Rightarrow> u16 \<Rightarrow> u16 option" where
  "table_get_virt [] phys = None"
| "table_get_virt (e # es) phys =
     (if entry_valid e \<and> entry_phys e = phys then Some (entry_virt e)
      else table_get_virt es phys)"

fun table_get_phys :: "hci_con_handle_entry list \<Rightarrow> u16 \<Rightarrow> u16 option" where
  "table_get_phys [] virt = None"
| "table_get_phys (e # es) virt =
     (if entry_valid e \<and> entry_virt e = virt then Some (entry_phys e)
      else table_get_phys es virt)"

text \<open>The functions of the file: they return false (here \<open>None\<close>) when no entry matches.\<close>

definition hci_virt_con_handle_map :: "u16 \<Rightarrow> u16 \<Rightarrow> hci_state \<Rightarrow> hci_state option" where
  "hci_virt_con_handle_map phys virt s =
     map_option (\<lambda>t. s \<lparr> hci_virt_con_handle_map_table := t \<rparr>)
       (table_map phys virt (hci_virt_con_handle_map_table s))"

definition hci_virt_con_handle_unmap_virt :: "u16 \<Rightarrow> hci_state \<Rightarrow> hci_state option" where
  "hci_virt_con_handle_unmap_virt virt s =
     map_option (\<lambda>t. s \<lparr> hci_virt_con_handle_map_table := t \<rparr>)
       (table_unmap_virt virt (hci_virt_con_handle_map_table s))"

definition hci_virt_con_handle_get_virt :: "hci_state \<Rightarrow> u16 \<Rightarrow> u16 option" where
  "hci_virt_con_handle_get_virt s phys = table_get_virt (hci_virt_con_handle_map_table s) phys"

definition hci_virt_con_handle_get_phys :: "hci_state \<Rightarrow> u16 \<Rightarrow> u16 option" where
  "hci_virt_con_handle_get_phys s virt = table_get_phys (hci_virt_con_handle_map_table s) virt"

section \<open>The contract of the handle table\<close>

text \<open>
  \<open>inv\<close> is what the provider keeps; \<open>get_virt\<close> is the abstract partial map from physical
  to virtual handles and \<open>get_phys\<close> is its inverse.
\<close>

locale handle_translation =
  fixes inv :: "'t \<Rightarrow> bool"
    and full :: "'t \<Rightarrow> bool"
    and map_handle :: "u16 \<Rightarrow> u16 \<Rightarrow> 't \<Rightarrow> 't option"
    and unmap_virt :: "u16 \<Rightarrow> 't \<Rightarrow> 't option"
    and get_virt :: "'t \<Rightarrow> u16 \<Rightarrow> u16 option"
    and get_phys :: "'t \<Rightarrow> u16 \<Rightarrow> u16 option"
  assumes inverse: "inv t \<Longrightarrow> get_phys t v = Some p \<longleftrightarrow> get_virt t p = Some v"
    and map_refused: "map_handle p v t = None \<longleftrightarrow> full t"
    and map_adds: "inv t \<Longrightarrow> get_virt t p = None \<Longrightarrow> get_phys t v = None \<Longrightarrow>
      map_handle p v t = Some t' \<Longrightarrow> inv t' \<and> get_virt t' = (get_virt t)(p \<mapsto> v)"
    and unmap_refused: "inv t \<Longrightarrow> unmap_virt v t = None \<longleftrightarrow> get_phys t v = None"
    and unmap_removes: "inv t \<Longrightarrow> get_virt t p = Some v \<Longrightarrow> unmap_virt v t = Some t' \<Longrightarrow>
      inv t' \<and> get_virt t' = (get_virt t)(p := None)"
begin

lemma virt_inj: "inv t \<Longrightarrow> get_virt t p = Some v \<Longrightarrow> get_virt t q = Some v \<Longrightarrow> p = q"
  by (metis inverse option.inject)

lemma phys_inj: "inv t \<Longrightarrow> get_phys t v = Some p \<Longrightarrow> get_phys t w = Some p \<Longrightarrow> v = w"
  by (metis inverse option.inject)

lemma there_and_back: "inv t \<Longrightarrow> get_virt t p = Some v \<Longrightarrow> get_phys t v = Some p"
  by (simp add: inverse)

lemma back_and_there: "inv t \<Longrightarrow> get_phys t v = Some p \<Longrightarrow> get_virt t p = Some v"
  by (simp add: inverse)

lemma map_adds_phys:
  assumes "inv t" "get_virt t p = None" "get_phys t v = None" "map_handle p v t = Some t'"
  shows "get_phys t' = (get_phys t)(v \<mapsto> p)"
proof
  fix w
  have t': "inv t'" "get_virt t' = (get_virt t)(p \<mapsto> v)"
    using map_adds [OF assms] by auto
  show "get_phys t' w = ((get_phys t)(v \<mapsto> p)) w"
  proof (cases "w = v")
    case True
    then show ?thesis using t' by (simp add: inverse)
  next
    case False
    have "get_phys t' w = Some q \<longleftrightarrow> get_phys t w = Some q" for q
      using False assms(1,2) t' by (auto simp: inverse)
    with False show ?thesis by (metis fun_upd_other not_None_eq)
  qed
qed

lemma connect_then_disconnect:
  assumes "inv t" "get_virt t p = None" "get_phys t v = None" "map_handle p v t = Some t1"
  shows "\<exists>t2. unmap_virt v t1 = Some t2 \<and> inv t2 \<and> get_virt t2 = get_virt t"
proof -
  have t1: "inv t1" "get_virt t1 = (get_virt t)(p \<mapsto> v)"
    using map_adds [OF assms] by auto
  then have "get_phys t1 v = Some p" by (simp add: inverse)
  then obtain t2 where t2: "unmap_virt v t1 = Some t2"
    using t1(1) unmap_refused by fastforce
  then have "inv t2" "get_virt t2 = (get_virt t1)(p := None)"
    using unmap_removes [OF t1(1) _ t2, of p] t1(2) by auto
  with t1(2) t2 assms(2) show ?thesis by (auto simp: fun_upd_idem_iff)
qed

end

section \<open>The table implements the contract\<close>

definition table_inv :: "hci_con_handle_entry list \<Rightarrow> bool" where
  "table_inv es \<longleftrightarrow> distinct (map entry_virt (filter entry_valid es)) \<and>
     distinct (map entry_phys (filter entry_valid es))"

definition table_full :: "hci_con_handle_entry list \<Rightarrow> bool" where
  "table_full es \<longleftrightarrow> list_all entry_valid es"

text \<open>The physical and the virtual handles in use.\<close>

definition live_phys :: "hci_con_handle_entry list \<Rightarrow> u16 set" where
  "live_phys es = set (map entry_phys (filter entry_valid es))"

definition live_virt :: "hci_con_handle_entry list \<Rightarrow> u16 set" where
  "live_virt es = set (map entry_virt (filter entry_valid es))"

lemma live_simps [simp]:
  "live_phys [] = {}" "live_virt [] = {}"
  "live_phys (e # es) = (if entry_valid e then insert (entry_phys e) (live_phys es) else live_phys es)"
  "live_virt (e # es) = (if entry_valid e then insert (entry_virt e) (live_virt es) else live_virt es)"
  by (auto simp: live_phys_def live_virt_def)

lemma liveI: "e \<in> set es \<Longrightarrow> entry_valid e \<Longrightarrow>
  entry_phys e \<in> live_phys es \<and> entry_virt e \<in> live_virt es"
  by (auto simp: live_phys_def live_virt_def)

lemma table_inv_simps [simp]:
  "table_inv []"
  "\<not> entry_valid e \<Longrightarrow> table_inv (e # es) \<longleftrightarrow> table_inv es"
  "entry_valid e \<Longrightarrow> table_inv (e # es) \<longleftrightarrow> table_inv es \<and>
     entry_virt e \<notin> live_virt es \<and> entry_phys e \<notin> live_phys es"
  by (auto simp: table_inv_def live_phys_def live_virt_def)

lemma table_get_virt_None:
  "table_get_virt es p = None \<longleftrightarrow> p \<notin> live_phys es"
  by (induction es) auto

lemma table_get_phys_None:
  "table_get_phys es v = None \<longleftrightarrow> v \<notin> live_virt es"
  by (induction es) auto

lemma table_get_virt_Some:
  "table_inv es \<Longrightarrow> table_get_virt es p = Some v \<longleftrightarrow>
     (\<exists>e \<in> set es. entry_valid e \<and> entry_phys e = p \<and> entry_virt e = v)"
proof (induction es)
  case (Cons e es)
  then show ?case
    by (cases "entry_valid e") (auto dest: liveI)
qed simp

lemma table_get_phys_Some:
  "table_inv es \<Longrightarrow> table_get_phys es v = Some p \<longleftrightarrow>
     (\<exists>e \<in> set es. entry_valid e \<and> entry_phys e = p \<and> entry_virt e = v)"
proof (induction es)
  case (Cons e es)
  then show ?case
    by (cases "entry_valid e") (auto dest: liveI)
qed simp

lemma table_map_None: "table_map p v es = None \<longleftrightarrow> table_full es"
  by (induction es) (auto simp: table_full_def)

lemma table_map_set:
  "table_map p v es = Some es' \<Longrightarrow>
     live_phys es' = insert p (live_phys es) \<and>
     live_virt es' = insert v (live_virt es)"
  by (induction es arbitrary: es') (auto split: if_splits)

lemma table_map_length: "table_map p v es = Some es' \<Longrightarrow> length es' = length es"
  by (induction es arbitrary: es') (auto split: if_splits)

lemma table_map_adds:
  "table_inv es \<Longrightarrow> table_get_virt es p = None \<Longrightarrow> table_get_phys es v = None \<Longrightarrow>
   table_map p v es = Some es' \<Longrightarrow>
   table_inv es' \<and> table_get_virt es' = (table_get_virt es)(p \<mapsto> v)"
proof (induction es arbitrary: es')
  case (Cons e es)
  show ?case
  proof (cases "entry_valid e")
    case False
    with Cons.prems show ?thesis
      by (auto simp: table_get_virt_None table_get_phys_None fun_eq_iff)
  next
    case True
    with Cons.prems obtain es1 where es1: "table_map p v es = Some es1" "es' = e # es1"
      by auto
    from True Cons.prems es1 Cons.IH [of es1] table_map_set [OF es1(1)] show ?thesis
      by (auto simp: fun_eq_iff split: if_splits)
  qed
qed simp

lemma table_unmap_None: "table_unmap_virt v es = None \<longleftrightarrow> table_get_phys es v = None"
  by (induction es) auto

lemma table_unmap_length: "table_unmap_virt v es = Some es' \<Longrightarrow> length es' = length es"
  by (induction es arbitrary: es') (auto split: if_splits)

lemma table_unmap_subset:
  "table_unmap_virt v es = Some es' \<Longrightarrow>
     live_phys es' \<subseteq> live_phys es \<and>
     live_virt es' \<subseteq> live_virt es"
  by (induction es arbitrary: es') (auto split: if_splits)

lemma table_unmap_removes:
  "table_inv es \<Longrightarrow> table_get_virt es p = Some v \<Longrightarrow> table_unmap_virt v es = Some es' \<Longrightarrow>
   table_inv es' \<and> table_get_virt es' = (table_get_virt es)(p := None)"
proof (induction es arbitrary: es')
  case (Cons e es)
  show ?case
  proof (cases "entry_valid e \<and> entry_virt e = v")
    case True
    have "entry_phys e = p"
      using True Cons.prems(1,2) by (auto simp: table_get_virt_Some dest: liveI split: if_splits)
    moreover have "table_get_virt es p = None"
      using True Cons.prems(1) calculation by (auto simp: table_get_virt_None)
    ultimately show ?thesis using True Cons.prems by (auto simp: fun_eq_iff)
  next
    case False
    with Cons.prems obtain es1 where es1: "table_unmap_virt v es = Some es1" "es' = e # es1"
      by auto
    from False Cons.prems es1 Cons.IH [of es1] table_unmap_subset [OF es1(1)] show ?thesis
      by (cases "entry_valid e") (auto simp: fun_eq_iff split: if_splits)
  qed
qed simp

text \<open>Lifted to the state of the file.\<close>

definition hci_map_inv :: "hci_state \<Rightarrow> bool" where
  "hci_map_inv s \<longleftrightarrow> table_inv (hci_virt_con_handle_map_table s)"

definition hci_map_full :: "hci_state \<Rightarrow> bool" where
  "hci_map_full s \<longleftrightarrow> table_full (hci_virt_con_handle_map_table s)"

lemmas hci_map_defs =
  hci_virt_con_handle_map_def hci_virt_con_handle_unmap_virt_def
  hci_virt_con_handle_get_virt_def hci_virt_con_handle_get_phys_def
  hci_map_inv_def hci_map_full_def

interpretation hci: handle_translation hci_map_inv hci_map_full hci_virt_con_handle_map
    hci_virt_con_handle_unmap_virt hci_virt_con_handle_get_virt hci_virt_con_handle_get_phys
proof (unfold_locales, goal_cases)
  case (1 t v p)
  then show ?case by (simp add: hci_map_defs table_get_virt_Some table_get_phys_Some)
next
  case (2 p v t)
  then show ?case by (simp add: hci_map_defs table_map_None)
next
  case (3 t p v t')
  then show ?case using table_map_adds [of "hci_virt_con_handle_map_table t" p v]
    by (auto simp: hci_map_defs fun_eq_iff)
next
  case (4 t v)
  then show ?case by (simp add: hci_map_defs table_unmap_None)
next
  case (5 t p v t')
  then show ?case using table_unmap_removes [of "hci_virt_con_handle_map_table t" p v]
    by (auto simp: hci_map_defs fun_eq_iff)
qed

end
