(* ===== verification/Input_Device.thy ===== *)
theory Input_Device
  imports Fake_Wiimote_Hid Hci_Table
begin

text \<open>
  The whole state of the module (record \<open>world\<close>) and \<open>source/input_device.c\<close>: the slots
  that hold game controllers, their assignment to fake Wiimotes, the delay before a controller
  is used again, and the translation of one input sample into what its Wiimote reports.
  Pointers to Wiimotes and to slots are indices into the two static arrays.
\<close>

section \<open>State\<close>

record input_device =
  dev_device :: "egc_ptr option"
  assigned_wiimote :: "nat option"
  reconnect_delay :: u32
  switch_mapping_combo :: u32
  switch_ir_emu_mode_combo :: u32
  ir_emu_state :: "u16 list"
  switch_mapping :: bool
  switch_ir_emu_mode :: bool
  dev_extension :: wiimote_ext
  ir_emu_mode_idx :: nat

record 'os world =
  usb :: "'os usb"
  hci :: hci_state
  l2cap_starting_id :: u16
  fake_wiimotes :: "fake_wiimote list"
  input_devices :: "input_device list"
  s_sensor_bar_position_top :: bool
  egc_devices :: "egc_ptr \<Rightarrow> egc_input_device"
  orig_msg_queueid :: int
  initialized :: bool

definition MAX_INPUT_DEVS :: nat where
  "MAX_INPUT_DEVS = 2"

definition RECONNECT_DELAY :: u32 where
  "RECONNECT_DELAY = 200"

definition input_device_zero :: input_device where
  "input_device_zero = \<lparr> dev_device = None, assigned_wiimote = None, reconnect_delay = 0,
     switch_mapping_combo = 0, switch_ir_emu_mode_combo = 0, ir_emu_state = [0, 0],
     switch_mapping = False, switch_ir_emu_mode = False, dev_extension = WIIMOTE_EXT_NONE,
     ir_emu_mode_idx = 0 \<rparr>"

text \<open>Reading and updating through a pointer into a static array.\<close>

definition at :: "'a list \<Rightarrow> nat \<Rightarrow> 'a result" where
  "at xs i = (if i < length xs then Inr (xs ! i) else Inl Out_Of_Bounds)"

lemma at_eq [result_simps]: "at xs i = Inr x \<longleftrightarrow> i < length xs \<and> x = xs ! i"
  by (auto simp: at_def)

lemma at_ok: "i < length xs \<Longrightarrow> at xs i = Inr (xs ! i)"
  by (simp add: at_def)

definition upd_dev :: "nat \<Rightarrow> (input_device \<Rightarrow> input_device) \<Rightarrow> 'os world \<Rightarrow> 'os world" where
  "upd_dev i f W = W \<lparr> input_devices := (input_devices W)[i := f (input_devices W ! i)] \<rparr>"

definition upd_wm :: "nat \<Rightarrow> (fake_wiimote \<Rightarrow> fake_wiimote) \<Rightarrow> 'os world \<Rightarrow> 'os world" where
  "upd_wm i f W = W \<lparr> fake_wiimotes := (fake_wiimotes W)[i := f (fake_wiimotes W ! i)] \<rparr>"

text \<open>An egc call: it changes nothing but the outside world.\<close>

definition egc_call :: "('os \<Rightarrow> int \<times> 'os) \<Rightarrow> 'os world \<Rightarrow> int \<times> 'os world" where
  "egc_call f W =
     (let (r, os') = f (os_state (usb W))
      in (r, W \<lparr> usb := (usb W) \<lparr> os_state := os' \<rparr> \<rparr>))"

lemma egc_call_frame [simp]:
  "fake_wiimotes (snd (egc_call f W)) = fake_wiimotes W"
  "input_devices (snd (egc_call f W)) = input_devices W"
  "hci (snd (egc_call f W)) = hci W"
  by (auto simp: egc_call_def split: prod.splits)

section \<open>Mapping tables\<close>

text \<open>An array with designated initialisers: entries not named are 0.\<close>

definition designated :: "nat \<Rightarrow> (nat \<times> 'a :: zero) list \<Rightarrow> 'a list" where
  "designated n entries = foldl (\<lambda>xs (i, v). xs[i := v]) (replicate n 0) entries"

definition wiimote_button_map :: "'os ext \<Rightarrow> u16 list" where
  "wiimote_button_map E = designated (EGC_GAMEPAD_BUTTON_COUNT E)
     (map (apfst (EGC_GAMEPAD_BUTTON E))
       [(BUTTON_NORTH, WIIMOTE_BUTTON_ONE), (BUTTON_EAST, WIIMOTE_BUTTON_B),
        (BUTTON_SOUTH, WIIMOTE_BUTTON_A), (BUTTON_WEST, WIIMOTE_BUTTON_TWO),
        (BUTTON_DPAD_UP, WIIMOTE_BUTTON_UP), (BUTTON_DPAD_DOWN, WIIMOTE_BUTTON_DOWN),
        (BUTTON_DPAD_LEFT, WIIMOTE_BUTTON_LEFT), (BUTTON_DPAD_RIGHT, WIIMOTE_BUTTON_RIGHT),
        (BUTTON_START, WIIMOTE_BUTTON_PLUS), (BUTTON_BACK, WIIMOTE_BUTTON_MINUS),
        (BUTTON_LEFT_STICK, WIIMOTE_BUTTON_HOME)])"

definition nunchuk_button_map :: "'os ext \<Rightarrow> u8 list" where
  "nunchuk_button_map E = designated (EGC_GAMEPAD_BUTTON_COUNT E)
     (map (apfst (EGC_GAMEPAD_BUTTON E))
       [(BUTTON_LEFT_SHOULDER, NUNCHUK_BUTTON_C), (BUTTON_RIGHT_SHOULDER, NUNCHUK_BUTTON_Z)])"

definition nunchuk_analog_axis_map :: "'os ext \<Rightarrow> nat list" where
  "nunchuk_analog_axis_map E = designated (EGC_GAMEPAD_AXIS_COUNT E)
     (map (apfst (EGC_GAMEPAD_AXIS E))
       [(AXIS_LEFTX, BM_NUNCHUK_ANALOG_AXIS_X), (AXIS_LEFTY, BM_NUNCHUK_ANALOG_AXIS_Y)])"

definition classic_button_map :: "'os ext \<Rightarrow> u16 list" where
  "classic_button_map E = designated (EGC_GAMEPAD_BUTTON_COUNT E)
     (map (apfst (EGC_GAMEPAD_BUTTON E))
       [(BUTTON_NORTH, CLASSIC_CTRL_BUTTON_X), (BUTTON_EAST, CLASSIC_CTRL_BUTTON_A),
        (BUTTON_SOUTH, CLASSIC_CTRL_BUTTON_B), (BUTTON_WEST, CLASSIC_CTRL_BUTTON_Y),
        (BUTTON_DPAD_UP, CLASSIC_CTRL_BUTTON_UP), (BUTTON_DPAD_DOWN, CLASSIC_CTRL_BUTTON_DOWN),
        (BUTTON_DPAD_LEFT, CLASSIC_CTRL_BUTTON_LEFT),
        (BUTTON_DPAD_RIGHT, CLASSIC_CTRL_BUTTON_RIGHT),
        (BUTTON_START, CLASSIC_CTRL_BUTTON_PLUS), (BUTTON_BACK, CLASSIC_CTRL_BUTTON_MINUS),
        (BUTTON_RIGHT_PADDLE1, CLASSIC_CTRL_BUTTON_ZR),
        (BUTTON_LEFT_PADDLE1, CLASSIC_CTRL_BUTTON_ZL),
        (BUTTON_RIGHT_SHOULDER, CLASSIC_CTRL_BUTTON_FULL_R),
        (BUTTON_LEFT_SHOULDER, CLASSIC_CTRL_BUTTON_FULL_L),
        (BUTTON_LEFT_STICK, CLASSIC_CTRL_BUTTON_HOME)])"

definition classic_analog_axis_map :: "'os ext \<Rightarrow> nat list" where
  "classic_analog_axis_map E = designated (EGC_GAMEPAD_AXIS_COUNT E)
     (map (apfst (EGC_GAMEPAD_AXIS E))
       [(AXIS_LEFTX, BM_CLASSIC_ANALOG_AXIS_LEFT_X), (AXIS_LEFTY, BM_CLASSIC_ANALOG_AXIS_LEFT_Y),
        (AXIS_RIGHTX, BM_CLASSIC_ANALOG_AXIS_RIGHT_X),
        (AXIS_RIGHTY, BM_CLASSIC_ANALOG_AXIS_RIGHT_Y)])"

definition ir_analog_axis_map :: "'os ext \<Rightarrow> nat list" where
  "ir_analog_axis_map E = designated (EGC_GAMEPAD_AXIS_COUNT E)
     (map (apfst (EGC_GAMEPAD_AXIS E)) [(AXIS_RIGHTX, BM_IR_AXIS_X), (AXIS_RIGHTY, BM_IR_AXIS_Y)])"

definition ir_emu_modes :: "bm_ir_emulation_mode list" where
  "ir_emu_modes = [BM_IR_EMULATION_MODE_DIRECT, BM_IR_EMULATION_MODE_RELATIVE_ANALOG_AXIS,
     BM_IR_EMULATION_MODE_ABSOLUTE_ANALOG_AXIS]"

section \<open>Slots\<close>

definition egc_bit :: "'os ext \<Rightarrow> egc_button \<Rightarrow> u32" where
  "egc_bit E b = push_bit (EGC_GAMEPAD_BUTTON E b) 1"

definition has_button :: "'os ext \<Rightarrow> egc_input_device \<Rightarrow> egc_button \<Rightarrow> bool" where
  "has_button E device b \<longleftrightarrow> available_buttons (egc_desc device) AND egc_bit E b \<noteq> 0"

definition button_combo :: "'os ext \<Rightarrow> egc_input_device \<Rightarrow> egc_button \<Rightarrow> egc_button \<Rightarrow> u32" where
  "button_combo E device a b =
     (if has_button E device a \<and> has_button E device b then egc_bit E a OR egc_bit E b else 0)"

definition input_device_from_egc :: "'os world \<Rightarrow> egc_ptr \<Rightarrow> nat option" where
  "input_device_from_egc W device =
     List.find (\<lambda>i. dev_device (input_devices W ! i) = Some device) [0..<length (input_devices W)]"

definition input_devices_init :: "'os world \<Rightarrow> 'os world" where
  "input_devices_init W =
     W \<lparr> input_devices := map (\<lambda>d. d \<lparr> dev_device := None \<rparr>) (input_devices W) \<rparr>"

definition attach_device ::
  "'os ext \<Rightarrow> egc_ptr \<Rightarrow> egc_input_device \<Rightarrow> input_device \<Rightarrow> input_device" where
  "attach_device E p device d =
     d \<lparr> dev_device := Some p, assigned_wiimote := None, reconnect_delay := 0,
         dev_extension := WIIMOTE_EXT_NUNCHUK,
         ir_emu_mode_idx := ir_mode_number BM_IR_EMULATION_MODE_DIRECT,
         switch_mapping_combo := button_combo E device BUTTON_LEFT_STICK BUTTON_LEFT_SHOULDER,
         switch_ir_emu_mode_combo :=
           button_combo E device BUTTON_RIGHT_STICK BUTTON_RIGHT_SHOULDER \<rparr>"

definition input_device_handle_added :: "'os ext \<Rightarrow> egc_ptr \<Rightarrow> 'os world \<Rightarrow> 'os world" where
  "input_device_handle_added E device W =
     (case List.find (\<lambda>i. dev_device (input_devices W ! i) = None) [0..<length (input_devices W)] of
        None \<Rightarrow> W
      | Some i \<Rightarrow> upd_dev i (attach_device E device (egc_devices W device)) W)"

definition tick_device :: "input_device \<Rightarrow> input_device" where
  "tick_device d =
     (if dev_device d \<noteq> None \<and> assigned_wiimote d = None \<and> reconnect_delay d > 0
      then d \<lparr> reconnect_delay := reconnect_delay d - 1 \<rparr> else d)"

definition input_devices_tick :: "'os world \<Rightarrow> 'os world" where
  "input_devices_tick W = W \<lparr> input_devices := map tick_device (input_devices W) \<rparr>"

definition device_available :: "input_device \<Rightarrow> bool" where
  "device_available d \<longleftrightarrow>
     dev_device d \<noteq> None \<and> assigned_wiimote d = None \<and> reconnect_delay d = 0"

definition input_device_get_unassigned :: "'os world \<Rightarrow> nat option" where
  "input_device_get_unassigned W =
     List.find (\<lambda>i. device_available (input_devices W ! i)) [0..<length (input_devices W)]"

definition input_device_assign_wiimote :: "nat \<Rightarrow> nat \<Rightarrow> 'os world \<Rightarrow> 'os world" where
  "input_device_assign_wiimote i wiimote = upd_dev i (\<lambda>d. d \<lparr> assigned_wiimote := Some wiimote \<rparr>)"

definition input_device_release_wiimote :: "'os ext \<Rightarrow> nat \<Rightarrow> 'os world \<Rightarrow> 'os world result" where
  "input_device_release_wiimote E i W =
     rbind (at (input_devices W) i) (\<lambda>d.
       Inr (snd (egc_call (egc_input_device_suspend E (dev_device d))
         (upd_dev i (\<lambda>d. d \<lparr> assigned_wiimote := None, reconnect_delay := RECONNECT_DELAY \<rparr>) W))))"

definition input_device_resume :: "'os ext \<Rightarrow> nat \<Rightarrow> 'os world \<Rightarrow> (int \<times> 'os world) result" where
  "input_device_resume E i W =
     rbind (at (input_devices W) i) (\<lambda>d. Inr (egc_call (egc_input_device_resume E (dev_device d)) W))"

definition input_device_suspend :: "'os ext \<Rightarrow> nat \<Rightarrow> 'os world \<Rightarrow> (int \<times> 'os world) result" where
  "input_device_suspend E i W =
     rbind (at (input_devices W) i) (\<lambda>d. Inr (egc_call (egc_input_device_suspend E (dev_device d)) W))"

definition input_device_set_leds ::
  "'os ext \<Rightarrow> nat \<Rightarrow> int \<Rightarrow> 'os world \<Rightarrow> (int \<times> 'os world) result" where
  "input_device_set_leds E i leds W =
     rbind (at (input_devices W) i) (\<lambda>d.
       Inr (egc_call (egc_input_device_set_leds E (dev_device d) leds) W))"

definition input_device_set_rumble ::
  "'os ext \<Rightarrow> nat \<Rightarrow> bool \<Rightarrow> 'os world \<Rightarrow> (int \<times> 'os world) result" where
  "input_device_set_rumble E i on W =
     rbind (at (input_devices W) i) (\<lambda>d.
       Inr (egc_call (egc_input_device_set_rumble E (dev_device d)
              (if on then EGC_RUMBLE_MAX E else EGC_RUMBLE_OFF E)) W))"

section \<open>Input samples\<close>

definition next_ir_mode :: "nat \<Rightarrow> nat" where
  "next_ir_mode idx = (idx + 1) mod length ir_emu_modes"

text \<open>The index is compared with the number of the direct mode.\<close>

definition switch_ir_mode :: "nat \<Rightarrow> input_device \<Rightarrow> input_device" where
  "switch_ir_mode touch_points d =
     (let idx = next_ir_mode (ir_emu_mode_idx d);
          idx' = (if idx = ir_mode_number BM_IR_EMULATION_MODE_DIRECT \<and> touch_points = 0
                  then next_ir_mode idx else idx)
      in d \<lparr> ir_emu_mode_idx := idx',
             ir_emu_state := bm_ir_emulation_state_reset (ir_emu_state d) \<rparr>)"

definition stack_dots :: "u8 list \<Rightarrow> ir_dot list" where
  "stack_dots bs = map (\<lambda>i. (mk16 (bs ! (4 * i)) (bs ! (4 * i + 1)),
     mk16 (bs ! (4 * i + 2)) (bs ! (4 * i + 3)))) [0..<IR_MAX_DOTS]"

text \<open>
  The dots for the current mode of the pointer, in an array that starts uninitialised, and
  the new state of the emulation.
\<close>

definition emulate_ir ::
  "'os ext \<Rightarrow> bool \<Rightarrow> ir_dot list \<Rightarrow> egc_gamepad \<Rightarrow> input_device \<Rightarrow>
   (ir_dot list \<times> input_device) result" where
  "emulate_ir E bar_top ir_dots gp d =
     rbind (at ir_emu_modes (ir_emu_mode_idx d)) (\<lambda>mode.
       Inr (case mode of
              BM_IR_EMULATION_MODE_NONE \<Rightarrow> (bm_ir_dots_set_out_of_screen ir_dots, d)
            | BM_IR_EMULATION_MODE_DIRECT \<Rightarrow>
                (bm_map_ir_direct E bar_top (fst (egc_touch_point_0 gp)) (snd (egc_touch_point_0 gp))
                   ir_dots, d)
            | _ \<Rightarrow>
                (let (p, dots) = bm_map_ir_analog_axis bar_top mode (ir_emu_state d) (egc_axes gp)
                                   (ir_analog_axis_map E) ir_dots
                 in (dots, d \<lparr> ir_emu_state := p \<rparr>))))"

definition report_extension ::
  "'os ext \<Rightarrow> u16 \<Rightarrow> egc_gamepad \<Rightarrow> input_device \<Rightarrow> fake_wiimote \<Rightarrow> fake_wiimote" where
  "report_extension E btns gp d w =
     (case dev_extension d of
        WIIMOTE_EXT_NONE \<Rightarrow> fake_wiimote_report_input btns w
      | WIIMOTE_EXT_NUNCHUK \<Rightarrow>
          fake_wiimote_report_input_ext E btns
            (bm_map_nunchuk (egc_buttons gp) (egc_axes gp) 0 0 0 (nunchuk_button_map E)
               (nunchuk_analog_axis_map E)) 6 w
      | WIIMOTE_EXT_CLASSIC \<Rightarrow>
          fake_wiimote_report_input_ext E btns
            (bm_map_classic (egc_buttons gp) (egc_axes gp) (classic_button_map E)
               (classic_analog_axis_map E)) 6 w
      | _ \<Rightarrow> w)"

text \<open>One sample: whether a report is to be sent, the slot and its Wiimote afterwards.\<close>

definition report_sample ::
  "'os ext \<Rightarrow> bool \<Rightarrow> ir_dot list \<Rightarrow> egc_input_device \<Rightarrow> input_device \<Rightarrow> fake_wiimote \<Rightarrow>
   (bool \<times> input_device \<times> fake_wiimote) result" where
  "report_sample E bar_top dots0 device d w =
     (let gp = egc_state device; desc = egc_desc device;
          (switch, pressed) = bm_check_switch_mapping (egc_buttons gp) (switch_mapping d)
            (switch_mapping_combo d);
          d1 = d \<lparr> switch_mapping := pressed \<rparr>
      in if switch then
           let ext = (if dev_extension d1 = WIIMOTE_EXT_NUNCHUK then WIIMOTE_EXT_CLASSIC
                      else WIIMOTE_EXT_NUNCHUK)
           in Inr (False, d1 \<lparr> dev_extension := ext \<rparr>, fake_wiimote_set_extension ext w)
         else
           let (switch_ir, pressed_ir) = bm_check_switch_mapping (egc_buttons gp)
                 (switch_ir_emu_mode d1) (switch_ir_emu_mode_combo d1);
               d2 = d1 \<lparr> switch_ir_emu_mode := pressed_ir \<rparr>;
               d3 = (if switch_ir then switch_ir_mode (num_touch_points desc) d2 else d2);
               btns = (if dev_extension d3 = WIIMOTE_EXT_NUNCHUK
                       then bm_map_wiimote (egc_buttons gp) (wiimote_button_map E) 0 else 0);
               (ax, ay, az) = egc_accelerometer_0 gp;
               w1 = (if num_accelerometers desc > 0
                     then fake_wiimote_report_accelerometer ax ay az w else w)
           in rbind (emulate_ir E bar_top dots0 gp d3) (\<lambda>(dots, d4).
                Inr (True, d4, report_extension E btns gp d4 (fake_wiimote_report_ir_dots dots w1))))"

definition input_device_report_input ::
  "'os ext \<Rightarrow> nat \<Rightarrow> 'os world \<Rightarrow> (bool \<times> 'os world) result" where
  "input_device_report_input E i W =
     rbind (at (input_devices W) i) (\<lambda>d.
     rbind (deref (dev_device d)) (\<lambda>p.
     rbind (deref (assigned_wiimote d)) (\<lambda>j.
     rbind (at (fake_wiimotes W) j) (\<lambda>w.
     rbind (report_sample E (s_sensor_bar_position_top W)
              (stack_dots (stack_bytes E 16 (os_state (usb W)))) (egc_devices W p) d w)
       (\<lambda>(sent, d', w').
         Inr (sent, upd_wm j (\<lambda>_. w') (upd_dev i (\<lambda>_. d') W)))))))"

end
