(* ===== verification/Fake_Wiimote.thy ===== *)
theory Fake_Wiimote
  imports Input_Device
begin

text \<open>
  The handlers of \<open>source/fake_wiimote.c\<close> that reach beyond one Wiimote: connection and
  disconnection, the L2CAP signalling channel, HID output reports, ACL data from the host and
  the periodic tick.  A fake Wiimote is an index into the array of the manager.
\<close>

section \<open>Lifting the local operations\<close>

definition on_usb ::
  "('os usb \<Rightarrow> (int \<times> 'os usb) result) \<Rightarrow> 'os world \<Rightarrow> (int \<times> 'os world) result" where
  "on_usb f W = rbind (f (usb W)) (\<lambda>(r, u'). Inr (r, W \<lparr> usb := u' \<rparr>))"

definition on_wm ::
  "(fake_wiimote \<Rightarrow> 'os usb \<Rightarrow> ('r \<times> fake_wiimote \<times> 'os usb) result) \<Rightarrow> nat \<Rightarrow> 'os world \<Rightarrow>
   ('r \<times> 'os world) result" where
  "on_wm f j W =
     rbind (at (fake_wiimotes W) j) (\<lambda>w.
     rbind (f w (usb W)) (\<lambda>(r, w', u').
       Inr (r, (upd_wm j (\<lambda>_. w') W) \<lparr> usb := u' \<rparr>)))"

text \<open>Operations without a result, and injections that must succeed.\<close>

definition on_wm_state ::
  "(fake_wiimote \<Rightarrow> 'os usb \<Rightarrow> (fake_wiimote \<times> 'os usb) result) \<Rightarrow> nat \<Rightarrow> 'os world \<Rightarrow>
   'os world result" where
  "on_wm_state f j W =
     rbind (on_wm (\<lambda>w u. rbind (f w u) (\<lambda>(w', u'). Inr ((), w', u'))) j W) (\<lambda>(_, W'). Inr W')"

definition inject_ok ::
  "'os ext \<Rightarrow> ('os usb \<Rightarrow> (int \<times> 'os usb) result) \<Rightarrow> 'os world \<Rightarrow> 'os world result" where
  "inject_ok E f W =
     rbind (on_usb f W) (\<lambda>(ret, W1). rbind (c_assert (ret = IOS_OK E)) (\<lambda>_. Inr W1))"

definition ignore_ret :: "('r \<times> 'os world) result \<Rightarrow> 'os world result" where
  "ignore_ret m = rbind m (\<lambda>(_, W). Inr W)"

section \<open>Connection and disconnection\<close>

definition generate_l2cap_channel_id :: "'os world \<Rightarrow> u16 \<times> 'os world" where
  "generate_l2cap_channel_id W =
     (l2cap_starting_id W, W \<lparr> l2cap_starting_id := l2cap_starting_id W + 1 \<rparr>)"

definition fake_wiimote_handle_hci_cmd_accept_con ::
  "'os ext \<Rightarrow> nat \<Rightarrow> u8 \<Rightarrow> 'os world \<Rightarrow> 'os world result" where
  "fake_wiimote_handle_hci_cmd_accept_con E j role W =
     rbind (at (fake_wiimotes W) j) (\<lambda>w.
     rbind (inject_ok E (inject_hci_event_command_status E HCI_CMD_ACCEPT_CON) W) (\<lambda>W1.
     let (handle, hci') = hci_con_handle_virt_alloc (hci W1);
         W2 = (upd_wm j (\<lambda>w. w \<lparr> baseband_state := BASEBAND_STATE_COMPLETE,
                 fw_con_handle := handle, acl_state := ACL_STATE_LINKING \<rparr>) W1) \<lparr> hci := hci' \<rparr>
     in rbind (if role = HCI_ROLE_MASTER
               then inject_ok E (inject_hci_event_role_change E (fw_bdaddr w) HCI_ROLE_MASTER) W2
               else Inr W2) (\<lambda>W3.
        inject_ok E (inject_hci_event_con_compl E (fw_bdaddr w) handle 0) W3)))"

definition fake_wiimote_disconnect ::
  "'os ext \<Rightarrow> nat \<Rightarrow> 'os world \<Rightarrow> (int \<times> 'os world) result" where
  "fake_wiimote_disconnect E j W =
     rbind (at (fake_wiimotes W) j) (\<lambda>w.
     let W1 = upd_wm j (\<lambda>w. w \<lparr> fw_active := False \<rparr>) W in
     rbind (case input_device w of
              None \<Rightarrow> Inr W1
            | Some i \<Rightarrow> input_device_release_wiimote E i W1) (\<lambda>W2.
     if baseband_state w = BASEBAND_STATE_COMPLETE
     then on_usb (inject_hci_event_discon_compl E (fw_con_handle w) 0 0x13) W2
     else Inr (0, W2)))"

section \<open>The signalling channel\<close>

definition handle_l2cap_connect_rsp ::
  "'os ext \<Rightarrow> nat \<Rightarrow> u8 list \<Rightarrow> 'os world \<Rightarrow> 'os world result" where
  "handle_l2cap_connect_rsp E j payload W =
     rbind (read_le16 payload l2cap_con_rsp_cp_dcid) (\<lambda>dcid.
     rbind (read_le16 payload l2cap_con_rsp_cp_scid) (\<lambda>scid.
     rbind (read_le16 payload l2cap_con_rsp_cp_result) (\<lambda>res.
     rbind (read_le16 payload l2cap_con_rsp_cp_status) (\<lambda>status.
     if res \<noteq> L2CAP_SUCCESS \<or> (dcid = L2CAP_PSM_NOT_SUPPORTED \<and> scid = 0)
     then ignore_ret (fake_wiimote_disconnect E j W)
     else
       rbind (c_assert (status = L2CAP_NO_INFO)) (\<lambda>_.
       rbind (at (fake_wiimotes W) j) (\<lambda>w.
       case get_channel_info w scid of
         None \<Rightarrow> Inl Assert_Failed
       | Some c \<Rightarrow> Inr (upd_wm j (upd_chn c (\<lambda>i. i \<lparr> chn_remote_cid := dcid \<rparr>)) W)))))))"

definition handle_l2cap_config_rsp ::
  "nat \<Rightarrow> u8 list \<Rightarrow> 'os world \<Rightarrow> 'os world result" where
  "handle_l2cap_config_rsp j payload W =
     rbind (read_le16 payload l2cap_cfg_rsp_cp_scid) (\<lambda>scid.
     rbind (read_le16 payload l2cap_cfg_rsp_cp_result) (\<lambda>res.
     rbind (c_assert (res = L2CAP_SUCCESS)) (\<lambda>_.
     rbind (at (fake_wiimotes W) j) (\<lambda>w.
     case get_channel_info w scid of
       None \<Rightarrow> Inl Assert_Failed
     | Some c \<Rightarrow>
         Inr (upd_wm j (upd_chn c (\<lambda>i. i \<lparr> chn_state := L2CAP_CHANNEL_STATE_COMPLETE \<rparr>)) W)))))"

definition handle_l2cap_disconnect_req ::
  "'os ext \<Rightarrow> nat \<Rightarrow> u8 \<Rightarrow> u8 list \<Rightarrow> 'os world \<Rightarrow> 'os world result" where
  "handle_l2cap_disconnect_req E j ident payload W =
     rbind (read_le16 payload l2cap_discon_req_cp_dcid) (\<lambda>dcid.
     rbind (read_le16 payload l2cap_discon_req_cp_scid) (\<lambda>scid.
     rbind (at (fake_wiimotes W) j) (\<lambda>w.
     case get_channel_info w dcid of
       None \<Rightarrow> Inl Assert_Failed
     | Some c \<Rightarrow>
         ignore_ret (on_usb (inject_l2cap_disconnect_rsp E (fw_con_handle w) ident dcid scid)
           (upd_wm j (upd_chn c invalidate) W)))))"

text \<open>A connection request from the host is read and ignored, other codes are ignored.\<close>

definition handle_l2cap_signal_channel ::
  "'os ext \<Rightarrow> nat \<Rightarrow> u8 \<Rightarrow> u8 \<Rightarrow> u8 list \<Rightarrow> u16 \<Rightarrow> 'os world \<Rightarrow> 'os world result" where
  "handle_l2cap_signal_channel E j code ident payload sz W =
     (if code = L2CAP_CONNECT_REQ then
        rbind (read_le16 payload 0) (\<lambda>psm. rbind (read_le16 payload 2) (\<lambda>scid. Inr W))
      else if code = L2CAP_CONNECT_RSP then handle_l2cap_connect_rsp E j payload W
      else if code = L2CAP_CONFIG_REQ then
        rbind (read_le16 payload l2cap_cfg_req_cp_dcid) (\<lambda>dcid.
        rbind (read_le16 payload l2cap_cfg_req_cp_flags) (\<lambda>flags.
          on_wm_state (handle_l2cap_config_req E ident dcid flags
                    (drop sizeof_l2cap_cfg_req_cp payload)
                    (unat (sz - of_nat sizeof_l2cap_cfg_req_cp))) j W))
      else if code = L2CAP_CONFIG_RSP then handle_l2cap_config_rsp j payload W
      else if code = L2CAP_DISCONNECT_REQ then handle_l2cap_disconnect_req E j ident payload W
      else Inr W)"

text \<open>
  The loop over the commands of one packet.  The remaining length is a 16-bit counter and
  wraps when a command claims more than is left; the buffer then ends the loop, as a read
  past it.
\<close>

function handle_l2cap_signal_channel_request ::
  "'os ext \<Rightarrow> nat \<Rightarrow> u8 list \<Rightarrow> u16 \<Rightarrow> 'os world \<Rightarrow> 'os world result" where
  "handle_l2cap_signal_channel_request E j data len W =
     (if len \<ge> of_nat sizeof_l2cap_cmd_hdr_t then
        rbind (read_le16 data l2cap_cmd_hdr_t_length) (\<lambda>cmd_len.
        rbind (read_u8 data l2cap_cmd_hdr_t_code) (\<lambda>code.
        rbind (read_u8 data l2cap_cmd_hdr_t_ident) (\<lambda>ident.
        rbind (handle_l2cap_signal_channel E j code ident (drop sizeof_l2cap_cmd_hdr_t data)
                 cmd_len W) (\<lambda>W1.
          handle_l2cap_signal_channel_request E j
            (drop (sizeof_l2cap_cmd_hdr_t + unat cmd_len) data)
            (len - (of_nat sizeof_l2cap_cmd_hdr_t + cmd_len)) W1))))
      else Inr W)"
  by auto
termination handle_l2cap_signal_channel_request
  by (relation "measure (\<lambda>(_, _, data, _, _). length data)")
     (auto simp: read_u8_def sizeof_l2cap_cmd_hdr_t_def split: if_splits)

declare handle_l2cap_signal_channel_request.simps [simp del]

section \<open>HID output reports\<close>

definition fake_wiimote_update_rumble ::
  "'os ext \<Rightarrow> nat \<Rightarrow> bool \<Rightarrow> 'os world \<Rightarrow> 'os world result" where
  "fake_wiimote_update_rumble E j on W =
     rbind (at (fake_wiimotes W) j) (\<lambda>w.
     if on \<noteq> rumble_on w then
       rbind (deref (input_device w)) (\<lambda>i.
         ignore_ret (input_device_set_rumble E i on (upd_wm j (\<lambda>w. w \<lparr> rumble_on := on \<rparr>) W)))
     else Inr W)"

definition ack_if ::
  "'os ext \<Rightarrow> bool \<Rightarrow> u8 \<Rightarrow> u8 \<Rightarrow> nat \<Rightarrow> 'os world \<Rightarrow> 'os world result" where
  "ack_if E ack rpt_id error_code j W =
     (if ack then
        rbind (at (fake_wiimotes W) j) (\<lambda>w.
          ignore_ret (on_usb (wiimote_send_ack E rpt_id error_code w) W))
      else Inr W)"

definition output_report_led ::
  "'os ext \<Rightarrow> nat \<Rightarrow> u8 list \<Rightarrow> 'os world \<Rightarrow> 'os world result" where
  "output_report_led E j data W =
     rbind (read_u8 data 1) (\<lambda>b.
     let leds = led_leds b; W1 = upd_wm j (\<lambda>w. w \<lparr> status_leds := leds \<rparr>) W in
     rbind (at (fake_wiimotes W1) j) (\<lambda>w.
     rbind (deref (input_device w)) (\<lambda>i.
     rbind (input_device_set_leds E i (uint leds) W1) (\<lambda>(_, W2).
       ack_if E (led_ack b) OUTPUT_REPORT_ID_LED ERROR_CODE_SUCCESS j W2))))"

definition output_report_mode ::
  "'os ext \<Rightarrow> nat \<Rightarrow> u8 list \<Rightarrow> 'os world \<Rightarrow> 'os world result" where
  "output_report_mode E j data W =
     rbind (read_u8 data 1) (\<lambda>b.
     rbind (read_u8 data 2) (\<lambda>mode.
       ack_if E (mode_ack b) OUTPUT_REPORT_ID_REPORT_MODE ERROR_CODE_SUCCESS j
         (upd_wm j (\<lambda>w. w \<lparr> reporting_mode := mode,
            reporting_continuous := mode_continuous b \<rparr>) W)))"

definition output_report_ir_enable ::
  "'os ext \<Rightarrow> nat \<Rightarrow> u8 list \<Rightarrow> 'os world \<Rightarrow> 'os world result" where
  "output_report_ir_enable E j data W =
     rbind (read_u8 data 1) (\<lambda>b.
       ack_if E (feature_ack b) OUTPUT_REPORT_ID_IR_ENABLE ERROR_CODE_SUCCESS j
         (upd_wm j (\<lambda>w. w \<lparr> status_ir := feature_enable b \<rparr>) W))"

text \<open>The reports whose only effect is the acknowledgement.\<close>

definition output_report_feature ::
  "'os ext \<Rightarrow> u8 \<Rightarrow> nat \<Rightarrow> u8 list \<Rightarrow> 'os world \<Rightarrow> 'os world result" where
  "output_report_feature E rpt_id j data W =
     rbind (read_u8 data 1) (\<lambda>b. ack_if E (feature_ack b) rpt_id ERROR_CODE_SUCCESS j W)"

definition output_report_read_data ::
  "'os ext \<Rightarrow> nat \<Rightarrow> u8 list \<Rightarrow> 'os world \<Rightarrow> 'os world result" where
  "output_report_read_data E j data W =
     rbind (at (fake_wiimotes W) j) (\<lambda>w.
     if rr_size (fw_read_request w) \<noteq> 0
     then ack_if E True OUTPUT_REPORT_ID_READ_DATA ERROR_CODE_BUSY j W
     else
       rbind (read_u8 data 1) (\<lambda>flags.
       rbind (read_u8 data 2) (\<lambda>slave.
       rbind (read_be16 data 3) (\<lambda>address.
       rbind (read_be16 data 5) (\<lambda>sz.
         ignore_ret (on_wm (fake_wiimote_process_read_request E) j
           (upd_wm j (\<lambda>w. w \<lparr> fw_read_request :=
              \<lparr> rr_space = data_space flags, rr_slave_address = data_slave_address slave,
                rr_address = address, rr_size = sz \<rparr> \<rparr>) W)))))))"

definition handle_hid_intr_data_output ::
  "'os ext \<Rightarrow> nat \<Rightarrow> u8 list \<Rightarrow> u16 \<Rightarrow> 'os world \<Rightarrow> 'os world result" where
  "handle_hid_intr_data_output E j data sz W =
     (if sz = 0 then Inr W
      else
        rbind (read_u8 data 1) (\<lambda>b1.
        rbind (fake_wiimote_update_rumble E j (b1 AND 1 \<noteq> 0) W) (\<lambda>W1.
        rbind (read_u8 data 0) (\<lambda>rpt_id.
          if rpt_id = OUTPUT_REPORT_ID_RUMBLE then Inr W1
          else if rpt_id = OUTPUT_REPORT_ID_LED then output_report_led E j data W1
          else if rpt_id = OUTPUT_REPORT_ID_REPORT_MODE then output_report_mode E j data W1
          else if rpt_id = OUTPUT_REPORT_ID_IR_ENABLE then output_report_ir_enable E j data W1
          else if rpt_id = OUTPUT_REPORT_ID_SPEAKER_ENABLE then
            output_report_feature E OUTPUT_REPORT_ID_SPEAKER_ENABLE j data W1
          else if rpt_id = OUTPUT_REPORT_ID_STATUS then
            rbind (at (fake_wiimotes W1) j) (\<lambda>w.
              ignore_ret (on_usb (wiimote_send_input_report_status E w) W1))
          else if rpt_id = OUTPUT_REPORT_ID_WRITE_DATA then
            on_wm_state (fake_wiimote_process_write_request E (drop 1 data)) j W1
          else if rpt_id = OUTPUT_REPORT_ID_READ_DATA then output_report_read_data E j data W1
          else if rpt_id = OUTPUT_REPORT_ID_SPEAKER_DATA then Inr W1
          else if rpt_id = OUTPUT_REPORT_ID_SPEAKER_MUTE then
            output_report_feature E OUTPUT_REPORT_ID_SPEAKER_MUTE j data W1
          else if rpt_id = OUTPUT_REPORT_ID_IR_ENABLE2 then
            output_report_feature E OUTPUT_REPORT_ID_IR_ENABLE2 j data W1
          else Inl Assert_Failed))))"

section \<open>ACL data from the host\<close>

definition fake_wiimote_handle_acl_data_out_request_from_host ::
  "'os ext \<Rightarrow> nat \<Rightarrow> u8 list \<Rightarrow> 'os world \<Rightarrow> 'os world result" where
  "fake_wiimote_handle_acl_data_out_request_from_host E j acl W =
     (let W1 = upd_wm j (\<lambda>w. w \<lparr> num_completed_acl_data_packets :=
                 num_completed_acl_data_packets w + 1 \<rparr>) W
      in rbind (read_le16 acl (sizeof_hci_acldata_hdr_t + l2cap_hdr_t_length)) (\<lambda>len.
         rbind (read_le16 acl (sizeof_hci_acldata_hdr_t + l2cap_hdr_t_dcid)) (\<lambda>dcid.
         let payload = drop (sizeof_hci_acldata_hdr_t + sizeof_l2cap_hdr_t) acl in
         if dcid = L2CAP_SIGNAL_CID then handle_l2cap_signal_channel_request E j payload len W1
         else
           rbind (at (fake_wiimotes W1) j) (\<lambda>w.
           case get_channel_info w dcid of
             None \<Rightarrow> Inr W1
           | Some c \<Rightarrow>
               if chn_psm (get_chn c w) = L2CAP_PSM_HID_INTR then
                 rbind (read_u8 payload 0) (\<lambda>b.
                 if b = push_bit 4 HID_TYPE_DATA OR HID_PARAM_OUTPUT
                 then handle_hid_intr_data_output E j (drop 1 payload) (len - 1) W1
                 else Inr W1)
               else Inr W1))))"

section \<open>The periodic tick\<close>

definition tick_request_connection ::
  "'os ext \<Rightarrow> nat \<Rightarrow> 'os world \<Rightarrow> 'os world result" where
  "tick_request_connection E j W =
     rbind (at (fake_wiimotes W) j) (\<lambda>w.
     if hci_can_request_connection (hci W) then
       rbind (on_usb (inject_hci_event_con_req E (fw_bdaddr w) WIIMOTE_HCI_CLASS_0
                WIIMOTE_HCI_CLASS_1 WIIMOTE_HCI_CLASS_2 HCI_LINK_ACL) W) (\<lambda>(ret, W1).
         Inr (if ret = IOS_OK E
              then upd_wm j (\<lambda>w. w \<lparr> baseband_state := BASEBAND_STATE_INACTIVE \<rparr>) W1
              else W1))
     else Inr W)"

text \<open>Opening one of the two HID channels.\<close>

definition open_channel ::
  "'os ext \<Rightarrow> u16 \<Rightarrow> channel_ref \<Rightarrow> nat \<Rightarrow> 'os world \<Rightarrow> 'os world result" where
  "open_channel E psm c j W =
     (let (local_cid, W1) = generate_l2cap_channel_id W in
      rbind (at (fake_wiimotes W1) j) (\<lambda>w.
      rbind (inject_ok E (inject_l2cap_connect_req E (fw_con_handle w) psm local_cid) W1) (\<lambda>W2.
        Inr (upd_wm j (upd_chn c (l2cap_channel_info_setup psm local_cid)) W2))))"

definition tick_linking :: "'os ext \<Rightarrow> nat \<Rightarrow> 'os world \<Rightarrow> 'os world result" where
  "tick_linking E j W =
     rbind (at (fake_wiimotes W) j) (\<lambda>w.
     let cntl_complete = l2cap_channel_is_complete (psm_hid_cntl_chn w);
         send_configs = (\<lambda>W1.
           rbind (on_wm_state (check_send_config_for_new_channel E HID_Cntl_Chn) j W1)
             (on_wm_state (check_send_config_for_new_channel E HID_Intr_Chn) j))
     in if \<not> chn_valid (psm_hid_cntl_chn w) then
          rbind (open_channel E L2CAP_PSM_HID_CNTL HID_Cntl_Chn j W) send_configs
        else if cntl_complete \<and> \<not> chn_valid (psm_hid_intr_chn w) then
          rbind (open_channel E L2CAP_PSM_HID_INTR HID_Intr_Chn j W) send_configs
        else if cntl_complete \<and> l2cap_channel_is_complete (psm_hid_intr_chn w) then
          rbind (deref (input_device w)) (\<lambda>i.
            ignore_ret (input_device_resume E i
              (upd_wm j (\<lambda>w. w \<lparr> acl_state := ACL_STATE_INACTIVE \<rparr>) W)))
        else send_configs W)"

definition tick_connected :: "'os ext \<Rightarrow> nat \<Rightarrow> 'os world \<Rightarrow> 'os world result" where
  "tick_connected E j W =
     rbind (on_wm (fake_wiimote_process_read_request E) j W) (\<lambda>(busy, W1).
     if busy then Inr W1
     else
       rbind (on_wm (fake_wiimote_process_extension_change E) j W1) (\<lambda>(changed, W2).
       if changed then Inr W2
       else
         rbind (at (fake_wiimotes W2) j) (\<lambda>w.
         rbind (deref (input_device w)) (\<lambda>i.
         rbind (input_device_report_input E i W2) (\<lambda>(send, W3).
         if send then on_wm_state (fake_wiimote_send_data_report E) j W3 else Inr W3)))))"

definition fake_wiimote_tick :: "'os ext \<Rightarrow> nat \<Rightarrow> 'os world \<Rightarrow> 'os world result" where
  "fake_wiimote_tick E j W =
     rbind (at (fake_wiimotes W) j) (\<lambda>w.
     case baseband_state w of
       BASEBAND_STATE_REQUEST_CONNECTION \<Rightarrow> tick_request_connection E j W
     | BASEBAND_STATE_COMPLETE \<Rightarrow>
         if acl_state w = ACL_STATE_LINKING then tick_linking E j W else tick_connected E j W
     | BASEBAND_STATE_INACTIVE \<Rightarrow> Inr W)"

section \<open>Removal of a game controller\<close>

definition input_device_handle_removed ::
  "'os ext \<Rightarrow> egc_ptr \<Rightarrow> 'os world \<Rightarrow> 'os world result" where
  "input_device_handle_removed E device W =
     (case input_device_from_egc W device of
        None \<Rightarrow> Inr W
      | Some i \<Rightarrow>
          rbind (case assigned_wiimote (input_devices W ! i) of
                   None \<Rightarrow> Inr W
                 | Some j \<Rightarrow> ignore_ret (fake_wiimote_disconnect E j
                              (upd_wm j fake_wiimote_release_input_device W))) (\<lambda>W1.
            Inr (upd_dev i (\<lambda>d. d \<lparr> dev_device := None \<rparr>) W1)))"

end
