(* ===== verification/Fake_Wiimote_Mgr.thy ===== *)
theory Fake_Wiimote_Mgr
  imports Fake_Wiimote
begin

text \<open>
  \<open>source/fake_wiimote_mgr.c\<close>: the array of fake Wiimotes, the assignment of free input
  devices to inactive Wiimotes, the count of completed packets, and the HCI commands of the
  host that target a fake Wiimote.  A command handler returns whether it handled the command.
\<close>

section \<open>Initialisation and assignment\<close>

definition FAKE_WIIMOTE_BDADDR :: "nat \<Rightarrow> bdaddr" where
  "FAKE_WIIMOTE_BDADDR i = [0xFE, 0xED, 0xBA, 0xDF, 0x00, 0xD0 + of_nat i]"

definition fake_wiimote_mgr_init :: "'os world \<Rightarrow> 'os world" where
  "fake_wiimote_mgr_init W =
     W \<lparr> fake_wiimotes := map (\<lambda>i. fake_wiimote_init (FAKE_WIIMOTE_BDADDR i) (fake_wiimotes W ! i))
                            [0..<length (fake_wiimotes W)] \<rparr>"

text \<open>
  The connected Wiimotes with the packets completed since the last event (as 16 bits), the
  sum of the 32-bit counters, and the Wiimotes with their counters reset.
\<close>

fun collect_completed ::
  "fake_wiimote list \<Rightarrow> (u16 \<times> u16) list \<times> u32 \<times> fake_wiimote list" where
  "collect_completed [] = ([], 0, [])"
| "collect_completed (w # ws) =
     (let (infos, total, ws') = collect_completed ws in
      if fake_wiimote_is_connected w
      then ((fw_con_handle w, ucast (num_completed_acl_data_packets w)) # infos,
            num_completed_acl_data_packets w + total,
            w \<lparr> num_completed_acl_data_packets := 0 \<rparr> # ws')
      else (infos, total, w # ws'))"

definition fake_wiimote_mgr_send_event_number_of_completed_packets ::
  "'os ext \<Rightarrow> 'os world \<Rightarrow> 'os world result" where
  "fake_wiimote_mgr_send_event_number_of_completed_packets E W =
     (let (infos, total, ws) = collect_completed (fake_wiimotes W);
          W1 = W \<lparr> fake_wiimotes := ws \<rparr>
      in if total > 0 then ignore_ret (on_usb (inject_hci_event_num_compl_pkts E infos) W1)
         else Inr W1)"

definition assign_to :: "nat \<Rightarrow> 'os world \<Rightarrow> 'os world" where
  "assign_to j W =
     (if fw_active (fake_wiimotes W ! j) then W
      else case input_device_get_unassigned W of
             None \<Rightarrow> W
           | Some i \<Rightarrow>
               upd_wm j (\<lambda>w. (fake_wiimote_init_state i w) \<lparr> fw_active := True \<rparr>)
                 (input_device_assign_wiimote i j W))"

definition fake_wiimote_mgr_check_assign_input_devices :: "'os world \<Rightarrow> 'os world" where
  "fake_wiimote_mgr_check_assign_input_devices W =
     fold assign_to [0..<length (fake_wiimotes W)] W"

fun tick_all :: "'os ext \<Rightarrow> nat list \<Rightarrow> 'os world \<Rightarrow> 'os world result" where
  "tick_all E [] W = Inr W"
| "tick_all E (j # js) W =
     rbind (if fw_active (fake_wiimotes W ! j) then fake_wiimote_tick E j W else Inr W)
       (tick_all E js)"

definition fake_wiimote_mgr_tick_devices :: "'os ext \<Rightarrow> 'os world \<Rightarrow> 'os world result" where
  "fake_wiimote_mgr_tick_devices E W =
     (let W1 = (if hci_can_request_connection (hci W)
                then fake_wiimote_mgr_check_assign_input_devices W else W)
      in rbind (tick_all E [0..<length (fake_wiimotes W1)] W1)
           (fake_wiimote_mgr_send_event_number_of_completed_packets E))"

section \<open>Looking up a Wiimote\<close>

definition does_bdaddr_belong_to_fake_wiimote :: "'os world \<Rightarrow> bdaddr \<Rightarrow> nat option" where
  "does_bdaddr_belong_to_fake_wiimote W ba =
     List.find (\<lambda>j. fw_bdaddr (fake_wiimotes W ! j) = ba) [0..<length (fake_wiimotes W)]"

definition get_fake_wiimote_for_hci_con_handle :: "'os world \<Rightarrow> u16 \<Rightarrow> nat option" where
  "get_fake_wiimote_for_hci_con_handle W con_handle =
     List.find (\<lambda>j. fake_wiimote_is_connected (fake_wiimotes W ! j) \<and>
                    fw_con_handle (fake_wiimotes W ! j) = con_handle)
       [0..<length (fake_wiimotes W)]"

definition does_hci_con_handle_belong_to_fake_wiimote :: "'os world \<Rightarrow> u16 \<Rightarrow> bool" where
  "does_hci_con_handle_belong_to_fake_wiimote W con_handle \<longleftrightarrow>
     get_fake_wiimote_for_hci_con_handle W con_handle \<noteq> None"

section \<open>HCI commands\<close>

definition handled :: "'os world result \<Rightarrow> (bool \<times> 'os world) result" where
  "handled m = rbind m (\<lambda>W. Inr (True, W))"

definition fake_wiimote_mgr_handle_hci_cmd_accept_con ::
  "'os ext \<Rightarrow> bdaddr \<Rightarrow> u8 \<Rightarrow> 'os world \<Rightarrow> (bool \<times> 'os world) result" where
  "fake_wiimote_mgr_handle_hci_cmd_accept_con E ba role W =
     (case does_bdaddr_belong_to_fake_wiimote W ba of
        None \<Rightarrow> Inr (False, W)
      | Some j \<Rightarrow> handled (fake_wiimote_handle_hci_cmd_accept_con E j role W))"

definition fake_wiimote_mgr_handle_hci_cmd_reject_con ::
  "'os ext \<Rightarrow> bdaddr \<Rightarrow> u8 \<Rightarrow> 'os world \<Rightarrow> (bool \<times> 'os world) result" where
  "fake_wiimote_mgr_handle_hci_cmd_reject_con E ba reason W =
     (case does_bdaddr_belong_to_fake_wiimote W ba of
        None \<Rightarrow> Inr (False, W)
      | Some j \<Rightarrow> handled (ignore_ret (fake_wiimote_disconnect E j W)))"

definition fake_wiimote_mgr_handle_hci_cmd_disconnect ::
  "'os ext \<Rightarrow> u16 \<Rightarrow> u8 \<Rightarrow> 'os world \<Rightarrow> (bool \<times> 'os world) result" where
  "fake_wiimote_mgr_handle_hci_cmd_disconnect E con_handle reason W =
     (case get_fake_wiimote_for_hci_con_handle W con_handle of
        None \<Rightarrow> Inr (False, W)
      | Some j \<Rightarrow>
          handled (rbind (inject_ok E (inject_hci_event_command_status E HCI_CMD_DISCONNECT) W)
            (\<lambda>W1. ignore_ret (fake_wiimote_disconnect E j W1))))"

text \<open>
  Commands on a connection handle of a fake Wiimote: a command status and then the event
  that completes the command.
\<close>

definition status_then ::
  "'os ext \<Rightarrow> u16 \<Rightarrow> u16 \<Rightarrow> ('os usb \<Rightarrow> (int \<times> 'os usb) result) \<Rightarrow> 'os world \<Rightarrow>
   (bool \<times> 'os world) result" where
  "status_then E opcode con_handle event W =
     (if does_hci_con_handle_belong_to_fake_wiimote W con_handle
      then handled (rbind (inject_ok E (inject_hci_event_command_status E opcode) W)
                      (inject_ok E event))
      else Inr (False, W))"

definition fake_wiimote_name :: "nat \<Rightarrow> u8 list" where
  "fake_wiimote_name index = map of_char ''Fake Wiimote '' @ [0x30 + of_nat index]"

definition handle_remote_name_req ::
  "'os ext \<Rightarrow> u8 list \<Rightarrow> 'os world \<Rightarrow> (bool \<times> 'os world) result" where
  "handle_remote_name_req E payload W =
     rbind (read_bytes payload hci_remote_name_req_cp_bdaddr BDADDR_SIZE) (\<lambda>ba.
     case does_bdaddr_belong_to_fake_wiimote W ba of
       None \<Rightarrow> Inr (False, W)
     | Some index \<Rightarrow>
         handled (rbind (inject_ok E (inject_hci_event_command_status E HCI_CMD_REMOTE_NAME_REQ) W)
           (inject_ok E
             (inject_hci_event_remote_name_req_compl E 0 ba (fake_wiimote_name index)))))"

text \<open>A reset deactivates every active Wiimote and releases its input device.\<close>

fun reset_wiimotes :: "'os ext \<Rightarrow> nat list \<Rightarrow> 'os world \<Rightarrow> 'os world result" where
  "reset_wiimotes E [] W = Inr W"
| "reset_wiimotes E (j # js) W =
     (if fw_active (fake_wiimotes W ! j) then
        rbind (case input_device (fake_wiimotes W ! j) of
                 None \<Rightarrow> Inr W
               | Some i \<Rightarrow> input_device_release_wiimote E i W) (\<lambda>W1.
          reset_wiimotes E js (upd_wm j (\<lambda>w. w \<lparr> fw_active := False \<rparr>) W1))
      else reset_wiimotes E js W)"

definition handle_read_stored_link_key ::
  "'os ext \<Rightarrow> u8 list \<Rightarrow> 'os world \<Rightarrow> (bool \<times> 'os world) result" where
  "handle_read_stored_link_key E payload W =
     rbind (read_u8 payload hci_read_stored_link_key_cp_read_all) (\<lambda>read_all.
     if read_all \<noteq> 0 then
       rbind (on_usb (inject_hci_event_return_link_keys E
                (map (\<lambda>i. (FAKE_WIIMOTE_BDADDR i, replicate HCI_KEY_SIZE 0))
                   [0..<MAX_FAKE_WIIMOTES])) W) (\<lambda>(_, W1). Inr (False, W1))
     else
       rbind (read_bytes payload hci_read_stored_link_key_cp_bdaddr BDADDR_SIZE) (\<lambda>ba.
         if does_bdaddr_belong_to_fake_wiimote W ba \<noteq> None then Inl Assert_Failed
         else Inr (False, W)))"

definition handle_write_link_supervision_timeout ::
  "'os ext \<Rightarrow> u8 list \<Rightarrow> 'os world \<Rightarrow> (bool \<times> 'os world) result" where
  "handle_write_link_supervision_timeout E payload W =
     rbind (read_le16 payload hci_write_link_supervision_timeout_cp_con_handle) (\<lambda>con_handle.
     if does_hci_con_handle_belong_to_fake_wiimote W con_handle then
       handled (inject_ok E (inject_hci_event_command_compl E HCI_CMD_WRITE_LINK_SUPERVISION_TIMEOUT
         ([0] @ le16 con_handle)) W)
     else Inr (False, W))"

definition fake_wiimote_mgr_handle_hci_cmd_from_host ::
  "'os ext \<Rightarrow> u8 list \<Rightarrow> 'os world \<Rightarrow> (bool \<times> 'os world) result" where
  "fake_wiimote_mgr_handle_hci_cmd_from_host E hdr W =
     (let payload = drop sizeof_hci_cmd_hdr_t hdr in
      rbind (read_le16 hdr hci_cmd_hdr_t_opcode) (\<lambda>opcode.
      if opcode = HCI_CMD_DISCONNECT then
        rbind (read_le16 payload hci_discon_cp_con_handle) (\<lambda>con_handle.
        rbind (read_u8 payload hci_discon_cp_reason) (\<lambda>reason.
          fake_wiimote_mgr_handle_hci_cmd_disconnect E con_handle reason W))
      else if opcode = HCI_CMD_ACCEPT_CON then
        rbind (read_bytes payload hci_accept_con_cp_bdaddr BDADDR_SIZE) (\<lambda>ba.
        rbind (read_u8 payload hci_accept_con_cp_role) (\<lambda>role.
          fake_wiimote_mgr_handle_hci_cmd_accept_con E ba role W))
      else if opcode = HCI_CMD_REJECT_CON then
        rbind (read_bytes payload hci_reject_con_cp_bdaddr BDADDR_SIZE) (\<lambda>ba.
        rbind (read_u8 payload hci_reject_con_cp_reason) (\<lambda>reason.
          fake_wiimote_mgr_handle_hci_cmd_reject_con E ba reason W))
      else if opcode = HCI_CMD_CHANGE_CON_PACKET_TYPE then
        rbind (read_le16 payload hci_change_con_pkt_type_cp_con_handle) (\<lambda>con_handle.
          if does_hci_con_handle_belong_to_fake_wiimote W con_handle then
            rbind (read_le16 payload hci_change_con_pkt_type_cp_pkt_type) (\<lambda>pkt_type.
              status_then E opcode con_handle
                (inject_hci_event_con_pkt_type_changed E con_handle pkt_type) W)
          else Inr (False, W))
      else if opcode = HCI_CMD_AUTH_REQ then
        rbind (read_le16 payload hci_auth_req_cp_con_handle) (\<lambda>con_handle.
          status_then E opcode con_handle (inject_hci_event_auth_compl E 0 con_handle) W)
      else if opcode = HCI_CMD_REMOTE_NAME_REQ then handle_remote_name_req E payload W
      else if opcode = HCI_CMD_READ_REMOTE_FEATURES then
        rbind (read_le16 payload hci_read_remote_features_cp_con_handle) (\<lambda>con_handle.
          status_then E opcode con_handle
            (inject_hci_event_read_remote_features_compl E con_handle WIIMOTE_REMOTE_FEATURES) W)
      else if opcode = HCI_CMD_READ_REMOTE_VER_INFO then
        rbind (read_le16 payload hci_read_remote_ver_info_cp_con_handle) (\<lambda>con_handle.
          status_then E opcode con_handle
            (inject_hci_event_read_remote_ver_info_compl E con_handle WIIMOTE_LMP_VERSION
               WIIMOTE_MANUFACTURER_ID WIIMOTE_LMP_SUBVERSION) W)
      else if opcode = HCI_CMD_READ_CLOCK_OFFSET then
        rbind (read_le16 payload hci_read_clock_offset_cp_con_handle) (\<lambda>con_handle.
          status_then E opcode con_handle
            (inject_hci_event_read_clock_offset_compl E con_handle 0x3818) W)
      else if opcode = HCI_CMD_SNIFF_MODE then
        rbind (read_le16 payload hci_sniff_mode_cp_con_handle) (\<lambda>con_handle.
          status_then E opcode con_handle
            (\<lambda>u. rbind (read_be16 payload hci_sniff_mode_cp_max_interval) (\<lambda>max_interval.
               inject_hci_event_mode_change E con_handle 0x02 max_interval u)) W)
      else if opcode = HCI_CMD_WRITE_LINK_POLICY_SETTINGS then
        rbind (read_le16 payload hci_write_link_policy_settings_cp_con_handle) (\<lambda>con_handle.
          if does_hci_con_handle_belong_to_fake_wiimote W con_handle
          then handled (inject_ok E (inject_hci_event_command_status E opcode) W)
          else Inr (False, W))
      else if opcode = HCI_CMD_RESET then
        rbind (reset_wiimotes E [0..<length (fake_wiimotes W)] W) (\<lambda>W1. Inr (False, W1))
      else if opcode = HCI_CMD_READ_STORED_LINK_KEY then handle_read_stored_link_key E payload W
      else if opcode = HCI_CMD_WRITE_LINK_SUPERVISION_TIMEOUT then
        handle_write_link_supervision_timeout E payload W
      else Inr (False, W)))"

definition fake_wiimote_mgr_handle_acl_data_out_request_from_host ::
  "'os ext \<Rightarrow> u16 \<Rightarrow> u8 list \<Rightarrow> 'os world \<Rightarrow> (bool \<times> 'os world) result" where
  "fake_wiimote_mgr_handle_acl_data_out_request_from_host E con_handle acl W =
     (case get_fake_wiimote_for_hci_con_handle W con_handle of
        None \<Rightarrow> Inr (False, W)
      | Some j \<Rightarrow> handled (fake_wiimote_handle_acl_data_out_request_from_host E j acl W))"

end
