(* ===== verification/Hci_State.thy ===== *)
theory Hci_State
  imports Fake_Wiimote_Mgr
begin

text \<open>
  The handlers of \<open>source/hci_state.c\<close> on the traffic between the host and the dongle:
  commands and ACL data from the host, either taken by a fake Wiimote or forwarded with the
  virtual connection handle replaced by the physical one, and events and ACL data from the
  controller, with the physical handle replaced by the virtual one.  Packets are patched in
  place, so a handler returns the packet.
\<close>

section \<open>Translating a connection handle in place\<close>

definition translate_con_handle :: "(u16 \<Rightarrow> u16 option) \<Rightarrow> nat \<Rightarrow> u8 list \<Rightarrow> u8 list result" where
  "translate_con_handle look off data =
     rbind (read_le16 data off) (\<lambda>h.
     case look h of
       None \<Rightarrow> Inl Assert_Failed
     | Some h' \<Rightarrow> write_bytes data off (le16 h'))"

text \<open>The commands and events with a connection handle, and the offset of its field.\<close>

definition translated_commands :: "(u16 \<times> nat) list" where
  "translated_commands =
     [(HCI_CMD_DISCONNECT, hci_discon_cp_con_handle),
      (HCI_CMD_ADD_SCO_CON, hci_add_sco_con_cp_con_handle),
      (HCI_CMD_CHANGE_CON_PACKET_TYPE, hci_change_con_pkt_type_cp_con_handle),
      (HCI_CMD_AUTH_REQ, hci_auth_req_cp_con_handle),
      (HCI_CMD_SET_CON_ENCRYPTION, hci_set_con_encryption_cp_con_handle),
      (HCI_CMD_CHANGE_CON_LINK_KEY, hci_change_con_link_key_cp_con_handle),
      (HCI_CMD_READ_REMOTE_FEATURES, hci_read_remote_features_cp_con_handle),
      (HCI_CMD_READ_REMOTE_EXTENDED_FEATURES, hci_read_remote_extended_features_cp_con_handle),
      (HCI_CMD_READ_REMOTE_VER_INFO, hci_read_remote_ver_info_cp_con_handle),
      (HCI_CMD_READ_CLOCK_OFFSET, hci_read_clock_offset_cp_con_handle),
      (HCI_CMD_READ_LMP_HANDLE, hci_read_lmp_handle_cp_con_handle),
      (HCI_CMD_SETUP_SCO_CON, hci_setup_sco_con_cp_con_handle),
      (HCI_CMD_HOLD_MODE, hci_hold_mode_cp_con_handle),
      (HCI_CMD_SNIFF_MODE, hci_sniff_mode_cp_con_handle),
      (HCI_CMD_EXIT_SNIFF_MODE, hci_exit_sniff_mode_cp_con_handle),
      (HCI_CMD_PARK_MODE, hci_park_mode_cp_con_handle),
      (HCI_CMD_EXIT_PARK_MODE, hci_exit_park_mode_cp_con_handle),
      (HCI_CMD_QOS_SETUP, hci_qos_setup_cp_con_handle),
      (HCI_CMD_ROLE_DISCOVERY, hci_role_discovery_cp_con_handle),
      (HCI_CMD_READ_LINK_POLICY_SETTINGS, hci_read_link_policy_settings_cp_con_handle),
      (HCI_CMD_WRITE_LINK_POLICY_SETTINGS, hci_write_link_policy_settings_cp_con_handle),
      (HCI_CMD_FLOW_SPECIFICATION, hci_flow_specification_cp_con_handle),
      (HCI_CMD_SNIFF_SUBRATING, hci_sniff_subrating_cp_con_handle),
      (HCI_CMD_FLUSH, hci_flush_cp_con_handle),
      (HCI_CMD_READ_AUTO_FLUSH_TIMEOUT, hci_read_auto_flush_timeout_cp_con_handle),
      (HCI_CMD_WRITE_AUTO_FLUSH_TIMEOUT, hci_write_auto_flush_timeout_cp_con_handle),
      (HCI_CMD_READ_XMIT_LEVEL, hci_read_xmit_level_cp_con_handle),
      (HCI_CMD_READ_LINK_SUPERVISION_TIMEOUT, hci_read_link_supervision_timeout_cp_con_handle),
      (HCI_CMD_WRITE_LINK_SUPERVISION_TIMEOUT, hci_write_link_supervision_timeout_cp_con_handle),
      (HCI_CMD_REFRESH_ENCRYPTION_KEY, hci_refresh_encryption_key_cp_con_handle),
      (HCI_CMD_ENHANCED_FLUSH, hci_enhanced_flush_cp_con_handle),
      (HCI_CMD_READ_FAILED_CONTACT_CNTR, hci_read_failed_contact_cntr_cp_con_handle),
      (HCI_CMD_RESET_FAILED_CONTACT_CNTR, hci_reset_failed_contact_cntr_cp_con_handle),
      (HCI_CMD_READ_LINK_QUALITY, hci_read_link_quality_cp_con_handle),
      (HCI_CMD_READ_RSSI, hci_read_rssi_cp_con_handle),
      (HCI_CMD_READ_AFH_CHANNEL_MAP, hci_read_afh_channel_map_cp_con_handle),
      (HCI_CMD_READ_CLOCK, hci_read_clock_cp_con_handle)]"

definition translated_events :: "(u8 \<times> nat) list" where
  "translated_events =
     [(HCI_EVENT_AUTH_COMPL, hci_auth_compl_ep_con_handle),
      (HCI_EVENT_ENCRYPTION_CHANGE, hci_encryption_change_ep_con_handle),
      (HCI_EVENT_CHANGE_CON_LINK_KEY_COMPL, hci_change_con_link_key_compl_ep_con_handle),
      (HCI_EVENT_MASTER_LINK_KEY_COMPL, hci_master_link_key_compl_ep_con_handle),
      (HCI_EVENT_READ_REMOTE_FEATURES_COMPL, hci_read_remote_features_compl_ep_con_handle),
      (HCI_EVENT_READ_REMOTE_VER_INFO_COMPL, hci_read_remote_ver_info_compl_ep_con_handle),
      (HCI_EVENT_QOS_SETUP_COMPL, hci_qos_setup_compl_ep_con_handle),
      (HCI_EVENT_FLUSH_OCCUR, hci_flush_occur_ep_con_handle),
      (HCI_EVENT_MODE_CHANGE, hci_mode_change_ep_con_handle),
      (HCI_EVENT_MAX_SLOT_CHANGE, hci_max_slot_change_ep_con_handle),
      (HCI_EVENT_READ_CLOCK_OFFSET_COMPL, hci_read_clock_offset_compl_ep_con_handle),
      (HCI_EVENT_CON_PKT_TYPE_CHANGED, hci_con_pkt_type_changed_ep_con_handle),
      (HCI_EVENT_QOS_VIOLATION, hci_qos_violation_ep_con_handle),
      (HCI_EVENT_FLOW_SPECIFICATION_COMPL, hci_flow_specification_compl_ep_con_handle),
      (HCI_EVENT_READ_REMOTE_EXTENDED_FEATURES, hci_read_remote_extended_features_ep_con_handle),
      (HCI_EVENT_SCO_CON_COMPL, hci_sco_con_compl_ep_con_handle),
      (HCI_EVENT_SCO_CON_CHANGED, hci_sco_con_changed_ep_con_handle),
      (HCI_EVENT_SNIFF_SUBRATING, hci_sniff_subrating_ep_con_handle),
      (HCI_EVENT_ENCRYPTION_KEY_REFRESH, hci_encryption_key_refresh_ep_con_handle),
      (HCI_EVENT_LINK_SUPERVISION_TO_CHANGED, hci_link_supervision_to_changed_ep_con_handle),
      (HCI_EVENT_ENHANCED_FLUSH_COMPL, hci_enhanced_flush_compl_ep_con_handle)]"

section \<open>Commands from the host\<close>

text \<open>The switch on the opcode of a command that is forwarded.\<close>

definition forward_hci_cmd :: "u8 list \<Rightarrow> hci_state \<Rightarrow> (u8 list \<times> hci_state) result" where
  "forward_hci_cmd data s =
     rbind (read_le16 data hci_cmd_hdr_t_opcode) (\<lambda>opcode.
     if opcode = HCI_CMD_CREATE_CON then Inl Assert_Failed
     else if opcode = HCI_CMD_WRITE_SCAN_ENABLE then
       rbind (read_u8 data (sizeof_hci_cmd_hdr_t + hci_write_scan_enable_cp_scan_enable)) (\<lambda>b.
         Inr (data, s \<lparr> hci_page_scan_enable := b \<rparr>))
     else if opcode = HCI_CMD_WRITE_UNIT_CLASS then
       rbind (read_bytes data (sizeof_hci_cmd_hdr_t + hci_write_unit_class_cp_uclass)
                HCI_CLASS_SIZE) (\<lambda>c.
         Inr (data, s \<lparr> hci_unit_class := c \<rparr>))
     else if opcode = HCI_CMD_RESET then Inr (data, hci_state_reset s)
     else if opcode = HCI_CMD_READ_STORED_LINK_KEY then
       rbind (read_u8 data (sizeof_hci_cmd_hdr_t + hci_read_stored_link_key_cp_read_all)) (\<lambda>b.
         Inr (data, s \<lparr> hci_read_stored_link_key_read_all := b \<rparr>))
     else if opcode = HCI_CMD_HOST_NUM_COMPL_PKTS then Inl Assert_Failed
     else
       case map_of translated_commands opcode of
         Some off \<Rightarrow>
           rbind (translate_con_handle (hci_virt_con_handle_get_phys s)
                    (sizeof_hci_cmd_hdr_t + off) data) (\<lambda>data'. Inr (data', s))
       | None \<Rightarrow> Inr (data, s))"

text \<open>The result: whether to forward to the dongle, the packet, the state.\<close>

definition hci_state_handle_hci_cmd_from_host ::
  "'os ext \<Rightarrow> u8 list \<Rightarrow> 'os world \<Rightarrow> (bool \<times> u8 list \<times> 'os world) result" where
  "hci_state_handle_hci_cmd_from_host E data W =
     rbind (fake_wiimote_mgr_handle_hci_cmd_from_host E data W) (\<lambda>(taken, W1).
     if taken then Inr (False, data, W1)
     else
       rbind (forward_hci_cmd data (hci W1)) (\<lambda>(data', s').
         Inr (True, data', W1 \<lparr> hci := s' \<rparr>)))"

section \<open>Events from the controller\<close>

text \<open>The infos of a completed-packets event are translated one after the other.\<close>

fun translate_infos :: "(u16 \<Rightarrow> u16 option) \<Rightarrow> nat \<Rightarrow> nat \<Rightarrow> u8 list \<Rightarrow> u8 list result" where
  "translate_infos look off 0 data = Inr data"
| "translate_infos look off (Suc n) data =
     rbind (translate_con_handle look (off + hci_num_compl_pkts_info_con_handle) data)
       (translate_infos look (off + sizeof_hci_num_compl_pkts_info) n)"

definition handle_con_compl :: "u8 list \<Rightarrow> hci_state \<Rightarrow> (u8 list \<times> hci_state) result" where
  "handle_con_compl data s =
     (let ep = sizeof_hci_event_hdr_t in
      rbind (read_u8 data (ep + hci_con_compl_ep_status)) (\<lambda>status.
      if status = 0 then
        let (virt, s1) = hci_con_handle_virt_alloc s in
        rbind (read_le16 data (ep + hci_con_compl_ep_con_handle)) (\<lambda>phys.
        case hci_virt_con_handle_map phys virt s1 of
          None \<Rightarrow> Inl Assert_Failed
        | Some s2 \<Rightarrow>
            rbind (write_bytes data (ep + hci_con_compl_ep_con_handle) (le16 virt)) (\<lambda>data'.
              Inr (data', s2)))
      else Inr (data, s)))"

definition handle_discon_compl :: "u8 list \<Rightarrow> hci_state \<Rightarrow> (u8 list \<times> hci_state) result" where
  "handle_discon_compl data s =
     (let ep = sizeof_hci_event_hdr_t in
      rbind (read_u8 data (ep + hci_discon_compl_ep_status)) (\<lambda>status.
      if status = 0 then
        rbind (read_le16 data (ep + hci_discon_compl_ep_con_handle)) (\<lambda>phys.
        case hci_virt_con_handle_get_virt s phys of
          None \<Rightarrow> Inl Assert_Failed
        | Some virt \<Rightarrow>
            (case hci_virt_con_handle_unmap_virt virt s of
               None \<Rightarrow> Inl Assert_Failed
             | Some s1 \<Rightarrow>
                 rbind (write_bytes data (ep + hci_discon_compl_ep_con_handle) (le16 virt)) (\<lambda>data'.
                   Inr (data', s1))))
      else Inr (data, s)))"

definition handle_command_compl :: "u8 list \<Rightarrow> hci_state \<Rightarrow> u8 list result" where
  "handle_command_compl data s =
     (let ep = sizeof_hci_event_hdr_t; rp = ep + sizeof_hci_command_compl_ep in
      rbind (read_le16 data (ep + hci_command_compl_ep_opcode)) (\<lambda>opcode.
      if opcode = HCI_CMD_READ_STORED_LINK_KEY then
        rbind (read_le16 data (rp + hci_read_stored_link_key_rp_max_num_keys)) (\<lambda>max_num_keys.
        rbind (read_le16 data (rp + hci_read_stored_link_key_rp_num_keys_read)) (\<lambda>num_keys_read.
        if hci_read_stored_link_key_read_all s \<noteq> 0 then
          rbind (write_bytes data (rp + hci_read_stored_link_key_rp_max_num_keys)
                   (le16 (max_num_keys + of_nat MAX_FAKE_WIIMOTES))) (\<lambda>data'.
          write_bytes data' (rp + hci_read_stored_link_key_rp_num_keys_read)
                   (le16 (num_keys_read + of_nat MAX_FAKE_WIIMOTES)))
        else Inr data))
      else Inr data))"

definition hci_state_handle_hci_event_from_controller ::
  "u8 list \<Rightarrow> hci_state \<Rightarrow> (u8 list \<times> hci_state) result" where
  "hci_state_handle_hci_event_from_controller data s =
     (let ep = sizeof_hci_event_hdr_t; get_virt = hci_virt_con_handle_get_virt s in
      rbind (read_u8 data hci_event_hdr_t_event) (\<lambda>event.
      if event = HCI_EVENT_CON_COMPL then handle_con_compl data s
      else if event = HCI_EVENT_DISCON_COMPL then handle_discon_compl data s
      else if event = HCI_EVENT_COMMAND_COMPL then
        rbind (handle_command_compl data s) (\<lambda>data'. Inr (data', s))
      else if event = HCI_EVENT_NUM_COMPL_PKTS then
        rbind (read_u8 data (ep + hci_num_compl_pkts_ep_num_con_handles)) (\<lambda>n.
        rbind (translate_infos get_virt (ep + sizeof_hci_num_compl_pkts_ep) (unat n) data) (\<lambda>data'.
          Inr (data', s)))
      else
        case map_of translated_events event of
          Some off \<Rightarrow>
            rbind (translate_con_handle get_virt (ep + off) data) (\<lambda>data'. Inr (data', s))
        | None \<Rightarrow> Inr (data, s)))"

section \<open>ACL data\<close>

text \<open>Only the twelve bits of the handle change; the boundary and broadcast flags stay.\<close>

definition translate_acl_header :: "(u16 \<Rightarrow> u16 option) \<Rightarrow> u8 list \<Rightarrow> u8 list result" where
  "translate_acl_header look data =
     rbind (read_le16 data hci_acldata_hdr_t_con_handle) (\<lambda>handle_pb_bc.
     rbind (read_le16 data hci_acldata_hdr_t_length) (\<lambda>payload_len.
     case look (HCI_CON_HANDLE handle_pb_bc) of
       None \<Rightarrow> Inl Assert_Failed
     | Some h \<Rightarrow>
         write_bytes data hci_acldata_hdr_t_con_handle
           (le16 (HCI_MK_CON_HANDLE h (HCI_PB_FLAG handle_pb_bc) (HCI_BC_FLAG handle_pb_bc)))))"

definition hci_state_handle_acl_data_in_response_from_controller ::
  "u8 list \<Rightarrow> hci_state \<Rightarrow> u8 list result" where
  "hci_state_handle_acl_data_in_response_from_controller data s =
     translate_acl_header (hci_virt_con_handle_get_virt s) data"

definition hci_state_handle_acl_data_out_request_from_host ::
  "'os ext \<Rightarrow> u8 list \<Rightarrow> 'os world \<Rightarrow> (bool \<times> u8 list \<times> 'os world) result" where
  "hci_state_handle_acl_data_out_request_from_host E data W =
     rbind (read_le16 data hci_acldata_hdr_t_con_handle) (\<lambda>handle_pb_bc.
     rbind (read_le16 data hci_acldata_hdr_t_length) (\<lambda>payload_len.
     rbind (fake_wiimote_mgr_handle_acl_data_out_request_from_host E
              (HCI_CON_HANDLE handle_pb_bc) data W) (\<lambda>(taken, W1).
     if taken then Inr (False, data, W1)
     else
       rbind (translate_acl_header (hci_virt_con_handle_get_phys (hci W1)) data) (\<lambda>data'.
         Inr (True, data', W1)))))"

end
