(* ===== verification/Oh1_Hooks.thy ===== *)
theory Oh1_Hooks
  imports Hci_State
begin

text \<open>
  The hooks of \<open>source/main.c\<close>: the module replaces the two system calls through which the
  OH1 driver receives requests and answers them.  A request of the host is dispatched on its
  ioctlv command and endpoint and is either answered here or forwarded; a reply of OH1 to one
  of the two static hand-down messages is passed through the HCI tracker and delivered.
\<close>

section \<open>Constants\<close>

definition USBV0_IOCTLV_CTRLMSG :: u32 where "USBV0_IOCTLV_CTRLMSG = 0"
definition USBV0_IOCTLV_BLKMSG :: u32 where "USBV0_IOCTLV_BLKMSG = 1"
definition USBV0_IOCTLV_INTRMSG :: u32 where "USBV0_IOCTLV_INTRMSG = 2"
definition EP_HCI_CTRL :: u8 where "EP_HCI_CTRL = 0x00"
definition EP_HCI_EVENT :: u8 where "EP_HCI_EVENT = 0x81"
definition EP_ACL_DATA_IN :: u8 where "EP_ACL_DATA_IN = 0x82"
definition EP_ACL_DATA_OUT :: u8 where "EP_ACL_DATA_OUT = 0x02"

lemmas oh1_consts [c_consts] =
  USBV0_IOCTLV_CTRLMSG_def USBV0_IOCTLV_BLKMSG_def USBV0_IOCTLV_INTRMSG_def
  EP_HCI_CTRL_def EP_HCI_EVENT_def EP_ACL_DATA_IN_def EP_ACL_DATA_OUT_def

section \<open>Requests of the host\<close>

text \<open>The data of one vector of an IPC message.\<close>

definition vec_bytes :: "ipcmessage \<Rightarrow> nat \<Rightarrow> u8 list result" where
  "vec_bytes m i = rbind (get_vec m i) (\<lambda>v. Inr (vec_data v))"

definition set_vec_bytes :: "nat \<Rightarrow> u8 list \<Rightarrow> ipcmessage \<Rightarrow> ipcmessage" where
  "set_vec_bytes i d m =
     m \<lparr> ioctlv_vector := (ioctlv_vector m)[i := (ioctlv_vector m ! i) \<lparr> vec_data := d \<rparr>] \<rparr>"

definition upd_ipc :: "ptr \<Rightarrow> (ipcmessage \<Rightarrow> ipcmessage) \<Rightarrow> 'os world \<Rightarrow> 'os world" where
  "upd_ipc p f W =
     W \<lparr> usb := (usb W) \<lparr> ipc_store := (ipc_store (usb W))(p := map_option f (ipc_store (usb W) p)) \<rparr> \<rparr>"

text \<open>
  A packet of the host that is not forwarded is acknowledged with its length, at once.  The
  result: return value, message to hand down, whether to forward, state.
\<close>

definition packet_from_host ::
  "'os ext \<Rightarrow> ptr \<Rightarrow> u16 \<Rightarrow> nat \<Rightarrow> (bool \<times> u8 list \<times> 'os world) result \<Rightarrow>
   (int \<times> ptr option \<times> bool \<times> 'os world) result" where
  "packet_from_host E recv_msg wLength i m =
     rbind m (\<lambda>(fwd, data', W1).
     let W2 = upd_ipc recv_msg (set_vec_bytes i data') W1 in
     if fwd then Inr (0, None, True, W2)
     else
       let (ret, u) = ack_message E recv_msg (uint wLength) (usb W2)
       in Inr (ret, None, False, W2 \<lparr> usb := u \<rparr>))"

definition read_from_bulk_in ::
  "'os ext \<Rightarrow> ptr \<Rightarrow> u16 \<Rightarrow> 'os world \<Rightarrow> (int \<times> ptr option \<times> bool \<times> 'os world) result" where
  "read_from_bulk_in E recv_msg wLength W =
     (let u = usb W in
      rbind (handle_bulk_intr_pending_message E recv_msg wLength (ready_usb_bulk_in_msg_queue_id u)
               (pending_usb_bulk_in_msg_queue_id u) (usb_bulk_in_hand_down_msg E)
               (usb_bulk_in_hand_down_msg_pending u) True u) (\<lambda>(ret, ret_msg, pending, fwd, u1).
        Inr (ret, ret_msg, fwd, W \<lparr> usb := u1 \<lparr> usb_bulk_in_hand_down_msg_pending := pending \<rparr> \<rparr>)))"

definition read_from_intr ::
  "'os ext \<Rightarrow> ptr \<Rightarrow> u16 \<Rightarrow> 'os world \<Rightarrow> (int \<times> ptr option \<times> bool \<times> 'os world) result" where
  "read_from_intr E recv_msg wLength W =
     (let u = usb W in
      rbind (handle_bulk_intr_pending_message E recv_msg wLength (ready_usb_intr_msg_queue_id u)
               (pending_usb_intr_msg_queue_id u) (usb_intr_hand_down_msg E)
               (usb_intr_hand_down_msg_pending u) True u) (\<lambda>(ret, ret_msg, pending, fwd, u1).
        Inr (ret, ret_msg, fwd, W \<lparr> usb := u1 \<lparr> usb_intr_hand_down_msg_pending := pending \<rparr> \<rparr>)))"

definition handle_oh1_dev_ioctlv ::
  "'os ext \<Rightarrow> ptr \<Rightarrow> 'os world \<Rightarrow> (int \<times> ptr option \<times> bool \<times> 'os world) result" where
  "handle_oh1_dev_ioctlv E recv_msg W =
     rbind (deref (ipc_store (usb W) recv_msg)) (\<lambda>m.
     let cmd = ioctlv_command m in
     if cmd = USBV0_IOCTLV_CTRLMSG then
       rbind (vec_bytes m 1) (\<lambda>v1. rbind (read_u8 v1 0) (\<lambda>bRequest.
       if bRequest = EP_HCI_CTRL then
         rbind (vec_bytes m 4) (\<lambda>v4. rbind (read_le16 v4 0) (\<lambda>wLength.
         rbind (vec_bytes m 6) (\<lambda>data.
           packet_from_host E recv_msg wLength 6 (hci_state_handle_hci_cmd_from_host E data W))))
       else Inr (0, None, True, W)))
     else if cmd = USBV0_IOCTLV_BLKMSG then
       rbind (vec_bytes m 0) (\<lambda>v0. rbind (read_u8 v0 0) (\<lambda>bEndpoint.
       if bEndpoint = EP_ACL_DATA_OUT then
         rbind (vec_bytes m 1) (\<lambda>v1. rbind (read_be16 v1 0) (\<lambda>wLength.
         rbind (vec_bytes m 2) (\<lambda>data.
           packet_from_host E recv_msg wLength 2
             (hci_state_handle_acl_data_out_request_from_host E data W))))
       else if bEndpoint = EP_ACL_DATA_IN then
         rbind (vec_bytes m 1) (\<lambda>v1. rbind (read_be16 v1 0) (\<lambda>wLength.
           read_from_bulk_in E recv_msg wLength W))
       else Inr (0, None, True, W)))
     else if cmd = USBV0_IOCTLV_INTRMSG then
       rbind (vec_bytes m 0) (\<lambda>v0. rbind (read_u8 v0 0) (\<lambda>bEndpoint.
       if bEndpoint = EP_HCI_EVENT then
         rbind (vec_bytes m 1) (\<lambda>v1. rbind (read_be16 v1 0) (\<lambda>wLength.
           read_from_intr E recv_msg wLength W))
       else Inr (0, None, True, W)))
     else Inr (0, None, True, W))"

section \<open>Start-up\<close>

definition create_queue :: "'os ext \<Rightarrow> nat \<Rightarrow> 'os usb \<Rightarrow> int \<times> 'os usb" where
  "create_queue E n u =
     (let (r, os') = os_message_queue_create E n (os_state u) in (r, u \<lparr> os_state := os' \<rparr>))"

definition injmessage_init_heap :: "'os ext \<Rightarrow> 'os usb \<Rightarrow> int \<times> 'os usb" where
  "injmessage_init_heap E u =
     (let (r, os') = os_heap_create E (os_state u); u1 = u \<lparr> os_state := os' \<rparr>
      in if r < 0 then (r, u1) else (0, u1 \<lparr> injmessages_heap_id := r \<rparr>))"

definition init_globals :: "'os ext \<Rightarrow> 'os world \<Rightarrow> 'os world" where
  "init_globals E W =
     (let (_, u1) = injmessage_init_heap E (usb W);
          W1 = W \<lparr> usb := u1, hci := hci_state_reset (hci W) \<rparr>;
          W2 = fake_wiimote_mgr_init (input_devices_init W1)
      in W2 \<lparr> usb := (usb W2) \<lparr> os_state := egc_initialize E (os_state (usb W2)) \<rparr>,
              initialized := True \<rparr>)"

text \<open>The result of the timer is not looked at: the test after it repeats the last one.\<close>

definition ensure_initalized :: "'os ext \<Rightarrow> 'os world \<Rightarrow> int \<times> 'os world" where
  "ensure_initalized E W =
     (if initialized W then (0, W)
      else
        let (r1, u1) = create_queue E 8 (usb W) in
        if r1 < 0 then (r1, W \<lparr> usb := u1 \<rparr>)
        else let (r2, u2) = create_queue E 8 (u1 \<lparr> ready_usb_intr_msg_queue_id := r1 \<rparr>) in
        if r2 < 0 then (r2, W \<lparr> usb := u2 \<rparr>)
        else let (r3, u3) = create_queue E 16 (u2 \<lparr> pending_usb_intr_msg_queue_id := r2 \<rparr>) in
        if r3 < 0 then (r3, W \<lparr> usb := u3 \<rparr>)
        else let (r4, u4) = create_queue E 16 (u3 \<lparr> ready_usb_bulk_in_msg_queue_id := r3 \<rparr>) in
        if r4 < 0 then (r4, W \<lparr> usb := u4 \<rparr>)
        else
          let (timer, os') = os_create_timer E (os_state u4);
              u5 = u4 \<lparr> pending_usb_bulk_in_msg_queue_id := r4, os_state := os' \<rparr>
          in (0, init_globals E (W \<lparr> usb := u5 \<rparr>)))"

section \<open>The receive hook\<close>

definition handle_callback :: "'os ext \<Rightarrow> egc_callback \<Rightarrow> 'os world \<Rightarrow> 'os world result" where
  "handle_callback E c W =
     (case c of
        Device_Added p \<Rightarrow> Inr (input_device_handle_added E p W)
      | Device_Removed p \<Rightarrow> input_device_handle_removed E p W)"

fun handle_callbacks :: "'os ext \<Rightarrow> egc_callback list \<Rightarrow> 'os world \<Rightarrow> 'os world result" where
  "handle_callbacks E [] W = Inr W"
| "handle_callbacks E (c # cs) W = rbind (handle_callback E c W) (handle_callbacks E cs)"

text \<open>The expiry of the periodic timer.\<close>

definition periodic_tick :: "'os ext \<Rightarrow> 'os world \<Rightarrow> 'os world result" where
  "periodic_tick E W =
     (let (devs, callbacks, os') = egc_handle_events E (os_state (usb W)) in
      rbind (handle_callbacks E callbacks
               (W \<lparr> egc_devices := devs, usb := (usb W) \<lparr> os_state := os' \<rparr> \<rparr>)) (\<lambda>W1.
        fake_wiimote_mgr_tick_devices E (input_devices_tick W1)))"

text \<open>
  One round of the loop.  \<open>Inl\<close> leaves the loop with the return value and \<open>*ret_msg\<close>,
  \<open>Inr\<close> goes on with \<open>*ret_msg\<close>.
\<close>

type_synonym 'os hook_result = "int \<times> ptr option \<times> 'os world"

definition receive_round ::
  "'os ext \<Rightarrow> int \<Rightarrow> u32 \<Rightarrow> ptr option \<Rightarrow> 'os world \<Rightarrow>
   ('os hook_result + ptr option \<times> 'os world) result" where
  "receive_round E queueid flags ret_msg W =
     (let (ret, recv_data, os') = os_message_queue_receive E queueid flags (os_state (usb W));
          W1 = W \<lparr> usb := (usb W) \<lparr> os_state := os' \<rparr> \<rparr>
      in if ret \<noteq> IOS_OK E then Inr (Inl (ret, ret_msg, W1))
         else if recv_data = 0xcafef00d then Inr (Inl (ret, Some 0xcafef00d, W1))
         else if recv_data = periodic_timer_cookie E then
           rbind (periodic_tick E W1) (\<lambda>W2. Inr (Inr (ret_msg, W2)))
         else
           rbind (deref (ipc_store (usb W1) recv_data)) (\<lambda>m.
           rbind (if ipc_command m = IOS_IOCTLV E then handle_oh1_dev_ioctlv E recv_data W1
                  else Inr (ret, None, True, W1)) (\<lambda>(ret', msg, fwd, W2).
             if fwd
             then Inr (Inl (ret', Some (case msg of None \<Rightarrow> recv_data | Some p \<Rightarrow> p), W2))
             else Inr (Inr (msg, W2)))))"

text \<open>The loop ends when a message is for OH1; \<open>None\<close> is a run that never ends.\<close>

partial_function (option) receive_loop ::
  "'os ext \<Rightarrow> int \<Rightarrow> u32 \<Rightarrow> ptr option \<Rightarrow> 'os world \<Rightarrow> ('os hook_result result) option" where
  "receive_loop E queueid flags ret_msg W =
     (case receive_round E queueid flags ret_msg W of
        Inl e \<Rightarrow> Some (Inl e)
      | Inr (Inl r) \<Rightarrow> Some (Inr r)
      | Inr (Inr (ret_msg', W')) \<Rightarrow> receive_loop E queueid flags ret_msg' W')"

definition OH1_IOS_ReceiveMessage_hook ::
  "'os ext \<Rightarrow> int \<Rightarrow> u32 \<Rightarrow> ptr option \<Rightarrow> 'os world \<Rightarrow> ('os hook_result result) option" where
  "OH1_IOS_ReceiveMessage_hook E queueid flags ret_msg W =
     (if queueid \<noteq> orig_msg_queueid W then
        let (ret, m, os') = os_message_queue_receive E queueid flags (os_state (usb W))
        in Some (Inr (ret, if ret = IOS_OK E then Some m else ret_msg,
                      W \<lparr> usb := (usb W) \<lparr> os_state := os' \<rparr> \<rparr>))
      else receive_loop E queueid flags ret_msg (snd (ensure_initalized E W)))"

section \<open>The reply hook\<close>

definition on_hci :: "(hci_state \<Rightarrow> (u8 list \<times> hci_state) result) \<Rightarrow> ptr \<Rightarrow> 'os world \<Rightarrow> 'os world result"
where
  "on_hci f p W =
     rbind (f (hci W)) (\<lambda>(data', s'). Inr (upd_ipc p (set_vec_bytes 2 data') (W \<lparr> hci := s' \<rparr>)))"

definition reply_of_hand_down ::
  "'os ext \<Rightarrow> ptr \<Rightarrow> int \<Rightarrow> u32 \<Rightarrow> (u8 list \<Rightarrow> hci_state \<Rightarrow> (u8 list \<times> hci_state) result) \<Rightarrow>
   'os world \<Rightarrow> 'os world result" where
  "reply_of_hand_down E ready_msg retval command track W =
     rbind (deref (ipc_store (usb W) ready_msg)) (\<lambda>m.
     rbind (c_assert (ipc_command m = IOS_IOCTLV E)) (\<lambda>_.
     rbind (c_assert (ioctlv_command m = command)) (\<lambda>_.
     rbind (if retval > 0
            then rbind (vec_bytes m 2) (\<lambda>data. on_hci (track data) ready_msg W)
            else Inr W) (\<lambda>W1.
       Inr (upd_ipc ready_msg (\<lambda>m. m \<lparr> ipc_result := retval \<rparr>) W1)))))"

definition OH1_IOS_ResourceReply_hook ::
  "'os ext \<Rightarrow> ptr \<Rightarrow> int \<Rightarrow> 'os world \<Rightarrow> (int \<times> 'os world) result" where
  "OH1_IOS_ResourceReply_hook E ready_msg retval W =
     (if ready_msg = usb_intr_hand_down_msg E then
        let W1 = snd (ensure_initalized E
                   (W \<lparr> usb := (usb W) \<lparr> usb_intr_hand_down_msg_pending := False \<rparr> \<rparr>))
        in rbind (reply_of_hand_down E ready_msg retval USBV0_IOCTLV_INTRMSG
                    hci_state_handle_hci_event_from_controller W1)
             (on_usb (\<lambda>u. handle_bulk_intr_ready_message E ready_msg
                (pending_usb_intr_msg_queue_id u) (ready_usb_intr_msg_queue_id u) u))
      else if ready_msg = usb_bulk_in_hand_down_msg E then
        let W1 = snd (ensure_initalized E
                   (W \<lparr> usb := (usb W) \<lparr> usb_bulk_in_hand_down_msg_pending := False \<rparr> \<rparr>))
        in rbind (reply_of_hand_down E ready_msg retval USBV0_IOCTLV_BLKMSG
                    (\<lambda>data s. rbind (hci_state_handle_acl_data_in_response_from_controller data s)
                       (\<lambda>data'. Inr (data', s))) W1)
             (on_usb (\<lambda>u. handle_bulk_intr_ready_message E ready_msg
                (pending_usb_bulk_in_msg_queue_id u) (ready_usb_bulk_in_msg_queue_id u) u))
      else
        let (r, u) = ack_message E ready_msg retval (usb W) in Inr (r, W \<lparr> usb := u \<rparr>))"

end
