(* ===== verification/Sample_World.thy ===== *)
theory Sample_World
  imports Fake_Wiimote_Mgr Sample_Ext
begin

text \<open>
  A small state of the whole module for the witnesses: one fake Wiimote connected with handle 9
  and assigned to the game controller in slot 0, one idle fake Wiimote, one empty slot.
\<close>

definition sample_channel :: "u16 \<Rightarrow> u16 \<Rightarrow> u16 \<Rightarrow> l2cap_channel_info" where
  "sample_channel psm local remote = \<lparr> chn_valid = True, chn_state = L2CAP_CHANNEL_STATE_COMPLETE,
     chn_psm = psm, chn_local_cid = local, chn_remote_cid = remote, chn_remote_mtu = 185 \<rparr>"

definition sample_wiimote :: fake_wiimote where
  "sample_wiimote = (fake_wiimote_init_state 0 fake_wiimote_zero) \<lparr>
     fw_active := True, fw_bdaddr := FAKE_WIIMOTE_BDADDR 0, fw_con_handle := 9,
     baseband_state := BASEBAND_STATE_COMPLETE,
     psm_hid_cntl_chn := sample_channel L2CAP_PSM_HID_CNTL 0x40 0x50,
     psm_hid_intr_chn := sample_channel L2CAP_PSM_HID_INTR 0x41 0x51,
     num_completed_acl_data_packets := 3 \<rparr>"

definition idle_wiimote :: fake_wiimote where
  "idle_wiimote = fake_wiimote_zero \<lparr> fw_bdaddr := FAKE_WIIMOTE_BDADDR 1 \<rparr>"

definition sample_slot :: input_device where
  "sample_slot = (attach_device sample_ext 7 sample_device input_device_zero)
     \<lparr> assigned_wiimote := Some 0 \<rparr>"

definition sample_world :: "sample_os world" where
  "sample_world = \<lparr> usb = sample_usb, hci = hci_state_initial, l2cap_starting_id = 0x42,
     fake_wiimotes = [sample_wiimote, idle_wiimote], input_devices = [sample_slot, input_device_zero],
     s_sensor_bar_position_top = False, egc_devices = (\<lambda>_. sample_device), orig_msg_queueid = 4,
     initialized = True \<rparr>"

lemma sample_world_sel [simp]:
  "usb sample_world = sample_usb" "hci sample_world = hci_state_initial"
  "fake_wiimotes sample_world = [sample_wiimote, idle_wiimote]"
  "input_devices sample_world = [sample_slot, input_device_zero]"
  "s_sensor_bar_position_top sample_world = False"
  "egc_devices sample_world = (\<lambda>_. sample_device)" "orig_msg_queueid sample_world = 4"
  "initialized sample_world = True"
  by (simp_all add: sample_world_def)

lemma init_state_sel [simp]:
  "fw_bdaddr (fake_wiimote_init_state i w) = fw_bdaddr w"
  "baseband_state (fake_wiimote_init_state i w) = BASEBAND_STATE_REQUEST_CONNECTION"
  "acl_state (fake_wiimote_init_state i w) = ACL_STATE_INACTIVE"
  "fake_wiimote.input_device (fake_wiimote_init_state i w) = Some i"
  "cur_extension (fake_wiimote_init_state i w) = WIIMOTE_EXT_NONE"
  "new_extension (fake_wiimote_init_state i w) = WIIMOTE_EXT_NONE"
  "eeprom (fake_wiimote_init_state i w) = eeprom_init"
  "reporting_mode (fake_wiimote_init_state i w) = INPUT_REPORT_ID_BTN"
  "reporting_continuous (fake_wiimote_init_state i w) = False"
  "fw_active (fake_wiimote_init_state i w) = fw_active w"
  "fw_buttons (fake_wiimote_init_state i w) = 0"
  "rr_size (fw_read_request (fake_wiimote_init_state i w)) = 0"
  "ir_regs (fake_wiimote_init_state i w) = replicate sizeof_ir_camera_registers 0"
  by (simp_all add: fake_wiimote_init_state_def Let_def fake_wiimote_reset_extension_state_def)

lemma sample_wiimote_sel [simp]:
  "fw_active sample_wiimote" "fw_con_handle sample_wiimote = 9"
  "fw_bdaddr sample_wiimote = FAKE_WIIMOTE_BDADDR 0"
  "baseband_state sample_wiimote = BASEBAND_STATE_COMPLETE"
  "acl_state sample_wiimote = ACL_STATE_INACTIVE"
  "fake_wiimote.input_device sample_wiimote = Some 0"
  "psm_hid_intr_chn sample_wiimote = sample_channel L2CAP_PSM_HID_INTR 0x41 0x51"
  "psm_hid_cntl_chn sample_wiimote = sample_channel L2CAP_PSM_HID_CNTL 0x40 0x50"
  "num_completed_acl_data_packets sample_wiimote = 3"
  "cur_extension sample_wiimote = WIIMOTE_EXT_NONE" "new_extension sample_wiimote = WIIMOTE_EXT_NONE"
  "eeprom sample_wiimote = eeprom_init" "fw_buttons sample_wiimote = 0"
  "ir_regs sample_wiimote = replicate sizeof_ir_camera_registers 0"
  "reporting_mode sample_wiimote = INPUT_REPORT_ID_BTN"
  "rr_size (fw_read_request sample_wiimote) = 0"
  by (simp_all add: sample_wiimote_def)

lemma idle_wiimote_sel [simp]:
  "\<not> fw_active idle_wiimote" "fw_bdaddr idle_wiimote = FAKE_WIIMOTE_BDADDR 1"
  "fake_wiimote.input_device idle_wiimote = None"
  by (simp_all add: idle_wiimote_def fake_wiimote_zero_def)

lemma sample_connected [simp]:
  "fake_wiimote_is_connected sample_wiimote" "\<not> fake_wiimote_is_connected idle_wiimote"
  by (simp_all add: fake_wiimote_is_connected_def)

lemma sample_slot_sel [simp]:
  "dev_device sample_slot = Some 7" "assigned_wiimote sample_slot = Some 0"
  "reconnect_delay sample_slot = 0" "dev_extension sample_slot = WIIMOTE_EXT_NUNCHUK"
  "dev_device input_device_zero = None" "assigned_wiimote input_device_zero = None"
  by (simp_all add: sample_slot_def attach_device_def input_device_zero_def)

end
