(* ===== verification/Pairing.thy ===== *)
theory Pairing
  imports Oh1_Hooks Sample_World
begin

text \<open>
  Which game controller drives which fake Wiimote.  The two static arrays point into each other:
  \<open>assigned_wiimote\<close> of a slot of \<open>source/input_device.c\<close> and \<open>input_device\<close> of a Wiimote of
  \<open>source/fake_wiimote.c\<close>.  The abstract state of both (\<open>links\<close>) is changed by five operations
  only, and every handler of the module is one of them, a sequence of them, or leaves it alone.
  What the handlers need of an invariant of the links is a contract (locale \<open>pairing_law\<close>) with two
  interpretations: \<open>pointed\<close>, which holds in every reachable state, and \<open>linked\<close>, which says that the
  pointers are inverse to each other and holds until the host rejects the connection of a Wiimote
  that is not active.
\<close>

section \<open>The abstract state\<close>

text \<open>Per Wiimote: active and its slot; per slot: its controller and the Wiimote it is assigned to.\<close>

type_synonym links = "(bool \<times> nat option) list \<times> (egc_ptr option \<times> nat option) list"

definition links :: "'os world \<Rightarrow> links" where
  "links W = (map (\<lambda>w. (fw_active w, fake_wiimote.input_device w)) (fake_wiimotes W),
              map (\<lambda>d. (dev_device d, assigned_wiimote d)) (input_devices W))"

text \<open>An active Wiimote has a slot with a controller that is assigned to it, and an assigned slot
  with a controller belongs to an active Wiimote that points back.\<close>

definition linked :: "links \<Rightarrow> bool" where
  "linked = (\<lambda>(ws, ds).
     (\<forall>j < length ws. fst (ws ! j) \<longrightarrow> snd (ws ! j) \<noteq> None \<and>
        (\<forall>i. snd (ws ! j) = Some i \<longrightarrow> i < length ds \<and> fst (ds ! i) \<noteq> None \<and> snd (ds ! i) = Some j)) \<and>
     (\<forall>i < length ds. fst (ds ! i) \<noteq> None \<longrightarrow>
        (\<forall>j. snd (ds ! i) = Some j \<longrightarrow> j < length ws \<and> fst (ws ! j) \<and> snd (ws ! j) = Some i)))"

text \<open>Releasing the slot of Wiimote \<open>j\<close> takes it from no other Wiimote.\<close>

definition own_slot :: "nat \<Rightarrow> links \<Rightarrow> bool" where
  "own_slot j = (\<lambda>(ws, ds). \<forall>i. snd (ws ! j) = Some i \<longrightarrow>
     fst (ws ! j) \<or> (i < length ds \<and> (fst (ds ! i) = None \<or> snd (ds ! i) = None)))"

definition release_link :: "nat \<Rightarrow> links \<Rightarrow> links" where
  "release_link j = (\<lambda>(ws, ds).
     (ws[j := (False, snd (ws ! j))],
      case snd (ws ! j) of None \<Rightarrow> ds | Some i \<Rightarrow> ds[i := (fst (ds ! i), None)]))"

definition assign_link :: "nat \<Rightarrow> nat \<Rightarrow> links \<Rightarrow> links" where
  "assign_link j i = (\<lambda>(ws, ds). (ws[j := (True, Some i)], ds[i := (fst (ds ! i), Some j)]))"

definition attach_link :: "nat \<Rightarrow> egc_ptr \<Rightarrow> links \<Rightarrow> links" where
  "attach_link i p = (\<lambda>(ws, ds). (ws, ds[i := (Some p, None)]))"

definition detach_link :: "nat \<Rightarrow> links \<Rightarrow> links" where
  "detach_link i = (\<lambda>(ws, ds).
     (case snd (ds ! i) of None \<Rightarrow> ws | Some j \<Rightarrow> ws[j := (False, None)],
      ds[i := (None, snd (ds ! i))]))"

lemma linkedI:
  assumes "\<And>j. j < length ws \<Longrightarrow> fst (ws ! j) \<Longrightarrow>
      \<exists>i. snd (ws ! j) = Some i \<and> i < length ds \<and> fst (ds ! i) \<noteq> None \<and> snd (ds ! i) = Some j"
    and "\<And>i j. i < length ds \<Longrightarrow> fst (ds ! i) \<noteq> None \<Longrightarrow> snd (ds ! i) = Some j \<Longrightarrow>
      j < length ws \<and> fst (ws ! j) \<and> snd (ws ! j) = Some i"
  shows "linked (ws, ds)"
  unfolding linked_def prod.case
proof (intro conjI allI impI, goal_cases)
  case (1 j)
  then show ?case using assms(1) by fastforce
next
  case (2 j i)
  then show ?case using assms(1) [of j] by auto
next
  case (3 j i)
  then show ?case using assms(1) [of j] by auto
next
  case (4 j i)
  then show ?case using assms(1) [of j] by auto
qed (use assms(2) in blast)+

lemma linkedD:
  assumes "linked (ws, ds)"
  shows "j < length ws \<Longrightarrow> fst (ws ! j) \<Longrightarrow>
      \<exists>i. snd (ws ! j) = Some i \<and> i < length ds \<and> fst (ds ! i) \<noteq> None \<and> snd (ds ! i) = Some j"
    and "i < length ds \<Longrightarrow> fst (ds ! i) \<noteq> None \<Longrightarrow> snd (ds ! i) = Some j \<Longrightarrow>
      j < length ws \<and> fst (ws ! j) \<and> snd (ws ! j) = Some i"
  using assms unfolding linked_def prod.case by blast+

lemma linked_release:
  assumes L: "linked (ws, ds)" and own: "own_slot j (ws, ds)" and j: "j < length ws"
  shows "linked (release_link j (ws, ds)) \<and> own_slot j (release_link j (ws, ds))"
proof (cases "snd (ws ! j)")
  case None
  then have "\<not> fst (ws ! j)" using linkedD(1) [OF L j] by auto
  then have "ws[j := (False, None)] = ws" using None by (metis list_update_id prod.collapse)
  then show ?thesis using None L own by (simp add: release_link_def)
next
  case (Some i)
  have i: "i < length ds" using linkedD(1) [OF L j] own Some by (auto simp: own_slot_def)
  have mine: "snd (ds ! i) = Some j \<or> snd (ds ! i) = None \<or> fst (ds ! i) = None"
    using linkedD(1) [OF L j] own Some by (auto simp: own_slot_def)
  have "linked (ws[j := (False, Some i)], ds[i := (fst (ds ! i), None)])"
  proof (rule linkedI, goal_cases)
    case (1 k)
    then have "k \<noteq> j" "k < length ws" "fst (ws ! k)" using j by (auto simp: nth_list_update split: if_splits)
    then obtain i' where i': "snd (ws ! k) = Some i'" "i' < length ds" "fst (ds ! i') \<noteq> None"
      "snd (ds ! i') = Some k"
      using linkedD(1) [OF L] by blast
    then have "i' \<noteq> i" using mine \<open>k \<noteq> j\<close> by auto
    with i' \<open>k \<noteq> j\<close> show ?case by simp
  next
    case (2 i' k)
    then have "i' \<noteq> i" "i' < length ds" using i by auto
    then have k: "k < length ws" "fst (ws ! k)" "snd (ws ! k) = Some i'"
      using 2 linkedD(2) [OF L, of i' k] by auto
    then have "k \<noteq> j" using Some \<open>i' \<noteq> i\<close> by auto
    with k show ?case by simp
  qed
  then show ?thesis using Some i j by (simp add: release_link_def own_slot_def)
qed

lemma linked_assign:
  assumes L: "linked (ws, ds)" and j: "j < length ws" "\<not> fst (ws ! j)"
    and i: "i < length ds" "fst (ds ! i) \<noteq> None" "snd (ds ! i) = None"
  shows "linked (assign_link j i (ws, ds))"
  unfolding assign_link_def prod.case
proof (rule linkedI, goal_cases)
  case (1 k)
  show ?case
  proof (cases "k = j")
    case False
    then have k: "k < length ws" "fst (ws ! k)" using 1 by simp_all
    from linkedD(1) [OF L k] i(3) show ?thesis using False by (metis nth_list_update_neq length_list_update option.distinct(1))
  qed (use i j in simp)
next
  case (2 i' k)
  show ?case
  proof (cases "i' = i")
    case False
    then have "k < length ws" "fst (ws ! k)" "snd (ws ! k) = Some i'"
      using 2 linkedD(2) [OF L, of i' k] by simp_all
    then show ?thesis using j(2) by (cases "k = j") simp_all
  qed (use 2 i j in simp)
qed

lemma linked_attach:
  assumes L: "linked (ws, ds)" and i: "i < length ds" "fst (ds ! i) = None"
  shows "linked (attach_link i p (ws, ds))"
  unfolding attach_link_def prod.case
proof (rule linkedI, goal_cases)
  case (1 k)
  then show ?case using linkedD(1) [OF L, of k] i by (metis length_list_update nth_list_update_neq)
next
  case (2 i' k)
  then have "i' \<noteq> i" using i by auto
  then show ?case using 2 linkedD(2) [OF L, of i' k] by simp
qed

lemma linked_detach:
  assumes L: "linked (ws, ds)" and i: "i < length ds" "fst (ds ! i) \<noteq> None"
  shows "linked (detach_link i (ws, ds))"
  unfolding detach_link_def prod.case
proof (rule linkedI, goal_cases)
  case (1 k)
  have "j < length ws" if "snd (ds ! i) = Some j" for j using linkedD(2) [OF L i that] by simp
  then have k: "k < length ws" "fst (ws ! k)" "snd (ds ! i) \<noteq> Some k"
    using 1 by (auto simp: nth_list_update split: option.splits if_splits)
  then obtain i' where i': "snd (ws ! k) = Some i'" "i' < length ds" "fst (ds ! i') \<noteq> None"
    "snd (ds ! i') = Some k"
    using linkedD(1) [OF L] by blast
  with k(3) have "i' \<noteq> i" by auto
  with i' k show ?case by (auto simp: nth_list_update split: option.splits)
next
  case (2 i' k)
  then have "i' \<noteq> i" "i' < length ds" using i by auto
  then have k: "k < length ws" "fst (ws ! k)" "snd (ws ! k) = Some i'"
    using 2 linkedD(2) [OF L, of i' k] by auto
  moreover have "snd (ds ! i) \<noteq> Some k" using linkedD(2) [OF L i, of k] k \<open>i' \<noteq> i\<close> by auto
  ultimately show ?case by (auto simp: nth_list_update split: option.splits)
qed

text \<open>
  Releasing the slot of an idle Wiimote can take it from the Wiimote that uses it by then.  The
  part of the consistency that survives even that: a slot with a controller that is assigned
  belongs to an active Wiimote that points back, so no slot is used by two Wiimotes and no
  Wiimote by two slots.
\<close>

definition pointed :: "links \<Rightarrow> bool" where
  "pointed = (\<lambda>(ws, ds). \<forall>i < length ds. \<forall>j. fst (ds ! i) \<noteq> None \<and> snd (ds ! i) = Some j \<longrightarrow>
     j < length ws \<and> fst (ws ! j) \<and> snd (ws ! j) = Some i)"

lemma pointedI:
  assumes "\<And>i j. i < length ds \<Longrightarrow> fst (ds ! i) \<noteq> None \<Longrightarrow> snd (ds ! i) = Some j \<Longrightarrow>
      j < length ws \<and> fst (ws ! j) \<and> snd (ws ! j) = Some i"
  shows "pointed (ws, ds)"
  using assms by (auto simp: pointed_def)

lemma pointedD:
  "pointed (ws, ds) \<Longrightarrow> i < length ds \<Longrightarrow> fst (ds ! i) \<noteq> None \<Longrightarrow> snd (ds ! i) = Some j \<Longrightarrow>
   j < length ws \<and> fst (ws ! j) \<and> snd (ws ! j) = Some i"
  by (auto simp: pointed_def)

lemma linked_pointed: "linked l \<Longrightarrow> pointed l"
  by (cases l) (auto intro!: pointedI dest: linkedD(2))

lemma pointed_release:
  assumes L: "pointed (ws, ds)"
  shows "pointed (release_link j (ws, ds))"
proof (cases "snd (ws ! j)")
  case None
  show ?thesis unfolding release_link_def prod.case None option.case
  proof (rule pointedI, goal_cases)
    case (1 i k)
    then show ?case using pointedD [OF L, of i k] None by (cases "k = j") auto
  qed
next
  case (Some i)
  show ?thesis unfolding release_link_def prod.case Some option.case
  proof (rule pointedI, goal_cases)
    case (1 i' k)
    then have "i' \<noteq> i" "i' < length ds" by (auto simp: nth_list_update)
    then show ?case using 1 pointedD [OF L, of i' k] Some by (cases "k = j") auto
  qed
qed

lemma pointed_assign:
  assumes L: "pointed (ws, ds)" and j: "j < length ws" "\<not> fst (ws ! j)"
  shows "pointed (assign_link j i (ws, ds))"
  unfolding assign_link_def prod.case
proof (rule pointedI, goal_cases)
  case (1 i' k)
  then show ?case using j pointedD [OF L, of i' k] by (cases "i' = i"; cases "k = j") auto
qed

lemma pointed_attach: "pointed (ws, ds) \<Longrightarrow> pointed (attach_link i p (ws, ds))"
  unfolding attach_link_def prod.case
  by (rule pointedI) (metis length_list_update nth_list_update_eq nth_list_update_neq option.distinct(1) pointedD snd_conv)

lemma pointed_detach:
  assumes L: "pointed (ws, ds)" and i: "i < length ds" "fst (ds ! i) \<noteq> None"
  shows "pointed (detach_link i (ws, ds))"
  unfolding detach_link_def prod.case
proof (rule pointedI, goal_cases)
  case (1 i' k)
  then have "i' \<noteq> i" "i' < length ds" using i by auto
  then have k: "k < length ws" "fst (ws ! k)" "snd (ws ! k) = Some i'"
    using 1 pointedD [OF L, of i' k] by auto
  moreover have "snd (ds ! i) \<noteq> Some k" using pointedD [OF L i, of k] k \<open>i' \<noteq> i\<close> by auto
  ultimately show ?case by (auto simp: nth_list_update split: option.splits)
qed

section \<open>The contract of the pairing\<close>

text \<open>
  What the handlers need of a property of the links to preserve it.  \<open>own j\<close> is what they must
  know before they release the slot of Wiimote \<open>j\<close>; it holds of every active Wiimote.
\<close>

locale pairing_law =
  fixes P :: "links \<Rightarrow> bool" and own :: "nat \<Rightarrow> links \<Rightarrow> bool"
  assumes released: "P (ws, ds) \<Longrightarrow> own j (ws, ds) \<Longrightarrow> j < length ws \<Longrightarrow>
      P (release_link j (ws, ds)) \<and> own j (release_link j (ws, ds))"
    and assigned: "P (ws, ds) \<Longrightarrow> j < length ws \<Longrightarrow> \<not> fst (ws ! j) \<Longrightarrow> i < length ds \<Longrightarrow>
      fst (ds ! i) \<noteq> None \<Longrightarrow> snd (ds ! i) = None \<Longrightarrow> P (assign_link j i (ws, ds))"
    and attached: "P (ws, ds) \<Longrightarrow> i < length ds \<Longrightarrow> fst (ds ! i) = None \<Longrightarrow> P (attach_link i p (ws, ds))"
    and detached: "P (ws, ds) \<Longrightarrow> i < length ds \<Longrightarrow> fst (ds ! i) \<noteq> None \<Longrightarrow> P (detach_link i (ws, ds))"
    and active_owns: "j < length ws \<Longrightarrow> fst (ws ! j) \<Longrightarrow> own j (ws, ds)"
    and idle_links: "\<forall>j < length ws. \<not> fst (ws ! j) \<Longrightarrow> \<forall>i < length ds. fst (ds ! i) = None \<Longrightarrow> P (ws, ds)"

interpretation pair: pairing_law linked own_slot
proof (unfold_locales, goal_cases)
  case (1 ws ds j)
  then show ?case by (rule linked_release)
next
  case (2 ws ds j i)
  then show ?case by (rule linked_assign)
next
  case (3 ws ds i p)
  then show ?case by (rule linked_attach)
next
  case (4 ws ds i)
  then show ?case by (rule linked_detach)
next
  case (5 j ws ds)
  then show ?case by (simp add: own_slot_def)
next
  case (6 ws ds)
  then show ?case by (intro linkedI) auto
qed

interpretation point: pairing_law pointed "\<lambda>_ _. True"
proof (unfold_locales, goal_cases)
  case (1 ws ds j)
  then show ?case by (simp add: pointed_release)
next
  case (2 ws ds j i)
  then show ?case by (simp add: pointed_assign)
next
  case (3 ws ds i p)
  then show ?case by (simp add: pointed_attach)
next
  case (4 ws ds i)
  then show ?case by (simp add: pointed_detach)
next
  case (6 ws ds)
  then show ?case by (intro pointedI) auto
qed simp

section \<open>What leaves the links alone\<close>

definition keeps :: "fake_wiimote \<Rightarrow> fake_wiimote \<Rightarrow> bool" where
  "keeps w w' \<longleftrightarrow> fw_active w' = fw_active w \<and> fake_wiimote.input_device w' = fake_wiimote.input_device w"

lemma keeps_refl [simp]: "keeps w w"
  by (simp add: keeps_def)

lemma map_update_same: "(j < length xs \<Longrightarrow> f y = f (xs ! j)) \<Longrightarrow> map f (xs[j := y]) = map f xs"
  by (cases "j < length xs") (simp_all add: map_update list_update_beyond, metis list_update_id nth_map)

lemma links_upd_wm [simp]:
  "(\<And>w. keeps w (f w)) \<Longrightarrow> links (upd_wm j f W) = links W"
  by (simp add: links_def upd_wm_def map_update_same keeps_def)

lemma links_upd_wm_at:
  "keeps (fake_wiimotes W ! j) (f (fake_wiimotes W ! j)) \<Longrightarrow> links (upd_wm j f W) = links W"
  by (simp add: links_def upd_wm_def map_update_same keeps_def)

lemma links_upd_dev_at:
  "dev_device (f (input_devices W ! i)) = dev_device (input_devices W ! i) \<Longrightarrow>
   assigned_wiimote (f (input_devices W ! i)) = assigned_wiimote (input_devices W ! i) \<Longrightarrow>
   links (upd_dev i f W) = links W"
  by (simp add: links_def upd_dev_def map_update_same)

lemma links_simps [simp]:
  "links (W \<lparr> usb := u \<rparr>) = links W" "links (W \<lparr> hci := s \<rparr>) = links W"
  "links (W \<lparr> l2cap_starting_id := n \<rparr>) = links W" "links (W \<lparr> egc_devices := g \<rparr>) = links W"
  "links (W \<lparr> initialized := b \<rparr>) = links W"
  "links (snd (egc_call f W)) = links W"
  by (simp_all add: links_def egc_call_def split: prod.splits)

lemma links_on_usb: "on_usb f W = Inr (r, W') \<Longrightarrow> links W' = links W"
  by (auto simp: on_usb_def result_simps)

lemma links_inject_ok: "inject_ok E f W = Inr W' \<Longrightarrow> links W' = links W"
  by (auto simp: inject_ok_def result_simps dest: links_on_usb)

lemma links_on_wm:
  assumes "on_wm f j W = Inr (r, W')" and "\<And>w u r w' u'. f w u = Inr (r, w', u') \<Longrightarrow> keeps w w'"
  shows "links W' = links W"
  using assms by (auto simp: on_wm_def result_simps intro!: links_upd_wm_at)

lemma links_on_wm_state:
  assumes "on_wm_state f j W = Inr W'" and "\<And>w u w' u'. f w u = Inr (w', u') \<Longrightarrow> keeps w w'"
  shows "links W' = links W"
  using assms(1) assms(2)
  by (auto simp: on_wm_state_def result_simps dest!: links_on_wm)

lemma links_ack_if: "ack_if E b rpt err j W = Inr W' \<Longrightarrow> links W' = links W"
  by (auto simp: ack_if_def ignore_ret_def result_simps dest: links_on_usb split: if_splits)

lemma keeps_upd_chn [simp]: "keeps w (upd_chn c f w)"
  by (cases c) (simp_all add: keeps_def)

lemma keeps_extension_read: "extension_read_data E w a n = Inr (r, w') \<Longrightarrow> keeps w w'"
  by (drule extension_read_state) (auto simp: keeps_def)

lemma keeps_read_request:
  assumes "fake_wiimote_process_read_request E w u = Inr (b, w', u')"
  shows "keeps w w'"
proof -
  have r: "keeps w w1" if "read_request_data E n w = Inr (e, d, w1)" for n e d w1
    using that by (auto simp: read_request_data_def reply_block_def Let_def result_simps
        split: if_splits option.splits prod.splits dest!: keeps_extension_read)
  have a: "keeps w (snd (advance_read_request e n w1))" if "keeps w w1" for e n w1
    using that by (simp add: advance_read_request_def Let_def keeps_def)
  show ?thesis
  proof (cases "rr_size (fw_read_request w) = 0")
    case True
    then show ?thesis using assms by (simp add: fake_wiimote_process_read_request_def)
  next
    case False
    define n where "n = min 16 (unat (rr_size (fw_read_request w)))"
    have "n \<noteq> 0" using False by (simp add: n_def unat_gt_0)
    then obtain e d w1 where d: "read_request_data E n w = Inr (e, d, w1)"
      and "w' = snd (advance_read_request e n w1)"
      using assms by (auto simp: fake_wiimote_process_read_request_def Let_def result_simps
          n_def [symmetric] case_prod_beta')
    then show ?thesis using a [OF r [OF d]] by simp
  qed
qed

lemma keeps_reset_extension [simp]: "keeps w (fake_wiimote_reset_extension_state w)"
  by (simp add: fake_wiimote_reset_extension_state_def Let_def keeps_def)

lemma keeps_extension_change:
  "fake_wiimote_process_extension_change E w u = Inr (b, w', u') \<Longrightarrow> keeps w w'"
  by (auto simp: fake_wiimote_process_extension_change_def extension_change_def Let_def result_simps
      keeps_def fake_wiimote_reset_extension_state_def split: if_splits)

lemma keeps_build: "build_data_report E buf w = Inr (data, w') \<Longrightarrow> keeps w w'"
  by (fastforce simp: build_data_report_def Let_def result_simps dest: keeps_extension_read
      split: if_splits prod.splits)

lemma keeps_data_report: "fake_wiimote_send_data_report E w u = Inr (w', u') \<Longrightarrow> keeps w w'"
  using keeps_build [of E _ w]
  by (fastforce simp: fake_wiimote_send_data_report_def result_simps keeps_def split: if_splits)

lemma keeps_config:
  "check_send_config_for_new_channel E c w u = Inr (w', u') \<Longrightarrow> keeps w w'"
  "handle_l2cap_config_req E ident dcid flags options n w u = Inr (w', u') \<Longrightarrow> keeps w w'"
  by (auto simp: check_send_config_for_new_channel_def handle_l2cap_config_req_def Let_def result_simps
      split: if_splits option.splits)

lemma keeps_writes:
  "eeprom_write_data w src a n = Inr (Some w') \<Longrightarrow> keeps w w'"
  "ir_camera_write_data w src a n = Inr (Some w') \<Longrightarrow> keeps w w'"
  "extension_write_data w src a n = Inr (Some w') \<Longrightarrow> keeps w w'"
  by (auto simp: eeprom_write_data_def ir_camera_write_data_def extension_write_data_def Let_def
      result_simps keeps_def split: if_splits)

lemma keeps_write_block:
  assumes "\<And>w src a n w'. wr w src a n = Inr (Some w') \<Longrightarrow> keeps w w'"
    and "write_block wr c w req n = Inr (e, w')"
  shows "keeps w w'"
  using assms(2) by (auto simp: write_block_def result_simps split: option.splits dest: assms(1))

lemma keeps_write_data: "write_request_data w req n = Inr (e, w') \<Longrightarrow> keeps w w'"
  by (auto simp: write_request_data_def Let_def result_simps split: if_splits
      elim!: keeps_write_block [rotated] dest: keeps_writes)

lemma keeps_write_request:
  "fake_wiimote_process_write_request E req w u = Inr (w', u') \<Longrightarrow> keeps w w'"
  by (auto simp: fake_wiimote_process_write_request_def result_simps split: if_splits
      dest: keeps_write_data)

section \<open>Disconnection and the signalling channel\<close>

lemma links_release:
  assumes "input_device_release_wiimote E i W = Inr W'"
  shows "links W' = (fst (links W), (snd (links W))[i := (fst (snd (links W) ! i), None)])"
    and "i < length (input_devices W)"
  using assms
  by (auto simp: input_device_release_wiimote_def result_simps links_def upd_dev_def map_update)

lemma links_disconnect:
  assumes "fake_wiimote_disconnect E j W = Inr (r, W')"
  shows "links W' = release_link j (links W)"
proof -
  obtain W2 where j: "j < length (fake_wiimotes W)"
    and W2: "(case fake_wiimote.input_device (fake_wiimotes W ! j) of
        None \<Rightarrow> Inr (upd_wm j (\<lambda>w. w \<lparr> fw_active := False \<rparr>) W)
      | Some i \<Rightarrow> input_device_release_wiimote E i (upd_wm j (\<lambda>w. w \<lparr> fw_active := False \<rparr>) W)) = Inr W2"
    and W': "links W' = links W2"
    using assms by (auto simp: fake_wiimote_disconnect_def Let_def result_simps
        split: if_splits dest!: links_on_usb)
  have "links (upd_wm j (\<lambda>w. w \<lparr> fw_active := False \<rparr>) W) =
      ((fst (links W))[j := (False, fake_wiimote.input_device (fake_wiimotes W ! j))], snd (links W))"
    by (simp add: links_def upd_wm_def map_update)
  then show ?thesis
    using W2 W'
    by (cases "fake_wiimote.input_device (fake_wiimotes W ! j)")
       (use j in \<open>auto simp: release_link_def links_def dest: links_release(1)\<close>)
qed

definition link_ok :: "(links \<Rightarrow> bool) \<Rightarrow> (nat \<Rightarrow> links \<Rightarrow> bool) \<Rightarrow> nat \<Rightarrow> 'os world \<Rightarrow> bool" where
  "link_ok P own j W \<longleftrightarrow> P (links W) \<and> own j (links W) \<and> j < length (fake_wiimotes W)"

lemma links_length: "links W' = links W \<Longrightarrow> length (fake_wiimotes W') = length (fake_wiimotes W)"
  by (drule arg_cong [where f = "\<lambda>l. length (fst l)"]) (simp add: links_def)

lemma links_config_rsp: "handle_l2cap_config_rsp j payload W = Inr W' \<Longrightarrow> links W' = links W"
  by (auto simp: handle_l2cap_config_rsp_def result_simps split: option.splits)

lemma links_disconnect_req:
  "handle_l2cap_disconnect_req E j ident payload W = Inr W' \<Longrightarrow> links W' = links W"
  by (auto simp: handle_l2cap_disconnect_req_def ignore_ret_def result_simps split: option.splits)
    (drule links_on_usb, simp)

context pairing_law
begin

lemma link_ok_same: "link_ok P own j W \<Longrightarrow> links W' = links W \<Longrightarrow> link_ok P own j W'"
  using links_length [of W' W] by (simp add: link_ok_def)

lemma link_ok_disconnect:
  assumes "link_ok P own j W" and "fake_wiimote_disconnect E j W = Inr (r, W')"
  shows "link_ok P own j W'"
proof -
  have l: "length (fst (links V)) = length (fake_wiimotes V)" for V :: "'a world" by (simp add: links_def)
  have "length (fake_wiimotes W') = length (fake_wiimotes W)"
    using l [of W'] l [of W] links_disconnect [OF assms(2)] by (simp add: release_link_def case_prod_beta)
  then show ?thesis
    using assms(1) links_disconnect [OF assms(2)] l [of W]
      released [of "fst (links W)" "snd (links W)" j]
    by (simp add: link_ok_def)
qed

lemma link_ok_connect_rsp:
  "link_ok P own j W \<Longrightarrow> handle_l2cap_connect_rsp E j payload W = Inr W' \<Longrightarrow> link_ok P own j W'"
  using link_ok_disconnect [of j W E] link_ok_same [of j W W']
  by (auto simp: handle_l2cap_connect_rsp_def ignore_ret_def result_simps split: if_splits option.splits)

lemma link_ok_signal:
  assumes "link_ok P own j W" and "handle_l2cap_signal_channel E j code ident payload sz W = Inr W'"
  shows "link_ok P own j W'"
proof -
  have c: "links W1 = links W"
    if "on_wm_state (handle_l2cap_config_req E ident dcid flags options n) j W = Inr W1" for dcid flags options n W1
    using that by (rule links_on_wm_state) (rule keeps_config(2))
  show ?thesis
    using assms c [THEN link_ok_same [OF assms(1)]] link_ok_connect_rsp [OF assms(1)]
      links_config_rsp [THEN link_ok_same [OF assms(1)]] links_disconnect_req [THEN link_ok_same [OF assms(1)]]
    by (auto simp: handle_l2cap_signal_channel_def result_simps split: if_splits)
qed

lemma link_ok_signal_request:
  "link_ok P own j W \<Longrightarrow> handle_l2cap_signal_channel_request E j data len W = Inr W' \<Longrightarrow> link_ok P own j W'"
proof (induction E j data len W arbitrary: W' rule: handle_l2cap_signal_channel_request.induct)
  case (1 E j data len W)
  show ?case
    using "1.prems" "1.IH" link_ok_signal
    by (subst (asm) handle_l2cap_signal_channel_request.simps)
       (auto simp: result_simps split: if_splits, blast)
qed

end

section \<open>Output reports and ACL data\<close>

lemma links_egc:
  "input_device_set_rumble E i on W = Inr (r, W') \<Longrightarrow> links W' = links W"
  "input_device_set_leds E i n W = Inr (r, W') \<Longrightarrow> links W' = links W"
  "input_device_resume E i W = Inr (r, W') \<Longrightarrow> links W' = links W"
  by (auto simp: input_device_set_rumble_def input_device_set_leds_def input_device_resume_def
      result_simps) (metis links_simps(6) snd_conv)+

lemma links_field [simp]:
  "links (upd_wm j (\<lambda>w. w \<lparr> rumble_on := a \<rparr>) W) = links W"
  "links (upd_wm j (\<lambda>w. w \<lparr> status_leds := l \<rparr>) W) = links W"
  "links (upd_wm j (\<lambda>w. w \<lparr> status_ir := b \<rparr>) W) = links W"
  "links (upd_wm j (\<lambda>w. w \<lparr> reporting_mode := m, reporting_continuous := c \<rparr>) W) = links W"
  "links (upd_wm j (\<lambda>w. w \<lparr> fw_read_request := q \<rparr>) W) = links W"
  "links (upd_wm j (\<lambda>w. w \<lparr> num_completed_acl_data_packets := f w \<rparr>) W) = links W"
  "links (upd_wm j (\<lambda>w. w \<lparr> acl_state := s \<rparr>) W) = links W"
  "links (upd_wm j (\<lambda>w. w \<lparr> baseband_state := t \<rparr>) W) = links W"
  by (simp_all add: keeps_def)

lemma links_chn [simp]: "links (upd_wm j (upd_chn ch g) W) = links W"
  by (rule links_upd_wm) simp

lemma links_rumble:
  assumes "fake_wiimote_update_rumble E j on W = Inr W'"
  shows "links W' = links W"
  using assms
  by (auto simp: fake_wiimote_update_rumble_def ignore_ret_def result_simps split: if_splits
      dest!: links_egc(1))

lemma links_reports:
  "output_report_led E j data W = Inr W' \<Longrightarrow> links W' = links W"
  "output_report_mode E j data W = Inr W' \<Longrightarrow> links W' = links W"
  "output_report_ir_enable E j data W = Inr W' \<Longrightarrow> links W' = links W"
  "output_report_feature E r j data W = Inr W' \<Longrightarrow> links W' = links W"
  "output_report_read_data E j data W = Inr W' \<Longrightarrow> links W' = links W"
proof -
  show "links W' = links W" if "output_report_led E j data W = Inr W'"
    using that by (auto simp: output_report_led_def Let_def result_simps dest!: links_ack_if links_egc(2))
  show "links W' = links W" if "output_report_mode E j data W = Inr W'"
    using that by (auto simp: output_report_mode_def result_simps dest!: links_ack_if)
  show "links W' = links W" if "output_report_ir_enable E j data W = Inr W'"
    using that by (auto simp: output_report_ir_enable_def result_simps dest!: links_ack_if)
  show "links W' = links W" if "output_report_feature E r j data W = Inr W'"
    using that by (auto simp: output_report_feature_def result_simps dest!: links_ack_if)
  have c: "links W2 = links W1"
    if "on_wm (fake_wiimote_process_read_request E) j W1 = Inr (b, W2)" for b and W1 W2 :: "'a world"
    using that by (rule links_on_wm) (rule keeps_read_request)
  show "links W' = links W" if "output_report_read_data E j data W = Inr W'"
    using that
    by (auto simp: output_report_read_data_def ignore_ret_def result_simps split: if_splits
        dest!: links_ack_if c)
qed

lemma links_hid_output:
  assumes "handle_hid_intr_data_output E j data sz W = Inr W'"
  shows "links W' = links W"
proof (cases "sz = 0")
  case False
  then obtain W1 on b where r: "fake_wiimote_update_rumble E j on W = Inr W1" and
    rest: "(if b = OUTPUT_REPORT_ID_RUMBLE then Inr W1
          else if b = OUTPUT_REPORT_ID_LED then output_report_led E j data W1
          else if b = OUTPUT_REPORT_ID_REPORT_MODE then output_report_mode E j data W1
          else if b = OUTPUT_REPORT_ID_IR_ENABLE then output_report_ir_enable E j data W1
          else if b = OUTPUT_REPORT_ID_SPEAKER_ENABLE then
            output_report_feature E OUTPUT_REPORT_ID_SPEAKER_ENABLE j data W1
          else if b = OUTPUT_REPORT_ID_STATUS then
            rbind (at (fake_wiimotes W1) j) (\<lambda>w.
              ignore_ret (on_usb (wiimote_send_input_report_status E w) W1))
          else if b = OUTPUT_REPORT_ID_WRITE_DATA then
            on_wm_state (fake_wiimote_process_write_request E (drop 1 data)) j W1
          else if b = OUTPUT_REPORT_ID_READ_DATA then output_report_read_data E j data W1
          else if b = OUTPUT_REPORT_ID_SPEAKER_DATA then Inr W1
          else if b = OUTPUT_REPORT_ID_SPEAKER_MUTE then
            output_report_feature E OUTPUT_REPORT_ID_SPEAKER_MUTE j data W1
          else if b = OUTPUT_REPORT_ID_IR_ENABLE2 then
            output_report_feature E OUTPUT_REPORT_ID_IR_ENABLE2 j data W1
          else Inl Assert_Failed) = Inr W'"
    using assms
    unfolding handle_hid_intr_data_output_def if_not_P [OF False] rbind_eq_Inr by blast
  have W1: "links W1 = links W" using r by (rule links_rumble)
  have wr: "links W' = links W1"
    if "on_wm_state (fake_wiimote_process_write_request E (drop 1 data)) j W1 = Inr W'"
    using that by (rule links_on_wm_state) (rule keeps_write_request)
  have st: "links W' = links W1"
    if "rbind (at (fake_wiimotes W1) j) (\<lambda>w.
          ignore_ret (on_usb (wiimote_send_input_report_status E w) W1)) = Inr W'"
    using that by (auto simp: ignore_ret_def result_simps dest: links_on_usb)
  show ?thesis
    using rest W1 by (auto split: if_splits dest!: links_reports wr st simp del: One_nat_def)
qed (use assms in \<open>simp add: handle_hid_intr_data_output_def\<close>)

context pairing_law
begin

lemma link_ok_acl:
  assumes ok: "link_ok P own j W"
    and run: "fake_wiimote_handle_acl_data_out_request_from_host E j acl W = Inr W'"
  shows "link_ok P own j W'"
proof -
  define W1 where "W1 = upd_wm j (\<lambda>w. w \<lparr> num_completed_acl_data_packets :=
                 num_completed_acl_data_packets w + 1 \<rparr>) W"
  have ok1: "link_ok P own j W1" using ok by (rule link_ok_same) (simp add: W1_def)
  have "W' = W1 \<or> (\<exists>data len. handle_l2cap_signal_channel_request E j data len W1 = Inr W')
      \<or> (\<exists>data len. handle_hid_intr_data_output E j data len W1 = Inr W')"
    using run
    by (auto simp: fake_wiimote_handle_acl_data_out_request_from_host_def Let_def result_simps
        W1_def [symmetric] split: if_splits option.splits)
  then show ?thesis
    using ok1 link_ok_signal_request links_hid_output link_ok_same by blast
qed

end

section \<open>The periodic tick\<close>

lemma links_request_connection: "tick_request_connection E j W = Inr W' \<Longrightarrow> links W' = links W"
  by (auto simp: tick_request_connection_def result_simps dest!: links_on_usb split: if_splits)

lemma links_open_channel: "open_channel E psm c j W = Inr W' \<Longrightarrow> links W' = links W"
  by (auto simp: open_channel_def generate_l2cap_channel_id_def result_simps dest!: links_inject_ok)

lemma links_send_configs:
  "rbind (on_wm_state (check_send_config_for_new_channel E c) j W)
     (on_wm_state (check_send_config_for_new_channel E c') j) = Inr W' \<Longrightarrow> links W' = links W"
  by (auto simp: rbind_eq_Inr dest!: links_on_wm_state [OF _ keeps_config(1)])

lemma links_linking:
  assumes "tick_linking E j W = Inr W'"
  shows "links W' = links W"
proof -
  define send where "send = (\<lambda>W1. rbind (on_wm_state (check_send_config_for_new_channel E HID_Cntl_Chn) j W1)
             (on_wm_state (check_send_config_for_new_channel E HID_Intr_Chn) j))"
  have s: "links W2 = links W1" if "send W1 = Inr W2" for W1 W2
    using that unfolding send_def by (rule links_send_configs)
  show ?thesis
    using assms
    by (auto simp: tick_linking_def Let_def send_def [symmetric] ignore_ret_def result_simps
        split: if_splits dest!: s links_open_channel links_egc(3))
qed

lemma links_report_sample:
  assumes "report_sample E bar dots device d w = Inr (b, d', w')"
  shows "keeps w w' \<and> dev_device d' = dev_device d \<and> assigned_wiimote d' = assigned_wiimote d"
proof -
  have a: "keeps w (report_extension E btns gp d4 (fake_wiimote_report_ir_dots dots w1))"
    if "keeps w w1" for btns gp d4 dots w1
    using that by (simp add: report_extension_def fake_wiimote_report_ir_dots_def Let_def keeps_def
        fake_wiimote_report_input_def fake_wiimote_report_input_ext_def split: wiimote_ext.split)
  have e: "dev_device d4 = dev_device d3 \<and> assigned_wiimote d4 = assigned_wiimote d3"
    if "emulate_ir E bar dots gp d3 = Inr (ds, d4)" for gp d3 ds d4
    using that by (auto simp: emulate_ir_def result_simps
        split: bm_ir_emulation_mode.splits prod.splits)
  show ?thesis
    using assms a e
    by (fastforce simp: report_sample_def Let_def result_simps switch_ir_mode_def
        fake_wiimote_set_extension_def fake_wiimote_report_accelerometer_def keeps_def
        split: prod.splits if_splits)
qed

lemma links_report_input:
  assumes "input_device_report_input E i W = Inr (b, W')"
  shows "links W' = links W"
proof -
  obtain d p j w d' w' where
    r: "report_sample E (s_sensor_bar_position_top W)
          (stack_dots (stack_bytes E 16 (os_state (usb W)))) (egc_devices W p)
          (input_devices W ! i) (fake_wiimotes W ! j) = Inr (b, d', w')"
    and W': "W' = upd_wm j (\<lambda>_. w') (upd_dev i (\<lambda>_. d') W)"
    using assms by (auto simp: input_device_report_input_def result_simps)
  have "links (upd_dev i (\<lambda>_. d') W) = links W"
    using links_report_sample [OF r] by (intro links_upd_dev_at) simp_all
  moreover have "links W' = links (upd_dev i (\<lambda>_. d') W)"
    unfolding W' by (rule links_upd_wm_at) (use links_report_sample [OF r] in \<open>simp add: upd_dev_def\<close>)
  ultimately show ?thesis by simp
qed

lemma tick_connected_cases:
  assumes "tick_connected E j W = Inr W'"
  obtains (Read) "on_wm (fake_wiimote_process_read_request E) j W = Inr (True, W')"
    | (Extension) W1 where "on_wm (fake_wiimote_process_read_request E) j W = Inr (False, W1)"
        and "on_wm (fake_wiimote_process_extension_change E) j W1 = Inr (True, W')"
    | (Sample) W1 W2 i send W3 where "on_wm (fake_wiimote_process_read_request E) j W = Inr (False, W1)"
        and "on_wm (fake_wiimote_process_extension_change E) j W1 = Inr (False, W2)"
        and "input_device_report_input E i W2 = Inr (send, W3)"
        and "(if send then on_wm_state (fake_wiimote_send_data_report E) j W3 else Inr W3) = Inr W'"
proof -
  obtain busy W1 where W1: "on_wm (fake_wiimote_process_read_request E) j W = Inr (busy, W1)"
    and r1: "(if busy then Inr W1
     else
       rbind (on_wm (fake_wiimote_process_extension_change E) j W1) (\<lambda>(changed, W2).
       if changed then Inr W2
       else
         rbind (at (fake_wiimotes W2) j) (\<lambda>w.
         rbind (deref (fake_wiimote.input_device w)) (\<lambda>i.
         rbind (input_device_report_input E i W2) (\<lambda>(send, W3).
         if send then on_wm_state (fake_wiimote_send_data_report E) j W3 else Inr W3))))) = Inr W'"
    using assms unfolding tick_connected_def rbind_eq_Inr by auto
  show ?thesis
  proof (cases busy)
    case True
    then show ?thesis using r1 W1 that(1) by simp
  next
    case busy: False
    then obtain changed W2 where W2: "on_wm (fake_wiimote_process_extension_change E) j W1 = Inr (changed, W2)"
      and r2: "(if changed then Inr W2
       else
         rbind (at (fake_wiimotes W2) j) (\<lambda>w.
         rbind (deref (fake_wiimote.input_device w)) (\<lambda>i.
         rbind (input_device_report_input E i W2) (\<lambda>(send, W3).
         if send then on_wm_state (fake_wiimote_send_data_report E) j W3 else Inr W3)))) = Inr W'"
      using r1 by (cases "on_wm (fake_wiimote_process_extension_change E) j W1") auto
    show ?thesis
    proof (cases changed)
      case True
      then show ?thesis using r2 W1 W2 busy that(2) by simp
    next
      case False
      then obtain i send W3 where "input_device_report_input E i W2 = Inr (send, W3)"
        and "(if send then on_wm_state (fake_wiimote_send_data_report E) j W3 else Inr W3) = Inr W'"
        using r2 unfolding if_not_P [OF False] rbind_eq_Inr by auto
      then show ?thesis using W1 W2 busy False that(3) by simp
    qed
  qed
qed

lemma links_connected:
  assumes "tick_connected E j W = Inr W'"
  shows "links W' = links W"
proof -
  have a: "links W2 = links W1"
    if "on_wm (fake_wiimote_process_read_request E) j W1 = Inr (b, W2)" for b and W1 W2 :: "'a world"
    using that by (rule links_on_wm) (rule keeps_read_request)
  have c: "links W2 = links W1"
    if "on_wm (fake_wiimote_process_extension_change E) j W1 = Inr (b, W2)" for b and W1 W2 :: "'a world"
    using that by (rule links_on_wm) (rule keeps_extension_change)
  have d: "links W2 = links W1"
    if "on_wm_state (fake_wiimote_send_data_report E) j W1 = Inr W2" for W1 W2 :: "'a world"
    using that by (rule links_on_wm_state) (rule keeps_data_report)
  show ?thesis
    using assms
  proof (cases rule: tick_connected_cases)
    case Read
    then show ?thesis by (rule a)
  next
    case (Extension W1)
    then show ?thesis using a c by metis
  next
    case (Sample W1 W2 i send W3)
    have "links W' = links W3" using Sample(4) d [of W3 W'] by (cases send) simp_all
    then show ?thesis using a [OF Sample(1)] c [OF Sample(2)] links_report_input [OF Sample(3)] by simp
  qed
qed

lemma links_tick:
  assumes "fake_wiimote_tick E j W = Inr W'"
  shows "links W' = links W"
proof -
  let ?w = "fake_wiimotes W ! j"
  have "(case baseband_state ?w of
       BASEBAND_STATE_REQUEST_CONNECTION \<Rightarrow> tick_request_connection E j W
     | BASEBAND_STATE_COMPLETE \<Rightarrow>
         if acl_state ?w = ACL_STATE_LINKING then tick_linking E j W else tick_connected E j W
     | BASEBAND_STATE_INACTIVE \<Rightarrow> Inr W) = Inr W'"
    using assms unfolding fake_wiimote_tick_def rbind_eq_Inr at_eq by blast
  then show ?thesis
    using links_request_connection links_linking links_connected
    by (cases "baseband_state ?w") (simp_all split: if_splits, blast+)
qed

lemma links_tick_all: "tick_all E js W = Inr W' \<Longrightarrow> links W' = links W"
  by (induction js arbitrary: W) (auto simp: result_simps split: if_splits dest: links_tick)

lemma collect_completed_keeps:
  "collect_completed ws = (infos, n, ws') \<Longrightarrow>
   map (\<lambda>w. (fw_active w, fake_wiimote.input_device w)) ws' =
   map (\<lambda>w. (fw_active w, fake_wiimote.input_device w)) ws"
  by (induction ws arbitrary: infos n ws') (auto split: prod.splits if_splits)

lemma links_completed_packets:
  assumes "fake_wiimote_mgr_send_event_number_of_completed_packets E W = Inr W'"
  shows "links W' = links W"
proof -
  obtain infos n ws where c: "collect_completed (fake_wiimotes W) = (infos, n, ws)"
    by (cases "collect_completed (fake_wiimotes W)") auto
  have "links (W \<lparr> fake_wiimotes := ws \<rparr>) = links W"
    using collect_completed_keeps [OF c] by (simp add: links_def)
  then show ?thesis
    using assms c
    by (auto simp: fake_wiimote_mgr_send_event_number_of_completed_packets_def ignore_ret_def Let_def
        result_simps split: if_splits dest!: links_on_usb)
qed

section \<open>Assignment and reset\<close>

definition paired_by :: "(links \<Rightarrow> bool) \<Rightarrow> 'os world \<Rightarrow> bool" where
  "paired_by P W \<longleftrightarrow> P (links W)"

abbreviation paired :: "'os world \<Rightarrow> bool" where
  "paired \<equiv> paired_by linked"

lemma length_links [simp]: "length (fst (links W)) = length (fake_wiimotes W)"
  by (simp add: links_def)

lemma length_assign_to [simp]: "length (fake_wiimotes (assign_to j W)) = length (fake_wiimotes W)"
  by (simp add: assign_to_def upd_wm_def input_device_assign_wiimote_def upd_dev_def split: option.split)

lemma links_reset_one:
  assumes "(case fake_wiimote.input_device (fake_wiimotes W ! j) of None \<Rightarrow> Inr W
            | Some i \<Rightarrow> input_device_release_wiimote E i W) = Inr W1"
    and "j < length (fake_wiimotes W)"
  shows "links (upd_wm j (\<lambda>w. w \<lparr> fw_active := False \<rparr>) W1) = release_link j (links W) \<and>
    length (fake_wiimotes W1) = length (fake_wiimotes W)"
proof (cases "fake_wiimote.input_device (fake_wiimotes W ! j)")
  case None
  then show ?thesis
    using assms by (simp add: links_def release_link_def upd_wm_def map_update)
next
  case (Some i)
  then have r: "input_device_release_wiimote E i W = Inr W1" using assms(1) by simp
  have f: "fake_wiimotes W1 = fake_wiimotes W"
    using r by (auto simp: input_device_release_wiimote_def result_simps upd_dev_def)
  have "links (upd_wm j (\<lambda>w. w \<lparr> fw_active := False \<rparr>) W1) =
      ((fst (links W1))[j := (False, Some i)], snd (links W1))"
    using f Some by (simp add: links_def upd_wm_def map_update)
  then show ?thesis
    using links_release [OF r] f Some assms(2) by (simp add: release_link_def links_def)
qed

context pairing_law
begin

lemma paired_same: "paired_by P W \<Longrightarrow> links W' = links W \<Longrightarrow> paired_by P W'"
  by (simp add: paired_by_def)

lemma link_okI:
  assumes "paired_by P W" and "j < length (fake_wiimotes W)" and "fw_active (fake_wiimotes W ! j)"
  shows "link_ok P own j W"
  using assms active_owns [of j "fst (links W)" "snd (links W)"]
  by (simp add: link_ok_def paired_by_def links_def)

lemma paired_assign_to:
  assumes P: "paired_by P W" and j: "j < length (fake_wiimotes W)"
  shows "paired_by P (assign_to j W)"
proof (cases "fw_active (fake_wiimotes W ! j) \<or> input_device_get_unassigned W = None")
  case True
  then show ?thesis using P by (auto simp: assign_to_def)
next
  case False
  then obtain i where u: "input_device_get_unassigned W = Some i" and idle: "\<not> fw_active (fake_wiimotes W ! j)"
    by auto
  then have i: "i < length (input_devices W)" and a: "device_available (input_devices W ! i)"
    by (auto simp: input_device_get_unassigned_def find_Some_iff)
  have "links (assign_to j W) = assign_link j i (links W)"
    using u idle i
    by (simp add: assign_to_def links_def assign_link_def upd_wm_def upd_dev_def map_update
        input_device_assign_wiimote_def)
  moreover have "P (assign_link j i (links W))"
    using assigned [of "fst (links W)" "snd (links W)" j i] P j i a idle
    by (simp add: paired_by_def links_def device_available_def)
  ultimately show ?thesis by (simp add: paired_by_def)
qed

lemma paired_assign_all:
  "paired_by P W \<Longrightarrow> \<forall>j \<in> set js. j < length (fake_wiimotes W) \<Longrightarrow> paired_by P (fold assign_to js W)"
  by (induction js arbitrary: W) (simp_all add: paired_assign_to)

lemma paired_tick_devices:
  assumes "paired_by P W" and "fake_wiimote_mgr_tick_devices E W = Inr W'"
  shows "paired_by P W'"
proof -
  define W1 where "W1 = (if hci_can_request_connection (hci W)
                then fake_wiimote_mgr_check_assign_input_devices W else W)"
  have "paired_by P W1"
    using assms(1) paired_assign_all [of W]
    by (simp add: W1_def fake_wiimote_mgr_check_assign_input_devices_def)
  moreover obtain W2 where "tick_all E [0..<length (fake_wiimotes W1)] W1 = Inr W2"
    and "fake_wiimote_mgr_send_event_number_of_completed_packets E W2 = Inr W'"
    using assms(2) unfolding fake_wiimote_mgr_tick_devices_def W1_def [symmetric] Let_def rbind_eq_Inr by blast
  then have "links W' = links W1" by (metis links_tick_all links_completed_packets)
  ultimately show ?thesis by (simp add: paired_by_def)
qed

lemma paired_reset:
  "paired_by P W \<Longrightarrow> reset_wiimotes E js W = Inr W' \<Longrightarrow> \<forall>j \<in> set js. j < length (fake_wiimotes W) \<Longrightarrow>
   paired_by P W'"
proof (induction js arbitrary: W)
  case (Cons j js)
  show ?case
  proof (cases "fw_active (fake_wiimotes W ! j)")
    case True
    then obtain W1 where W1: "(case fake_wiimote.input_device (fake_wiimotes W ! j) of None \<Rightarrow> Inr W
            | Some i \<Rightarrow> input_device_release_wiimote E i W) = Inr W1"
      and rest: "reset_wiimotes E js (upd_wm j (\<lambda>w. w \<lparr> fw_active := False \<rparr>) W1) = Inr W'"
      using Cons.prems(2) unfolding reset_wiimotes.simps if_P [OF True] rbind_eq_Inr by blast
    note l = links_reset_one [OF W1]
    have "link_ok P own j W" using Cons.prems True by (simp add: link_okI)
    then have "paired_by P (upd_wm j (\<lambda>w. w \<lparr> fw_active := False \<rparr>) W1)"
      using l released [of "fst (links W)" "snd (links W)" j]
      by (simp add: link_ok_def paired_by_def)
    then show ?thesis
      using Cons.IH rest l Cons.prems(3) by (simp add: upd_wm_def)
  qed (use Cons in simp)
qed simp

end

section \<open>Controllers come and go\<close>

lemma links_tick_devices: "links (input_devices_tick W) = links W"
  by (simp add: input_devices_tick_def links_def tick_device_def)

lemma links_detached:
  assumes "fake_wiimote_disconnect E j (upd_wm j fake_wiimote_release_input_device W) = Inr (r, W1)"
  shows "links W1 = ((fst (links W))[j := (False, None)], snd (links W))"
proof -
  have "j < length (fake_wiimotes W)"
    using assms by (auto simp: fake_wiimote_disconnect_def result_simps upd_wm_def)
  then show ?thesis
    using links_disconnect [OF assms]
    by (simp add: release_link_def links_def upd_wm_def map_update fake_wiimote_release_input_device_def)
qed

context pairing_law
begin

lemma paired_added:
  assumes "paired_by P W" shows "paired_by P (input_device_handle_added E p W)"
proof (cases "List.find (\<lambda>i. dev_device (input_devices W ! i) = None) [0..<length (input_devices W)]")
  case (Some i)
  then have i: "i < length (input_devices W)" "dev_device (input_devices W ! i) = None"
    by (auto simp: find_Some_iff)
  have "links (input_device_handle_added E p W) = attach_link i p (links W)"
    using Some i by (simp add: input_device_handle_added_def links_def attach_link_def upd_dev_def
        map_update attach_device_def)
  then show ?thesis
    using attached [of "fst (links W)" "snd (links W)" i p] assms i
    by (simp add: paired_by_def links_def)
qed (use assms in \<open>simp add: input_device_handle_added_def\<close>)

lemma paired_removed:
  assumes P: "paired_by P W" and run: "input_device_handle_removed E p W = Inr W'"
  shows "paired_by P W'"
proof (cases "input_device_from_egc W p")
  case (Some i)
  then have i: "i < length (input_devices W)" "dev_device (input_devices W ! i) = Some p"
    by (auto simp: input_device_from_egc_def find_Some_iff)
  obtain W1 where c: "(case assigned_wiimote (input_devices W ! i) of None \<Rightarrow> Inr W
      | Some j \<Rightarrow> ignore_ret (fake_wiimote_disconnect E j
                     (upd_wm j fake_wiimote_release_input_device W))) = Inr W1"
    and W': "W' = upd_dev i (\<lambda>d. d \<lparr> dev_device := None \<rparr>) W1"
    using run Some by (auto simp: input_device_handle_removed_def result_simps)
  have l1: "links W1 = (case assigned_wiimote (input_devices W ! i) of None \<Rightarrow> fst (links W)
      | Some j \<Rightarrow> (fst (links W))[j := (False, None)], snd (links W))"
    using c by (cases "assigned_wiimote (input_devices W ! i)")
      (auto simp: ignore_ret_def result_simps dest: links_detached)
  have "assigned_wiimote (input_devices W1 ! i) = assigned_wiimote (input_devices W ! i)"
    using arg_cong [OF l1, of "\<lambda>l. snd (snd l ! i)"] arg_cong [OF l1, of "\<lambda>l. length (snd l)"] i
    by (simp add: links_def)
  then have "links W' = detach_link i (links W)"
    using l1 i by (cases "assigned_wiimote (input_devices W ! i)")
      (simp_all add: W' detach_link_def upd_dev_def map_update links_def)
  then show ?thesis
    using detached [of "fst (links W)" "snd (links W)" i] P i
    by (simp add: paired_by_def links_def)
qed (use P run in \<open>simp add: input_device_handle_removed_def\<close>)

lemma paired_callbacks: "paired_by P W \<Longrightarrow> handle_callbacks E cs W = Inr W' \<Longrightarrow> paired_by P W'"
  by (induction cs arbitrary: W)
    (auto simp: result_simps handle_callback_def split: egc_callback.splits
      dest: paired_removed intro: paired_added)

lemma paired_periodic_tick:
  assumes "paired_by P W" and "periodic_tick E W = Inr W'"
  shows "paired_by P W'"
proof -
  obtain devs cs os' where e: "egc_handle_events E (os_state (usb W)) = (devs, cs, os')"
    by (cases "egc_handle_events E (os_state (usb W))") auto
  let ?W0 = "W \<lparr> egc_devices := devs, usb := (usb W) \<lparr> os_state := os' \<rparr> \<rparr>"
  obtain W1 where "handle_callbacks E cs ?W0 = Inr W1"
    and t: "fake_wiimote_mgr_tick_devices E (input_devices_tick W1) = Inr W'"
    using assms(2) unfolding periodic_tick_def e Let_def prod.case rbind_eq_Inr by blast
  moreover have "paired_by P ?W0" using assms(1) by (simp add: paired_by_def)
  ultimately have "paired_by P W1" using paired_callbacks by blast
  then have "paired_by P (input_devices_tick W1)" using links_tick_devices by (rule paired_same)
  then show ?thesis using t by (rule paired_tick_devices)
qed

end

section \<open>Requests of the host\<close>

text \<open>The host rejects a connection of a fake Wiimote that is not active.\<close>

definition rejects_idle :: "u8 list \<Rightarrow> 'os world \<Rightarrow> bool" where
  "rejects_idle data W \<longleftrightarrow>
     read_le16 data hci_cmd_hdr_t_opcode = Inr HCI_CMD_REJECT_CON \<and>
     (case read_bytes (drop sizeof_hci_cmd_hdr_t data) hci_reject_con_cp_bdaddr BDADDR_SIZE of
        Inl _ \<Rightarrow> False
      | Inr ba \<Rightarrow> (case does_bdaddr_belong_to_fake_wiimote W ba of
                     None \<Rightarrow> False | Some j \<Rightarrow> \<not> fw_active (fake_wiimotes W ! j)))"

lemma find_wiimote:
  "does_bdaddr_belong_to_fake_wiimote W ba = Some j \<Longrightarrow> j < length (fake_wiimotes W)"
  "get_fake_wiimote_for_hci_con_handle W h = Some j \<Longrightarrow>
   j < length (fake_wiimotes W) \<and> fw_active (fake_wiimotes W ! j)"
  by (auto simp: does_bdaddr_belong_to_fake_wiimote_def get_fake_wiimote_for_hci_con_handle_def
      find_Some_iff fake_wiimote_is_connected_def)

lemma handled_eq [result_simps]: "handled m = Inr (b, W) \<longleftrightarrow> b \<and> m = Inr W"
  by (auto simp: handled_def result_simps)

lemma links_status_then: "status_then E opc h ev W = Inr (b, W') \<Longrightarrow> links W' = links W"
  by (auto simp: status_then_def result_simps split: if_splits dest!: links_inject_ok)

lemma links_accept_con:
  assumes "fake_wiimote_handle_hci_cmd_accept_con E j role W = Inr W'"
  shows "links W' = links W"
proof -
  have u: "links ((upd_wm j (\<lambda>w. w \<lparr> baseband_state := BASEBAND_STATE_COMPLETE,
      fw_con_handle := h, acl_state := ACL_STATE_LINKING \<rparr>) W1) \<lparr> hci := s \<rparr>) = links W1" for h s W1
    by (simp add: keeps_def)
  show ?thesis
    using assms
    by (auto simp: fake_wiimote_handle_hci_cmd_accept_con_def case_prod_beta Let_def result_simps u
        split: if_splits dest!: links_inject_ok simp del: links_simps)
qed

lemma links_name_keys:
  "handle_remote_name_req E payload W = Inr (b, W') \<Longrightarrow> links W' = links W"
  "handle_read_stored_link_key E payload W = Inr (b, W') \<Longrightarrow> links W' = links W"
  "handle_write_link_supervision_timeout E payload W = Inr (b, W') \<Longrightarrow> links W' = links W"
  by (auto simp: handle_remote_name_req_def handle_read_stored_link_key_def
      handle_write_link_supervision_timeout_def result_simps
      split: if_splits option.splits dest!: links_inject_ok links_on_usb)

lemma links_cmd_accept:
  "fake_wiimote_mgr_handle_hci_cmd_accept_con E ba role W = Inr (b, W') \<Longrightarrow> links W' = links W"
  by (auto simp: fake_wiimote_mgr_handle_hci_cmd_accept_con_def result_simps split: option.splits
      dest: links_accept_con)

lemma links_upd_ipc [simp]: "links (upd_ipc p f W) = links W"
  by (simp add: upd_ipc_def)

lemma links_packet:
  assumes "packet_from_host E p n i m = Inr (r, q, fwd, W')"
  obtains fwd' d W1 where "m = Inr (fwd', d, W1)" and "links W' = links W1"
  using assms by (auto simp: packet_from_host_def Let_def result_simps split: if_splits prod.splits)

lemma links_reads:
  "read_from_bulk_in E p n W = Inr (r, q, fwd, W') \<Longrightarrow> links W' = links W"
  "read_from_intr E p n W = Inr (r, q, fwd, W') \<Longrightarrow> links W' = links W"
  by (auto simp: read_from_bulk_in_def read_from_intr_def Let_def result_simps)

definition request_rejects_idle :: "ptr \<Rightarrow> 'os world \<Rightarrow> bool" where
  "request_rejects_idle p W \<longleftrightarrow>
     (case ipc_store (usb W) p of
        None \<Rightarrow> False
      | Some m \<Rightarrow> (case vec_bytes m 6 of Inl _ \<Rightarrow> False | Inr data \<Rightarrow> rejects_idle data W))"

context pairing_law
begin

lemma paired_disconnect:
  assumes "paired_by P W" and "j < length (fake_wiimotes W)" and "fw_active (fake_wiimotes W ! j)"
    and "fake_wiimote_disconnect E j W = Inr (r, W')"
  shows "paired_by P W'"
  using link_ok_disconnect [OF link_okI [OF assms(1-3)] assms(4)] by (simp add: link_ok_def paired_by_def)

lemma paired_cmd_disconnect:
  assumes P: "paired_by P W" and run: "fake_wiimote_mgr_handle_hci_cmd_disconnect E h reason W = Inr (b, W')"
  shows "paired_by P W'"
proof (cases "get_fake_wiimote_for_hci_con_handle W h")
  case (Some j)
  then obtain W1 r where "inject_ok E (inject_hci_event_command_status E HCI_CMD_DISCONNECT) W = Inr W1"
    and d: "fake_wiimote_disconnect E j W1 = Inr (r, W')"
    using run by (auto simp: fake_wiimote_mgr_handle_hci_cmd_disconnect_def ignore_ret_def result_simps)
  then have l: "links W1 = links W" by (metis links_inject_ok)
  have "link_ok P own j W" using find_wiimote(2) [OF Some] P by (simp add: link_okI)
  then have "link_ok P own j W1" using l by (rule link_ok_same)
  then show ?thesis using link_ok_disconnect [OF _ d] by (simp add: link_ok_def paired_by_def)
qed (use P run in \<open>simp add: fake_wiimote_mgr_handle_hci_cmd_disconnect_def\<close>)

lemma paired_cmd_reject:
  assumes P: "paired_by P W" and run: "fake_wiimote_mgr_handle_hci_cmd_reject_con E ba reason W = Inr (b, W')"
    and idle: "(\<forall>j l. own j l) \<or>
      (\<forall>j. does_bdaddr_belong_to_fake_wiimote W ba = Some j \<longrightarrow> fw_active (fake_wiimotes W ! j))"
  shows "paired_by P W'"
proof (cases "does_bdaddr_belong_to_fake_wiimote W ba")
  case (Some j)
  then have "link_ok P own j W"
    using P idle find_wiimote(1) [OF Some] link_okI [OF P]
    by (auto simp: link_ok_def paired_by_def simp del: split_paired_All)
  then show ?thesis
    using run Some link_ok_disconnect
    by (fastforce simp: fake_wiimote_mgr_handle_hci_cmd_reject_con_def ignore_ret_def result_simps
        link_ok_def paired_by_def)
qed (use P run in \<open>simp add: fake_wiimote_mgr_handle_hci_cmd_reject_con_def\<close>)

lemma paired_cmd:
  assumes P: "paired_by P W" and run: "fake_wiimote_mgr_handle_hci_cmd_from_host E data W = Inr (b, W')"
    and idle: "(\<forall>j l. own j l) \<or> \<not> rejects_idle data W"
  shows "paired_by P W'"
proof -
  define payload where "payload = drop sizeof_hci_cmd_hdr_t data"
  obtain opcode where opcode: "read_le16 data hci_cmd_hdr_t_opcode = Inr opcode"
    using run unfolding fake_wiimote_mgr_handle_hci_cmd_from_host_def Let_def rbind_eq_Inr by blast
  consider (disconnect) h reason where
      "fake_wiimote_mgr_handle_hci_cmd_disconnect E h reason W = Inr (b, W')"
    | (reject) ba reason where "opcode = HCI_CMD_REJECT_CON"
      "read_bytes payload hci_reject_con_cp_bdaddr BDADDR_SIZE = Inr ba"
      "fake_wiimote_mgr_handle_hci_cmd_reject_con E ba reason W = Inr (b, W')"
    | (reset) W1 where "reset_wiimotes E [0..<length (fake_wiimotes W)] W = Inr W1" "W' = W1"
    | (other) "links W' = links W"
    using run opcode
    unfolding fake_wiimote_mgr_handle_hci_cmd_from_host_def Let_def payload_def [symmetric]
    by (simp add: opcode split: if_splits)
      (auto simp: result_simps split: if_splits
        dest!: links_cmd_accept links_status_then links_name_keys links_inject_ok)
  then show ?thesis
  proof cases
    case disconnect
    then show ?thesis using P paired_cmd_disconnect by blast
  next
    case reject
    then show ?thesis
      using idle opcode
      by (intro paired_cmd_reject [OF P reject(3)]) (auto simp: rejects_idle_def payload_def)
  next
    case reset
    then show ?thesis using paired_reset [OF P] by simp
  next
    case other
    with P show ?thesis by (rule paired_same)
  qed
qed

lemma paired_hci_cmd:
  assumes "paired_by P W" and "hci_state_handle_hci_cmd_from_host E data W = Inr (fwd, data', W')"
    and "(\<forall>j l. own j l) \<or> \<not> rejects_idle data W"
  shows "paired_by P W'"
proof -
  obtain taken W1 where c: "fake_wiimote_mgr_handle_hci_cmd_from_host E data W = Inr (taken, W1)"
    and l: "links W' = links W1"
    using assms(2) by (auto simp: hci_state_handle_hci_cmd_from_host_def result_simps split: if_splits)
  from paired_cmd [OF assms(1) c assms(3)] l show ?thesis by (rule paired_same)
qed

lemma paired_acl_out:
  assumes P: "paired_by P W" and run: "hci_state_handle_acl_data_out_request_from_host E data W = Inr (fwd, data', W')"
  shows "paired_by P W'"
proof -
  obtain h taken W1 where m: "fake_wiimote_mgr_handle_acl_data_out_request_from_host E h data W = Inr (taken, W1)"
    and l: "links W' = links W1"
    using run by (auto simp: hci_state_handle_acl_data_out_request_from_host_def result_simps split: if_splits)
  have "paired_by P W1"
  proof (cases "get_fake_wiimote_for_hci_con_handle W h")
    case (Some j)
    then have "link_ok P own j W" using find_wiimote(2) [OF Some] P by (simp add: link_okI)
    moreover have "fake_wiimote_handle_acl_data_out_request_from_host E j data W = Inr W1"
      using m Some by (simp add: fake_wiimote_mgr_handle_acl_data_out_request_from_host_def result_simps)
    ultimately show ?thesis using link_ok_acl by (fastforce simp: link_ok_def paired_by_def)
  qed (use m P in \<open>simp add: fake_wiimote_mgr_handle_acl_data_out_request_from_host_def\<close>)
  then show ?thesis using l by (rule paired_same)
qed

lemma paired_ioctlv:
  assumes P: "paired_by P W" and run: "handle_oh1_dev_ioctlv E p W = Inr (r, q, fwd, W')"
    and idle: "(\<forall>j l. own j l) \<or> \<not> request_rejects_idle p W"
  shows "paired_by P W'"
proof -
  obtain m where m: "ipc_store (usb W) p = Some m"
    using run by (auto simp: handle_oh1_dev_ioctlv_def result_simps)
  consider (command) n data where "vec_bytes m 6 = Inr data"
      "packet_from_host E p n 6 (hci_state_handle_hci_cmd_from_host E data W) = Inr (r, q, fwd, W')"
    | (acl) n data where
      "packet_from_host E p n 2 (hci_state_handle_acl_data_out_request_from_host E data W) = Inr (r, q, fwd, W')"
    | (other) "links W' = links W"
    using run m
    unfolding handle_oh1_dev_ioctlv_def Let_def
    by (auto simp: rbind_eq_Inr deref_eq split: if_splits dest!: links_reads)
  then show ?thesis
  proof cases
    case command
    from command(2) obtain fwd' d W1
      where h: "hci_state_handle_hci_cmd_from_host E data W = Inr (fwd', d, W1)" and l: "links W' = links W1"
      by (rule links_packet)
    have "(\<forall>j l. own j l) \<or> \<not> rejects_idle data W"
      using idle m command(1) by (simp add: request_rejects_idle_def)
    from paired_hci_cmd [OF P h this] l show ?thesis by (rule paired_same)
  next
    case acl
    then obtain fwd' d W1
      where h: "hci_state_handle_acl_data_out_request_from_host E data W = Inr (fwd', d, W1)" and l: "links W' = links W1"
      by (rule links_packet)
    from paired_acl_out [OF P h] l show ?thesis by (rule paired_same)
  next
    case other
    with P show ?thesis by (rule paired_same)
  qed
qed

end

section \<open>The module as a transition system\<close>

lemma rejects_idle_usb [simp]: "rejects_idle data (W \<lparr> usb := u \<rparr>) \<longleftrightarrow> rejects_idle data W"
  by (simp add: rejects_idle_def does_bdaddr_belong_to_fake_wiimote_def split: sum.split option.split)

definition round_world :: "'os hook_result + ptr option \<times> 'os world \<Rightarrow> 'os world" where
  "round_world res = (case res of Inl (_, _, W) \<Rightarrow> W | Inr (_, W) \<Rightarrow> W)"

definition receives :: "'os ext \<Rightarrow> int \<Rightarrow> u32 \<Rightarrow> 'os world \<Rightarrow> ptr" where
  "receives E queueid flags W = fst (snd (os_message_queue_receive E queueid flags (os_state (usb W))))"

text \<open>
  A step of the module is a round of the receive hook with whatever message the host, the
  dongle or the timer sent, a reply of OH1, or anything that happens to the messages, the queues
  and the operating system in between.  A run ends at the first fault: a handler that faults has
  no next state.
\<close>

inductive module_step :: "'os ext \<Rightarrow> 'os world \<Rightarrow> 'os world \<Rightarrow> bool" for E where
  Outside: "module_step E W (W \<lparr> usb := u \<rparr>)"
| Round: "receive_round E q flags m W = Inr res \<Longrightarrow> module_step E W (round_world res)"
| Start: "module_step E W (snd (ensure_initalized E W))"
| Reply: "OH1_IOS_ResourceReply_hook E p retval W = Inr (r, W') \<Longrightarrow> module_step E W W'"

inductive_cases module_stepE: "module_step E W W'"

text \<open>
  The steps of a host that rejects no connection of a Wiimote that is not active: every step
  above except the rounds that receive such a command.
\<close>

inductive tame_step :: "'os ext \<Rightarrow> 'os world \<Rightarrow> 'os world \<Rightarrow> bool" for E where
  Tame_Outside: "tame_step E W (W \<lparr> usb := u \<rparr>)"
| Tame_Round: "receive_round E q flags m W = Inr res \<Longrightarrow>
    \<not> request_rejects_idle (receives E q flags W) W \<Longrightarrow> tame_step E W (round_world res)"
| Tame_Start: "tame_step E W (snd (ensure_initalized E W))"
| Tame_Reply: "OH1_IOS_ResourceReply_hook E p retval W = Inr (r, W') \<Longrightarrow> tame_step E W W'"

lemma tame_module: "tame_step E W W' \<Longrightarrow> module_step E W W'"
  by (induction rule: tame_step.induct) (rule module_step.intros, assumption?)+

lemma tame_modules: "(tame_step E)\<^sup>*\<^sup>* W W' \<Longrightarrow> (module_step E)\<^sup>*\<^sup>* W W'"
  by (induction rule: rtranclp_induct) (auto dest: tame_module)

text \<open>The static arrays at power-up.\<close>

definition powered_up :: "'os world \<Rightarrow> bool" where
  "powered_up W \<longleftrightarrow> list_all (\<lambda>w. \<not> fw_active w) (fake_wiimotes W) \<and>
     list_all (\<lambda>d. dev_device d = None) (input_devices W)"

context pairing_law
begin

lemma paired_init_globals: "paired_by P (init_globals E W)"
proof -
  have "\<forall>j < length (fst (links (init_globals E W))). \<not> fst (fst (links (init_globals E W)) ! j)"
    by (simp add: init_globals_def links_def Let_def case_prod_beta fake_wiimote_mgr_init_def
        fake_wiimote_init_def)
  moreover have "\<forall>i < length (snd (links (init_globals E W))). fst (snd (links (init_globals E W)) ! i) = None"
    by (simp add: init_globals_def links_def Let_def case_prod_beta fake_wiimote_mgr_init_def
        input_devices_init_def)
  ultimately have "P (fst (links (init_globals E W)), snd (links (init_globals E W)))"
    by (rule idle_links)
  then show ?thesis by (simp add: paired_by_def)
qed

lemma paired_ensure: "paired_by P W \<Longrightarrow> paired_by P (snd (ensure_initalized E W))"
  by (auto simp: ensure_initalized_def Let_def case_prod_beta paired_by_def
      intro: paired_init_globals [unfolded paired_by_def])

lemma paired_reply:
  assumes P: "paired_by P W" and run: "OH1_IOS_ResourceReply_hook E p retval W = Inr (r, W')"
  shows "paired_by P W'"
proof -
  have h: "paired_by P W2" if "reply_of_hand_down E q retval cmd track W1 = Inr W2" and "paired_by P W1"
    for q cmd track and W1 W2 :: "'a world"
    using that by (auto simp: reply_of_hand_down_def on_hci_def result_simps paired_by_def split: if_splits)
  have u: "paired_by P W2" if "on_usb f W1 = Inr (r, W2)" and "paired_by P W1" for f and W1 W2 :: "'a world"
    using that(2) links_on_usb [OF that(1)] by (rule paired_same)
  have e: "paired_by P (snd (ensure_initalized E (W \<lparr> usb := v \<rparr>)))" for v
    using P by (intro paired_ensure) (simp add: paired_by_def)
  consider (intr) "p = usb_intr_hand_down_msg E"
    | (bulk) "p \<noteq> usb_intr_hand_down_msg E" "p = usb_bulk_in_hand_down_msg E"
    | (other) "p \<noteq> usb_intr_hand_down_msg E" "p \<noteq> usb_bulk_in_hand_down_msg E" by blast
  then show ?thesis
  proof cases
    case intr
    then show ?thesis
      using run unfolding OH1_IOS_ResourceReply_hook_def Let_def if_P [OF intr] rbind_eq_Inr
      using h [OF _ e] u by blast
  next
    case bulk
    then show ?thesis
      using run unfolding OH1_IOS_ResourceReply_hook_def Let_def if_not_P [OF bulk(1)] if_P [OF bulk(2)] rbind_eq_Inr
      using h [OF _ e] u by blast
  next
    case other
    then show ?thesis
      using run P by (auto simp: OH1_IOS_ResourceReply_hook_def case_prod_beta paired_by_def)
  qed
qed

lemma paired_round:
  assumes P: "paired_by P W" and run: "receive_round E q flags m W = Inr res"
    and idle: "(\<forall>j l. own j l) \<or> \<not> request_rejects_idle (receives E q flags W) W"
  shows "paired_by P (round_world res)"
proof -
  obtain ret p os' where r: "os_message_queue_receive E q flags (os_state (usb W)) = (ret, p, os')"
    by (cases "os_message_queue_receive E q flags (os_state (usb W))") auto
  let ?W1 = "W \<lparr> usb := (usb W) \<lparr> os_state := os' \<rparr> \<rparr>"
  have p1: "paired_by P ?W1" using P by (simp add: paired_by_def)
  have idle1: "(\<forall>j l. own j l) \<or> \<not> request_rejects_idle p ?W1"
    using idle r by (simp add: request_rejects_idle_def receives_def split: option.splits sum.splits)
  show ?thesis
    using run p1
    by (auto simp: receive_round_def r Let_def result_simps round_world_def split: if_splits
        dest: paired_periodic_tick [OF p1] paired_ioctlv [OF p1 _ idle1])
qed

lemma paired_step:
  assumes "module_step E W W'" and "\<forall>j l. own j l" and "paired_by P W"
  shows "paired_by P W'"
  using assms
proof (induction rule: module_step.induct)
  case (Outside W u)
  then show ?case by (simp add: paired_by_def)
qed (use paired_round paired_ensure paired_reply in blast)+

lemma paired_tame_step: "tame_step E W W' \<Longrightarrow> paired_by P W \<Longrightarrow> paired_by P W'"
proof (induction rule: tame_step.induct)
  case (Tame_Outside W u)
  then show ?case by (simp add: paired_by_def)
qed (use paired_round paired_ensure paired_reply in blast)+

lemma paired_powered_up: "powered_up W \<Longrightarrow> paired_by P W"
  using idle_links [of "fst (links W)" "snd (links W)"]
  by (simp add: paired_by_def links_def powered_up_def list_all_length)

lemma paired_reachable:
  "(module_step E)\<^sup>*\<^sup>* W0 W \<Longrightarrow> \<forall>j l. own j l \<Longrightarrow> powered_up W0 \<Longrightarrow> paired_by P W"
  by (induction rule: rtranclp_induct) (auto intro: paired_powered_up paired_step)

lemma paired_tame: "(tame_step E)\<^sup>*\<^sup>* W0 W \<Longrightarrow> powered_up W0 \<Longrightarrow> paired_by P W"
  by (induction rule: rtranclp_induct) (auto intro: paired_powered_up paired_tame_step)

end

text \<open>A game controller arrives while the heap is used up: the tick attaches and assigns it.\<close>

definition full_ext :: "sample_os ext" where
  "full_ext = sample_ext \<lparr> egc_handle_events := (\<lambda>os. (\<lambda>_. sample_device, [Device_Added 7], os)),
     os_heap_alloc := (\<lambda>h n os. (None, os)) \<rparr>"

definition boot_world :: "sample_os world" where
  "boot_world = sample_world \<lparr> fake_wiimotes := [idle_wiimote, idle_wiimote],
     input_devices := [input_device_zero, input_device_zero],
     hci := hci_state_initial \<lparr> hci_page_scan_enable := 2 \<rparr>,
     usb := sample_usb \<lparr> os_state := sample_os0 \<lparr> so_queues := (\<lambda>_. [0x8200]) \<rparr> \<rparr> \<rparr>"

lemma full_ext_sel [simp]:
  "os_message_queue_receive full_ext = sample_receive" "IOS_OK full_ext = 0" "IOS_ENOMEM full_ext = - 22"
  "periodic_timer_cookie full_ext = 0x8200" "os_heap_alloc full_ext h n os = (None, os)"
  "egc_handle_events full_ext os = (\<lambda>_. sample_device, [Device_Added 7], os)"
  by (simp_all add: full_ext_def sample_ext_def)

lemma boot_world_tick:
  "\<exists>W. receive_round full_ext 4 0 None boot_world = Inr (Inr (None, W)) \<and> length (fake_wiimotes W) = 2 \<and>
     fw_active (fake_wiimotes W ! 0) \<and> fake_wiimote.input_device (fake_wiimotes W ! 0) = Some 0"
proof -
  define W1 where "W1 = boot_world \<lparr> usb := (usb boot_world) \<lparr> os_state :=
    (os_state (usb boot_world)) \<lparr> so_queues := (\<lambda>_. [0x8200])(4 := []) \<rparr> \<rparr> \<rparr>"
  have "\<exists>W. periodic_tick full_ext W1 = Inr W \<and> length (fake_wiimotes W) = 2 \<and>
     fw_active (fake_wiimotes W ! 0) \<and> fake_wiimote.input_device (fake_wiimotes W ! 0) = Some 0"
    by (simp add: W1_def boot_world_def periodic_tick_def handle_callback_def input_device_handle_added_def
        upd_dev_def input_devices_tick_def tick_device_def attach_device_def input_device_zero_def
        fake_wiimote_mgr_tick_devices_def hci_can_request_connection_def HCI_PAGE_SCAN_ENABLE_def
        fake_wiimote_mgr_check_assign_input_devices_def assign_to_def input_device_get_unassigned_def
        device_available_def input_device_assign_wiimote_def upd_wm_def fake_wiimote_tick_def at_def
        tick_request_connection_def on_usb_def inject_hci_event_con_req_def inject_filled_event_def
        alloc_hci_event_msg_def injmessage_alloc_def
        fake_wiimote_mgr_send_event_number_of_completed_packets_def fake_wiimote_is_connected_def)
  then show ?thesis
    by (auto simp: receive_round_def sample_receive_def boot_world_def W1_def)
qed

lemma powered_up_boot_world: "powered_up boot_world"
  by (simp add: powered_up_def boot_world_def)

lemma boot_world_run:
  "\<exists>W. (tame_step full_ext)\<^sup>*\<^sup>* boot_world W \<and> length (fake_wiimotes W) = 2 \<and>
     fw_active (fake_wiimotes W ! 0) \<and> fake_wiimote.input_device (fake_wiimotes W ! 0) = Some 0"
proof -
  obtain W where r: "receive_round full_ext 4 0 None boot_world = Inr (Inr (None, W))"
    and a: "length (fake_wiimotes W) = 2" "fw_active (fake_wiimotes W ! 0)"
      "fake_wiimote.input_device (fake_wiimotes W ! 0) = Some 0"
    using boot_world_tick by blast
  have "\<not> request_rejects_idle (receives full_ext 4 0 boot_world) boot_world"
    by (simp add: request_rejects_idle_def boot_world_def)
  from tame_step.Tame_Round [OF r this] have "(tame_step full_ext)\<^sup>*\<^sup>* boot_world W"
    by (simp add: round_world_def r_into_rtranclp)
  then show ?thesis using a by blast
qed

text \<open>C5: In every state the module reaches from power-up without a fault, whatever the host, the
  dongle and the game controllers do, a slot with a controller that is assigned to a Wiimote
  belongs to an active Wiimote that points back to it, so that no controller drives two Wiimotes
  and no Wiimote is driven by two.  As long as the host rejects no connection of a Wiimote that
  is not active, the two directions are inverse: every active Wiimote also has a slot, with a
  controller, that is assigned to it.\<close>

lemma pairing_invariant:
  assumes "powered_up W0" and "(module_step E)\<^sup>*\<^sup>* W0 W"
  shows "pointed (links W) \<and> ((tame_step E)\<^sup>*\<^sup>* W0 W \<longrightarrow> linked (links W))"
  using point.paired_reachable [OF assms(2) _ assms(1)] pair.paired_tame [OF _ assms(1), of E W]
  by (simp add: paired_by_def)

text \<open>The power-up, the arrival of a controller and its assignment by a tick.\<close>

lemma pairing_invariant_witness:
  "\<exists>W. (module_step full_ext)\<^sup>*\<^sup>* boot_world W \<and> fw_active (fake_wiimotes W ! 0) \<and>
     pointed (links W) \<and> linked (links W)"
  using boot_world_run pairing_invariant [OF powered_up_boot_world] tame_modules by blast

text \<open>In a state reached by tame steps no null pointer is read when an active Wiimote takes an input
  sample: it has a slot, and its slot a controller and a Wiimote.\<close>

lemma sample_no_null:
  assumes "powered_up W0" and "(tame_step E)\<^sup>*\<^sup>* W0 W"
    and "j < length (fake_wiimotes W)" and "fw_active (fake_wiimotes W ! j)"
  shows "\<exists>i p. fake_wiimote.input_device (fake_wiimotes W ! j) = Some i \<and> dev_device (input_devices W ! i) = Some p \<and>
    input_device_report_input E i W =
      rbind (report_sample E (s_sensor_bar_position_top W)
               (stack_dots (stack_bytes E 16 (os_state (usb W)))) (egc_devices W p)
               (input_devices W ! i) (fake_wiimotes W ! j))
        (\<lambda>(sent, d', w'). Inr (sent, upd_wm j (\<lambda>_. w') (upd_dev i (\<lambda>_. d') W)))"
proof -
  have "linked (fst (links W), snd (links W))"
    using pair.paired_tame [OF assms(2,1)] by (simp add: paired_by_def)
  from linkedD(1) [OF this, of j] assms(3,4)
  obtain i p where "fake_wiimote.input_device (fake_wiimotes W ! j) = Some i" "i < length (input_devices W)"
    "dev_device (input_devices W ! i) = Some p" "assigned_wiimote (input_devices W ! i) = Some j"
    by (auto simp: links_def)
  then show ?thesis
    using assms(3) by (simp add: input_device_report_input_def at_def deref_def)
qed

lemma sample_no_null_witness:
  "\<exists>W i p. fake_wiimote.input_device (fake_wiimotes W ! 0) = Some i \<and> dev_device (input_devices W ! i) = Some p \<and>
    input_device_report_input full_ext i W =
      rbind (report_sample full_ext (s_sensor_bar_position_top W)
               (stack_dots (stack_bytes full_ext 16 (os_state (usb W)))) (egc_devices W p)
               (input_devices W ! i) (fake_wiimotes W ! 0))
        (\<lambda>(sent, d', w'). Inr (sent, upd_wm 0 (\<lambda>_. w') (upd_dev i (\<lambda>_. d') W)))"
proof -
  obtain W where s: "(tame_step full_ext)\<^sup>*\<^sup>* boot_world W"
    and l: "length (fake_wiimotes W) = 2" and a: "fw_active (fake_wiimotes W ! 0)"
    using boot_world_run by blast
  show ?thesis using sample_no_null [OF powered_up_boot_world s _ a] l by fastforce
qed

section \<open>A rejected connection of an idle Wiimote\<close>

text \<open>C18: A disconnection does not clear the slot a Wiimote remembers, so rejecting the connection of an idle Wiimote takes the slot from the active Wiimote that uses it by then: that Wiimote stays active, and its next input sample dereferences a null pointer.\<close>

lemma reject_idle_takes_slot:
  assumes cmd: "read_le16 data hci_cmd_hdr_t_opcode = Inr HCI_CMD_REJECT_CON"
      "read_bytes (drop sizeof_hci_cmd_hdr_t data) hci_reject_con_cp_bdaddr BDADDR_SIZE = Inr ba"
      "read_u8 (drop sizeof_hci_cmd_hdr_t data) hci_reject_con_cp_reason = Inr reason"
    and idle: "does_bdaddr_belong_to_fake_wiimote W ba = Some j" "\<not> fw_active (fake_wiimotes W ! j)"
      "baseband_state (fake_wiimotes W ! j) \<noteq> BASEBAND_STATE_COMPLETE"
      "fake_wiimote.input_device (fake_wiimotes W ! j) = Some i"
    and user: "k < length (fake_wiimotes W)" "fw_active (fake_wiimotes W ! k)"
      "fake_wiimote.input_device (fake_wiimotes W ! k) = Some i"
    and slot: "i < length (input_devices W)" "dev_device (input_devices W ! i) \<noteq> None"
  shows "\<exists>W'. fake_wiimote_mgr_handle_hci_cmd_from_host E data W = Inr (True, W') \<and>
    fw_active (fake_wiimotes W' ! k) \<and> fake_wiimote.input_device (fake_wiimotes W' ! k) = Some i \<and>
    \<not> linked (links W') \<and> input_device_report_input E i W' = Inl Null_Deref"
proof -
  have k: "k \<noteq> j" using idle user by auto
  have j: "j < length (fake_wiimotes W)" by (rule find_wiimote(1) [OF idle(1)])
  define W' where "W' = snd (egc_call (egc_input_device_suspend E (dev_device (input_devices W ! i)))
    (upd_dev i (\<lambda>d. d \<lparr> assigned_wiimote := None, reconnect_delay := RECONNECT_DELAY \<rparr>)
      (upd_wm j (\<lambda>w. w \<lparr> fw_active := False \<rparr>) W)))"
  have d: "fake_wiimote_disconnect E j W = Inr (0, W')"
    using idle slot j
    by (simp add: fake_wiimote_disconnect_def at_def Let_def input_device_release_wiimote_def W'_def
        upd_wm_def upd_dev_def)
  have ops: "HCI_CMD_REJECT_CON \<noteq> HCI_CMD_DISCONNECT" "HCI_CMD_REJECT_CON \<noteq> HCI_CMD_ACCEPT_CON"
    by (simp_all add: c_consts)
  have run: "fake_wiimote_mgr_handle_hci_cmd_from_host E data W = Inr (True, W')"
    using cmd idle(1) d
    by (simp add: fake_wiimote_mgr_handle_hci_cmd_from_host_def Let_def ops handled_def ignore_ret_def
        fake_wiimote_mgr_handle_hci_cmd_reject_con_def)
  have wm: "fake_wiimotes W' = (fake_wiimotes W)[j := (fake_wiimotes W ! j) \<lparr> fw_active := False \<rparr>]"
    and dev: "input_devices W' = (input_devices W)[i := (input_devices W ! i)
      \<lparr> assigned_wiimote := None, reconnect_delay := RECONNECT_DELAY \<rparr>]"
    by (simp_all add: W'_def upd_wm_def upd_dev_def)
  have "\<not> linked (fst (links W'), snd (links W'))"
    using linkedD(1) [of "fst (links W')" "snd (links W')" k] user slot k
    by (auto simp: links_def wm dev)
  moreover have "input_device_report_input E i W' = Inl Null_Deref"
    using slot by (auto simp: input_device_report_input_def at_def deref_def dev)
  ultimately show ?thesis using run user k by (simp add: wm)
qed

lemma reject_idle_takes_slot_witness:
  "\<exists>W'. fake_wiimote_mgr_handle_hci_cmd_from_host sample_ext
      (le16 HCI_CMD_REJECT_CON @ [7] @ FAKE_WIIMOTE_BDADDR 1 @ [0x0F])
      (sample_world \<lparr> fake_wiimotes := [sample_wiimote, idle_wiimote \<lparr> input_device := Some 0 \<rparr>] \<rparr>) = Inr (True, W') \<and>
    fw_active (fake_wiimotes W' ! 0) \<and> fake_wiimote.input_device (fake_wiimotes W' ! 0) = Some 0 \<and>
    \<not> linked (links W') \<and> input_device_report_input sample_ext 0 W' = Inl Null_Deref"
proof -
  let ?W = "sample_world \<lparr> fake_wiimotes := [sample_wiimote, idle_wiimote \<lparr> input_device := Some 0 \<rparr>] \<rparr>"
  let ?data = "le16 HCI_CMD_REJECT_CON @ [7] @ FAKE_WIIMOTE_BDADDR 1 @ [0x0F]"
  have "does_bdaddr_belong_to_fake_wiimote ?W (FAKE_WIIMOTE_BDADDR 1) = Some 1"
    by (simp add: does_bdaddr_belong_to_fake_wiimote_def FAKE_WIIMOTE_BDADDR_def)
  moreover have "baseband_state idle_wiimote \<noteq> BASEBAND_STATE_COMPLETE"
    by (simp add: idle_wiimote_def fake_wiimote_zero_def)
  moreover have "read_le16 ?data hci_cmd_hdr_t_opcode = Inr HCI_CMD_REJECT_CON"
    "read_bytes (drop sizeof_hci_cmd_hdr_t ?data) hci_reject_con_cp_bdaddr BDADDR_SIZE = Inr (FAKE_WIIMOTE_BDADDR 1)"
    "read_u8 (drop sizeof_hci_cmd_hdr_t ?data) hci_reject_con_cp_reason = Inr 0x0F"
    by (simp_all add: le16_def FAKE_WIIMOTE_BDADDR_def c_consts hci_layout read_le16_def read_bytes_def read_u8_def mk16_def
        BDADDR_SIZE_def)
  ultimately show ?thesis
    by (intro reject_idle_takes_slot [where j = 1]) simp_all
qed

section \<open>The delay before a controller is used again\<close>

lemma ticks_device: "input_devices ((input_devices_tick ^^ n) W) = map (tick_device ^^ n) (input_devices W)"
  by (induction n arbitrary: W) (simp_all add: input_devices_tick_def funpow_swap1 comp_def)

lemma ticks_delay:
  assumes "dev_device d \<noteq> None" and "assigned_wiimote d = None"
  shows "(tick_device ^^ n) d = d \<lparr> reconnect_delay := of_nat (unat (reconnect_delay d) - n) \<rparr>"
proof (induction n)
  have step: "tick_device (d \<lparr> reconnect_delay := of_nat m \<rparr>) = d \<lparr> reconnect_delay := of_nat (m - 1) \<rparr>"
    if "m < 2 ^ 32" for m
    using that assms of_nat_diff [of 1 m, where ?'a = u32]
    by (cases "m = 0") (simp_all add: tick_device_def word_less_nat_alt unat_of_nat)
  case (Suc n)
  have m: "unat (reconnect_delay d) - n < 2 ^ 32"
    using unsigned_less [of "reconnect_delay d", where ?'a = nat] by (simp add: less_imp_diff_less)
  show ?case using step [OF m] Suc by simp
qed simp

text \<open>C20: A slot that is released keeps its controller, and becomes available again after exactly 200 ticks.\<close>

lemma released_slot_available:
  assumes "input_device_release_wiimote E i W = Inr W'" and "dev_device (input_devices W ! i) = Some p"
  shows "dev_device (input_devices ((input_devices_tick ^^ n) W') ! i) = Some p \<and>
    (device_available (input_devices ((input_devices_tick ^^ n) W') ! i) \<longleftrightarrow> 200 \<le> n)"
proof -
  have i: "i < length (input_devices W)" "length (input_devices W') = length (input_devices W)"
    and d: "input_devices W' ! i = (input_devices W ! i)
      \<lparr> assigned_wiimote := None, reconnect_delay := RECONNECT_DELAY \<rparr>"
    using assms(1) by (auto simp: input_device_release_wiimote_def result_simps upd_dev_def)
  have "\<not> 2 ^ 32 dvd 200 - n" if "n < 200" using that by (intro nat_dvd_not_less) simp_all
  then have "(of_nat (200 - n) :: u32) = 0 \<longleftrightarrow> 200 \<le> n"
    by (auto simp: word_of_nat_eq_0_iff) (metis not_le)
  then show ?thesis
    using i assms(2) by (simp add: ticks_device ticks_delay d device_available_def RECONNECT_DELAY_def)
qed

lemma released_slot_available_witness:
  "\<exists>W'. input_device_release_wiimote sample_ext 0 sample_world = Inr W' \<and>
    \<not> device_available (input_devices ((input_devices_tick ^^ 199) W') ! 0) \<and>
    device_available (input_devices ((input_devices_tick ^^ 200) W') ! 0)"
proof -
  obtain W' where r: "input_device_release_wiimote sample_ext 0 sample_world = Inr W'"
    by (simp add: input_device_release_wiimote_def at_def)
  show ?thesis
    using r released_slot_available [OF r, of 7 199] released_slot_available [OF r, of 7 200] by simp
qed

end
