(* ===== verification/Hook_Loop.thy ===== *)
theory Hook_Loop
  imports Pairing
begin

text \<open>
  What the module asks of the operating system and the end of the loop in the receive hook.
  Every handler is shown to touch the plumbing only through the calls of one list; so whatever
  these calls leave alone (the queue the hook reads from, in particular) the handlers leave
  alone, and the loop ends with the first message that is for the driver.
\<close>

section \<open>The calls of the module\<close>

definition queue_ids :: "'os usb \<Rightarrow> int list" where
  "queue_ids u = [ready_usb_intr_msg_queue_id u, pending_usb_intr_msg_queue_id u,
     ready_usb_bulk_in_msg_queue_id u, pending_usb_bulk_in_msg_queue_id u]"

text \<open>The commands of the messages; the module writes their buffers, results and descriptors only.\<close>

definition commands :: "(ptr \<Rightarrow> ipcmessage option) \<Rightarrow> ptr \<Rightarrow> int option" where
  "commands s = (\<lambda>p. map_option ipc_command (s p))"

lemma commands_update [simp]:
  "commands (s(p \<mapsto> m)) = (commands s)(p \<mapsto> ipc_command m)"
  "commands (s(p := map_option f (s p))) = (commands s)(p := map_option (\<lambda>m. ipc_command (f m)) (s p))"
  by (auto simp: commands_def fun_eq_iff option.map_comp comp_def)

lemma commands_same: "s p = Some m \<Longrightarrow> c = ipc_command m \<Longrightarrow> (commands s)(p \<mapsto> c) = commands s"
  by (auto simp: commands_def)

text \<open>An observation of the plumbing that no call of the module changes.\<close>

definition quiet :: "'os ext \<Rightarrow> ('os usb \<Rightarrow> 'x) \<Rightarrow> bool" where
  "quiet E ob \<longleftrightarrow>
     (\<forall>u a. ob (u \<lparr> inj_store := a \<rparr>) = ob u) \<and> (\<forall>u a. commands a = commands (ipc_store u) \<longrightarrow> ob (u \<lparr> ipc_store := a \<rparr>) = ob u) \<and>
     (\<forall>u b. ob (u \<lparr> usb_intr_hand_down_msg_pending := b \<rparr>) = ob u) \<and>
     (\<forall>u b. ob (u \<lparr> usb_bulk_in_hand_down_msg_pending := b \<rparr>) = ob u) \<and>
     (\<forall>u n. ob (u \<lparr> os_state := snd (os_heap_alloc E (injmessages_heap_id u) n (os_state u)) \<rparr>) = ob u) \<and>
     (\<forall>u p. ob (u \<lparr> os_state := os_heap_free E (injmessages_heap_id u) p (os_state u) \<rparr>) = ob u) \<and>
     (\<forall>u p r. ob (u \<lparr> os_state := snd (os_message_queue_ack E p r (os_state u)) \<rparr>) = ob u) \<and>
     (\<forall>u. \<forall>k \<in> set (queue_ids u).
        ob (u \<lparr> os_state := snd (snd (os_message_queue_receive E k (IOS_MESSAGE_NOBLOCK E) (os_state u))) \<rparr>) = ob u \<and>
        (\<forall>m. ob (u \<lparr> os_state := snd (os_message_queue_send E k m (IOS_MESSAGE_NOBLOCK E) (os_state u)) \<rparr>) = ob u)) \<and>
     (\<forall>u p. ob (u \<lparr> os_state := snd (egc_input_device_suspend E p (os_state u)) \<rparr>) = ob u) \<and>
     (\<forall>u p. ob (u \<lparr> os_state := snd (egc_input_device_resume E p (os_state u)) \<rparr>) = ob u) \<and>
     (\<forall>u p n. ob (u \<lparr> os_state := snd (egc_input_device_set_leds E p n (os_state u)) \<rparr>) = ob u) \<and>
     (\<forall>u p n. ob (u \<lparr> os_state := snd (egc_input_device_set_rumble E p n (os_state u)) \<rparr>) = ob u) \<and>
     (\<forall>u. ob (u \<lparr> os_state := snd (snd (egc_handle_events E (os_state u))) \<rparr>) = ob u)"

lemma quietD:
  assumes "quiet E ob"
  shows "ob (u \<lparr> inj_store := a \<rparr>) = ob u" "commands s = commands (ipc_store u) \<Longrightarrow> ob (u \<lparr> ipc_store := s \<rparr>) = ob u"
    "ob (u \<lparr> usb_intr_hand_down_msg_pending := b \<rparr>) = ob u"
    "ob (u \<lparr> usb_bulk_in_hand_down_msg_pending := b \<rparr>) = ob u"
    "ob (u \<lparr> os_state := snd (os_heap_alloc E (injmessages_heap_id u) n (os_state u)) \<rparr>) = ob u"
    "ob (u \<lparr> os_state := os_heap_free E (injmessages_heap_id u) p (os_state u) \<rparr>) = ob u"
    "ob (u \<lparr> os_state := snd (os_message_queue_ack E p r (os_state u)) \<rparr>) = ob u"
    "k \<in> set (queue_ids u) \<Longrightarrow>
      ob (u \<lparr> os_state := snd (snd (os_message_queue_receive E k (IOS_MESSAGE_NOBLOCK E) (os_state u))) \<rparr>) = ob u"
    "k \<in> set (queue_ids u) \<Longrightarrow>
      ob (u \<lparr> os_state := snd (os_message_queue_send E k m (IOS_MESSAGE_NOBLOCK E) (os_state u)) \<rparr>) = ob u"
    "ob (u \<lparr> os_state := snd (egc_input_device_suspend E d (os_state u)) \<rparr>) = ob u"
    "ob (u \<lparr> os_state := snd (egc_input_device_resume E d (os_state u)) \<rparr>) = ob u"
    "ob (u \<lparr> os_state := snd (egc_input_device_set_leds E d i (os_state u)) \<rparr>) = ob u"
    "ob (u \<lparr> os_state := snd (egc_input_device_set_rumble E d i (os_state u)) \<rparr>) = ob u"
    "ob (u \<lparr> os_state := snd (snd (egc_handle_events E (os_state u))) \<rparr>) = ob u"
  using assms by (simp_all add: quiet_def)

section \<open>The plumbing\<close>

lemma quiet_ack: "quiet E ob \<Longrightarrow> ob (snd (ack_message E m r u)) = ob u"
  using quietD(7) [where E = E and u = u and p = m and r = r] by (simp add: ack_message_def case_prod_beta)

lemma quiet_receive:
  "quiet E ob \<Longrightarrow> k \<in> set (queue_ids u) \<Longrightarrow> queue_receive E k u = (r, m, u') \<Longrightarrow>
   ob u' = ob u \<and> queue_ids u' = queue_ids u"
  using quietD(8) [where E = E and u = u and k = k] by (auto simp: queue_receive_def case_prod_beta queue_ids_def)

lemma quiet_send:
  "quiet E ob \<Longrightarrow> k \<in> set (queue_ids u) \<Longrightarrow> queue_send E k m u = (r, u') \<Longrightarrow> ob u' = ob u"
  using quietD(9) [where E = E and u = u and k = k and m = m] by (auto simp: queue_send_def case_prod_beta)

lemma quiet_free: "quiet E ob \<Longrightarrow> ob (injmessage_free E m u) = ob u"
  unfolding injmessage_free_def
  by (subst quietD(1) [where u = "u \<lparr> os_state := os_heap_free E (injmessages_heap_id u) m (os_state u) \<rparr>", simplified])
    (simp_all add: quietD(6))

lemma quiet_copy:
  assumes "quiet E ob" and "copy_and_ack_ipcmessage E p m u = Inr (r, u')"
  shows "ob u' = ob u"
proof -
  have a: "ob u2 = ob u1" if "(r, u2) = ack_message E x y u1" for x y r u1 u2
    using quiet_ack [OF assms(1), of x y u1] that by (metis snd_conv)
  show ?thesis
    using assms(2)
    by (auto simp: copy_and_ack_ipcmessage_def copy_data_to_ipcmessage_def Let_def result_simps
        quiet_free [OF assms(1)] quietD(2) [OF assms(1)] commands_same split: if_splits dest!: a [OF sym])
qed

lemma quiet_ready:
  assumes "quiet E ob" and "{pq, rq} \<subseteq> set (queue_ids u)"
    and "handle_bulk_intr_ready_message E m pq rq u = Inr (r, u')"
  shows "ob u' = ob u"
proof -
  obtain ret pm u1 where q: "queue_receive E pq u = (ret, pm, u1)" by (cases "queue_receive E pq u") auto
  then have u1: "ob u1 = ob u" "queue_ids u1 = queue_ids u" using quiet_receive assms(1,2) by fastforce+
  have s: "ob u2 = ob u1" if "queue_send E rq m u1 = (r', u2)" for r' u2
    by (rule quiet_send [OF assms(1) _ that]) (use assms(2) u1 in simp)
  show ?thesis
    using assms(1,3) q u1
    by (auto simp: handle_bulk_intr_ready_message_def split: if_splits dest: quiet_copy s)
qed

lemma quiet_configure:
  "quiet E ob \<Longrightarrow> configure_hand_down_msg m fd n u = Inr u' \<Longrightarrow> ob u' = ob u"
  by (auto simp: configure_hand_down_msg_def result_simps quietD(2) commands_same)

lemma quiet_pending:
  assumes "quiet E ob" and "{pq, rq} \<subseteq> set (queue_ids u)"
    and "handle_bulk_intr_pending_message E m n rq pq h p f u = Inr (r, x, p', f', u')"
  shows "ob u' = ob u"
proof -
  obtain ret rm u1 where q: "queue_receive E rq u = (ret, rm, u1)" by (cases "queue_receive E rq u") auto
  then have u1: "ob u1 = ob u" "queue_ids u1 = queue_ids u" using quiet_receive assms(1,2) by fastforce+
  obtain ret2 u2 where s: "queue_send E pq m u1 = (ret2, u2)" by (cases "queue_send E pq m u1")
  have u2: "ob u2 = ob u" using quiet_send [OF assms(1) _ s] u1 assms(2) by simp
  show ?thesis
    using assms(1,3) q s u1 u2
    by (auto simp: handle_bulk_intr_pending_message_def result_simps split: if_splits
        dest: quiet_copy quiet_configure)
qed

section \<open>The injectors\<close>

lemma quiet_alloc: "quiet E ob \<Longrightarrow> injmessage_alloc E n u = (r, u') \<Longrightarrow> ob u' = ob u"
  using quietD(5) [where E = E and u = u and n = "sizeof_injmessage + unat n"]
  by (auto simp: injmessage_alloc_def quietD(1) split: prod.splits option.splits)

lemma quiet_inj_write: "quiet E ob \<Longrightarrow> inj_write m off bs u = Inr u' \<Longrightarrow> ob u' = ob u"
  by (auto simp: inj_write_def result_simps quietD(1))

lemma quiet_allocs:
  assumes "quiet E ob"
  shows "alloc_hci_event_msg E ev n u = Inr (r, u') \<Longrightarrow> ob u' = ob u"
    and "alloc_hci_acl_msg E h sz u = Inr (r', u') \<Longrightarrow> ob u' = ob u"
    and "alloc_l2cap_msg E h dcid sz u = Inr (r', u') \<Longrightarrow> ob u' = ob u"
    and "alloc_l2cap_cmd_msg E h code ident sz u = Inr (r', u') \<Longrightarrow> ob u' = ob u"
proof -
  note qa = quiet_alloc [OF assms] and qw = quiet_inj_write [OF assms]
  show "ob u' = ob u" if "alloc_hci_event_msg E ev n u = Inr (r, u')"
    using that by (auto simp: alloc_hci_event_msg_def result_simps split: prod.splits option.splits dest!: qa qw)
  have acl: "ob u' = ob u" if "alloc_hci_acl_msg E h sz u = Inr (r', u')" for h sz u r' u'
    using that by (auto simp: alloc_hci_acl_msg_def result_simps split: prod.splits option.splits dest!: qa qw)
  then show "alloc_hci_acl_msg E h sz u = Inr (r', u') \<Longrightarrow> ob u' = ob u" .
  have l: "ob u' = ob u" if "alloc_l2cap_msg E h dcid sz u = Inr (r', u')" for h dcid sz u r' u'
    using that by (auto simp: alloc_l2cap_msg_def result_simps split: option.splits dest!: acl qw)
  then show "alloc_l2cap_msg E h dcid sz u = Inr (r', u') \<Longrightarrow> ob u' = ob u" .
  show "ob u' = ob u" if "alloc_l2cap_cmd_msg E h code ident sz u = Inr (r', u')"
    using that by (auto simp: alloc_l2cap_cmd_msg_def result_simps split: option.splits dest!: l qw)
qed

definition silent :: "('os usb \<Rightarrow> 'x) \<Rightarrow> ('os usb \<Rightarrow> (int \<times> 'os usb) result) \<Rightarrow> bool" where
  "silent ob f \<longleftrightarrow> (\<forall>u r u'. f u = Inr (r, u') \<longrightarrow> ob u' = ob u)"

lemma silentI: "(\<And>u r u'. f u = Inr (r, u') \<Longrightarrow> ob u' = ob u) \<Longrightarrow> silent ob f"
  by (simp add: silent_def)

lemma silentD: "silent ob f \<Longrightarrow> f u = Inr (r, u') \<Longrightarrow> ob u' = ob u"
  by (simp add: silent_def)

lemma silent_enqueue:
  assumes "quiet E ob"
  shows "silent ob (inject_msg_to_usb_intr_ready_queue E m)"
    and "silent ob (inject_msg_to_usb_bulk_in_ready_queue E m)"
proof -
  have i: "{pending_usb_intr_msg_queue_id u, ready_usb_intr_msg_queue_id u} \<subseteq> set (queue_ids u)"
    and b: "{pending_usb_bulk_in_msg_queue_id u, ready_usb_bulk_in_msg_queue_id u} \<subseteq> set (queue_ids u)"
    for u :: "'a usb"
    by (simp_all add: queue_ids_def)
  show "silent ob (inject_msg_to_usb_intr_ready_queue E m)"
    by (rule silentI) (simp add: inject_msg_to_usb_intr_ready_queue_def quiet_ready [OF assms i])
  show "silent ob (inject_msg_to_usb_bulk_in_ready_queue E m)"
    by (rule silentI) (simp add: inject_msg_to_usb_bulk_in_ready_queue_def quiet_ready [OF assms b])
qed

lemma silent_event: assumes "quiet E ob" shows "silent ob (inject_filled_event E ev n ep)"
  by (rule silentI) (auto simp: inject_filled_event_def result_simps split: option.splits
      dest!: quiet_allocs(1) [OF assms] quiet_inj_write [OF assms] silentD [OF silent_enqueue(1) [OF assms]])

lemma silent_cmd: assumes "quiet E ob" shows "silent ob (inject_filled_l2cap_cmd E h code ident n cp)"
  by (rule silentI) (auto simp: inject_filled_l2cap_cmd_def result_simps split: option.splits
      dest!: quiet_allocs(4) [OF assms] quiet_inj_write [OF assms] silentD [OF silent_enqueue(2) [OF assms]])

lemma silent_packet: assumes "quiet E ob" shows "silent ob (inject_l2cap_packet E h dcid data)"
  by (rule silentI) (auto simp: inject_l2cap_packet_def result_simps split: option.splits
      dest!: quiet_allocs(3) [OF assms] quiet_inj_write [OF assms] silentD [OF silent_enqueue(2) [OF assms]])

lemma silent_config_rsp:
  assumes "quiet E ob" shows "silent ob (inject_l2cap_config_rsp E h cid ident opts n)"
  by (rule silentI) (auto simp: inject_l2cap_config_rsp_def result_simps split: option.splits
      dest!: quiet_allocs(4) [OF assms] quiet_inj_write [OF assms] silentD [OF silent_enqueue(2) [OF assms]])

lemmas injector_defs =
  inject_hci_event_command_status_def inject_hci_event_command_compl_def inject_hci_event_con_req_def
  inject_hci_event_discon_compl_def inject_hci_event_con_compl_def inject_hci_event_role_change_def
  inject_hci_event_num_compl_pkts_def inject_hci_event_mode_change_def
  inject_hci_event_return_link_keys_def inject_hci_event_con_pkt_type_changed_def
  inject_hci_event_auth_compl_def inject_hci_event_remote_name_req_compl_def
  inject_hci_event_read_remote_features_compl_def inject_hci_event_read_remote_ver_info_compl_def
  inject_hci_event_read_clock_offset_compl_def inject_l2cap_connect_req_def
  inject_l2cap_disconnect_req_def inject_l2cap_disconnect_rsp_def

lemma silent_injectors:
  assumes "quiet E ob"
  shows "silent ob (inject_hci_event_command_status E op)"
    "silent ob (inject_hci_event_command_compl E op data)"
    "silent ob (inject_hci_event_con_req E ba c0 c1 c2 t)"
    "silent ob (inject_hci_event_discon_compl E h st reason)"
    "silent ob (inject_hci_event_con_compl E ba h st)"
    "silent ob (inject_hci_event_role_change E ba role)"
    "silent ob (inject_hci_event_num_compl_pkts E infos)"
    "silent ob (inject_hci_event_mode_change E h mode iv)"
    "silent ob (inject_hci_event_return_link_keys E keys)"
    "silent ob (inject_hci_event_con_pkt_type_changed E h ty)"
    "silent ob (inject_hci_event_auth_compl E st h)"
    "silent ob (inject_hci_event_remote_name_req_compl E st ba name)"
    "silent ob (inject_hci_event_read_remote_features_compl E h feats)"
    "silent ob (inject_hci_event_read_remote_ver_info_compl E h v man sub)"
    "silent ob (inject_hci_event_read_clock_offset_compl E h off)"
    "silent ob (inject_l2cap_connect_req E h psm cid)"
    "silent ob (inject_l2cap_disconnect_rsp E h ident dcid scid)"
    "silent ob (inject_l2cap_config_req E h cid mtu flush)"
  using assms by (simp_all add: injector_defs inject_l2cap_config_req_def Let_def silent_event silent_cmd)

section \<open>One Wiimote\<close>

lemma silent_reports:
  assumes "quiet E ob"
  shows "silent ob (wiimote_send_report E rid data w)"
    and "silent ob (wiimote_send_ack E rpt err w)"
    and "silent ob (wiimote_send_input_report_status E w)"
proof -
  have r: "silent ob (wiimote_send_report E rid data w)" for rid data
    using silentD [OF silent_packet [OF assms]]
    by (auto intro!: silentI simp: wiimote_send_report_def send_hid_input_report_def send_hid_data_def result_simps)
  then show "silent ob (wiimote_send_report E rid data w)" "silent ob (wiimote_send_ack E rpt err w)"
    by (auto simp: wiimote_send_ack_def silent_def)
  show "silent ob (wiimote_send_input_report_status E w)"
    by (rule silentI) (auto simp: wiimote_send_input_report_status_def dest: silentD [OF r])
qed

lemma silent_read_request:
  assumes "quiet E ob" and "fake_wiimote_process_read_request E w u = Inr (b, w', u')"
  shows "ob u' = ob u"
  using assms(2)
  by (auto simp: fake_wiimote_process_read_request_def Let_def result_simps case_prod_beta split: if_splits
      dest!: silentD [OF silent_reports(1) [OF assms(1)]])

lemma silent_extension_change:
  assumes "quiet E ob" and "fake_wiimote_process_extension_change E w u = Inr (b, w', u')"
  shows "ob u' = ob u"
  using assms(2)
  by (auto simp: fake_wiimote_process_extension_change_def Let_def result_simps split: if_splits
      dest!: silentD [OF silent_reports(3) [OF assms(1)]])

lemma silent_data_report:
  assumes "quiet E ob" and "fake_wiimote_send_data_report E w u = Inr (w', u')"
  shows "ob u' = ob u"
  using assms(2)
  by (auto simp: fake_wiimote_send_data_report_def result_simps split: if_splits
      dest!: silentD [OF silent_reports(1) [OF assms(1)]])

lemma silent_config:
  assumes "quiet E ob"
  shows "check_send_config_for_new_channel E c w u = Inr (w', u') \<Longrightarrow> ob u' = ob u"
    and "handle_l2cap_config_req E ident dcid flags options n w u = Inr (w', u') \<Longrightarrow> ob u' = ob u"
  by (auto simp: check_send_config_for_new_channel_def handle_l2cap_config_req_def Let_def result_simps
      split: if_splits option.splits
      dest!: silentD [OF silent_injectors(18) [OF assms]] silentD [OF silent_config_rsp [OF assms]])

lemma silent_write_request:
  assumes "quiet E ob" and "fake_wiimote_process_write_request E req w u = Inr (w', u')"
  shows "ob u' = ob u"
  using assms(2)
  by (auto simp: fake_wiimote_process_write_request_def result_simps split: if_splits
      dest!: silentD [OF silent_reports(2) [OF assms(1)]])

section \<open>The whole state\<close>

lemma silent_on_usb: "silent ob f \<Longrightarrow> on_usb f W = Inr (r, W') \<Longrightarrow> ob (usb W') = ob (usb W)"
  by (auto simp: on_usb_def result_simps dest: silentD)

lemma silent_inject_ok: "silent ob f \<Longrightarrow> inject_ok E f W = Inr W' \<Longrightarrow> ob (usb W') = ob (usb W)"
  by (auto simp: inject_ok_def result_simps dest: silent_on_usb)

lemma usb_upd [simp]: "usb (upd_wm j f W) = usb W" "usb (upd_dev i g W) = usb W"
  by (simp_all add: upd_wm_def upd_dev_def)

lemma silent_on_wm:
  assumes "on_wm f j W = Inr (r, W')" and "\<And>w u r w' u'. f w u = Inr (r, w', u') \<Longrightarrow> ob u' = ob u"
  shows "ob (usb W') = ob (usb W)"
  using assms by (auto simp: on_wm_def result_simps)

lemma silent_on_wm_state:
  assumes "on_wm_state f j W = Inr W'" and "\<And>w u w' u'. f w u = Inr (w', u') \<Longrightarrow> ob u' = ob u"
  shows "ob (usb W') = ob (usb W)"
proof -
  have "on_wm (\<lambda>w u. rbind (f w u) (\<lambda>(w', u'). Inr ((), w', u'))) j W = Inr ((), W')"
    using assms(1) by (auto simp: on_wm_state_def rbind_eq_Inr)
  then show ?thesis by (rule silent_on_wm) (auto simp: rbind_eq_Inr dest: assms(2))
qed

lemma silent_wm_ops:
  assumes "quiet E ob"
  shows "on_wm (fake_wiimote_process_read_request E) j W = Inr (b, W') \<Longrightarrow> ob (usb W') = ob (usb W)"
    and "on_wm (fake_wiimote_process_extension_change E) j W = Inr (b, W') \<Longrightarrow> ob (usb W') = ob (usb W)"
    and "on_wm_state (fake_wiimote_send_data_report E) j W = Inr W' \<Longrightarrow> ob (usb W') = ob (usb W)"
    and "on_wm_state (check_send_config_for_new_channel E c) j W = Inr W' \<Longrightarrow> ob (usb W') = ob (usb W)"
    and "on_wm_state (handle_l2cap_config_req E ident dcid flags options n) j W = Inr W' \<Longrightarrow> ob (usb W') = ob (usb W)"
    and "on_wm_state (fake_wiimote_process_write_request E req) j W = Inr W' \<Longrightarrow> ob (usb W') = ob (usb W)"
  by (erule silent_on_wm silent_on_wm_state,
      erule silent_read_request [OF assms] silent_extension_change [OF assms] silent_data_report [OF assms]
        silent_config [OF assms] silent_write_request [OF assms])+

lemma quiet_egc:
  assumes "quiet E ob"
  shows "input_device_set_rumble E i on W = Inr (r, W') \<Longrightarrow> ob (usb W') = ob (usb W)"
    and "input_device_set_leds E i n W = Inr (r, W') \<Longrightarrow> ob (usb W') = ob (usb W)"
    and "input_device_resume E i W = Inr (r, W') \<Longrightarrow> ob (usb W') = ob (usb W)"
    and "input_device_release_wiimote E i W = Inr W' \<Longrightarrow> ob (usb W') = ob (usb W)"
  using quietD(10-13) [OF assms]
  by (auto simp: input_device_set_rumble_def input_device_set_leds_def input_device_resume_def
      input_device_release_wiimote_def egc_call_def result_simps split: prod.splits)
    (metis snd_conv)+

lemma quiet_disconnect:
  assumes "quiet E ob" and "fake_wiimote_disconnect E j W = Inr (r, W')"
  shows "ob (usb W') = ob (usb W)"
proof -
  note q = assms(1)
  have o: "ob (usb W2) = ob (usb W1)"
    if "on_usb (inject_hci_event_discon_compl E h st reason) W1 = Inr (r, W2)" for h st reason r W1 W2
    using silent_injectors(4) [OF q] that by (rule silent_on_usb)
  show ?thesis
    using assms(2)
    by (auto simp: fake_wiimote_disconnect_def Let_def result_simps split: if_splits option.splits
        dest!: o quiet_egc(4) [OF q])
qed

lemma quiet_ack_if:
  assumes "quiet E ob" and "ack_if E b rpt err j W = Inr W'"
  shows "ob (usb W') = ob (usb W)"
  using assms(2) silent_on_usb [OF silent_reports(2) [OF assms(1)]]
  by (fastforce simp: ack_if_def ignore_ret_def result_simps split: if_splits)

lemma quiet_signal:
  assumes q: "quiet E ob" and run: "handle_l2cap_signal_channel E j code ident payload sz W = Inr W'"
  shows "ob (usb W') = ob (usb W)"
proof -
  have rsp: "ob (usb W') = ob (usb W)" if "handle_l2cap_connect_rsp E j payload W = Inr W'"
    using that by (auto simp: handle_l2cap_connect_rsp_def ignore_ret_def result_simps
        split: if_splits option.splits dest!: quiet_disconnect [OF q])
  have cfg: "ob (usb W') = ob (usb W)" if "handle_l2cap_config_rsp j payload W = Inr W'"
    using that by (auto simp: handle_l2cap_config_rsp_def result_simps split: option.splits)
  have o: "ob (usb W2) = ob (usb W1)"
    if "on_usb (inject_l2cap_disconnect_rsp E h i d s) W1 = Inr (r, W2)" for h i d s r W1 W2
    using silent_injectors(17) [OF q] that by (rule silent_on_usb)
  have dis: "ob (usb W') = ob (usb W)" if "handle_l2cap_disconnect_req E j ident payload W = Inr W'"
    using that by (auto simp: handle_l2cap_disconnect_req_def ignore_ret_def result_simps
        split: option.splits dest!: o)
  show ?thesis
    using run by (auto simp: handle_l2cap_signal_channel_def result_simps split: if_splits
        dest: rsp cfg dis silent_wm_ops(5) [OF q])
qed

lemma quiet_signal_request:
  "quiet E ob \<Longrightarrow> handle_l2cap_signal_channel_request E j data len W = Inr W' \<Longrightarrow> ob (usb W') = ob (usb W)"
proof (induction E j data len W arbitrary: W' rule: handle_l2cap_signal_channel_request.induct)
  case (1 E j data len W)
  show ?case
  proof (cases "len \<ge> of_nat sizeof_l2cap_cmd_hdr_t")
    case True
    then obtain cmd_len code ident W1
      where l: "read_le16 data l2cap_cmd_hdr_t_length = Inr cmd_len"
        and c: "read_u8 data l2cap_cmd_hdr_t_code = Inr code"
        and i: "read_u8 data l2cap_cmd_hdr_t_ident = Inr ident"
        and h: "handle_l2cap_signal_channel E j code ident (drop sizeof_l2cap_cmd_hdr_t data) cmd_len W = Inr W1"
        and r: "handle_l2cap_signal_channel_request E j (drop (sizeof_l2cap_cmd_hdr_t + unat cmd_len) data)
          (len - (of_nat sizeof_l2cap_cmd_hdr_t + cmd_len)) W1 = Inr W'"
      using "1.prems"(2) unfolding handle_l2cap_signal_channel_request.simps [of E j data len W]
      unfolding if_P [OF True] rbind_eq_Inr by blast
    show ?thesis
      using "1.IH" [OF True l c i h "1.prems"(1) r] quiet_signal [OF "1.prems"(1) h] by simp
  qed (use "1.prems" in \<open>simp add: handle_l2cap_signal_channel_request.simps\<close>)
qed

lemma quiet_rumble:
  assumes "quiet E ob" and "fake_wiimote_update_rumble E j on W = Inr W'"
  shows "ob (usb W') = ob (usb W)"
  using assms(2)
  by (auto simp: fake_wiimote_update_rumble_def ignore_ret_def result_simps split: if_splits
      dest!: quiet_egc(1) [OF assms(1)])

lemma quiet_reports:
  assumes q: "quiet E ob"
  shows "output_report_led E j data W = Inr W' \<Longrightarrow> ob (usb W') = ob (usb W)"
    and "output_report_mode E j data W = Inr W' \<Longrightarrow> ob (usb W') = ob (usb W)"
    and "output_report_ir_enable E j data W = Inr W' \<Longrightarrow> ob (usb W') = ob (usb W)"
    and "output_report_feature E r j data W = Inr W' \<Longrightarrow> ob (usb W') = ob (usb W)"
    and "output_report_read_data E j data W = Inr W' \<Longrightarrow> ob (usb W') = ob (usb W)"
  by (auto simp: output_report_led_def output_report_mode_def output_report_ir_enable_def
      output_report_feature_def output_report_read_data_def Let_def ignore_ret_def result_simps
      split: if_splits
      dest!: quiet_ack_if [OF q] quiet_egc(2) [OF q] silent_wm_ops(1) [OF q])

lemma quiet_hid_output:
  assumes q: "quiet E ob" and run: "handle_hid_intr_data_output E j data sz W = Inr W'"
  shows "ob (usb W') = ob (usb W)"
proof (cases "sz = 0")
  case False
  have st: "ob (usb W2) = ob (usb W1)"
    if "on_usb (wiimote_send_input_report_status E w) W1 = Inr (r, W2)" for w r W1 W2
    using silent_reports(3) [OF q] that by (rule silent_on_usb)
  show ?thesis
    using run unfolding handle_hid_intr_data_output_def if_not_P [OF False]
    by (auto simp: rbind_eq_Inr at_eq ignore_ret_def split: if_splits
        dest!: quiet_rumble [OF q] quiet_reports [OF q] silent_wm_ops(6) [OF q] st)
qed (use run in \<open>simp add: handle_hid_intr_data_output_def\<close>)

lemma quiet_acl:
  assumes q: "quiet E ob"
    and run: "fake_wiimote_handle_acl_data_out_request_from_host E j acl W = Inr W'"
  shows "ob (usb W') = ob (usb W)"
  using run
  by (auto simp: fake_wiimote_handle_acl_data_out_request_from_host_def Let_def rbind_eq_Inr at_eq
      split: if_splits option.splits
      dest!: quiet_signal_request [OF q] quiet_hid_output [OF q])

section \<open>The tick\<close>

lemma quiet_request_connection:
  assumes q: "quiet E ob" and run: "tick_request_connection E j W = Inr W'"
  shows "ob (usb W') = ob (usb W)"
proof -
  have o: "ob (usb W2) = ob (usb W1)"
    if "on_usb (inject_hci_event_con_req E ba c0 c1 c2 t) W1 = Inr (r, W2)" for ba c0 c1 c2 t r W1 W2
    using silent_injectors(3) [OF q] that by (rule silent_on_usb)
  show ?thesis
    using run by (auto simp: tick_request_connection_def result_simps split: if_splits dest!: o)
qed

lemma quiet_open_channel:
  assumes q: "quiet E ob" and run: "open_channel E psm c j W = Inr W'"
  shows "ob (usb W') = ob (usb W)"
proof -
  have o: "ob (usb W2) = ob (usb W1)"
    if "inject_ok E (inject_l2cap_connect_req E h p cid) W1 = Inr W2" for h p cid W1 W2
    using silent_injectors(16) [OF q] that by (rule silent_inject_ok)
  show ?thesis
    using run by (auto simp: open_channel_def generate_l2cap_channel_id_def result_simps dest!: o)
qed

lemma quiet_linking:
  assumes q: "quiet E ob" and run: "tick_linking E j W = Inr W'"
  shows "ob (usb W') = ob (usb W)"
proof -
  define send where "send = (\<lambda>W1. rbind (on_wm_state (check_send_config_for_new_channel E HID_Cntl_Chn) j W1)
             (on_wm_state (check_send_config_for_new_channel E HID_Intr_Chn) j))"
  have s: "ob (usb W2) = ob (usb W1)" if "send W1 = Inr W2" for W1 W2
    using that by (auto simp: send_def rbind_eq_Inr dest!: silent_wm_ops(4) [OF q])
  show ?thesis
    using run
    by (auto simp: tick_linking_def Let_def send_def [symmetric] ignore_ret_def result_simps
        split: if_splits dest!: s quiet_open_channel [OF q] quiet_egc(3) [OF q])
qed

lemma quiet_report_input: "input_device_report_input E i W = Inr (b, W') \<Longrightarrow> ob (usb W') = ob (usb W)"
  by (auto simp: input_device_report_input_def result_simps)

lemma quiet_connected:
  assumes q: "quiet E ob" and run: "tick_connected E j W = Inr W'"
  shows "ob (usb W') = ob (usb W)"
  using run
proof (cases rule: tick_connected_cases)
  case Read
  then show ?thesis by (rule silent_wm_ops(1) [OF q])
next
  case (Extension W1)
  then show ?thesis using silent_wm_ops(1,2) [OF q] by metis
next
  case (Sample W1 W2 i send W3)
  have "ob (usb W') = ob (usb W3)" using Sample(4) silent_wm_ops(3) [OF q] by (cases send) auto
  then show ?thesis
    using silent_wm_ops(1) [OF q Sample(1)] silent_wm_ops(2) [OF q Sample(2)] quiet_report_input [OF Sample(3), of ob]
    by simp
qed

lemma quiet_tick:
  assumes q: "quiet E ob" and run: "fake_wiimote_tick E j W = Inr W'"
  shows "ob (usb W') = ob (usb W)"
  using run
  by (cases "baseband_state (fake_wiimotes W ! j)")
    (auto simp: fake_wiimote_tick_def rbind_eq_Inr at_eq split: if_splits
      dest!: quiet_request_connection [OF q] quiet_linking [OF q] quiet_connected [OF q])

lemma quiet_tick_all: "quiet E ob \<Longrightarrow> tick_all E js W = Inr W' \<Longrightarrow> ob (usb W') = ob (usb W)"
proof (induction js arbitrary: W)
  case (Cons j js)
  then show ?case by (auto simp: rbind_eq_Inr split: if_splits dest: quiet_tick)
qed simp

lemma usb_assign: "usb (assign_to j W) = usb W"
  by (simp add: assign_to_def input_device_assign_wiimote_def split: option.split)

lemma usb_assign_all: "usb (fold assign_to js W) = usb W"
  by (induction js arbitrary: W) (simp_all add: usb_assign)

lemma quiet_tick_devices:
  assumes q: "quiet E ob" and run: "fake_wiimote_mgr_tick_devices E W = Inr W'"
  shows "ob (usb W') = ob (usb W)"
proof -
  have o: "ob (usb W2) = ob (usb W1)"
    if "on_usb (inject_hci_event_num_compl_pkts E infos) W1 = Inr (r, W2)" for infos r W1 W2
    using silent_injectors(7) [OF q] that by (rule silent_on_usb)
  have c: "ob (usb W2) = ob (usb W1)"
    if "fake_wiimote_mgr_send_event_number_of_completed_packets E W1 = Inr W2" for W1 W2
    using that by (auto simp: fake_wiimote_mgr_send_event_number_of_completed_packets_def ignore_ret_def
        Let_def result_simps split: if_splits prod.splits dest!: o)
  show ?thesis
    using run by (auto simp: fake_wiimote_mgr_tick_devices_def Let_def rbind_eq_Inr usb_assign_all
        fake_wiimote_mgr_check_assign_input_devices_def split: if_splits
        dest!: quiet_tick_all [OF q] c)
qed

lemma quiet_callbacks:
  "quiet E ob \<Longrightarrow> handle_callbacks E cs W = Inr W' \<Longrightarrow> ob (usb W') = ob (usb W)"
proof (induction cs arbitrary: W)
  case (Cons c cs)
  have a: "usb (input_device_handle_added E p W) = usb W" for p
    by (simp add: input_device_handle_added_def split: option.split)
  have r: "ob (usb W1) = ob (usb W)" if "input_device_handle_removed E p W = Inr W1" for p W1
    using that by (auto simp: input_device_handle_removed_def ignore_ret_def result_simps
        split: option.splits dest!: quiet_disconnect [OF Cons.prems(1)])
  show ?case
    using Cons.prems(2) Cons.IH [OF Cons.prems(1)] a r
    by (cases c) (auto simp: rbind_eq_Inr handle_callback_def)
qed simp

lemma quiet_periodic_tick:
  assumes q: "quiet E ob" and run: "periodic_tick E W = Inr W'"
  shows "ob (usb W') = ob (usb W)"
proof -
  obtain devs cs os' where e: "egc_handle_events E (os_state (usb W)) = (devs, cs, os')"
    by (cases "egc_handle_events E (os_state (usb W))") auto
  have os: "ob ((usb W) \<lparr> os_state := os' \<rparr>) = ob (usb W)"
    using quietD(14) [OF q, of "usb W"] e by simp
  obtain W1 where "handle_callbacks E cs (W \<lparr> egc_devices := devs, usb := (usb W) \<lparr> os_state := os' \<rparr> \<rparr>) = Inr W1"
    and t: "fake_wiimote_mgr_tick_devices E (input_devices_tick W1) = Inr W'"
    using run unfolding periodic_tick_def e Let_def prod.case rbind_eq_Inr by blast
  then show ?thesis
    using quiet_callbacks [OF q] quiet_tick_devices [OF q] os by (fastforce simp: input_devices_tick_def)
qed

section \<open>Requests of the host\<close>

lemma quiet_reset: "quiet E ob \<Longrightarrow> reset_wiimotes E js W = Inr W' \<Longrightarrow> ob (usb W') = ob (usb W)"
proof (induction js arbitrary: W)
  case (Cons j js)
  then show ?case
    by (auto simp: rbind_eq_Inr split: if_splits option.splits dest: quiet_egc(4))
qed simp

lemma quiet_status_then:
  assumes q: "quiet E ob" and "status_then E op h ev W = Inr (b, W')" and "silent ob ev"
  shows "ob (usb W') = ob (usb W)"
  using assms(2) silent_inject_ok [OF assms(3)] silent_inject_ok [OF silent_injectors(1) [OF q]]
  by (fastforce simp: status_then_def result_simps split: if_splits)

lemma quiet_accept:
  assumes q: "quiet E ob" and run: "fake_wiimote_handle_hci_cmd_accept_con E j role W = Inr W'"
  shows "ob (usb W') = ob (usb W)"
  using run
  by (auto simp: fake_wiimote_handle_hci_cmd_accept_con_def case_prod_beta Let_def result_simps
      split: if_splits dest!: silent_inject_ok [OF silent_injectors(1) [OF q]]
        silent_inject_ok [OF silent_injectors(5) [OF q]] silent_inject_ok [OF silent_injectors(6) [OF q]])

lemma quiet_name_keys:
  assumes q: "quiet E ob"
  shows "handle_remote_name_req E payload W = Inr (b, W') \<Longrightarrow> ob (usb W') = ob (usb W)"
    and "handle_read_stored_link_key E payload W = Inr (b, W') \<Longrightarrow> ob (usb W') = ob (usb W)"
    and "handle_write_link_supervision_timeout E payload W = Inr (b, W') \<Longrightarrow> ob (usb W') = ob (usb W)"
  by (auto simp: handle_remote_name_req_def handle_read_stored_link_key_def
      handle_write_link_supervision_timeout_def result_simps split: if_splits option.splits
      dest!: silent_inject_ok [OF silent_injectors(1) [OF q]] silent_inject_ok [OF silent_injectors(12) [OF q]]
        silent_inject_ok [OF silent_injectors(2) [OF q]] silent_on_usb [OF silent_injectors(9) [OF q]])

lemma quiet_mgr_cmds:
  assumes q: "quiet E ob"
  shows "fake_wiimote_mgr_handle_hci_cmd_disconnect E h reason W = Inr (b, W') \<Longrightarrow> ob (usb W') = ob (usb W)"
    and "fake_wiimote_mgr_handle_hci_cmd_reject_con E ba reason W = Inr (b, W') \<Longrightarrow> ob (usb W') = ob (usb W)"
    and "fake_wiimote_mgr_handle_hci_cmd_accept_con E ba role W = Inr (b, W') \<Longrightarrow> ob (usb W') = ob (usb W)"
  by (auto simp: fake_wiimote_mgr_handle_hci_cmd_disconnect_def fake_wiimote_mgr_handle_hci_cmd_reject_con_def
      fake_wiimote_mgr_handle_hci_cmd_accept_con_def ignore_ret_def result_simps split: option.splits
      dest!: silent_inject_ok [OF silent_injectors(1) [OF q]] quiet_disconnect [OF q] quiet_accept [OF q])

lemma quiet_status_thens:
  assumes q: "quiet E ob"
  shows "status_then E op h (inject_hci_event_con_pkt_type_changed E h' ty) W = Inr (b, W') \<Longrightarrow> ob (usb W') = ob (usb W)"
    and "status_then E op h (inject_hci_event_auth_compl E st h') W = Inr (b, W') \<Longrightarrow> ob (usb W') = ob (usb W)"
    and "status_then E op h (inject_hci_event_read_remote_features_compl E h' fs) W = Inr (b, W') \<Longrightarrow> ob (usb W') = ob (usb W)"
    and "status_then E op h (inject_hci_event_read_remote_ver_info_compl E h' v m s) W = Inr (b, W') \<Longrightarrow> ob (usb W') = ob (usb W)"
    and "status_then E op h (inject_hci_event_read_clock_offset_compl E h' co) W = Inr (b, W') \<Longrightarrow> ob (usb W') = ob (usb W)"
    and "status_then E op h (\<lambda>u. rbind m' (\<lambda>iv. inject_hci_event_mode_change E h' mode iv u)) W = Inr (b, W') \<Longrightarrow> ob (usb W') = ob (usb W)"
proof -
  have m: "silent ob (\<lambda>u. rbind m' (\<lambda>iv. inject_hci_event_mode_change E h' mode iv u))"
    by (rule silentI) (auto simp: rbind_eq_Inr dest: silentD [OF silent_injectors(8) [OF q]])
  show "status_then E op h (\<lambda>u. rbind m' (\<lambda>iv. inject_hci_event_mode_change E h' mode iv u)) W = Inr (b, W') \<Longrightarrow> ob (usb W') = ob (usb W)"
    using quiet_status_then [OF q _ m] .
qed (erule quiet_status_then [OF q], rule silent_injectors [OF q])+

lemma quiet_cmd:
  assumes q: "quiet E ob" and run: "fake_wiimote_mgr_handle_hci_cmd_from_host E data W = Inr (b, W')"
  shows "ob (usb W') = ob (usb W)"
proof -
  obtain opcode where opcode: "read_le16 data hci_cmd_hdr_t_opcode = Inr opcode"
    using run unfolding fake_wiimote_mgr_handle_hci_cmd_from_host_def Let_def rbind_eq_Inr by blast
  show ?thesis
    using run
    unfolding fake_wiimote_mgr_handle_hci_cmd_from_host_def Let_def
    by (simp add: opcode split: if_splits)
      (auto simp: rbind_eq_Inr handled_eq split: if_splits
        dest!: quiet_mgr_cmds [OF q] quiet_status_thens [OF q] quiet_name_keys [OF q] quiet_reset [OF q]
          silent_inject_ok [OF silent_injectors(1) [OF q]])
qed

lemma quiet_hci_cmd:
  assumes q: "quiet E ob" and "hci_state_handle_hci_cmd_from_host E data W = Inr (fwd, data', W')"
  shows "ob (usb W') = ob (usb W)"
  using assms(2) by (auto simp: hci_state_handle_hci_cmd_from_host_def rbind_eq_Inr split: if_splits
      dest!: quiet_cmd [OF q])

lemma quiet_acl_out:
  assumes q: "quiet E ob" and "hci_state_handle_acl_data_out_request_from_host E data W = Inr (fwd, data', W')"
  shows "ob (usb W') = ob (usb W)"
proof -
  have m: "ob (usb W2) = ob (usb W)" if "fake_wiimote_mgr_handle_acl_data_out_request_from_host E h d W = Inr (t, W2)" for h d t W2
    using that by (auto simp: fake_wiimote_mgr_handle_acl_data_out_request_from_host_def handled_eq
        split: option.splits dest: quiet_acl [OF q])
  show ?thesis
    using assms(2) by (auto simp: hci_state_handle_acl_data_out_request_from_host_def rbind_eq_Inr
        split: if_splits dest!: m)
qed

lemma quiet_packet:
  assumes q: "quiet E ob" and run: "packet_from_host E p n i m = Inr (r, x, fwd, W')"
    and "\<And>fwd d W1. m = Inr (fwd, d, W1) \<Longrightarrow> ob (usb W1) = ob (usb W)"
  shows "ob (usb W') = ob (usb W)"
proof -
  have u: "ob (usb (upd_ipc a (set_vec_bytes k d) W1)) = ob (usb W1)" for a k d and W1 :: "'a world"
    by (cases "ipc_store (usb W1) a")
      (simp_all add: upd_ipc_def quietD(2) [OF q] commands_same set_vec_bytes_def fun_upd_idem)
  show ?thesis
    using run assms(3) quiet_ack [OF q] u
    by (fastforce simp: packet_from_host_def Let_def rbind_eq_Inr case_prod_beta split: if_splits)
qed

lemma quiet_reads:
  assumes q: "quiet E ob"
  shows "read_from_bulk_in E p n W = Inr (r, x, fwd, W') \<Longrightarrow> ob (usb W') = ob (usb W)"
    and "read_from_intr E p n W = Inr (r, x, fwd, W') \<Longrightarrow> ob (usb W') = ob (usb W)"
proof -
  have m: "{pending_usb_bulk_in_msg_queue_id (usb W), ready_usb_bulk_in_msg_queue_id (usb W)} \<subseteq> set (queue_ids (usb W))"
    "{pending_usb_intr_msg_queue_id (usb W), ready_usb_intr_msg_queue_id (usb W)} \<subseteq> set (queue_ids (usb W))"
    by (simp_all add: queue_ids_def)
  show "read_from_bulk_in E p n W = Inr (r, x, fwd, W') \<Longrightarrow> ob (usb W') = ob (usb W)"
    by (auto simp: read_from_bulk_in_def Let_def rbind_eq_Inr quietD(4) [OF q] dest!: quiet_pending [OF q m(1)])
  show "read_from_intr E p n W = Inr (r, x, fwd, W') \<Longrightarrow> ob (usb W') = ob (usb W)"
    by (auto simp: read_from_intr_def Let_def rbind_eq_Inr quietD(3) [OF q] dest!: quiet_pending [OF q m(2)])
qed

lemma quiet_ioctlv:
  assumes q: "quiet E ob" and run: "handle_oh1_dev_ioctlv E p W = Inr (r, x, fwd, W')"
  shows "ob (usb W') = ob (usb W)"
proof -
  have c: "ob (usb W') = ob (usb W)"
    if "packet_from_host E p n 6 (hci_state_handle_hci_cmd_from_host E data W) = Inr (r, x, fwd, W')" for n data
    by (rule quiet_packet [OF q that]) (rule quiet_hci_cmd [OF q])
  have a: "ob (usb W') = ob (usb W)"
    if "packet_from_host E p n 2 (hci_state_handle_acl_data_out_request_from_host E data W) = Inr (r, x, fwd, W')" for n data
    by (rule quiet_packet [OF q that]) (rule quiet_acl_out [OF q])
  show ?thesis
    using run unfolding handle_oh1_dev_ioctlv_def Let_def
    by (auto simp: rbind_eq_Inr deref_eq split: if_splits dest!: c a quiet_reads [OF q])
qed

section \<open>The calls into egc\<close>

text \<open>The calls into egc, which has queues of its own, leave the queues of the driver alone.\<close>

definition egc_quiet :: "'os ext \<Rightarrow> ('os \<Rightarrow> int \<Rightarrow> ptr list) \<Rightarrow> bool" where
  "egc_quiet E contents \<longleftrightarrow>
     (\<forall>p os. contents (snd (egc_input_device_suspend E p os)) = contents os) \<and>
     (\<forall>p os. contents (snd (egc_input_device_resume E p os)) = contents os) \<and>
     (\<forall>p n os. contents (snd (egc_input_device_set_leds E p n os)) = contents os) \<and>
     (\<forall>p n os. contents (snd (egc_input_device_set_rumble E p n os)) = contents os) \<and>
     (\<forall>os. contents (snd (snd (egc_handle_events E os))) = contents os)"

section \<open>The loop of the receive hook\<close>

text \<open>
  The receive of the driver blocks: it returns when a message arrives.  \<open>upcoming os\<close> are the
  messages that will arrive, those that wait and those that the host, the timer and the dongle
  are still to send, in their order.  A receive returns the next of them; when there is none
  nothing is assumed, the call may wait for ever.
\<close>

definition arrival_spec :: "'os ext \<Rightarrow> ('os \<Rightarrow> ptr list) \<Rightarrow> int \<Rightarrow> u32 \<Rightarrow> bool" where
  "arrival_spec E upcoming q flags \<longleftrightarrow>
     (\<forall>os x xs. upcoming os = x # xs \<longrightarrow>
        (case os_message_queue_receive E q flags os of (r, m, os') \<Rightarrow>
           r = IOS_OK E \<and> m = x \<and> upcoming os' = xs))"

text \<open>No other call of the module takes one of these messages or adds one.\<close>

definition arrivals_kept :: "'os ext \<Rightarrow> ('os \<Rightarrow> ptr list) \<Rightarrow> int \<Rightarrow> bool" where
  "arrivals_kept E upcoming q \<longleftrightarrow>
     (\<forall>h n os. upcoming (snd (os_heap_alloc E h n os)) = upcoming os) \<and>
     (\<forall>h p os. upcoming (os_heap_free E h p os) = upcoming os) \<and>
     (\<forall>p r os. upcoming (snd (os_message_queue_ack E p r os)) = upcoming os) \<and>
     (\<forall>k os. k \<noteq> q \<longrightarrow>
        upcoming (snd (snd (os_message_queue_receive E k (IOS_MESSAGE_NOBLOCK E) os))) = upcoming os \<and>
        (\<forall>m. upcoming (snd (os_message_queue_send E k m (IOS_MESSAGE_NOBLOCK E) os)) = upcoming os)) \<and>
     (\<forall>p os. upcoming (snd (egc_input_device_suspend E p os)) = upcoming os) \<and>
     (\<forall>p os. upcoming (snd (egc_input_device_resume E p os)) = upcoming os) \<and>
     (\<forall>p n os. upcoming (snd (egc_input_device_set_leds E p n os)) = upcoming os) \<and>
     (\<forall>p n os. upcoming (snd (egc_input_device_set_rumble E p n os)) = upcoming os) \<and>
     (\<forall>os. upcoming (snd (snd (egc_handle_events E os))) = upcoming os)"

text \<open>What nothing but the receive of the driver's queue changes.\<close>

definition foreign :: "('os \<Rightarrow> ptr list) \<Rightarrow> int \<Rightarrow> 'os usb \<Rightarrow> int list \<times> (ptr \<Rightarrow> int option) \<times> ptr list" where
  "foreign upcoming q u =
     (queue_ids u, commands (ipc_store u), if q \<in> set (queue_ids u) then [] else upcoming (os_state u))"

lemma quiet_foreign:
  assumes "arrivals_kept E upcoming q"
  shows "quiet E (foreign upcoming q)"
proof -
  have j: "queue_ids (u \<lparr> os_state := x \<rparr>) = queue_ids u" "queue_ids (u \<lparr> inj_store := a \<rparr>) = queue_ids u"
    "queue_ids (u \<lparr> ipc_store := c \<rparr>) = queue_ids u"
    "queue_ids (u \<lparr> usb_intr_hand_down_msg_pending := b \<rparr>) = queue_ids u"
    "queue_ids (u \<lparr> usb_bulk_in_hand_down_msg_pending := b \<rparr>) = queue_ids u" for u :: "'a usb" and x a b c
    by (simp_all add: queue_ids_def)
  have rs: "upcoming (snd (snd (os_message_queue_receive E k (IOS_MESSAGE_NOBLOCK E) (os_state u)))) = upcoming (os_state u)"
    "upcoming (snd (os_message_queue_send E k m (IOS_MESSAGE_NOBLOCK E) (os_state u))) = upcoming (os_state u)"
    if "k \<in> set (queue_ids u)" "q \<notin> set (queue_ids u)" for k m and u :: "'a usb"
    using assms that unfolding arrivals_kept_def by metis+
  have c: "upcoming (snd (os_heap_alloc E h n os)) = upcoming os" "upcoming (os_heap_free E h p os) = upcoming os"
    "upcoming (snd (os_message_queue_ack E p r os)) = upcoming os"
    "upcoming (snd (egc_input_device_suspend E d os)) = upcoming os"
    "upcoming (snd (egc_input_device_resume E d os)) = upcoming os"
    "upcoming (snd (egc_input_device_set_leds E d i os)) = upcoming os"
    "upcoming (snd (egc_input_device_set_rumble E d i os)) = upcoming os"
    "upcoming (snd (snd (egc_handle_events E os))) = upcoming os" for h n p r d i os
    using assms by (simp_all add: arrivals_kept_def)
  show ?thesis
    unfolding quiet_def by (intro conjI allI ballI impI) (auto simp: foreign_def j c rs)
qed

text \<open>The messages that end the loop: the one that is passed on at once, and every message that is no
  request for the driver's \<open>ioctlv\<close>.\<close>

definition ends_loop :: "'os ext \<Rightarrow> (ptr \<Rightarrow> int option) \<Rightarrow> ptr \<Rightarrow> bool" where
  "ends_loop E cmds p \<longleftrightarrow> p = 0xcafef00d \<or> p \<noteq> periodic_timer_cookie E \<and> cmds p \<noteq> Some (IOS_IOCTLV E)"

lemma round_consumes:
  assumes quiet: "quiet E (foreign upcoming q)" and recv: "arrival_spec E upcoming q flags"
    and foreign: "q \<notin> set (queue_ids (usb W))" and next_up: "upcoming (os_state (usb W)) = x # xs"
    and run: "receive_round E q flags m W = Inr res"
  shows "queue_ids (usb (round_world res)) = queue_ids (usb W)"
    and "commands (ipc_store (usb (round_world res))) = commands (ipc_store (usb W))"
    and "upcoming (os_state (usb (round_world res))) = xs"
    and "ends_loop E (commands (ipc_store (usb W))) x \<Longrightarrow> \<exists>r. res = Inl r"
proof -
  obtain ret p os' where r: "os_message_queue_receive E q flags (os_state (usb W)) = (ret, p, os')"
    by (cases "os_message_queue_receive E q flags (os_state (usb W))") auto
  let ?W1 = "W \<lparr> usb := (usb W) \<lparr> os_state := os' \<rparr> \<rparr>"
  have spec: "ret = IOS_OK E" "p = x" "upcoming os' = xs"
    using recv r next_up unfolding arrival_spec_def by fastforce+
  have "foreign upcoming q (usb (round_world res)) = foreign upcoming q (usb ?W1)"
    using run
    by (auto simp: receive_round_def r Let_def rbind_eq_Inr round_world_def split: if_splits
        dest!: quiet_periodic_tick [OF quiet] quiet_ioctlv [OF quiet])
  then show "queue_ids (usb (round_world res)) = queue_ids (usb W)"
    "commands (ipc_store (usb (round_world res))) = commands (ipc_store (usb W))"
    "upcoming (os_state (usb (round_world res))) = xs"
    using foreign spec(3) by (auto simp: foreign_def queue_ids_def split: if_splits)
  assume "ends_loop E (commands (ipc_store (usb W))) x"
  then show "\<exists>r. res = Inl r"
    using run by (auto simp: receive_round_def r spec ends_loop_def commands_def Let_def rbind_eq_Inr deref_eq
        split: if_splits)
qed

lemma receive_loop_returns:
  assumes quiet: "quiet E (foreign upcoming q)" and recv: "arrival_spec E upcoming q flags"
  shows "q \<notin> set (queue_ids (usb W)) \<Longrightarrow> upcoming (os_state (usb W)) = xs @ y # ys \<Longrightarrow>
    ends_loop E (commands (ipc_store (usb W))) y \<Longrightarrow>
    \<exists>res. receive_loop E q flags m W = Some res \<and>
      (\<forall>ret m' W'. res = Inr (ret, m', W') \<longrightarrow>
         (\<exists>k. 0 < k \<and> k \<le> Suc (length xs) \<and> upcoming (os_state (usb W')) = drop k (xs @ y # ys)))"
proof (induction xs arbitrary: W m)
  case Nil
  show ?case
  proof (cases "receive_round E q flags m W")
    case (Inr res)
    note c = round_consumes [OF quiet recv Nil.prems(1) Nil.prems(2) [unfolded append_Nil] Inr]
    obtain r where "res = Inl r" using c(4) Nil.prems(3) by blast
    then show ?thesis
      using Inr c(3) by (cases r) (auto simp: receive_loop.simps [of E q flags m W] round_world_def intro!: exI [of _ 1])
  qed (simp add: receive_loop.simps [of E q flags m W])
next
  case (Cons x xs)
  show ?case
  proof (cases "receive_round E q flags m W")
    case (Inr res)
    note c = round_consumes [OF quiet recv Cons.prems(1) Cons.prems(2) [unfolded append_Cons] Inr]
    show ?thesis
    proof (cases res)
      case (Inl r)
      then show ?thesis
        using c(3) \<open>receive_round E q flags m W = Inr res\<close>
        by (cases r) (auto simp: receive_loop.simps [of E q flags m W] round_world_def intro!: exI [of _ 1])
    next
      case (Inr r)
      then obtain m1 W1 where r: "res = Inr (m1, W1)" by (cases r) auto
      have "\<exists>res. receive_loop E q flags m1 W1 = Some res \<and>
          (\<forall>ret m' W'. res = Inr (ret, m', W') \<longrightarrow>
             (\<exists>k. 0 < k \<and> k \<le> Suc (length xs) \<and> upcoming (os_state (usb W')) = drop k (xs @ y # ys)))"
        using c(1-3) Cons.prems(1,3) by (intro Cons.IH) (simp_all add: r round_world_def)
      then obtain res' where res': "receive_loop E q flags m1 W1 = Some res'"
        and d: "\<And>ret m' W'. res' = Inr (ret, m', W') \<Longrightarrow>
          \<exists>k. 0 < k \<and> k \<le> Suc (length xs) \<and> upcoming (os_state (usb W')) = drop k (xs @ y # ys)" by blast
      have "receive_loop E q flags m W = Some res'"
        using \<open>receive_round E q flags m W = Inr res\<close> r res' by (simp add: receive_loop.simps [of E q flags m W])
      moreover have "\<exists>k. 0 < k \<and> k \<le> Suc (length (x # xs)) \<and>
          upcoming (os_state (usb W')) = drop k ((x # xs) @ y # ys)" if "res' = Inr (ret, m', W')" for ret m' W'
        using d [OF that] by (metis Suc_le_mono append_Cons drop_Suc_Cons length_Cons zero_less_Suc)
      ultimately show ?thesis by blast
    qed
  qed (simp add: receive_loop.simps [of E q flags m W])
qed

text \<open>C15: The receive hook, with the blocking receive of the driver, returns at the latest with the
  first message that is for the driver: when among the messages that will arrive there is the
  one that is passed on at once, or one that is neither an expiry of the timer nor a request of
  kind \<open>ioctlv\<close>, the hook takes messages one by one in their order, at least one and none behind that
  message, and returns (or faults); nothing the module does takes or adds a message.  What the
  calls of the system and of the controller library do with the driver's queue is assumed as
  documented, and the queue is none of the module's.\<close>

lemma receive_hook_returns:
  assumes "arrivals_kept E upcoming (orig_msg_queueid W)"
    and "arrival_spec E upcoming (orig_msg_queueid W) flags"
    and "orig_msg_queueid W \<notin> set (queue_ids (usb W))" and "initialized W"
    and "upcoming (os_state (usb W)) = xs @ y # ys"
    and "y = 0xcafef00d \<or> y \<noteq> periodic_timer_cookie E \<and>
      (\<forall>m. ipc_store (usb W) y = Some m \<longrightarrow> ipc_command m \<noteq> IOS_IOCTLV E)"
  shows "\<exists>res. OH1_IOS_ReceiveMessage_hook E (orig_msg_queueid W) flags ret_msg W = Some res \<and>
    (\<forall>ret m W'. res = Inr (ret, m, W') \<longrightarrow>
       (\<exists>k. 0 < k \<and> k \<le> Suc (length xs) \<and> upcoming (os_state (usb W')) = drop k (xs @ y # ys)))"
proof -
  have "ends_loop E (commands (ipc_store (usb W))) y"
    using assms(6) by (auto simp: ends_loop_def commands_def)
  from receive_loop_returns [OF quiet_foreign [OF assms(1)] assms(2,3,5) this, of ret_msg] show ?thesis
    using assms(4) by (simp add: OH1_IOS_ReceiveMessage_hook_def ensure_initalized_def)
qed

text \<open>Three expiries of the timer and then the message that is passed on, received with the flags of
  the driver, which are none.\<close>

definition busy_world :: "sample_os world" where
  "busy_world = sample_world \<lparr> usb := sample_usb \<lparr> os_state :=
     sample_os0 \<lparr> so_queues := (\<lambda>_. [])(4 := [0x8200, 0x8200, 0x8200, 0xcafef00d, 0x8200]) \<rparr> \<rparr> \<rparr>"

lemma receive_hook_returns_witness:
  "\<exists>res. OH1_IOS_ReceiveMessage_hook sample_ext 4 0 None busy_world = Some res \<and>
    (\<forall>ret m W'. res = Inr (ret, m, W') \<longrightarrow>
       (\<exists>k. 0 < k \<and> k \<le> 4 \<and> so_queues (os_state (usb W')) 4 =
          drop k [0x8200, 0x8200, 0x8200, 0xcafef00d, 0x8200]))"
proof -
  have "arrivals_kept sample_ext (\<lambda>os. so_queues os 4) 4"
    by (auto simp: arrivals_kept_def sample_receive_def sample_send_def sample_ack_def sample_heap_alloc_def
        split: list.splits) (simp add: sample_ext_def)
  moreover have "arrival_spec sample_ext (\<lambda>os. so_queues os 4) 4 0"
    by (simp add: arrival_spec_def sample_receive_def)
  moreover have "orig_msg_queueid busy_world = 4" "initialized busy_world"
    "4 \<notin> set (queue_ids (usb busy_world))"
    "so_queues (os_state (usb busy_world)) 4 = [0x8200, 0x8200, 0x8200] @ 0xcafef00d # [0x8200]"
    by (simp_all add: busy_world_def queue_ids_def)
  ultimately show ?thesis
    using receive_hook_returns [of sample_ext "\<lambda>os. so_queues os 4" busy_world 0
        "[0x8200, 0x8200, 0x8200]" "0xcafef00d" "[0x8200]" None]
    by (simp add: eval_nat_numeral)
qed

end
