(* ===== verification/Hci_Translation.thy ===== *)
theory Hci_Translation
  imports Hci_State
begin

text \<open>
  What the tracker of \<open>source/hci_state.c\<close> guarantees: handles are translated both ways
  consistently, only the handle of a packet changes, connections and disconnections of the
  dongle keep the table a one-to-one map, and the bookkeeping of the other events is exact.
\<close>

section \<open>Patching two bytes\<close>

lemma translate_con_handle_ok:
  "translate_con_handle look off data = Inr data' \<longleftrightarrow>
     (\<exists>h'. Suc off < length data \<and> look (mk16 (data ! Suc off) (data ! off)) = Some h' \<and>
        data' = put off (le16 h') data)"
  by (auto simp: translate_con_handle_def result_simps put_def split: option.splits)

lemma put_put_same:
  "off + length xs \<le> length m \<Longrightarrow> length ys = length xs \<Longrightarrow> put off ys (put off xs m) = put off ys m"
  by (simp add: put_def)

lemma nth_put_le16:
  assumes "Suc off < length m"
  shows "put off (le16 h) m ! off = ucast h" and "put off (le16 h) m ! Suc off = ucast (drop_bit 8 h)"
  using assms by (simp_all add: nth_put le16_def)

lemma put_own_bytes:
  assumes "Suc off < length m"
  shows "put off (le16 (mk16 (m ! Suc off) (m ! off))) m = m"
  using assms by (simp add: put_def Cons_nth_drop_Suc)

text \<open>C9: Replacing the virtual handle of a packet by the physical one and then the physical by
  the virtual one gives back the packet, byte for byte.\<close>

lemma translate_there_and_back:
  assumes "hci_map_inv s"
    and "translate_con_handle (hci_virt_con_handle_get_phys s) off data = Inr data1"
  shows "translate_con_handle (hci_virt_con_handle_get_virt s) off data1 = Inr data"
proof -
  obtain p where p: "Suc off < length data"
    "hci_virt_con_handle_get_phys s (mk16 (data ! Suc off) (data ! off)) = Some p"
    "data1 = put off (le16 p) data"
    using assms(2) by (auto simp: translate_con_handle_ok)
  have "mk16 (data1 ! Suc off) (data1 ! off) = p"
    using p(1) by (simp add: p(3) nth_put_le16)
  moreover have "Suc off < length data1" using p(1,3) by simp
  moreover have "put off (le16 (mk16 (data ! Suc off) (data ! off))) data1 = data"
    using p(1) by (simp add: p(3) put_put_same put_own_bytes del: le16_mk16)
  ultimately show ?thesis
    using hci.back_and_there [OF assms(1) p(2)] by (auto simp: translate_con_handle_ok)
qed

text \<open>A closed instance: a table with one connection.\<close>

definition one_connection :: hci_state where
  "one_connection = hci_state_initial \<lparr> hci_virt_con_handle_map_table :=
     [\<lparr> entry_valid = True, entry_virt = 5, entry_phys = 0x0123 \<rparr>,
      \<lparr> entry_valid = False, entry_virt = 0, entry_phys = 0 \<rparr>] \<rparr>"

lemma one_connection_simps [simp]:
  "hci_map_inv one_connection"
  "hci_virt_con_handle_get_phys one_connection v = (if v = 5 then Some 0x0123 else None)"
  "hci_virt_con_handle_get_virt one_connection p = (if p = 0x0123 then Some 5 else None)"
  by (auto simp: one_connection_def hci_map_defs)

lemma translate_there_and_back_witness:
  "translate_con_handle (hci_virt_con_handle_get_virt one_connection) 3
     [0x06, 0x04, 3, 0x23, 0x01, 0x13] = Inr [0x06, 0x04, 3, 5, 0, 0x13]"
proof -
  have "translate_con_handle (hci_virt_con_handle_get_phys one_connection) 3
      [0x06, 0x04, 3, 5, 0, 0x13] = Inr [0x06, 0x04, 3, 0x23, 0x01, 0x13]"
    by (simp add: translate_con_handle_ok put_def le16_def mk16_def)
  then show ?thesis
    by (rule translate_there_and_back [OF one_connection_simps(1)])
qed

section \<open>Commands and events with a handle\<close>

lemma special_commands_not_translated:
  "map_of translated_commands HCI_CMD_CREATE_CON = None"
  "map_of translated_commands HCI_CMD_WRITE_SCAN_ENABLE = None"
  "map_of translated_commands HCI_CMD_WRITE_UNIT_CLASS = None"
  "map_of translated_commands HCI_CMD_RESET = None"
  "map_of translated_commands HCI_CMD_READ_STORED_LINK_KEY = None"
  "map_of translated_commands HCI_CMD_HOST_NUM_COMPL_PKTS = None"
  by (simp_all add: translated_commands_def hci_consts)

lemma special_events_not_translated:
  "map_of translated_events HCI_EVENT_CON_COMPL = None"
  "map_of translated_events HCI_EVENT_DISCON_COMPL = None"
  "map_of translated_events HCI_EVENT_COMMAND_COMPL = None"
  "map_of translated_events HCI_EVENT_NUM_COMPL_PKTS = None"
  by (simp_all add: translated_events_def hci_consts)

text \<open>A command of the host that carries a connection handle is forwarded with the physical
  handle in the place of the virtual one and with every other byte unchanged, and a command
  whose handle is not in use stops the module.\<close>

lemma translated_forwarded:
  assumes "read_le16 data hci_cmd_hdr_t_opcode = Inr opcode"
    and "map_of translated_commands opcode = Some off"
    and "read_le16 data (sizeof_hci_cmd_hdr_t + off) = Inr virt"
  shows "forward_hci_cmd data s =
    (case hci_virt_con_handle_get_phys s virt of
       None \<Rightarrow> Inl Assert_Failed
     | Some phys \<Rightarrow> Inr (put (sizeof_hci_cmd_hdr_t + off) (le16 phys) data, s))"
proof -
  have ne: "opcode \<noteq> HCI_CMD_CREATE_CON" "opcode \<noteq> HCI_CMD_WRITE_SCAN_ENABLE"
    "opcode \<noteq> HCI_CMD_WRITE_UNIT_CLASS" "opcode \<noteq> HCI_CMD_RESET"
    "opcode \<noteq> HCI_CMD_READ_STORED_LINK_KEY" "opcode \<noteq> HCI_CMD_HOST_NUM_COMPL_PKTS"
    using assms(2) special_commands_not_translated by auto
  have "sizeof_hci_cmd_hdr_t + off + 2 \<le> length data"
    using assms(3) by (auto simp: result_simps)
  then show ?thesis using assms ne
    by (simp add: forward_hci_cmd_def translate_con_handle_def put_write_bytes split: option.splits)
qed

text \<open>An event of the controller that carries a connection handle reaches the host with the
  virtual handle in the place of the physical one and with every other byte unchanged.\<close>

lemma event_translated:
  assumes "read_u8 data hci_event_hdr_t_event = Inr event"
    and "map_of translated_events event = Some off"
    and "read_le16 data (sizeof_hci_event_hdr_t + off) = Inr phys"
  shows "hci_state_handle_hci_event_from_controller data s =
    (case hci_virt_con_handle_get_virt s phys of
       None \<Rightarrow> Inl Assert_Failed
     | Some virt \<Rightarrow> Inr (put (sizeof_hci_event_hdr_t + off) (le16 virt) data, s))"
proof -
  have ne: "event \<noteq> HCI_EVENT_CON_COMPL" "event \<noteq> HCI_EVENT_DISCON_COMPL"
    "event \<noteq> HCI_EVENT_COMMAND_COMPL" "event \<noteq> HCI_EVENT_NUM_COMPL_PKTS"
    using assms(2) special_events_not_translated by auto
  have "sizeof_hci_event_hdr_t + off + 2 \<le> length data"
    using assms(3) by (auto simp: result_simps)
  then show ?thesis using assms ne
    by (simp add: hci_state_handle_hci_event_from_controller_def translate_con_handle_def
        put_write_bytes Let_def split: option.splits)
qed

section \<open>Connections of the dongle\<close>

lemma virt_mask: "n < 256 \<Longrightarrow> of_nat n AND 0x0EFF = (of_nat n :: u16)"
proof -
  assume "n < 256"
  then have "take_bit 8 (of_nat n) = (of_nat n :: u16)"
    by (simp add: take_bit_of_nat take_bit_nat_eq_self)
  moreover have "take_bit 8 x AND 0x0EFF = take_bit 8 x" for x :: u16
    by (simp add: take_bit_eq_mask mask_eq_exp_minus_1 and.assoc)
  ultimately show ?thesis by metis
qed

lemma virt_step:
  "last_hci_virt_con_handle s = of_nat (k mod 256) \<Longrightarrow>
   last_hci_virt_con_handle (snd (hci_con_handle_virt_alloc s)) = of_nat (Suc k mod 256)"
proof -
  assume l: "last_hci_virt_con_handle s = of_nat (k mod 256)"
  show ?thesis
  proof (cases "k mod 256 = 255")
    case True
    then have "Suc k mod 256 = 0" by (simp add: mod_Suc)
    with True l show ?thesis by (simp add: hci_con_handle_virt_alloc_def)
  next
    case False
    then have "Suc k mod 256 = Suc (k mod 256)" by (simp add: mod_Suc)
    moreover have "Suc (k mod 256) < 256" using False mod_less_divisor [of 256 k] by linarith
    ultimately show ?thesis using l virt_mask [of "Suc (k mod 256)"]
      by (simp add: hci_con_handle_virt_alloc_def add.commute)
  qed
qed

text \<open>A completed connection or disconnection, with status 0 and a physical handle.\<close>

definition con_compl_of :: "u16 \<Rightarrow> u8 list \<Rightarrow> bool" where
  "con_compl_of phys data \<longleftrightarrow>
     read_u8 data hci_event_hdr_t_event = Inr HCI_EVENT_CON_COMPL \<and>
     read_u8 data (sizeof_hci_event_hdr_t + hci_con_compl_ep_status) = Inr 0 \<and>
     read_le16 data (sizeof_hci_event_hdr_t + hci_con_compl_ep_con_handle) = Inr phys"

definition discon_compl_of :: "u16 \<Rightarrow> u8 list \<Rightarrow> bool" where
  "discon_compl_of phys data \<longleftrightarrow>
     read_u8 data hci_event_hdr_t_event = Inr HCI_EVENT_DISCON_COMPL \<and>
     read_u8 data (sizeof_hci_event_hdr_t + hci_discon_compl_ep_status) = Inr 0 \<and>
     read_le16 data (sizeof_hci_event_hdr_t + hci_discon_compl_ep_con_handle) = Inr phys"

lemma virt_alloc_frame [simp]:
  "hci_map_inv (snd (hci_con_handle_virt_alloc s)) = hci_map_inv s"
  "hci_map_full (snd (hci_con_handle_virt_alloc s)) = hci_map_full s"
  "hci_virt_con_handle_get_virt (snd (hci_con_handle_virt_alloc s)) = hci_virt_con_handle_get_virt s"
  "hci_virt_con_handle_get_phys (snd (hci_con_handle_virt_alloc s)) = hci_virt_con_handle_get_phys s"
  by (simp_all add: hci_con_handle_virt_alloc_def hci_map_defs fun_eq_iff)

lemma con_compl_event:
  assumes inv: "hci_map_inv s" and room: "\<not> hci_map_full s"
    and fresh: "hci_virt_con_handle_get_virt s phys = None"
      "hci_virt_con_handle_get_phys s (last_hci_virt_con_handle s) = None"
    and ev: "con_compl_of phys data"
  shows "\<exists>s'. hci_state_handle_hci_event_from_controller data s =
      Inr (put (sizeof_hci_event_hdr_t + hci_con_compl_ep_con_handle)
             (le16 (last_hci_virt_con_handle s)) data, s') \<and>
    hci_map_inv s' \<and>
    hci_virt_con_handle_get_virt s' = (hci_virt_con_handle_get_virt s)(phys \<mapsto> last_hci_virt_con_handle s)"
proof -
  define v s1 where "v = last_hci_virt_con_handle s" and "s1 = snd (hci_con_handle_virt_alloc s)"
  have alloc: "hci_con_handle_virt_alloc s = (v, s1)"
    by (simp add: s1_def v_def hci_con_handle_virt_alloc_def)
  obtain s2 where s2: "hci_virt_con_handle_map phys v s1 = Some s2"
    using room hci.map_refused [of phys v s1] by (auto simp: s1_def)
  have "hci_map_inv s2 \<and> hci_virt_con_handle_get_virt s2 = (hci_virt_con_handle_get_virt s)(phys \<mapsto> v)"
    using hci.map_adds [OF _ _ _ s2] inv fresh by (simp add: s1_def v_def)
  moreover have "sizeof_hci_event_hdr_t + hci_con_compl_ep_con_handle + 2 \<le> length data"
    using ev by (auto simp: con_compl_of_def result_simps)
  ultimately show ?thesis using ev s2 alloc
    by (auto simp: con_compl_of_def hci_state_handle_hci_event_from_controller_def Let_def
        handle_con_compl_def put_write_bytes v_def)
qed

lemma discon_compl_event:
  assumes inv: "hci_map_inv s" and live: "hci_virt_con_handle_get_virt s phys = Some virt"
    and ev: "discon_compl_of phys data"
  shows "\<exists>s'. hci_state_handle_hci_event_from_controller data s =
      Inr (put (sizeof_hci_event_hdr_t + hci_discon_compl_ep_con_handle) (le16 virt) data, s') \<and>
    hci_map_inv s' \<and>
    hci_virt_con_handle_get_virt s' = (hci_virt_con_handle_get_virt s)(phys := None)"
proof -
  obtain s1 where s1: "hci_virt_con_handle_unmap_virt virt s = Some s1"
    using hci.unmap_refused [OF inv] hci.there_and_back [OF inv live] by fastforce
  have ne: "HCI_EVENT_DISCON_COMPL \<noteq> HCI_EVENT_CON_COMPL" by (simp add: hci_consts)
  have "sizeof_hci_event_hdr_t + hci_discon_compl_ep_con_handle + 2 \<le> length data"
    using ev by (auto simp: discon_compl_of_def result_simps)
  then show ?thesis using ev s1 live ne hci.unmap_removes [OF inv live s1]
    by (auto simp: discon_compl_of_def hci_state_handle_hci_event_from_controller_def Let_def
        handle_discon_compl_def put_write_bytes)
qed

lemma read_le16_put: "off + 2 \<le> length m \<Longrightarrow> read_le16 (put off (le16 h) m) off = Inr h"
  by (simp add: read_le16_def read_u8_def nth_put_le16)

text \<open>The live virtual handles of the table only shrink, except by a connection of the dongle.\<close>

definition live_handles :: "hci_state \<Rightarrow> u16 set" where
  "live_handles s = live_virt (hci_virt_con_handle_map_table s)"

lemma not_live: "hci_virt_con_handle_get_phys s v = None \<longleftrightarrow> v \<notin> live_handles s"
  by (simp add: hci_map_defs table_get_phys_None live_handles_def)

text \<open>The virtual handles handed out since the last reset, the newest first, over everything the
  tracker does: the power-up state, a connection of a fake Wiimote, an event of the dongle (which
  reports no connection under a physical handle that is in use), a command of the host.\<close>

inductive handles_issued :: "u16 list \<Rightarrow> hci_state \<Rightarrow> bool" where
  power_up: "handles_issued [] hci_state_initial"
| fake_connects: "handles_issued hs s \<Longrightarrow> hci_con_handle_virt_alloc s = (v, s') \<Longrightarrow>
    handles_issued (v # hs) s'"
| dongle_connects: "handles_issued hs s \<Longrightarrow> con_compl_of phys data \<Longrightarrow>
    hci_virt_con_handle_get_virt s phys = None \<Longrightarrow>
    hci_state_handle_hci_event_from_controller data s = Inr (data', s') \<Longrightarrow>
    read_le16 data' (sizeof_hci_event_hdr_t + hci_con_compl_ep_con_handle) = Inr v \<Longrightarrow>
    handles_issued (v # hs) s'"
| other_event: "handles_issued hs s \<Longrightarrow> (\<And>phys. \<not> con_compl_of phys data) \<Longrightarrow>
    hci_state_handle_hci_event_from_controller data s = Inr (data', s') \<Longrightarrow>
    handles_issued hs s'"
| host_command: "handles_issued hs s \<Longrightarrow> forward_hci_cmd data s = Inr (data', s') \<Longrightarrow>
    handles_issued (if read_le16 data hci_cmd_hdr_t_opcode = Inr HCI_CMD_RESET then [] else hs) s'"

text \<open>What a run keeps while at most 256 handles have been handed out.\<close>

definition handles_counted :: "u16 list \<Rightarrow> hci_state \<Rightarrow> bool" where
  "handles_counted hs s \<longleftrightarrow> hci_map_inv s \<and> hs = map of_nat (rev [0..<length hs]) \<and>
     last_hci_virt_con_handle s = of_nat (length hs mod 256) \<and> live_handles s \<subseteq> set hs"

lemma next_not_issued:
  assumes "handles_counted hs s" and "length hs < 256"
  shows "last_hci_virt_con_handle s \<notin> set hs"
proof
  assume a: "last_hci_virt_con_handle s \<in> set hs"
  have "set hs = set (map of_nat (rev [0..<length hs]))"
    using assms(1) unfolding handles_counted_def by (elim conjE) (erule arg_cong)
  then have "set hs = of_nat ` {..<length hs}" by (simp only: set_map set_rev set_upt lessThan_atLeast0)
  with a assms obtain k where "k < length hs" "(of_nat (length hs) :: u16) = of_nat k"
    by (auto simp: handles_counted_def)
  then show False using assms(2) by (simp add: word_of_nat_eq_iff take_bit_eq_mod)
qed

lemma counted_alloc:
  assumes "handles_counted hs s" and "length hs < 256"
  shows "handles_counted (last_hci_virt_con_handle s # hs) (snd (hci_con_handle_virt_alloc s))"
  using assms virt_step [of s "length hs"]
  by (auto simp: handles_counted_def live_handles_def hci_con_handle_virt_alloc_def hci_map_inv_def)

lemma counted_reset: "handles_counted [] (hci_state_reset s)"
proof -
  have "live_virt (map (entry_valid_update (\<lambda>_. False)) es) = {}"
    "table_inv (map (entry_valid_update (\<lambda>_. False)) es)" for es
    by (induction es) auto
  then show ?thesis by (simp add: handles_counted_def live_handles_def hci_state_reset_def hci_map_inv_def)
qed

lemma counted_power_up: "handles_counted [] hci_state_initial"
  by (simp add: handles_counted_def live_handles_def hci_state_initial_def hci_map_inv_def table_inv_def
      live_virt_def)

lemma forwarded_frame:
  assumes "forward_hci_cmd data s = Inr (data', s')"
    and "read_le16 data hci_cmd_hdr_t_opcode \<noteq> Inr HCI_CMD_RESET"
  shows "hci_virt_con_handle_map_table s' = hci_virt_con_handle_map_table s \<and>
    last_hci_virt_con_handle s' = last_hci_virt_con_handle s"
  using assms by (auto simp: forward_hci_cmd_def rbind_eq_Inr split: if_splits option.splits)

lemma forwarded_reset:
  "forward_hci_cmd data s = Inr (data', s') \<Longrightarrow> read_le16 data hci_cmd_hdr_t_opcode = Inr HCI_CMD_RESET \<Longrightarrow>
   s' = hci_state_reset s"
  by (auto simp: forward_hci_cmd_def hci_consts)

lemma counted_connects:
  assumes "handles_counted hs s" and "length hs < 256" and "con_compl_of phys data"
    and "hci_virt_con_handle_get_virt s phys = None"
    and "hci_state_handle_hci_event_from_controller data s = Inr (data', s')"
  shows "data' = put (sizeof_hci_event_hdr_t + hci_con_compl_ep_con_handle)
      (le16 (last_hci_virt_con_handle s)) data \<and>
    handles_counted (last_hci_virt_con_handle s # hs) s'"
proof -
  let ?v = "last_hci_virt_con_handle s"
  obtain s1 where alloc: "hci_con_handle_virt_alloc s = (?v, s1)"
    by (simp add: hci_con_handle_virt_alloc_def)
  have free: "hci_virt_con_handle_get_phys s ?v = None"
    using next_not_issued [OF assms(1,2)] assms(1) by (auto simp: not_live handles_counted_def)
  have "sizeof_hci_event_hdr_t + hci_con_compl_ep_con_handle + 2 \<le> length data"
    using assms(3) by (auto simp: con_compl_of_def result_simps)
  then have r: "data' = put (sizeof_hci_event_hdr_t + hci_con_compl_ep_con_handle) (le16 ?v) data"
    "hci_virt_con_handle_map phys ?v s1 = Some s'"
    using assms(3,5)
    unfolding con_compl_of_def hci_state_handle_hci_event_from_controller_def Let_def handle_con_compl_def alloc
    by (auto simp: put_write_bytes split: option.splits)
  have c1: "handles_counted (?v # hs) s1" using counted_alloc [OF assms(1,2)] by (simp add: alloc)
  then have "hci_map_inv s'"
    using hci.map_adds [OF _ _ _ r(2)] assms(4) free virt_alloc_frame [of s]
    by (simp add: handles_counted_def alloc)
  moreover have "last_hci_virt_con_handle s' = last_hci_virt_con_handle s1"
    "live_handles s' = insert ?v (live_handles s1)"
    using r(2) table_map_set [of phys ?v "hci_virt_con_handle_map_table s1"] by (auto simp: hci_virt_con_handle_map_def live_handles_def)
  ultimately show ?thesis using c1 r(1) by (auto simp: handles_counted_def)
qed

lemma counted_other:
  assumes "handles_counted hs s" and "\<And>phys. \<not> con_compl_of phys data"
    and "hci_state_handle_hci_event_from_controller data s = Inr (data', s')"
  shows "handles_counted hs s'"
proof -
  have c: "s' = s" if "handle_con_compl data s = Inr (data', s')"
    "read_u8 data hci_event_hdr_t_event = Inr HCI_EVENT_CON_COMPL"
    using that assms(2)
    by (auto simp: handle_con_compl_def con_compl_of_def Let_def rbind_eq_Inr split: if_splits option.splits prod.splits)
  have d: "handles_counted hs s'" if h: "handle_discon_compl data s = Inr (data', s')"
  proof (cases "s' = s")
    case False
    then obtain phys virt where r: "hci_virt_con_handle_get_virt s phys = Some virt"
      "hci_virt_con_handle_unmap_virt virt s = Some s'"
      using h by (auto simp: handle_discon_compl_def Let_def rbind_eq_Inr split: if_splits option.splits)
    then have "hci_map_inv s'" using hci.unmap_removes [OF _ r] assms(1) by (simp add: handles_counted_def)
    moreover have "live_handles s' \<subseteq> live_handles s"
      "last_hci_virt_con_handle s' = last_hci_virt_con_handle s"
      using r(2) table_unmap_subset [of virt "hci_virt_con_handle_map_table s"]
      by (auto simp: hci_virt_con_handle_unmap_virt_def live_handles_def)
    ultimately show ?thesis using assms(1) by (auto simp: handles_counted_def)
  qed (use assms(1) in simp)
  show ?thesis using assms(1,3) c d
    by (auto simp: hci_state_handle_hci_event_from_controller_def Let_def rbind_eq_Inr
        split: if_splits option.splits)
qed

lemma issued_counted: "handles_issued hs s \<Longrightarrow> length hs \<le> 256 \<Longrightarrow> handles_counted hs s"
proof (induction rule: handles_issued.induct)
  case power_up
  show ?case by (rule counted_power_up)
next
  case (fake_connects hs s v s')
  then show ?case using counted_alloc [of hs s] by (auto simp: hci_con_handle_virt_alloc_def)
next
  case (dongle_connects hs s phys data data' s' v)
  have "handles_counted hs s" "length hs < 256" using dongle_connects.IH dongle_connects.prems by simp_all
  note c = counted_connects [OF this dongle_connects.hyps(2-4)]
  have "sizeof_hci_event_hdr_t + hci_con_compl_ep_con_handle + 2 \<le> length data"
    using dongle_connects.hyps(2) by (auto simp: con_compl_of_def result_simps)
  then have "v = last_hci_virt_con_handle s"
    using c dongle_connects.hyps(5) by (simp add: read_le16_put)
  with c show ?case by simp
next
  case (other_event hs s data data' s')
  then show ?case using counted_other by blast
next
  case (host_command hs s data data' s')
  then show ?case using forwarded_reset [OF host_command.hyps(2)] forwarded_frame [OF host_command.hyps(2)]
      counted_reset [of s]
    by (auto simp: handles_counted_def live_handles_def hci_map_inv_def)
qed

text \<open>C7: When the dongle reports a connection, the host sees a virtual handle that neither a
  connection of the dongle nor a fake Wiimote has got since the last reset; when the dongle reports
  the end of the connection the host sees the same virtual handle, and afterwards the table maps
  what it mapped before. This holds in every state the tracker reaches by its own allocations,
  events and commands, for the first 256 connections after a reset (then the handles start again at
  0) and while the table has a free entry.\<close>

lemma connect_disconnect_events:
  assumes "handles_issued hs s" and "length hs < 256"
    and "\<not> hci_map_full s" and "hci_virt_con_handle_get_virt s phys = None"
    and "con_compl_of phys data" and "discon_compl_of phys data'"
  shows "\<exists>v s1 s2. v \<notin> set hs \<and> hci_virt_con_handle_get_phys s v = None \<and>
    hci_state_handle_hci_event_from_controller data s =
      Inr (put (sizeof_hci_event_hdr_t + hci_con_compl_ep_con_handle) (le16 v) data, s1) \<and>
    hci_state_handle_hci_event_from_controller data' s1 =
      Inr (put (sizeof_hci_event_hdr_t + hci_discon_compl_ep_con_handle) (le16 v) data', s2) \<and>
    handles_issued (v # hs) s1 \<and> handles_issued (v # hs) s2 \<and> hci_map_inv s2 \<and>
    hci_virt_con_handle_get_virt s2 = hci_virt_con_handle_get_virt s"
proof -
  let ?v = "last_hci_virt_con_handle s"
  have c: "handles_counted hs s" using issued_counted [OF assms(1)] assms(2) by simp
  have new: "?v \<notin> set hs" by (rule next_not_issued [OF c assms(2)])
  then have free: "hci_virt_con_handle_get_phys s ?v = None" and inv: "hci_map_inv s"
    using c by (auto simp: not_live handles_counted_def)
  obtain s1 where s1: "hci_state_handle_hci_event_from_controller data s =
      Inr (put (sizeof_hci_event_hdr_t + hci_con_compl_ep_con_handle) (le16 ?v) data, s1)" "hci_map_inv s1"
    "hci_virt_con_handle_get_virt s1 = (hci_virt_con_handle_get_virt s)(phys \<mapsto> ?v)"
    using con_compl_event [OF inv assms(3,4) free assms(5)] by blast
  then have "hci_virt_con_handle_get_virt s1 phys = Some ?v" by simp
  from discon_compl_event [OF s1(2) this assms(6)] obtain s2 where s2:
    "hci_state_handle_hci_event_from_controller data' s1 =
      Inr (put (sizeof_hci_event_hdr_t + hci_discon_compl_ep_con_handle) (le16 ?v) data', s2)"
    "hci_map_inv s2" "hci_virt_con_handle_get_virt s2 = (hci_virt_con_handle_get_virt s1)(phys := None)"
    by blast
  have "sizeof_hci_event_hdr_t + hci_con_compl_ep_con_handle + 2 \<le> length data"
    using assms(5) by (auto simp: con_compl_of_def result_simps)
  then have i1: "handles_issued (?v # hs) s1"
    by (intro dongle_connects [OF assms(1,5,4) s1(1)]) (simp add: read_le16_put)
  have "\<not> con_compl_of q data'" for q
    using assms(6) by (auto simp: con_compl_of_def discon_compl_of_def hci_consts)
  then have "handles_issued (?v # hs) s2" by (rule other_event [OF i1 _ s2(1)])
  then show ?thesis using new free s1 s2 i1 assms(4) by (fastforce simp: fun_upd_idem_iff)
qed

text \<open>A fake Wiimote has got the handle 0; a device connects and gets the handle 1.\<close>

lemma connect_disconnect_events_witness:
  "\<exists>v s1 s2. v \<noteq> 0 \<and> hci_state_handle_hci_event_from_controller
      [0x03, 11, 0, 0x42, 0, 1, 2, 3, 4, 5, 6, 1, 0] (snd (hci_con_handle_virt_alloc hci_state_initial)) =
        Inr ([0x03, 11, 0, ucast v, ucast (drop_bit 8 v), 1, 2, 3, 4, 5, 6, 1, 0], s1) \<and>
    hci_state_handle_hci_event_from_controller [0x05, 4, 0, 0x42, 0, 0x13] s1 =
        Inr ([0x05, 4, 0, ucast v, ucast (drop_bit 8 v), 0x13], s2) \<and>
    handles_issued [v, 0] s2"
proof -
  let ?s = "snd (hci_con_handle_virt_alloc hci_state_initial)"
  have c: "con_compl_of 0x42 [0x03, 11, 0, 0x42, 0, 1, 2, 3, 4, 5, 6, 1, 0]"
    and d: "discon_compl_of 0x42 [0x05, 4, 0, 0x42, 0, 0x13]"
    by (simp_all add: con_compl_of_def discon_compl_of_def hci_consts hci_layout read_u8_def
        read_le16_def mk16_def)
  have r: "handles_issued [0] ?s"
    by (rule fake_connects [OF power_up]) (simp add: hci_con_handle_virt_alloc_def hci_state_initial_def)
  have n: "\<not> hci_map_full ?s" "hci_virt_con_handle_get_virt ?s 0x42 = None"
    by (simp_all add: hci_state_initial_def hci_map_full_def hci_virt_con_handle_get_virt_def
        hci_con_handle_virt_alloc_def table_full_def table_get_virt_None live_phys_def MAX_HCI_CONNECTIONS_def
        list_all_iff)
  from connect_disconnect_events [OF r _ n c d] show ?thesis
    by (auto simp: hci_layout put_def le16_def)
qed

section \<open>Virtual handles\<close>

text \<open>After a reset the allocator hands out the virtual handles 0, 1, 2, \<open>\<dots>\<close>, 255 and then
  starts again at 0: the mask it applies keeps eight bits of the twelve a handle has, so two
  connections allocated 256 apart get the same handle.\<close>

lemma virt_handles_repeat:
  "fst (hci_con_handle_virt_alloc (((\<lambda>s. snd (hci_con_handle_virt_alloc s)) ^^ k) (hci_state_reset s)))
   = of_nat (k mod 256)"
proof -
  have "last_hci_virt_con_handle (((\<lambda>s. snd (hci_con_handle_virt_alloc s)) ^^ k) (hci_state_reset s)) =
      of_nat (k mod 256)"
    by (induction k) (simp add: hci_state_reset_def, simp add: virt_step)
  then show ?thesis by (simp add: hci_con_handle_virt_alloc_def)
qed

section \<open>Completed packets of the dongle\<close>

definition pkts_infos :: "(u16 \<times> u16) list \<Rightarrow> u8 list" where
  "pkts_infos infos = concat (map (\<lambda>(h, n). le16 h @ le16 n) infos)"

lemma pkts_infos_simps [simp]:
  "pkts_infos [] = []" "pkts_infos ((h, n) # infos) = le16 h @ le16 n @ pkts_infos infos"
  by (simp_all add: pkts_infos_def)

lemma translate_con_handle_at:
  "look h = Some h' \<Longrightarrow>
   translate_con_handle look (length pre) (pre @ le16 h @ post) = Inr (pre @ le16 h' @ post)"
  by (simp add: translate_con_handle_ok put_def nth_append le16_def)

lemma translate_infos_eq:
  "(\<And>h n. (h, n) \<in> set infos \<Longrightarrow> look h = Some (f h)) \<Longrightarrow> off = length pre \<Longrightarrow>
   translate_infos look off (length infos) (pre @ pkts_infos infos) =
     Inr (pre @ pkts_infos (map (apfst f) infos))"
proof (induction infos arbitrary: pre off)
  case (Cons i infos)
  obtain h n where i: "i = (h, n)" by fastforce
  have "translate_con_handle look (off + hci_num_compl_pkts_info_con_handle)
      (pre @ pkts_infos (i # infos)) = Inr (pre @ le16 (f h) @ le16 n @ pkts_infos infos)"
    using translate_con_handle_at [of look h "f h" pre "le16 n @ pkts_infos infos"]
      Cons.prems(1) [of h n] Cons.prems(2) i
    by (simp add: hci_layout)
  moreover have "translate_infos look (off + sizeof_hci_num_compl_pkts_info) (length infos)
      ((pre @ le16 (f h) @ le16 n) @ pkts_infos infos) =
      Inr ((pre @ le16 (f h) @ le16 n) @ pkts_infos (map (apfst f) infos))"
    using Cons.prems by (intro Cons.IH) (auto simp: hci_layout)
  ultimately show ?case by (simp add: i)
qed simp

text \<open>C30: The completed-packets event of the dongle reaches the host with every connection handle
  replaced by its virtual handle and with the counts unchanged.\<close>

lemma completed_packets_translated:
  assumes "length infos < 256"
    and "\<And>h n. (h, n) \<in> set infos \<Longrightarrow> hci_virt_con_handle_get_virt s h = Some (f h)"
  shows "hci_state_handle_hci_event_from_controller
      (hci_event_packet HCI_EVENT_NUM_COMPL_PKTS ([of_nat (length infos)] @ pkts_infos infos)) s =
    Inr (hci_event_packet HCI_EVENT_NUM_COMPL_PKTS
      ([of_nat (length infos)] @ pkts_infos (map (apfst f) infos)), s)"
proof -
  have len: "length (pkts_infos (map (apfst f) infos)) = length (pkts_infos infos)"
    by (induction infos) auto
  have "unat (of_nat (length infos) :: u8) = length infos" using assms(1) by (simp add: unat_of_nat)
  then show ?thesis
    using translate_infos_eq [of infos "hci_virt_con_handle_get_virt s" f 3
        "[HCI_EVENT_NUM_COMPL_PKTS, of_nat (Suc (length (pkts_infos infos))), of_nat (length infos)]"]
      assms(2)
    by (simp add: hci_state_handle_hci_event_from_controller_def Let_def hci_event_packet_def
        read_u8_def hci_layout hci_consts len)
qed

lemma completed_packets_translated_witness:
  "hci_state_handle_hci_event_from_controller [0x13, 5, 1, 0x23, 0x01, 7, 0] one_connection =
     Inr ([0x13, 5, 1, 5, 0, 7, 0], one_connection)"
proof -
  have e: "pkts_infos [(0x0123, 7)] = [0x23, 0x01, 7, 0]" "pkts_infos [(5, 7)] = [5, 0, 7, 0]"
    by (simp_all add: le16_def)
  show ?thesis
    using completed_packets_translated [of "[(0x0123, 7)]" one_connection "\<lambda>_. 5"]
    by (simp add: hci_event_packet_def hci_consts e del: pkts_infos_simps)
qed

section \<open>Stored link keys\<close>

text \<open>When the host asked for all stored link keys, the completion of that command reports two
  keys more, both as the capacity and as the number read, for the two fake Wiimotes; the other
  bytes are untouched, and without such a request the event passes unchanged.\<close>

lemma stored_link_keys_counted:
  assumes "length rest = 1" and "keys = hci_read_stored_link_key_read_all s"
  shows "hci_state_handle_hci_event_from_controller
      ([HCI_EVENT_COMMAND_COMPL, len, n] @ le16 HCI_CMD_READ_STORED_LINK_KEY @ rest @
         le16 max_keys @ le16 num_keys) s =
    Inr ([HCI_EVENT_COMMAND_COMPL, len, n] @ le16 HCI_CMD_READ_STORED_LINK_KEY @ rest @
      (if keys \<noteq> 0 then le16 (max_keys + 2) @ le16 (num_keys + 2)
       else le16 max_keys @ le16 num_keys), s)"
proof -
  obtain r where r: "rest = [r]" using assms(1) by (cases rest) auto
  define data where "data = [HCI_EVENT_COMMAND_COMPL, len, n] @ le16 HCI_CMD_READ_STORED_LINK_KEY @
    [r] @ le16 max_keys @ le16 num_keys"
  have rd: "read_u8 data 0 = Inr HCI_EVENT_COMMAND_COMPL"
    "read_le16 data 3 = Inr HCI_CMD_READ_STORED_LINK_KEY"
    "read_le16 data 6 = Inr max_keys" "read_le16 data 8 = Inr num_keys"
    by (simp_all add: data_def read_u8_def read_le16_ok le16_def)
  have wr: "write_bytes data 6 (le16 x) = Inr (take 6 data @ le16 x @ le16 num_keys)"
    "write_bytes (take 6 data @ le16 x @ le16 num_keys) 8 (le16 y) =
       Inr (take 6 data @ le16 x @ le16 y)" for x y
    by (simp_all add: data_def write_bytes_def le16_def)
  have layout: "sizeof_hci_event_hdr_t = 2" "sizeof_hci_command_compl_ep = 3"
    "hci_command_compl_ep_opcode = 1" "hci_read_stored_link_key_rp_max_num_keys = 1"
    "hci_read_stored_link_key_rp_num_keys_read = 3" "hci_event_hdr_t_event = 0"
    by (simp_all add: hci_layout)
  have ne: "HCI_EVENT_COMMAND_COMPL \<noteq> HCI_EVENT_CON_COMPL"
    "HCI_EVENT_COMMAND_COMPL \<noteq> HCI_EVENT_DISCON_COMPL" by (simp_all add: hci_consts)
  have "hci_state_handle_hci_event_from_controller data s =
      Inr (if keys \<noteq> 0 then take 6 data @ le16 (max_keys + 2) @ le16 (num_keys + 2) else data, s)"
    using assms(2) by (simp add: hci_state_handle_hci_event_from_controller_def Let_def
        handle_command_compl_def layout rd wr ne MAX_FAKE_WIIMOTES_def)
  then show ?thesis by (simp add: data_def r le16_def)
qed

lemma stored_link_keys_counted_witness:
  "hci_state_handle_hci_event_from_controller [0x0E, 8, 1, 0x0D, 0x0C, 0, 16, 0, 3, 0]
      (hci_state_initial \<lparr> hci_read_stored_link_key_read_all := 1 \<rparr>) =
    Inr ([0x0E, 8, 1, 0x0D, 0x0C, 0, 18, 0, 5, 0],
      hci_state_initial \<lparr> hci_read_stored_link_key_read_all := 1 \<rparr>)"
proof -
  have e: "le16 HCI_CMD_READ_STORED_LINK_KEY = [0x0D, 0x0C]" "HCI_EVENT_COMMAND_COMPL = 0x0E"
    by (simp_all add: le16_def hci_consts)
  show ?thesis
    using stored_link_keys_counted [of "[0]" 1
        "hci_state_initial \<lparr> hci_read_stored_link_key_read_all := 1 \<rparr>" 8 1 16 3]
    by (simp add: e, simp add: le16_def)
qed

section \<open>ACL data\<close>

text \<open>An ACL packet of the dongle reaches the host with its connection handle replaced and its
  packet boundary and broadcast flags, its length and its payload unchanged.\<close>

lemma acl_in_translated:
  assumes "4 \<le> length data" and "read_le16 data 0 = Inr x"
    and "hci_virt_con_handle_get_virt s (HCI_CON_HANDLE x) = Some v"
  shows "\<exists>y data'. hci_state_handle_acl_data_in_response_from_controller data s = Inr data' \<and>
    read_le16 data' 0 = Inr y \<and> HCI_CON_HANDLE y = HCI_CON_HANDLE v \<and>
    HCI_PB_FLAG y = HCI_PB_FLAG x \<and> HCI_BC_FLAG y = HCI_BC_FLAG x \<and> drop 2 data' = drop 2 data"
proof -
  define y where "y = HCI_MK_CON_HANDLE v (HCI_PB_FLAG x) (HCI_BC_FLAG x)"
  have "hci_state_handle_acl_data_in_response_from_controller data s = Inr (le16 y @ drop 2 data)"
    using assms by (simp add: hci_state_handle_acl_data_in_response_from_controller_def
        translate_acl_header_def hci_layout read_le16_ok write_bytes_def y_def numeral_2_eq_2)
  moreover have "read_le16 (le16 y @ drop 2 data) 0 = Inr y"
    by (simp add: read_le16_def read_u8_def le16_def)
  ultimately show ?thesis by (auto simp: y_def)
qed

lemma acl_in_translated_witness:
  "\<exists>y data'. hci_state_handle_acl_data_in_response_from_controller [0x23, 0x21, 2, 0, 9, 8]
      one_connection = Inr data' \<and> read_le16 data' 0 = Inr y \<and> HCI_CON_HANDLE y = 5 \<and>
    HCI_PB_FLAG y = 2 \<and> drop 2 data' = [2, 0, 9, 8]"
proof -
  have x: "read_le16 [0x23, 0x21, 2, 0, 9, 8] 0 = Inr 0x2123"
    "HCI_CON_HANDLE 0x2123 = 0x0123" "HCI_PB_FLAG 0x2123 = 2" "HCI_CON_HANDLE 5 = 5"
    by (simp_all add: read_le16_ok mk16_def HCI_CON_HANDLE_def HCI_PB_FLAG_def drop_bit_Suc)
  obtain y data' where
    "hci_state_handle_acl_data_in_response_from_controller [0x23, 0x21, 2, 0, 9, 8] one_connection =
      Inr data'"
    "read_le16 data' 0 = Inr y" "HCI_CON_HANDLE y = HCI_CON_HANDLE 5"
    "HCI_PB_FLAG y = HCI_PB_FLAG 0x2123" "drop 2 data' = drop 2 [0x23, 0x21, 2, 0, 9, 8]"
    using acl_in_translated [OF _ x(1), of one_connection 5] x(2) by auto
  then show ?thesis using x by auto
qed

end
