(* ===== verification/Requests.thy ===== *)
theory Requests
  imports Hook_Loop Hci_Translation Delivery
begin

text \<open>
  Requests of the host that do not concern a fake Wiimote, from the queue of the driver to the
  dongle: the manager leaves them alone, the tracker translates the connection handle, and the
  receive hook gives the request to the driver.
\<close>

section \<open>The manager\<close>

lemma translated_offsets: "map_of translated_commands opcode = Some off \<Longrightarrow> off = 0"
  by (auto simp: translated_commands_def hci_layout split: if_splits dest!: map_of_SomeD)

lemma taken_commands_not_translated:
  "map_of translated_commands HCI_CMD_ACCEPT_CON = None"
  "map_of translated_commands HCI_CMD_REJECT_CON = None"
  "map_of translated_commands HCI_CMD_REMOTE_NAME_REQ = None"
  by (simp_all add: translated_commands_def hci_consts)

lemma foreign_command_untouched:
  assumes "read_le16 data hci_cmd_hdr_t_opcode = Inr opcode"
    and t: "map_of translated_commands opcode = Some off"
    and "read_le16 data sizeof_hci_cmd_hdr_t = Inr virt"
    and "opcode = HCI_CMD_DISCONNECT \<longrightarrow> 6 \<le> length data"
    and "\<not> does_hci_con_handle_belong_to_fake_wiimote W virt"
  shows "fake_wiimote_mgr_handle_hci_cmd_from_host E data W = Inr (False, W)"
proof -
  have ne: "opcode \<noteq> HCI_CMD_ACCEPT_CON" "opcode \<noteq> HCI_CMD_REJECT_CON"
    "opcode \<noteq> HCI_CMD_REMOTE_NAME_REQ" "opcode \<noteq> HCI_CMD_RESET" "opcode \<noteq> HCI_CMD_READ_STORED_LINK_KEY"
    using t taken_commands_not_translated special_commands_not_translated by auto
  have h: "read_le16 (drop sizeof_hci_cmd_hdr_t data) 0 = Inr virt"
    using assms(3) by (auto simp: read_le16_def read_u8_def hci_layout rbind_eq_Inr split: if_splits)
  have r: "\<exists>r. read_u8 (drop sizeof_hci_cmd_hdr_t data) hci_discon_cp_reason = Inr r"
    if "opcode = HCI_CMD_DISCONNECT"
    using assms(4) that by (simp add: read_u8_def hci_layout)
  have n: "get_fake_wiimote_for_hci_con_handle W virt = None"
    using assms(5) by (simp add: does_hci_con_handle_belong_to_fake_wiimote_def)
  show ?thesis
    using assms(1,5) ne h r n
    by (auto simp: fake_wiimote_mgr_handle_hci_cmd_from_host_def Let_def status_then_def
        fake_wiimote_mgr_handle_hci_cmd_disconnect_def handle_write_link_supervision_timeout_def
        hci_layout)
qed

section \<open>A command from the host to the dongle\<close>

text \<open>The control request of the host that carries an HCI command.\<close>

definition carries_command :: "'os ext \<Rightarrow> ipcmessage \<Rightarrow> u8 list \<Rightarrow> bool" where
  "carries_command E m data \<longleftrightarrow>
     ipc_command m = IOS_IOCTLV E \<and> ioctlv_command m = USBV0_IOCTLV_CTRLMSG \<and>
     7 \<le> length (ioctlv_vector m) \<and> take 1 (vec_data (ioctlv_vector m ! 1)) = [EP_HCI_CTRL] \<and>
     2 \<le> length (vec_data (ioctlv_vector m ! 4)) \<and> vec_data (ioctlv_vector m ! 6) = data"

lemma command_ioctlv:
  assumes "ipc_store (usb W) p = Some m" and "carries_command E m data"
    and "hci_state_handle_hci_cmd_from_host E data W = Inr (True, data', W1)"
  shows "handle_oh1_dev_ioctlv E p W = Inr (0, None, True, upd_ipc p (set_vec_bytes 6 data') W1)"
proof -
  have b: "read_u8 (vec_data (ioctlv_vector m ! 1)) 0 = Inr EP_HCI_CTRL"
    using assms(2) by (cases "vec_data (ioctlv_vector m ! 1)") (auto simp: carries_command_def read_u8_def)
  have l: "\<exists>n. read_le16 (vec_data (ioctlv_vector m ! 4)) 0 = Inr n"
    using assms(2) by (auto simp: carries_command_def read_le16_def read_u8_def)
  show ?thesis
    using assms b l
    by (auto simp: handle_oh1_dev_ioctlv_def Let_def vec_bytes_def get_vec_def carries_command_def
        packet_from_host_def deref_def)
qed

text \<open>C10: An HCI command of the host with a connection handle of a real device goes to the dongle: the receive hook gives the request to the driver with the two bytes of the virtual handle replaced by the physical one, and changes nothing else of the module or of the request. The command may end with the handle; only a disconnection must have its reason byte, which the manager reads.\<close>

lemma command_reaches_dongle:
  assumes recv: "os_message_queue_receive E q flags (os_state (usb W)) = (IOS_OK E, p, os')"
      "p \<noteq> 0xcafef00d" "p \<noteq> periodic_timer_cookie E"
    and msg: "ipc_store (usb W) p = Some m" "carries_command E m data"
    and cmd: "read_le16 data 0 = Inr opcode" "map_of translated_commands opcode = Some off"
      "read_le16 data 3 = Inr virt" "opcode = HCI_CMD_DISCONNECT \<longrightarrow> 6 \<le> length data"
    and device: "\<not> does_hci_con_handle_belong_to_fake_wiimote W virt"
      "hci_virt_con_handle_get_phys (hci W) virt = Some phys"
  shows "receive_round E q flags ret_msg W = Inr (Inl (0, Some p,
    upd_ipc p (set_vec_bytes 6 (take 3 data @ le16 phys @ drop 5 data))
      (W \<lparr> usb := (usb W) \<lparr> os_state := os' \<rparr> \<rparr>)))"
proof -
  let ?W1 = "W \<lparr> usb := (usb W) \<lparr> os_state := os' \<rparr> \<rparr>"
  have "\<not> does_hci_con_handle_belong_to_fake_wiimote ?W1 virt"
    using device(1) by (simp add: does_hci_con_handle_belong_to_fake_wiimote_def
        get_fake_wiimote_for_hci_con_handle_def)
  then have "fake_wiimote_mgr_handle_hci_cmd_from_host E data ?W1 = Inr (False, ?W1)"
    using foreign_command_untouched [of data opcode off virt ?W1 E] cmd by (simp add: hci_layout)
  moreover have "forward_hci_cmd data (hci ?W1) = Inr (take 3 data @ le16 phys @ drop 5 data, hci ?W1)"
    using translated_forwarded [of data opcode off virt "hci ?W1"] cmd device(2) translated_offsets [OF cmd(2)]
    by (simp add: hci_layout put_def)
  ultimately have "hci_state_handle_hci_cmd_from_host E data ?W1 =
      Inr (True, take 3 data @ le16 phys @ drop 5 data, ?W1)"
    by (simp add: hci_state_handle_hci_cmd_from_host_def)
  then have "handle_oh1_dev_ioctlv E p ?W1 =
      Inr (0, None, True, upd_ipc p (set_vec_bytes 6 (take 3 data @ le16 phys @ drop 5 data)) ?W1)"
    using msg by (intro command_ioctlv [of _ _ m]) simp_all
  moreover have "ipc_command m = IOS_IOCTLV E" using msg(2) by (simp add: carries_command_def)
  ultimately show ?thesis
    using recv msg(1) by (simp add: receive_round_def deref_def)
qed

text \<open>An authentication request, which ends with the handle: virtual handle 5, physical handle 0x123.\<close>

definition sample_command :: ipcmessage where
  "sample_command = \<lparr> ipc_command = 7, ipc_result = 0, ipc_fd = 5, ioctlv_command = 0,
     ioctlv_num_in = 6, ioctlv_num_io = 1,
     ioctlv_vector = [\<lparr> vec_data = [0x20], vec_len = 1 \<rparr>, \<lparr> vec_data = [0], vec_len = 1 \<rparr>,
       \<lparr> vec_data = [0, 0], vec_len = 2 \<rparr>, \<lparr> vec_data = [0, 0], vec_len = 2 \<rparr>,
       \<lparr> vec_data = [5, 0], vec_len = 2 \<rparr>, \<lparr> vec_data = [0], vec_len = 1 \<rparr>,
       \<lparr> vec_data = [0x11, 0x04, 2, 5, 0], vec_len = 5 \<rparr>] \<rparr>"

definition command_world :: "sample_os world" where
  "command_world = sample_world \<lparr> hci := one_connection, usb := sample_usb \<lparr>
     os_state := sample_os0 \<lparr> so_queues := (\<lambda>_. [0x9000]) \<rparr>,
     ipc_store := (\<lambda>_. None)(0x9000 \<mapsto> sample_command) \<rparr> \<rparr>"

lemma command_reaches_dongle_witness:
  "\<exists>W'. receive_round sample_ext 4 1 None command_world = Inr (Inl (0, Some 0x9000, W')) \<and>
     vec_bytes (the (ipc_store (usb W') 0x9000)) 6 = Inr [0x11, 0x04, 2, 0x23, 0x01]"
proof -
  let ?data = "[0x11, 0x04, 2, 5, 0] :: u8 list"
  have r: "os_message_queue_receive sample_ext 4 1 (os_state (usb command_world)) =
      (IOS_OK sample_ext, 0x9000, sample_os0 \<lparr> so_queues := (\<lambda>_. [0x9000])(4 := []) \<rparr>)"
    by (simp add: command_world_def sample_receive_def)
  have m: "ipc_store (usb command_world) 0x9000 = Some sample_command"
    by (simp add: command_world_def)
  have c: "carries_command sample_ext sample_command ?data"
    by (simp add: carries_command_def sample_command_def oh1_consts)
  have o: "read_le16 ?data 0 = Inr HCI_CMD_AUTH_REQ" "read_le16 ?data 3 = Inr 5"
    by (simp_all add: read_le16_def read_u8_def mk16_def hci_consts)
  have t: "map_of translated_commands HCI_CMD_AUTH_REQ = Some 0"
    by (simp add: translated_commands_def hci_layout)
  have d: "\<not> does_hci_con_handle_belong_to_fake_wiimote command_world 5"
    "hci_virt_con_handle_get_phys (hci command_world) 5 = Some 0x0123"
    by (simp_all add: does_hci_con_handle_belong_to_fake_wiimote_def
        get_fake_wiimote_for_hci_con_handle_def command_world_def)
  have k: "(0x9000 :: ptr) \<noteq> 0xcafef00d" "0x9000 \<noteq> periodic_timer_cookie sample_ext" by simp_all
  have l: "HCI_CMD_AUTH_REQ = HCI_CMD_DISCONNECT \<longrightarrow> 6 \<le> length ?data" by (simp add: hci_consts)
  note run = command_reaches_dongle [OF r k m c o(1) t o(2) l d, of None]
  show ?thesis
    unfolding run
    by (simp add: upd_ipc_def m set_vec_bytes_def vec_bytes_def get_vec_def sample_command_def le16_def)
qed

section \<open>An event from the dongle to the host\<close>

text \<open>The answered hand-down message: its event and the connection handle in it.\<close>

definition carries_event :: "'os ext \<Rightarrow> ipcmessage \<Rightarrow> u8 list \<Rightarrow> bool" where
  "carries_event E m data \<longleftrightarrow>
     ipc_command m = IOS_IOCTLV E \<and> ioctlv_command m = USBV0_IOCTLV_INTRMSG \<and>
     3 \<le> length (ioctlv_vector m) \<and> vec_data (ioctlv_vector m ! 2) = data"

lemma copy_and_ack_answer:
  assumes "\<not> is_message_injected E h" and "ipc_store u h = Some hm"
    and "2 < length (ioctlv_vector hm)" and "vec_data (ioctlv_vector hm ! 2) = d"
    and "ipc_result hm = int n" and n: "0 < n" "n \<le> length d" "n < 65536"
    and "ipc_store u p = Some pm" and "read_room pm n"
  shows "copy_and_ack_ipcmessage E p h u =
    Inr (ack_message E p (int n) (u \<lparr> ipc_store := (ipc_store u)(p \<mapsto> filled_read pm (take n d)) \<rparr>))"
proof -
  have l: "unat (word_of_int (int n) :: u16) = n" using n(3) by (simp add: unat_of_nat)
  have "copy_data_to_ipcmessage pm d (word_of_int (int n)) = Inr (filled_read pm (take n d))"
    using n(2) assms(10) l
    by (simp add: copy_data_to_ipcmessage_def get_vec_def read_room_def read_bytes_def write_bytes_def
        filled_read_def Let_def)
  then show ?thesis
    using assms by (simp add: copy_and_ack_ipcmessage_def deref_def get_vec_def Let_def)
qed

text \<open>C11: An event of the dongle with a connection handle reaches the host read that waits longest: the reply hook writes the bytes of the event, with the virtual handle in the place of the physical one, into the buffer of the read, acknowledges it with the number of bytes, and takes it from the queue; the hand-down message is free again.\<close>

lemma event_reaches_host:
  assumes spec: "queue_spec E contents cap" and init: "initialized W"
    and hand_down: "h = usb_intr_hand_down_msg E" "\<not> is_message_injected E h"
      "ipc_store (usb W) h = Some hm" "carries_event E hm data"
    and event: "read_u8 data 0 = Inr event" "map_of translated_events event = Some off"
      "read_le16 data (2 + off) = Inr phys" "hci_virt_con_handle_get_virt (hci W) phys = Some virt"
    and n: "0 < n" "n \<le> length data" "n < 65536"
    and reader: "contents (os_state (usb W)) (pending_usb_intr_msg_queue_id (usb W)) = p # ps"
      "p \<noteq> h" "ipc_store (usb W) p = Some pm" "read_room pm n"
  shows "\<exists>r W' os. OH1_IOS_ResourceReply_hook E h (int n) W = Inr (r, W') \<and>
    ipc_store (usb W') p = Some (filled_read pm (take n (put (2 + off) (le16 virt) data))) \<and>
    (r, os_state (usb W')) = os_message_queue_ack E p (int n) os \<and>
    contents (os_state (usb W')) (pending_usb_intr_msg_queue_id (usb W)) = ps \<and>
    \<not> usb_intr_hand_down_msg_pending (usb W') \<and> hci W' = hci W \<and> fake_wiimotes W' = fake_wiimotes W"
proof -
  let ?d = "put (2 + off) (le16 virt) data"
  let ?hm = "(set_vec_bytes 2 ?d hm) \<lparr> ipc_result := int n \<rparr>"
  define W1 where "W1 = W \<lparr> usb := (usb W) \<lparr> usb_intr_hand_down_msg_pending := False \<rparr> \<rparr>"
  define W2 where "W2 = upd_ipc h (\<lambda>m. m \<lparr> ipc_result := int n \<rparr>) (upd_ipc h (set_vec_bytes 2 ?d) W1)"
  have e: "snd (ensure_initalized E W1) = W1" using init by (simp add: ensure_initalized_def W1_def)
  have ld: "length ?d = length data" using event(3) by (auto simp: result_simps)
  have tr: "hci_state_handle_hci_event_from_controller data (hci W1) = Inr (?d, hci W1)"
    using event_translated [of data event off phys "hci W1"] event by (simp add: hci_layout W1_def)
  have rep: "reply_of_hand_down E h (int n) USBV0_IOCTLV_INTRMSG
      hci_state_handle_hci_event_from_controller W1 = Inr W2"
    using hand_down tr n(1)
    by (simp add: reply_of_hand_down_def deref_def W1_def carries_event_def c_assert_def vec_bytes_def
        get_vec_def on_hci_def W2_def)
  have st: "ipc_store (usb W2) h = Some ?hm" "ipc_store (usb W2) p = Some pm"
    using hand_down(3) reader(2,3) by (simp_all add: W2_def W1_def upd_ipc_def)
  have q: "contents (os_state (usb W2)) (pending_usb_intr_msg_queue_id (usb W2)) = p # ps"
    "pending_usb_intr_msg_queue_id (usb W2) = pending_usb_intr_msg_queue_id (usb W)"
    using reader(1) by (simp_all add: W2_def W1_def upd_ipc_def)
  obtain u1 where run: "handle_bulk_intr_ready_message E h (pending_usb_intr_msg_queue_id (usb W2))
        (ready_usb_intr_msg_queue_id (usb W2)) (usb W2) = copy_and_ack_ipcmessage E p h u1"
    and c1: "contents (os_state u1) = (contents (os_state (usb W2)))(pending_usb_intr_msg_queue_id (usb W2) := ps)"
    and u1: "u1 = (usb W2) \<lparr> os_state := os_state u1 \<rparr>"
    using ready_message_waiting [OF spec q(1)] by blast
  have s1: "ipc_store u1 = ipc_store (usb W2)" "usb_intr_hand_down_msg_pending u1 = usb_intr_hand_down_msg_pending (usb W2)"
    by (subst u1, simp)+
  let ?u = "u1 \<lparr> ipc_store := (ipc_store u1)(p \<mapsto> filled_read pm (take n ?d)) \<rparr>"
  have copy: "copy_and_ack_ipcmessage E p h u1 = Inr (ack_message E p (int n) ?u)"
    by (rule copy_and_ack_answer [where hm = ?hm])
      (use hand_down(2,4) st s1 n reader(4) ld in \<open>simp_all add: carries_event_def set_vec_bytes_def\<close>)
  obtain r os' where a: "os_message_queue_ack E p (int n) (os_state u1) = (r, os')" by fastforce
  let ?W' = "W2 \<lparr> usb := ?u \<lparr> os_state := os' \<rparr> \<rparr>"
  have hook: "OH1_IOS_ResourceReply_hook E h (int n) W = Inr (r, ?W')"
    using hand_down(1) rep e run copy a
    by (simp add: OH1_IOS_ResourceReply_hook_def W1_def [symmetric] on_usb_def ack_message_def)
  have "contents os' = contents (os_state u1)"
    using queue_specD(5) [OF spec, of p "int n" "os_state u1"] a by simp
  then have "contents (os_state (usb ?W')) (pending_usb_intr_msg_queue_id (usb W)) = ps"
    using c1 q(2) by simp
  moreover have "\<not> usb_intr_hand_down_msg_pending (usb ?W')"
    using s1(2) by (simp add: W2_def W1_def upd_ipc_def)
  moreover have "hci ?W' = hci W" "fake_wiimotes ?W' = fake_wiimotes W"
    by (simp_all add: W2_def W1_def upd_ipc_def)
  moreover have "ipc_store (usb ?W') p = Some (filled_read pm (take n ?d))" by simp
  moreover have "(r, os_state (usb ?W')) = os_message_queue_ack E p (int n) (os_state u1)" using a by simp
  ultimately show ?thesis using hook by blast
qed

text \<open>The end of an authentication of the device with physical handle 0x123.\<close>

definition answered_hand_down :: ipcmessage where
  "answered_hand_down = \<lparr> ipc_command = 7, ipc_result = 0, ipc_fd = 5, ioctlv_command = 2,
     ioctlv_num_in = 2, ioctlv_num_io = 1,
     ioctlv_vector = [\<lparr> vec_data = [0x81], vec_len = 1 \<rparr>, \<lparr> vec_data = [0, 8], vec_len = 2 \<rparr>,
       \<lparr> vec_data = [0x06, 3, 0, 0x23, 0x01, 0, 0, 0], vec_len = 8 \<rparr>] \<rparr>"

definition event_world :: "sample_os world" where
  "event_world = sample_world \<lparr> hci := one_connection, usb := sample_usb \<lparr>
     os_state := sample_os0 \<lparr> so_queues := (\<lambda>_. [0x9000]) \<rparr>,
     usb_intr_hand_down_msg_pending := True,
     ipc_store := (\<lambda>_. None)(0x8000 \<mapsto> answered_hand_down, 0x9000 \<mapsto> sample_read 8) \<rparr> \<rparr>"

lemma event_reaches_host_witness:
  "\<exists>r W'. OH1_IOS_ResourceReply_hook sample_ext 0x8000 5 event_world = Inr (r, W') \<and>
     vec_bytes (the (ipc_store (usb W') 0x9000)) 2 = Inr [0x06, 3, 0, 5, 0, 0, 0, 0] \<and>
     so_queues (os_state (usb W')) 1 = []"
proof -
  let ?data = "[0x06, 3, 0, 0x23, 0x01, 0, 0, 0] :: u8 list"
  have c: "carries_event sample_ext answered_hand_down ?data"
    by (simp add: carries_event_def answered_hand_down_def oh1_consts)
  have h: "\<not> is_message_injected sample_ext 0x8000"
    by (simp add: is_message_injected_def INJMESSAGE_HEAP_SIZE_def)
  have e: "read_u8 ?data 0 = Inr HCI_EVENT_AUTH_COMPL" "map_of translated_events HCI_EVENT_AUTH_COMPL = Some 1"
    "read_le16 ?data (2 + 1) = Inr 0x0123"
    by (simp_all add: read_u8_def read_le16_def mk16_def hci_consts translated_events_def hci_layout)
  have v: "hci_virt_con_handle_get_virt (hci event_world) 0x0123 = Some 5"
    and i: "initialized event_world"
    and s: "ipc_store (usb event_world) 0x8000 = Some answered_hand_down"
      "ipc_store (usb event_world) 0x9000 = Some (sample_read 8)"
    and p: "pending_usb_intr_msg_queue_id (usb event_world) = 1"
      "so_queues (os_state (usb event_world)) (pending_usb_intr_msg_queue_id (usb event_world)) = [0x9000]"
    by (simp_all add: event_world_def)
  have le: "le16 5 = [5, 0]" by (simp add: le16_def)
  have d: "take 5 (put (2 + 1) (le16 5) ?data) = [0x06, 3, 0, 5, 0]"
    unfolding le by (simp add: put_def)
  have f: "filled_read (sample_read 8) (take 5 (put (2 + 1) (le16 5) ?data)) =
      (sample_read 8) \<lparr> ioctlv_vector := (ioctlv_vector (sample_read 8))
         [2 := \<lparr> vec_data = [0x06, 3, 0, 5, 0, 0, 0, 0], vec_len = 8 \<rparr>] \<rparr>"
    unfolding d by (simp add: filled_read_def sample_read_def Let_def) (simp add: numeral_eq_Suc)
  have "\<exists>r W' os. OH1_IOS_ResourceReply_hook sample_ext 0x8000 (int 5) event_world = Inr (r, W') \<and>
    ipc_store (usb W') 0x9000 = Some (filled_read (sample_read 8) (take 5 (put (2 + 1) (le16 5) ?data))) \<and>
    (r, os_state (usb W')) = os_message_queue_ack sample_ext 0x9000 (int 5) os \<and>
    so_queues (os_state (usb W')) (pending_usb_intr_msg_queue_id (usb event_world)) = [] \<and>
    \<not> usb_intr_hand_down_msg_pending (usb W') \<and> hci W' = hci event_world \<and>
    fake_wiimotes W' = fake_wiimotes event_world"
    by (rule event_reaches_host [OF sample_queue_spec i _ h s(1) c e v _ _ _ p(2) _ s(2)]) simp_all
  then obtain r W' where w: "OH1_IOS_ResourceReply_hook sample_ext 0x8000 5 event_world = Inr (r, W')"
    and v: "ipc_store (usb W') 0x9000 = Some ((sample_read 8) \<lparr> ioctlv_vector := (ioctlv_vector (sample_read 8))
         [2 := \<lparr> vec_data = [0x06, 3, 0, 5, 0, 0, 0, 0], vec_len = 8 \<rparr>] \<rparr>)"
    and k: "so_queues (os_state (usb W')) 1 = []"
    unfolding f p(1) by auto
  have "vec_bytes (the (ipc_store (usb W') 0x9000)) 2 = Inr [0x06, 3, 0, 5, 0, 0, 0, 0]"
    unfolding v by (simp add: vec_bytes_def get_vec_def sample_read_def)
  then show ?thesis using w k by blast
qed

end
