(* ===== verification/Slot_Invariant.thy ===== *)
theory Slot_Invariant
  imports Hook_Loop
begin

text \<open>
  A property of one fake Wiimote and one of one input slot, and what is to be shown of the
  operations on a single Wiimote or slot for both properties to hold of all of them in every
  reachable state: the laws of the locale.  Every handler of the module is a composition of these
  operations.
\<close>

section \<open>Properties of all Wiimotes and slots\<close>

definition all_slots :: "(fake_wiimote \<Rightarrow> bool) \<Rightarrow> (input_device \<Rightarrow> bool) \<Rightarrow> 'os world \<Rightarrow> bool" where
  "all_slots P Q W \<longleftrightarrow> length (fake_wiimotes W) = MAX_FAKE_WIIMOTES \<and>
     length (input_devices W) = MAX_INPUT_DEVS \<and>
     list_all P (fake_wiimotes W) \<and> list_all Q (input_devices W)"

text \<open>The address of a Wiimote, the state of its link, its memories, the key of its extension, the
  extension plugged in and the one to be announced, and the accelerations.\<close>

definition memories :: "fake_wiimote \<Rightarrow> (bdaddr \<times> acl_state \<times> u8 list \<times> u8 list \<times> u8 list \<times> encryption_key \<times> bool) \<times>
    (wiimote_ext \<times> wiimote_ext \<times> u16 \<times> u16 \<times> u16)" where
  "memories w = ((fw_bdaddr w, acl_state w, ir_regs w, eeprom w, extension_regs w, extension_key w, extension_key_dirty w),
     (cur_extension w, new_extension w, acc_x w, acc_y w, acc_z w))"

lemma memories_upd_chn [simp]: "memories (upd_chn c f w) = memories w"
  by (cases c) (simp_all add: memories_def)

lemma list_all_update: "list_all P xs \<Longrightarrow> (i < length xs \<Longrightarrow> P (xs ! i) \<Longrightarrow> P y) \<Longrightarrow> list_all P (xs[i := y])"
  by (cases "i < length xs") (auto simp: list_all_length nth_list_update list_update_beyond)

lemma all_slots_upd_wm:
  "all_slots P Q W \<Longrightarrow> (P (fake_wiimotes W ! j) \<Longrightarrow> P (f (fake_wiimotes W ! j))) \<Longrightarrow> all_slots P Q (upd_wm j f W)"
  by (auto simp: all_slots_def upd_wm_def intro!: list_all_update)

lemma all_slots_upd_dev:
  "all_slots P Q W \<Longrightarrow> (Q (input_devices W ! i) \<Longrightarrow> Q (f (input_devices W ! i))) \<Longrightarrow> all_slots P Q (upd_dev i f W)"
  by (auto simp: all_slots_def upd_dev_def intro!: list_all_update)

lemma all_slots_fields [simp]:
  "all_slots P Q (W \<lparr> usb := u \<rparr>) = all_slots P Q W" "all_slots P Q (W \<lparr> hci := s \<rparr>) = all_slots P Q W"
  "all_slots P Q (W \<lparr> l2cap_starting_id := n \<rparr>) = all_slots P Q W"
  "all_slots P Q (W \<lparr> egc_devices := g \<rparr>) = all_slots P Q W"
  "all_slots P Q (W \<lparr> initialized := b \<rparr>) = all_slots P Q W"
  "all_slots P Q (snd (egc_call f W)) = all_slots P Q W"
  "all_slots P Q (upd_ipc p k W) = all_slots P Q W"
  by (simp_all add: all_slots_def upd_ipc_def)

lemma all_slots_on_usb: "on_usb f W = Inr (r, W') \<Longrightarrow> all_slots P Q W' = all_slots P Q W"
  by (auto simp: on_usb_def result_simps)

lemma all_slots_inject_ok: "inject_ok E f W = Inr W' \<Longrightarrow> all_slots P Q W' = all_slots P Q W"
  by (auto simp: inject_ok_def result_simps dest: all_slots_on_usb)

lemma all_slots_on_wm:
  assumes "on_wm f j W = Inr (r, W')" and "\<And>w u r w' u'. f w u = Inr (r, w', u') \<Longrightarrow> P w \<Longrightarrow> P w'"
    and "all_slots P Q W"
  shows "all_slots P Q W'"
  using assms by (auto simp: on_wm_def result_simps intro!: all_slots_upd_wm)

lemma all_slots_on_wm_state:
  assumes "on_wm_state f j W = Inr W'" and "\<And>w u w' u'. f w u = Inr (w', u') \<Longrightarrow> P w \<Longrightarrow> P w'"
    and "all_slots P Q W"
  shows "all_slots P Q W'"
proof -
  have "on_wm (\<lambda>w u. rbind (f w u) (\<lambda>(w', u'). Inr ((), w', u'))) j W = Inr ((), W')"
    using assms(1) by (auto simp: on_wm_state_def rbind_eq_Inr)
  then show ?thesis
    by (rule all_slots_on_wm) (use assms in \<open>auto simp: rbind_eq_Inr\<close>)
qed

section \<open>The laws\<close>

locale slot_tick =
  fixes E :: "'os ext" and P :: "fake_wiimote \<Rightarrow> bool" and Q :: "input_device \<Rightarrow> bool"
  assumes same_memories: "memories w' = memories w \<Longrightarrow> P w \<Longrightarrow> P w'"
    and created: "length ba = BDADDR_SIZE \<Longrightarrow> P w \<Longrightarrow> P (fake_wiimote_init ba w)"
    and linked_up: "P w \<Longrightarrow> P (w \<lparr> acl_state := ACL_STATE_INACTIVE \<rparr>)"
    and initialised: "P w \<Longrightarrow> P (fake_wiimote_init_state i w)"
    and read_request: "fake_wiimote_process_read_request E w u = Inr (b, w', u') \<Longrightarrow> P w \<Longrightarrow> P w'"
    and extension_change: "fake_wiimote_process_extension_change E w u = Inr (b, w', u') \<Longrightarrow> P w \<Longrightarrow> P w'"
    and data_report: "fake_wiimote_send_data_report E w u = Inr (w', u') \<Longrightarrow> P w \<Longrightarrow> P w'"
    and sample: "report_sample E bar dots device d w = Inr (b, d', w') \<Longrightarrow> P w \<Longrightarrow> Q d \<Longrightarrow> P w' \<and> Q d'"
    and attached: "Q d \<Longrightarrow> Q (attach_device E p device d)"
    and detached: "Q d \<Longrightarrow> Q (d \<lparr> dev_device := None \<rparr>)"
    and assigned: "Q d \<Longrightarrow> Q (d \<lparr> assigned_wiimote := a \<rparr>)"
    and delayed: "Q d \<Longrightarrow> Q (d \<lparr> reconnect_delay := n \<rparr>)"
begin

lemma kept_wm:
  "all_slots P Q W \<Longrightarrow> (\<And>w. memories (f w) = memories w) \<Longrightarrow> all_slots P Q (upd_wm j f W)"
  by (rule all_slots_upd_wm) (auto intro: same_memories)

lemma kept_fields:
  assumes "all_slots P Q W"
  shows "all_slots P Q (upd_wm j (upd_chn ch g) W)"
    "all_slots P Q (upd_wm j (\<lambda>w. w \<lparr> fw_active := a \<rparr>) W)"
    "all_slots P Q (upd_wm j (\<lambda>w. w \<lparr> rumble_on := a \<rparr>) W)"
    "all_slots P Q (upd_wm j (\<lambda>w. w \<lparr> status_leds := l \<rparr>) W)"
    "all_slots P Q (upd_wm j (\<lambda>w. w \<lparr> status_ir := a \<rparr>) W)"
    "all_slots P Q (upd_wm j (\<lambda>w. w \<lparr> reporting_mode := m, reporting_continuous := a \<rparr>) W)"
    "all_slots P Q (upd_wm j (\<lambda>w. w \<lparr> fw_read_request := q \<rparr>) W)"
    "all_slots P Q (upd_wm j (\<lambda>w. w \<lparr> num_completed_acl_data_packets := k w \<rparr>) W)"
    "all_slots P Q (upd_wm j (\<lambda>w. w \<lparr> baseband_state := t \<rparr>) W)"
    "all_slots P Q (upd_wm j fake_wiimote_release_input_device W)"
  by ((rule kept_wm [OF assms], simp; fail)
      | (rule kept_wm [OF assms], simp add: memories_def fake_wiimote_release_input_device_def; fail))+

lemma kept_released:
  assumes "input_device_release_wiimote E i W = Inr W'" and "all_slots P Q W"
  shows "all_slots P Q W'"
  using assms delayed [OF assigned]
  by (auto simp: input_device_release_wiimote_def result_simps intro!: all_slots_upd_dev)

lemma kept_egc:
  "input_device_set_rumble E i on W = Inr (r, W') \<Longrightarrow> all_slots P Q W' = all_slots P Q W"
  "input_device_set_leds E i n W = Inr (r, W') \<Longrightarrow> all_slots P Q W' = all_slots P Q W"
  "input_device_resume E i W = Inr (r, W') \<Longrightarrow> all_slots P Q W' = all_slots P Q W"
  by (auto simp: input_device_set_rumble_def input_device_set_leds_def input_device_resume_def
      result_simps) (metis all_slots_fields(6) snd_conv)+

lemma config:
  "check_send_config_for_new_channel E c w u = Inr (w', u') \<Longrightarrow> memories w' = memories w"
  "handle_l2cap_config_req E ident dcid flags options n w u = Inr (w', u') \<Longrightarrow> memories w' = memories w"
  by (auto simp: check_send_config_for_new_channel_def handle_l2cap_config_req_def Let_def result_simps
      split: if_splits option.splits)

lemma kept_wm_ops:
  assumes "all_slots P Q W"
  shows "on_wm (fake_wiimote_process_read_request E) j W = Inr (b, W') \<Longrightarrow> all_slots P Q W'"
    and "on_wm (fake_wiimote_process_extension_change E) j W = Inr (b, W') \<Longrightarrow> all_slots P Q W'"
    and "on_wm_state (fake_wiimote_send_data_report E) j W = Inr W' \<Longrightarrow> all_slots P Q W'"
    and "on_wm_state (check_send_config_for_new_channel E c) j W = Inr W' \<Longrightarrow> all_slots P Q W'"
    and "on_wm_state (handle_l2cap_config_req E ident dcid flags options n) j W = Inr W' \<Longrightarrow> all_slots P Q W'"
proof -
  show "all_slots P Q W'" if "on_wm (fake_wiimote_process_read_request E) j W = Inr (b, W')"
    using that read_request assms by (rule all_slots_on_wm)
  show "all_slots P Q W'" if "on_wm (fake_wiimote_process_extension_change E) j W = Inr (b, W')"
    using that extension_change assms by (rule all_slots_on_wm)
  show "all_slots P Q W'" if "on_wm_state (fake_wiimote_send_data_report E) j W = Inr W'"
    using that data_report assms by (rule all_slots_on_wm_state)
  show "all_slots P Q W'" if "on_wm_state (check_send_config_for_new_channel E c) j W = Inr W'"
    using that same_memories [OF config(1)] assms by (rule all_slots_on_wm_state)
  show "all_slots P Q W'" if "on_wm_state (handle_l2cap_config_req E ident dcid flags options n) j W = Inr W'"
    using that same_memories [OF config(2)] assms by (rule all_slots_on_wm_state)
qed

section \<open>The tick\<close>

lemma kept_disconnect:
  assumes "fake_wiimote_disconnect E j W = Inr (r, W')" and "all_slots P Q W"
  shows "all_slots P Q W'"
  using assms
  by (auto simp: fake_wiimote_disconnect_def Let_def result_simps split: if_splits option.splits
      dest!: all_slots_on_usb [where P = P and Q = Q] kept_released intro!: kept_fields)

lemma kept_request_connection:
  assumes "tick_request_connection E j W = Inr W'" and "all_slots P Q W"
  shows "all_slots P Q W'"
  using assms
  by (auto simp: tick_request_connection_def result_simps split: if_splits
      dest!: all_slots_on_usb [where P = P and Q = Q] intro!: kept_fields)

lemma kept_open_channel:
  assumes "open_channel E psm c j W = Inr W'" and "all_slots P Q W"
  shows "all_slots P Q W'"
  using assms
  by (auto simp: open_channel_def generate_l2cap_channel_id_def result_simps
      dest!: all_slots_inject_ok [where P = P and Q = Q] intro!: kept_fields)

lemma kept_linking:
  assumes "tick_linking E j W = Inr W'" and "all_slots P Q W"
  shows "all_slots P Q W'"
proof -
  define send where "send = (\<lambda>W1. rbind (on_wm_state (check_send_config_for_new_channel E HID_Cntl_Chn) j W1)
             (on_wm_state (check_send_config_for_new_channel E HID_Intr_Chn) j))"
  have s: "all_slots P Q W2" if "send W1 = Inr W2" "all_slots P Q W1" for W1 W2
    using that by (auto simp: send_def rbind_eq_Inr dest!: kept_wm_ops(4) [rotated])
  show ?thesis
    using assms
    by (auto simp: tick_linking_def Let_def send_def [symmetric] ignore_ret_def result_simps
        split: if_splits dest!: s kept_open_channel kept_egc(3) intro!: all_slots_upd_wm linked_up)
qed

lemma kept_report_input:
  assumes "input_device_report_input E i W = Inr (b, W')" and W: "all_slots P Q W"
  shows "all_slots P Q W'"
proof -
  obtain d p j d' w' where i: "i < length (input_devices W)" and j: "j < length (fake_wiimotes W)"
    and r: "report_sample E (s_sensor_bar_position_top W)
          (stack_dots (stack_bytes E 16 (os_state (usb W)))) (egc_devices W p)
          (input_devices W ! i) (fake_wiimotes W ! j) = Inr (b, d', w')"
    and W': "W' = upd_wm j (\<lambda>_. w') (upd_dev i (\<lambda>_. d') W)"
    using assms(1) by (auto simp: input_device_report_input_def result_simps)
  have "P w' \<and> Q d'"
    using sample [OF r] W i j by (simp add: all_slots_def list_all_length)
  then show ?thesis
    unfolding W' by (intro all_slots_upd_wm all_slots_upd_dev W) simp_all
qed

lemma kept_connected:
  assumes "tick_connected E j W = Inr W'" and "all_slots P Q W"
  shows "all_slots P Q W'"
  using assms(1)
proof (cases rule: tick_connected_cases)
  case Read
  then show ?thesis by (rule kept_wm_ops(1) [OF assms(2)])
next
  case (Extension W1)
  then show ?thesis using kept_wm_ops(1,2) assms(2) by blast
next
  case (Sample W1 W2 i send W3)
  have "all_slots P Q W3"
    using kept_report_input [OF Sample(3)] kept_wm_ops(1) [OF assms(2) Sample(1)] kept_wm_ops(2) [OF _ Sample(2)] by blast
  then show ?thesis using Sample(4) kept_wm_ops(3) [of W3] by (cases send) auto
qed

lemma kept_tick:
  assumes "fake_wiimote_tick E j W = Inr W'" and "all_slots P Q W"
  shows "all_slots P Q W'"
  using assms
  by (cases "baseband_state (fake_wiimotes W ! j)")
    (auto simp: fake_wiimote_tick_def rbind_eq_Inr at_eq split: if_splits
      dest!: kept_request_connection kept_linking kept_connected)

lemma kept_tick_all: "tick_all E js W = Inr W' \<Longrightarrow> all_slots P Q W \<Longrightarrow> all_slots P Q W'"
  by (induction js arbitrary: W) (auto simp: rbind_eq_Inr split: if_splits dest: kept_tick)

lemma collect_completed_kept:
  "collect_completed ws = (infos, n, ws') \<Longrightarrow> list_all P ws \<Longrightarrow> list_all P ws' \<and> length ws' = length ws"
proof (induction ws arbitrary: infos n ws')
  case (Cons w ws)
  have "P (w \<lparr> num_completed_acl_data_packets := k \<rparr>)" if "P w" for k
    by (rule same_memories [OF _ that]) (simp add: memories_def)
  then show ?case using Cons by (auto split: prod.splits if_splits)
qed simp

lemma kept_assign_to:
  assumes "all_slots P Q W"
  shows "all_slots P Q (assign_to j W)"
proof -
  have "P ((fake_wiimote_init_state i w) \<lparr> fw_active := True \<rparr>)" if "P w" for i w
    by (rule same_memories [OF _ initialised [OF that]]) (simp add: memories_def)
  then show ?thesis
    using assms assigned
    by (auto simp: assign_to_def input_device_assign_wiimote_def split: option.split
        intro!: all_slots_upd_wm all_slots_upd_dev)
qed

lemma kept_tick_devices:
  assumes "fake_wiimote_mgr_tick_devices E W = Inr W'" and "all_slots P Q W"
  shows "all_slots P Q W'"
proof -
  have a: "all_slots P Q (fold assign_to js W1)" if "all_slots P Q W1" for js and W1
    using that by (induction js arbitrary: W1) (auto intro: kept_assign_to)
  have c: "all_slots P Q W2"
    if "fake_wiimote_mgr_send_event_number_of_completed_packets E W1 = Inr W2" "all_slots P Q W1" for W1 W2
    using that collect_completed_kept [of "fake_wiimotes W1"]
    by (auto simp: fake_wiimote_mgr_send_event_number_of_completed_packets_def ignore_ret_def Let_def
        result_simps all_slots_def split: if_splits prod.splits dest!: all_slots_on_usb [where P = P and Q = Q])
  show ?thesis
    using assms
    by (auto simp: fake_wiimote_mgr_tick_devices_def Let_def rbind_eq_Inr a
        fake_wiimote_mgr_check_assign_input_devices_def split: if_splits dest!: kept_tick_all c)
qed

lemma kept_removed:
  assumes "input_device_handle_removed E p W = Inr W'" and "all_slots P Q W"
  shows "all_slots P Q W'"
  using assms detached
  by (auto simp: input_device_handle_removed_def ignore_ret_def result_simps split: option.splits
      dest!: kept_disconnect intro!: all_slots_upd_dev kept_fields)

lemma kept_added: "all_slots P Q W \<Longrightarrow> all_slots P Q (input_device_handle_added E p W)"
  using attached by (auto simp: input_device_handle_added_def split: option.split intro!: all_slots_upd_dev)

lemma kept_input_devices_tick: "all_slots P Q W \<Longrightarrow> all_slots P Q (input_devices_tick W)"
  using delayed by (auto simp: all_slots_def input_devices_tick_def list.pred_map tick_device_def elim!: list.pred_mono_strong)

lemma kept_callbacks: "handle_callbacks E cs W = Inr W' \<Longrightarrow> all_slots P Q W \<Longrightarrow> all_slots P Q W'"
proof (induction cs arbitrary: W)
  case (Cons c cs)
  show ?case
    using Cons.prems Cons.IH kept_added
    by (cases c) (auto simp: rbind_eq_Inr handle_callback_def dest: kept_removed)
qed simp

lemma kept_periodic_tick:
  assumes run: "periodic_tick E W = Inr W'" and "all_slots P Q W"
  shows "all_slots P Q W'"
proof -
  obtain devs cs os' where e: "egc_handle_events E (os_state (usb W)) = (devs, cs, os')"
    by (cases "egc_handle_events E (os_state (usb W))") auto
  obtain W1 where c: "handle_callbacks E cs (W \<lparr> egc_devices := devs, usb := (usb W) \<lparr> os_state := os' \<rparr> \<rparr>) = Inr W1"
    and t: "fake_wiimote_mgr_tick_devices E (input_devices_tick W1) = Inr W'"
    using run unfolding periodic_tick_def e Let_def prod.case rbind_eq_Inr by blast
  have "all_slots P Q W1" by (rule kept_callbacks [OF c]) (simp add: assms(2))
  then have "all_slots P Q (input_devices_tick W1)" by (rule kept_input_devices_tick)
  with t show ?thesis by (rule kept_tick_devices)
qed

end

section \<open>Requests of the host\<close>

text \<open>Two operations more, for a connection and for the output reports of the host.\<close>

locale slot_invariant = slot_tick +
  assumes accepted: "P w \<Longrightarrow> P (w \<lparr> baseband_state := BASEBAND_STATE_COMPLETE, fw_con_handle := h,
      acl_state := ACL_STATE_LINKING \<rparr>)"
    and write_request: "fake_wiimote_process_write_request E req w u = Inr (w', u') \<Longrightarrow> P w \<Longrightarrow> P w'"
begin

lemma kept_written:
  "all_slots P Q W \<Longrightarrow> on_wm_state (fake_wiimote_process_write_request E req) j W = Inr W' \<Longrightarrow> all_slots P Q W'"
  using all_slots_on_wm_state [OF _ write_request] .

lemma kept_ack_if: "ack_if E b rpt err j W = Inr W' \<Longrightarrow> all_slots P Q W' = all_slots P Q W"
  by (auto simp: ack_if_def ignore_ret_def result_simps dest!: all_slots_on_usb [where P = P and Q = Q] split: if_splits)

lemma kept_signal:
  assumes "handle_l2cap_signal_channel E j code ident payload sz W = Inr W'" and "all_slots P Q W"
  shows "all_slots P Q W'"
proof -
  have rsp: "all_slots P Q W'" if "handle_l2cap_connect_rsp E j payload W = Inr W'"
    using that assms(2) by (auto simp: handle_l2cap_connect_rsp_def ignore_ret_def result_simps
        split: if_splits option.splits dest!: kept_disconnect intro!: kept_fields)
  have cfg: "all_slots P Q W'" if "handle_l2cap_config_rsp j payload W = Inr W'"
    using that assms(2) by (auto simp: handle_l2cap_config_rsp_def result_simps split: option.splits intro!: kept_fields)
  have dis: "all_slots P Q W'" if "handle_l2cap_disconnect_req E j ident payload W = Inr W'"
    using that assms(2) by (auto simp: handle_l2cap_disconnect_req_def ignore_ret_def result_simps
        split: option.splits dest!: all_slots_on_usb [where P = P and Q = Q] intro!: kept_fields)
  show ?thesis
    using assms by (auto simp: handle_l2cap_signal_channel_def result_simps split: if_splits
        dest: rsp cfg dis kept_wm_ops(5))
qed

lemma kept_signal_request:
  "handle_l2cap_signal_channel_request E j data len W = Inr W' \<Longrightarrow> all_slots P Q W \<Longrightarrow> all_slots P Q W'"
proof (induction E' \<equiv> E j data len W arbitrary: W' rule: handle_l2cap_signal_channel_request.induct)
  case (1 j data len W)
  show ?case
  proof (cases "len \<ge> of_nat sizeof_l2cap_cmd_hdr_t")
    case True
    then obtain cmd_len code ident W1
      where l: "read_le16 data l2cap_cmd_hdr_t_length = Inr cmd_len"
        and c: "read_u8 data l2cap_cmd_hdr_t_code = Inr code"
        and i: "read_u8 data l2cap_cmd_hdr_t_ident = Inr ident"
        and h: "handle_l2cap_signal_channel E j code ident (drop sizeof_l2cap_cmd_hdr_t data) cmd_len W = Inr W1"
        and r: "handle_l2cap_signal_channel_request E j (drop (sizeof_l2cap_cmd_hdr_t + unat cmd_len) data)
          (len - (of_nat sizeof_l2cap_cmd_hdr_t + cmd_len)) W1 = Inr W'"
      using "1.prems"(1) unfolding handle_l2cap_signal_channel_request.simps [of E j data len W]
      unfolding if_P [OF True] rbind_eq_Inr by blast
    show ?thesis by (rule "1.hyps" [OF True l c i h r kept_signal [OF h "1.prems"(2)]])
  qed (use "1.prems" in \<open>simp add: handle_l2cap_signal_channel_request.simps\<close>)
qed

lemma kept_rumble:
  assumes "fake_wiimote_update_rumble E j on W = Inr W'" and "all_slots P Q W"
  shows "all_slots P Q W'"
  using assms
  by (auto simp: fake_wiimote_update_rumble_def ignore_ret_def result_simps split: if_splits
      dest!: kept_egc(1) intro!: kept_fields)

lemma kept_reports:
  assumes "all_slots P Q W"
  shows "output_report_led E j data W = Inr W' \<Longrightarrow> all_slots P Q W'"
    and "output_report_mode E j data W = Inr W' \<Longrightarrow> all_slots P Q W'"
    and "output_report_ir_enable E j data W = Inr W' \<Longrightarrow> all_slots P Q W'"
    and "output_report_feature E r j data W = Inr W' \<Longrightarrow> all_slots P Q W'"
    and "output_report_read_data E j data W = Inr W' \<Longrightarrow> all_slots P Q W'"
  using assms
  by (auto simp: output_report_led_def output_report_mode_def output_report_ir_enable_def
      output_report_feature_def output_report_read_data_def Let_def ignore_ret_def result_simps
      split: if_splits dest!: kept_ack_if kept_egc(2) kept_wm_ops(1) [rotated] intro!: kept_fields)

lemma kept_hid_output:
  assumes run: "handle_hid_intr_data_output E j data sz W = Inr W'" and W: "all_slots P Q W"
  shows "all_slots P Q W'"
proof (cases "sz = 0")
  case False
  show ?thesis
    using run W unfolding handle_hid_intr_data_output_def if_not_P [OF False]
    by (auto simp: rbind_eq_Inr at_eq ignore_ret_def split: if_splits
        dest!: kept_rumble dest: kept_reports [rotated] kept_written [rotated]
          all_slots_on_usb [where P = P and Q = Q])
qed (use assms in \<open>simp add: handle_hid_intr_data_output_def\<close>)

lemma kept_acl:
  assumes "fake_wiimote_handle_acl_data_out_request_from_host E j acl W = Inr W'" and "all_slots P Q W"
  shows "all_slots P Q W'"
proof -
  define W1 where "W1 = upd_wm j (\<lambda>w. w \<lparr> num_completed_acl_data_packets :=
                 num_completed_acl_data_packets w + 1 \<rparr>) W"
  have "all_slots P Q W1" unfolding W1_def by (rule kept_fields [OF assms(2)])
  moreover have "W' = W1 \<or> (\<exists>data len. handle_l2cap_signal_channel_request E j data len W1 = Inr W')
      \<or> (\<exists>data len. handle_hid_intr_data_output E j data len W1 = Inr W')"
    using assms(1)
    by (auto simp: fake_wiimote_handle_acl_data_out_request_from_host_def Let_def result_simps
        W1_def [symmetric] split: if_splits option.splits)
  ultimately show ?thesis using kept_signal_request kept_hid_output by blast
qed

lemma kept_reset: "reset_wiimotes E js W = Inr W' \<Longrightarrow> all_slots P Q W \<Longrightarrow> all_slots P Q W'"
proof (induction js arbitrary: W)
  case (Cons j js)
  then show ?case
    by (auto simp: rbind_eq_Inr split: if_splits option.splits dest: kept_released intro: kept_fields)
qed simp

lemma kept_status_then: "status_then E op h ev W = Inr (b, W') \<Longrightarrow> all_slots P Q W' = all_slots P Q W"
  by (auto simp: status_then_def result_simps split: if_splits dest!: all_slots_inject_ok [where P = P and Q = Q])

lemma kept_accept:
  assumes "fake_wiimote_handle_hci_cmd_accept_con E j role W = Inr W'" and "all_slots P Q W"
  shows "all_slots P Q W'"
  using assms
  by (auto simp: fake_wiimote_handle_hci_cmd_accept_con_def case_prod_beta Let_def result_simps
      split: if_splits dest!: all_slots_inject_ok [where P = P and Q = Q]
      intro!: all_slots_upd_wm accepted)

lemma kept_name_keys:
  "handle_remote_name_req E payload W = Inr (b, W') \<Longrightarrow> all_slots P Q W' = all_slots P Q W"
  "handle_read_stored_link_key E payload W = Inr (b, W') \<Longrightarrow> all_slots P Q W' = all_slots P Q W"
  "handle_write_link_supervision_timeout E payload W = Inr (b, W') \<Longrightarrow> all_slots P Q W' = all_slots P Q W"
  by (auto simp: handle_remote_name_req_def handle_read_stored_link_key_def
      handle_write_link_supervision_timeout_def result_simps split: if_splits option.splits
      dest!: all_slots_inject_ok [where P = P and Q = Q] all_slots_on_usb [where P = P and Q = Q])

lemma kept_mgr_cmds:
  assumes "all_slots P Q W"
  shows "fake_wiimote_mgr_handle_hci_cmd_disconnect E h reason W = Inr (b, W') \<Longrightarrow> all_slots P Q W'"
    and "fake_wiimote_mgr_handle_hci_cmd_reject_con E ba reason W = Inr (b, W') \<Longrightarrow> all_slots P Q W'"
    and "fake_wiimote_mgr_handle_hci_cmd_accept_con E ba role W = Inr (b, W') \<Longrightarrow> all_slots P Q W'"
  using assms
  by (auto simp: fake_wiimote_mgr_handle_hci_cmd_disconnect_def fake_wiimote_mgr_handle_hci_cmd_reject_con_def
      fake_wiimote_mgr_handle_hci_cmd_accept_con_def ignore_ret_def result_simps split: option.splits
      dest!: all_slots_inject_ok [where P = P and Q = Q] kept_disconnect kept_accept)

lemma kept_cmd:
  assumes run: "fake_wiimote_mgr_handle_hci_cmd_from_host E data W = Inr (b, W')" and "all_slots P Q W"
  shows "all_slots P Q W'"
proof -
  obtain opcode where opcode: "read_le16 data hci_cmd_hdr_t_opcode = Inr opcode"
    using run unfolding fake_wiimote_mgr_handle_hci_cmd_from_host_def Let_def rbind_eq_Inr by blast
  show ?thesis
    using run assms(2)
    unfolding fake_wiimote_mgr_handle_hci_cmd_from_host_def Let_def
    by (simp add: opcode split: if_splits)
      (auto simp: rbind_eq_Inr handled_eq split: if_splits
        dest!: kept_status_then kept_name_keys all_slots_inject_ok [where P = P and Q = Q] kept_reset
        dest: kept_mgr_cmds [rotated])
qed

lemma kept_hci_cmd:
  assumes "hci_state_handle_hci_cmd_from_host E data W = Inr (fwd, data', W')" and "all_slots P Q W"
  shows "all_slots P Q W'"
  using assms by (auto simp: hci_state_handle_hci_cmd_from_host_def rbind_eq_Inr split: if_splits
      dest!: kept_cmd)

lemma kept_acl_out:
  assumes "hci_state_handle_acl_data_out_request_from_host E data W = Inr (fwd, data', W')"
    and "all_slots P Q W"
  shows "all_slots P Q W'"
  using assms
  by (auto simp: hci_state_handle_acl_data_out_request_from_host_def rbind_eq_Inr handled_eq
      fake_wiimote_mgr_handle_acl_data_out_request_from_host_def split: if_splits option.splits
      dest!: kept_acl)

lemma kept_packet:
  assumes run: "packet_from_host E p n i m = Inr (r, x, fwd, W')"
    and "\<And>fwd d W1. m = Inr (fwd, d, W1) \<Longrightarrow> all_slots P Q W1"
  shows "all_slots P Q W'"
  using assms
  by (fastforce simp: packet_from_host_def Let_def rbind_eq_Inr case_prod_beta split: if_splits)

lemma kept_reads:
  "read_from_bulk_in E p n W = Inr (r, x, fwd, W') \<Longrightarrow> all_slots P Q W' = all_slots P Q W"
  "read_from_intr E p n W = Inr (r, x, fwd, W') \<Longrightarrow> all_slots P Q W' = all_slots P Q W"
  by (auto simp: read_from_bulk_in_def read_from_intr_def Let_def rbind_eq_Inr)

lemma kept_ioctlv:
  assumes run: "handle_oh1_dev_ioctlv E p W = Inr (r, x, fwd, W')" and W: "all_slots P Q W"
  shows "all_slots P Q W'"
proof -
  have c: "all_slots P Q W'"
    if "packet_from_host E p n 6 (hci_state_handle_hci_cmd_from_host E data W) = Inr (r, x, fwd, W')" for n data
    by (rule kept_packet [OF that]) (rule kept_hci_cmd [OF _ W])
  have a: "all_slots P Q W'"
    if "packet_from_host E p n 2 (hci_state_handle_acl_data_out_request_from_host E data W) = Inr (r, x, fwd, W')" for n data
    by (rule kept_packet [OF that]) (rule kept_acl_out [OF _ W])
  show ?thesis
    using run W unfolding handle_oh1_dev_ioctlv_def Let_def
    by (auto simp: rbind_eq_Inr deref_eq split: if_splits dest!: c a kept_reads)
qed

section \<open>The reachable states\<close>

lemma kept_ensure:
  assumes "all_slots P Q W"
  shows "all_slots P Q (snd (ensure_initalized E W))"
proof -
  have "P (fake_wiimote_init (FAKE_WIIMOTE_BDADDR i) w)" if "P w" for i w
    by (rule created [OF _ that]) (simp add: FAKE_WIIMOTE_BDADDR_def BDADDR_SIZE_def)
  then have "all_slots P Q (init_globals E (W \<lparr> usb := u \<rparr>))" for u
    using assms detached
    by (auto simp: init_globals_def Let_def case_prod_beta all_slots_def fake_wiimote_mgr_init_def
        input_devices_init_def list_all_length)
  then show ?thesis
    using assms by (auto simp: ensure_initalized_def Let_def case_prod_beta)
qed

lemma kept_reply:
  assumes run: "OH1_IOS_ResourceReply_hook E p retval W = Inr (r, W')" and W: "all_slots P Q W"
  shows "all_slots P Q W'"
proof -
  have h: "all_slots P Q W2" if "reply_of_hand_down E q retval cmd track W1 = Inr W2" and "all_slots P Q W1"
    for q cmd track and W1 W2
    using that by (auto simp: reply_of_hand_down_def on_hci_def result_simps split: if_splits)
  have e: "all_slots P Q (snd (ensure_initalized E (W \<lparr> usb := v \<rparr>)))" for v
    using W by (intro kept_ensure) simp
  show ?thesis
    using run W e
    by (auto simp: OH1_IOS_ResourceReply_hook_def Let_def result_simps case_prod_beta split: if_splits
        dest!: h all_slots_on_usb [where P = P and Q = Q])
qed

lemma kept_round:
  assumes run: "receive_round E q flags m W = Inr res" and W: "all_slots P Q W"
  shows "all_slots P Q (round_world res)"
proof -
  obtain ret p os' where r: "os_message_queue_receive E q flags (os_state (usb W)) = (ret, p, os')"
    by (cases "os_message_queue_receive E q flags (os_state (usb W))") auto
  show ?thesis
    using run W
    by (auto simp: receive_round_def r Let_def result_simps round_world_def split: if_splits
        dest!: kept_periodic_tick kept_ioctlv)
qed

lemma kept_step: "module_step E W W' \<Longrightarrow> all_slots P Q W \<Longrightarrow> all_slots P Q W'"
  by (erule module_stepE) (auto intro: kept_round kept_ensure kept_reply)

theorem kept_reachable: "(module_step E)\<^sup>*\<^sup>* W0 W \<Longrightarrow> all_slots P Q W0 \<Longrightarrow> all_slots P Q W"
  by (induction rule: rtranclp_induct) (auto intro: kept_step)

end

end
