(* ===== verification/Well_Formed.thy ===== *)
theory Well_Formed
  imports Slot_Invariant
begin

text \<open>
  The type invariant of the whole state: which extensions a fake Wiimote can have, the width of
  its accelerations and the sizes of its memories; the limits of the pointer of every slot, its
  mode as an index into the table of modes and the mappings of an attached controller.  Every
  handler keeps it, rejections of idle Wiimotes included.
\<close>

section \<open>The invariant\<close>

text \<open>The extensions that are modelled in the switch of the identifiers; the pointer inside its
  limits, or at its initial place, where a slot leaves it until its first analog mode.\<close>

definition plugged :: "wiimote_ext set" where
  "plugged = {WIIMOTE_EXT_NONE, WIIMOTE_EXT_NUNCHUK, WIIMOTE_EXT_CLASSIC}"

lemma plugged_in [simp]:
  "WIIMOTE_EXT_NONE \<in> plugged" "WIIMOTE_EXT_NUNCHUK \<in> plugged" "WIIMOTE_EXT_CLASSIC \<in> plugged"
  by (simp_all add: plugged_def)

definition in_limits :: "u16 list \<Rightarrow> bool" where
  "in_limits p \<longleftrightarrow> IR_DOT_CENTER_MIN_X \<le> p ! 0 \<and> p ! 0 \<le> IR_DOT_CENTER_MAX_X \<and>
     IR_DOT_CENTER_MIN_Y \<le> p ! 1 \<and> p ! 1 \<le> IR_DOT_CENTER_MAX_Y"

definition wm_ok :: "fake_wiimote \<Rightarrow> bool" where
  "wm_ok w \<longleftrightarrow> length (fw_bdaddr w) = BDADDR_SIZE \<and> ir_inv w \<and> eeprom_inv w \<and> ext_inv w \<and>
     length (ft (extension_key w)) = 8 \<and> length (sb (extension_key w)) = 8 \<and>
     cur_extension w \<in> plugged \<and> new_extension w \<in> plugged \<and>
     acc_x w AND 0x3FF = acc_x w \<and> acc_y w AND 0x3FF = acc_y w \<and> acc_z w AND 0x3FF = acc_z w"

definition slot_ok :: "input_device \<Rightarrow> bool" where
  "slot_ok d \<longleftrightarrow> length (ir_emu_state d) = 2 \<and> (ir_emu_state d = [0, 0] \<or> in_limits (ir_emu_state d)) \<and>
     ir_emu_mode_idx d < length ir_emu_modes \<and>
     (dev_device d \<noteq> None \<longrightarrow> dev_extension d \<in> {WIIMOTE_EXT_NUNCHUK, WIIMOTE_EXT_CLASSIC})"

definition well_formed :: "'os world \<Rightarrow> bool" where
  "well_formed W \<longleftrightarrow> all_slots wm_ok slot_ok W"

lemmas wm_ok_defs = wm_ok_def ir_inv_def eeprom_inv_def ext_inv_def

section \<open>One Wiimote\<close>

lemma wm_ok_upd_chn [simp]: "wm_ok (upd_chn c f w) = wm_ok w"
  by (cases c) (simp_all add: wm_ok_defs)

lemma wm_ok_memories: "memories w' = memories w \<Longrightarrow> wm_ok w' = wm_ok w"
  by (simp add: memories_def wm_ok_defs)

lemma wm_ok_fields [simp]:
  "wm_ok (w \<lparr> fw_active := b \<rparr>) = wm_ok w" "wm_ok (w \<lparr> fw_read_request := q \<rparr>) = wm_ok w"
  "wm_ok (w \<lparr> input_dirty := b \<rparr>) = wm_ok w" "wm_ok (w \<lparr> fw_buttons := bs \<rparr>) = wm_ok w"
  by (rule wm_ok_memories, simp add: memories_def)+

lemma wm_ok_reset:
  assumes "ir_inv w" and "eeprom_inv w" and "length (fw_bdaddr w) = BDADDR_SIZE"
    and "cur_extension w \<in> plugged" and "new_extension w \<in> plugged"
    and "acc_x w AND 0x3FF = acc_x w" and "acc_y w AND 0x3FF = acc_y w" and "acc_z w AND 0x3FF = acc_z w"
  shows "wm_ok (fake_wiimote_reset_extension_state w)"
proof -
  have "length (extension_regs (fake_wiimote_reset_extension_state w)) = sizeof_extension_registers"
    by (simp add: fake_wiimote_reset_extension_state_def Let_def ext_id_code_def c_consts
        split: option.split wiimote_ext.split)
  then show ?thesis
    using assms
    by (simp add: wm_ok_defs) (simp add: fake_wiimote_reset_extension_state_def Let_def encryption_key_zero_def)
qed

lemma wm_ok_extension_read: "extension_read_data E w a n = Inr (r, w') \<Longrightarrow> wm_ok w \<Longrightarrow> wm_ok w'"
  by (auto simp: extension_read_data_def result_simps Let_def wm_ok_defs generate_tables_size
      wiimote_crypto_generate_key_from_extension_key_data_def split: if_splits)

lemma wm_ok_read_request:
  assumes "fake_wiimote_process_read_request E w u = Inr (b, w', u')" and "wm_ok w"
  shows "wm_ok w'"
proof -
  have r: "wm_ok w1" if "read_request_data E n w = Inr (e, d, w1)" for n e d w1
    using that assms(2) by (auto simp: read_request_data_def reply_block_def Let_def result_simps
        split: if_splits option.splits prod.splits dest!: wm_ok_extension_read)
  have a: "wm_ok (snd (advance_read_request e n w1)) = wm_ok w1" for e n w1
    by (simp add: advance_read_request_def Let_def)
  show ?thesis
    using assms(1) assms(2) a
    by (auto simp: fake_wiimote_process_read_request_def Let_def result_simps case_prod_beta
        split: if_splits dest!: r)
qed

lemma wm_ok_extension_change:
  assumes "fake_wiimote_process_extension_change E w u = Inr (b, w', u')" and "wm_ok w"
  shows "wm_ok w'"
proof -
  have "w' = w \<or> w' = extension_change w"
    using assms(1) by (auto simp: fake_wiimote_process_extension_change_def Let_def result_simps split: if_splits)
  moreover have "wm_ok (extension_change w)"
    unfolding extension_change_def by (rule wm_ok_reset) (use assms(2) in \<open>simp_all add: wm_ok_defs\<close>)
  ultimately show ?thesis using assms(2) by auto
qed

lemma wm_ok_data_report:
  assumes "fake_wiimote_send_data_report E w u = Inr (w', u')" and "wm_ok w"
  shows "wm_ok w'"
proof -
  have "wm_ok w1" if "build_data_report E buf w = Inr (data, w1)" for buf data w1
    using that assms(2) by (fastforce simp: build_data_report_def Let_def result_simps dest: wm_ok_extension_read
        split: if_splits prod.splits)
  then show ?thesis
    using assms by (fastforce simp: fake_wiimote_send_data_report_def result_simps split: if_splits)
qed

lemma wm_ok_writes:
  assumes "wm_ok w"
  shows "eeprom_write_data w src a n = Inr (Some w') \<Longrightarrow> wm_ok w'"
    and "ir_camera_write_data w src a n = Inr (Some w') \<Longrightarrow> wm_ok w'"
    and "extension_write_data w src a n = Inr (Some w') \<Longrightarrow> wm_ok w'"
  using assms
  by (auto simp: eeprom_write_data_def ir_camera_write_data_def extension_write_data_def Let_def
      result_simps wm_ok_defs read_bytes_def split: if_splits)

lemma wm_ok_write_block:
  assumes "\<And>w src a n w'. wr w src a n = Inr (Some w') \<Longrightarrow> wm_ok w \<Longrightarrow> wm_ok w'"
    and "write_block wr c w req n = Inr (e, w')" and "wm_ok w"
  shows "wm_ok w'"
  using assms(2,3) by (auto simp: write_block_def result_simps split: option.splits dest: assms(1))

lemma wm_ok_write_request:
  assumes "fake_wiimote_process_write_request E req w u = Inr (w', u')" and "wm_ok w"
  shows "wm_ok w'"
proof -
  have eeprom: "wm_ok w1" if "write_block eeprom_write_data c w req n = Inr (e, w1)" for c n e w1
    by (rule wm_ok_write_block [OF _ that assms(2)]) (rule wm_ok_writes(1))
  have camera: "wm_ok w1" if "write_block ir_camera_write_data c w req n = Inr (e, w1)" for c n e w1
    by (rule wm_ok_write_block [OF _ that assms(2)]) (rule wm_ok_writes(2))
  have extension: "wm_ok w1" if "write_block extension_write_data c w req n = Inr (e, w1)" for c n e w1
    by (rule wm_ok_write_block [OF _ that assms(2)]) (rule wm_ok_writes(3))
  have "wm_ok w1" if "write_request_data w req n = Inr (e, w1)" for n e w1
    using that assms(2)
    by (auto simp: write_request_data_def Let_def result_simps split: if_splits
        dest!: eeprom camera extension)
  then show ?thesis
    using assms by (auto simp: fake_wiimote_process_write_request_def result_simps split: if_splits)
qed

lemma wm_ok_init_state:
  assumes "wm_ok w" shows "wm_ok (fake_wiimote_init_state i w)"
proof -
  have e: "length eeprom_init = EEPROM_FREE_SIZE" by (simp add: eeprom_init_def Let_def accel_calibration_def ir_calibration_def c_consts)
  show ?thesis
    using assms
    by (simp add: wm_ok_defs fake_wiimote_init_state_def Let_def e)
      (simp add: fake_wiimote_reset_extension_state_def Let_def ext_id_code_def c_consts encryption_key_zero_def
        split: option.split wiimote_ext.split)
qed

section \<open>One input sample\<close>

lemma wm_ok_report_ir:
  assumes "wm_ok w" shows "wm_ok (fake_wiimote_report_ir_dots dots w)"
proof -
  have "length (put ir_regs_camera_data d (ir_regs w)) = sizeof_ir_camera_registers" if "length d \<le> CAMERA_DATA_BYTES" for d
    using assms that by (simp add: wm_ok_defs c_consts)
  then show ?thesis
    using assms by (simp add: fake_wiimote_report_ir_dots_def Let_def wm_ok_defs ir_basic_def ir_extended_def
        ir_full_def CAMERA_DATA_BYTES_def)
qed

lemma wm_ok_report_ext:
  assumes "wm_ok w" and "length ext_data = 6"
  shows "wm_ok (fake_wiimote_report_input_ext E btns ext_data 6 w)"
proof -
  define k where "k = memmismatch E (drop ext_regs_controller_data (extension_regs w)) ext_data 6"
  have "length (put (ext_regs_controller_data + k) (take (6 - k) (drop k ext_data)) (extension_regs w)) =
      sizeof_extension_registers"
    using assms by (cases "k \<le> 6") (simp_all add: wm_ok_defs c_consts put_def)
  then show ?thesis
    using assms(1) by (simp add: fake_wiimote_report_input_ext_def Let_def k_def [symmetric] wm_ok_defs)
qed

lemma slot_ok_fields [simp]:
  "slot_ok (d \<lparr> switch_mapping := b \<rparr>) = slot_ok d" "slot_ok (d \<lparr> switch_ir_emu_mode := b \<rparr>) = slot_ok d"
  by (simp_all add: slot_ok_def)

lemma next_ir_in: "next_ir_mode k < length ir_emu_modes"
  unfolding next_ir_mode_def by (rule mod_less_divisor) (simp add: ir_emu_modes_def)

lemma wm_ok_sample:
  "wm_ok w \<Longrightarrow> wm_ok (fake_wiimote_report_accelerometer ax ay az w)"
  "wm_ok w \<Longrightarrow> wm_ok (fake_wiimote_set_extension WIIMOTE_EXT_NUNCHUK w)"
  "wm_ok w \<Longrightarrow> wm_ok (fake_wiimote_set_extension WIIMOTE_EXT_CLASSIC w)"
  by (simp_all add: wm_ok_defs fake_wiimote_report_accelerometer_def fake_wiimote_set_extension_def plugged_def)

text \<open>The pointer after a sample in an analog mode, and after a change of the mode.\<close>

lemma clamped_in_limits:
  assumes "length p = 2" shows "in_limits (clamp_ir_position p)"
  using assms clamp_range [of IR_DOT_CENTER_MIN_X IR_DOT_CENTER_MAX_X "p ! 0"]
    clamp_range [of IR_DOT_CENTER_MIN_Y IR_DOT_CENTER_MAX_Y "p ! 1"]
  by (simp add: clamp_ir_position_def in_limits_def ir_limits)

lemma length_clamped [simp]: "length (clamp_ir_position p) = length p"
  by (simp add: clamp_ir_position_def)

lemma reset_in_limits:
  assumes "length p = 2" shows "in_limits (bm_ir_emulation_state_reset p)"
  using assms by (simp add: bm_ir_emulation_state_reset_def in_limits_def ir_limits BM_IR_AXIS_X_def BM_IR_AXIS_Y_def)

lemma switch_ir_ok: "slot_ok d \<Longrightarrow> slot_ok (switch_ir_mode n d)"
  using next_ir_in reset_in_limits [of "ir_emu_state d"]
  by (simp add: slot_ok_def switch_ir_mode_def Let_def) (simp add: bm_ir_emulation_state_reset_def)

lemma report_sample_ok:
  assumes "report_sample E bar dots device d w = Inr (b, d', w')" and "wm_ok w" and "slot_ok d"
  shows "wm_ok w' \<and> slot_ok d'"
proof -
  have n: "length (bm_map_nunchuk btns axs ax ay az bmap amap) = 6" for btns axs ax ay az bmap amap
    by (simp add: bm_map_nunchuk_def)
  have c: "length (bm_map_classic btns axs bmap amap) = 6" for btns axs bmap amap
    by (simp add: bm_map_classic_def)
  have a: "wm_ok (report_extension E btns gp d4 (fake_wiimote_report_ir_dots dots w1))"
    if "wm_ok w1" for btns gp d4 dots w1
    using wm_ok_report_ir [OF that, of dots] wm_ok_report_ext [OF _ n] wm_ok_report_ext [OF _ c]
    by (auto simp: report_extension_def fake_wiimote_report_input_def split: wiimote_ext.split)
  have e: "slot_ok d4" if "emulate_ir E bar dots gp d3 = Inr (ds, d4)" and "slot_ok d3" for gp d3 ds d4
    using that
    by (auto simp: emulate_ir_def result_simps slot_ok_def bm_map_ir_analog_axis_def Let_def
        clamped_in_limits length_clamped split: bm_ir_emulation_mode.splits prod.splits)
  obtain sw pr where sw: "bm_check_switch_mapping (egc_buttons (egc_state device)) (switch_mapping d) (switch_mapping_combo d) = (sw, pr)"
    by (metis surj_pair)
  show ?thesis
  proof (cases sw)
    case True
    then show ?thesis using assms sw by (auto simp: report_sample_def Let_def slot_ok_def wm_ok_sample)
  next
    case False
    then show ?thesis
      using assms sw by (auto simp: report_sample_def Let_def result_simps case_prod_beta intro!: a
          dest!: e simp: switch_ir_ok wm_ok_sample split: if_splits)
  qed
qed

section \<open>The whole state\<close>

interpretation wf: slot_invariant E wm_ok slot_ok for E :: "'os ext"
proof unfold_locales
  show "wm_ok w'" if "memories w' = memories w" "wm_ok w" for w w'
    using that wm_ok_memories by blast
  show "length ba = BDADDR_SIZE \<Longrightarrow> wm_ok w \<Longrightarrow> wm_ok (fake_wiimote_init ba w)" for ba w
    by (simp add: wm_ok_defs fake_wiimote_init_def)
  show "wm_ok w \<Longrightarrow> wm_ok (fake_wiimote_init_state i w)" for i w by (rule wm_ok_init_state)
  show "fake_wiimote_process_read_request E w u = Inr (b, w', u') \<Longrightarrow> wm_ok w \<Longrightarrow> wm_ok w'" for w u b w' u'
    by (rule wm_ok_read_request)
  show "fake_wiimote_process_extension_change E w u = Inr (b, w', u') \<Longrightarrow> wm_ok w \<Longrightarrow> wm_ok w'" for w u b w' u'
    by (rule wm_ok_extension_change)
  show "fake_wiimote_send_data_report E w u = Inr (w', u') \<Longrightarrow> wm_ok w \<Longrightarrow> wm_ok w'" for w u w' u'
    by (rule wm_ok_data_report)
  show "fake_wiimote_process_write_request E req w u = Inr (w', u') \<Longrightarrow> wm_ok w \<Longrightarrow> wm_ok w'" for req w u w' u'
    by (rule wm_ok_write_request)
  show "report_sample E bar dots device d w = Inr (b, d', w') \<Longrightarrow> wm_ok w \<Longrightarrow> slot_ok d \<Longrightarrow> wm_ok w' \<and> slot_ok d'"
    for bar dots device d w b d' w'
    by (rule report_sample_ok)
qed (simp_all add: wm_ok_defs slot_ok_def attach_device_def plugged_def ir_emu_modes_def ir_mode_number_def)

lemma idle_wiimote_ok: "wm_ok idle_wiimote"
  by (simp add: wm_ok_defs plugged_def idle_wiimote_def fake_wiimote_zero_def encryption_key_zero_def
      FAKE_WIIMOTE_BDADDR_def BDADDR_SIZE_def)

lemma boot_world_well_formed: "well_formed boot_world"
  by (simp add: well_formed_def all_slots_def boot_world_def idle_wiimote_ok slot_ok_def input_device_zero_def
      ir_emu_modes_def MAX_FAKE_WIIMOTES_def MAX_INPUT_DEVS_def)

text \<open>C6: From the static state at power-up, in every state the module reaches without a fault, by
  whatever requests of the host, also rejections: a Wiimote has no extension, the Nunchuk or the
  Classic Controller plugged in or to announce, its accelerations have ten bits, and its
  memories and its key tables their sizes; the mode of the pointer of every slot is an index
  into the table of modes, the pointer is inside its limits or still at its initial place, and
  the mapping of an attached controller is that of the Nunchuk or of the Classic Controller.\<close>

lemma reachable_well_formed:
  assumes "well_formed W0" and "(module_step E)\<^sup>*\<^sup>* W0 W"
  shows "(\<forall>w \<in> set (fake_wiimotes W).
      cur_extension w \<in> {WIIMOTE_EXT_NONE, WIIMOTE_EXT_NUNCHUK, WIIMOTE_EXT_CLASSIC} \<and>
      new_extension w \<in> {WIIMOTE_EXT_NONE, WIIMOTE_EXT_NUNCHUK, WIIMOTE_EXT_CLASSIC} \<and>
      acc_x w AND 0x3FF = acc_x w \<and> acc_y w AND 0x3FF = acc_y w \<and> acc_z w AND 0x3FF = acc_z w \<and>
      length (ir_regs w) = sizeof_ir_camera_registers \<and> length (eeprom w) = EEPROM_FREE_SIZE \<and>
      length (extension_regs w) = sizeof_extension_registers \<and>
      length (ft (extension_key w)) = 8 \<and> length (sb (extension_key w)) = 8) \<and>
    (\<forall>d \<in> set (input_devices W).
      length (ir_emu_state d) = 2 \<and> ir_emu_mode_idx d < length ir_emu_modes \<and>
      (ir_emu_state d = [0, 0] \<or>
        191 \<le> ir_emu_state d ! 0 \<and> ir_emu_state d ! 0 \<le> 832 \<and>
        203 \<le> ir_emu_state d ! 1 \<and> ir_emu_state d ! 1 \<le> 564) \<and>
      (dev_device d \<noteq> None \<longrightarrow> dev_extension d \<in> {WIIMOTE_EXT_NUNCHUK, WIIMOTE_EXT_CLASSIC}))"
proof -
  have "all_slots wm_ok slot_ok W"
    using wf.kept_reachable [OF assms(2)] assms(1) unfolding well_formed_def by blast
  then show ?thesis
    unfolding all_slots_def list_all_iff wm_ok_defs slot_ok_def plugged_def in_limits_def ir_limits by blast
qed

lemma reachable_well_formed_witness:
  "\<exists>W. (module_step full_ext)\<^sup>*\<^sup>* boot_world W \<and> fw_active (fake_wiimotes W ! 0) \<and>
    (\<forall>w \<in> set (fake_wiimotes W). length (eeprom w) = EEPROM_FREE_SIZE \<and> acc_x w AND 0x3FF = acc_x w)"
  using boot_world_run tame_modules reachable_well_formed [OF boot_world_well_formed] by blast

end
