(* ===== verification/Wire_Packets.thy ===== *)
theory Wire_Packets
  imports Sample_World Delivery
begin

text \<open>
  What the module sends: every injector of \<open>source/injmessage.c\<close> produces one packet of the
  Bluetooth wire format; the HID reports of \<open>source/fake_wiimote.c\<close> are such packets; and the
  manager's periodic event counts the packets of every connected Wiimote once.  The packets do not
  depend on what the heap held before, except for the answer to a remote name request: after the
  terminator of the name it carries the bytes of the heap block to the host.
\<close>

section \<open>Events and signalling commands\<close>

text \<open>The answer to a remote name request is the one packet that is not written completely.\<close>

lemma remote_name_wire:
  assumes "heap_spec E" and "length ba = 6" and "length name < 248"
    and "os_heap_alloc E (injmessages_heap_id u) 259 (os_state u) = (block, os')"
  shows "inject_hci_event_remote_name_req_compl E status ba name u =
    inject_packet E Intr (hci_event_packet HCI_EVENT_REMOTE_NAME_REQ_COMPL
      ([status] @ ba @ name @ [0] @
       (case block of None \<Rightarrow> replicate (247 - length name) 0
        | Some (p, held) \<Rightarrow> drop (12 + length name) held))) u"
proof (cases block)
  case None
  then show ?thesis using assms
    by (simp add: inject_hci_event_remote_name_req_compl_def inject_filled_event_def
        alloc_hci_event_msg_def injmessage_alloc_def inject_packet_def hci_event_packet_def hci_layout
        sizeof_injmessage_def)
next
  case (Some b)
  obtain p held where b: "b = (p, held)" by fastforce
  have l: "length held = 259" using heap_specD(2) [OF assms(1)] assms(4) by (simp add: Some b)
  then obtain i0 i1 i2 i3 r where held: "held = i0 # i1 # i2 # i3 # r" "length r = 255"
    by (auto simp: length_Suc_conv eval_nat_numeral)
  have "drop (12 + n) (i0 # i1 # i2 # i3 # r) = drop (8 + n) r" "drop (10 + n) (x # y # r) = drop (8 + n) r"
    for n x y by (simp_all add: numeral_eq_Suc)
  then show ?thesis using assms(2-4) held
    by (simp add: Some b inject_hci_event_remote_name_req_compl_def inject_filled_event_def
        alloc_hci_event_msg_def injmessage_alloc_def inject_packet_def hci_event_packet_def hci_layout
        sizeof_injmessage_def inj_write_fresh)
qed

text \<open>C27: Each of the fifteen event injectors sends one HCI event packet to the interrupt endpoint: code, length of the parameters and the parameters in their order, 16-bit values in little-endian order, lists with their count in front. The answer to a remote name request is the only one that is not written completely: behind the terminator of the name it carries what the heap block held.\<close>

lemma hci_events_on_wire:
  assumes "heap_spec E" and "length ba = 6" and "length features = 8" and "length payload < 253"
    and "length infos < 64" and "length keys < 11" and "\<forall>(b, k) \<in> set keys. length b = 6 \<and> length k = 16"
    and "length name < 248"
  defines "sends \<equiv> \<lambda>f event ep. \<forall>u. f u = inject_packet E Intr (hci_event_packet event ep) u"
  shows "sends (inject_hci_event_command_status E opcode) HCI_EVENT_COMMAND_STATUS ([0, 1] @ le16 opcode) \<and>
    sends (inject_hci_event_command_compl E opcode payload) HCI_EVENT_COMMAND_COMPL
      ([1] @ le16 opcode @ payload) \<and>
    sends (inject_hci_event_con_req E ba c0 c1 c2 link) HCI_EVENT_CON_REQ (ba @ [c0, c1, c2, link]) \<and>
    sends (inject_hci_event_con_compl E ba h status) HCI_EVENT_CON_COMPL
      ([status] @ le16 h @ ba @ [HCI_LINK_ACL, HCI_ENCRYPTION_MODE_NONE]) \<and>
    sends (inject_hci_event_discon_compl E h status reason) HCI_EVENT_DISCON_COMPL
      ([status] @ le16 h @ [reason]) \<and>
    sends (inject_hci_event_role_change E ba role) HCI_EVENT_ROLE_CHANGE ([0] @ ba @ [role]) \<and>
    sends (inject_hci_event_mode_change E h mode interval) HCI_EVENT_MODE_CHANGE
      ([0] @ le16 h @ [mode] @ le16 interval) \<and>
    sends (inject_hci_event_con_pkt_type_changed E h pkt_type) HCI_EVENT_CON_PKT_TYPE_CHANGED
      ([0] @ le16 h @ le16 pkt_type) \<and>
    sends (inject_hci_event_auth_compl E status h) HCI_EVENT_AUTH_COMPL ([status] @ le16 h) \<and>
    sends (inject_hci_event_read_remote_features_compl E h features) HCI_EVENT_READ_REMOTE_FEATURES_COMPL
      ([0] @ le16 h @ features) \<and>
    sends (inject_hci_event_read_remote_ver_info_compl E h lmp manufacturer sub)
      HCI_EVENT_READ_REMOTE_VER_INFO_COMPL ([0] @ le16 h @ [lmp] @ le16 manufacturer @ le16 sub) \<and>
    sends (inject_hci_event_read_clock_offset_compl E h offset) HCI_EVENT_READ_CLOCK_OFFSET_COMPL
      ([0] @ le16 h @ le16 offset) \<and>
    sends (inject_hci_event_num_compl_pkts E infos) HCI_EVENT_NUM_COMPL_PKTS
      ([of_nat (length infos)] @ concat (map (\<lambda>(h, n). le16 h @ le16 n) infos)) \<and>
    sends (inject_hci_event_return_link_keys E keys) HCI_EVENT_RETURN_LINK_KEYS
      ([of_nat (length keys)] @ concat (map (\<lambda>(b, k). b @ k) keys)) \<and>
    (\<forall>u p held os'. os_heap_alloc E (injmessages_heap_id u) 259 (os_state u) = (Some (p, held), os') \<longrightarrow>
       inject_hci_event_remote_name_req_compl E status ba name u =
         inject_packet E Intr (hci_event_packet HCI_EVENT_REMOTE_NAME_REQ_COMPL
           ([status] @ ba @ name @ [0] @ drop (12 + length name) held)) u)"
proof -
  have keys: "length b = 6 \<and> length k = 16" if "(b, k) \<in> set keys" for b k using assms(7) that by auto
  have "inject_hci_event_return_link_keys E keys u =
     inject_packet E Intr (hci_event_packet HCI_EVENT_RETURN_LINK_KEYS
       ([of_nat (length keys)] @ concat (map (\<lambda>(b, k). b @ k) keys))) u" for u
    by (rule return_link_keys_wire [OF assms(1,6)]) (rule keys)
  moreover have "inject_hci_event_remote_name_req_compl E status ba name u =
      inject_packet E Intr (hci_event_packet HCI_EVENT_REMOTE_NAME_REQ_COMPL
        ([status] @ ba @ name @ [0] @ drop (12 + length name) held)) u"
    if "os_heap_alloc E (injmessages_heap_id u) 259 (os_state u) = (Some (p, held), os')" for u p held os'
    using remote_name_wire [OF assms(1,2,8) that] by simp
  ultimately show ?thesis unfolding sends_def using assms(1-5) by (simp add: inj_wire)
qed

lemma hci_events_on_wire_witness:
  "inject_hci_event_con_compl sample_ext [1, 2, 3, 4, 5, 6] 9 0 sample_usb =
     inject_packet sample_ext Intr [0x03, 11, 0, 9, 0, 1, 2, 3, 4, 5, 6, 1, 0] sample_usb"
  using hci_events_on_wire [OF sample_heap_spec, of "[1, 2, 3, 4, 5, 6]" "replicate 8 0" "[]" "[]" "[]" "[]"]
  by (simp add: hci_event_packet_def le16_def hci_consts)

text \<open>C28: Every signalling injector sends one ACL packet to the bulk endpoint that holds one L2CAP
  frame on the signalling channel with one command; a configuration request leaves out the
  options that have their default value, and a configuration response repeats the options of the
  request.\<close>

lemma l2cap_signals_on_wire:
  assumes "heap_spec E" and "n \<le> length options" and "n < 65518"
  defines "sends \<equiv> \<lambda>f h code ident cp.
    \<forall>u. f u = inject_packet E Bulk_In (acl_packet h (l2cap_frame L2CAP_SIGNAL_CID
      (l2cap_command code ident cp))) u"
  shows "sends (inject_l2cap_connect_req E h psm cid) h L2CAP_CONNECT_REQ L2CAP_CONNECT_REQ
      (le16 psm @ le16 cid) \<and>
    sends (inject_l2cap_disconnect_req E h dcid scid) h L2CAP_DISCONNECT_REQ L2CAP_DISCONNECT_REQ
      (le16 dcid @ le16 scid) \<and>
    sends (inject_l2cap_disconnect_rsp E h ident dcid scid) h L2CAP_DISCONNECT_RSP ident
      (le16 dcid @ le16 scid) \<and>
    sends (inject_l2cap_config_req E h cid mtu flush) h L2CAP_CONFIG_REQ L2CAP_CONFIG_REQ
      (le16 cid @ le16 0 @
       (if mtu = 672 then [] else [1, 2] @ le16 mtu) @
       (if flush = 0xFFFF then [] else [2, 2] @ le16 flush)) \<and>
    sends (inject_l2cap_config_rsp E h cid ident options n) h L2CAP_CONFIG_RSP ident
      (le16 cid @ le16 0 @ le16 0 @ take n options)"
proof -
  have o: "l2cap_config_req_options mtu flush =
      (if mtu = 672 then [] else [1, 2] @ le16 mtu) @
      (if flush = 0xFFFF then [] else [2, 2] @ le16 flush)"
    by (simp add: l2cap_config_req_options_def c_consts)
  have s: "L2CAP_SUCCESS = 0" by (simp add: c_consts)
  show ?thesis unfolding sends_def using assms(1-3)
    by (simp add: inj_wire l2cap_signal_packet_def o [symmetric] s)
qed

lemma l2cap_signals_on_wire_witness:
  "inject_l2cap_config_req sample_ext 9 0x41 0x00B9 0xFFFF sample_usb =
     inject_packet sample_ext Bulk_In
       [9, 0x20, 16, 0, 12, 0, 1, 0, 4, 4, 8, 0, 0x41, 0, 0, 0, 1, 2, 0xB9, 0] sample_usb"
proof -
  have n: "(0 :: nat) \<le> length ([] :: u8 list)" "(0 :: nat) < 65518" by simp_all
  have "inject_l2cap_config_req sample_ext 9 0x41 0x00B9 0xFFFF sample_usb =
    inject_packet sample_ext Bulk_In (acl_packet 9 (l2cap_frame L2CAP_SIGNAL_CID
      (l2cap_command L2CAP_CONFIG_REQ L2CAP_CONFIG_REQ (le16 0x41 @ le16 0 @
        (if (0x00B9 :: u16) = 672 then [] else [1, 2] @ le16 0x00B9) @
        (if (0xFFFF :: u16) = 0xFFFF then [] else [2, 2] @ le16 0xFFFF))))) sample_usb"
    using l2cap_signals_on_wire [OF sample_heap_spec n] by blast
  moreover have "(8201 :: u8) = 9" by simp
  ultimately show ?thesis
    by (simp add: acl_packet_def l2cap_frame_def l2cap_command_def le16_def c_consts
        HCI_MK_CON_HANDLE_def HCI_PACKET_START_def HCI_POINT2POINT_def)
qed

section \<open>HID reports\<close>

lemma report_wire:
  "heap_spec E \<Longrightarrow> length data \<le> 21 \<Longrightarrow>
   wiimote_send_report E rpt_id data w u =
     inject_packet E Bulk_In (acl_packet (fw_con_handle w)
       (l2cap_frame (chn_remote_cid (psm_hid_intr_chn w)) ([0xA1, rpt_id] @ data))) u"
  by (simp add: wiimote_send_report_def send_hid_input_report_def send_hid_data_def c_consts
      inject_l2cap_packet_wire)

section \<open>The periodic count of completed packets\<close>

definition completed_infos :: "fake_wiimote list \<Rightarrow> (u16 \<times> u16) list" where
  "completed_infos ws = map (\<lambda>w. (fw_con_handle w, ucast (num_completed_acl_data_packets w)))
     (filter fake_wiimote_is_connected ws)"

definition reset_count :: "fake_wiimote \<Rightarrow> fake_wiimote" where
  "reset_count w = (if fake_wiimote_is_connected w
     then w \<lparr> num_completed_acl_data_packets := 0 \<rparr> else w)"

lemma collect_completed_eq:
  "collect_completed ws = (completed_infos ws,
     sum_list (map num_completed_acl_data_packets (filter fake_wiimote_is_connected ws)),
     map reset_count ws)"
  by (induction ws) (simp_all add: completed_infos_def reset_count_def)

text \<open>C29: Once per tick the host gets at most one event with the packets it sent to the connected
  fake Wiimotes: one entry for each of them with the count since the last event, and the counts
  start again at 0.  When nothing was sent there is no event.\<close>

lemma completed_packets_event:
  assumes "heap_spec E" and "length (fake_wiimotes W) < 64"
  shows "fake_wiimote_mgr_send_event_number_of_completed_packets E W =
    (let infos = completed_infos (fake_wiimotes W);
         W1 = W \<lparr> fake_wiimotes := map reset_count (fake_wiimotes W) \<rparr>
     in if sum_list (map num_completed_acl_data_packets
            (filter fake_wiimote_is_connected (fake_wiimotes W))) = 0
        then Inr W1
        else ignore_ret (on_usb (inject_packet E Intr (hci_event_packet HCI_EVENT_NUM_COMPL_PKTS
          ([of_nat (length infos)] @ concat (map (\<lambda>(h, n). le16 h @ le16 n) infos)))) W1))"
proof -
  have "length (completed_infos (fake_wiimotes W)) < 64"
    using le_less_trans [OF length_filter_le assms(2)] by (simp add: completed_infos_def)
  then have "inject_hci_event_num_compl_pkts E (completed_infos (fake_wiimotes W)) =
    inject_packet E Intr (hci_event_packet HCI_EVENT_NUM_COMPL_PKTS
      ([of_nat (length (completed_infos (fake_wiimotes W)))] @
        concat (map (\<lambda>(h, n). le16 h @ le16 n) (completed_infos (fake_wiimotes W)))))"
    by (intro ext num_compl_pkts_wire [OF assms(1)])
  then show ?thesis
    by (simp add: fake_wiimote_mgr_send_event_number_of_completed_packets_def collect_completed_eq
        Let_def word_gt_0)
qed

lemma completed_packets_event_witness:
  "fake_wiimote_mgr_send_event_number_of_completed_packets sample_ext sample_world =
     ignore_ret (on_usb (inject_packet sample_ext Intr [0x13, 5, 1, 9, 0, 3, 0])
       (sample_world \<lparr> fake_wiimotes :=
          [sample_wiimote \<lparr> num_completed_acl_data_packets := 0 \<rparr>, idle_wiimote] \<rparr>))"
  using completed_packets_event [OF sample_heap_spec, of sample_world]
  by (simp add: completed_infos_def reset_count_def hci_event_packet_def le16_def hci_consts)

end
