(* ===== verification/Host_Memory.thy ===== *)
theory Host_Memory
  imports Memory_Spaces Fake_Wiimote_Hid Wire_Packets
begin

text \<open>
  What a host sees of a fake Wiimote's memories through read and write requests: ranges are read
  in replies of at most sixteen bytes that together are the memory, a write can be read back,
  an encrypted extension decrypts with the key the host wrote, and the EEPROM holds calibration
  blocks with valid checksums.
\<close>

section \<open>The extension cipher\<close>

text \<open>C37: The sixteen bytes the host writes hold, backwards, ten random bytes and a check key of six.
  The tables are made when the check key is the one of the random bytes under one of the seven
  rows of answers: for the random bytes 0 to 9 the seven keys accepted and the two tables of
  each are the ones listed here, byte by byte.  Any other block, such as sixteen zeros, leaves
  the index at seven and the code takes the eighth and the missing ninth substitution table,
  which is a read out of bounds.  The copy that reverses bytes is assumed to do just that.\<close>

lemma key_generation:
  assumes "\<And>src n. reverse_memcpy E src n = rev (take n src)"
  shows "list_all (\<lambda>(key, f, s). wiimote_crypto_generate_key_from_extension_key_data E
            ([9, 8, 7, 6, 5, 4, 3, 2, 1, 0] @ rev key) = Inr \<lparr> ft = f, sb = s \<rparr>)
         [([0xA8, 0xF2, 0xD4, 0x8D, 0x87, 0x59], [0xA4, 0xFC, 0x5F, 0xEF, 0xD8, 0x52, 0x32, 0x02], [0xD0, 0x88, 0xB5, 0x1E, 0x2E, 0x20, 0x2B, 0x9A]),
          ([0x5E, 0xBC, 0x58, 0xCD, 0x80, 0x28], [0xA6, 0x61, 0x01, 0x03, 0x47, 0xDC, 0x45, 0x4B], [0xE1, 0xBC, 0xD4, 0x4C, 0xB5, 0xE3, 0x9B, 0x7B]),
          ([0xC4, 0x32, 0x22, 0xBD, 0x67, 0x8E], [0xDE, 0xF7, 0x5F, 0xDE, 0xA4, 0xC8, 0x84, 0xB4], [0xEE, 0x4D, 0x28, 0x9E, 0x38, 0xC8, 0x45, 0x05]),
          ([0x74, 0xC2, 0x6F, 0x5A, 0xF6, 0x86], [0x4A, 0x40, 0x0F, 0xA2, 0x97, 0xC1, 0x7F, 0x20], [0xC0, 0xD2, 0x25, 0xC9, 0x56, 0x05, 0xE7, 0x8F]),
          ([0x99, 0xF1, 0xAE, 0x70, 0xAC, 0xA8], [0x85, 0x11, 0x6F, 0x41, 0xFC, 0x99, 0xBF, 0xFA], [0xD6, 0xD6, 0x71, 0xE1, 0x5B, 0x55, 0x43, 0x42]),
          ([0x88, 0x81, 0xCE, 0xE4, 0xBC, 0xDF], [0x82, 0x3F, 0xAE, 0x6A, 0xBE, 0x16, 0x48, 0x83], [0x72, 0x23, 0xE0, 0x8B, 0x11, 0x30, 0x56, 0x40]),
          ([0x9B, 0xC9, 0x0C, 0x40, 0x63, 0xB6], [0x58, 0x9B, 0x93, 0x91, 0x0E, 0x13, 0x22, 0xEB], [0xE6, 0xFF, 0x8D, 0xA0, 0xC6, 0x8A, 0x97, 0x7B])] \<and>
       wiimote_crypto_generate_key_from_extension_key_data E (replicate 16 0) = Inl Out_Of_Bounds \<and>
       (\<forall>rand key. length rand = 10 \<and> length key = 6 \<and> (\<forall>i<7. key \<noteq> generate_key_data rand i) \<longrightarrow>
          wiimote_crypto_generate_key_from_extension_key_data E (rev rand @ rev key) = Inl Out_Of_Bounds)"
proof (intro conjI allI impI)
  show "list_all (\<lambda>(key, f, s). wiimote_crypto_generate_key_from_extension_key_data E
            ([9, 8, 7, 6, 5, 4, 3, 2, 1, 0] @ rev key) = Inr \<lparr> ft = f, sb = s \<rparr>)
         [([0xA8, 0xF2, 0xD4, 0x8D, 0x87, 0x59], [0xA4, 0xFC, 0x5F, 0xEF, 0xD8, 0x52, 0x32, 0x02], [0xD0, 0x88, 0xB5, 0x1E, 0x2E, 0x20, 0x2B, 0x9A]),
          ([0x5E, 0xBC, 0x58, 0xCD, 0x80, 0x28], [0xA6, 0x61, 0x01, 0x03, 0x47, 0xDC, 0x45, 0x4B], [0xE1, 0xBC, 0xD4, 0x4C, 0xB5, 0xE3, 0x9B, 0x7B]),
          ([0xC4, 0x32, 0x22, 0xBD, 0x67, 0x8E], [0xDE, 0xF7, 0x5F, 0xDE, 0xA4, 0xC8, 0x84, 0xB4], [0xEE, 0x4D, 0x28, 0x9E, 0x38, 0xC8, 0x45, 0x05]),
          ([0x74, 0xC2, 0x6F, 0x5A, 0xF6, 0x86], [0x4A, 0x40, 0x0F, 0xA2, 0x97, 0xC1, 0x7F, 0x20], [0xC0, 0xD2, 0x25, 0xC9, 0x56, 0x05, 0xE7, 0x8F]),
          ([0x99, 0xF1, 0xAE, 0x70, 0xAC, 0xA8], [0x85, 0x11, 0x6F, 0x41, 0xFC, 0x99, 0xBF, 0xFA], [0xD6, 0xD6, 0x71, 0xE1, 0x5B, 0x55, 0x43, 0x42]),
          ([0x88, 0x81, 0xCE, 0xE4, 0xBC, 0xDF], [0x82, 0x3F, 0xAE, 0x6A, 0xBE, 0x16, 0x48, 0x83], [0x72, 0x23, 0xE0, 0x8B, 0x11, 0x30, 0x56, 0x40]),
          ([0x9B, 0xC9, 0x0C, 0x40, 0x63, 0xB6], [0x58, 0x9B, 0x93, 0x91, 0x0E, 0x13, 0x22, 0xEB], [0xE6, 0xFF, 0x8D, 0xA0, 0xC6, 0x8A, 0x97, 0x7B])]"
    by (simp only: list.pred_inject prod.case sample_answers [OF assms] simp_thms)
next
       
  have z: "replicate 16 0 = rev [0, 0, 0, 0, 0, 0, 0, 0, 0, 0] @ rev [0, 0, 0, 0, 0, 0 :: u8]"
    by (simp add: numeral_eq_Suc)
  have "find_key_index [0, 0, 0, 0, 0, 0] [0, 0, 0, 0, 0, 0, 0, 0, 0, 0] [0..<7] = 7"
    unfolding first_seven by (simp add: zero_check_keys)
  then show "wiimote_crypto_generate_key_from_extension_key_data E (replicate 16 0) = Inl Out_Of_Bounds"
    unfolding z by (subst generated_key [OF assms]) (simp_all add: get_sbox_def length_sboxes)
next
  fix rand key :: "u8 list"
  assume "length rand = 10 \<and> length key = 6 \<and> (\<forall>i<7. key \<noteq> generate_key_data rand i)"
  then show "wiimote_crypto_generate_key_from_extension_key_data E (rev rand @ rev key) = Inl Out_Of_Bounds"
    using no_seed_matches [of "[0..<7]" key rand, OF subsetI]
    by (subst generated_key [OF assms]) (auto simp: get_sbox_def length_sboxes)
qed

lemma key_generation_witness:
  "wiimote_crypto_generate_key_from_extension_key_data sample_ext (replicate 16 0) = Inl Out_Of_Bounds \<and>
   wiimote_crypto_generate_key_from_extension_key_data sample_ext
     [9, 8, 7, 6, 5, 4, 3, 2, 1, 0, 0x59, 0x87, 0x8D, 0xD4, 0xF2, 0xA8] =
   Inr \<lparr> ft = [0xA4, 0xFC, 0x5F, 0xEF, 0xD8, 0x52, 0x32, 0x02], sb = [0xD0, 0x88, 0xB5, 0x1E, 0x2E, 0x20, 0x2B, 0x9A] \<rparr>"
  using key_generation [of sample_ext] by simp

text \<open>A host that reads a range of the extension registers piece by piece.\<close>

fun extension_reads ::
  "'os ext \<Rightarrow> fake_wiimote \<Rightarrow> nat \<Rightarrow> nat list \<Rightarrow> (u8 list option \<times> fake_wiimote) result" where
  "extension_reads E w a [] = Inr (Some [], w)"
| "extension_reads E w a (n # ns) =
     rbind (extension_read_data E w a n) (\<lambda>(r, w1).
     case r of
       None \<Rightarrow> Inr (None, w1)
     | Some bs \<Rightarrow>
         rbind (extension_reads E w1 (a + n) ns) (\<lambda>(r', w2). Inr (map_option ((@) bs) r', w2)))"

lemma extension_reads_eq:
  assumes "encryption_enabled w" and "\<not> extension_key_dirty w" and "ext_inv w"
    and "a + sum_list ns \<le> sizeof_extension_registers"
  shows "extension_reads E w a ns =
    Inr (Some (wiimote_crypto_encrypt (extension_key w) (of_nat a)
      (take (sum_list ns) (drop a (extension_regs w)))), w)"
  using assms
proof (induction ns arbitrary: a)
  case (Cons n ns)
  have l: "length (take n (drop a (extension_regs w))) = n"
    using Cons.prems by (simp add: ext_inv_def)
  have "extension_read_data E w a n =
      Inr (Some (wiimote_crypto_encrypt (extension_key w) (of_nat a) (take n (drop a (extension_regs w)))), w)"
    using Cons.prems by (simp add: extension_read_data_def encryption_enabled_def)
  moreover have "extension_reads E w (a + n) ns =
      Inr (Some (wiimote_crypto_encrypt (extension_key w) (of_nat (a + n))
        (take (sum_list ns) (drop (a + n) (extension_regs w)))), w)"
    using Cons.prems by (intro Cons.IH) (simp_all add: add.assoc)
  moreover have "take (n + sum_list ns) (drop a (extension_regs w)) =
      take n (drop a (extension_regs w)) @ take (sum_list ns) (drop (a + n) (extension_regs w))"
    by (simp add: take_add add.commute)
  ultimately show ?case using l
    by (simp add: cipher.enc_append)
qed simp

text \<open>C21: After the host wrote a key that matches a seed and enabled the encryption, a range of
  the extension registers read in pieces of any sizes decrypts with the tables of that key to
  the registers.\<close>

lemma encrypted_extension_readable:
  assumes "encryption_enabled w" and "extension_key_dirty w" and "ext_inv w" and "ns \<noteq> []"
    and "wiimote_crypto_generate_key_from_extension_key_data E (extension_key_data w) = Inr k"
    and "a + sum_list ns \<le> sizeof_extension_registers"
  shows "\<exists>bs w'. extension_reads E w a ns = Inr (Some bs, w') \<and>
    host_decrypt k (of_nat a) bs = take (sum_list ns) (drop a (extension_regs w)) \<and>
    extension_regs w' = extension_regs w"
proof -
  define w1 where "w1 = w \<lparr> extension_key := k, extension_key_dirty := False \<rparr>"
  have w1: "encryption_enabled w1" "\<not> extension_key_dirty w1" "ext_inv w1" "extension_key w1 = k"
    "extension_regs w1 = extension_regs w"
    using assms(1,3) by (simp_all add: w1_def encryption_enabled_def ext_inv_def)
  obtain n ms where ns: "ns = n # ms" using assms(4) by (cases ns) auto
  have "extension_read_data E w a n = extension_read_data E w1 a n"
    using assms(1,2,5,6) w1 by (simp add: extension_read_data_def encryption_enabled_def ns w1_def)
  then have "extension_reads E w a ns = extension_reads E w1 a ns" by (simp add: ns)
  then show ?thesis
    using extension_reads_eq [OF w1(1-3), of a ns E] assms(6) w1(4,5) by (simp add: cipher.dec_enc)
qed

definition sample_rand :: "u8 list" where "sample_rand = [0, 1, 2, 3, 4, 5, 6, 7, 8, 9]"

text \<open>A Wiimote whose host wrote a key for the first seed and enabled the encryption.\<close>

definition keyed_wiimote :: fake_wiimote where
  "keyed_wiimote = sample_wiimote \<lparr> extension_key_dirty := True,
     extension_regs := replicate 0x40 0x11 @ rev sample_rand @ rev (generate_key_data sample_rand 0) @
       replicate 0xA0 0 @ [0xAA] @ replicate 0x0F 0 \<rparr>"

lemma length_generate_key_data [simp]: "length (generate_key_data rand i) = 6"
  by (simp add: generate_key_data_def Let_def)

lemma encrypted_extension_readable_witness:
  "\<exists>k bs w'. extension_reads sample_ext keyed_wiimote 8 [2, 3] = Inr (Some bs, w') \<and>
     host_decrypt k 8 bs = replicate 5 0x11"
proof -
  have l: "length sample_rand = 10" by (simp add: sample_rand_def)
  define k where "k = generate_tables sample_rand (generate_key_data sample_rand 0)
    (sboxes_1st_party ! 0) (sboxes_1st_party ! 1)"
  have regs: "extension_regs keyed_wiimote = replicate 0x40 0x11 @ rev sample_rand @
      rev (generate_key_data sample_rand 0) @ replicate 0xA0 0 @ [0xAA] @ replicate 0x0F 0"
    and dirty: "extension_key_dirty keyed_wiimote"
    by (simp_all add: keyed_wiimote_def)
  have e: "encryption_enabled keyed_wiimote"
    by (simp add: encryption_enabled_def regs nth_append l c_consts wiimote_layout)
  have i: "ext_inv keyed_wiimote" by (simp add: ext_inv_def regs l wiimote_layout)
  have kd: "extension_key_data keyed_wiimote = rev sample_rand @ rev (generate_key_data sample_rand 0)"
    by (simp add: extension_key_data_def regs l wiimote_layout)
  have g: "wiimote_crypto_generate_key_from_extension_key_data sample_ext
      (extension_key_data keyed_wiimote) = Inr k"
    unfolding kd by (subst generated_key) (simp_all add: l k_def first_seven get_sbox_def length_sboxes)
  have b: "8 + sum_list [2, 3] \<le> sizeof_extension_registers" by (simp add: wiimote_layout)
  have p: "take (sum_list [2, 3]) (drop 8 (extension_regs keyed_wiimote)) = replicate 5 0x11"
    by (simp add: regs)
  show ?thesis
    using encrypted_extension_readable [OF e dirty i _ g b] unfolding p by auto
qed

section \<open>Read requests\<close>

text \<open>The memory a space and a slave address select.\<close>

definition memory_at :: "u8 \<Rightarrow> u8 \<Rightarrow> fake_wiimote \<Rightarrow> u8 list option" where
  "memory_at space slave w =
     (if space = ADDRESS_SPACE_EEPROM then Some (eeprom w)
      else if space = ADDRESS_SPACE_I2C_BUS \<or> space = ADDRESS_SPACE_I2C_BUS_ALT then
        if slave = EXTENSION_I2C_ADDR then Some (extension_regs w)
        else if slave = CAMERA_I2C_ADDR then Some (ir_regs w)
        else None
      else None)"

definition memories_ok :: "fake_wiimote \<Rightarrow> bool" where
  "memories_ok w \<longleftrightarrow> ir_inv w \<and> ext_inv w \<and> eeprom_inv w"

text \<open>The reply to the pending request, as the fields of the report, and the Wiimote after it.\<close>

definition read_reply ::
  "'os ext \<Rightarrow> fake_wiimote \<Rightarrow> ((u8 \<times> nat \<times> u16 \<times> u8 list) \<times> fake_wiimote) result" where
  "read_reply E w =
     rbind (read_request_data E (min 16 (unat (rr_size (fw_read_request w)))) w)
       (\<lambda>(error, data, w1).
          let (n, w2) = advance_read_request error (min 16 (unat (rr_size (fw_read_request w)))) w1
          in Inr ((error, n, rr_address (fw_read_request w), data), w2))"

fun read_replies ::
  "'os ext \<Rightarrow> nat \<Rightarrow> fake_wiimote \<Rightarrow>
   ((u8 \<times> nat \<times> u16 \<times> u8 list) list \<times> fake_wiimote) result" where
  "read_replies E 0 w = Inr ([], w)"
| "read_replies E (Suc k) w =
     rbind (read_reply E w) (\<lambda>(r, w1). rbind (read_replies E k w1) (\<lambda>(rs, w2). Inr (r # rs, w2)))"

lemma length_reply_data: "length (put 0 (take n bs) (replicate 16 0)) = max 16 (min n (length bs))"
  by (simp add: put_def)

lemma read_request_data_length:
  assumes "read_request_data E n w = Inr (e, data, w')" and "n \<le> 16"
  shows "length data = 16"
proof -
  have r: "length (fst (snd (reply_block n c x))) = 16" for c :: u8 and x :: "u8 list option \<times> fake_wiimote"
    using assms(2) by (cases x; cases "fst x") (simp_all add: reply_block_def length_reply_data)
  show ?thesis
    using assms(1) by (auto simp: read_request_data_def Let_def result_simps split: if_splits)
      (metis r fst_conv snd_conv)+
qed

lemma read_request_sent:
  assumes "heap_spec E" and "rr_size (fw_read_request w) \<noteq> 0"
  shows "fake_wiimote_process_read_request E w u =
    rbind (read_reply E w) (\<lambda>((error, n, address, data), w').
      rbind (inject_packet E Bulk_In (acl_packet (fw_con_handle w') (l2cap_frame
               (chn_remote_cid (psm_hid_intr_chn w'))
               ([0xA1, 0x21] @ be16 (fw_buttons w') @
                [push_bit 4 (of_nat (n - 1)) OR take_bit 4 error] @ be16 address @ data))) u)
        (\<lambda>(_, u'). Inr (True, w', u')))"
proof -
  define n where "n = min 16 (unat (rr_size (fw_read_request w)))"
  have "n \<noteq> 0" "n \<le> 16" using assms(2) by (simp_all add: n_def unat_gt_0)
  then show ?thesis
    using assms(1) read_request_data_length [of E n w]
    by (cases "read_request_data E n w")
       (auto simp: fake_wiimote_process_read_request_def read_reply_def n_def [symmetric] Let_def
          report_wire input_report_read_data_def INPUT_REPORT_ID_READ_DATA_REPLY_def
        split: prod.splits)
qed

lemma memory_at_length:
  "memories_ok w \<Longrightarrow> memory_at space slave w = Some m \<Longrightarrow> length m \<le> 0x1700"
  by (auto simp: memories_ok_def memory_at_def ir_inv_def ext_inv_def eeprom_inv_def c_consts
      split: if_splits)

lemma memory_at_cases [consumes 1, case_names EEPROM Extension Camera]:
  assumes "memory_at space slave w = Some m"
  obtains "space = ADDRESS_SPACE_EEPROM" "m = eeprom w"
    | "space = ADDRESS_SPACE_I2C_BUS \<or> space = ADDRESS_SPACE_I2C_BUS_ALT"
      "space \<noteq> ADDRESS_SPACE_EEPROM" "slave = EXTENSION_I2C_ADDR" "m = extension_regs w"
    | "space = ADDRESS_SPACE_I2C_BUS \<or> space = ADDRESS_SPACE_I2C_BUS_ALT"
      "space \<noteq> ADDRESS_SPACE_EEPROM" "slave = CAMERA_I2C_ADDR" "m = ir_regs w"
  using assms by (auto simp: memory_at_def split: if_splits)

lemma memory_at_frame:
  "memory_at space slave (w \<lparr> fw_read_request := r \<rparr>) = memory_at space slave w"
  by (simp add: memory_at_def)

lemma slaves_differ:
  "EXTENSION_I2C_ADDR \<noteq> EEPROM_I2C_ADDR" "CAMERA_I2C_ADDR \<noteq> EEPROM_I2C_ADDR"
  "CAMERA_I2C_ADDR \<noteq> EXTENSION_I2C_ADDR" "EXTENSION_I2C_ADDR \<noteq> CAMERA_I2C_ADDR"
  by (simp_all add: c_consts)

lemma put_prefix: "length bs = n \<Longrightarrow> n \<le> 16 \<Longrightarrow> take n (put 0 bs (replicate 16 0)) = bs"
  by (simp add: put_def)

text \<open>A reply inside the memory: it succeeds and the request moves on.\<close>

lemma read_reply_in_range:
  assumes "fw_read_request w = \<lparr> rr_space = space, rr_slave_address = slave, rr_address = a, rr_size = s \<rparr>"
    and "memories_ok w" and "memory_at space slave w = Some m"
    and "unat a + (if space = ADDRESS_SPACE_EEPROM then unat s else min 16 (unat s)) \<le> length m"
    and "slave = EXTENSION_I2C_ADDR \<Longrightarrow> \<not> encryption_enabled w"
  defines "n \<equiv> min 16 (unat s)"
  shows "\<exists>data. read_reply E w = Inr ((ERROR_CODE_SUCCESS, n, a, data), w \<lparr> fw_read_request :=
      \<lparr> rr_space = space, rr_slave_address = slave, rr_address = a + of_nat n, rr_size = s - of_nat n \<rparr> \<rparr>) \<and>
    take n data = take n (drop (unat a) m)"
proof -
  have n: "n \<le> 16" "unat a + n \<le> length m" using assms(4) by (auto simp: n_def split: if_splits)
  define data where "data = put 0 (take n (drop (unat a) m)) (replicate 16 0)"
  have "read_request_data E n w = Inr (ERROR_CODE_SUCCESS, data, w)"
    using assms(3)
  proof (cases rule: memory_at_cases)
    case EEPROM
    then show ?thesis using assms(1,2,4)
      by (simp add: read_request_data_def reply_block_def data_def eeprom_read_data_def
          memories_ok_def eeprom_inv_def n_def)
  next
    case Extension
    then show ?thesis using assms(1,2,5) n(2)
      by (simp add: read_request_data_def reply_block_def data_def extension_read_plain
          extension_plain_def mem_read_def memories_ok_def ext_inv_def slaves_differ)
  next
    case Camera
    then show ?thesis using assms(1,2) n(2)
      by (simp add: read_request_data_def reply_block_def data_def ir_camera_read_data_def
          memories_ok_def ir_inv_def slaves_differ)
  qed
  moreover have "take n data = take n (drop (unat a) m)"
    unfolding data_def using n by (intro put_prefix) simp_all
  ultimately show ?thesis
    using assms(1) by (simp add: read_reply_def n_def [symmetric] advance_read_request_def Let_def)
qed

text \<open>C12: A read request for a range of the EEPROM, of the camera registers or of the unencrypted
  extension registers is answered by one reply per sixteen bytes: every reply reports success,
  the data they announce are together the range, and then the request is finished.\<close>

lemma read_request_drained:
  assumes "fw_read_request w = \<lparr> rr_space = space, rr_slave_address = slave, rr_address = a, rr_size = s \<rparr>"
    and "memories_ok w" and "memory_at space slave w = Some m" and "unat a + unat s \<le> length m"
    and "slave = EXTENSION_I2C_ADDR \<Longrightarrow> \<not> encryption_enabled w"
  shows "\<exists>rs w'. read_replies E ((unat s + 15) div 16) w = Inr (rs, w') \<and>
    concat (map (\<lambda>(error, n, address, data). take n data) rs) = take (unat s) (drop (unat a) m) \<and>
    list_all (\<lambda>(error, n, address, data). error = ERROR_CODE_SUCCESS \<and> 0 < n \<and> n \<le> 16) rs \<and>
    rr_size (fw_read_request w') = 0 \<and>
    w' = w \<lparr> fw_read_request := fw_read_request w' \<rparr>"
  using assms
proof (induction "unat s" arbitrary: w a s rule: less_induct)
  case less
  show ?case
  proof (cases "s = 0")
    case True
    with less.prems(1) show ?thesis by simp
  next
    case False
    define n where "n = min 16 (unat s)"
    define w1 where "w1 = w \<lparr> fw_read_request := \<lparr> rr_space = space, rr_slave_address = slave,
      rr_address = a + of_nat n, rr_size = s - of_nat n \<rparr> \<rparr>"
    have n: "0 < n" "n \<le> 16" "n \<le> unat s" using False by (simp_all add: n_def unat_gt_0)
    have lm: "length m \<le> 0x1700" using memory_at_length less.prems(2,3) by blast
    then have a': "unat (a + of_nat n) = unat a + n"
      using less.prems(4) n by (simp add: unat_word_ariths unat_of_nat)
    have s': "unat (s - of_nat n) = unat s - n"
      using n by (simp add: unat_sub word_le_nat_alt unat_of_nat)
    have fits1: "unat a + (if space = ADDRESS_SPACE_EEPROM then unat s else min 16 (unat s)) \<le> length m"
      using less.prems(4) by (auto simp: min_def)
    obtain data where r: "read_reply E w = Inr ((ERROR_CODE_SUCCESS, n, a, data), w1)"
      and d: "take n data = take n (drop (unat a) m)"
      using read_reply_in_range [OF less.prems(1-3) fits1 less.prems(5), of E]
      by (auto simp: n_def w1_def)
    have w1: "fw_read_request w1 = \<lparr> rr_space = space, rr_slave_address = slave,
        rr_address = a + of_nat n, rr_size = s - of_nat n \<rparr>" "memories_ok w1"
      "memory_at space slave w1 = Some m" "slave = EXTENSION_I2C_ADDR \<Longrightarrow> \<not> encryption_enabled w1"
      using less.prems(2,3,5) by (simp_all add: w1_def memories_ok_def ir_inv_def ext_inv_def
          eeprom_inv_def encryption_enabled_def memory_at_frame)
    have smaller: "unat (s - of_nat n) < unat s" using n s' by simp
    have fits: "unat (a + of_nat n) + unat (s - of_nat n) \<le> length m"
      using a' s' n less.prems(4) by simp
    obtain rs w' where rest: "read_replies E ((unat (s - of_nat n) + 15) div 16) w1 = Inr (rs, w')"
      "concat (map (\<lambda>(error, n, address, data). take n data) rs) =
         take (unat (s - of_nat n)) (drop (unat (a + of_nat n)) m)"
      "list_all (\<lambda>(error, n, address, data). error = ERROR_CODE_SUCCESS \<and> 0 < n \<and> n \<le> 16) rs"
      "rr_size (fw_read_request w') = 0" "w' = w1 \<lparr> fw_read_request := fw_read_request w' \<rparr>"
      using less.hyps [OF smaller w1(1-3) fits w1(4)] by blast
    have k: "(unat s + 15) div 16 = Suc ((unat (s - of_nat n) + 15) div 16)"
      using n s' by (auto simp: n_def min_def split: if_splits)
    have c: "take (unat s) (drop (unat a) m) =
        take n (drop (unat a) m) @ take (unat s - n) (drop (unat a + n) m)"
      using n(3) take_add [of n "unat s - n" "drop (unat a) m"] by (simp add: add.commute)
    have "read_replies E ((unat s + 15) div 16) w = Inr ((ERROR_CODE_SUCCESS, n, a, data) # rs, w')"
      using r rest(1) by (simp add: k)
    moreover have "w' = w \<lparr> fw_read_request := fw_read_request w' \<rparr>"
      using rest(5) by (simp add: w1_def)
    ultimately show ?thesis
      using rest(2-4) n d c a' s' by (intro exI [of _ "(ERROR_CODE_SUCCESS, n, a, data) # rs"]
        exI [of _ w']) simp
  qed
qed

definition sample_request :: "u8 \<Rightarrow> u8 \<Rightarrow> u16 \<Rightarrow> u16 \<Rightarrow> fake_wiimote" where
  "sample_request space slave a n = sample_wiimote \<lparr> fw_read_request :=
     \<lparr> rr_space = space, rr_slave_address = slave, rr_address = a, rr_size = n \<rparr> \<rparr>"

lemma length_eeprom_init [simp]: "length eeprom_init = EEPROM_FREE_SIZE"
  by (simp add: eeprom_init_def Let_def c_consts ir_calibration_def accel_calibration_def)

lemma sample_memories [simp]: "memories_ok sample_wiimote" "memories_ok (sample_request p q a n)"
proof -
  have "length (extension_regs sample_wiimote) = sizeof_extension_registers"
    by (simp add: sample_wiimote_def fake_wiimote_init_state_def fake_wiimote_reset_extension_state_def
        Let_def fake_wiimote_zero_def ext_id_code_def)
  then show "memories_ok sample_wiimote" "memories_ok (sample_request p q a n)"
    by (simp_all add: memories_ok_def ir_inv_def ext_inv_def eeprom_inv_def sample_request_def)
qed

lemma read_request_drained_witness:
  "\<exists>rs w'. read_replies sample_ext 2 (sample_request 0 0 0x16 20) = Inr (rs, w') \<and>
     concat (map (\<lambda>(error, n, address, data). take n data) rs) = take 20 (drop 0x16 eeprom_init)"
proof -
  have r: "fw_read_request (sample_request 0 0 0x16 20) =
      \<lparr> rr_space = 0, rr_slave_address = 0, rr_address = 0x16, rr_size = 20 \<rparr>"
    and m: "memory_at 0 0 (sample_request 0 0 0x16 20) = Some eeprom_init"
    by (simp_all add: sample_request_def memory_at_def c_consts)
  have e: "(0 :: u8) = EXTENSION_I2C_ADDR \<Longrightarrow> \<not> encryption_enabled (sample_request 0 0 0x16 20)"
    by (simp add: c_consts)
  have b: "unat (0x16 :: u16) + unat (20 :: u16) \<le> length eeprom_init"
    by (simp add: EEPROM_FREE_SIZE_def)
  show ?thesis using read_request_drained [OF r _ m b e, of sample_ext] by auto
qed

text \<open>A reply outside the memory, or without a memory space.\<close>

lemma read_reply_refused:
  assumes "fw_read_request w = \<lparr> rr_space = space, rr_slave_address = slave, rr_address = a, rr_size = s \<rparr>"
  defines "n \<equiv> min 16 (unat s)"
    and "i2c \<equiv> space = ADDRESS_SPACE_I2C_BUS \<or> space = ADDRESS_SPACE_I2C_BUS_ALT"
  assumes "error =
    (if space = ADDRESS_SPACE_EEPROM \<and> unat a + unat s > EEPROM_FREE_SIZE then 8
     else if i2c \<and> slave = EEPROM_I2C_ADDR then 8
     else if i2c \<and> slave = EXTENSION_I2C_ADDR \<and> unat a + n > 0x100 then 7
     else if i2c \<and> slave = CAMERA_I2C_ADDR \<and> unat a + n > sizeof_ir_camera_registers then 7
     else if space \<noteq> ADDRESS_SPACE_EEPROM \<and> \<not> i2c then 6
     else 0)"
    and "error \<noteq> 0"
  shows "read_reply E w = Inr ((error, 16, a, replicate 16 0), w \<lparr> fw_read_request :=
    \<lparr> rr_space = space, rr_slave_address = slave, rr_address = a, rr_size = 0 \<rparr> \<rparr>)"
proof -
  have sp: "space = 0 \<Longrightarrow> \<not> i2c" by (simp add: i2c_def c_consts)
  have "read_request_data E n w = Inr (error, replicate 16 0, w)"
  proof (cases "space = 0 \<or> \<not> i2c")
    case True
    then show ?thesis using assms(1,4,5) sp unfolding i2c_def
      by (auto simp: read_request_data_def reply_block_def eeprom_read_data_def c_consts
          split: if_splits)
  next
    case False
    then consider "slave = EEPROM_I2C_ADDR" "error = 8"
      | "slave = EXTENSION_I2C_ADDR" "error = 7" "unat a + n > 0x100"
      | "slave = CAMERA_I2C_ADDR" "error = 7" "unat a + n > sizeof_ir_camera_registers"
      using assms(4,5) slaves_differ by (auto simp: ADDRESS_SPACE_EEPROM_def split: if_splits)
    then show ?thesis
      using False assms(1) unfolding i2c_def
      by cases (simp_all add: read_request_data_def reply_block_def ADDRESS_SPACE_EEPROM_def
          extension_read_data_def ir_camera_read_data_def slaves_differ ERROR_CODE_NACK_def
          ERROR_CODE_INVALID_ADDRESS_def sizeof_extension_registers_def)
  qed
  then show ?thesis using assms
    by (simp add: read_reply_def n_def advance_read_request_def Let_def ERROR_CODE_SUCCESS_def)
qed

text \<open>The blocks of a read of registers that runs over their end, and the reply that ends it.\<close>

lemma read_replies_over:
  assumes "fw_read_request w = \<lparr> rr_space = space, rr_slave_address = slave, rr_address = a, rr_size = s \<rparr>"
    and "memories_ok w" and "memory_at space slave w = Some m" and "length m < unat a + unat s"
    and "slave = EXTENSION_I2C_ADDR \<Longrightarrow> \<not> encryption_enabled w"
    and "space = ADDRESS_SPACE_EEPROM \<longrightarrow> k = 0"
    and "k = 0 \<or> unat a + 16 * k \<le> length m"
    and "space \<noteq> ADDRESS_SPACE_EEPROM \<longrightarrow> length m < unat a + 16 * k + 16"
  shows "\<exists>rs w'. read_replies E (Suc k) w = Inr (rs @ [(if space = ADDRESS_SPACE_EEPROM then 8 else 7,
           16, a + of_nat (16 * k), replicate 16 0)], w') \<and>
    length rs = k \<and>
    list_all (\<lambda>(error, n, address, data). error = ERROR_CODE_SUCCESS \<and> n = 16) rs \<and>
    concat (map (\<lambda>(error, n, address, data). take n data) rs) = take (16 * k) (drop (unat a) m) \<and>
    rr_size (fw_read_request w') = 0 \<and> w' = w \<lparr> fw_read_request := fw_read_request w' \<rparr>"
  using assms
proof (induction k arbitrary: w a s)
  case 0
  have "read_reply E w = Inr ((if space = ADDRESS_SPACE_EEPROM then 8 else 7, 16, a, replicate 16 0),
      w \<lparr> fw_read_request := \<lparr> rr_space = space, rr_slave_address = slave, rr_address = a, rr_size = 0 \<rparr> \<rparr>)"
    using "0.prems"(3)
    by (intro read_reply_refused [OF "0.prems"(1)]; cases rule: memory_at_cases)
       (use "0.prems"(2,4,8) in \<open>auto simp: memories_ok_def ext_inv_def ir_inv_def eeprom_inv_def
          slaves_differ sizeof_extension_registers_def\<close>)
  then show ?case by simp
next
  case (Suc k)
  define w1 where "w1 = w \<lparr> fw_read_request := \<lparr> rr_space = space, rr_slave_address = slave,
    rr_address = a + 16, rr_size = s - 16 \<rparr> \<rparr>"
  have sp: "space \<noteq> ADDRESS_SPACE_EEPROM" and fits: "unat a + 16 * Suc k \<le> length m"
    using Suc.prems(6,7) by auto
  then have n: "min 16 (unat s) = 16" using Suc.prems(4) by simp
  have "length m \<le> 0x1700" using memory_at_length Suc.prems(2,3) by blast
  then have a': "unat (a + 16) = unat a + 16" using fits by (simp add: unat_word_ariths)
  have s': "unat (s - 16) = unat s - 16" using n by (simp add: unat_sub word_le_nat_alt)
  have fits1: "unat a + (if space = ADDRESS_SPACE_EEPROM then unat s else min 16 (unat s)) \<le> length m"
    using sp fits n by simp
  obtain data where r: "read_reply E w = Inr ((ERROR_CODE_SUCCESS, 16, a, data), w1)"
    and d: "take 16 data = take 16 (drop (unat a) m)"
    using read_reply_in_range [OF Suc.prems(1-3) fits1 Suc.prems(5), of E]
    unfolding n w1_def by auto
  have w1: "fw_read_request w1 = \<lparr> rr_space = space, rr_slave_address = slave,
      rr_address = a + 16, rr_size = s - 16 \<rparr>" "memories_ok w1"
    "memory_at space slave w1 = Some m" "slave = EXTENSION_I2C_ADDR \<Longrightarrow> \<not> encryption_enabled w1"
    using Suc.prems(2,3,5) by (simp_all add: w1_def memories_ok_def ir_inv_def ext_inv_def
        eeprom_inv_def encryption_enabled_def memory_at_frame)
  obtain rs w' where rest: "read_replies E (Suc k) w1 = Inr (rs @ [(7, 16, a + 16 + of_nat (16 * k), replicate 16 0)], w')"
    "length rs = k" "list_all (\<lambda>(error, n, address, data). error = ERROR_CODE_SUCCESS \<and> n = 16) rs"
    "concat (map (\<lambda>(error, n, address, data). take n data) rs) = take (16 * k) (drop (unat (a + 16)) m)"
    "rr_size (fw_read_request w') = 0" "w' = w1 \<lparr> fw_read_request := fw_read_request w' \<rparr>"
    using Suc.IH [OF w1(1-3) _ w1(4)] Suc.prems(4,8) sp fits a' s' n by auto
  have "take (16 * Suc k) (drop (unat a) m) =
      take 16 (drop (unat a) m) @ take (16 * k) (drop (unat (a + 16)) m)"
    using take_add [of 16 "16 * k" "drop (unat a) m"] by (simp add: a' add.commute)
  moreover have "w' = w \<lparr> fw_read_request := fw_read_request w' \<rparr>"
    using rest(6) by (simp add: w1_def)
  moreover have "a + 16 + of_nat (16 * k) = a + of_nat (16 * Suc k)" by (simp add: algebra_simps)
  ultimately show ?case
    using r rest d sp
    by (intro exI [of _ "(ERROR_CODE_SUCCESS, 16, a, data) # rs"] exI [of _ w'])
       (simp del: read_replies.simps(2) add: read_replies.simps(2) [of E "Suc k"])
qed

text \<open>C23: A read that runs over the end of a memory: of the camera registers and of the unencrypted
  extension registers the host first gets a successful reply for every whole block of sixteen
  bytes that lies inside, then one reply with error 7 and zeros; of the EEPROM, whose range is
  checked as a whole, it gets at once the one reply with error 8 and zeros.  The error reply
  announces sixteen bytes and ends the request: its remaining size is zero.\<close>

lemma read_request_refused:
  assumes "fw_read_request w = \<lparr> rr_space = space, rr_slave_address = slave, rr_address = a, rr_size = s \<rparr>"
    and "memories_ok w" and "memory_at space slave w = Some m" and "length m < unat a + unat s"
    and "slave = EXTENSION_I2C_ADDR \<Longrightarrow> \<not> encryption_enabled w"
  defines "k \<equiv> if space = ADDRESS_SPACE_EEPROM then 0 else (length m - unat a) div 16"
  shows "\<exists>rs w'. read_replies E (Suc k) w = Inr (rs @ [(if space = ADDRESS_SPACE_EEPROM then 8 else 7,
           16, a + of_nat (16 * k), replicate 16 0)], w') \<and>
    length rs = k \<and>
    list_all (\<lambda>(error, n, address, data). error = ERROR_CODE_SUCCESS \<and> n = 16) rs \<and>
    concat (map (\<lambda>(error, n, address, data). take n data) rs) = take (16 * k) (drop (unat a) m) \<and>
    rr_size (fw_read_request w') = 0 \<and> w' = w \<lparr> fw_read_request := fw_read_request w' \<rparr>"
proof -
  define kk where "kk = (if space = ADDRESS_SPACE_EEPROM then 0 else (length m - unat a) div 16)"
  have "16 * ((length m - unat a) div 16) \<le> length m - unat a"
    "length m - unat a < 16 * ((length m - unat a) div 16) + 16" by simp_all
  then have "kk = 0 \<or> unat a + 16 * kk \<le> length m" "space \<noteq> ADDRESS_SPACE_EEPROM \<longrightarrow> length m < unat a + 16 * kk + 16"
    by (auto simp: kk_def)
  then show ?thesis
    unfolding k_def kk_def [symmetric]
    by (intro read_replies_over [OF assms(1-5)]) (simp_all add: kk_def)
qed

text \<open>A read of 40 bytes that starts 31 bytes before the end of the camera registers.\<close>

lemma read_request_refused_witness:
  "\<exists>rs w'. read_replies sample_ext 2 (sample_request 1 0x58 0xE1 40) =
     Inr (rs @ [(7, 16, 0xF1, replicate 16 0)], w') \<and> length rs = 1"
proof -
  have r: "fw_read_request (sample_request 1 0x58 0xE1 40) =
      \<lparr> rr_space = 1, rr_slave_address = 0x58, rr_address = 0xE1, rr_size = 40 \<rparr>"
    and m: "memory_at 1 0x58 (sample_request 1 0x58 0xE1 40) = Some (ir_regs sample_wiimote)"
    by (simp_all add: sample_request_def memory_at_def c_consts)
  have l: "length (ir_regs sample_wiimote) = sizeof_ir_camera_registers"
    using sample_memories(1) by (simp add: memories_ok_def ir_inv_def)
  have e: "(0x58 :: u8) \<noteq> EXTENSION_I2C_ADDR" by (simp add: c_consts)
  have b: "length (ir_regs sample_wiimote) < unat (0xE1 :: u16) + unat (40 :: u16)"
    by (simp add: l sizeof_ir_camera_registers_def)
  have k: "(length (ir_regs sample_wiimote) - unat (0xE1 :: u16)) div 16 = 1"
    by (simp add: l sizeof_ir_camera_registers_def)
  have s: "(2 :: nat) = Suc 1" "(1 :: u8) \<noteq> ADDRESS_SPACE_EEPROM" "(0xE1 :: u16) + of_nat (16 * 1) = 0xF1"
    by (simp_all add: ADDRESS_SPACE_EEPROM_def)
  show ?thesis
    using read_request_refused [OF r sample_memories(2) m b notE [OF e], of sample_ext]
    unfolding if_not_P [OF s(2)] k s(1,3) by blast
qed

section \<open>Write requests\<close>

text \<open>C22: A write request of one to sixteen bytes inside a memory is acknowledged with success and
  stores exactly its data; a write to the key registers makes the next read use the new key.\<close>

lemma write_request_stored:
  assumes "heap_spec E" and "memories_ok w" and "data \<noteq> []" and "length data \<le> 16"
    and "memory_at (data_space flags) (data_slave_address slave) w = Some m"
    and "unat (mk16 hi lo) + length data \<le> length m"
  shows "\<exists>w'. fake_wiimote_process_write_request E
        ([flags, slave, hi, lo, of_nat (length data)] @ data @ tail) w u =
      rbind (inject_packet E Bulk_In (acl_packet (fw_con_handle w) (l2cap_frame
          (chn_remote_cid (psm_hid_intr_chn w)) ([0xA1, 0x22] @ be16 (fw_buttons w) @ [0x16, 0]))) u)
        (\<lambda>(_, u'). Inr (w', u')) \<and>
    memory_at (data_space flags) (data_slave_address slave) w' = Some (put (unat (mk16 hi lo)) data m) \<and>
    memories_ok w' \<and> fw_read_request w' = fw_read_request w \<and>
    (data_space flags \<noteq> ADDRESS_SPACE_EEPROM \<and> data_slave_address slave = EXTENSION_I2C_ADDR \<and>
       unat (mk16 hi lo) < 0x50 \<and> 0x40 < unat (mk16 hi lo) + length data \<longrightarrow> extension_key_dirty w')"
proof -
  define req where "req = [flags, slave, hi, lo, of_nat (length data)] @ data @ tail"
  define a where "a = unat (mk16 hi lo)"
  have sz: "unat (of_nat (length data) :: u8) = length data"
    using assms(4) by (simp add: unat_of_nat)
  have rd: "read_u8 req 0 = Inr flags" "read_u8 req 1 = Inr slave"
    "read_u8 req 4 = Inr (of_nat (length data))" "read_be16 req 2 = Inr (mk16 hi lo)"
    "read_bytes (drop 5 req) 0 (length data) = Inr data"
    by (simp_all add: req_def read_u8_def read_be16_def read_bytes_def)
  have nz: "(of_nat (length data) :: u8) \<noteq> 0" "\<not> (of_nat (length data) :: u8) > 16"
    using assms(3,4) sz by (auto simp: word_less_nat_alt)
  define w' where "w' =
    (if data_space flags = ADDRESS_SPACE_EEPROM then w \<lparr> eeprom := put a data (eeprom w) \<rparr>
     else if data_slave_address slave = CAMERA_I2C_ADDR then w \<lparr> ir_regs := put a data (ir_regs w) \<rparr>
     else (if a + length data > 0x40 \<and> a < 0x50 then w \<lparr> extension_key_dirty := True \<rparr> else w)
       \<lparr> extension_regs := put a data (extension_regs w) \<rparr>)"
  have eq: "write_request_data w req (length data) = Inr (ERROR_CODE_SUCCESS, w') \<and>
      memory_at (data_space flags) (data_slave_address slave) w' = Some (put a data m) \<and>
      memories_ok w' \<and> fw_read_request w' = fw_read_request w \<and> fw_con_handle w' = fw_con_handle w \<and>
      psm_hid_intr_chn w' = psm_hid_intr_chn w \<and> fw_buttons w' = fw_buttons w \<and>
      (data_space flags \<noteq> ADDRESS_SPACE_EEPROM \<and> data_slave_address slave = EXTENSION_I2C_ADDR \<and>
         a < 0x50 \<and> 0x40 < a + length data \<longrightarrow> extension_key_dirty w')"
    using assms(5)
  proof (cases rule: memory_at_cases)
    case EEPROM
    then show ?thesis using assms(2,6) rd
      by (simp add: write_request_data_def write_block_def eeprom_write_data_def a_def [symmetric]
          memories_ok_def eeprom_inv_def w'_def memory_at_def ir_inv_def ext_inv_def)
  next
    case Extension
    then show ?thesis using assms(2,6) rd
      by (auto simp: write_request_data_def write_block_def extension_write_data_def a_def [symmetric]
          memories_ok_def ext_inv_def w'_def memory_at_def ir_inv_def eeprom_inv_def slaves_differ
          ENCRYPTION_KEY_DATA_BEGIN_def ENCRYPTION_KEY_DATA_END_def ext_regs_encryption_key_data_def)
  next
    case Camera
    then show ?thesis using assms(2,6) rd
      by (auto simp: write_request_data_def write_block_def ir_camera_write_data_def a_def [symmetric]
          memories_ok_def ext_inv_def w'_def memory_at_def ir_inv_def eeprom_inv_def slaves_differ)
  qed
  have "wiimote_send_ack E OUTPUT_REPORT_ID_WRITE_DATA ERROR_CODE_SUCCESS w' u =
      inject_packet E Bulk_In (acl_packet (fw_con_handle w) (l2cap_frame
        (chn_remote_cid (psm_hid_intr_chn w)) ([0xA1, 0x22] @ be16 (fw_buttons w) @ [0x16, 0]))) u"
    using eq assms(1) by (simp add: wiimote_send_ack_def report_wire input_report_ack_def c_consts)
  then show ?thesis
    using eq nz sz rd(3) unfolding a_def req_def [symmetric]
    by (intro exI [of _ w']) (simp add: fake_wiimote_process_write_request_def)
qed

lemma write_request_stored_witness:
  "\<exists>w'. fake_wiimote_process_write_request sample_ext [4, 0xA4, 0, 0xF0, 1, 0x55] sample_wiimote
        sample_usb =
      rbind (inject_packet sample_ext Bulk_In
        [9, 0x20, 10, 0, 6, 0, 0x51, 0, 0xA1, 0x22, 0, 0, 0x16, 0] sample_usb) (\<lambda>(_, u'). Inr (w', u')) \<and>
    extension_regs w' ! 0xF0 = 0x55"
proof -
  have f: "data_space 4 = ADDRESS_SPACE_I2C_BUS" "data_slave_address 0xA4 = EXTENSION_I2C_ADDR"
    "unat (mk16 0 0xF0) = 0xF0" "ADDRESS_SPACE_I2C_BUS \<noteq> ADDRESS_SPACE_EEPROM"
    by (simp_all add: data_space_def data_slave_address_def field_def c_consts mk16_def)
  have l: "length (extension_regs sample_wiimote) = 0x100"
    using sample_memories(1) by (simp add: memories_ok_def ext_inv_def sizeof_extension_registers_def)
  have m: "memory_at (data_space 4) (data_slave_address 0xA4) sample_wiimote =
      Some (extension_regs sample_wiimote)"
    by (simp add: f memory_at_def)
  have b: "unat (mk16 0 0xF0) + length [0x55 :: u8] \<le> length (extension_regs sample_wiimote)"
    using f(3) l by simp
  have "(8201 :: u8) = 9" by simp
  then have p: "acl_packet 9 (l2cap_frame 0x51 ([0xA1, 0x22] @ be16 0 @ [0x16, 0])) =
      [9, 0x20, 10, 0, 6, 0, 0x51, 0, 0xA1, 0x22, 0, 0, 0x16, 0]"
    by (simp add: acl_packet_def l2cap_frame_def le16_def be16_def c_consts
        HCI_MK_CON_HANDLE_def HCI_PACKET_START_def HCI_POINT2POINT_def)
  have c: "chn_remote_cid (sample_channel L2CAP_PSM_HID_INTR 0x41 0x51) = 0x51"
    by (simp add: sample_channel_def)
  obtain w' where w': "fake_wiimote_process_write_request sample_ext [4, 0xA4, 0, 0xF0, 1, 0x55]
      sample_wiimote sample_usb =
      rbind (inject_packet sample_ext Bulk_In
        [9, 0x20, 10, 0, 6, 0, 0x51, 0, 0xA1, 0x22, 0, 0, 0x16, 0] sample_usb) (\<lambda>(_, u'). Inr (w', u'))"
    "memory_at (data_space 4) (data_slave_address 0xA4) w' =
      Some (put 0xF0 [0x55] (extension_regs sample_wiimote))"
    using write_request_stored [OF sample_heap_spec sample_memories(1) _ _ m b, of "[]" sample_usb]
    unfolding sample_wiimote_sel c p f(3) by auto
  then have "extension_regs w' = put 0xF0 [0x55] (extension_regs sample_wiimote)"
    using f(1,2,4) by (simp add: memory_at_def)
  then have "extension_regs w' ! 0xF0 = 0x55" using l by (simp add: nth_put)
  with w'(1) show ?thesis by blast
qed

section \<open>The EEPROM\<close>

text \<open>When a fake Wiimote is assigned to an input device its EEPROM holds both calibration blocks
  twice, each copy ending with its checksum, and the accelerometer block decodes to the values of
  zero and one g that the module reports.\<close>

lemma eeprom_calibration:
  fixes i :: nat and w :: fake_wiimote
  defines "block \<equiv> \<lambda>off n. take n (drop off (eeprom (fake_wiimote_init_state i w)))"
    and "checked \<equiv> \<lambda>bs. last bs = foldl (+) 0x55 (butlast bs)"
    and "gs \<equiv> \<lambda>bs. map (\<lambda>k. push_bit 2 (ucast (bs ! k)) OR (drop_bit (4 - 2 * k) (ucast (bs ! 3)) AND 3)) [0, 1, 2]"
  shows "checked (block 0 11) \<and> block 11 11 = block 0 11 \<and>
    checked (block 22 10) \<and> block 32 10 = block 22 10 \<and>
    gs (block 22 10) = [ACCEL_ZERO_G, ACCEL_ZERO_G, ACCEL_ZERO_G] \<and>
    gs (drop 4 (block 22 10)) = [ACCEL_ONE_G, ACCEL_ONE_G, ACCEL_ONE_G]"
proof -
  define ir where "ir = ir_calibration @ [calculate_calibration_data_checksum ir_calibration]"
  define ac where "ac = accel_calibration @ [calculate_calibration_data_checksum accel_calibration]"
  have l: "length ir = 11" "length ac = 10"
    by (simp_all add: ir_def ac_def ir_calibration_def accel_calibration_def)
  have b: "block 0 11 = ir" "block 11 11 = ir" "block 22 10 = ac" "block 32 10 = ac"
    using l by (simp_all add: block_def eeprom_init_def Let_def ir_def [symmetric] ac_def [symmetric]
        put_def c_consts)
  have c: "checked ir" "checked ac"
    by (simp_all add: checked_def ir_def ac_def calculate_calibration_data_checksum_def)
  have g: "gs ac = [ACCEL_ZERO_G, ACCEL_ZERO_G, ACCEL_ZERO_G]"
    "gs (drop 4 ac) = [ACCEL_ONE_G, ACCEL_ONE_G, ACCEL_ONE_G]"
    by (simp_all add: gs_def ac_def accel_calibration_def accel_low_bits_def ACCEL_ZERO_G_def
        ACCEL_ONE_G_def)
  show ?thesis using b c g by simp
qed

end
