(* ===== verification/Host_Reports.thy ===== *)
theory Host_Reports
  imports Host_Memory
begin

text \<open>
  What a host decodes from the input reports of a fake Wiimote: the layout of every report, the
  accelerations whose low bits share the button bytes, the positions of the two infrared dots in
  the three camera formats, and the order of events when the extension port changes.
\<close>

section \<open>The layout of a data report\<close>

lemma put_Nil [simp]: "put off [] m = m"
  by (simp add: put_def)

lemma put_parts:
  assumes "length btn = 2" and "2 + length acc + length ir + length ext \<le> length buf"
  shows "take (2 + length acc + length ir + length ext)
      (put 0 btn (put (2 + length acc + length ir) ext (put (2 + length acc) ir (put 2 acc buf)))) =
    btn @ acc @ ir @ ext"
  using assms by (simp add: put_def)

lemma report_offsets:
  "input_report_acc_size m \<noteq> 0 \<Longrightarrow> input_report_acc_offset m = 2"
  "input_report_ir_size m \<noteq> 0 \<Longrightarrow> input_report_ir_offset m = 2 + input_report_acc_size m"
  "m \<noteq> 0x3D \<Longrightarrow> input_report_ext_size m \<noteq> 0 \<Longrightarrow>
    input_report_ext_offset m = 2 + input_report_acc_size m + input_report_ir_size m"
  "report_size_of m \<le> 21" "input_report_ext_size m \<le> 21"
  "input_report_has_btn m \<longleftrightarrow> m \<noteq> 0x3D"
  by (auto simp: input_report_defs report_size_of_def c_consts split: if_splits)

lemma report_sizes:
  "input_report_acc_size m = (if m \<in> {0x31, 0x33, 0x35, 0x37} then 3 else 0)"
  "input_report_ir_size m = (if m = 0x33 then 12 else if m \<in> {0x36, 0x37} then 10 else 0)"
  "input_report_acc_size 0x3D = 0" "input_report_ir_size 0x3D = 0" "input_report_ext_size 0x3D = 21"
  "input_report_ext_offset 0x3D = 0"
  by (auto simp: input_report_defs c_consts)

definition acc_part :: "fake_wiimote \<Rightarrow> u8 list" where
  "acc_part w = [ucast (drop_bit 2 (acc_x w)), ucast (drop_bit 2 (acc_y w)), ucast (drop_bit 2 (acc_z w))]"

definition ext_part :: "'os ext \<Rightarrow> fake_wiimote \<Rightarrow> (u8 list \<times> fake_wiimote) result" where
  "ext_part E w =
     (let n = input_report_ext_size (reporting_mode w) in
      if n = 0 then Inr ([], w)
      else rbind (extension_read_data E w 0 n) (\<lambda>(r, w1). Inr (the r, w1)))"

lemma extension_read_data_prefix:
  assumes "extension_read_data E w 0 n = Inr (r, w1)" and "ext_inv w" and "n \<le> 21"
  shows "\<exists>bs. r = Some bs \<and> length bs = n"
  using assms by (auto simp: extension_read_data_def ext_inv_def c_consts Let_def result_simps
      split: if_splits)

lemma data_report_parts:
  assumes "length buf = 21" and "memories_ok w"
  defines "mode \<equiv> reporting_mode w"
  shows "build_data_report E buf w = rbind (ext_part E w) (\<lambda>(ext, w1). Inr (
      (if mode = 0x3D then [] else be16 (if mode \<in> {0x31, 0x33, 0x35, 0x37} then mix_acc_bits w
                                        else fw_buttons w)) @
      (if mode \<in> {0x31, 0x33, 0x35, 0x37} then acc_part w else []) @
      take (if mode = 0x33 then 12 else if mode \<in> {0x36, 0x37} then 10 else 0)
        (drop ir_regs_camera_data (ir_regs w)) @ ext, w1)) \<and>
    report_size_of mode \<le> 21 \<and>
    (\<forall>ext w1. ext_part E w = Inr (ext, w1) \<longrightarrow> length ext = input_report_ext_size mode)"
proof (intro conjI)
  define acc where "acc = (if input_report_acc_size mode \<noteq> 0 then acc_part w else [])"
  define ir where "ir = take (input_report_ir_size mode) (drop ir_regs_camera_data (ir_regs w))"
  define btn where "btn = be16 (if input_report_acc_size mode \<noteq> 0 then mix_acc_bits w else fw_buttons w)"
  have la: "length acc = input_report_acc_size mode"
    by (simp add: acc_def acc_part_def report_sizes(1) split: if_splits)
  have li: "length ir = input_report_ir_size mode"
    using assms(2) by (simp add: ir_def report_sizes(2) memories_ok_def ir_inv_def c_consts)
  have lb: "length btn = 2" by (simp add: btn_def)
  have az: "input_report_acc_size mode \<noteq> 0 \<longleftrightarrow> mode \<in> {0x31, 0x33, 0x35, 0x37}"
    by (simp add: report_sizes(1))
  have le: "length ext = input_report_ext_size mode" if "ext_part E w = Inr (ext, w1)" for ext w1
    using that assms(2) report_offsets(5) [of mode] extension_read_data_prefix [of E w]
    by (fastforce simp: ext_part_def Let_def result_simps memories_ok_def mode_def [symmetric]
        split: if_splits)
  then show "\<forall>ext w1. ext_part E w = Inr (ext, w1) \<longrightarrow> length ext = input_report_ext_size mode" by blast
  show "report_size_of mode \<le> 21" by (rule report_offsets)
  define d2 where "d2 = put (2 + length acc) ir (put 2 acc buf)"
  have d2: "d2 = (let d1 = (if input_report_acc_size mode \<noteq> 0
                then put (input_report_acc_offset mode) (acc_part w) buf else buf)
      in if input_report_ir_size mode \<noteq> 0 then put (input_report_ir_offset mode) ir d1 else d1)"
    using la li report_offsets(1,2) [of mode]
    by (auto simp: d2_def acc_def Let_def)
  show "build_data_report E buf w = rbind (ext_part E w) (\<lambda>(ext, w1). Inr (
      (if mode = 0x3D then [] else be16 (if mode \<in> {0x31, 0x33, 0x35, 0x37} then mix_acc_bits w
                                        else fw_buttons w)) @
      (if mode \<in> {0x31, 0x33, 0x35, 0x37} then acc_part w else []) @
      take (if mode = 0x33 then 12 else if mode \<in> {0x36, 0x37} then 10 else 0)
        (drop ir_regs_camera_data (ir_regs w)) @ ext, w1))"
    (is "_ = rbind _ ?whole")
  proof -
    define off where "off = (if mode = 0x3D then 0 else 2 + length acc + length ir)"
    define fin where "fin = (\<lambda>d3. take (report_size_of mode) (if input_report_has_btn mode then put 0 btn d3 else d3))"
    have whole: "fin (put off ext d2) = fst (projr (?whole (ext, w1)))"
      if "ext_part E w = Inr (ext, w1)" for ext w1
    proof (cases "mode = 0x3D")
      case True
      then have "length ext = 21" "length d2 = 21" "report_size_of mode = 21"
        using le [OF that] la li assms(1) report_sizes(3-5)
        by (simp_all add: d2_def report_size_of_def input_report_has_btn_def c_consts)
      then show ?thesis using True report_offsets(6) [of mode] by (simp add: fin_def off_def put_def)
    next
      case False
      then have "report_size_of mode = 2 + length acc + length ir + length ext"
        using le [OF that] la li report_offsets(6) [of mode] by (simp add: report_size_of_def)
      moreover have "2 + length acc + length ir + length ext \<le> length buf"
        using calculation report_offsets(4) [of mode] assms(1) by simp
      ultimately have "fin (put off ext d2) = btn @ acc @ ir @ ext"
        using False lb put_parts [of btn acc ir ext buf] report_offsets(6) [of mode]
        by (simp add: fin_def off_def d2_def)
      then show ?thesis using False using az by (auto simp: acc_def ir_def btn_def report_sizes(2))
    qed
    have b: "build_data_report E buf w =
        rbind (ext_part E w) (\<lambda>(ext, w1). Inr (fin (put off ext d2), w1))"
    proof (cases "input_report_ext_size mode = 0")
      case True
      then have "mode \<noteq> 0x3D" using report_sizes(5) by auto
      then show ?thesis
        using True
        by (simp add: build_data_report_def ext_part_def Let_def mode_def [symmetric] d2 fin_def
            btn_def acc_part_def ir_def)
    next
      case False
      then have o: "input_report_ext_offset mode = off"
        using report_offsets(3) [of mode] report_sizes(6) la li by (auto simp: off_def)
      have build: "build_data_report E buf w =
          rbind (extension_read_data E w 0 (input_report_ext_size mode)) (\<lambda>(r, w1).
            Inr (fin (case r of None \<Rightarrow> d2 | Some bs \<Rightarrow> put off bs d2), w1))"
        using False o
        by (cases "extension_read_data E w 0 (input_report_ext_size mode)")
          (simp_all add: build_data_report_def Let_def mode_def [symmetric] d2 fin_def btn_def
            acc_part_def ir_def split: prod.splits option.splits)
      show ?thesis
        unfolding build ext_part_def Let_def mode_def [symmetric]
        using False report_offsets(5) [of mode] assms(2)
          extension_read_data_prefix [of E w "input_report_ext_size mode"]
        by (cases "extension_read_data E w 0 (input_report_ext_size mode)")
          (fastforce simp: memories_ok_def)+
    qed
    show ?thesis
      unfolding b by (rule rbind_cong [OF refl]) (use whole in \<open>auto split: prod.splits\<close>)
  qed
qed

text \<open>C14: A data report is the concatenation of the parts its mode has, in the order buttons,
  acceleration, camera data, extension data, and is never longer than the 21 bytes a report
  holds; what the buffer of the stack held before does not show.\<close>

lemma data_report_layout:
  assumes "length buf = 21" and "memories_ok w"
  defines "mode \<equiv> reporting_mode w"
  shows "build_data_report E buf w = rbind (ext_part E w) (\<lambda>(ext, w1). Inr (
      (if mode = 0x3D then [] else be16 (if mode \<in> {0x31, 0x33, 0x35, 0x37} then mix_acc_bits w
                                        else fw_buttons w)) @
      (if mode \<in> {0x31, 0x33, 0x35, 0x37} then acc_part w else []) @
      take (if mode = 0x33 then 12 else if mode \<in> {0x36, 0x37} then 10 else 0)
        (drop ir_regs_camera_data (ir_regs w)) @ ext, w1)) \<and>
    report_size_of mode \<le> 21 \<and>
    (\<forall>ext w1. ext_part E w = Inr (ext, w1) \<longrightarrow> length ext = input_report_ext_size mode)"
  unfolding mode_def using data_report_parts [OF assms(1,2)] .

section \<open>Accelerations and infrared dots\<close>

text \<open>What a host computes from the two button bytes and the three acceleration bytes.\<close>

definition decode_acc :: "u16 \<Rightarrow> u8 list \<Rightarrow> u16 \<times> u16 \<times> u16" where
  "decode_acc btns acc =
     (push_bit 2 (ucast (acc ! 0)) OR (drop_bit 13 btns AND 3),
      push_bit 2 (ucast (acc ! 1)) OR (drop_bit 4 btns AND 2),
      push_bit 2 (ucast (acc ! 2)) OR (drop_bit 5 btns AND 2))"

lemma u16_eqI:
  fixes a b :: u16
  assumes "bit a 0 = bit b 0" "bit a 1 = bit b 1" "bit a 2 = bit b 2" "bit a 3 = bit b 3"
    "bit a 4 = bit b 4" "bit a 5 = bit b 5" "bit a 6 = bit b 6" "bit a 7 = bit b 7"
    "bit a 8 = bit b 8" "bit a 9 = bit b 9" "bit a 10 = bit b 10" "bit a 11 = bit b 11"
    "bit a 12 = bit b 12" "bit a 13 = bit b 13" "bit a 14 = bit b 14" "bit a 15 = bit b 15"
  shows "a = b"
  by (rule bit_word_eqI) (use assms in \<open>auto simp: less_16_cases\<close>)

lemma and_mask_bit: "x AND m = x \<Longrightarrow> bit x n \<Longrightarrow> bit m n"
  by (metis bit_and_iff)

lemma and_zero_bit: "x AND m = 0 \<Longrightarrow> bit m n \<Longrightarrow> \<not> bit x n"
  by (metis bit_0_eq bit_and_iff bot_apply bot_bool_def)

lemma bits_below_10:
  assumes "(x :: u16) AND 0x3FF = x"
  shows "\<not> bit x 10" "\<not> bit x 11" "\<not> bit x 12" "\<not> bit x 13" "\<not> bit x 14" "\<not> bit x 15"
  using and_mask_bit [OF assms] by (auto simp: bit_numeral_rec dest!: and_mask_bit [OF assms])

lemma mixed_acceleration:
  assumes "acc_x w AND 0x3FF = acc_x w" and "acc_y w AND 0x3FF = acc_y w" and "acc_z w AND 0x3FF = acc_z w"
    and "fw_buttons w AND 0x6060 = 0"
  shows "decode_acc (mix_acc_bits w) (acc_part w) =
      (acc_x w, acc_y w AND NOT 1, acc_z w AND NOT 1) \<and>
    mix_acc_bits w AND NOT 0x6060 = fw_buttons w"
proof (intro conjI)
  have b: "\<not> bit (fw_buttons w) 5" "\<not> bit (fw_buttons w) 6" "\<not> bit (fw_buttons w) 13"
    "\<not> bit (fw_buttons w) 14"
    by (rule and_zero_bit [OF assms(4)], simp)+
  note x = bits_below_10 [OF assms(1)] and y = bits_below_10 [OF assms(2)]
    and z = bits_below_10 [OF assms(3)]
  have dx: "push_bit 2 (ucast (ucast (drop_bit 2 (acc_x w)) :: u8)) OR (drop_bit 13 (mix_acc_bits w) AND 3) =
      acc_x w"
    unfolding mix_acc_bits_def using b x y z
    by (intro u16_eqI; simp add: bit_simps)
  have dy: "push_bit 2 (ucast (ucast (drop_bit 2 (acc_y w)) :: u8)) OR (drop_bit 4 (mix_acc_bits w) AND 2) =
      acc_y w AND NOT 1"
    unfolding mix_acc_bits_def using b x y z
    by (intro u16_eqI; simp add: bit_simps)
  have dz: "push_bit 2 (ucast (ucast (drop_bit 2 (acc_z w)) :: u8)) OR (drop_bit 5 (mix_acc_bits w) AND 2) =
      acc_z w AND NOT 1"
    unfolding mix_acc_bits_def using b x y z
    by (intro u16_eqI; simp add: bit_simps)
  show "decode_acc (mix_acc_bits w) (acc_part w) =
      (acc_x w, acc_y w AND NOT 1, acc_z w AND NOT 1)"
    using dx dy dz by (simp add: decode_acc_def acc_part_def)
  show "mix_acc_bits w AND NOT 0x6060 = fw_buttons w"
    unfolding mix_acc_bits_def using b
    by (intro u16_eqI; simp add: bit_simps)
qed

text \<open>A report with accelerations starts with the mixed buttons and the high bits.\<close>

lemma acceleration_report:
  assumes "reporting_mode w \<in> {0x31, 0x33, 0x35, 0x37}" and "length buf = 21"
    and "memories_ok w" and "build_data_report E buf w = Inr (data, w1)"
  shows "take 5 data = be16 (mix_acc_bits w) @ acc_part w"
proof -
  note parts = conjunct1 [OF data_report_parts [OF assms(2,3), of E]]
  obtain tail where "data = be16 (mix_acc_bits w) @ acc_part w @ tail"
    using assms(4) [unfolded parts] assms(1) by (cases "ext_part E w") auto
  then show ?thesis by (simp add: acc_part_def be16_def)
qed

text \<open>C25: From the first five bytes of a report with accelerations (the modes 0x31, 0x33, 0x35 and
  0x37) the host decodes all ten bits of the x value of the last sample, the y and z values
  without their lowest bit, which is not sent, and the buttons, provided the button word has
  none of the four bits shared with the accelerations, as no button of a Wiimote does.\<close>

lemma acceleration_decoded:
  assumes "reporting_mode w \<in> {0x31, 0x33, 0x35, 0x37}" and "length buf = 21" and "memories_ok w"
    and "fw_buttons w AND 0x6060 = 0"
    and "build_data_report E buf (fake_wiimote_report_accelerometer ax ay az w) = Inr (data, w1)"
  shows "decode_acc (mk16 (data ! 0) (data ! 1)) (take 3 (drop 2 data)) =
      (ax AND 0x3FF, ay AND 0x3FE, az AND 0x3FE) \<and>
    mk16 (data ! 0) (data ! 1) AND NOT 0x6060 = fw_buttons w"
proof -
  define v where "v = fake_wiimote_report_accelerometer ax ay az w"
  have v: "reporting_mode v \<in> {0x31, 0x33, 0x35, 0x37}" "memories_ok v" "fw_buttons v = fw_buttons w"
    "acc_x v = ax AND 0x3FF" "acc_y v = ay AND 0x3FF" "acc_z v = az AND 0x3FF"
    using assms(1,3) by (simp_all add: v_def fake_wiimote_report_accelerometer_def memories_ok_def
        ir_inv_def ext_inv_def eeprom_inv_def)
  have "take 5 data = be16 (mix_acc_bits v) @ acc_part v"
    using acceleration_report [OF v(1) assms(2) v(2)] assms(5) by (simp add: v_def)
  then obtain tail where d: "data = be16 (mix_acc_bits v) @ acc_part v @ tail"
    by (metis append_assoc append_take_drop_id)
  have m: "mk16 (data ! 0) (data ! 1) = mix_acc_bits v"
    by (simp add: d be16_def)
  have t: "take 3 (drop 2 data) = acc_part v"
    by (simp add: d be16_def acc_part_def)
  have e: "(x AND 0x3FF) AND NOT 1 = x AND 0x3FE" for x :: u16
    by (simp add: and.assoc)
  show ?thesis
    unfolding m t using mixed_acceleration [of v] assms(4) v e by (simp add: and.assoc)
qed

definition sample_moving :: fake_wiimote where
  "sample_moving = sample_wiimote \<lparr> reporting_mode := 0x31, fw_buttons := 0x8 \<rparr>"

lemma acceleration_decoded_witness:
  "\<exists>data w1. build_data_report sample_ext (replicate 21 0xAA)
        (fake_wiimote_report_accelerometer 0x201 0x203 0xE68 sample_moving) = Inr (data, w1) \<and>
      decode_acc (mk16 (data ! 0) (data ! 1)) (take 3 (drop 2 data)) = (0x201, 0x202, 0x268) \<and>
      mk16 (data ! 0) (data ! 1) AND NOT 0x6060 = 0x8"
proof -
  have m: "reporting_mode sample_moving \<in> {0x31, 0x33, 0x35, 0x37}" "memories_ok sample_moving"
    "fw_buttons sample_moving AND 0x6060 = 0" "fw_buttons sample_moving = 8"
    using sample_memories(1)
    by (simp_all add: sample_moving_def memories_ok_def ir_inv_def ext_inv_def eeprom_inv_def)
  have x: "input_report_ext_size 0x31 = 0" by (simp add: input_report_defs c_consts)
  obtain data w1 where b: "build_data_report sample_ext (replicate 21 0xAA)
        (fake_wiimote_report_accelerometer 0x201 0x203 0xE68 sample_moving) = Inr (data, w1)"
    by (simp add: build_data_report_def Let_def sample_moving_def fake_wiimote_report_accelerometer_def x)
  show ?thesis
    using acceleration_decoded [OF m(1) _ m(2,3) b] m(4) b by auto
qed

text \<open>The positions a host reads from the camera data, per format.\<close>

definition decode_pair :: "u8 \<Rightarrow> u8 \<Rightarrow> u8 \<Rightarrow> u8 \<Rightarrow> ir_dot" where
  "decode_pair x y xh yh = (ucast x OR push_bit 8 (ucast (xh AND 3)), ucast y OR push_bit 8 (ucast (yh AND 3)))"

definition decode_dots :: "u8 \<Rightarrow> u8 list \<Rightarrow> ir_dot list" where
  "decode_dots mode d =
     (if mode = IR_MODE_BASIC then
        [decode_pair (d ! 0) (d ! 1) (drop_bit 4 (d ! 2)) (drop_bit 6 (d ! 2)),
         decode_pair (d ! 3) (d ! 4) (d ! 2) (drop_bit 2 (d ! 2))]
      else
        let k = (if mode = IR_MODE_EXTENDED then 3 else 9) in
        [decode_pair (d ! 0) (d ! 1) (drop_bit 4 (d ! 2)) (drop_bit 6 (d ! 2)),
         decode_pair (d ! k) (d ! (k + 1)) (drop_bit 4 (d ! (k + 2))) (drop_bit 6 (d ! (k + 2)))])"

lemma dot_high_decode:
  assumes "x AND 0x3FF = x" and "y AND 0x3FF = y"
  shows "decode_pair (ucast x) (ucast y) (drop_bit 4 (dot_high (x, y))) (drop_bit 6 (dot_high (x, y))) = (x, y)"
  using bits_below_10 [OF assms(1)] bits_below_10 [OF assms(2)]
  unfolding decode_pair_def dot_high_def IR_DOT_SIZE_def prod.inject fst_conv snd_conv
  by (intro conjI u16_eqI; simp add: bit_simps)

lemma ir_basic_decode:
  assumes "x0 AND 0x3FF = x0" "y0 AND 0x3FF = y0" "x1 AND 0x3FF = x1" "y1 AND 0x3FF = y1"
  defines "m \<equiv> ir_basic (x0, y0) (x1, y1) ! 2"
  shows "decode_pair (ucast x0) (ucast y0) (drop_bit 4 m) (drop_bit 6 m) = (x0, y0)"
    and "decode_pair (ucast x1) (ucast y1) m (drop_bit 2 m) = (x1, y1)"
proof -
  have m: "m = ucast (push_bit 6 (drop_bit 8 y0 AND 3) OR push_bit 4 (drop_bit 8 x0 AND 3) OR
      push_bit 2 (drop_bit 8 y1 AND 3) OR (drop_bit 8 x1 AND 3))"
    by (simp add: m_def ir_basic_def)
  note z = bits_below_10 [OF assms(1)] bits_below_10 [OF assms(2)]
    bits_below_10 [OF assms(3)] bits_below_10 [OF assms(4)]
  show "decode_pair (ucast x0) (ucast y0) (drop_bit 4 m) (drop_bit 6 m) = (x0, y0)"
    and "decode_pair (ucast x1) (ucast y1) m (drop_bit 2 m) = (x1, y1)"
    using z unfolding decode_pair_def prod.inject m by (intro conjI u16_eqI; simp add: bit_simps)+
qed

text \<open>C24: In each of the three camera formats the host decodes from the camera registers the two dots
  the module reported, and the remaining dots read as absent.\<close>

lemma ir_dots_decoded:
  assumes "ir_inv w" and "fst d0 AND 0x3FF = fst d0" and "snd d0 AND 0x3FF = snd d0"
    and "fst d1 AND 0x3FF = fst d1" and "snd d1 AND 0x3FF = snd d1"
    and "ir_regs w ! ir_regs_mode \<in> {IR_MODE_BASIC, IR_MODE_EXTENDED, IR_MODE_FULL}"
  defines "mode \<equiv> ir_regs w ! ir_regs_mode"
    and "data \<equiv> drop ir_regs_camera_data (ir_regs (fake_wiimote_report_ir_dots [d0, d1] w))"
  shows "decode_dots mode data = [d0, d1] \<and>
    (mode = IR_MODE_BASIC \<longrightarrow> take 5 (drop 5 data) = replicate 5 0xFF) \<and>
    (mode = IR_MODE_EXTENDED \<longrightarrow> take 6 (drop 6 data) = [0xFF, 0xFF, 0xF0, 0xFF, 0xFF, 0xF0]) \<and>
    (mode = IR_MODE_FULL \<longrightarrow> take 18 (drop 18 data) = replicate 18 0xFF)"
proof -
  define bs where "bs = (if mode = IR_MODE_BASIC then ir_basic d0 d1
    else if mode = IR_MODE_EXTENDED then ir_extended d0 d1 else ir_full d0 d1)"
  have l: "length bs \<le> 36" by (simp add: bs_def ir_basic_def ir_extended_def ir_full_def)
  have "ir_regs (fake_wiimote_report_ir_dots [d0, d1] w) = put ir_regs_camera_data bs (ir_regs w)"
    using assms(6) by (auto simp: fake_wiimote_report_ir_dots_def Let_def bs_def mode_def c_consts)
  moreover have "length (ir_regs w) \<ge> ir_regs_camera_data + 36"
    using assms(1) by (simp add: ir_inv_def c_consts)
  ultimately obtain rest where data: "data = bs @ rest"
    by (auto simp: data_def put_def)
  obtain x0 y0 where d0: "d0 = (x0, y0)" by fastforce
  obtain x1 y1 where d1: "d1 = (x1, y1)" by fastforce
  consider "mode = IR_MODE_BASIC" | "mode = IR_MODE_EXTENDED" | "mode = IR_MODE_FULL"
    using assms(6) by (auto simp: mode_def)
  then show ?thesis
  proof cases
    case 1
    define m where "m = ir_basic (x0, y0) (x1, y1) ! 2"
    have b: "bs = [ucast x0, ucast y0, m, ucast x1, ucast y1, 0xFF, 0xFF, 0xFF, 0xFF, 0xFF]"
      using 1 by (simp add: bs_def d0 d1 ir_basic_def m_def)
    have "data ! 0 = ucast x0" "data ! 1 = ucast y0" "data ! 2 = m" "data ! 3 = ucast x1"
      "data ! 4 = ucast y1" "take 5 (drop 5 data) = replicate 5 0xFF"
      by (simp_all add: data b nth_append numeral_eq_Suc)
    then show ?thesis using 1 ir_basic_decode [of x0 y0 x1 y1] assms(2-5)
      by (simp add: decode_dots_def d0 d1 c_consts m_def)
  next
    case 2
    then have "bs = ir_extended d0 d1" by (simp add: bs_def c_consts)
    then show ?thesis using 2 dot_high_decode [of x0 y0] dot_high_decode [of x1 y1] assms(2-5)
      by (simp add: decode_dots_def data d0 d1 ir_extended_def nth_append c_consts Let_def)
  next
    case 3
    then have "bs = ir_full d0 d1" by (simp add: bs_def c_consts)
    then show ?thesis using 3 dot_high_decode [of x0 y0] dot_high_decode [of x1 y1] assms(2-5)
      by (simp add: decode_dots_def data d0 d1 ir_full_def nth_append c_consts Let_def)
  qed
qed

definition sample_camera :: fake_wiimote where
  "sample_camera = sample_wiimote \<lparr> ir_regs := put ir_regs_mode [IR_MODE_EXTENDED] (ir_regs sample_wiimote) \<rparr>"

lemma ir_dots_decoded_witness:
  "decode_dots IR_MODE_EXTENDED (drop ir_regs_camera_data (ir_regs
     (fake_wiimote_report_ir_dots [(0x123, 0x2FF), (0x3FF, 7)] sample_camera))) =
   [(0x123, 0x2FF), (0x3FF, 7)]"
proof -
  have m: "ir_regs sample_camera ! ir_regs_mode = IR_MODE_EXTENDED"
    by (simp add: sample_camera_def nth_put c_consts)
  have i: "ir_inv sample_camera"
    by (simp add: sample_camera_def ir_inv_def c_consts)
  show ?thesis
    using ir_dots_decoded [OF i, of "(0x123, 0x2FF)" "(0x3FF, 7)"] m by simp
qed

section \<open>The extension port\<close>

text \<open>The identifier the host reads from an extension.\<close>

definition host_identifier :: "fake_wiimote \<Rightarrow> u8 list" where
  "host_identifier w = take 6 (drop ext_regs_identifier (extension_regs w))"

lemma length_formats [simp]:
  "length (bm_nunchuk_format b xs p q r) = 6" "length (bm_classic_format c ys) = 6"
  by (simp_all add: bm_nunchuk_format_def bm_classic_format_def Let_def)

lemma length_id_code: "ext_id_code e = Some c \<Longrightarrow> length c = 6"
  by (cases e) (auto simp: ext_id_code_def c_consts)

lemma reset_extension_identifier:
  "host_identifier (fake_wiimote_reset_extension_state w) =
    (case ext_id_code (cur_extension w) of None \<Rightarrow> replicate 6 0 | Some c \<Rightarrow> c)"
  "ext_inv (fake_wiimote_reset_extension_state w)"
proof -
  define regs1 where "regs1 = (case ext_id_code (cur_extension w) of
      None \<Rightarrow> replicate sizeof_extension_registers 0
    | Some c \<Rightarrow> put ext_regs_identifier c (replicate sizeof_extension_registers 0))"
  obtain data where regs: "extension_regs (fake_wiimote_reset_extension_state w) = put 0 data regs1"
    and d: "length data \<le> 6"
    by (rule that [of "if cur_extension w = WIIMOTE_EXT_NUNCHUK
          then bm_nunchuk_format 0 (replicate BM_NUNCHUK_ANALOG_AXIS__NUM 0x80) 0 0 0
          else if cur_extension w = WIIMOTE_EXT_CLASSIC
          then bm_classic_format 0 (replicate BM_CLASSIC_ANALOG_AXIS__NUM 0x80) else []"])
       (auto simp: fake_wiimote_reset_extension_state_def Let_def regs1_def ext_regs_controller_data_def)
  have l: "length regs1 = 0x100"
    using length_id_code [of "cur_extension w"]
    by (auto simp: regs1_def c_consts split: option.splits)
  have t: "take 6 (drop 0xFA regs1) = (case ext_id_code (cur_extension w) of None \<Rightarrow> replicate 6 0 | Some c \<Rightarrow> c)"
    using length_id_code [of "cur_extension w"]
    by (auto simp: regs1_def wiimote_layout put_def split: option.splits)
  have "drop 0xFA (put 0 data regs1) = drop 0xFA regs1" using d l by (simp add: put_def)
  then show "host_identifier (fake_wiimote_reset_extension_state w) =
      (case ext_id_code (cur_extension w) of None \<Rightarrow> replicate 6 0 | Some c \<Rightarrow> c)"
    using t by (simp add: host_identifier_def regs ext_regs_identifier_def)
  show "ext_inv (fake_wiimote_reset_extension_state w)"
    using d l by (simp add: ext_inv_def regs sizeof_extension_registers_def)
qed

text \<open>C13: When the extension to present differs from the one attached, the host gets one status report
  per change and no data until it sets a reporting mode again: an attached extension is first
  detached, the new one is attached by the next change, so that two changes settle the port, and
  the host reads the identifier of what is attached.\<close>

lemma extension_port_settles:
  assumes "heap_spec E" and "new_extension w \<noteq> cur_extension w"
  defines "w1 \<equiv> extension_change w"
  shows "fake_wiimote_process_extension_change E w u =
      rbind (wiimote_send_report E 0x20 (input_report_status (fw_buttons w) (status_leds w) (status_ir w)
          False (cur_extension w1 \<noteq> WIIMOTE_EXT_NONE) False (stack_bytes E 2 (os_state u)) 0xFF) w u)
        (\<lambda>(_, u'). Inr (True, w1, u')) \<and>
    reporting_mode w1 = 0 \<and> new_extension w1 = new_extension w \<and>
    (cur_extension w \<noteq> WIIMOTE_EXT_NONE \<longrightarrow> cur_extension w1 = WIIMOTE_EXT_NONE) \<and>
    (cur_extension w1 = new_extension w \<or> cur_extension (extension_change w1) = new_extension w) \<and>
    (\<forall>u. cur_extension w1 = new_extension w \<longrightarrow>
       fake_wiimote_process_extension_change E w1 u = Inr (False, w1, u)) \<and>
    host_identifier w1 = (case ext_id_code (cur_extension w1) of None \<Rightarrow> replicate 6 0 | Some c \<Rightarrow> c)"
proof -
  have sel: "cur_extension w1 = (if cur_extension w = WIIMOTE_EXT_NONE then new_extension w else WIIMOTE_EXT_NONE)"
    "new_extension w1 = new_extension w" "reporting_mode w1 = 0" "fw_buttons w1 = fw_buttons w"
    "status_leds w1 = status_leds w" "status_ir w1 = status_ir w" "fw_con_handle w1 = fw_con_handle w"
    "psm_hid_intr_chn w1 = psm_hid_intr_chn w"
    by (simp_all add: w1_def extension_change_def fake_wiimote_reset_extension_state_def Let_def
        INPUT_REPORT_ID_REPORT_DISABLED_def)
  have c2: "cur_extension (extension_change w1) = new_extension w" if "cur_extension w1 = WIIMOTE_EXT_NONE"
    using that sel(2) by (simp add: extension_change_def fake_wiimote_reset_extension_state_def Let_def)
  have i: "host_identifier w1 = (case ext_id_code (cur_extension w1) of None \<Rightarrow> replicate 6 0 | Some c \<Rightarrow> c)"
    unfolding w1_def extension_change_def reset_extension_identifier
    by (simp add: fake_wiimote_reset_extension_state_def Let_def)
  show ?thesis
    using assms(2) sel c2 i
    by (auto simp: fake_wiimote_process_extension_change_def Let_def w1_def [symmetric]
        wiimote_send_input_report_status_def wiimote_send_report_def INPUT_REPORT_ID_STATUS_def)
qed

definition sample_switched :: fake_wiimote where
  "sample_switched = sample_wiimote \<lparr> cur_extension := WIIMOTE_EXT_NUNCHUK, new_extension := WIIMOTE_EXT_CLASSIC \<rparr>"

lemma extension_port_settles_witness:
  "cur_extension (extension_change sample_switched) = WIIMOTE_EXT_NONE \<and>
   cur_extension (extension_change (extension_change sample_switched)) = WIIMOTE_EXT_CLASSIC \<and>
   host_identifier (extension_change sample_switched) = replicate 6 0"
proof -
  have s: "cur_extension sample_switched = WIIMOTE_EXT_NUNCHUK"
    "new_extension sample_switched = WIIMOTE_EXT_CLASSIC"
    by (simp_all add: sample_switched_def)
  then show ?thesis
    using extension_port_settles [OF sample_heap_spec, of sample_switched sample_usb]
    by (auto simp: ext_id_code_def)
qed

lemma data_report_layout_witness:
  "build_data_report sample_ext (replicate 21 0x77) sample_camera = Inr ([0, 0], sample_camera)"
proof -
  have "memories_ok sample_camera" "ext_part sample_ext sample_camera = Inr ([], sample_camera)"
    "reporting_mode sample_camera = 0x30" "fw_buttons sample_camera = 0"
    using sample_memories(1)
    by (simp_all add: sample_camera_def memories_ok_def ir_inv_def ext_inv_def eeprom_inv_def ext_part_def
        input_report_defs c_consts)
  then show ?thesis
    using data_report_layout [of "replicate 21 0x77" sample_camera sample_ext] by (simp add: be16_def)
qed

end
