(* ===== verification/Tick_Progress.thy ===== *)
theory Tick_Progress
  imports Well_Formed Host_Reports
begin

text \<open>
  The timer tick never faults: in a state reached by tame steps, with the reads of the host large enough for
  the packets of the module and no illegal key in an extension, every step of the tick finds what
  it dereferences, stays inside the memories and passes its assertions.
\<close>

section \<open>Injection\<close>

text \<open>Every read that waits has room for a packet of \<open>n\<close> bytes.\<close>

definition reads_fit :: "('os \<Rightarrow> int \<Rightarrow> ptr list) \<Rightarrow> nat \<Rightarrow> 'os usb \<Rightarrow> bool" where
  "reads_fit contents n u \<longleftrightarrow> distinct (queue_ids u) \<and>
     (\<forall>ep. \<forall>p \<in> set (contents (os_state u) (pending_queue ep u)).
        \<exists>m. ipc_store u p = Some m \<and> read_room m n)"

lemma pending_queue_ids: "queue_ids u' = queue_ids u \<Longrightarrow> pending_queue ep u' = pending_queue ep u"
  by (cases ep) (simp_all add: queue_ids_def)

lemma reads_fit_mono:
  assumes fit: "reads_fit contents n u" and ids: "queue_ids u' = queue_ids u"
    and kept: "\<And>p m. ipc_store u p = Some m \<Longrightarrow> read_room m n \<Longrightarrow>
      \<exists>m'. ipc_store u' p = Some m' \<and> read_room m' n"
    and fewer: "\<And>ep. set (contents (os_state u') (pending_queue ep u)) \<subseteq> set (contents (os_state u) (pending_queue ep u))"
  shows "reads_fit contents n u'"
  unfolding reads_fit_def pending_queue_ids [OF ids] ids
proof (intro conjI allI ballI)
  show "distinct (queue_ids u)" using fit by (simp add: reads_fit_def)
  fix ep p
  assume "p \<in> set (contents (os_state u') (pending_queue ep u))"
  then obtain m where "ipc_store u p = Some m" "read_room m n"
    using fit fewer unfolding reads_fit_def by blast
  then show "\<exists>m. ipc_store u' p = Some m \<and> read_room m n" by (rule kept)
qed

lemma reads_fit_frame:
  assumes "reads_fit contents n u" and "queue_ids u' = queue_ids u" and "ipc_store u' = ipc_store u"
    and "contents (os_state u') = contents (os_state u)"
  shows "reads_fit contents n u'"
  using assms(1,2) by (rule reads_fit_mono) (simp_all add: assms(3,4))

lemma read_room_filled: "read_room m k \<Longrightarrow> length d \<le> k \<Longrightarrow> read_room (filled_read m d) k"
  by (auto simp: read_room_def filled_read_def Let_def)

lemma inject_packet_runs:
  assumes spec: "queue_spec E contents cap" "heap_spec E" and fit: "reads_fit contents n u"
    and len: "length pkt \<le> n" "length pkt < 65536"
  shows "runs {} (inject_packet E ep pkt u) (\<lambda>(r, u'). reads_fit contents n u')"
proof -
  obtain r u1 where al: "injmessage_alloc E (of_nat (length pkt)) u = (r, u1)" by (metis surj_pair)
  note frame = injmessage_alloc_frame [OF spec(1) al]
  have ids1: "queue_ids u1 = queue_ids u" and fit1: "reads_fit contents n u1"
    using reads_fit_frame [OF fit, of u1] frame by (simp_all add: queue_ids_def)
  show ?thesis
  proof (cases r)
    case None
    then show ?thesis using al fit1 by (simp add: inject_packet_def)
  next
    case (Some q)
    define u2 where "u2 = u1 \<lparr> inj_store := (inj_store u1)(q \<mapsto> \<lparr> inj_size = of_nat (length pkt), inj_data = pkt \<rparr>) \<rparr>"
    let ?pq = "pending_queue ep u2" and ?rq = "ready_queue ep u2"
    have fit2: "reads_fit contents n u2"
      using fit1 by (rule reads_fit_frame) (simp_all add: u2_def queue_ids_def)
    have q: "is_message_injected E q" using alloc_injected [OF spec(2)] al Some by blast
    have i: "inject_packet E ep pkt u = handle_bulk_intr_ready_message E q ?pq ?rq u2"
      using inject_packet_alloc [OF al [unfolded Some], of ep] unfolding Let_def u2_def .
    show ?thesis
    proof (cases "contents (os_state u2) ?pq")
      case (Cons p ps)
      obtain u3 where h: "handle_bulk_intr_ready_message E q ?pq ?rq u2 = copy_and_ack_ipcmessage E p q u3"
        and c3: "contents (os_state u3) = (contents (os_state u2))(?pq := ps)"
        and u3: "u3 = u2 \<lparr> os_state := os_state u3 \<rparr>"
        using ready_message_waiting [OF spec(1) Cons] by blast
      obtain m where m: "ipc_store u2 p = Some m" "read_room m n"
        using fit2 Cons unfolding reads_fit_def by (metis list.set_intros(1))
      have st: "ipc_store u3 = ipc_store u2" "inj_store u3 = inj_store u2" "queue_ids u3 = queue_ids u2"
        using arg_cong [OF u3, of ipc_store] arg_cong [OF u3, of inj_store] arg_cong [OF u3, of queue_ids]
        by (simp_all add: queue_ids_def)
      have "read_room m (length pkt)" using m(2) len(1) by (auto simp: read_room_def)
      then have a: "copy_and_ack_ipcmessage E p q u3 = Inr (answered E p q pkt m u3)"
        using q m(1) len(2) st by (intro copy_and_ack_injected) (simp_all add: u2_def)
      let ?u' = "snd (answered E p q pkt m u3)"
      have ids: "queue_ids ?u' = queue_ids u2"
        using st(3) by (simp add: answered_def ack_message_def injmessage_free_def queue_ids_def split: prod.split)
      have "reads_fit contents n ?u'"
        using fit2 ids
      proof (rule reads_fit_mono)
        show "\<exists>m1. ipc_store ?u' p1 = Some m1 \<and> read_room m1 n"
          if "ipc_store u2 p1 = Some m0" "read_room m0 n" for p1 m0
          using that m(2) len(1) st(1) read_room_filled by (simp add: answered_frame(2) [OF spec(1)])
        show "set (contents (os_state ?u') (pending_queue ep' u2)) \<subseteq> set (contents (os_state u2) (pending_queue ep' u2))" for ep'
          using Cons c3 by (auto simp: answered_frame(1) [OF spec(1)])
      qed
      then show ?thesis unfolding i h a by (cases "answered E p q pkt m u3") simp
    next
      case Nil
      obtain r1 m1 u3 where rcv: "queue_receive E ?pq u2 = (r1, m1, u3)" by (metis prod_cases3)
      note e = queue_receive_empty [OF spec(1) Nil rcv] and f = queue_receive_frame [OF rcv]
      obtain r2 u4 where snd: "queue_send E ?rq q u3 = (r2, u4)" by (metis surj_pair)
      note g = queue_send_frame [OF snd]
      have c4: "contents (os_state u4) = contents (os_state u3)
          \<or> contents (os_state u4) = (contents (os_state u3))(?rq := contents (os_state u3) ?rq @ [q])"
        using queue_send_room(2) [OF spec(1) _ snd] queue_send_full(2) [OF spec(1) _ snd] by blast
      have d: "pending_queue ep' u2 \<noteq> ?rq" for ep'
        using fit2 by (cases ep'; cases ep) (auto simp: reads_fit_def queue_ids_def)
      have st: "ipc_store u4 = ipc_store u2" "queue_ids u4 = queue_ids u2"
        using arg_cong [OF f, of ipc_store] arg_cong [OF g, of ipc_store]
          arg_cong [OF f, of queue_ids] arg_cong [OF g, of queue_ids]
        by (simp_all add: queue_ids_def)
      have "reads_fit contents n u4"
        using fit2 st(2)
      proof (rule reads_fit_mono)
        show "set (contents (os_state u4) (pending_queue ep' u2)) \<subseteq> set (contents (os_state u2) (pending_queue ep' u2))" for ep'
          using c4 d [of ep'] e(2) by (elim disjE) simp_all
      qed (simp add: st(1))
      then show ?thesis
        unfolding i using rcv e(1) snd by (simp add: handle_bulk_intr_ready_message_def)
    qed
  qed
qed

section \<open>One Wiimote\<close>

text \<open>What the operating system and egc promise, and the largest packet of a tick.\<close>

definition services :: "'os ext \<Rightarrow> ('os \<Rightarrow> int \<Rightarrow> ptr list) \<Rightarrow> (int \<Rightarrow> nat) \<Rightarrow> bool" where
  "services E contents cap \<longleftrightarrow> queue_spec E contents cap \<and> heap_spec E \<and> egc_quiet E contents"

definition MAX_TICK_PACKET :: nat where
  "MAX_TICK_PACKET = 32"

abbreviation fits :: "('os \<Rightarrow> int \<Rightarrow> ptr list) \<Rightarrow> 'os usb \<Rightarrow> bool" where
  "fits contents \<equiv> reads_fit contents MAX_TICK_PACKET"

lemma packet_runs:
  assumes "services E contents cap" and "fits contents u" and "length pkt \<le> MAX_TICK_PACKET"
  shows "runs {} (inject_packet E ep pkt u) (\<lambda>(r, u'). fits contents u')"
  using assms by (intro inject_packet_runs) (auto simp: services_def MAX_TICK_PACKET_def)

lemma injectors_run:
  assumes S: "services E contents cap" and F: "fits contents u"
  shows "length data \<le> 23 \<Longrightarrow> runs {} (inject_l2cap_packet E h dcid data u) (\<lambda>(r, u'). fits contents u')"
    and "length ba = 6 \<Longrightarrow> runs {} (inject_hci_event_con_req E ba c0 c1 c2 t u) (\<lambda>(r, u'). fits contents u')"
    and "runs {} (inject_hci_event_discon_compl E h st reason u) (\<lambda>(r, u'). fits contents u')"
    and "length infos \<le> 2 \<Longrightarrow> runs {} (inject_hci_event_num_compl_pkts E infos u) (\<lambda>(r, u'). fits contents u')"
    and "runs {} (inject_l2cap_connect_req E h psm cid u) (\<lambda>(r, u'). fits contents u')"
    and "runs {} (inject_l2cap_config_req E h cid mtu flush u) (\<lambda>(r, u'). fits contents u')"
proof -
  have h: "heap_spec E" using S by (simp add: services_def)
  note run = packet_runs [OF S F]
  have c: "length (concat (map (\<lambda>(h, n). le16 h @ le16 n) infos)) = length infos * 4" for infos
    by (rule length_concat_pairs) auto
  note size = acl_packet_def l2cap_frame_def l2cap_signal_packet_def l2cap_command_def hci_event_packet_def
    l2cap_config_req_options_def MAX_TICK_PACKET_def
  show "length data \<le> 23 \<Longrightarrow> runs {} (inject_l2cap_packet E h dcid data u) (\<lambda>(r, u'). fits contents u')"
    using run [of "acl_packet h (l2cap_frame dcid data)"] by (simp add: inj_wire h size)
  show "length ba = 6 \<Longrightarrow> runs {} (inject_hci_event_con_req E ba c0 c1 c2 t u) (\<lambda>(r, u'). fits contents u')"
    by (simp add: inj_wire h) (rule run, simp add: size)
  show "runs {} (inject_hci_event_discon_compl E h st reason u) (\<lambda>(r, u'). fits contents u')"
    by (simp add: inj_wire h) (rule run, simp add: size)
  show "length infos \<le> 2 \<Longrightarrow> runs {} (inject_hci_event_num_compl_pkts E infos u) (\<lambda>(r, u'). fits contents u')"
    by (simp add: inj_wire h) (rule run, simp add: size c)
  show "runs {} (inject_l2cap_connect_req E h psm cid u) (\<lambda>(r, u'). fits contents u')"
    by (simp add: inj_wire h) (rule run, simp add: size)
  show "runs {} (inject_l2cap_config_req E h cid mtu flush u) (\<lambda>(r, u'). fits contents u')"
    by (simp add: inj_wire h) (rule run, simp add: size)
qed

lemma report_runs:
  assumes "services E contents cap" and "fits contents u" and "length data \<le> 21"
  shows "runs {} (wiimote_send_report E rid data w u) (\<lambda>(r, u'). fits contents u')"
  using injectors_run(1) [OF assms(1,2)] assms(3)
  by (simp add: wiimote_send_report_def send_hid_input_report_def send_hid_data_def WIIMOTE_MAX_PAYLOAD_def c_assert_def)

section \<open>A legal key\<close>

text \<open>The key data of an extension that encrypts is one of the legal ones, or is not needed any more.\<close>

definition key_ready :: "'os ext \<Rightarrow> fake_wiimote \<Rightarrow> bool" where
  "key_ready E w \<longleftrightarrow> (encryption_enabled w \<longrightarrow> (\<exists>k. current_key E w = Inr k))"

lemma key_same:
  "extension_regs w' = extension_regs w \<Longrightarrow> extension_key w' = extension_key w \<Longrightarrow>
   extension_key_dirty w' = extension_key_dirty w \<Longrightarrow> key_ready E w' = key_ready E w"
  by (simp add: key_ready_def encryption_enabled_def current_key_def extension_key_data_def)

lemma key_memories: "memories w' = memories w \<Longrightarrow> key_ready E w' = key_ready E w"
  by (rule key_same) (simp_all add: memories_def)

lemma key_fields [simp]:
  "key_ready E (w \<lparr> fw_active := b \<rparr>) = key_ready E w" "key_ready E (w \<lparr> fw_read_request := q \<rparr>) = key_ready E w"
  "key_ready E (w \<lparr> input_dirty := b \<rparr>) = key_ready E w" "key_ready E (w \<lparr> fw_buttons := bs \<rparr>) = key_ready E w"
  "key_ready E (w \<lparr> new_extension := e \<rparr>) = key_ready E w" "key_ready E (w \<lparr> acc_x := x \<rparr>) = key_ready E w"
  "key_ready E (w \<lparr> acc_y := x \<rparr>) = key_ready E w" "key_ready E (w \<lparr> acc_z := x \<rparr>) = key_ready E w"
  by (rule key_same; simp)+

lemma key_extension_read:
  assumes "extension_read_data E w a n = Inr (r, w')" and "key_ready E w"
  shows "key_ready E w'"
  using assms
  by (auto simp: extension_read_data_def result_simps Let_def key_ready_def encryption_enabled_def current_key_def
      split: if_splits)

lemma key_read_request:
  assumes "fake_wiimote_process_read_request E w u = Inr (b, w', u')" and "key_ready E w"
  shows "key_ready E w'"
proof -
  have r: "key_ready E w1" if "read_request_data E n w = Inr (e, d, w1)" for n e d w1
    using that assms(2) by (auto simp: read_request_data_def reply_block_def Let_def result_simps
        split: if_splits option.splits prod.splits dest!: key_extension_read)
  have a: "key_ready E (snd (advance_read_request e n w1)) = key_ready E w1" for e n w1
    by (simp add: advance_read_request_def Let_def)
  show ?thesis
    using assms(1) assms(2) a
    by (auto simp: fake_wiimote_process_read_request_def Let_def result_simps case_prod_beta
        split: if_splits dest!: r)
qed

lemma no_encryption_after_reset: "\<not> encryption_enabled (fake_wiimote_reset_extension_state w)"
proof -
  define R where "R = (case ext_id_code (cur_extension w) of None \<Rightarrow> replicate sizeof_extension_registers (0::u8)
      | Some d \<Rightarrow> put ext_regs_identifier d (replicate sizeof_extension_registers 0))"
  have d: "length d = 6" if "ext_id_code e = Some d" for e d
    using that by (auto simp: ext_id_code_def c_consts split: wiimote_ext.splits)
  have R: "length R = 256" "R ! 240 = 0"
    by (simp_all add: R_def d c_consts nth_put split: option.split)
  have "put 0 bs R ! 240 = 0" if "length bs = 6" for bs
    using that R by (simp add: nth_put)
  then have "extension_regs (fake_wiimote_reset_extension_state w) ! ext_regs_encryption = 0"
    using R unfolding fake_wiimote_reset_extension_state_def Let_def R_def [symmetric]
    by (simp add: c_consts)
  then show ?thesis by (simp add: encryption_enabled_def c_consts)
qed

lemma key_reset [simp]: "key_ready E (fake_wiimote_reset_extension_state w)"
  by (simp add: key_ready_def no_encryption_after_reset)

lemma key_extension_change:
  "fake_wiimote_process_extension_change E w u = Inr (b, w', u') \<Longrightarrow> key_ready E w \<Longrightarrow> key_ready E w'"
  by (auto simp: fake_wiimote_process_extension_change_def Let_def result_simps extension_change_def split: if_splits)

lemma key_init_state: "key_ready E (fake_wiimote_init_state i w)"
proof -
  have "encryption_enabled (fake_wiimote_init_state i w) \<longleftrightarrow> encryption_enabled (fake_wiimote_reset_extension_state w)"
    by (simp add: encryption_enabled_def fake_wiimote_init_state_def Let_def)
      (simp add: fake_wiimote_reset_extension_state_def Let_def)
  then show ?thesis by (simp add: key_ready_def no_encryption_after_reset)
qed

lemma key_data_report:
  assumes "fake_wiimote_send_data_report E w u = Inr (w', u')" and "key_ready E w"
  shows "key_ready E w'"
proof -
  have "key_ready E w1" if "build_data_report E buf w = Inr (data, w1)" for buf data w1
    using that assms(2) by (fastforce simp: build_data_report_def Let_def result_simps dest: key_extension_read
        split: if_splits prod.splits)
  then show ?thesis
    using assms by (fastforce simp: fake_wiimote_send_data_report_def result_simps split: if_splits)
qed

lemma key_report_ext:
  assumes "wm_ok w" and "length ext_data = 6" and "key_ready E w"
  shows "key_ready E (fake_wiimote_report_input_ext E' btns ext_data 6 w)"
proof -
  define k where "k = memmismatch E' (drop ext_regs_controller_data (extension_regs w)) ext_data 6"
  define m where "m = put (ext_regs_controller_data + k) (take (6 - k) (drop k ext_data)) (extension_regs w)"
  have l: "length (extension_regs w) = 256" using assms(1) by (simp add: wm_ok_defs c_consts)
  have same: "m ! j = extension_regs w ! j" if "6 \<le> j" "j < 256" for j
    using that assms(2) l by (cases "k \<le> 6") (auto simp: m_def c_consts put_def nth_append min_def)
  have len: "length m = 256"
    using assms(2) l by (cases "k \<le> 6") (simp_all add: m_def c_consts put_def)
  have "drop ENCRYPTION_KEY_DATA_BEGIN m = drop ENCRYPTION_KEY_DATA_BEGIN (extension_regs w)"
    using same len l by (intro nth_equalityI) (simp_all add: c_consts)
  moreover have "m ! ext_regs_encryption = extension_regs w ! ext_regs_encryption"
    using same [of 240] by (simp add: c_consts)
  ultimately have "key_ready E (w \<lparr> fw_buttons := b, extension_regs := m, input_dirty := c \<rparr>) = key_ready E w" for b c
    by (simp add: key_ready_def encryption_enabled_def current_key_def extension_key_data_def)
  then show ?thesis
    using assms(3) by (simp add: fake_wiimote_report_input_ext_def Let_def k_def [symmetric] m_def [symmetric])
qed

lemma key_sample:
  assumes "report_sample E bar dots device d w = Inr (b, d', w')" and "wm_ok w" and "key_ready E w"
  shows "key_ready E w'"
proof -
  have n: "length (bm_map_nunchuk btns axs ax ay az bmap amap) = 6" for btns axs ax ay az bmap amap
    by (simp add: bm_map_nunchuk_def)
  have c: "length (bm_map_classic btns axs bmap amap) = 6" for btns axs bmap amap
    by (simp add: bm_map_classic_def)
  have i: "key_ready E (fake_wiimote_report_ir_dots dots w1) = key_ready E w1" for dots w1
    by (rule key_same) (simp_all add: fake_wiimote_report_ir_dots_def Let_def)
  have a: "key_ready E (report_extension E btns gp d4 (fake_wiimote_report_ir_dots dots w1))"
    if "wm_ok w1" "key_ready E w1" for btns gp d4 dots w1
  proof -
    note key_report_ext [where E = E and E' = E, OF wm_ok_report_ir [OF that(1)] n]
      key_report_ext [where E = E and E' = E, OF wm_ok_report_ir [OF that(1)] c]
    then show ?thesis
      using that(2) by (simp add: report_extension_def fake_wiimote_report_input_def i split: wiimote_ext.split)
  qed
  have f: "key_ready E (fake_wiimote_report_accelerometer ax ay az w1) = key_ready E w1"
    "key_ready E (fake_wiimote_set_extension e w1) = key_ready E w1" for ax ay az e w1
    by (rule key_same; simp add: fake_wiimote_report_accelerometer_def fake_wiimote_set_extension_def)+
  show ?thesis
    using assms a
    by (fastforce simp: report_sample_def Let_def result_simps f wm_ok_sample
        split: prod.splits if_splits)
qed

text \<open>Apart from the end of the linking, a tick leaves the state of the link alone.\<close>

lemma acl_extension_read: "extension_read_data E w a n = Inr (r, w') \<Longrightarrow> acl_state w' = acl_state w"
  by (drule extension_read_state) auto

lemma acl_reset: "acl_state (fake_wiimote_reset_extension_state w) = acl_state w"
  by (simp add: fake_wiimote_reset_extension_state_def Let_def)

lemma acl_ops:
  "fake_wiimote_process_read_request E w u = Inr (b, w', u') \<Longrightarrow> acl_state w' = acl_state w"
  "fake_wiimote_process_extension_change E w u = Inr (b, w', u') \<Longrightarrow> acl_state w' = acl_state w"
  "fake_wiimote_send_data_report E w u = Inr (w', u') \<Longrightarrow> acl_state w' = acl_state w"
  "report_sample E bar dots device d w = Inr (c, d', w') \<Longrightarrow> acl_state w' = acl_state w"
proof -
  have r: "acl_state w1 = acl_state w" if "read_request_data E n w = Inr (e, d, w1)" for n e d w1
    using that by (auto simp: read_request_data_def reply_block_def Let_def result_simps
        split: if_splits option.splits prod.splits dest!: acl_extension_read)
  have v: "acl_state (snd (advance_read_request e n w1)) = acl_state w1" for e n w1
    by (simp add: advance_read_request_def Let_def)
  show "acl_state w' = acl_state w" if run: "fake_wiimote_process_read_request E w u = Inr (b, w', u')"
  proof (cases "min 16 (unat (rr_size (fw_read_request w))) = 0")
    case False
    then obtain n e d w1 where d: "read_request_data E n w = Inr (e, d, w1)"
      and "w' = snd (advance_read_request e n w1)"
      using run unfolding fake_wiimote_process_read_request_def Let_def if_not_P [OF False] rbind_eq_Inr
      by (auto simp: case_prod_beta' rbind_eq_Inr)
    then show ?thesis using v r [OF d] by simp
  qed (use run in \<open>simp add: fake_wiimote_process_read_request_def\<close>)
  show "fake_wiimote_process_extension_change E w u = Inr (b, w', u') \<Longrightarrow> acl_state w' = acl_state w"
    by (auto simp: fake_wiimote_process_extension_change_def extension_change_def Let_def result_simps acl_reset
        split: if_splits)
  have "acl_state w1 = acl_state w" if "build_data_report E buf w = Inr (data, w1)" for buf data w1
    using that by (fastforce simp: build_data_report_def Let_def result_simps dest: acl_extension_read
        split: if_splits prod.splits)
  then show "fake_wiimote_send_data_report E w u = Inr (w', u') \<Longrightarrow> acl_state w' = acl_state w"
    by (fastforce simp: fake_wiimote_send_data_report_def result_simps split: if_splits)
  have "acl_state (report_extension E btns gp d4 (fake_wiimote_report_ir_dots dots w1)) = acl_state w1"
    for btns gp d4 dots w1
    by (simp add: report_extension_def fake_wiimote_report_ir_dots_def Let_def
        fake_wiimote_report_input_def fake_wiimote_report_input_ext_def split: wiimote_ext.split)
  then show "report_sample E bar dots device d w = Inr (c, d', w') \<Longrightarrow> acl_state w' = acl_state w"
    by (fastforce simp: report_sample_def Let_def result_simps fake_wiimote_set_extension_def
        fake_wiimote_report_accelerometer_def split: prod.splits if_splits)
qed

text \<open>A Wiimote ready for a tick; \<open>a\<close> tells whether it may be linking.\<close>

definition ready_wm :: "'os ext \<Rightarrow> bool \<Rightarrow> fake_wiimote \<Rightarrow> bool" where
  "ready_wm E a w \<longleftrightarrow> wm_ok w \<and> key_ready E w \<and> (acl_state w = ACL_STATE_LINKING \<longrightarrow> a)"

interpretation tick: slot_tick E "ready_wm E a" slot_ok for E :: "'os ext" and a
proof unfold_locales
  show "memories w' = memories w \<Longrightarrow> ready_wm E a w \<Longrightarrow> ready_wm E a w'" for w w'
    using wf.same_memories [of w' w] key_memories [of w' w E] by (simp add: ready_wm_def memories_def)
  show "length ba = BDADDR_SIZE \<Longrightarrow> ready_wm E a w \<Longrightarrow> ready_wm E a (fake_wiimote_init ba w)" for ba w
    using wf.created [of ba w] key_same [of "fake_wiimote_init ba w" w E]
    by (simp add: ready_wm_def) (simp add: fake_wiimote_init_def)
  show "ready_wm E a w \<Longrightarrow> ready_wm E a (w \<lparr> acl_state := ACL_STATE_INACTIVE \<rparr>)" for w
    using wf.linked_up [of w] key_same [of "w \<lparr> acl_state := ACL_STATE_INACTIVE \<rparr>" w E]
    by (simp add: ready_wm_def)
  show "ready_wm E a w \<Longrightarrow> ready_wm E a (fake_wiimote_init_state i w)" for i w
    using wf.initialised [of w i] key_init_state [of E i w]
    by (simp add: ready_wm_def fake_wiimote_init_state_def Let_def acl_reset)
  show "ready_wm E a w'" if "fake_wiimote_process_read_request E w u = Inr (b, w', u')" and "ready_wm E a w" for w u b w' u'
    using that wf.read_request key_read_request acl_ops(1) unfolding ready_wm_def by metis
  show "ready_wm E a w'" if "fake_wiimote_process_extension_change E w u = Inr (b, w', u')" and "ready_wm E a w" for w u b w' u'
    using that wf.extension_change key_extension_change acl_ops(2) unfolding ready_wm_def by metis
  show "ready_wm E a w'" if "fake_wiimote_send_data_report E w u = Inr (w', u')" and "ready_wm E a w" for w u w' u'
    using that wf.data_report key_data_report acl_ops(3) unfolding ready_wm_def by metis
  show "ready_wm E a w' \<and> slot_ok d'" if "report_sample E bar dots device d w = Inr (b, d', w')"
    and "ready_wm E a w" and "slot_ok d" for bar dots device d w b d' w'
    using that wf.sample key_sample acl_ops(4) unfolding ready_wm_def by metis
qed (use wf.attached wf.detached wf.assigned wf.delayed in blast)+

section \<open>One Wiimote makes progress\<close>

lemma runs_True: "runs X m Q \<Longrightarrow> runs X m (\<lambda>_. True)"
  by (erule runs_mono) simp

lemma extension_read_runs:
  assumes "key_ready E w"
  shows "runs {} (extension_read_data E w a n)
    (\<lambda>(r, w'). case r of None \<Rightarrow> True | Some bs \<Rightarrow> length bs = min n (length (extension_regs w) - a))"
proof -
  have l: "length (wiimote_crypto_encrypt k x bs) = length bs" for k x bs
    by (induction k x bs rule: wiimote_crypto_encrypt.induct) simp_all
  show ?thesis
    using assms
    by (auto simp: extension_read_data_def Let_def key_ready_def encryption_enabled_def current_key_def l runs_total)
qed

lemma read_request_runs:
  assumes S: "services E contents cap" and F: "fits contents u" and "key_ready E w"
  shows "runs {} (fake_wiimote_process_read_request E w u) (\<lambda>(b, w', u'). fits contents u')"
proof -
  define n where "n = min 16 (unat (rr_size (fw_read_request w)))"
  have b: "length (fst (snd (reply_block n c r))) = 16" for c r
    by (cases r) (auto simp: reply_block_def n_def split: option.split)
  have d: "runs {} (read_request_data E n w) (\<lambda>(e, data, w1). length data = 16)"
    using runs_True [OF extension_read_runs [OF assms(3)]] b
    by (auto simp: read_request_data_def Let_def case_prod_beta')
  have r: "length (input_report_read_data bt s e a data) = 21" if "length data = 16" for bt s e a data
    using that by (simp add: input_report_read_data_def)
  have "runs {} (wiimote_send_report E INPUT_REPORT_ID_READ_DATA_REPLY (input_report_read_data bt s e a data) w2 u)
      (\<lambda>(r, u'). fits contents u')" if "length data = 16" for bt s e a data w2
    using report_runs [OF S F] r [OF that] by simp
  then show ?thesis
    using F by (auto simp: fake_wiimote_process_read_request_def Let_def n_def [symmetric] case_prod_beta'
        intro!: runs_mono [OF d])
qed

lemma extension_change_runs:
  assumes S: "services E contents cap" and F: "fits contents u"
  shows "runs {} (fake_wiimote_process_extension_change E w u) (\<lambda>(b, w', u'). fits contents u')"
  using F report_runs [OF S F]
  by (auto simp: fake_wiimote_process_extension_change_def Let_def wiimote_send_input_report_status_def
      input_report_status_def case_prod_beta')

lemma data_report_runs:
  assumes S: "services E contents cap" and F: "fits contents u" and "key_ready E w"
  shows "runs {} (fake_wiimote_send_data_report E w u) (\<lambda>(w', u'). fits contents u')"
proof -
  have b: "runs {} (build_data_report E buf w) (\<lambda>(data, w'). length data \<le> 21)" for buf
    using runs_True [OF extension_read_runs [OF assms(3)]]
    by (auto simp: build_data_report_def Let_def case_prod_beta' min.coboundedI2 report_offsets)
  show ?thesis
    using F report_runs [OF S F]
    by (auto simp: fake_wiimote_send_data_report_def case_prod_beta' intro!: runs_mono [OF b])
qed

lemma send_config_runs:
  assumes S: "services E contents cap" and F: "fits contents u"
  shows "runs {} (check_send_config_for_new_channel E c w u) (\<lambda>(w', u'). fits contents u')"
  using F injectors_run(6) [OF S F]
  by (auto simp: check_send_config_for_new_channel_def Let_def case_prod_beta' elim!: runs_mono)

lemma report_sample_runs:
  "slot_ok d \<Longrightarrow> runs {} (report_sample E bar dots device d w) (\<lambda>_. True)"
  by (auto simp: report_sample_def Let_def emulate_ir_def at_def slot_ok_def switch_ir_mode_def next_ir_mode_def
      ir_emu_modes_def split: prod.split)

section \<open>The tick makes progress\<close>

lemma fits_os:
  assumes "fits contents u" and "contents os' = contents (os_state u)"
  shows "fits contents (u \<lparr> os_state := os' \<rparr>)"
  using assms(1) by (rule reads_fit_frame) (simp_all add: assms(2) queue_ids_def)

lemma on_usb_runs:
  "runs X (f (usb W)) (\<lambda>(r, u'). fits contents u') \<Longrightarrow> runs X (on_usb f W) (\<lambda>(r, W'). fits contents (usb W'))"
  by (simp add: on_usb_def case_prod_beta')

lemma on_wm_runs:
  assumes "j < length (fake_wiimotes W)"
    and "runs X (f (fake_wiimotes W ! j) (usb W)) (\<lambda>(r, w', u'). fits contents u')"
  shows "runs X (on_wm f j W) (\<lambda>(r, W'). fits contents (usb W'))"
  using assms by (simp add: on_wm_def at_def case_prod_beta')

lemma on_wm_state_runs:
  assumes "j < length (fake_wiimotes W)"
    and "runs X (f (fake_wiimotes W ! j) (usb W)) (\<lambda>(w', u'). fits contents u')"
  shows "runs X (on_wm_state f j W) (\<lambda>W'. fits contents (usb W'))"
  using assms by (simp add: on_wm_state_def on_wm_def at_def case_prod_beta')

lemma fits_egc:
  assumes "services E contents cap" and "fits contents (usb W)"
  shows "fits contents (usb (snd (egc_call (egc_input_device_resume E p) W)))"
    and "fits contents (usb (snd (egc_call (egc_input_device_suspend E p) W)))"
  using fits_os [OF assms(2)] assms(1)
  by (auto simp: egc_call_def services_def egc_quiet_def case_prod_beta)

text \<open>What holds when Wiimote \<open>j\<close> of the array takes its turn.\<close>

definition tick_ok :: "'os ext \<Rightarrow> bool \<Rightarrow> ('os \<Rightarrow> int \<Rightarrow> ptr list) \<Rightarrow> 'os world \<Rightarrow> bool" where
  "tick_ok E a contents W \<longleftrightarrow> paired W \<and> all_slots (ready_wm E a) slot_ok W \<and>
     fits contents (usb W)"

lemma tick_okD:
  assumes "tick_ok E a contents W"
  shows "paired W" and "all_slots (ready_wm E a) slot_ok W" and "fits contents (usb W)"
    and "j < length (fake_wiimotes W) \<Longrightarrow> ready_wm E a (fake_wiimotes W ! j)"
    and "i < length (input_devices W) \<Longrightarrow> slot_ok (input_devices W ! i)"
  using assms by (simp_all add: tick_ok_def all_slots_def list_all_length)

text \<open>An active Wiimote has a slot, with a controller and assigned to it.\<close>

lemma active_slot:
  assumes "paired W" and "j < length (fake_wiimotes W)" and "fw_active (fake_wiimotes W ! j)"
  obtains i p where "fake_wiimote.input_device (fake_wiimotes W ! j) = Some i" and "i < length (input_devices W)"
    and "dev_device (input_devices W ! i) = Some p" and "assigned_wiimote (input_devices W ! i) = Some j"
proof -
  have "linked (fst (links W), snd (links W))" using assms(1) by (simp add: paired_by_def)
  from linkedD(1) [OF this, of j] assms(2,3) show ?thesis
    by (auto simp: links_def intro: that)
qed

lemma request_connection_runs:
  assumes S: "services E contents cap" and ok: "tick_ok E a contents W" and j: "j < length (fake_wiimotes W)"
  shows "runs {} (tick_request_connection E j W) (\<lambda>W'. fits contents (usb W'))"
proof -
  have "length (fw_bdaddr (fake_wiimotes W ! j)) = 6"
    using tick_okD(4) [OF ok j] by (simp add: ready_wm_def wm_ok_def BDADDR_SIZE_def)
  then have c: "runs {} (on_usb (inject_hci_event_con_req E (fw_bdaddr (fake_wiimotes W ! j)) c0 c1 c2 t) W)
      (\<lambda>(r, W'). fits contents (usb W'))" for c0 c1 c2 t
    using injectors_run(2) [OF S tick_okD(3) [OF ok]] by (intro on_usb_runs)
  then show ?thesis
    using j tick_okD(3) [OF ok] by (auto simp: tick_request_connection_def at_def intro!: runs_mono [OF c])
qed

lemma send_configs_run:
  assumes S: "services E contents cap" and F: "fits contents (usb W)" and j: "j < length (fake_wiimotes W)"
  shows "runs X (rbind (on_wm_state (check_send_config_for_new_channel E HID_Cntl_Chn) j W)
             (on_wm_state (check_send_config_for_new_channel E HID_Intr_Chn) j)) (\<lambda>W'. fits contents (usb W'))"
proof -
  have r: "runs X (on_wm_state (check_send_config_for_new_channel E c) j W1)
      (\<lambda>W'. fits contents (usb W') \<and> length (fake_wiimotes W') = length (fake_wiimotes W1))"
    if "fits contents (usb W1)" "j < length (fake_wiimotes W1)" for c W1
  proof -
    have "runs X (on_wm_state (check_send_config_for_new_channel E c) j W1) (\<lambda>W'. fits contents (usb W'))"
      using send_config_runs [OF S that(1)] that(2) by (intro on_wm_state_runs) (auto intro: runs_weaken)
    then show ?thesis
      by (rule runs_mono) (auto simp: on_wm_state_def on_wm_def result_simps upd_wm_def)
  qed
  show ?thesis
    using r [OF F j, of HID_Cntl_Chn] j
    by (auto elim!: runs_mono intro!: runs_mono [OF r])
qed

text \<open>The one fault left: the assertion that a connect request is accepted.\<close>

definition refusals :: "bool \<Rightarrow> fault set" where
  "refusals a = (if a then {Assert_Failed} else {})"

lemma open_channel_runs:
  assumes S: "services E contents cap" and F: "fits contents (usb W)" and j: "j < length (fake_wiimotes W)"
  shows "runs {Assert_Failed} (open_channel E psm c j W)
    (\<lambda>W'. fits contents (usb W') \<and> j < length (fake_wiimotes W'))"
proof -
  have r: "runs {Assert_Failed} (on_usb (inject_l2cap_connect_req E h psm cid) W1)
      (\<lambda>(r, W'). fits contents (usb W') \<and> fake_wiimotes W' = fake_wiimotes W)"
    if "fits contents (usb W1)" "fake_wiimotes W1 = fake_wiimotes W" for h cid W1
  proof -
    have "runs {Assert_Failed} (on_usb (inject_l2cap_connect_req E h psm cid) W1) (\<lambda>(r, W'). fits contents (usb W'))"
      using injectors_run(5) [OF S that(1)] by (intro on_usb_runs) (auto intro: runs_weaken)
    then show ?thesis
      by (rule runs_mono) (use that(2) in \<open>auto simp: on_usb_def result_simps\<close>)
  qed
  have a: "runs {Assert_Failed} (c_assert b) Post" if "b \<Longrightarrow> Post ()" for b Post
    using that by (cases b) simp_all
  show ?thesis
    using F j by (auto simp: open_channel_def generate_l2cap_channel_id_def at_def inject_ok_def upd_wm_def
        intro!: runs_mono [OF r] a)
qed

lemma linking_runs:
  assumes S: "services E contents cap" and ok: "tick_ok E a contents W" and j: "j < length (fake_wiimotes W)"
    and active: "fw_active (fake_wiimotes W ! j)"
  shows "runs {Assert_Failed} (tick_linking E j W) (\<lambda>W'. fits contents (usb W'))"
proof -
  note F = tick_okD(3) [OF ok]
  define send where "send = (\<lambda>W1. rbind (on_wm_state (check_send_config_for_new_channel E HID_Cntl_Chn) j W1)
             (on_wm_state (check_send_config_for_new_channel E HID_Intr_Chn) j))"
  have send: "runs {Assert_Failed} (send W1) (\<lambda>W'. fits contents (usb W'))"
    if "fits contents (usb W1)" "j < length (fake_wiimotes W1)" for W1
    unfolding send_def by (rule send_configs_run [OF S that])
  obtain i p where i: "fake_wiimote.input_device (fake_wiimotes W ! j) = Some i" "i < length (input_devices W)"
    using active_slot [OF tick_okD(1) [OF ok] j active] by blast
  have r: "runs {Assert_Failed} (input_device_resume E i (upd_wm j g W)) (\<lambda>(r, W'). fits contents (usb W'))" for g
    using fits_egc(1) [OF S, of "upd_wm j g W"] F i(2)
    by (simp add: input_device_resume_def at_def upd_wm_def case_prod_beta)
  show ?thesis
    using F j i send
    by (auto simp: tick_linking_def Let_def send_def [symmetric] ignore_ret_def at_def
        intro!: runs_mono [OF open_channel_runs [OF S]] runs_mono [OF r])
qed

lemma report_input_runs:
  assumes ok: "tick_ok E a contents W" and j: "j < length (fake_wiimotes W)" and "fw_active (fake_wiimotes W ! j)"
    and i: "fake_wiimote.input_device (fake_wiimotes W ! j) = Some i"
  shows "runs {} (input_device_report_input E i W) (\<lambda>(b, W'). fits contents (usb W'))"
proof -
  obtain p where s: "i < length (input_devices W)" "dev_device (input_devices W ! i) = Some p"
    "assigned_wiimote (input_devices W ! i) = Some j"
    using active_slot [OF tick_okD(1) [OF ok] j assms(3)] i by fastforce
  have "slot_ok (input_devices W ! i)" by (rule tick_okD(5) [OF ok s(1)])
  from report_sample_runs [OF this] show ?thesis
    using s j tick_okD(3) [OF ok]
    by (auto simp: input_device_report_input_def at_def case_prod_beta' elim!: runs_mono)
qed

lemma tick_ok_step:
  "tick_ok E a contents W \<Longrightarrow> links W' = links W \<Longrightarrow> all_slots (ready_wm E a) slot_ok W' \<Longrightarrow>
   fits contents (usb W') \<Longrightarrow> tick_ok E a contents W'"
  by (simp add: tick_ok_def paired_by_def)

lemma wm_ops_run:
  assumes S: "services E contents cap" and ok: "tick_ok E a contents W" and j: "j < length (fake_wiimotes W)"
  shows "runs {} (on_wm (fake_wiimote_process_read_request E) j W) (\<lambda>(b, W'). tick_ok E a contents W' \<and> links W' = links W)"
    and "runs {} (on_wm (fake_wiimote_process_extension_change E) j W) (\<lambda>(b, W'). tick_ok E a contents W' \<and> links W' = links W)"
    and "runs {} (on_wm_state (fake_wiimote_send_data_report E) j W) (\<lambda>W'. fits contents (usb W'))"
proof -
  note F = tick_okD(3) [OF ok] and A = tick_okD(2) [OF ok]
  have key: "key_ready E (fake_wiimotes W ! j)" using tick_okD(4) [OF ok j] by (simp add: ready_wm_def)
  have r: "runs {} (on_wm (fake_wiimote_process_read_request E) j W) (\<lambda>(b, W'). fits contents (usb W'))"
    by (rule on_wm_runs [where f = "fake_wiimote_process_read_request E", OF j read_request_runs [OF S F key]])
  show "runs {} (on_wm (fake_wiimote_process_read_request E) j W) (\<lambda>(b, W'). tick_ok E a contents W' \<and> links W' = links W)"
  proof (rule runs_mono [OF r], clarify)
    fix b W'
    assume o: "on_wm (fake_wiimote_process_read_request E) j W = Inr (b, W')" and f: "fits contents (usb W')"
    have l: "links W' = links W" using o by (rule links_on_wm) (rule keeps_read_request)
    show "tick_ok E a contents W' \<and> links W' = links W"
      using tick_ok_step [OF ok l tick.kept_wm_ops(1) [OF A o] f] l by blast
  qed
  have e: "runs {} (on_wm (fake_wiimote_process_extension_change E) j W) (\<lambda>(b, W'). fits contents (usb W'))"
    by (rule on_wm_runs [where f = "fake_wiimote_process_extension_change E", OF j extension_change_runs [OF S F]])
  show "runs {} (on_wm (fake_wiimote_process_extension_change E) j W) (\<lambda>(b, W'). tick_ok E a contents W' \<and> links W' = links W)"
  proof (rule runs_mono [OF e], clarify)
    fix b W'
    assume o: "on_wm (fake_wiimote_process_extension_change E) j W = Inr (b, W')" and f: "fits contents (usb W')"
    have l: "links W' = links W" using o by (rule links_on_wm) (rule keeps_extension_change)
    show "tick_ok E a contents W' \<and> links W' = links W"
      using tick_ok_step [OF ok l tick.kept_wm_ops(2) [OF A o] f] l by blast
  qed
  show "runs {} (on_wm_state (fake_wiimote_send_data_report E) j W) (\<lambda>W'. fits contents (usb W'))"
    by (rule on_wm_state_runs [where f = "fake_wiimote_send_data_report E", OF j data_report_runs [OF S F key]])
qed

lemma links_active:
  assumes "links W' = links W"
  shows "length (fake_wiimotes W') = length (fake_wiimotes W)"
    and "j < length (fake_wiimotes W) \<Longrightarrow> fw_active (fake_wiimotes W' ! j) = fw_active (fake_wiimotes W ! j)"
proof -
  show l: "length (fake_wiimotes W') = length (fake_wiimotes W)" by (rule links_length [OF assms])
  have "fst (fst (links W') ! j) = fst (fst (links W) ! j)" using assms by simp
  then show "j < length (fake_wiimotes W) \<Longrightarrow> fw_active (fake_wiimotes W' ! j) = fw_active (fake_wiimotes W ! j)"
    using l by (simp add: links_def)
qed

lemma connected_runs:
  assumes S: "services E contents cap" and ok: "tick_ok E a contents W" and j: "j < length (fake_wiimotes W)"
    and active: "fw_active (fake_wiimotes W ! j)"
  shows "runs {} (tick_connected E j W) (\<lambda>W'. fits contents (usb W'))"
proof -
  have last: "runs {} (rbind (at (fake_wiimotes W2) j) (\<lambda>w.
         rbind (deref (fake_wiimote.input_device w)) (\<lambda>i.
         rbind (input_device_report_input E i W2) (\<lambda>(send, W3).
         if send then on_wm_state (fake_wiimote_send_data_report E) j W3 else Inr W3)))) (\<lambda>W'. fits contents (usb W'))"
    if ok2: "tick_ok E a contents W2" and l: "links W2 = links W" for W2
  proof -
    have j2: "j < length (fake_wiimotes W2)" "fw_active (fake_wiimotes W2 ! j)"
      using links_active [OF l] j active by simp_all
    obtain i p where i: "fake_wiimote.input_device (fake_wiimotes W2 ! j) = Some i"
      using active_slot [OF tick_okD(1) [OF ok2] j2] by blast
    note r = report_input_runs [OF ok2 j2 i]
    have "runs {} (case x of (send, W3) \<Rightarrow>
        if send then on_wm_state (fake_wiimote_send_data_report E) j W3 else Inr W3) (\<lambda>W'. fits contents (usb W'))"
      if x: "input_device_report_input E i W2 = Inr x" "case x of (b, W') \<Rightarrow> fits contents (usb W')" for x
    proof -
      obtain b W3 where [simp]: "x = (b, W3)" by (cases x)
      have l3: "links W3 = links W2" using x by (simp add: links_report_input)
      have "tick_ok E a contents W3"
        using tick_ok_step [OF ok2 l3 tick.kept_report_input [OF _ tick_okD(2) [OF ok2]]] x by simp
      then show ?thesis using wm_ops_run(3) [OF S, where W = W3 and j = j] links_active(1) [OF l3] j2 x by simp
    qed
    then show ?thesis
      using runs_mono [OF r] i j2 by (simp add: at_def)
  qed
  show ?thesis
    unfolding tick_connected_def runs_simps
  proof (rule runs_mono [OF wm_ops_run(1) [OF S ok j]], clarify)
    fix busy W1
    assume ok1: "tick_ok E a contents W1" and l1: "links W1 = links W"
    have j1: "j < length (fake_wiimotes W1)" using links_active(1) [OF l1] j by simp
    have "runs {} (case x of (changed, W2) \<Rightarrow> if changed then Inr W2 else
        rbind (at (fake_wiimotes W2) j) (\<lambda>w.
         rbind (deref (fake_wiimote.input_device w)) (\<lambda>i.
         rbind (input_device_report_input E i W2) (\<lambda>(send, W3).
         if send then on_wm_state (fake_wiimote_send_data_report E) j W3 else Inr W3))))
        (\<lambda>W'. fits contents (usb W'))" if "case x of (b, W2) \<Rightarrow> tick_ok E a contents W2 \<and> links W2 = links W1" for x
      using that last [of "snd x"] tick_okD(3) [of E a contents "snd x"] l1
      by (cases x) (simp del: runs_simps(3))
    then show "runs {} (if busy then Inr W1 else rbind (on_wm (fake_wiimote_process_extension_change E) j W1)
        (\<lambda>(changed, W2). if changed then Inr W2 else
        rbind (at (fake_wiimotes W2) j) (\<lambda>w.
         rbind (deref (fake_wiimote.input_device w)) (\<lambda>i.
         rbind (input_device_report_input E i W2) (\<lambda>(send, W3).
         if send then on_wm_state (fake_wiimote_send_data_report E) j W3 else Inr W3)))))
        (\<lambda>W'. fits contents (usb W'))"
      using tick_okD(3) [OF ok1] runs_mono [OF wm_ops_run(2) [OF S ok1 j1]] by (cases busy) simp_all
  qed
qed

lemma tick_runs:
  assumes S: "services E contents cap" and ok: "tick_ok E a contents W" and j: "j < length (fake_wiimotes W)"
    and active: "fw_active (fake_wiimotes W ! j)"
  shows "runs (refusals a) (fake_wiimote_tick E j W) (\<lambda>W'. fits contents (usb W'))"
proof -
  have "refusals a = {Assert_Failed}" if "acl_state (fake_wiimotes W ! j) = ACL_STATE_LINKING"
    using that tick_okD(4) [OF ok j] by (simp add: ready_wm_def refusals_def)
  then show ?thesis
    using j tick_okD(3) [OF ok] runs_weaken [OF request_connection_runs [OF S ok j]]
      runs_weaken [OF connected_runs [OF S ok j active]] linking_runs [OF S ok j active]
    by (auto simp: fake_wiimote_tick_def at_def split: baseband_state.split)
qed

lemma tick_all_runs:
  assumes S: "services E contents cap"
  shows "tick_ok E a contents W \<Longrightarrow> \<forall>j \<in> set js. j < length (fake_wiimotes W) \<Longrightarrow>
    runs (refusals a) (tick_all E js W) (\<lambda>W'. tick_ok E a contents W' \<and> links W' = links W)"
proof (induction js arbitrary: W)
  case (Cons j js)
  have "runs (refusals a) (fake_wiimote_tick E j W) (\<lambda>W1. tick_ok E a contents W1 \<and> links W1 = links W)"
    if active: "fw_active (fake_wiimotes W ! j)"
  proof (rule runs_mono [OF tick_runs [OF S Cons.prems(1) _ active]])
    fix W1
    assume t: "fake_wiimote_tick E j W = Inr W1" and f: "fits contents (usb W1)"
    have l: "links W1 = links W" by (rule links_tick [OF t])
    show "tick_ok E a contents W1 \<and> links W1 = links W"
      using tick_ok_step [OF Cons.prems(1) l tick.kept_tick [OF t tick_okD(2) [OF Cons.prems(1)]] f] l by blast
  qed (use Cons.prems in simp)
  moreover have "runs (refusals a) (tick_all E js W1) (\<lambda>W'. tick_ok E a contents W' \<and> links W' = links W)"
    if "tick_ok E a contents W1" "links W1 = links W" for W1
    using Cons.IH [OF that(1)] links_active(1) [OF that(2)] Cons.prems(2) that(2) by simp
  ultimately show ?case
    using Cons.prems(1) by (auto intro: runs_mono)
qed simp

lemma completed_runs:
  assumes S: "services E contents cap" and ok: "tick_ok E a contents W"
  shows "runs {} (fake_wiimote_mgr_send_event_number_of_completed_packets E W) (\<lambda>W'. fits contents (usb W'))"
proof -
  obtain infos n ws where c: "collect_completed (fake_wiimotes W) = (infos, n, ws)" by (metis prod_cases3)
  have "length infos \<le> length ws'" if "collect_completed ws' = (infos, n, ws)" for ws' infos n ws
    using that
  proof (induction ws' arbitrary: infos n ws)
    case (Cons w ws')
    then show ?case by (fastforce split: prod.splits if_splits)
  qed simp
  then have "length infos \<le> 2"
    using c tick_okD(2) [OF ok] by (fastforce simp: all_slots_def MAX_FAKE_WIIMOTES_def)
  then have r: "runs {} (on_usb (inject_hci_event_num_compl_pkts E infos) (W \<lparr> fake_wiimotes := ws \<rparr>))
      (\<lambda>(r, W'). fits contents (usb W'))"
    using injectors_run(4) [OF S tick_okD(3) [OF ok]] by (intro on_usb_runs) simp
  show ?thesis
    using c tick_okD(3) [OF ok]
    by (auto simp: fake_wiimote_mgr_send_event_number_of_completed_packets_def ignore_ret_def Let_def
        intro!: runs_mono [OF r])
qed

lemma tick_ok_assign:
  "tick_ok E a contents W \<Longrightarrow> \<forall>j \<in> set js. j < length (fake_wiimotes W) \<Longrightarrow> tick_ok E a contents (fold assign_to js W)"
proof (induction js arbitrary: W)
  case (Cons j js)
  have "tick_ok E a contents (assign_to j W)"
    using Cons.prems pair.paired_assign_to [of W j] tick.kept_assign_to [of E a W j] by (simp add: tick_ok_def usb_assign)
  then show ?case using Cons by simp
qed simp

lemma tick_devices_run:
  assumes S: "services E contents cap" and ok: "tick_ok E a contents W"
  shows "runs (refusals a) (fake_wiimote_mgr_tick_devices E W) (\<lambda>W'. fits contents (usb W'))"
proof -
  define W1 where "W1 = (if hci_can_request_connection (hci W)
                then fake_wiimote_mgr_check_assign_input_devices W else W)"
  have ok1: "tick_ok E a contents W1"
    using ok tick_ok_assign [OF ok] by (simp add: W1_def fake_wiimote_mgr_check_assign_input_devices_def)
  have t: "runs (refusals a) (tick_all E [0..<length (fake_wiimotes W1)] W1)
      (\<lambda>W'. tick_ok E a contents W' \<and> links W' = links W1)"
    by (rule tick_all_runs [OF S ok1]) simp
  show ?thesis
    unfolding fake_wiimote_mgr_tick_devices_def Let_def W1_def [symmetric] runs_simps
    by (rule runs_mono [OF t]) (auto intro: runs_weaken [OF completed_runs [OF S]])
qed

lemma removed_runs:
  assumes S: "services E contents cap" and ok: "tick_ok E a contents W"
  shows "runs {} (input_device_handle_removed E p W) (tick_ok E a contents)"
proof -
  have f: "runs {} (input_device_handle_removed E p W) (\<lambda>W'. fits contents (usb W'))"
  proof (cases "input_device_from_egc W p")
    case (Some i)
    then have i: "i < length (input_devices W)" "dev_device (input_devices W ! i) = Some p"
      by (auto simp: input_device_from_egc_def find_Some_iff)
    have "runs {} (fake_wiimote_disconnect E j (upd_wm j fake_wiimote_release_input_device W))
        (\<lambda>(r, W'). fits contents (usb W'))" if "assigned_wiimote (input_devices W ! i) = Some j" for j
    proof -
      have "linked (fst (links W), snd (links W))" using tick_okD(1) [OF ok] by (simp add: paired_by_def)
      from linkedD(2) [OF this, of i j] i that have j: "j < length (fake_wiimotes W)" by (simp add: links_def)
      have "runs {} (on_usb (inject_hci_event_discon_compl E h st reason) W2) (\<lambda>(r, W'). fits contents (usb W'))"
        if "usb W2 = usb W" for h st reason W2
        using injectors_run(3) [OF S tick_okD(3) [OF ok]] that by (intro on_usb_runs) simp
      then show ?thesis
        using j tick_okD(3) [OF ok]
        by (simp add: fake_wiimote_disconnect_def Let_def at_def fake_wiimote_release_input_device_def upd_wm_def)
    qed
    then show ?thesis
      using Some tick_okD(3) [OF ok]
      by (auto simp: input_device_handle_removed_def ignore_ret_def case_prod_beta' split: option.split)
  qed (use tick_okD(3) [OF ok] in \<open>simp add: input_device_handle_removed_def\<close>)
  show ?thesis
    by (rule runs_mono [OF f])
      (use tick_okD(1,2) [OF ok] pair.paired_removed tick.kept_removed in \<open>auto simp: tick_ok_def\<close>)
qed

lemma callbacks_run:
  assumes S: "services E contents cap"
  shows "tick_ok E a contents W \<Longrightarrow> runs {} (handle_callbacks E cs W) (tick_ok E a contents)"
proof (induction cs arbitrary: W)
  case (Cons c cs)
  have "tick_ok E a contents (input_device_handle_added E p W)" for p
  proof -
    have "usb (input_device_handle_added E p W) = usb W"
      by (simp add: input_device_handle_added_def split: option.split)
    moreover note tick.kept_added [OF tick_okD(2) [OF Cons.prems(1)], of p]
    ultimately show ?thesis using Cons.prems pair.paired_added [of W E p] by (simp add: tick_ok_def)
  qed
  then have "runs {} (handle_callback E c W) (tick_ok E a contents)"
    using removed_runs [OF S Cons.prems] by (cases c) (simp_all add: handle_callback_def)
  then show ?case using Cons.IH by (auto intro: runs_mono)
qed simp

lemma periodic_tick_runs:
  assumes S: "services E contents cap" and ok: "tick_ok E a contents W"
  shows "runs (refusals a) (periodic_tick E W) (\<lambda>W'. fits contents (usb W'))"
proof -
  obtain devs cs os' where e: "egc_handle_events E (os_state (usb W)) = (devs, cs, os')" by (metis prod_cases3)
  let ?W0 = "W \<lparr> egc_devices := devs, usb := (usb W) \<lparr> os_state := os' \<rparr> \<rparr>"
  have "contents os' = contents (os_state (usb W))"
    using S e unfolding services_def egc_quiet_def by (metis snd_conv)
  then have ok0: "tick_ok E a contents ?W0"
    using ok fits_os [of contents "usb W" os'] by (simp add: tick_ok_def paired_by_def)
  have d: "tick_ok E a contents (input_devices_tick W1)" if "tick_ok E a contents W1" for W1
    using that tick.kept_input_devices_tick [of E a W1] pair.paired_same [OF _ links_tick_devices, of W1]
    by (simp add: tick_ok_def input_devices_tick_def)
  show ?thesis
    unfolding periodic_tick_def e Let_def prod.case runs_simps
    by (rule runs_mono [OF runs_weaken [OF callbacks_run [OF S ok0]]])
      (auto intro: tick_devices_run [OF S d])
qed

section \<open>Properties\<close>

text \<open>C2: The timer tick makes progress.  Let the module have run from power-up without a fault, with a
  host that has rejected no connection of a Wiimote that was not active (such a rejection makes a
  later tick read a null pointer), let the reads that wait have room for 32 bytes, and let every
  extension that encrypts hold one of the legal keys (another makes it read out of bounds).  Then
  the tick dereferences no null pointer, leaves no array and passes every assertion, and the
  reads still have room afterwards, with one exception: the connect request of a Wiimote whose
  link is being set up may be refused, which fails an assertion.  The queues, the heap and the
  controller library are assumed to behave as documented.\<close>

lemma tick_never_faults:
  assumes "services E contents cap" and "powered_up W0" and "well_formed W0"
    and "(tame_step E)\<^sup>*\<^sup>* W0 W"
    and "reads_fit contents MAX_TICK_PACKET (usb W)" and "\<forall>w \<in> set (fake_wiimotes W). key_ready E w"
  shows "(\<exists>W'. periodic_tick E W = Inr W' \<and> reads_fit contents MAX_TICK_PACKET (usb W')) \<or>
    periodic_tick E W = Inl Assert_Failed \<and> (\<exists>w \<in> set (fake_wiimotes W). acl_state w = ACL_STATE_LINKING)"
proof -
  define a where "a = (\<exists>w \<in> set (fake_wiimotes W). acl_state w = ACL_STATE_LINKING)"
  have "all_slots wm_ok slot_ok W"
    using wf.kept_reachable [OF tame_modules [OF assms(4)]] assms(3) unfolding well_formed_def by blast
  then have "all_slots (ready_wm E a) slot_ok W"
    using assms(6) by (auto simp: all_slots_def list_all_iff ready_wm_def a_def)
  then have "tick_ok E a contents W"
    using pair.paired_tame [OF assms(4,2)] assms(5) by (simp add: tick_ok_def)
  from periodic_tick_runs [OF assms(1) this] show ?thesis
    by (cases "periodic_tick E W") (auto simp: refusals_def a_def split: if_splits)
qed

definition quiet_boot :: "sample_os world" where
  "quiet_boot = boot_world \<lparr> usb := (usb boot_world) \<lparr> os_state := sample_os0 \<lparr> so_queues := (\<lambda>_. []) \<rparr> \<rparr> \<rparr>"

lemma full_ext_services: "services full_ext so_queues sample_capacity"
proof -
  have s: "IOS_MESSAGE_NOBLOCK full_ext = 1" "os_message_queue_send full_ext = os_message_queue_send sample_ext"
    "os_message_queue_ack full_ext = os_message_queue_ack sample_ext" "os_heap_free full_ext = os_heap_free sample_ext"
    "os_message_queue_receive full_ext = os_message_queue_receive sample_ext" "IOS_OK sample_ext = IOS_OK full_ext"
    "injmessages_heap_data full_ext = 0x1000"
    by (simp_all add: full_ext_def sample_ext_def)
  have "queue_spec full_ext so_queues sample_capacity"
    unfolding queue_spec_def s
    by (auto simp: sample_receive_def sample_send_def sample_ack_def split: list.splits if_splits)
  moreover have "heap_spec full_ext" by (simp add: heap_spec_def s INJMESSAGE_HEAP_SIZE_def)
  moreover have "egc_quiet full_ext so_queues"
    by (simp add: egc_quiet_def) (simp add: full_ext_def sample_ext_def)
  ultimately show ?thesis by (simp add: services_def)
qed

lemma tick_never_faults_witness:
  "\<exists>W'. periodic_tick full_ext quiet_boot = Inr W' \<and> reads_fit so_queues 32 (usb W')"
proof -
  have "powered_up quiet_boot" "well_formed quiet_boot"
    using powered_up_boot_world boot_world_well_formed
    by (simp_all add: powered_up_def well_formed_def all_slots_def quiet_boot_def)
  moreover have "reads_fit so_queues MAX_TICK_PACKET (usb quiet_boot)"
    by (simp add: reads_fit_def quiet_boot_def boot_world_def queue_ids_def)
  moreover have "\<forall>w \<in> set (fake_wiimotes quiet_boot). key_ready full_ext w \<and> acl_state w \<noteq> ACL_STATE_LINKING"
    by (simp add: quiet_boot_def boot_world_def key_ready_def encryption_enabled_def idle_wiimote_def
        fake_wiimote_zero_def c_consts)
  ultimately show ?thesis
    using tick_never_faults [OF full_ext_services, of quiet_boot quiet_boot] by (auto simp: MAX_TICK_PACKET_def)
qed

end
