(* ===== verification/Packet_Room.thy ===== *)
theory Packet_Room
  imports Tick_Progress
begin

text \<open>
  Injections that succeed: while the heap and the queue have room, a packet of the module is
  accepted, and there is room for one packet less.
\<close>

section \<open>Room for packets\<close>

text \<open>
  \<open>R n\<close> holds while the heap has room for \<open>n\<close> more messages; no other call uses the heap up,
  and an acknowledgement succeeds.
\<close>

definition heap_budget :: "'os ext \<Rightarrow> (nat \<Rightarrow> 'os \<Rightarrow> bool) \<Rightarrow> bool" where
  "heap_budget E R \<longleftrightarrow>
     (\<forall>n os. R (Suc n) os \<longrightarrow> R n os) \<and>
     (\<forall>n h k os. R (Suc n) os \<and> k \<le> sizeof_injmessage + 64 \<longrightarrow>
        (\<exists>p init os'. os_heap_alloc E h k os = (Some (p, init), os') \<and> R n os')) \<and>
     (\<forall>n h p os. R n os \<longrightarrow> R n (os_heap_free E h p os)) \<and>
     (\<forall>n q f os. R n os \<longrightarrow> R n (snd (snd (os_message_queue_receive E q f os)))) \<and>
     (\<forall>n q m f os. R n os \<longrightarrow> R n (snd (os_message_queue_send E q m f os))) \<and>
     (\<forall>n m r os. R n os \<longrightarrow> R n (snd (os_message_queue_ack E m r os))) \<and>
     (\<forall>m r os. fst (os_message_queue_ack E m r os) = IOS_OK E) \<and>
     (\<forall>n p os. R n os \<longrightarrow> R n (snd (egc_input_device_resume E p os)))"

lemma heap_budgetD:
  assumes "heap_budget E R"
  shows "R (Suc n) os \<Longrightarrow> R n os"
    and "R (Suc n) os \<Longrightarrow> k \<le> sizeof_injmessage + 64 \<Longrightarrow>
      \<exists>p init os'. os_heap_alloc E h k os = (Some (p, init), os') \<and> R n os'"
    and "R n os \<Longrightarrow> R n (os_heap_free E h fp os)"
    and "R n os \<Longrightarrow> R n (snd (snd (os_message_queue_receive E q f os)))"
    and "R n os \<Longrightarrow> R n (snd (os_message_queue_send E q m f os))"
    and "R n os \<Longrightarrow> R n (snd (os_message_queue_ack E m r os))"
    and "fst (os_message_queue_ack E m r os) = IOS_OK E"
    and "R n os \<Longrightarrow> R n (snd (egc_input_device_resume E p os))"
  using assms by (auto simp: heap_budget_def)

text \<open>There is room for \<open>n\<close> packets in the heap and in the queue, and in every read that waits.\<close>

definition packet_room ::
  "(nat \<Rightarrow> 'os \<Rightarrow> bool) \<Rightarrow> ('os \<Rightarrow> int \<Rightarrow> ptr list) \<Rightarrow> (int \<Rightarrow> nat) \<Rightarrow> nat \<Rightarrow> 'os usb \<Rightarrow> bool" where
  "packet_room R contents cap n u \<longleftrightarrow> R n (os_state u) \<and> reads_fit contents 64 u \<and>
     length (contents (os_state u) (ready_queue Bulk_In u)) + n \<le> cap (ready_queue Bulk_In u)"

lemma ready_message_budget:
  assumes b: "heap_budget E R" and "R n (os_state u)"
    and "handle_bulk_intr_ready_message E q pq rq u = Inr (r, u')"
  shows "R n (os_state u') \<and> queue_ids u' = queue_ids u"
proof -
  have rcv: "R n (os_state u1) \<and> queue_ids u1 = queue_ids u0"
    if "queue_receive E k u0 = (r0, m0, u1)" "R n (os_state u0)" for k u0 r0 m0 u1
    using heap_budgetD(4) [OF b that(2), of k "IOS_MESSAGE_NOBLOCK E"] that(1)
    by (auto simp: queue_receive_def queue_ids_def split: prod.splits)
  have snd: "R n (os_state u1) \<and> queue_ids u1 = queue_ids u0"
    if "queue_send E k m0 u0 = (r0, u1)" "R n (os_state u0)" for k u0 r0 m0 u1
    using heap_budgetD(5) [OF b that(2), of k m0 "IOS_MESSAGE_NOBLOCK E"] that(1)
    by (auto simp: queue_send_def queue_ids_def split: prod.splits)
  have ack: "R n (os_state u1) \<and> queue_ids u1 = queue_ids u0"
    if "ack_message E m0 k u0 = (r0, u1)" "R n (os_state u0)" for k u0 r0 m0 u1
    using heap_budgetD(6) [OF b that(2), of m0 k] that(1)
    by (auto simp: ack_message_def queue_ids_def split: prod.splits)
  have cp: "R n (os_state u2) \<and> queue_ids u2 = queue_ids u1"
    if run: "copy_and_ack_ipcmessage E p q u1 = Inr (r0, u2)" and R: "R n (os_state u1)" for p u1 r0 u2
  proof -
    obtain m0 k st where a: "ack_message E m0 k st = (r0, u2)" "R n (os_state st)" "queue_ids st = queue_ids u1"
      using run R heap_budgetD(3) [OF b R]
      by (fastforce simp: copy_and_ack_ipcmessage_def result_simps Let_def injmessage_free_def queue_ids_def
          split: if_splits)
    then show ?thesis using ack by force
  qed
  show ?thesis
    using assms(2,3) rcv snd cp
    by (fastforce simp: handle_bulk_intr_ready_message_def split: prod.splits if_splits)
qed

lemma packet_room_injects:
  assumes S: "services E contents cap" and b: "heap_budget E R"
    and room: "packet_room R contents cap (Suc n) u" and len: "length pkt \<le> 64"
  shows "\<exists>u'. inject_packet E Bulk_In pkt u = Inr (IOS_OK E, u') \<and> packet_room R contents cap n u'"
proof -
  have spec: "queue_spec E contents cap" "heap_spec E" using S by (simp_all add: services_def)
  let ?pq = "pending_queue Bulk_In u" and ?rq = "ready_queue Bulk_In u"
  have fit: "reads_fit contents 64 u" and R: "R (Suc n) (os_state u)"
    and free: "length (contents (os_state u) ?rq) + Suc n \<le> cap ?rq"
    using room by (auto simp: packet_room_def)
  have ids: "?pq \<noteq> ?rq" using fit by (simp add: reads_fit_def queue_ids_def)
  have size: "sizeof_injmessage + unat (of_nat (length pkt) :: u16) \<le> sizeof_injmessage + 64"
    using len by (simp add: unat_of_nat)
  obtain q u1 where al: "injmessage_alloc E (of_nat (length pkt)) u = (Some q, u1)" and R1: "R n (os_state u1)"
    using heap_budgetD(2) [OF b R size, of "injmessages_heap_id u"] by (auto simp: injmessage_alloc_def)
  define u2 where "u2 = u1 \<lparr> inj_store := (inj_store u1)(q \<mapsto> \<lparr> inj_size = of_nat (length pkt), inj_data = pkt \<rparr>) \<rparr>"
  have u2: "contents (os_state u2) = contents (os_state u)" "pending_queue Bulk_In u2 = ?pq" "ready_queue Bulk_In u2 = ?rq"
    "queue_ids u2 = queue_ids u" "R n (os_state u2)"
    using injmessage_alloc_frame [OF spec(1) al] R1 by (simp_all add: u2_def queue_ids_def)
  have i: "inject_packet E Bulk_In pkt u = handle_bulk_intr_ready_message E q ?pq ?rq u2"
    using inject_packet_alloc [OF al, of Bulk_In] u2(2,3) unfolding u2_def Let_def by metis
  have "runs {} (inject_packet E Bulk_In pkt u) (\<lambda>(r, u'). reads_fit contents 64 u')"
    by (rule inject_packet_runs [OF spec fit]) (use len in simp_all)
  then obtain r u' where run: "inject_packet E Bulk_In pkt u = Inr (r, u')" and fit': "reads_fit contents 64 u'"
    by (cases "inject_packet E Bulk_In pkt u") auto
  have kept: "R n (os_state u')" "ready_queue Bulk_In u' = ?rq"
    using ready_message_budget [OF b u2(5) run [unfolded i]] u2(3,4) by (simp_all add: queue_ids_def)
  have "r = IOS_OK E \<and> length (contents (os_state u') ?rq) + n \<le> cap ?rq"
  proof (cases "contents (os_state u) ?pq")
    case Nil
    then show ?thesis
      using ready_message_no_reader(2) [OF spec(1) _ run [unfolded i]] free u2(1) by (auto split: if_splits)
  next
    case (Cons p ps)
    then obtain pm where pm: "ipc_store u p = Some pm" "read_room pm 64"
      using fit unfolding reads_fit_def by (metis list.set_intros(1))
    then have "read_room pm (length pkt)" using len by (auto simp: read_room_def)
    moreover have "length pkt < 65536" using len by simp
    ultimately obtain u3 where u3: "inject_packet E Bulk_In pkt u = Inr (answered E p q pkt pm u3)"
      "contents (os_state (snd (answered E p q pkt pm u3))) = (contents (os_state u))(?pq := ps)"
      using injected_packet_delivered [OF spec(2,1) al _ Cons pm(1)] by blast
    then have "answered E p q pkt pm u3 = (r, u')" using run by simp
    with u3(2) have "contents (os_state u') = (contents (os_state u))(?pq := ps)" "r = fst (answered E p q pkt pm u3)"
      by simp_all
    then show ?thesis
      using free ids heap_budgetD(7) [OF b] by (simp add: answered_def ack_message_def case_prod_beta)
  qed
  then show ?thesis using run kept fit' by (simp add: packet_room_def)
qed

lemma packet_room_fewer:
  "heap_budget E R \<Longrightarrow> packet_room R contents cap (Suc n) u \<Longrightarrow> packet_room R contents cap n u"
  using heap_budgetD(1) by (fastforce simp: packet_room_def)

lemma packet_room_resume:
  assumes "services E contents cap" and "heap_budget E R" and "packet_room R contents cap n u"
  shows "packet_room R contents cap n (u \<lparr> os_state := snd (egc_input_device_resume E p (os_state u)) \<rparr>)"
proof -
  have c: "contents (snd (egc_input_device_resume E p (os_state u))) = contents (os_state u)"
    using assms(1) by (simp add: services_def egc_quiet_def)
  have "reads_fit contents 64 (u \<lparr> os_state := snd (egc_input_device_resume E p (os_state u)) \<rparr>)"
    by (rule reads_fit_frame [of _ _ u]) (use assms(3) c in \<open>simp_all add: packet_room_def queue_ids_def\<close>)
  then show ?thesis
    using assms(3) heap_budgetD(8) [OF assms(2)] c by (simp add: packet_room_def)
qed

end
