(* ===== verification/Link_Setup.thy ===== *)
theory Link_Setup
  imports Sample_World Packet_Room
begin

text \<open>
  The set-up of a link after the host accepted a connection.  The abstract link is the phase of
  the two HID channels; the timer tick and the packets of the host step through it.  The code
  (\<open>fake_wiimote_tick\<close> and \<open>handle_l2cap_signal_channel\<close> in \<open>source/fake_wiimote.c\<close>) refines
  it.  \<open>Link_Host\<close> runs it against a host that answers the packets it receives.
\<close>

section \<open>The abstract link\<close>

text \<open>An open channel: accepted by the host, configured by the host, and the state of the own
  configuration.\<close>

datatype phase = Closed | Opened bool bool l2cap_channel_state

type_synonym link = "bool \<times> phase \<times> phase"

definition complete :: phase where
  "complete = Opened True True L2CAP_CHANNEL_STATE_COMPLETE"

definition fresh :: phase where
  "fresh = Opened False False L2CAP_CHANNEL_STATE_INACTIVE"

datatype link_event = Link_Tick | Connect_Rsp channel_ref u8 u16 | Config_Req channel_ref u8 "u8 list"
  | Config_Rsp channel_ref u8

fun send_config :: "phase \<Rightarrow> phase" where
  "send_config (Opened True m L2CAP_CHANNEL_STATE_INACTIVE) = Opened True m L2CAP_CHANNEL_STATE_CONFIG_PEND"
| "send_config p = p"

fun upd_phase :: "channel_ref \<Rightarrow> (phase \<Rightarrow> phase) \<Rightarrow> link \<Rightarrow> link" where
  "upd_phase HID_Cntl_Chn f (l, c, i) = (l, f c, i)"
| "upd_phase HID_Intr_Chn f (l, c, i) = (l, c, f i)"
| "upd_phase SDP_Chn f s = s"

fun phase_of :: "channel_ref \<Rightarrow> link \<Rightarrow> phase" where
  "phase_of HID_Cntl_Chn (l, c, i) = c"
| "phase_of HID_Intr_Chn (l, c, i) = i"
| "phase_of SDP_Chn s = Closed"

fun accept :: "phase \<Rightarrow> phase" where
  "accept (Opened a m s) = Opened True m s" | "accept Closed = Closed"

fun configure :: "phase \<Rightarrow> phase" where
  "configure (Opened a m s) = Opened a True s" | "configure Closed = Closed"

fun finish :: "phase \<Rightarrow> phase" where
  "finish (Opened a m s) = Opened a m L2CAP_CHANNEL_STATE_COMPLETE" | "finish Closed = Closed"

fun link_step :: "link_event \<Rightarrow> link \<Rightarrow> link" where
  "link_step Link_Tick (l, c, i) =
     (if c = Closed then (l, fresh, i)
      else if c = complete \<and> i = Closed then (l, c, fresh)
      else if c = complete \<and> i = complete then (False, c, i)
      else (l, send_config c, send_config i))"
| "link_step (Connect_Rsp ch ident dcid) s = upd_phase ch accept s"
| "link_step (Config_Req ch ident options) s = upd_phase ch configure s"
| "link_step (Config_Rsp ch ident) s = upd_phase ch finish s"

text \<open>The host answers only what it was asked, with legal values.\<close>

fun legal :: "link \<Rightarrow> link_event \<Rightarrow> bool" where
  "legal s Link_Tick \<longleftrightarrow> fst s"
| "legal s (Connect_Rsp ch ident dcid) \<longleftrightarrow> (\<exists>m p. phase_of ch s = Opened False m p) \<and> dcid \<ge> 0x40"
| "legal s (Config_Req ch ident options) \<longleftrightarrow> (\<exists>p. phase_of ch s = Opened True False p) \<and>
     length options \<le> 32 \<and> (\<exists>mtu. mtu \<noteq> 0 \<and> config_options options (length options) 0 L2CAP_MTU_DEFAULT = Inr mtu)"
| "legal s (Config_Rsp ch ident) \<longleftrightarrow> (\<exists>a m. phase_of ch s = Opened a m L2CAP_CHANNEL_STATE_CONFIG_PEND)"

section \<open>The concrete link\<close>

definition chan_phase :: "l2cap_channel_info \<Rightarrow> phase" where
  "chan_phase info =
     (if chn_valid info then Opened (chn_remote_cid info \<noteq> L2CAP_NULL_CID) (chn_remote_mtu info \<noteq> 0) (chn_state info)
      else Closed)"

definition link_of :: "fake_wiimote \<Rightarrow> link" where
  "link_of w = (acl_state w = ACL_STATE_LINKING, chan_phase (psm_hid_cntl_chn w), chan_phase (psm_hid_intr_chn w))"

text \<open>The packet of the host for an event.\<close>

fun host_packet :: "fake_wiimote \<Rightarrow> link_event \<Rightarrow> u8 list" where
  "host_packet w (Connect_Rsp ch ident dcid) = l2cap_signal_packet (fw_con_handle w) L2CAP_CONNECT_RSP ident
     (le16 dcid @ le16 (chn_local_cid (get_chn ch w)) @ le16 L2CAP_SUCCESS @ le16 L2CAP_NO_INFO)"
| "host_packet w (Config_Req ch ident options) = l2cap_signal_packet (fw_con_handle w) L2CAP_CONFIG_REQ ident
     (le16 (chn_local_cid (get_chn ch w)) @ le16 0 @ options)"
| "host_packet w (Config_Rsp ch ident) = l2cap_signal_packet (fw_con_handle w) L2CAP_CONFIG_RSP ident
     (le16 (chn_local_cid (get_chn ch w)) @ le16 0 @ le16 L2CAP_SUCCESS)"
| "host_packet w Link_Tick = []"

definition link_event_run :: "'os ext \<Rightarrow> nat \<Rightarrow> link_event \<Rightarrow> 'os world \<Rightarrow> 'os world result" where
  "link_event_run E j ev W =
     (if ev = Link_Tick then fake_wiimote_tick E j W
      else fake_wiimote_handle_acl_data_out_request_from_host E j (host_packet (fake_wiimotes W ! j) ev) W)"

fun link_run :: "'os ext \<Rightarrow> nat \<Rightarrow> link_event list \<Rightarrow> 'os world \<Rightarrow> 'os world result" where
  "link_run E j [] W = Inr W"
| "link_run E j (ev # evs) W = rbind (link_event_run E j ev W) (link_run E j evs)"

definition link_rel :: "nat \<Rightarrow> 'os world \<Rightarrow> link \<Rightarrow> bool" where
  "link_rel j W s \<longleftrightarrow> j < length (fake_wiimotes W) \<and>
     (let w = fake_wiimotes W ! j; cntl = psm_hid_cntl_chn w; intr = psm_hid_intr_chn w in
        link_of w = s \<and> baseband_state w = BASEBAND_STATE_COMPLETE \<and> \<not> chn_valid (psm_sdp_chn w) \<and>
        (\<exists>i < length (input_devices W). input_device w = Some i) \<and>
        (chn_valid intr \<longrightarrow> chan_phase cntl = complete \<and> chn_local_cid intr \<noteq> chn_local_cid cntl) \<and>
        (chn_valid cntl \<and> \<not> chn_valid intr \<longrightarrow> l2cap_starting_id W = chn_local_cid cntl + 1))"

text \<open>\<open>I n\<close> holds when \<open>n\<close> more packets can be injected; what the other parts of the world do
  does not matter.\<close>

definition can_inject :: "'os ext \<Rightarrow> (nat \<Rightarrow> 'os usb \<Rightarrow> bool) \<Rightarrow> bool" where
  "can_inject E I \<longleftrightarrow>
     (\<forall>n u pkt. I (Suc n) u \<and> length pkt \<le> 64 \<longrightarrow> (\<exists>u'. inject_packet E Bulk_In pkt u = Inr (IOS_OK E, u') \<and> I n u')) \<and>
     (\<forall>n u. I (Suc n) u \<longrightarrow> I n u) \<and>
     (\<forall>n u p. I n u \<longrightarrow> I n (u \<lparr> os_state := snd (egc_input_device_resume E p (os_state u)) \<rparr>))"

lemma can_injectD:
  assumes "can_inject E I"
  shows "I (Suc n) u \<Longrightarrow> length pkt \<le> 64 \<Longrightarrow> \<exists>u'. inject_packet E Bulk_In pkt u = Inr (IOS_OK E, u') \<and> I n u'"
    and "I (Suc n) u \<Longrightarrow> I n u"
    and "I n u \<Longrightarrow> I n (u \<lparr> os_state := snd (egc_input_device_resume E p (os_state u)) \<rparr>)"
  using assms unfolding can_inject_def by blast+

lemma room_can_inject:
  assumes "services E contents cap" and "heap_budget E R"
  shows "can_inject E (packet_room R contents cap)"
  unfolding can_inject_def
  using packet_room_injects [OF assms] packet_room_fewer [OF assms(2)] packet_room_resume [OF assms] by blast

section \<open>A packet of the host\<close>

lemma signal_packet_dispatch:
  assumes "length cp < 60000"
  shows "fake_wiimote_handle_acl_data_out_request_from_host E j (l2cap_signal_packet h code ident cp) W =
    handle_l2cap_signal_channel E j code ident cp (of_nat (length cp))
      (upd_wm j (\<lambda>w. w \<lparr> num_completed_acl_data_packets := num_completed_acl_data_packets w + 1 \<rparr>) W)"
proof -
  let ?data = "l2cap_command code ident cp" and ?n = "of_nat (length cp) :: u16"
  have d: "?data = [code, ident, ucast ?n, ucast (drop_bit 8 ?n)] @ cp"
    by (simp add: l2cap_command_def le16_def)
  have r: "read_le16 ?data l2cap_cmd_hdr_t_length = Inr ?n" "read_u8 ?data l2cap_cmd_hdr_t_code = Inr code"
    "read_u8 ?data l2cap_cmd_hdr_t_ident = Inr ident" "drop sizeof_l2cap_cmd_hdr_t ?data = cp"
    unfolding d by (simp_all add: read_le16_def read_u8_def c_consts)
  have len: "of_nat sizeof_l2cap_cmd_hdr_t \<le> (of_nat (4 + length cp) :: u16)"
  proof -
    have "unat (of_nat (4 + length cp) :: u16) = 4 + length cp"
      using assms by (simp add: unat_of_nat del: of_nat_add)
    then show ?thesis unfolding word_le_nat_alt by (simp add: c_consts)
  qed
  have z: "handle_l2cap_signal_channel_request E j d 0 = Inr" for d
    by (rule ext) (simp add: handle_l2cap_signal_channel_request.simps c_consts)
  have loop: "handle_l2cap_signal_channel_request E j ?data (of_nat (4 + length cp)) W1 =
      handle_l2cap_signal_channel E j code ident cp ?n W1" for W1
    unfolding handle_l2cap_signal_channel_request.simps [of E j ?data] if_P [OF len] r rbind_Inr
    using z by (simp add: c_consts)
  define hd where "hd = le16 (HCI_MK_CON_HANDLE h HCI_PACKET_START HCI_POINT2POINT) @
    le16 (of_nat (length (l2cap_frame L2CAP_SIGNAL_CID ?data)))"
  have hd: "length hd = 4" by (simp add: hd_def)
  have p: "l2cap_signal_packet h code ident cp = hd @ le16 (of_nat (4 + length cp)) @ le16 L2CAP_SIGNAL_CID @ ?data"
    by (simp add: l2cap_signal_packet_def acl_packet_def hd_def l2cap_frame_def)
  have f: "read_le16 (hd @ le16 x @ le16 y @ d) (sizeof_hci_acldata_hdr_t + l2cap_hdr_t_length) = Inr x"
    "read_le16 (hd @ le16 x @ le16 y @ d) (sizeof_hci_acldata_hdr_t + l2cap_hdr_t_dcid) = Inr y"
    "drop (sizeof_hci_acldata_hdr_t + sizeof_l2cap_hdr_t) (hd @ le16 x @ le16 y @ d) = d" for x y d
    using hd by (simp_all add: read_le16_def read_u8_def c_consts nth_append le16_def)
  show ?thesis
    unfolding fake_wiimote_handle_acl_data_out_request_from_host_def p f Let_def rbind_Inr
    using loop by simp
qed

section \<open>The code follows the abstract link\<close>

lemma chan_phase_fields [simp]:
  "chan_phase info = Closed \<longleftrightarrow> \<not> chn_valid info"
  by (simp add: chan_phase_def)

lemma complete_phase: "l2cap_channel_is_complete info \<longleftrightarrow> chan_phase info = complete"
  by (auto simp: l2cap_channel_is_complete_def l2cap_channel_is_accepted_def
      l2cap_channel_is_is_remote_configured_def chan_phase_def complete_def)

lemma complete_valid: "chan_phase info = complete \<Longrightarrow> chn_valid info"
  by (simp add: chan_phase_def complete_def split: if_splits)

definition counted :: "fake_wiimote \<Rightarrow> fake_wiimote" where
  "counted w = w \<lparr> num_completed_acl_data_packets := num_completed_acl_data_packets w + 1 \<rparr>"

lemma counted_fields [simp]:
  "get_chn ch (counted w) = get_chn ch w" "acl_state (counted w) = acl_state w" "psm_sdp_chn (counted w) = psm_sdp_chn w"
  "psm_hid_cntl_chn (counted w) = psm_hid_cntl_chn w" "psm_hid_intr_chn (counted w) = psm_hid_intr_chn w"
  "baseband_state (counted w) = baseband_state w" "fake_wiimote.input_device (counted w) = fake_wiimote.input_device w"
  "fw_con_handle (counted w) = fw_con_handle w"
  by (cases ch) (simp_all add: counted_def)

lemma find_channel:
  assumes "link_rel j W s" and "phase_of ch s \<noteq> Closed" and w: "w = fake_wiimotes W ! j"
  shows "get_channel_info (counted w) (chn_local_cid (get_chn ch w)) = Some ch"
  using assms
  by (cases ch) (auto simp: link_rel_def Let_def get_channel_info_def link_of_def dest: complete_valid)

lemma host_values:
  "read_le16 (le16 a @ xs) 0 = Inr a" "read_le16 (le16 a @ le16 b @ xs) 2 = Inr b"
  "read_le16 (le16 a @ le16 b @ le16 c @ xs) 4 = Inr c"
  "read_le16 (le16 a @ le16 b @ le16 c) 4 = Inr c"
  "read_le16 (le16 a @ le16 b @ le16 c @ le16 d) 6 = Inr d"
  by (simp_all add: read_le16_def read_u8_def le16_def)

text \<open>An update of one channel of a link.\<close>

lemma link_rel_upd:
  assumes rel: "link_rel j W s" and opened: "phase_of ch s \<noteq> Closed"
    and keep: "chn_valid (f (get_chn ch (fake_wiimotes W ! j)))" "chn_local_cid (f (get_chn ch (fake_wiimotes W ! j))) = chn_local_cid (get_chn ch (fake_wiimotes W ! j))"
    and ph: "chan_phase (f (get_chn ch (fake_wiimotes W ! j))) = g (phase_of ch s)"
    and cntl: "g complete = complete"
    and W': "fake_wiimotes W' = (fake_wiimotes W)[j := upd_chn ch f (counted (fake_wiimotes W ! j))]"
      "input_devices W' = input_devices W" "l2cap_starting_id W' = l2cap_starting_id W"
  shows "link_rel j W' (upd_phase ch g s)"
proof -
  obtain l c i where s: "s = (l, c, i)" by (cases s)
  show ?thesis
    using assms
    by (cases ch) (auto simp: s link_rel_def Let_def link_of_def split: if_splits dest: complete_valid)
qed

lemma phase_get_chn:
  assumes "link_rel j W s" and "phase_of ch s \<noteq> Closed"
  shows "phase_of ch s = chan_phase (get_chn ch (fake_wiimotes W ! j))"
  using assms by (cases ch) (auto simp: link_rel_def Let_def link_of_def)

lemma counted_world:
  "upd_wm j (\<lambda>w. w \<lparr> num_completed_acl_data_packets := num_completed_acl_data_packets w + 1 \<rparr>) W = upd_wm j counted W"
  by (simp add: counted_def [abs_def])

lemma connect_rsp_simulated:
  assumes rel: "link_rel j W s" and legal: "legal s (Connect_Rsp ch ident dcid)"
  shows "\<exists>W'. link_event_run E j (Connect_Rsp ch ident dcid) W = Inr W' \<and>
    link_rel j W' (link_step (Connect_Rsp ch ident dcid) s) \<and> usb W' = usb W"
proof -
  let ?w = "fake_wiimotes W ! j"
  obtain m p where ph: "phase_of ch s = Opened False m p" and dcid: "dcid \<ge> 0x40" using legal by auto
  have j: "j < length (fake_wiimotes W)" using rel by (simp add: link_rel_def)
  have find: "get_channel_info (counted ?w) (chn_local_cid (get_chn ch ?w)) = Some ch"
    using find_channel [OF rel] ph by simp
  have nz: "dcid \<noteq> L2CAP_PSM_NOT_SUPPORTED" "dcid \<noteq> L2CAP_NULL_CID" using dcid by (auto simp: c_consts)
  let ?f = "\<lambda>i. i \<lparr> chn_remote_cid := dcid \<rparr>"
  define W' where "W' = upd_wm j (upd_chn ch ?f) (upd_wm j counted W)"
  have run: "link_event_run E j (Connect_Rsp ch ident dcid) W = Inr W'"
    using find nz j unfolding W'_def
    by (simp add: link_event_run_def signal_packet_dispatch counted_world handle_l2cap_signal_channel_def
        handle_l2cap_connect_rsp_def host_values c_consts at_def upd_wm_def)
  have "link_rel j W' (upd_phase ch accept s)"
  proof (rule link_rel_upd [OF rel, where f = ?f])
    show "chan_phase (?f (get_chn ch ?w)) = accept (phase_of ch s)"
      using phase_get_chn [OF rel, of ch] ph nz by (auto simp: chan_phase_def split: if_splits)
    show "chn_valid (?f (get_chn ch ?w))"
      using phase_get_chn [OF rel, of ch] ph by (auto simp: chan_phase_def split: if_splits)
  qed (use ph j in \<open>simp_all add: complete_def W'_def upd_wm_def\<close>)
  then show ?thesis using run by (simp add: W'_def upd_wm_def)
qed

lemma config_rsp_simulated:
  assumes rel: "link_rel j W s" and legal: "legal s (Config_Rsp ch ident)"
  shows "\<exists>W'. link_event_run E j (Config_Rsp ch ident) W = Inr W' \<and>
    link_rel j W' (link_step (Config_Rsp ch ident) s) \<and> usb W' = usb W"
proof -
  let ?w = "fake_wiimotes W ! j"
  obtain a m where ph: "phase_of ch s = Opened a m L2CAP_CHANNEL_STATE_CONFIG_PEND" using legal by auto
  have j: "j < length (fake_wiimotes W)" using rel by (simp add: link_rel_def)
  have find: "get_channel_info (counted ?w) (chn_local_cid (get_chn ch ?w)) = Some ch"
    using find_channel [OF rel] ph by simp
  let ?f = "\<lambda>i. i \<lparr> chn_state := L2CAP_CHANNEL_STATE_COMPLETE \<rparr>"
  define W' where "W' = upd_wm j (upd_chn ch ?f) (upd_wm j counted W)"
  have run: "link_event_run E j (Config_Rsp ch ident) W = Inr W'"
    using find j unfolding W'_def
    by (simp add: link_event_run_def signal_packet_dispatch counted_world handle_l2cap_signal_channel_def
        handle_l2cap_config_rsp_def host_values c_consts at_def upd_wm_def)
  have "link_rel j W' (upd_phase ch finish s)"
  proof (rule link_rel_upd [OF rel, where f = ?f])
    show "chan_phase (?f (get_chn ch ?w)) = finish (phase_of ch s)"
      using phase_get_chn [OF rel, of ch] ph by (auto simp: chan_phase_def split: if_splits)
    show "chn_valid (?f (get_chn ch ?w))"
      using phase_get_chn [OF rel, of ch] ph by (auto simp: chan_phase_def split: if_splits)
  qed (use ph j in \<open>simp_all add: complete_def W'_def upd_wm_def\<close>)
  then show ?thesis using run by (simp add: W'_def upd_wm_def)
qed

lemma config_rsp_injected:
  assumes h: "heap_spec E" and inj: "can_inject E I" and u: "I (Suc n) u" and l: "length options \<le> 32"
  shows "\<exists>u'. inject_l2cap_config_rsp E con cid ident options (length options) u = Inr (IOS_OK E, u') \<and> I n u'"
proof -
  have "length (l2cap_signal_packet con L2CAP_CONFIG_RSP ident
      (le16 cid @ le16 0 @ le16 L2CAP_SUCCESS @ take (length options) options)) \<le> 64"
    using l by (simp add: l2cap_signal_packet_def)
  from can_injectD(1) [OF inj u this] show ?thesis
    using l by (simp add: config_rsp_wire [OF h])
qed

lemma config_req_simulated:
  assumes rel: "link_rel j W s" and legal: "legal s (Config_Req ch ident options)"
    and h: "heap_spec E" and inj: "can_inject E I" and u: "I (Suc n) (usb W)"
  shows "\<exists>W'. link_event_run E j (Config_Req ch ident options) W = Inr W' \<and>
    link_rel j W' (link_step (Config_Req ch ident options) s) \<and> I n (usb W')"
proof -
  let ?w = "fake_wiimotes W ! j"
  obtain p mtu where ph: "phase_of ch s = Opened True False p" and l: "length options \<le> 32"
    and mtu: "mtu \<noteq> 0" "config_options options (length options) 0 L2CAP_MTU_DEFAULT = Inr mtu"
    using legal by auto
  have j: "j < length (fake_wiimotes W)" using rel by (simp add: link_rel_def)
  have find: "get_channel_info (counted ?w) (chn_local_cid (get_chn ch ?w)) = Some ch"
    using find_channel [OF rel] ph by simp
  let ?f = "\<lambda>i. i \<lparr> chn_remote_mtu := mtu \<rparr>"
  obtain u' where i: "inject_l2cap_config_rsp E (fw_con_handle (upd_chn ch ?f (counted ?w)))
      (chn_remote_cid (get_chn ch (upd_chn ch ?f (counted ?w)))) ident options (length options) (usb W) =
      Inr (IOS_OK E, u')" and u': "I n u'"
    using config_rsp_injected [OF h inj u l] by blast
  have sz: "unat (of_nat (4 + length options) - 4 :: u16) = length options"
    using l by (simp add: unat_of_nat)
  define W' where "W' = (upd_wm j (upd_chn ch ?f) (upd_wm j counted W)) \<lparr> usb := u' \<rparr>"
  have c: "handle_l2cap_config_req E ident (chn_local_cid (get_chn ch ?w)) 0 options (length options) (counted ?w) (usb W) =
      Inr (upd_chn ch ?f (counted ?w), u')"
    using find mtu i by (simp add: handle_l2cap_config_req_def Let_def)
  have run: "link_event_run E j (Config_Req ch ident options) W = Inr W'"
    using c j sz l unfolding W'_def
    by (simp add: link_event_run_def signal_packet_dispatch counted_world handle_l2cap_signal_channel_def
        host_values c_consts on_wm_state_def on_wm_def at_def upd_wm_def)
  have "link_rel j W' (upd_phase ch configure s)"
  proof (rule link_rel_upd [OF rel, where f = ?f])
    show "chan_phase (?f (get_chn ch ?w)) = configure (phase_of ch s)"
      using phase_get_chn [OF rel, of ch] ph mtu(1) by (auto simp: chan_phase_def split: if_splits)
    show "chn_valid (?f (get_chn ch ?w))"
      using phase_get_chn [OF rel, of ch] ph by (auto simp: chan_phase_def split: if_splits)
  qed (use ph j in \<open>simp_all add: complete_def W'_def upd_wm_def\<close>)
  then show ?thesis using run u' by (simp add: W'_def)
qed

subsection \<open>The tick\<close>

lemma send_config_sent:
  assumes h: "heap_spec E" and inj: "can_inject E I" and u: "I (Suc n) u"
    and ph: "chan_phase (get_chn c w) = Opened True m L2CAP_CHANNEL_STATE_INACTIVE"
  shows "\<exists>u'. check_send_config_for_new_channel E c w u =
    Inr (upd_chn c (\<lambda>i. i \<lparr> chn_state := L2CAP_CHANNEL_STATE_CONFIG_PEND \<rparr>) w, u') \<and> I n u'"
proof -
  have "length (l2cap_signal_packet con L2CAP_CONFIG_REQ L2CAP_CONFIG_REQ
      (le16 cid @ le16 0 @ l2cap_config_req_options mtu fl)) \<le> 64" for con cid mtu fl
    by (simp add: l2cap_signal_packet_def l2cap_config_req_options_def)
  from can_injectD(1) [OF inj u this]
  obtain u' where "inject_l2cap_config_req E (fw_con_handle w) (chn_remote_cid (get_chn c w)) WII_REQUEST_MTU
      L2CAP_FLUSH_TIMO_DEFAULT u = Inr (IOS_OK E, u')" "I n u'"
    unfolding config_req_wire [OF h] by blast
  then show ?thesis
    using ph by (auto simp: check_send_config_for_new_channel_def Let_def
        chan_phase_def l2cap_channel_is_accepted_def split: if_splits)
qed

lemma send_config_not_sent:
  assumes "\<nexists>m. chan_phase (get_chn c w) = Opened True m L2CAP_CHANNEL_STATE_INACTIVE"
  shows "check_send_config_for_new_channel E c w u = Inr (w, u)"
  using assms by (auto simp: check_send_config_for_new_channel_def Let_def chan_phase_def
      l2cap_channel_is_accepted_def split: if_splits)

lemma send_config_none: "\<nexists>m. p = Opened True m L2CAP_CHANNEL_STATE_INACTIVE \<Longrightarrow> send_config p = p"
  by (cases p rule: send_config.cases) auto

lemma on_wm_no_config:
  assumes "\<nexists>m. chan_phase (get_chn ch (fake_wiimotes W ! j)) = Opened True m L2CAP_CHANNEL_STATE_INACTIVE"
    and "j < length (fake_wiimotes W)"
  shows "on_wm_state (check_send_config_for_new_channel E ch) j W = Inr W"
  using assms by (simp add: on_wm_state_def on_wm_def at_def send_config_not_sent upd_wm_def)

text \<open>Both channels: at most one of them sends its configuration.\<close>

lemma send_configs_simulated:
  assumes h: "heap_spec E" and inj: "can_inject E I" and u: "I (Suc n) (usb W)"
    and rel: "link_rel j W (l, c, i)" and "c \<noteq> Closed"
  shows "\<exists>W'. rbind (on_wm_state (check_send_config_for_new_channel E HID_Cntl_Chn) j W)
      (on_wm_state (check_send_config_for_new_channel E HID_Intr_Chn) j) = Inr W' \<and>
    link_rel j W' (l, send_config c, send_config i) \<and> I n (usb W')"
proof -
  let ?w = "fake_wiimotes W ! j"
  have j: "j < length (fake_wiimotes W)" using rel by (simp add: link_rel_def)
  have c: "chan_phase (get_chn HID_Cntl_Chn ?w) = c" and i: "chan_phase (get_chn HID_Intr_Chn ?w) = i"
    using rel by (simp_all add: link_rel_def Let_def link_of_def)
  have some: "\<exists>W'. on_wm_state (check_send_config_for_new_channel E ch) j W1 = Inr W' \<and> I n (usb W') \<and>
      fake_wiimotes W' = (fake_wiimotes W1)[j := upd_chn ch (\<lambda>i. i \<lparr> chn_state := L2CAP_CHANNEL_STATE_CONFIG_PEND \<rparr>)
        (fake_wiimotes W1 ! j)] \<and> input_devices W' = input_devices W1 \<and> l2cap_starting_id W' = l2cap_starting_id W1"
    if ph: "chan_phase (get_chn ch (fake_wiimotes W1 ! j)) = Opened True m L2CAP_CHANNEL_STATE_INACTIVE"
      and j1: "j < length (fake_wiimotes W1)" and u1: "I (Suc n) (usb W1)" for ch m and W1 :: "'a world"
  proof -
    obtain u' where "check_send_config_for_new_channel E ch (fake_wiimotes W1 ! j) (usb W1) =
      Inr (upd_chn ch (\<lambda>i. i \<lparr> chn_state := L2CAP_CHANNEL_STATE_CONFIG_PEND \<rparr>) (fake_wiimotes W1 ! j), u')" "I n u'"
      using send_config_sent [OF h inj u1 ph] by blast
    then show ?thesis
      using j1 by (simp add: on_wm_state_def on_wm_def at_def upd_wm_def)
  qed
  show ?thesis
  proof (cases "\<exists>m. c = Opened True m L2CAP_CHANNEL_STATE_INACTIVE")
    case True
    then obtain m where m: "c = Opened True m L2CAP_CHANNEL_STATE_INACTIVE" by blast
    then have "i = Closed" using rel by (auto simp: link_rel_def Let_def link_of_def complete_def)
    obtain W1 where r1: "on_wm_state (check_send_config_for_new_channel E HID_Cntl_Chn) j W = Inr W1" "I n (usb W1)"
      and w1: "fake_wiimotes W1 = (fake_wiimotes W)[j := upd_chn HID_Cntl_Chn (\<lambda>i. i \<lparr> chn_state := L2CAP_CHANNEL_STATE_CONFIG_PEND \<rparr>) ?w]"
        "input_devices W1 = input_devices W" "l2cap_starting_id W1 = l2cap_starting_id W"
      using some [OF _ j u] c m by blast
    have "on_wm_state (check_send_config_for_new_channel E HID_Intr_Chn) j W1 = Inr W1"
      using \<open>i = Closed\<close> i j by (intro on_wm_no_config) (simp_all add: w1 chan_phase_def)
    moreover have "link_rel j W1 (l, send_config c, send_config i)"
      using rel m \<open>i = Closed\<close> w1
      by (auto simp: link_rel_def Let_def link_of_def chan_phase_def complete_def split: if_splits)
    ultimately show ?thesis using r1 by simp
  next
    case False
    then have r1: "on_wm_state (check_send_config_for_new_channel E HID_Cntl_Chn) j W = Inr W" "send_config c = c"
      using on_wm_no_config [of HID_Cntl_Chn W j] c j send_config_none by simp_all
    show ?thesis
    proof (cases "\<exists>m. i = Opened True m L2CAP_CHANNEL_STATE_INACTIVE")
      case True
      then obtain m where m: "i = Opened True m L2CAP_CHANNEL_STATE_INACTIVE" by blast
      obtain W1 where r2: "on_wm_state (check_send_config_for_new_channel E HID_Intr_Chn) j W = Inr W1" "I n (usb W1)"
        and w1: "fake_wiimotes W1 = (fake_wiimotes W)[j := upd_chn HID_Intr_Chn (\<lambda>i. i \<lparr> chn_state := L2CAP_CHANNEL_STATE_CONFIG_PEND \<rparr>) ?w]"
          "input_devices W1 = input_devices W" "l2cap_starting_id W1 = l2cap_starting_id W"
        using some [OF _ j u] i m by blast
      have "link_rel j W1 (l, send_config c, send_config i)"
        using rel m r1(2) w1
        by (auto simp: link_rel_def Let_def link_of_def chan_phase_def complete_def split: if_splits)
      then show ?thesis using r1 r2 by simp
    next
      case False
      then have "on_wm_state (check_send_config_for_new_channel E HID_Intr_Chn) j W = Inr W" "send_config i = i"
        using on_wm_no_config [of HID_Intr_Chn W j] i j send_config_none by simp_all
      then show ?thesis using r1 rel can_injectD(2) [OF inj u] by simp
    qed
  qed
qed

lemma open_channel_simulated:
  assumes h: "heap_spec E" and inj: "can_inject E I" and u: "I (Suc n) (usb W)"
    and rel: "link_rel j W (l, c, i)"
    and ch: "ch = HID_Cntl_Chn \<and> c = Closed \<or> ch = HID_Intr_Chn \<and> c = complete \<and> i = Closed"
  shows "\<exists>W'. open_channel E psm ch j W = Inr W' \<and> link_rel j W' (upd_phase ch (\<lambda>_. fresh) (l, c, i)) \<and> I n (usb W')"
proof -
  let ?w = "fake_wiimotes W ! j" and ?id = "l2cap_starting_id W"
  have j: "j < length (fake_wiimotes W)" using rel by (simp add: link_rel_def)
  have "length (l2cap_signal_packet con L2CAP_CONNECT_REQ L2CAP_CONNECT_REQ (le16 psm @ le16 cid)) \<le> 64" for con cid
    by (simp add: l2cap_signal_packet_def)
  from can_injectD(1) [OF inj u this]
  obtain u' where i: "inject_l2cap_connect_req E (fw_con_handle ?w) psm ?id (usb W) = Inr (IOS_OK E, u')" "I n u'"
    unfolding connect_req_wire [OF h] by blast
  define W' where "W' = upd_wm j (upd_chn ch (l2cap_channel_info_setup psm ?id))
    (W \<lparr> l2cap_starting_id := ?id + 1, usb := u' \<rparr>)"
  have "open_channel E psm ch j W = Inr W'"
    using i j by (simp add: open_channel_def generate_l2cap_channel_id_def at_def inject_ok_def on_usb_def W'_def)
  moreover have "link_rel j W' (upd_phase ch (\<lambda>_. fresh) (l, c, i))"
    using rel ch
    by (auto simp: link_rel_def Let_def link_of_def W'_def upd_wm_def chan_phase_def l2cap_channel_info_setup_def
        fresh_def complete_def L2CAP_NULL_CID_def split: if_splits)
  ultimately show ?thesis using i(2) by (simp add: W'_def upd_wm_def)
qed

lemma tick_simulated:
  assumes h: "heap_spec E" and inj: "can_inject E I" and u: "I (Suc n) (usb W)"
    and rel: "link_rel j W (True, c, i)"
  shows "\<exists>W'. fake_wiimote_tick E j W = Inr W' \<and> link_rel j W' (link_step Link_Tick (True, c, i)) \<and> I n (usb W')"
proof -
  let ?w = "fake_wiimotes W ! j"
  define send where "send = (\<lambda>W1. rbind (on_wm_state (check_send_config_for_new_channel E HID_Cntl_Chn) j W1)
             (on_wm_state (check_send_config_for_new_channel E HID_Intr_Chn) j))"
  have j: "j < length (fake_wiimotes W)" and cp: "chan_phase (psm_hid_cntl_chn ?w) = c"
    and ip: "chan_phase (psm_hid_intr_chn ?w) = i" and l: "acl_state ?w = ACL_STATE_LINKING"
    and b: "baseband_state ?w = BASEBAND_STATE_COMPLETE"
    and ci: "i \<noteq> Closed \<Longrightarrow> c = complete"
    using rel by (auto simp: link_rel_def Let_def link_of_def)
  have tick: "fake_wiimote_tick E j W = tick_linking E j W"
    using j l b by (simp add: fake_wiimote_tick_def at_def)
  have unsent: "send W1 = Inr W1" if "link_rel j W1 (l', c', i')" and "c' = fresh \<or> c' = complete" and "i' = Closed \<or> i' = fresh"
    for W1 l' c' i'
    unfolding send_def using that
    by (subst on_wm_no_config) (auto simp: link_rel_def Let_def link_of_def fresh_def complete_def
        intro!: on_wm_no_config split: if_splits)
  show ?thesis
  proof (cases "c = Closed")
    case True
    then have "i = Closed" using ci by (cases "i = Closed") (auto simp: complete_def)
    obtain W1 where o: "open_channel E L2CAP_PSM_HID_CNTL HID_Cntl_Chn j W = Inr W1" "I n (usb W1)"
      and r1: "link_rel j W1 (True, fresh, i)"
      using open_channel_simulated [OF h inj u rel, of HID_Cntl_Chn] True by auto
    have "tick_linking E j W = Inr W1"
      using o unsent [OF r1] True cp j \<open>i = Closed\<close>
      by (auto simp: tick_linking_def Let_def at_def send_def [symmetric])
    then show ?thesis using tick True r1 o(2) by simp
  next
    case opened: False
    show ?thesis
    proof (cases "c = complete \<and> i = Closed")
      case True
      obtain W1 where o: "open_channel E L2CAP_PSM_HID_INTR HID_Intr_Chn j W = Inr W1" "I n (usb W1)"
        and r1: "link_rel j W1 (True, c, fresh)"
        using open_channel_simulated [OF h inj u rel, of HID_Intr_Chn] True by auto
      have v: "chn_valid (psm_hid_cntl_chn ?w)" using opened cp by auto
      have "tick_linking E j W = Inr W1"
        using v o unsent [OF r1] True cp ip opened j
        by (auto simp: tick_linking_def Let_def at_def send_def [symmetric] complete_phase)
      then show ?thesis using tick True opened r1 o(2) by simp
    next
      case nopen: False
      show ?thesis
      proof (cases "c = complete \<and> i = complete")
        case True
        then obtain sl where sl: "fake_wiimote.input_device ?w = Some sl" "sl < length (input_devices W)"
          using rel by (auto simp: link_rel_def Let_def)
        define W0 where "W0 = upd_wm j (\<lambda>w. w \<lparr> acl_state := ACL_STATE_INACTIVE \<rparr>) W"
        define W1 where "W1 = snd (egc_call (egc_input_device_resume E (dev_device (input_devices W ! sl))) W0)"
        have "tick_linking E j W = Inr W1"
          using True cp ip opened j sl
          by (auto simp: tick_linking_def Let_def at_def send_def [symmetric] complete_phase ignore_ret_def
              input_device_resume_def W1_def W0_def upd_wm_def case_prod_beta complete_valid)
        moreover have "link_rel j W1 (False, c, i)"
          using rel True
          by (auto simp: link_rel_def Let_def link_of_def W1_def W0_def upd_wm_def egc_call_def split: prod.split)
        moreover have "I n (usb W1)"
          using can_injectD(2,3) [OF inj] u by (simp add: W1_def W0_def egc_call_def case_prod_beta upd_wm_def)
        ultimately show ?thesis using tick opened nopen True by simp
      next
        case False
        obtain W1 where "send W = Inr W1" "link_rel j W1 (True, send_config c, send_config i)" "I n (usb W1)"
          using send_configs_simulated [OF h inj u rel opened] by (auto simp: send_def)
        then show ?thesis
          using tick opened nopen False cp ip j
          by (auto simp: tick_linking_def Let_def at_def send_def [symmetric] complete_phase)
      qed
    qed
  qed
qed

section \<open>Runs\<close>

lemma link_event_simulated:
  assumes h: "heap_spec E" and inj: "can_inject E I" and u: "I (Suc n) (usb W)"
    and rel: "link_rel j W s" and legal: "legal s ev"
  shows "\<exists>W'. link_event_run E j ev W = Inr W' \<and> link_rel j W' (link_step ev s) \<and> I n (usb W')"
proof (cases ev)
  case Link_Tick
  obtain c i where "s = (True, c, i)" using legal Link_Tick by (cases s) auto
  then show ?thesis using tick_simulated [OF h inj u, of j c i] rel by (simp add: Link_Tick link_event_run_def)
next
  case (Connect_Rsp ch ident dcid)
  then show ?thesis
    using connect_rsp_simulated [OF rel] legal can_injectD(2) [OF inj u] by metis
next
  case (Config_Req ch ident options)
  then show ?thesis using config_req_simulated [OF rel _ h inj u] legal by metis
next
  case (Config_Rsp ch ident)
  then show ?thesis
    using config_rsp_simulated [OF rel] legal can_injectD(2) [OF inj u] by metis
qed

fun legal_run :: "link \<Rightarrow> link_event list \<Rightarrow> bool" where
  "legal_run s [] \<longleftrightarrow> True"
| "legal_run s (ev # evs) \<longleftrightarrow> legal s ev \<and> legal_run (link_step ev s) evs"

abbreviation steps :: "link_event list \<Rightarrow> link \<Rightarrow> link" where
  "steps \<equiv> fold link_step"

lemma link_run_simulated:
  assumes h: "heap_spec E" and inj: "can_inject E I"
  shows "I (length evs) (usb W) \<Longrightarrow> link_rel j W s \<Longrightarrow> legal_run s evs \<Longrightarrow>
    \<exists>W'. link_run E j evs W = Inr W' \<and> link_rel j W' (steps evs s)"
proof (induction evs arbitrary: W s)
  case (Cons ev evs)
  then obtain W1 where "link_event_run E j ev W = Inr W1" "link_rel j W1 (link_step ev s)" "I (length evs) (usb W1)"
    using link_event_simulated [OF h inj] by (metis length_Cons legal_run.simps(2))
  with Cons.IH [of W1] Cons.prems(3) show ?case by simp
qed simp

section \<open>The start of a link\<close>

text \<open>The host accepts the connection of a Wiimote that has no channel.\<close>

lemma accepted_link:
  assumes run: "fake_wiimote_handle_hci_cmd_accept_con E j role W = Inr W'"
    and none: "\<And>ch. \<not> chn_valid (get_chn ch (fake_wiimotes W ! j))"
    and slot: "fake_wiimote.input_device (fake_wiimotes W ! j) = Some i" "i < length (input_devices W)"
  shows "link_rel j W' (True, Closed, Closed)"
proof -
  have j: "j < length (fake_wiimotes W)"
    using run by (auto simp: fake_wiimote_handle_hci_cmd_accept_con_def at_def split: if_splits)
  obtain h where w: "fake_wiimotes W' = (fake_wiimotes W)[j := (fake_wiimotes W ! j) \<lparr>
      baseband_state := BASEBAND_STATE_COMPLETE, fw_con_handle := h, acl_state := ACL_STATE_LINKING \<rparr>]"
    and d: "input_devices W' = input_devices W"
    using run by (auto simp: fake_wiimote_handle_hci_cmd_accept_con_def case_prod_beta Let_def result_simps
        inject_ok_def on_usb_def upd_wm_def at_def split: if_splits)
  show ?thesis
    using j slot none [of HID_Cntl_Chn] none [of HID_Intr_Chn] none [of SDP_Chn]
    by (simp add: link_rel_def Let_def link_of_def w d)
qed

section \<open>Properties\<close>

text \<open>C3: The set-up of a link refines the abstract link of two channel phases: while the packets of the Wiimote find room, every sequence of timer ticks and legal host packets runs without a fault, and the link of the Wiimote is then the abstract link after the same sequence.\<close>

lemma link_run_refines:
  assumes "services E contents cap" and "heap_budget E R" and "packet_room R contents cap (length evs) (usb W)"
    and "link_rel j W s" and "legal_run s evs"
  shows "\<exists>W'. link_run E j evs W = Inr W' \<and> link_rel j W' (steps evs s)"
proof -
  have "heap_spec E" using assms(1) by (simp add: services_def)
  from link_run_simulated [OF this room_can_inject [OF assms(1,2)] assms(3-5)] show ?thesis .
qed

text \<open>C19: The heap for injected messages is used up when a Wiimote takes its turn: a connection request, and the configuration of an accepted channel, are simply tried again at a later tick, but the connect request of a channel fails an assertion and stops the module.\<close>

lemma exhausted_heap_tick:
  assumes "heap_spec E" and "\<And>h n. fst (os_heap_alloc E h n (os_state (usb W))) = None"
    and "j < length (fake_wiimotes W)" and "w = fake_wiimotes W ! j"
  shows "(baseband_state w = BASEBAND_STATE_REQUEST_CONNECTION \<longrightarrow>
      (\<exists>W'. fake_wiimote_tick E j W = Inr W' \<and> fake_wiimotes W' = fake_wiimotes W)) \<and>
    (baseband_state w = BASEBAND_STATE_COMPLETE \<and> acl_state w = ACL_STATE_LINKING \<and>
       chn_valid (psm_hid_cntl_chn w) \<and> \<not> l2cap_channel_is_complete (psm_hid_cntl_chn w) \<and>
       \<not> chn_valid (psm_hid_intr_chn w) \<longrightarrow>
      (\<exists>W'. fake_wiimote_tick E j W = Inr W' \<and> fake_wiimotes W' = fake_wiimotes W)) \<and>
    (baseband_state w = BASEBAND_STATE_COMPLETE \<and> acl_state w = ACL_STATE_LINKING \<and>
       \<not> chn_valid (psm_hid_cntl_chn w) \<longrightarrow>
      fake_wiimote_tick E j W = Inl Assert_Failed)"
proof -
  have none: "\<exists>u'. injmessage_alloc E n (usb W) = (None, u')" for n
    using assms(2) [of "injmessages_heap_id (usb W)" "sizeof_injmessage + unat n"]
    by (auto simp: injmessage_alloc_def split: prod.splits)
  have refused: "\<exists>u'. inject_packet E ep pkt (usb W) = Inr (IOS_ENOMEM E, u')" for ep pkt
    using none [of "of_nat (length pkt)"] by (auto simp: inject_packet_def)
  have ret: "IOS_ENOMEM E \<noteq> IOS_OK E" using assms(1) by (simp add: heap_spec_def)
  have con: "\<exists>u'. inject_hci_event_con_req E ba a b c t (usb W) = Inr (IOS_ENOMEM E, u')" for ba a b c t
    using none [of "of_nat sizeof_hci_event_hdr_t + ucast (of_nat sizeof_hci_con_req_ep :: u8)"]
    by (auto simp: inject_hci_event_con_req_def inject_filled_event_def alloc_hci_event_msg_def)
  have cnct: "\<exists>u'. inject_l2cap_connect_req E h psm cid (usb W) = Inr (IOS_ENOMEM E, u')" for h psm cid
    using refused by (simp add: connect_req_wire [OF assms(1)])
  have cfg: "\<exists>u'. inject_l2cap_config_req E h cid mtu fl (usb W) = Inr (IOS_ENOMEM E, u')" for h cid mtu fl
    using refused by (simp add: config_req_wire [OF assms(1)])
  have "\<exists>W'. fake_wiimote_tick E j W = Inr W' \<and> fake_wiimotes W' = fake_wiimotes W"
    if "baseband_state w = BASEBAND_STATE_REQUEST_CONNECTION"
    using that assms(3,4) ret con [of "fw_bdaddr w" WIIMOTE_HCI_CLASS_0 WIIMOTE_HCI_CLASS_1 WIIMOTE_HCI_CLASS_2 HCI_LINK_ACL]
    by (auto simp: fake_wiimote_tick_def tick_request_connection_def at_def on_usb_def)
  moreover have "fake_wiimote_tick E j W = Inl Assert_Failed"
    if "baseband_state w = BASEBAND_STATE_COMPLETE" "acl_state w = ACL_STATE_LINKING" "\<not> chn_valid (psm_hid_cntl_chn w)"
    using that assms(3,4) ret cnct [of "fw_con_handle w" L2CAP_PSM_HID_CNTL "l2cap_starting_id W"]
    by (auto simp: fake_wiimote_tick_def tick_linking_def at_def Let_def open_channel_def generate_l2cap_channel_id_def
        inject_ok_def on_usb_def)
  moreover have "\<exists>W'. fake_wiimote_tick E j W = Inr W' \<and> fake_wiimotes W' = fake_wiimotes W"
    if "baseband_state w = BASEBAND_STATE_COMPLETE" "acl_state w = ACL_STATE_LINKING" "chn_valid (psm_hid_cntl_chn w)"
      "\<not> l2cap_channel_is_complete (psm_hid_cntl_chn w)" "\<not> chn_valid (psm_hid_intr_chn w)"
  proof -
    have "\<exists>u'. check_send_config_for_new_channel E HID_Cntl_Chn w (usb W) = Inr (w, u')"
      using ret cfg [of "fw_con_handle w" "chn_remote_cid (psm_hid_cntl_chn w)" WII_REQUEST_MTU L2CAP_FLUSH_TIMO_DEFAULT]
      by (auto simp: check_send_config_for_new_channel_def Let_def)
    then obtain u' where c: "check_send_config_for_new_channel E HID_Cntl_Chn w (usb W) = Inr (w, u')" by blast
    have i: "check_send_config_for_new_channel E HID_Intr_Chn w u' = Inr (w, u')"
      using that(5) by (intro send_config_not_sent) (simp add: chan_phase_def)
    show ?thesis
      using that assms(3,4) c i
      by (auto simp: fake_wiimote_tick_def tick_linking_def at_def Let_def on_wm_state_def on_wm_def upd_wm_def)
  qed
  ultimately show ?thesis by blast
qed

section \<open>Witnesses\<close>

text \<open>On the sample world: the heap has room for \<open>n\<close> blocks of 80 bytes.\<close>

definition sample_budget :: "nat \<Rightarrow> sample_os \<Rightarrow> bool" where
  "sample_budget n os \<longleftrightarrow> so_used os + n * 80 < 4000"

lemma sample_heap_budget: "heap_budget sample_ext sample_budget"
  by (auto simp: heap_budget_def sample_budget_def sample_heap_alloc_def sample_receive_def sample_send_def
      sample_ack_def INJMESSAGE_HEAP_SIZE_def sizeof_injmessage_def split: list.splits)

lemma sample_services: "services sample_ext so_queues sample_capacity"
  by (simp add: services_def egc_quiet_def) (simp add: sample_ext_def)

abbreviation sample_room :: "nat \<Rightarrow> sample_os usb \<Rightarrow> bool" where
  "sample_room \<equiv> packet_room sample_budget so_queues sample_capacity"

definition asking_wiimote :: fake_wiimote where
  "asking_wiimote = sample_wiimote \<lparr> baseband_state := BASEBAND_STATE_REQUEST_CONNECTION,
     psm_hid_cntl_chn := channel_zero, psm_hid_intr_chn := channel_zero \<rparr>"

definition asking_world :: "sample_os world" where
  "asking_world = sample_world \<lparr> fake_wiimotes := [asking_wiimote, idle_wiimote] \<rparr>"

lemma asking_wiimote_sel [simp]:
  "\<not> chn_valid (get_chn ch asking_wiimote)" "input_device asking_wiimote = Some 0"
  "fw_bdaddr asking_wiimote = FAKE_WIIMOTE_BDADDR 0"
  by (cases ch) (simp_all add: asking_wiimote_def channel_zero_def sample_wiimote_def fake_wiimote_init_state_def
      fake_wiimote_reset_extension_state_def Let_def fake_wiimote_zero_def invalidate_def)

definition sample_intr_room :: "nat \<Rightarrow> sample_os usb \<Rightarrow> bool" where
  "sample_intr_room n u \<longleftrightarrow> queue_ids u = [0, 1, 2, 3] \<and> so_used (os_state u) + n * 80 < 1000 \<and>
     (\<forall>q \<noteq> 0. so_queues (os_state u) q = []) \<and> length (so_queues (os_state u) 0) + n \<le> 8"

lemma sample_event:
  assumes "sample_intr_room (Suc n) u" and "length ev \<le> 64"
  shows "\<exists>u'. inject_packet sample_ext Intr ev u = Inr (0, u') \<and> sample_intr_room n u'"
  using assms
  by (auto simp: inject_packet_def injmessage_alloc_def sample_heap_alloc_def INJMESSAGE_HEAP_SIZE_def
      sizeof_injmessage_def unat_of_nat sample_intr_room_def queue_ids_def inject_msg_to_usb_intr_ready_queue_def
      handle_bulk_intr_ready_message_def queue_receive_def queue_send_def sample_receive_def sample_send_def
      sample_capacity_def Let_def)

lemma asking_accepted:
  "\<exists>W0. fake_wiimote_handle_hci_cmd_accept_con sample_ext 0 1 asking_world = Inr W0 \<and> sample_room 11 (usb W0) \<and>
    sample_intr_room 0 (usb W0)"
proof -
  let ?h = "fst (hci_con_handle_virt_alloc hci_state_initial)"
  have "sample_intr_room 2 sample_usb" by (simp add: sample_intr_room_def queue_ids_def)
  then obtain u1 where u1: "inject_hci_event_command_status sample_ext HCI_CMD_ACCEPT_CON sample_usb = Inr (0, u1)"
    "sample_intr_room 1 u1"
    using sample_event [of 1 sample_usb "hci_event_packet HCI_EVENT_COMMAND_STATUS ([0, 1] @ le16 HCI_CMD_ACCEPT_CON)"]
    by (auto simp: inj_wire hci_event_packet_def numeral_2_eq_2)
  obtain u2 where u2: "inject_hci_event_con_compl sample_ext (FAKE_WIIMOTE_BDADDR 0) ?h 0 u1 = Inr (0, u2)"
    "sample_intr_room 0 u2"
    using sample_event [of 0 u1 "hci_event_packet HCI_EVENT_CON_COMPL ([0] @ le16 ?h @ FAKE_WIIMOTE_BDADDR 0 @
        [HCI_LINK_ACL, HCI_ENCRYPTION_MODE_NONE])"] u1(2)
    by (auto simp: inj_wire hci_event_packet_def FAKE_WIIMOTE_BDADDR_def)
  have "pending_queue ep u2 \<noteq> 0" for ep
    using u2(2) by (cases ep) (simp_all add: sample_intr_room_def queue_ids_def)
  then have "sample_room 11 u2"
    using u2(2) by (auto simp: sample_intr_room_def packet_room_def reads_fit_def sample_budget_def queue_ids_def
        sample_capacity_def)
  moreover have "HCI_ROLE_MASTER \<noteq> 1" by (simp add: c_consts)
  ultimately show ?thesis
    using u1(1) u2
    by (auto simp: fake_wiimote_handle_hci_cmd_accept_con_def asking_world_def at_def inject_ok_def on_usb_def
        case_prod_beta Let_def c_assert_def upd_wm_def)
qed

definition linking_world :: "sample_os world" where
  "linking_world = asking_world \<lparr> fake_wiimotes := [asking_wiimote \<lparr> baseband_state := BASEBAND_STATE_COMPLETE,
     acl_state := ACL_STATE_LINKING \<rparr>, idle_wiimote],
     usb := sample_usb \<lparr> os_state := sample_os0 \<lparr> so_used := 4096 \<rparr> \<rparr> \<rparr>"

lemma exhausted_heap_tick_witness: "fake_wiimote_tick sample_ext 0 linking_world = Inl Assert_Failed"
proof -
  have "fst (os_heap_alloc sample_ext h n (os_state (usb linking_world))) = None" for h n
    by (simp add: linking_world_def sample_heap_alloc_def INJMESSAGE_HEAP_SIZE_def)
  from exhausted_heap_tick [OF sample_heap_spec this, of 0] show ?thesis
    by (simp add: linking_world_def asking_wiimote_def channel_zero_def)
qed

lemma link_run_refines_witness:
  "\<exists>W0 W'. fake_wiimote_handle_hci_cmd_accept_con sample_ext 0 1 asking_world = Inr W0 \<and>
    link_run sample_ext 0 [Link_Tick, Connect_Rsp HID_Cntl_Chn 1 0x50] W0 = Inr W' \<and>
    link_rel 0 W' (True, Opened True False L2CAP_CHANNEL_STATE_INACTIVE, Closed)"
proof -
  let ?evs = "[Link_Tick, Connect_Rsp HID_Cntl_Chn 1 0x50]"
  obtain W0 where a: "fake_wiimote_handle_hci_cmd_accept_con sample_ext 0 1 asking_world = Inr W0"
    and r: "sample_room (length ?evs) (usb W0)"
    using asking_accepted by (auto simp: packet_room_def sample_budget_def)
  have "link_rel 0 W0 (True, Closed, Closed)"
    using accepted_link [OF a, of 0] by (simp add: asking_world_def)
  from link_run_refines [OF sample_services sample_heap_budget r this] a
  show ?thesis by (auto simp: fresh_def)
qed

end
