(* ===== verification/Link_Host.thy ===== *)
theory Link_Host
  imports Link_Setup Channel_Fifo
begin

text \<open>
  The set-up of a link against a host that only knows what it receives: it reads the packets the
  module put into the queue of the bulk endpoint, and answers connect and configuration requests.
  The rounds of tick, reading and answering complete the link, and the packets sent in them are
  given byte for byte.
\<close>

section \<open>The packets sent\<close>

text \<open>The packets that wait for the host, while it has no read pending.\<close>

definition outbox :: "('os \<Rightarrow> int \<Rightarrow> ptr list) \<Rightarrow> 'os usb \<Rightarrow> u8 list list" where
  "outbox contents u = map (\<lambda>p. case inj_store u p of None \<Rightarrow> [] | Some m \<Rightarrow> inj_data m)
     (contents (os_state u) (ready_queue Bulk_In u))"

text \<open>Room for \<open>n\<close> packets in the heap and in the queue; the queue holds live blocks.\<close>

definition outbox_room ::
  "(nat \<Rightarrow> 'os \<Rightarrow> bool) \<Rightarrow> ('os \<Rightarrow> ptr set) \<Rightarrow> ('os \<Rightarrow> int \<Rightarrow> ptr list) \<Rightarrow> (int \<Rightarrow> nat) \<Rightarrow> nat \<Rightarrow> 'os usb \<Rightarrow> bool" where
  "outbox_room R live contents cap n u \<longleftrightarrow> R n (os_state u) \<and>
     pending_queue Bulk_In u \<noteq> ready_queue Bulk_In u \<and> contents (os_state u) (pending_queue Bulk_In u) = [] \<and>
     length (contents (os_state u) (ready_queue Bulk_In u)) + n \<le> cap (ready_queue Bulk_In u) \<and>
     set (contents (os_state u) (ready_queue Bulk_In u)) \<subseteq> live (os_state u)"

text \<open>What the properties below assume of IOS.\<close>

definition host_services ::
  "'os ext \<Rightarrow> ('os \<Rightarrow> int \<Rightarrow> ptr list) \<Rightarrow> (int \<Rightarrow> nat) \<Rightarrow> (nat \<Rightarrow> 'os \<Rightarrow> bool) \<Rightarrow> ('os \<Rightarrow> ptr set) \<Rightarrow> bool" where
  "host_services E contents cap R live \<longleftrightarrow>
     services E contents cap \<and> heap_budget E R \<and> heap_live_spec E live"

lemma outbox_injects:
  assumes S: "host_services E contents cap R live"
    and room: "outbox_room R live contents cap (Suc n) u" and len: "length pkt \<le> 64"
  shows "\<exists>u'. inject_packet E Bulk_In pkt u = Inr (IOS_OK E, u') \<and> outbox_room R live contents cap n u' \<and>
    outbox contents u' = outbox contents u @ [pkt]"
proof -
  have spec: "queue_spec E contents cap" and b: "heap_budget E R" and lv: "heap_live_spec E live"
    using S by (simp_all add: host_services_def services_def)
  let ?pq = "pending_queue Bulk_In u" and ?rq = "ready_queue Bulk_In u"
  have size: "sizeof_injmessage + unat (of_nat (length pkt) :: u16) \<le> sizeof_injmessage + 64"
    using len by (simp add: unat_of_nat)
  obtain q u1 where al: "injmessage_alloc E (of_nat (length pkt)) u = (Some q, u1)" and R1: "R n (os_state u1)"
    using heap_budgetD(2) [OF b _ size, of n "os_state u" "injmessages_heap_id u"] room
    by (auto simp: injmessage_alloc_def outbox_room_def)
  define u2 where "u2 = u1 \<lparr> inj_store := (inj_store u1)(q \<mapsto> \<lparr> inj_size = of_nat (length pkt), inj_data = pkt \<rparr>) \<rparr>"
  have u2: "contents (os_state u2) = contents (os_state u)" "pending_queue Bulk_In u2 = ?pq" "ready_queue Bulk_In u2 = ?rq"
    "R n (os_state u2)"
    using injmessage_alloc_frame [OF spec al] R1 by (simp_all add: u2_def)
  obtain init os' m where a: "os_heap_alloc E (injmessages_heap_id u)
        (sizeof_injmessage + unat (of_nat (length pkt) :: u16)) (os_state u) = (Some (q, init), os')"
    and u1: "u1 = u \<lparr> os_state := os', inj_store := (inj_store u)(q \<mapsto> m) \<rparr>"
    using al by (auto simp: injmessage_alloc_def split: prod.splits option.splits)
  have fresh: "q \<notin> live (os_state u)" "insert q (live (os_state u)) \<subseteq> live (os_state u2)"
    using heap_liveD(1,2) [OF lv a] by (simp_all add: u2_def u1)
  have store: "inj_store u2 = (inj_store u)(q \<mapsto> \<lparr> inj_size = of_nat (length pkt), inj_data = pkt \<rparr>)"
    by (simp add: u2_def u1)
  have i: "inject_packet E Bulk_In pkt u = handle_bulk_intr_ready_message E q ?pq ?rq u2"
    using inject_packet_alloc [OF al, of Bulk_In] u2(2,3) unfolding u2_def Let_def by metis
  have empty: "contents (os_state u2) ?pq = []" using room u2(1) by (simp add: outbox_room_def)
  obtain r m' u3 where rcv: "queue_receive E ?pq u2 = (r, m', u3)" by (metis prod_cases3)
  obtain ret u' where snd: "queue_send E ?rq q u3 = (ret, u')" by fastforce
  have run: "handle_bulk_intr_ready_message E q ?pq ?rq u2 = Inr (ret, u')"
    using queue_receive_empty [OF spec empty rcv] rcv snd by (simp add: handle_bulk_intr_ready_message_def)
  have free: "length (contents (os_state u2) ?rq) < cap ?rq" using room u2(1) by (simp add: outbox_room_def)
  have frame: "u' = u2 \<lparr> os_state := os_state u' \<rparr>" by (rule ready_message_no_reader(1) [OF spec empty run])
  have sent: "ret = IOS_OK E" "contents (os_state u') = (contents (os_state u))(?rq := contents (os_state u) ?rq @ [q])"
    using ready_message_no_reader(2) [OF spec empty run] free u2(1) by simp_all
  have "live (os_state u2) \<subseteq> live (os_state u')"
  proof -
    have "live (os_state u2) \<subseteq> live (os_state u3)"
      using rcv by (auto simp: queue_receive_def split: prod.splits dest!: heap_liveD(4) [OF lv])
    moreover have "live (os_state u3) \<subseteq> live (os_state u')"
      using snd by (auto simp: queue_send_def split: prod.splits dest!: heap_liveD(5) [OF lv])
    ultimately show ?thesis by blast
  qed
  then have live': "insert q (live (os_state u)) \<subseteq> live (os_state u')" using fresh(2) by blast
  have q: "pending_queue Bulk_In u' = ?pq" "ready_queue Bulk_In u' = ?rq" "inj_store u' = inj_store u2"
    using u2(2,3) arg_cong [OF frame, of "pending_queue Bulk_In"] arg_cong [OF frame, of "ready_queue Bulk_In"]
      arg_cong [OF frame, of inj_store] by simp_all
  have "R n (os_state u')" using ready_message_budget [OF b u2(4) run] by simp
  then have "outbox_room R live contents cap n u'"
    using room live' unfolding outbox_room_def q sent(2) by auto
  moreover have "outbox contents u' = outbox contents u @ [pkt]"
    using room fresh(1) unfolding outbox_def outbox_room_def q sent(2) store by auto
  ultimately show ?thesis using i run sent(1) by simp
qed

lemma outbox_fewer:
  "host_services E contents cap R live \<Longrightarrow> outbox_room R live contents cap (Suc n) u \<Longrightarrow>
   outbox_room R live contents cap n u"
  using heap_budgetD(1) by (fastforce simp: outbox_room_def host_services_def)

section \<open>The host\<close>

text \<open>What the host chooses: its channel for a service, the identifier and the options of its own
  configuration requests.\<close>

record host_plan =
  host_cid :: "u16 \<Rightarrow> u16"
  host_ident :: u8
  host_options :: "u8 list"

definition field16 :: "u8 list \<Rightarrow> nat \<Rightarrow> u16" where
  "field16 p k = mk16 (p ! Suc k) (p ! k)"

text \<open>The answer to one packet, given the peers of the channels of the host.\<close>

definition host_reply :: "host_plan \<Rightarrow> (u16 \<Rightarrow> u16 option) \<Rightarrow> u8 list \<Rightarrow> (u16 \<Rightarrow> u16 option) \<times> u8 list list" where
  "host_reply A peers p =
     (let h = HCI_CON_HANDLE (field16 p 0); ident = p ! 9 in
      if field16 p 6 \<noteq> L2CAP_SIGNAL_CID then (peers, [])
      else if p ! 8 = L2CAP_CONNECT_REQ then
        let scid = field16 p 14; dcid = host_cid A (field16 p 12) in
        (peers(dcid \<mapsto> scid),
         [l2cap_signal_packet h L2CAP_CONNECT_RSP ident
            (le16 dcid @ le16 scid @ le16 L2CAP_SUCCESS @ le16 L2CAP_NO_INFO),
          l2cap_signal_packet h L2CAP_CONFIG_REQ (host_ident A) (le16 scid @ le16 0 @ host_options A)])
      else if p ! 8 = L2CAP_CONFIG_REQ then
        (case peers (field16 p 12) of
           None \<Rightarrow> (peers, [])
         | Some scid \<Rightarrow> (peers, [l2cap_signal_packet h L2CAP_CONFIG_RSP ident (le16 scid @ le16 0 @ le16 L2CAP_SUCCESS)]))
      else (peers, []))"

fun host_reads :: "host_plan \<Rightarrow> (u16 \<Rightarrow> u16 option) \<Rightarrow> u8 list list \<Rightarrow> (u16 \<Rightarrow> u16 option) \<times> u8 list list" where
  "host_reads A peers [] = (peers, [])"
| "host_reads A peers (p # ps) =
     (let (peers1, a) = host_reply A peers p; (peers2, as) = host_reads A peers1 ps in (peers2, a @ as))"

fun feed :: "'os ext \<Rightarrow> nat \<Rightarrow> u8 list list \<Rightarrow> 'os world \<Rightarrow> 'os world result" where
  "feed E j [] W = Inr W"
| "feed E j (p # ps) W = rbind (fake_wiimote_handle_acl_data_out_request_from_host E j p W) (feed E j ps)"

text \<open>A round: the timer ticks, the host reads the packets it has not seen and sends its answers.\<close>

definition host_round ::
  "'os ext \<Rightarrow> ('os \<Rightarrow> int \<Rightarrow> ptr list) \<Rightarrow> host_plan \<Rightarrow> nat \<Rightarrow> nat \<times> (u16 \<Rightarrow> u16 option) \<times> 'os world \<Rightarrow>
   (nat \<times> (u16 \<Rightarrow> u16 option) \<times> 'os world) result" where
  "host_round E contents A j = (\<lambda>(seen, peers, W).
     rbind (fake_wiimote_tick E j W) (\<lambda>W1.
     let (peers', answers) = host_reads A peers (drop seen (outbox contents (usb W1))) in
     rbind (feed E j answers W1) (\<lambda>W2. Inr (length (outbox contents (usb W1)), peers', W2))))"

fun host_rounds ::
  "'os ext \<Rightarrow> ('os \<Rightarrow> int \<Rightarrow> ptr list) \<Rightarrow> host_plan \<Rightarrow> nat \<Rightarrow> nat \<Rightarrow> nat \<times> (u16 \<Rightarrow> u16 option) \<times> 'os world \<Rightarrow>
   (nat \<times> (u16 \<Rightarrow> u16 option) \<times> 'os world) result" where
  "host_rounds E contents A j 0 st = Inr st"
| "host_rounds E contents A j (Suc n) st = rbind (host_round E contents A j st) (host_rounds E contents A j n)"

lemma signal_fields:
  "field16 (l2cap_signal_packet h code ident cp) 6 = L2CAP_SIGNAL_CID"
  "HCI_CON_HANDLE (field16 (l2cap_signal_packet h code ident cp) 0) = HCI_CON_HANDLE h"
  "l2cap_signal_packet h code ident cp ! 8 = code" "l2cap_signal_packet h code ident cp ! 9 = ident"
  "field16 (l2cap_signal_packet h code ident (le16 a @ xs)) 12 = a"
  "field16 (l2cap_signal_packet h code ident (le16 a @ le16 b @ xs)) 14 = b"
  "field16 (l2cap_signal_packet h code ident (le16 a @ le16 b)) 14 = b"
  by (simp_all add: field16_def l2cap_signal_packet_def acl_packet_def l2cap_frame_def l2cap_command_def le16_def)

lemma reply_connect:
  "host_reply A peers (l2cap_signal_packet h L2CAP_CONNECT_REQ ident (le16 psm @ le16 scid)) =
    (peers(host_cid A psm \<mapsto> scid),
     [l2cap_signal_packet (HCI_CON_HANDLE h) L2CAP_CONNECT_RSP ident
        (le16 (host_cid A psm) @ le16 scid @ le16 L2CAP_SUCCESS @ le16 L2CAP_NO_INFO),
      l2cap_signal_packet (HCI_CON_HANDLE h) L2CAP_CONFIG_REQ (host_ident A) (le16 scid @ le16 0 @ host_options A)])"
  by (simp add: host_reply_def signal_fields Let_def)

lemma reply_config:
  "peers dcid = Some scid \<Longrightarrow>
   host_reply A peers (l2cap_signal_packet h L2CAP_CONFIG_REQ ident (le16 dcid @ xs)) =
    (peers, [l2cap_signal_packet (HCI_CON_HANDLE h) L2CAP_CONFIG_RSP ident (le16 scid @ le16 0 @ le16 L2CAP_SUCCESS)])"
  by (simp add: host_reply_def signal_fields c_consts)

lemma reply_other:
  "host_reply A peers (l2cap_signal_packet h L2CAP_CONFIG_RSP ident cp) = (peers, [])"
  by (simp add: host_reply_def signal_fields c_consts)

lemma host_reads_append:
  "host_reads A peers ps = (peers1, as) \<Longrightarrow> host_reads A peers1 qs = (peers2, bs) \<Longrightarrow>
   host_reads A peers (ps @ qs) = (peers2, as @ bs)"
  by (induction ps arbitrary: peers as) (auto simp: Let_def split: prod.splits)

section \<open>The Wiimote during the set-up\<close>

definition stage :: "nat \<Rightarrow> u16 \<Rightarrow> acl_state \<Rightarrow> (channel_ref \<Rightarrow> l2cap_channel_info) \<Rightarrow> 'os world \<Rightarrow> bool" where
  "stage j h a C W \<longleftrightarrow> j < length (fake_wiimotes W) \<and>
     (let w = fake_wiimotes W ! j in
        fw_con_handle w = h \<and> acl_state w = a \<and> baseband_state w = BASEBAND_STATE_COMPLETE \<and>
        (\<forall>ch. get_chn ch w = C ch) \<and> (\<exists>i < length (input_devices W). fake_wiimote.input_device w = Some i))"

lemma stageD:
  assumes "stage j h a C W"
  shows "j < length (fake_wiimotes W)" "fw_con_handle (fake_wiimotes W ! j) = h"
    "acl_state (fake_wiimotes W ! j) = a" "baseband_state (fake_wiimotes W ! j) = BASEBAND_STATE_COMPLETE"
    "get_chn ch (fake_wiimotes W ! j) = C ch"
    "\<exists>i < length (input_devices W). fake_wiimote.input_device (fake_wiimotes W ! j) = Some i"
    "psm_sdp_chn (fake_wiimotes W ! j) = C SDP_Chn" "psm_hid_cntl_chn (fake_wiimotes W ! j) = C HID_Cntl_Chn"
    "psm_hid_intr_chn (fake_wiimotes W ! j) = C HID_Intr_Chn"
  using assms by (simp_all add: stage_def Let_def flip: get_chn.simps)

lemma chn_updated:
  "get_chn c (upd_chn ch f w) = (if c = ch then f (get_chn ch w) else get_chn c w)"
  "fw_con_handle (upd_chn ch f w) = fw_con_handle w" "acl_state (upd_chn ch f w) = acl_state w"
  "baseband_state (upd_chn ch f w) = baseband_state w"
  "fake_wiimote.input_device (upd_chn ch f w) = fake_wiimote.input_device w"
  by (cases c; cases ch; simp)+

lemma stage_upd:
  assumes "stage j h a C W" and "fake_wiimotes W' = (fake_wiimotes W)[j := upd_chn ch f w]"
    and "w = fake_wiimotes W ! j \<or> w = counted (fake_wiimotes W ! j)" and "input_devices W' = input_devices W"
  shows "stage j h a (C(ch := f (C ch))) W'"
  using assms by (auto simp: stage_def Let_def chn_updated)

text \<open>The requests of the module.\<close>

definition connect_request :: "u16 \<Rightarrow> u16 \<Rightarrow> u16 \<Rightarrow> u8 list" where
  "connect_request h psm cid = l2cap_signal_packet h L2CAP_CONNECT_REQ L2CAP_CONNECT_REQ (le16 psm @ le16 cid)"

definition config_request :: "u16 \<Rightarrow> u16 \<Rightarrow> u8 list" where
  "config_request h dcid = l2cap_signal_packet h L2CAP_CONFIG_REQ L2CAP_CONFIG_REQ
     (le16 dcid @ le16 0 @ l2cap_config_req_options WII_REQUEST_MTU L2CAP_FLUSH_TIMO_DEFAULT)"

definition config_response :: "u16 \<Rightarrow> u16 \<Rightarrow> u8 \<Rightarrow> u8 list \<Rightarrow> u8 list" where
  "config_response h dcid ident options = l2cap_signal_packet h L2CAP_CONFIG_RSP ident
     (le16 dcid @ le16 0 @ le16 L2CAP_SUCCESS @ options)"

text \<open>A stage with the packets sent and the next channel identifier.\<close>

definition host_stage where
  "host_stage R live contents cap n j h a C cid sent W \<longleftrightarrow> stage j h a C W \<and> l2cap_starting_id W = cid \<and>
     outbox_room R live contents cap n (usb W) \<and> outbox contents (usb W) = sent"

lemma channel_opened:
  assumes S: "host_services E contents cap R live"
    and st: "host_stage R live contents cap (Suc n) j h a C cid sent W"
  shows "\<exists>W'. open_channel E psm ch j W = Inr W' \<and>
    host_stage R live contents cap n j h a (C(ch := l2cap_channel_info_setup psm cid (C ch))) (cid + 1)
      (sent @ [connect_request h psm cid]) W'"
proof -
  have st': "stage j h a C W" and cid: "l2cap_starting_id W = cid" and room: "outbox_room R live contents cap (Suc n) (usb W)"
    and sent: "outbox contents (usb W) = sent"
    using st by (simp_all add: host_stage_def)
  note w = stageD [OF st']
  have hs: "heap_spec E" using S by (simp add: host_services_def services_def)
  have "length (connect_request h psm cid) \<le> 64" by (simp add: connect_request_def l2cap_signal_packet_def)
  from outbox_injects [OF S room this] sent
  obtain u' where i: "inject_l2cap_connect_req E h psm cid (usb W) = Inr (IOS_OK E, u')"
    "outbox_room R live contents cap n u'" "outbox contents u' = sent @ [connect_request h psm cid]"
    by (auto simp: connect_req_wire [OF hs] connect_request_def)
  define W' where "W' = upd_wm j (upd_chn ch (l2cap_channel_info_setup psm cid))
    (W \<lparr> l2cap_starting_id := cid + 1, usb := u' \<rparr>)"
  have "open_channel E psm ch j W = Inr W'"
    using i(1) w(1,2) cid
    by (simp add: open_channel_def generate_l2cap_channel_id_def at_def inject_ok_def on_usb_def W'_def)
  moreover have "stage j h a (C(ch := l2cap_channel_info_setup psm cid (C ch))) W'"
    by (rule stage_upd [OF st' _ disjI1 [OF refl]]) (use w(1) in \<open>simp_all add: W'_def upd_wm_def\<close>)
  ultimately show ?thesis using i(2,3) by (simp add: host_stage_def W'_def upd_wm_def)
qed

text \<open>A channel that waits for its configuration.\<close>

definition configurable :: "l2cap_channel_info \<Rightarrow> bool" where
  "configurable info \<longleftrightarrow> chn_valid info \<and> chn_remote_cid info \<noteq> L2CAP_NULL_CID \<and>
     chn_state info = L2CAP_CHANNEL_STATE_INACTIVE"

lemma config_sent:
  assumes S: "host_services E contents cap R live"
    and st: "host_stage R live contents cap (Suc n) j h a C cid sent W" and "configurable (C ch)"
  shows "\<exists>W'. on_wm_state (check_send_config_for_new_channel E ch) j W = Inr W' \<and>
    host_stage R live contents cap n j h a (C(ch := (C ch) \<lparr> chn_state := L2CAP_CHANNEL_STATE_CONFIG_PEND \<rparr>)) cid
      (sent @ [config_request h (chn_remote_cid (C ch))]) W'"
proof -
  have st': "stage j h a C W" and cid: "l2cap_starting_id W = cid" and room: "outbox_room R live contents cap (Suc n) (usb W)"
    and sent: "outbox contents (usb W) = sent"
    using st by (simp_all add: host_stage_def)
  note w = stageD [OF st']
  have hs: "heap_spec E" using S by (simp add: host_services_def services_def)
  have "length (config_request h (chn_remote_cid (C ch))) \<le> 64"
    by (simp add: config_request_def l2cap_signal_packet_def l2cap_config_req_options_def)
  from outbox_injects [OF S room this] sent
  obtain u' where i: "inject_l2cap_config_req E h (chn_remote_cid (C ch)) WII_REQUEST_MTU L2CAP_FLUSH_TIMO_DEFAULT
      (usb W) = Inr (IOS_OK E, u')"
    "outbox_room R live contents cap n u'" "outbox contents u' = sent @ [config_request h (chn_remote_cid (C ch))]"
    by (auto simp: config_req_wire [OF hs] config_request_def)
  define W' where "W' = (upd_wm j (upd_chn ch (\<lambda>i. i \<lparr> chn_state := L2CAP_CHANNEL_STATE_CONFIG_PEND \<rparr>)) W) \<lparr> usb := u' \<rparr>"
  have "on_wm_state (check_send_config_for_new_channel E ch) j W = Inr W'"
    using i(1) w(1,2,5) assms(3)
    by (simp add: on_wm_state_def on_wm_def at_def check_send_config_for_new_channel_def Let_def configurable_def
        l2cap_channel_is_accepted_def W'_def upd_wm_def)
  moreover have "stage j h a (C(ch := (C ch) \<lparr> chn_state := L2CAP_CHANNEL_STATE_CONFIG_PEND \<rparr>)) W'"
    by (rule stage_upd [OF st' _ disjI1 [OF refl]]) (use w(1) in \<open>simp_all add: W'_def upd_wm_def\<close>)
  ultimately show ?thesis using i(2,3) cid by (simp add: host_stage_def W'_def upd_wm_def)
qed

lemma config_not_sent:
  assumes "stage j h a C W" and "\<not> configurable (C ch)"
  shows "on_wm_state (check_send_config_for_new_channel E ch) j W = Inr W"
  using stageD(1,5) [OF assms(1)] assms(2)
  by (auto simp: on_wm_state_def on_wm_def at_def check_send_config_for_new_channel_def Let_def
      configurable_def l2cap_channel_is_accepted_def upd_wm_def)

lemma setup_fields:
  "\<not> configurable (l2cap_channel_info_setup psm cid info)" "chn_valid (l2cap_channel_info_setup psm cid info)"
  "chn_local_cid (l2cap_channel_info_setup psm cid info) = cid"
  by (simp_all add: configurable_def l2cap_channel_info_setup_def)

lemma not_configurable: "\<not> chn_valid info \<Longrightarrow> \<not> configurable info"
  by (simp add: configurable_def)

lemma complete_not_configurable: "l2cap_channel_is_complete info \<Longrightarrow> \<not> configurable info \<and> chn_valid info"
  by (auto simp: configurable_def l2cap_channel_is_complete_def)

subsection \<open>The ticks of the set-up\<close>

text \<open>The channel whose turn it is: the other one is not open, or complete.\<close>

definition turn :: "(channel_ref \<Rightarrow> l2cap_channel_info) \<Rightarrow> channel_ref \<Rightarrow> bool" where
  "turn C ch \<longleftrightarrow> \<not> chn_valid (C SDP_Chn) \<and>
     (ch = HID_Cntl_Chn \<and> \<not> chn_valid (C HID_Intr_Chn) \<or> ch = HID_Intr_Chn \<and> l2cap_channel_is_complete (C HID_Cntl_Chn))"

definition psm_of :: "channel_ref \<Rightarrow> u16" where
  "psm_of ch = (if ch = HID_Cntl_Chn then L2CAP_PSM_HID_CNTL else L2CAP_PSM_HID_INTR)"

lemma linking_tick: "stage j h ACL_STATE_LINKING C W \<Longrightarrow> fake_wiimote_tick E j W = tick_linking E j W"
  using stageD [of j h ACL_STATE_LINKING C W] by (simp add: fake_wiimote_tick_def at_def)

lemma tick_opens:
  assumes S: "host_services E contents cap R live"
    and st: "host_stage R live contents cap (Suc n) j h ACL_STATE_LINKING C cid sent W"
    and "turn C ch" and "\<not> chn_valid (C ch)"
  shows "\<exists>W'. fake_wiimote_tick E j W = Inr W' \<and>
    host_stage R live contents cap n j h ACL_STATE_LINKING (C(ch := l2cap_channel_info_setup (psm_of ch) cid (C ch)))
      (cid + 1) (sent @ [connect_request h (psm_of ch) cid]) W'"
proof -
  have st': "stage j h ACL_STATE_LINKING C W" using st by (simp add: host_stage_def)
  note w = stageD [OF st']
  obtain W' where o: "open_channel E (psm_of ch) ch j W = Inr W'"
    "host_stage R live contents cap n j h ACL_STATE_LINKING (C(ch := l2cap_channel_info_setup (psm_of ch) cid (C ch)))
      (cid + 1) (sent @ [connect_request h (psm_of ch) cid]) W'"
    using channel_opened [OF S st] by blast
  then have s': "stage j h ACL_STATE_LINKING (C(ch := l2cap_channel_info_setup (psm_of ch) cid (C ch))) W'"
    by (simp add: host_stage_def)
  have n: "on_wm_state (check_send_config_for_new_channel E HID_Cntl_Chn) j W' = Inr W'"
    "on_wm_state (check_send_config_for_new_channel E HID_Intr_Chn) j W' = Inr W'"
    using assms(3) complete_not_configurable
    by (auto intro!: config_not_sent [OF s'] simp: turn_def setup_fields not_configurable)
  have "fake_wiimote_tick E j W = Inr W'"
    unfolding linking_tick [OF st'] using assms(3,4) w o(1) n complete_not_configurable
    by (auto simp: tick_linking_def at_def Let_def turn_def psm_of_def)
  then show ?thesis using o(2) by blast
qed

lemma tick_configures:
  assumes S: "host_services E contents cap R live"
    and st: "host_stage R live contents cap (Suc n) j h ACL_STATE_LINKING C cid sent W"
    and "turn C ch" and "configurable (C ch)"
  shows "\<exists>W'. fake_wiimote_tick E j W = Inr W' \<and>
    host_stage R live contents cap n j h ACL_STATE_LINKING (C(ch := (C ch) \<lparr> chn_state := L2CAP_CHANNEL_STATE_CONFIG_PEND \<rparr>))
      cid (sent @ [config_request h (chn_remote_cid (C ch))]) W'"
proof -
  let ?C' = "C(ch := (C ch) \<lparr> chn_state := L2CAP_CHANNEL_STATE_CONFIG_PEND \<rparr>)"
  have st': "stage j h ACL_STATE_LINKING C W" using st by (simp add: host_stage_def)
  note w = stageD [OF st']
  obtain W' where o: "on_wm_state (check_send_config_for_new_channel E ch) j W = Inr W'"
    "host_stage R live contents cap n j h ACL_STATE_LINKING ?C' cid (sent @ [config_request h (chn_remote_cid (C ch))]) W'"
    using config_sent [OF S st assms(4)] by blast
  then have s': "stage j h ACL_STATE_LINKING ?C' W'" by (simp add: host_stage_def)
  have "rbind (on_wm_state (check_send_config_for_new_channel E HID_Cntl_Chn) j W)
      (on_wm_state (check_send_config_for_new_channel E HID_Intr_Chn) j) = Inr W'"
  proof (cases "ch = HID_Cntl_Chn")
    case True
    moreover have "on_wm_state (check_send_config_for_new_channel E HID_Intr_Chn) j W' = Inr W'"
      using assms(3) True by (auto intro!: config_not_sent [OF s'] simp: turn_def configurable_def)
    ultimately show ?thesis using o(1) by simp
  next
    case False
    moreover have "on_wm_state (check_send_config_for_new_channel E HID_Cntl_Chn) j W = Inr W"
      using assms(3) False complete_not_configurable by (auto intro!: config_not_sent [OF st'] simp: turn_def)
    ultimately show ?thesis using o(1) assms(3) by (auto simp: turn_def)
  qed
  moreover have "chn_valid (C HID_Cntl_Chn)" "\<not> l2cap_channel_is_complete (C ch)" "chn_valid (C ch)"
    using assms(3,4) by (auto simp: turn_def configurable_def l2cap_channel_is_complete_def)
  ultimately have "fake_wiimote_tick E j W = Inr W'"
    unfolding linking_tick [OF st'] using assms(3) w
    by (auto simp: tick_linking_def at_def Let_def turn_def)
  then show ?thesis using o(2) by blast
qed

lemma tick_finishes:
  assumes S: "host_services E contents cap R live"
    and st: "host_stage R live contents cap n j h ACL_STATE_LINKING C cid sent W"
    and "l2cap_channel_is_complete (C HID_Cntl_Chn)" and "l2cap_channel_is_complete (C HID_Intr_Chn)"
  shows "\<exists>W'. fake_wiimote_tick E j W = Inr W' \<and> stage j h ACL_STATE_INACTIVE C W' \<and> outbox contents (usb W') = sent"
proof -
  have st': "stage j h ACL_STATE_LINKING C W" using st by (simp add: host_stage_def)
  note w = stageD [OF st']
  obtain sl where sl: "fake_wiimote.input_device (fake_wiimotes W ! j) = Some sl" "sl < length (input_devices W)"
    using w(6) by blast
  define W0 where "W0 = upd_wm j (\<lambda>w. w \<lparr> acl_state := ACL_STATE_INACTIVE \<rparr>) W"
  define W1 where "W1 = snd (egc_call (egc_input_device_resume E (dev_device (input_devices W ! sl))) W0)"
  have "fake_wiimote_tick E j W = Inr W1"
    unfolding linking_tick [OF st'] using assms(3,4) w sl complete_not_configurable
    by (auto simp: tick_linking_def at_def Let_def ignore_ret_def input_device_resume_def W1_def W0_def upd_wm_def
        case_prod_beta)
  moreover have g: "get_chn ch (v \<lparr> acl_state := a \<rparr>) = get_chn ch v" for ch v a by (cases ch) simp_all
  then have "stage j h ACL_STATE_INACTIVE C W1"
    using st' by (auto simp: stage_def Let_def W1_def W0_def upd_wm_def egc_call_def split: prod.split)
  moreover have "outbox contents (usb W1) = sent"
  proof -
    have "contents (snd (egc_input_device_resume E p os)) = contents os" for p os
      using S by (simp add: host_services_def services_def egc_quiet_def)
    then show ?thesis
      using st by (simp add: host_stage_def outbox_def W1_def W0_def egc_call_def case_prod_beta upd_wm_def)
  qed
  ultimately show ?thesis by blast
qed

subsection \<open>The answers\<close>

lemma turn_upd [simp]: "turn (C(ch := info)) ch = turn C ch"
  by (auto simp: turn_def)

text \<open>The host addresses a channel by its identifier, which no other open channel has.\<close>

definition addressed :: "(channel_ref \<Rightarrow> l2cap_channel_info) \<Rightarrow> channel_ref \<Rightarrow> bool" where
  "addressed C ch \<longleftrightarrow> turn C ch \<and> chn_valid (C ch) \<and>
     (ch = HID_Intr_Chn \<longrightarrow> chn_local_cid (C HID_Cntl_Chn) \<noteq> chn_local_cid (C ch))"

lemma addressed_found:
  assumes "stage j h a C W" and "addressed C ch"
  shows "get_channel_info (counted (fake_wiimotes W ! j)) (chn_local_cid (C ch)) = Some ch"
  using stageD [OF assms(1)] assms(2) by (auto simp: addressed_def turn_def get_channel_info_def)

lemma addressed_upd:
  "addressed C ch \<Longrightarrow> chn_valid info \<Longrightarrow> chn_local_cid info = chn_local_cid (C ch) \<Longrightarrow> addressed (C(ch := info)) ch"
  by (auto simp: addressed_def)

lemma fed_update:
  assumes st: "host_stage R live contents cap n j h a C cid sent W"
    and u: "outbox_room R live contents cap m u'" "outbox contents u' = sent'"
  shows "host_stage R live contents cap m j h a (C(ch := f (C ch))) cid sent'
    ((upd_wm j (upd_chn ch f) (upd_wm j counted W)) \<lparr> usb := u' \<rparr>)"
proof -
  have st': "stage j h a C W" using st by (simp add: host_stage_def)
  have "stage j h a (C(ch := f (C ch))) ((upd_wm j (upd_chn ch f) (upd_wm j counted W)) \<lparr> usb := u' \<rparr>)"
    by (rule stage_upd [OF st' _ disjI2 [OF refl]]) (use stageD(1) [OF st'] in \<open>simp_all add: upd_wm_def\<close>)
  then show ?thesis using st u by (simp add: host_stage_def upd_wm_def)
qed

lemma feed_connect_rsp:
  assumes st: "host_stage R live contents cap n j h a C cid sent W" and ch: "addressed C ch" and dcid: "dcid \<ge> 0x40"
  shows "\<exists>W'. fake_wiimote_handle_acl_data_out_request_from_host E j (l2cap_signal_packet h' L2CAP_CONNECT_RSP ident
      (le16 dcid @ le16 (chn_local_cid (C ch)) @ le16 L2CAP_SUCCESS @ le16 L2CAP_NO_INFO)) W = Inr W' \<and>
    host_stage R live contents cap n j h a (C(ch := (C ch) \<lparr> chn_remote_cid := dcid \<rparr>)) cid sent W'"
proof -
  have st': "stage j h a C W" using st by (simp add: host_stage_def)
  let ?f = "chn_remote_cid_update (\<lambda>_. dcid)"
  have "dcid \<noteq> L2CAP_PSM_NOT_SUPPORTED" using dcid by (auto simp: c_consts)
  then have "fake_wiimote_handle_acl_data_out_request_from_host E j (l2cap_signal_packet h' L2CAP_CONNECT_RSP ident
      (le16 dcid @ le16 (chn_local_cid (C ch)) @ le16 L2CAP_SUCCESS @ le16 L2CAP_NO_INFO)) W =
      Inr (upd_wm j (upd_chn ch ?f) (upd_wm j counted W))"
    using addressed_found [OF st' ch] stageD(1) [OF st']
    by (simp add: signal_packet_dispatch counted_world handle_l2cap_signal_channel_def
        handle_l2cap_connect_rsp_def host_values c_consts at_def upd_wm_def)
  moreover have "host_stage R live contents cap n j h a (C(ch := ?f (C ch))) cid sent
      ((upd_wm j (upd_chn ch ?f) (upd_wm j counted W)) \<lparr> usb := usb W \<rparr>)"
    using st by (intro fed_update [OF st]) (simp_all add: host_stage_def)
  ultimately show ?thesis by (simp add: upd_wm_def)
qed

lemma feed_config_rsp:
  assumes st: "host_stage R live contents cap n j h a C cid sent W" and ch: "addressed C ch"
  shows "\<exists>W'. fake_wiimote_handle_acl_data_out_request_from_host E j (l2cap_signal_packet h' L2CAP_CONFIG_RSP ident
      (le16 (chn_local_cid (C ch)) @ le16 0 @ le16 L2CAP_SUCCESS)) W = Inr W' \<and>
    host_stage R live contents cap n j h a (C(ch := (C ch) \<lparr> chn_state := L2CAP_CHANNEL_STATE_COMPLETE \<rparr>)) cid sent W'"
proof -
  have st': "stage j h a C W" using st by (simp add: host_stage_def)
  let ?f = "chn_state_update (\<lambda>_. L2CAP_CHANNEL_STATE_COMPLETE)"
  have "fake_wiimote_handle_acl_data_out_request_from_host E j (l2cap_signal_packet h' L2CAP_CONFIG_RSP ident
      (le16 (chn_local_cid (C ch)) @ le16 0 @ le16 L2CAP_SUCCESS)) W =
      Inr (upd_wm j (upd_chn ch ?f) (upd_wm j counted W))"
    using addressed_found [OF st' ch] stageD(1) [OF st']
    by (simp add: signal_packet_dispatch counted_world handle_l2cap_signal_channel_def
        handle_l2cap_config_rsp_def host_values c_consts at_def upd_wm_def)
  moreover have "host_stage R live contents cap n j h a (C(ch := ?f (C ch))) cid sent
      ((upd_wm j (upd_chn ch ?f) (upd_wm j counted W)) \<lparr> usb := usb W \<rparr>)"
    using st by (intro fed_update [OF st]) (simp_all add: host_stage_def)
  ultimately show ?thesis by (simp add: upd_wm_def)
qed

lemma feed_config_req:
  assumes S: "host_services E contents cap R live"
    and st: "host_stage R live contents cap (Suc n) j h a C cid sent W" and ch: "addressed C ch"
    and o: "length options \<le> 32" "config_options options (length options) 0 L2CAP_MTU_DEFAULT = Inr mtu"
  shows "\<exists>W'. fake_wiimote_handle_acl_data_out_request_from_host E j (l2cap_signal_packet h' L2CAP_CONFIG_REQ ident
      (le16 (chn_local_cid (C ch)) @ le16 0 @ options)) W = Inr W' \<and>
    host_stage R live contents cap n j h a (C(ch := (C ch) \<lparr> chn_remote_mtu := mtu \<rparr>)) cid
      (sent @ [config_response h (chn_remote_cid (C ch)) ident options]) W'"
proof -
  have st': "stage j h a C W" and room: "outbox_room R live contents cap (Suc n) (usb W)"
    and sent: "outbox contents (usb W) = sent"
    using st by (simp_all add: host_stage_def)
  note w = stageD [OF st']
  have hs: "heap_spec E" using S by (simp add: host_services_def services_def)
  let ?f = "chn_remote_mtu_update (\<lambda>_. mtu)"
  have "length (config_response h (chn_remote_cid (C ch)) ident options) \<le> 64"
    using o(1) by (simp add: config_response_def l2cap_signal_packet_def)
  from outbox_injects [OF S room this] sent o(1)
  obtain u' where i: "inject_l2cap_config_rsp E h (chn_remote_cid (C ch)) ident options (length options) (usb W) =
      Inr (IOS_OK E, u')"
    "outbox_room R live contents cap n u'" "outbox contents u' = sent @ [config_response h (chn_remote_cid (C ch)) ident options]"
    by (auto simp: config_rsp_wire [OF hs] config_response_def)
  have sz: "unat (of_nat (4 + length options) - 4 :: u16) = length options"
    using o(1) by (simp add: unat_of_nat)
  have r: "chn_remote_cid (get_chn ch (upd_chn ch ?f (counted (fake_wiimotes W ! j)))) = chn_remote_cid (C ch)"
    "fw_con_handle (upd_chn ch ?f (counted (fake_wiimotes W ! j))) = h"
    using w(2,5) by (simp_all add: chn_updated)
  have "handle_l2cap_config_req E ident (chn_local_cid (C ch)) 0 options (length options) (counted (fake_wiimotes W ! j)) (usb W) =
      Inr (upd_chn ch ?f (counted (fake_wiimotes W ! j)), u')"
    using addressed_found [OF st' ch] o(2) i(1) by (simp add: handle_l2cap_config_req_def Let_def r)
  then have "fake_wiimote_handle_acl_data_out_request_from_host E j (l2cap_signal_packet h' L2CAP_CONFIG_REQ ident
      (le16 (chn_local_cid (C ch)) @ le16 0 @ options)) W =
      Inr ((upd_wm j (upd_chn ch ?f) (upd_wm j counted W)) \<lparr> usb := u' \<rparr>)"
    using w(1) sz o(1)
    by (simp add: signal_packet_dispatch counted_world handle_l2cap_signal_channel_def
        host_values c_consts on_wm_state_def on_wm_def at_def upd_wm_def)
  then show ?thesis using fed_update [OF st i(2,3), of ch ?f] by simp
qed

section \<open>The rounds\<close>

definition plan_ok :: "host_plan \<Rightarrow> u16 \<Rightarrow> bool" where
  "plan_ok A mtu \<longleftrightarrow> 0x40 \<le> host_cid A L2CAP_PSM_HID_CNTL \<and> 0x40 \<le> host_cid A L2CAP_PSM_HID_INTR \<and>
     length (host_options A) \<le> 32 \<and> mtu \<noteq> 0 \<and>
     config_options (host_options A) (length (host_options A)) 0 L2CAP_MTU_DEFAULT = Inr mtu"

text \<open>A channel after the first of its two rounds.\<close>

definition connected :: "u16 \<Rightarrow> u16 \<Rightarrow> u16 \<Rightarrow> u16 \<Rightarrow> l2cap_channel_info \<Rightarrow> l2cap_channel_info" where
  "connected psm cid dcid mtu info =
     (l2cap_channel_info_setup psm cid info) \<lparr> chn_remote_cid := dcid, chn_remote_mtu := mtu \<rparr>"

lemma round_connect:
  assumes S: "host_services E contents cap R live" and A: "plan_ok A mtu"
    and st: "host_stage R live contents cap (Suc (Suc n)) j h ACL_STATE_LINKING C cid sent W"
    and ch: "turn C ch" "\<not> chn_valid (C ch)" "ch = HID_Intr_Chn \<longrightarrow> chn_local_cid (C HID_Cntl_Chn) \<noteq> cid"
    and old: "host_reads A peers (drop seen sent) = (peers, [])" "seen \<le> length sent"
  defines "psm \<equiv> psm_of ch"
  shows "\<exists>W'. host_round E contents A j (seen, peers, W) =
      Inr (Suc (length sent), peers(host_cid A psm \<mapsto> cid), W') \<and>
    host_stage R live contents cap n j h ACL_STATE_LINKING
      (C(ch := connected psm cid (host_cid A psm) mtu (C ch))) (cid + 1)
      (sent @ [connect_request h psm cid, config_response h (host_cid A psm) (host_ident A) (host_options A)]) W'"
proof -
  let ?d = "host_cid A psm" and ?C1 = "C(ch := l2cap_channel_info_setup psm cid (C ch))"
  have d: "?d \<ge> 0x40" using A ch(1) by (auto simp: plan_ok_def psm_def psm_of_def turn_def)
  obtain W1 where t: "fake_wiimote_tick E j W = Inr W1"
    and s1: "host_stage R live contents cap (Suc n) j h ACL_STATE_LINKING ?C1 (cid + 1) (sent @ [connect_request h psm cid]) W1"
    using tick_opens [OF S st ch(1,2)] unfolding psm_def by blast
  have a1: "addressed ?C1 ch" using ch by (auto simp: addressed_def setup_fields)
  have l1: "chn_local_cid (?C1 ch) = cid" by (simp add: setup_fields)
  obtain W2 where f1: "fake_wiimote_handle_acl_data_out_request_from_host E j
      (l2cap_signal_packet (HCI_CON_HANDLE h) L2CAP_CONNECT_RSP L2CAP_CONNECT_REQ
        (le16 ?d @ le16 cid @ le16 L2CAP_SUCCESS @ le16 L2CAP_NO_INFO)) W1 = Inr W2"
    and s2: "host_stage R live contents cap (Suc n) j h ACL_STATE_LINKING (?C1(ch := (?C1 ch) \<lparr> chn_remote_cid := ?d \<rparr>))
      (cid + 1) (sent @ [connect_request h psm cid]) W2"
    using feed_connect_rsp [OF s1 a1 d] unfolding l1 by blast
  let ?C2 = "?C1(ch := (?C1 ch) \<lparr> chn_remote_cid := ?d \<rparr>)"
  have a2: "addressed ?C2 ch" by (rule addressed_upd [OF a1]) (simp_all add: setup_fields)
  have l2: "chn_local_cid (?C2 ch) = cid" "chn_remote_cid (?C2 ch) = ?d" by (simp_all add: setup_fields)
  have o: "length (host_options A) \<le> 32" "config_options (host_options A) (length (host_options A)) 0 L2CAP_MTU_DEFAULT = Inr mtu"
    using A by (simp_all add: plan_ok_def)
  obtain W3 where f2: "fake_wiimote_handle_acl_data_out_request_from_host E j
      (l2cap_signal_packet (HCI_CON_HANDLE h) L2CAP_CONFIG_REQ (host_ident A) (le16 cid @ le16 0 @ host_options A)) W2 = Inr W3"
    and s3: "host_stage R live contents cap n j h ACL_STATE_LINKING (?C2(ch := (?C2 ch) \<lparr> chn_remote_mtu := mtu \<rparr>))
      (cid + 1) ((sent @ [connect_request h psm cid]) @ [config_response h ?d (host_ident A) (host_options A)]) W3"
    using feed_config_req [OF S s2 a2 o] unfolding l2 by blast
  have "host_reads A peers (drop seen (sent @ [connect_request h psm cid])) =
      (peers(?d \<mapsto> cid), [l2cap_signal_packet (HCI_CON_HANDLE h) L2CAP_CONNECT_RSP L2CAP_CONNECT_REQ
        (le16 ?d @ le16 cid @ le16 L2CAP_SUCCESS @ le16 L2CAP_NO_INFO),
       l2cap_signal_packet (HCI_CON_HANDLE h) L2CAP_CONFIG_REQ (host_ident A) (le16 cid @ le16 0 @ host_options A)])"
    using host_reads_append [OF old(1), of "[connect_request h psm cid]"] old(2)
    by (simp add: connect_request_def reply_connect)
  then have "host_round E contents A j (seen, peers, W) = Inr (Suc (length sent), peers(?d \<mapsto> cid), W3)"
    using s1 by (simp add: host_round_def t f1 f2 host_stage_def)
  then show ?thesis using s3 by (simp add: connected_def)
qed

lemma round_config:
  assumes S: "host_services E contents cap R live"
    and st: "host_stage R live contents cap (Suc n) j h ACL_STATE_LINKING C cid sent W"
    and ch: "addressed C ch" "configurable (C ch)" "peers (chn_remote_cid (C ch)) = Some (chn_local_cid (C ch))"
    and old: "host_reads A peers (drop seen sent) = (peers, [])" "seen \<le> length sent"
  shows "\<exists>W'. host_round E contents A j (seen, peers, W) = Inr (Suc (length sent), peers, W') \<and>
    host_stage R live contents cap n j h ACL_STATE_LINKING
      (C(ch := (C ch) \<lparr> chn_state := L2CAP_CHANNEL_STATE_COMPLETE \<rparr>)) cid
      (sent @ [config_request h (chn_remote_cid (C ch))]) W'"
proof -
  let ?C1 = "C(ch := (C ch) \<lparr> chn_state := L2CAP_CHANNEL_STATE_CONFIG_PEND \<rparr>)" and ?d = "chn_remote_cid (C ch)"
  have tu: "turn C ch" using ch(1) by (simp add: addressed_def)
  obtain W1 where t: "fake_wiimote_tick E j W = Inr W1"
    and s1: "host_stage R live contents cap n j h ACL_STATE_LINKING ?C1 cid (sent @ [config_request h ?d]) W1"
    using tick_configures [OF S st tu ch(2)] by blast
  have a1: "addressed ?C1 ch" using ch(1) by (rule addressed_upd) (use ch(1) in \<open>simp_all add: addressed_def\<close>)
  have l1: "chn_local_cid (?C1 ch) = chn_local_cid (C ch)" by simp
  obtain W2 where f: "fake_wiimote_handle_acl_data_out_request_from_host E j
      (l2cap_signal_packet (HCI_CON_HANDLE h) L2CAP_CONFIG_RSP L2CAP_CONFIG_REQ
        (le16 (chn_local_cid (C ch)) @ le16 0 @ le16 L2CAP_SUCCESS)) W1 = Inr W2"
    and s2: "host_stage R live contents cap n j h ACL_STATE_LINKING
      (?C1(ch := (?C1 ch) \<lparr> chn_state := L2CAP_CHANNEL_STATE_COMPLETE \<rparr>)) cid (sent @ [config_request h ?d]) W2"
    using feed_config_rsp [OF s1 a1] unfolding l1 by blast
  have "host_reads A peers (drop seen (sent @ [config_request h ?d])) =
      (peers, [l2cap_signal_packet (HCI_CON_HANDLE h) L2CAP_CONFIG_RSP L2CAP_CONFIG_REQ
        (le16 (chn_local_cid (C ch)) @ le16 0 @ le16 L2CAP_SUCCESS)])"
    using host_reads_append [OF old(1), of "[config_request h ?d]"] old(2)
    by (simp add: config_request_def reply_config ch(3))
  then have "host_round E contents A j (seen, peers, W) = Inr (Suc (length sent), peers, W2)"
    using s1 by (simp add: host_round_def t f host_stage_def)
  then show ?thesis using s2 by simp
qed

lemma host_rounds_append:
  "host_rounds E contents A j (m + n) st = rbind (host_rounds E contents A j m st) (host_rounds E contents A j n)"
  by (induction m arbitrary: st) (simp_all add: rbind_assoc cong: rbind_cong)

text \<open>The two rounds of a channel, and the three packets the module sends in them.\<close>

definition configured :: "u16 \<Rightarrow> u16 \<Rightarrow> u16 \<Rightarrow> u16 \<Rightarrow> l2cap_channel_info \<Rightarrow> l2cap_channel_info" where
  "configured psm cid dcid mtu info = (connected psm cid dcid mtu info) \<lparr> chn_state := L2CAP_CHANNEL_STATE_COMPLETE \<rparr>"

definition set_up_packets :: "host_plan \<Rightarrow> u16 \<Rightarrow> u16 \<Rightarrow> u16 \<Rightarrow> u8 list list" where
  "set_up_packets A h psm cid =
     [connect_request h psm cid, config_response h (host_cid A psm) (host_ident A) (host_options A),
      config_request h (host_cid A psm)]"

lemma rounds_of_channel:
  assumes S: "host_services E contents cap R live" and A: "plan_ok A mtu"
    and st: "host_stage R live contents cap (n + 3) j h ACL_STATE_LINKING C cid sent W"
    and ch: "turn C ch" "\<not> chn_valid (C ch)" "ch = HID_Intr_Chn \<longrightarrow> chn_local_cid (C HID_Cntl_Chn) \<noteq> cid"
  defines "psm \<equiv> psm_of ch"
  shows "\<exists>W'. host_rounds E contents A j 2 (length sent, peers, W) =
      Inr (length sent + 3, peers(host_cid A psm \<mapsto> cid), W') \<and>
    host_stage R live contents cap n j h ACL_STATE_LINKING
      (C(ch := configured psm cid (host_cid A psm) mtu (C ch))) (cid + 1) (sent @ set_up_packets A h psm cid) W'"
proof -
  let ?d = "host_cid A psm"
  let ?C1 = "C(ch := connected psm cid ?d mtu (C ch))" and ?peers = "peers(?d \<mapsto> cid)"
  define sent1 where "sent1 = sent @ [connect_request h psm cid, config_response h ?d (host_ident A) (host_options A)]"
  have nz: "?d \<noteq> L2CAP_NULL_CID" using A ch(1) by (auto simp: plan_ok_def psm_def psm_of_def turn_def c_consts)
  have st3: "host_stage R live contents cap (Suc (Suc (Suc n))) j h ACL_STATE_LINKING C cid sent W"
    using st by (simp add: numeral_3_eq_3)
  have "host_reads A peers (drop (length sent) sent) = (peers, [])" "length sent \<le> length sent" by simp_all
  from round_connect [OF S A st3 ch this]
  obtain W1 where r1: "host_round E contents A j (length sent, peers, W) = Inr (Suc (length sent), ?peers, W1)"
    and s1: "host_stage R live contents cap (Suc n) j h ACL_STATE_LINKING ?C1 (cid + 1) sent1 W1"
    unfolding psm_def sent1_def by blast
  have a: "addressed ?C1 ch" "configurable (?C1 ch)" "?peers (chn_remote_cid (?C1 ch)) = Some (chn_local_cid (?C1 ch))"
    using ch(1,3) nz by (auto simp: addressed_def connected_def configurable_def l2cap_channel_info_setup_def)
  have "host_reads A ?peers (drop (Suc (length sent)) sent1) = (?peers, [])" "Suc (length sent) \<le> length sent1"
    by (simp_all add: sent1_def config_response_def reply_other)
  from round_config [OF S s1 a this]
  obtain W2 where "host_round E contents A j (Suc (length sent), ?peers, W1) = Inr (Suc (length sent1), ?peers, W2)"
    and "host_stage R live contents cap n j h ACL_STATE_LINKING
      (?C1(ch := (?C1 ch) \<lparr> chn_state := L2CAP_CHANNEL_STATE_COMPLETE \<rparr>)) (cid + 1)
      (sent1 @ [config_request h (chn_remote_cid (?C1 ch))]) W2"
    by blast
  then show ?thesis
    using r1 by (simp add: numeral_2_eq_2 sent1_def set_up_packets_def configured_def connected_def)
qed

lemma configured_fields:
  "dcid \<noteq> L2CAP_NULL_CID \<Longrightarrow> mtu \<noteq> 0 \<Longrightarrow> l2cap_channel_is_complete (configured psm cid dcid mtu info)"
  "chn_local_cid (configured psm cid dcid mtu info) = cid" "chn_remote_cid (configured psm cid dcid mtu info) = dcid"
  "chn_remote_mtu (configured psm cid dcid mtu info) = mtu"
  by (simp_all add: configured_def connected_def l2cap_channel_info_setup_def l2cap_channel_is_complete_def
      l2cap_channel_is_accepted_def l2cap_channel_is_is_remote_configured_def)

text \<open>A Wiimote whose connection the host has just accepted.\<close>

lemma accepted_stage:
  assumes "fake_wiimote_handle_hci_cmd_accept_con E j role W = Inr W0"
    and "\<And>ch. \<not> chn_valid (get_chn ch (fake_wiimotes W ! j))"
    and "fake_wiimote.input_device (fake_wiimotes W ! j) = Some i" and "i < length (input_devices W)"
  defines "C \<equiv> \<lambda>ch. get_chn ch (fake_wiimotes W0 ! j)"
  shows "stage j (fw_con_handle (fake_wiimotes W0 ! j)) ACL_STATE_LINKING C W0" and "\<not> chn_valid (C ch)"
proof -
  have r: "link_rel j W0 (True, Closed, Closed)" using accepted_link [OF assms(1-4)] .
  then show "stage j (fw_con_handle (fake_wiimotes W0 ! j)) ACL_STATE_LINKING C W0"
    by (auto simp: stage_def link_rel_def Let_def link_of_def C_def)
  show "\<not> chn_valid (C ch)"
    using r by (cases ch) (auto simp: link_rel_def Let_def link_of_def C_def)
qed

lemma round_done:
  assumes S: "host_services E contents cap R live"
    and st: "host_stage R live contents cap n j h ACL_STATE_LINKING C cid sent W"
    and "l2cap_channel_is_complete (C HID_Cntl_Chn)" and "l2cap_channel_is_complete (C HID_Intr_Chn)"
    and "host_reads A peers (drop seen sent) = (peers, [])"
  shows "\<exists>W'. host_round E contents A j (seen, peers, W) = Inr (length sent, peers, W') \<and>
    stage j h ACL_STATE_INACTIVE C W' \<and> outbox contents (usb W') = sent"
  using tick_finishes [OF S st assms(3,4)] assms(5) by (auto simp: host_round_def)

text \<open>C4: A link completes with a host that sees only the packets of the module. The host accepts the connection of a Wiimote without channels and has no read pending on the bulk endpoint, the heap and the queue have room for six packets. In each round the timer ticks, the host reads the packets it has not seen, and answers every connect request (with its channel for that service and a configuration request of its own) and every configuration request, and nothing else. After five rounds both channels are accepted and configured on both sides, with the channel numbers and the size limit of the host, and the Wiimote has left the linking state; what the module sent is exactly a connect request, a configuration response and a configuration request for the control channel and then for the interrupt channel.\<close>

lemma link_completes:
  assumes "host_services E contents cap R live"
    and "fake_wiimote_handle_hci_cmd_accept_con E j role W = Inr W0"
    and "\<And>ch. \<not> chn_valid (get_chn ch (fake_wiimotes W ! j))"
    and "input_device (fake_wiimotes W ! j) = Some i" and "i < length (input_devices W)"
    and "outbox_room R live contents cap 6 (usb W0)"
    and "plan_ok A mtu" and "cntl = host_cid A L2CAP_PSM_HID_CNTL" and "intr = host_cid A L2CAP_PSM_HID_INTR"
    and "h = fw_con_handle (fake_wiimotes W0 ! j)" and "cid = l2cap_starting_id W0"
  shows "\<exists>peers W'. host_rounds E contents A j 5 (length (outbox contents (usb W0)), Map.empty, W0) =
      Inr (length (outbox contents (usb W0)) + 6, peers, W') \<and>
    (let w = fake_wiimotes W' ! j in
       acl_state w = ACL_STATE_INACTIVE \<and>
       l2cap_channel_is_complete (psm_hid_cntl_chn w) \<and> l2cap_channel_is_complete (psm_hid_intr_chn w) \<and>
       chn_remote_cid (psm_hid_cntl_chn w) = cntl \<and> chn_remote_cid (psm_hid_intr_chn w) = intr \<and>
       chn_remote_mtu (psm_hid_cntl_chn w) = mtu \<and> chn_remote_mtu (psm_hid_intr_chn w) = mtu) \<and>
    outbox contents (usb W') = outbox contents (usb W0) @
      [connect_request h L2CAP_PSM_HID_CNTL cid, config_response h cntl (host_ident A) (host_options A), config_request h cntl,
       connect_request h L2CAP_PSM_HID_INTR (cid + 1), config_response h intr (host_ident A) (host_options A), config_request h intr]"
proof -
  note S = assms(1) and A = assms(7)
  define C0 where "C0 = (\<lambda>ch. get_chn ch (fake_wiimotes W0 ! j))"
  define sent where "sent = outbox contents (usb W0)"
  have v0: "\<not> chn_valid (C0 ch)" for ch using accepted_stage(2) [OF assms(2-5)] by (simp add: C0_def)
  have s0: "host_stage R live contents cap (3 + 3) j h ACL_STATE_LINKING C0 cid sent W0"
    using accepted_stage(1) [OF assms(2-5)] assms(6,10,11) by (simp add: host_stage_def sent_def C0_def)
  have nz: "cntl \<noteq> L2CAP_NULL_CID" "intr \<noteq> L2CAP_NULL_CID" "mtu \<noteq> 0"
    using A assms(8,9) by (auto simp: plan_ok_def c_consts)
  define C1 where "C1 = C0(HID_Cntl_Chn := configured L2CAP_PSM_HID_CNTL cid cntl mtu (C0 HID_Cntl_Chn))"
  define C2 where "C2 = C1(HID_Intr_Chn := configured L2CAP_PSM_HID_INTR (cid + 1) intr mtu (C1 HID_Intr_Chn))"
  define sent1 where "sent1 = sent @ set_up_packets A h L2CAP_PSM_HID_CNTL cid"
  define sent2 where "sent2 = sent1 @ set_up_packets A h L2CAP_PSM_HID_INTR (cid + 1)"
  have len: "length sent1 = length sent + 3" "length sent2 = length sent1 + 3"
    by (simp_all add: sent1_def sent2_def set_up_packets_def)
  have t0: "turn C0 HID_Cntl_Chn" using v0 by (simp add: turn_def)
  obtain W1 where r1: "host_rounds E contents A j 2 (length sent, Map.empty, W0) = Inr (length sent1, [cntl \<mapsto> cid], W1)"
    and s1: "host_stage R live contents cap (0 + 3) j h ACL_STATE_LINKING C1 (cid + 1) sent1 W1"
    using rounds_of_channel [OF S A s0 t0 v0, of Map.empty] assms(8) len by (auto simp: psm_of_def sent1_def C1_def)
  have t1: "turn C1 HID_Intr_Chn" and v1: "\<not> chn_valid (C1 HID_Intr_Chn)"
    using v0 nz by (simp_all add: turn_def configured_fields C1_def)
  have c1: "chn_local_cid (C1 HID_Cntl_Chn) = cid" by (simp add: C1_def configured_fields)
  obtain peers W2 where r2: "host_rounds E contents A j 2 (length sent1, [cntl \<mapsto> cid], W1) = Inr (length sent2, peers, W2)"
    and s2: "host_stage R live contents cap 0 j h ACL_STATE_LINKING C2 (cid + 1 + 1) sent2 W2"
    using rounds_of_channel [OF S A s1 t1 v1, of "[cntl \<mapsto> cid]"] assms(9) len
    by (auto simp: psm_of_def sent2_def C2_def c1)
  have c: "l2cap_channel_is_complete (C2 HID_Cntl_Chn)" "l2cap_channel_is_complete (C2 HID_Intr_Chn)"
    using nz by (simp_all add: configured_fields C1_def C2_def)
  obtain W3 where r3: "host_round E contents A j (length sent2, peers, W2) = Inr (length sent2, peers, W3)"
    and s3: "stage j h ACL_STATE_INACTIVE C2 W3" "outbox contents (usb W3) = sent2"
    using round_done [OF S s2 c, of A peers "length sent2"] by auto
  have "host_rounds E contents A j (2 + (2 + 1)) (length sent, Map.empty, W0) = Inr (length sent2, peers, W3)"
    unfolding host_rounds_append r1 r2 rbind_Inr using r3 by simp
  then show ?thesis
    using s3 stageD [OF s3(1)] c len assms(8,9)
    by (simp add: sent_def sent1_def sent2_def Let_def configured_fields set_up_packets_def C1_def C2_def)
qed

text \<open>On the sample world, with a host that limits the packets to 185 bytes.\<close>

definition sample_plan :: host_plan where
  "sample_plan = \<lparr> host_cid = (\<lambda>psm. if psm = L2CAP_PSM_HID_CNTL then 0x50 else 0x51), host_ident = 2,
     host_options = [1, 2, 0xB9, 0] \<rparr>"

lemma sample_plan_ok: "plan_ok sample_plan 0xB9"
proof -
  have "config_options [1, 2, 0xB9, 0] (Suc (Suc (Suc (Suc 0)))) 0 L2CAP_MTU_DEFAULT = Inr 0xB9"
    by (simp add: config_options.simps read_u8_def read_le16_def mk16_def c_consts)
  then show ?thesis by (simp add: plan_ok_def sample_plan_def)
qed

lemma sample_host_services: "host_services sample_ext so_queues sample_capacity sample_budget sample_live"
  by (simp add: host_services_def sample_services sample_heap_budget)

lemma link_completes_witness:
  "\<exists>W0 peers W'. fake_wiimote_handle_hci_cmd_accept_con sample_ext 0 1 asking_world = Inr W0 \<and>
    host_rounds sample_ext so_queues sample_plan 0 5 (0, Map.empty, W0) = Inr (6, peers, W') \<and>
    l2cap_channel_is_complete (psm_hid_intr_chn (fake_wiimotes W' ! 0)) \<and> length (outbox so_queues (usb W')) = 6"
proof -
  obtain W0 where a: "fake_wiimote_handle_hci_cmd_accept_con sample_ext 0 1 asking_world = Inr W0"
    and q: "sample_intr_room 0 (usb W0)"
    using asking_accepted by blast
  have r: "outbox_room sample_budget sample_live so_queues sample_capacity 6 (usb W0)"
    using q by (auto simp: sample_intr_room_def outbox_room_def sample_budget_def queue_ids_def sample_capacity_def)
  have o: "outbox so_queues (usb W0) = []"
    using q by (auto simp: sample_intr_room_def outbox_def queue_ids_def)
  have w: "\<not> chn_valid (get_chn ch (fake_wiimotes asking_world ! 0))"
    "input_device (fake_wiimotes asking_world ! 0) = Some 0" "0 < length (input_devices asking_world)" for ch
    by (simp_all add: asking_world_def)
  from link_completes [OF sample_host_services a w r sample_plan_ok refl refl refl refl] a
  show ?thesis by (auto simp: o Let_def)
qed

end
