(* ===== verification/Report_Ticks.thy ===== *)
theory Report_Ticks
  imports Host_Reports Wire_Packets
begin

text \<open>
  A tick of a connected Wiimote whose controller has a sample: the tick maps the sample to the
  buttons and the extension data of the Wiimote, and the host gets a report exactly when one of
  them changed.
\<close>

section \<open>A sample and the Wiimote\<close>

text \<open>\<open>memmismatch\<close> gives the index of the first difference, or the size when there is none.\<close>

definition mismatch_spec :: "'os ext \<Rightarrow> bool" where
  "mismatch_spec E \<longleftrightarrow> (\<forall>a b n. n \<le> length a \<and> n \<le> length b \<longrightarrow>
     (let k = memmismatch E a b n in k \<le> n \<and> take k a = take k b \<and> (k < n \<longrightarrow> a ! k \<noteq> b ! k)))"

text \<open>The six bytes the extension shows to the host.\<close>

definition ext_data :: "fake_wiimote \<Rightarrow> u8 list" where
  "ext_data w = take 6 (extension_regs w)"

text \<open>A sample sets the buttons and the data of the extension, and marks the Wiimote when one of
  them was different.\<close>

lemma sample_reported:
  assumes "mismatch_spec E" and "length (extension_regs w) = sizeof_extension_registers" and "length ext = 6"
    and "\<not> input_dirty w"
  shows "\<exists>regs. length regs = sizeof_extension_registers \<and> take 6 regs = ext \<and>
    fake_wiimote_report_input_ext E btns ext 6 w =
      w \<lparr> fw_buttons := btns, extension_regs := regs, input_dirty := (fw_buttons w \<noteq> btns \<or> ext_data w \<noteq> ext) \<rparr>"
proof -
  define k where "k = memmismatch E (extension_regs w) ext 6"
  have l: "6 \<le> length (extension_regs w)" using assms(2) by (simp add: sizeof_extension_registers_def)
  then have k: "k \<le> 6" "take k (extension_regs w) = take k ext" "k < 6 \<Longrightarrow> extension_regs w ! k \<noteq> ext ! k"
    using assms(1,3) by (auto simp: mismatch_spec_def k_def Let_def)
  have same: "ext_data w = ext \<longleftrightarrow> k = 6"
  proof
    assume "ext_data w = ext"
    then have "extension_regs w ! k = ext ! k" if "k < 6" using that by (auto simp: ext_data_def)
    then show "k = 6" using k(1,3) by fastforce
  next
    assume "k = 6"
    then show "ext_data w = ext" using k(2) assms(3) by (simp add: ext_data_def)
  qed
  define regs where "regs = (if k \<noteq> 6 then put k (take (6 - k) (drop k ext)) (extension_regs w) else extension_regs w)"
  have "take k (extension_regs w) @ drop k ext = ext" using k(2) append_take_drop_id [of k ext] by metis
  then have "take 6 regs = ext"
    using k(1) l same assms(3) by (auto simp: regs_def put_def ext_data_def)
  moreover have "length regs = sizeof_extension_registers" using assms(2,3) k(1) l by (auto simp: regs_def)
  moreover have "(fw_buttons w XOR btns \<noteq> 0) = (fw_buttons w \<noteq> btns)"
    by (metis xor_self_eq xor.right_neutral xor.assoc xor.left_neutral)
  then have "fake_wiimote_report_input_ext E btns ext 6 w =
      w \<lparr> fw_buttons := btns, extension_regs := regs, input_dirty := (fw_buttons w \<noteq> btns \<or> ext_data w \<noteq> ext) \<rparr>"
    using same assms(4) by (auto simp: fake_wiimote_report_input_ext_def k_def regs_def Let_def ext_regs_controller_data_def)
  ultimately show ?thesis by blast
qed

text \<open>Wiimote \<open>j\<close> takes its turn with controller \<open>p\<close> in slot \<open>i\<close>: it is connected, has nothing else to
  do, and reports the buttons (mode 0x30) when they change; the controller presses no shortcut.\<close>

definition reporting :: "nat \<Rightarrow> nat \<Rightarrow> egc_ptr \<Rightarrow> 'os world \<Rightarrow> bool" where
  "reporting j i p W \<longleftrightarrow> j < length (fake_wiimotes W) \<and> i < length (input_devices W) \<and>
     (let w = fake_wiimotes W ! j; d = input_devices W ! i; pressed = egc_buttons (egc_state (egc_devices W p)) in
        baseband_state w = BASEBAND_STATE_COMPLETE \<and> acl_state w \<noteq> ACL_STATE_LINKING \<and>
        rr_size (fw_read_request w) = 0 \<and> new_extension w = cur_extension w \<and>
        fake_wiimote.input_device w = Some i \<and> reporting_mode w = INPUT_REPORT_ID_BTN \<and>
        \<not> reporting_continuous w \<and> \<not> input_dirty w \<and> length (extension_regs w) = sizeof_extension_registers \<and>
        dev_device d = Some p \<and> assigned_wiimote d = Some j \<and> dev_extension d = WIIMOTE_EXT_NUNCHUK \<and>
        ir_emu_mode_idx d < length ir_emu_modes \<and>
        pressed AND switch_mapping_combo d \<noteq> switch_mapping_combo d \<and>
        pressed AND switch_ir_emu_mode_combo d \<noteq> switch_ir_emu_mode_combo d)"

text \<open>The buttons and the extension data of a sample.\<close>

definition sample_buttons :: "'os ext \<Rightarrow> egc_gamepad \<Rightarrow> u16" where
  "sample_buttons E gp = bm_map_wiimote (egc_buttons gp) (wiimote_button_map E) 0"

definition sample_nunchuk :: "'os ext \<Rightarrow> egc_gamepad \<Rightarrow> u8 list" where
  "sample_nunchuk E gp = bm_map_nunchuk (egc_buttons gp) (egc_axes gp) 0 0 0 (nunchuk_button_map E)
     (nunchuk_analog_axis_map E)"

lemma dots_fields [simp]:
  "fw_buttons (fake_wiimote_report_ir_dots dots w) = fw_buttons w"
  "extension_regs (fake_wiimote_report_ir_dots dots w) = extension_regs w"
  "input_dirty (fake_wiimote_report_ir_dots dots w) = input_dirty w"
  "baseband_state (fake_wiimote_report_ir_dots dots w) = baseband_state w"
  "acl_state (fake_wiimote_report_ir_dots dots w) = acl_state w"
  "fw_read_request (fake_wiimote_report_ir_dots dots w) = fw_read_request w"
  "new_extension (fake_wiimote_report_ir_dots dots w) = new_extension w"
  "cur_extension (fake_wiimote_report_ir_dots dots w) = cur_extension w"
  "fake_wiimote.input_device (fake_wiimote_report_ir_dots dots w) = fake_wiimote.input_device w"
  "reporting_mode (fake_wiimote_report_ir_dots dots w) = reporting_mode w"
  "reporting_continuous (fake_wiimote_report_ir_dots dots w) = reporting_continuous w"
  "fw_con_handle (fake_wiimote_report_ir_dots dots w) = fw_con_handle w"
  "psm_hid_intr_chn (fake_wiimote_report_ir_dots dots w) = psm_hid_intr_chn w"
  by (simp_all add: fake_wiimote_report_ir_dots_def Let_def)

lemma acceleration_fields [simp]:
  "fw_buttons (fake_wiimote_report_accelerometer ax ay az w) = fw_buttons w"
  "extension_regs (fake_wiimote_report_accelerometer ax ay az w) = extension_regs w"
  "input_dirty (fake_wiimote_report_accelerometer ax ay az w) = input_dirty w"
  "baseband_state (fake_wiimote_report_accelerometer ax ay az w) = baseband_state w"
  "acl_state (fake_wiimote_report_accelerometer ax ay az w) = acl_state w"
  "fw_read_request (fake_wiimote_report_accelerometer ax ay az w) = fw_read_request w"
  "new_extension (fake_wiimote_report_accelerometer ax ay az w) = new_extension w"
  "cur_extension (fake_wiimote_report_accelerometer ax ay az w) = cur_extension w"
  "fake_wiimote.input_device (fake_wiimote_report_accelerometer ax ay az w) = fake_wiimote.input_device w"
  "reporting_mode (fake_wiimote_report_accelerometer ax ay az w) = reporting_mode w"
  "reporting_continuous (fake_wiimote_report_accelerometer ax ay az w) = reporting_continuous w"
  "fw_con_handle (fake_wiimote_report_accelerometer ax ay az w) = fw_con_handle w"
  "psm_hid_intr_chn (fake_wiimote_report_accelerometer ax ay az w) = psm_hid_intr_chn w"
  by (simp_all add: fake_wiimote_report_accelerometer_def)

lemma ir_emulated:
  assumes "ir_emu_mode_idx d < length ir_emu_modes"
  shows "\<exists>dots st. emulate_ir E bar ir_dots gp d = Inr (dots, d \<lparr> ir_emu_state := st \<rparr>)"
proof -
  have e: "\<exists>st. d = d \<lparr> ir_emu_state := st \<rparr>" by (rule exI [of _ "ir_emu_state d"]) simp
  define mode where "mode = ir_emu_modes ! ir_emu_mode_idx d"
  have "at ir_emu_modes (ir_emu_mode_idx d) = Inr mode" using assms by (simp add: at_def mode_def)
  then show ?thesis unfolding emulate_ir_def by (cases mode) (simp_all add: e case_prod_beta, blast+)
qed

text \<open>The sample is taken over, and the Wiimote is otherwise the one it was for its next turn.\<close>

lemma sample_taken:
  assumes E: "mismatch_spec E" and r: "reporting j i p W"
  defines "w \<equiv> fake_wiimotes W ! j" and "gp \<equiv> egc_state (egc_devices W p)"
  shows "\<exists>d' w'. input_device_report_input E i W = Inr (True, upd_wm j (\<lambda>_. w') (upd_dev i (\<lambda>_. d') W)) \<and>
    input_dirty w' = (fw_buttons w \<noteq> sample_buttons E gp \<or> ext_data w \<noteq> sample_nunchuk E gp) \<and>
    fw_buttons w' = sample_buttons E gp \<and> ext_data w' = sample_nunchuk E gp \<and>
    fw_con_handle w' = fw_con_handle w \<and> psm_hid_intr_chn w' = psm_hid_intr_chn w \<and>
    reporting_mode w' = INPUT_REPORT_ID_BTN \<and> \<not> reporting_continuous w' \<and>
    (\<forall>u. reporting j i p (upd_wm j (\<lambda>_. w' \<lparr> input_dirty := False \<rparr>) (upd_dev i (\<lambda>_. d') W) \<lparr> usb := u \<rparr>))"
proof -
  let ?d = "input_devices W ! i" and ?dev = "egc_devices W p"
  define d2 where "d2 = ?d \<lparr> switch_mapping := False, switch_ir_emu_mode := False \<rparr>"
  define w1 where "w1 = (if num_accelerometers (egc_desc ?dev) > 0
    then (case egc_accelerometer_0 gp of (ax, ay, az) \<Rightarrow> fake_wiimote_report_accelerometer ax ay az w) else w)"
  have l: "j < length (fake_wiimotes W)" "i < length (input_devices W)" "dev_device ?d = Some p"
    "assigned_wiimote ?d = Some j" "dev_extension ?d = WIIMOTE_EXT_NUNCHUK"
    using r by (auto simp: reporting_def Let_def)
  have ir: "ir_emu_mode_idx d2 < length ir_emu_modes" using r by (simp add: reporting_def Let_def d2_def)
  obtain dots st where e: "emulate_ir E (s_sensor_bar_position_top W) (stack_dots (stack_bytes E 16 (os_state (usb W)))) gp d2 =
      Inr (dots, d2 \<lparr> ir_emu_state := st \<rparr>)"
    using ir_emulated [OF ir] by blast
  define d4 where "d4 = d2 \<lparr> ir_emu_state := st \<rparr>"
  let ?v = "fake_wiimote_report_ir_dots dots w1"
  have v: "length (extension_regs ?v) = sizeof_extension_registers" "\<not> input_dirty ?v"
    using r by (simp_all add: reporting_def Let_def w1_def w_def split: prod.split)
  obtain regs where regs: "length regs = sizeof_extension_registers" "take 6 regs = sample_nunchuk E gp"
    and w': "fake_wiimote_report_input_ext E (sample_buttons E gp) (sample_nunchuk E gp) 6 ?v =
      ?v \<lparr> fw_buttons := sample_buttons E gp, extension_regs := regs,
        input_dirty := (fw_buttons ?v \<noteq> sample_buttons E gp \<or> ext_data ?v \<noteq> sample_nunchuk E gp) \<rparr>"
    using sample_reported [OF E v(1) _ v(2)] by (metis bm_map_nunchuk_def length_nunchuk_format sample_nunchuk_def)
  have "report_sample E (s_sensor_bar_position_top W) (stack_dots (stack_bytes E 16 (os_state (usb W)))) ?dev ?d w =
      Inr (True, d4, fake_wiimote_report_input_ext E (sample_buttons E gp) (sample_nunchuk E gp) 6 ?v)"
  proof -
    have n: "dev_extension d4 = WIIMOTE_EXT_NUNCHUK" "dev_extension d2 = WIIMOTE_EXT_NUNCHUK"
      using l(5) by (simp_all add: d4_def d2_def)
    show ?thesis
      using r e [folded d4_def] n l(5)
      by (simp add: report_sample_def reporting_def Let_def bm_check_switch_mapping_def d2_def [symmetric] gp_def [symmetric]
          w1_def report_extension_def sample_buttons_def sample_nunchuk_def split: prod.split)
  qed
  then have run: "input_device_report_input E i W = Inr (True, upd_wm j (\<lambda>_. ?v \<lparr> fw_buttons := sample_buttons E gp,
      extension_regs := regs, input_dirty := (fw_buttons ?v \<noteq> sample_buttons E gp \<or> ext_data ?v \<noteq> sample_nunchuk E gp) \<rparr>)
      (upd_dev i (\<lambda>_. d4) W))"
    using l by (simp add: input_device_report_input_def at_def w_def w')
  have f: "fw_buttons w1 = fw_buttons w" "ext_data ?v = ext_data w"
    by (simp_all add: w1_def ext_data_def split: prod.split)
  define w' where "w' = ?v \<lparr> fw_buttons := sample_buttons E gp, extension_regs := regs,
    input_dirty := (fw_buttons ?v \<noteq> sample_buttons E gp \<or> ext_data ?v \<noteq> sample_nunchuk E gp) \<rparr>"
  have "reporting j i p (upd_wm j (\<lambda>_. w' \<lparr> input_dirty := False \<rparr>) (upd_dev i (\<lambda>_. d4) W) \<lparr> usb := u \<rparr>)" for u
    using r regs(1) unfolding reporting_def
    by (simp add: Let_def upd_wm_def upd_dev_def w'_def w1_def w_def d4_def d2_def split: prod.split)
  moreover have "fw_con_handle w' = fw_con_handle w" "psm_hid_intr_chn w' = psm_hid_intr_chn w"
    "reporting_mode w' = INPUT_REPORT_ID_BTN" "\<not> reporting_continuous w'"
    using r by (simp_all add: w'_def w1_def w_def reporting_def Let_def split: prod.split)
  moreover have "input_dirty w' = (fw_buttons w \<noteq> sample_buttons E gp \<or> ext_data w \<noteq> sample_nunchuk E gp)"
    "fw_buttons w' = sample_buttons E gp" "ext_data w' = sample_nunchuk E gp"
    using f regs(2) by (simp_all add: w'_def ext_data_def)
  ultimately show ?thesis using run [folded w'_def] by blast
qed

section \<open>The tick\<close>

text \<open>C26: The host gets a report exactly when a sample changes something. A connected Wiimote that reports its buttons on change takes its turn, with no read request or extension change to serve and no shortcut pressed on its controller: the tick maps the sample of the controller to the buttons and to the Nunchuk data of the Wiimote; when either differs from what the Wiimote had, one report with the new buttons goes to the interrupt channel, otherwise nothing is sent. Afterwards the Wiimote has the new values and is ready for its next turn, so the same sample is not sent twice.\<close>

lemma tick_reports_change:
  assumes "mismatch_spec E" and "heap_spec E" and "reporting j i p W"
    and "w = fake_wiimotes W ! j" and "gp = egc_state (egc_devices W p)"
  shows "\<exists>W1. fake_wiimote_tick E j W =
      (if fw_buttons w = sample_buttons E gp \<and> ext_data w = sample_nunchuk E gp then Inr W1
       else rbind (inject_packet E Bulk_In (acl_packet (fw_con_handle w)
           (l2cap_frame (chn_remote_cid (psm_hid_intr_chn w)) ([0xA1, 0x30] @ be16 (sample_buttons E gp)))) (usb W))
         (\<lambda>(_, u'). Inr (W1 \<lparr> usb := u' \<rparr>))) \<and>
    usb W1 = usb W \<and> (\<forall>u. reporting j i p (W1 \<lparr> usb := u \<rparr>)) \<and>
    fw_buttons (fake_wiimotes W1 ! j) = sample_buttons E gp \<and> ext_data (fake_wiimotes W1 ! j) = sample_nunchuk E gp"
proof -
  obtain d' w' where run: "input_device_report_input E i W = Inr (True, upd_wm j (\<lambda>_. w') (upd_dev i (\<lambda>_. d') W))"
    and dirty: "input_dirty w' = (fw_buttons w \<noteq> sample_buttons E gp \<or> ext_data w \<noteq> sample_nunchuk E gp)"
    and new: "fw_buttons w' = sample_buttons E gp" "ext_data w' = sample_nunchuk E gp"
    and keep: "fw_con_handle w' = fw_con_handle w" "psm_hid_intr_chn w' = psm_hid_intr_chn w"
      "reporting_mode w' = INPUT_REPORT_ID_BTN" "\<not> reporting_continuous w'"
    and nxt: "\<And>u. reporting j i p (upd_wm j (\<lambda>_. w' \<lparr> input_dirty := False \<rparr>) (upd_dev i (\<lambda>_. d') W) \<lparr> usb := u \<rparr>)"
    using sample_taken [OF assms(1,3)] unfolding assms(4,5) by blast
  define W1 where "W1 = upd_wm j (\<lambda>_. w' \<lparr> input_dirty := False \<rparr>) (upd_dev i (\<lambda>_. d') W)"
  have j: "j < length (fake_wiimotes W)" using assms(3) by (simp add: reporting_def)
  have idle: "on_wm (fake_wiimote_process_read_request E) j W = Inr (False, W)"
    "on_wm (fake_wiimote_process_extension_change E) j W = Inr (False, W)"
    using assms(3) by (simp_all add: reporting_def Let_def on_wm_def at_def fake_wiimote_process_read_request_def
        fake_wiimote_process_extension_change_def upd_wm_def)
  have "fake_wiimote_tick E j W =
      on_wm_state (fake_wiimote_send_data_report E) j (upd_wm j (\<lambda>_. w') (upd_dev i (\<lambda>_. d') W))"
    using assms(3) idle run j
    by (simp add: fake_wiimote_tick_def tick_connected_def reporting_def Let_def at_def)
  also have "\<dots> = (if input_dirty w'
      then rbind (inject_packet E Bulk_In (acl_packet (fw_con_handle w)
           (l2cap_frame (chn_remote_cid (psm_hid_intr_chn w)) ([0xA1, 0x30] @ be16 (sample_buttons E gp)))) (usb W))
         (\<lambda>(_, u'). Inr (W1 \<lparr> usb := u' \<rparr>))
      else Inr W1)"
  proof -
    have b: "build_data_report E (stack_bytes E CONTROLLER_DATA_BYTES os) w' = Inr (be16 (sample_buttons E gp), w')" for os
      using keep(3) new(1)
      by (simp add: build_data_report_def Let_def input_report_defs report_size_of_def c_consts put_def be16_def)
    have s: "wiimote_send_report E 0x30 (be16 (sample_buttons E gp)) w' u = inject_packet E Bulk_In
        (acl_packet (fw_con_handle w) (l2cap_frame (chn_remote_cid (psm_hid_intr_chn w))
          ([0xA1, 0x30] @ be16 (sample_buttons E gp)))) u" for u
      using report_wire [OF assms(2), of "be16 (sample_buttons E gp)"] keep(1,2) by (simp add: be16_def)
    have c: "w' \<lparr> input_dirty := False \<rparr> = w'" if "\<not> input_dirty w'" using that by (cases w') simp
    have m: "INPUT_REPORT_ID_BTN = 0x30" "INPUT_REPORT_ID_BTN \<noteq> INPUT_REPORT_ID_REPORT_DISABLED"
      by (simp_all add: c_consts)
    show ?thesis
      using j keep(3,4) m(2)
      by (cases "input_dirty w'") (simp_all add: on_wm_state_def on_wm_def at_def upd_wm_def upd_dev_def
          fake_wiimote_send_data_report_def b s m(1) c W1_def rbind_assoc case_prod_unfold)
  qed
  finally show ?thesis
    using nxt new j dirty by (auto simp: W1_def upd_wm_def upd_dev_def ext_data_def)
qed

text \<open>On the sample world: the data of the extension, still zero after the start, change with the first sample.\<close>

definition reporting_world :: "sample_os world" where
  "reporting_world = sample_world \<lparr> fake_wiimotes := [sample_wiimote \<lparr> extension_regs := replicate sizeof_extension_registers 0,
     reporting_continuous := False, input_dirty := False \<rparr>, idle_wiimote],
     input_devices := [sample_slot \<lparr> switch_mapping_combo := 3, switch_ir_emu_mode_combo := 3, ir_emu_mode_idx := 0 \<rparr>, input_device_zero] \<rparr>"

lemma sample_mismatch_spec: "mismatch_spec sample_ext"
proof -
  have "k \<le> n \<and> take k a = take k b \<and> (k < n \<longrightarrow> a ! k \<noteq> b ! k)"
    if "n \<le> length a" "n \<le> length b" "k = sample_mismatch a b n" for a b n k
    using that by (induction a b n arbitrary: k rule: sample_mismatch.induct) (auto split: if_splits)
  then show ?thesis unfolding mismatch_spec_def Let_def sample_ext_sel by blast
qed

lemma tick_reports_change_witness:
  "\<exists>W1. fake_wiimote_tick sample_ext 0 reporting_world =
    rbind (inject_packet sample_ext Bulk_In (acl_packet 9 (l2cap_frame 0x51 [0xA1, 0x30, 0, 0])) sample_usb)
      (\<lambda>(_, u'). Inr (W1 \<lparr> usb := u' \<rparr>))"
proof -
  have r: "reporting 0 0 7 reporting_world"
    by (simp add: reporting_def Let_def reporting_world_def sample_device_def sample_gamepad_def ir_emu_modes_def)
  have z: "map_buttons 0 ms 0 = (0 :: 'a::len word)" for ms by (induction ms) simp_all
  let ?gp = "egc_state (egc_devices reporting_world 7)"
  have b: "sample_buttons sample_ext ?gp = 0"
    by (simp add: sample_buttons_def reporting_world_def sample_device_def sample_gamepad_def bm_map_wiimote_def z)
  have "sample_nunchuk sample_ext ?gp ! 5 = 3"
    by (simp add: sample_nunchuk_def reporting_world_def sample_device_def sample_gamepad_def bm_map_nunchuk_def z
        bm_nunchuk_format_def nunchuk_bt_def bool_bit_def)
  moreover have "ext_data (fake_wiimotes reporting_world ! 0) ! 5 = 0"
    by (simp add: ext_data_def reporting_world_def sizeof_extension_registers_def)
  ultimately have n: "ext_data (fake_wiimotes reporting_world ! 0) \<noteq> sample_nunchuk sample_ext ?gp" by auto
  have w: "fw_con_handle (fake_wiimotes reporting_world ! 0) = 9" "usb reporting_world = sample_usb"
    "chn_remote_cid (psm_hid_intr_chn (fake_wiimotes reporting_world ! 0)) = 0x51"
    by (simp_all add: reporting_world_def sample_channel_def)
  show ?thesis
    using tick_reports_change [OF sample_mismatch_spec sample_heap_spec r refl refl] n
    by (auto simp: b w be16_def)
qed

end
