(* ===== verification/Code_Patch.thy ===== *)
theory Code_Patch
  imports Input_Device
begin

unbundle bit_operations_syntax

text \<open>
  The installation of the hooks, \<open>Patch_OH1UsbModule\<close> of \<open>source/main.c\<close>: it recognises the
  version of the OH1 module by the first halfword of a function, takes the queue of the module
  over and replaces two functions by jumps.  The memory is a function from addresses to bytes;
  the processor is big-endian.
\<close>

section \<open>Memory\<close>

type_synonym code_memory = "u32 \<Rightarrow> u8"

definition load16 :: "code_memory \<Rightarrow> u32 \<Rightarrow> u16" where
  "load16 m a = mk16 (m a) (m (a + 1))"

definition load32 :: "code_memory \<Rightarrow> u32 \<Rightarrow> u32" where
  "load32 m a = push_bit 16 (ucast (load16 m a)) OR ucast (load16 m (a + 2))"

text \<open>What the linker and cios-lib supply: the write of a word to code, and two addresses.\<close>

record patch_env =
  DCWrite32 :: "u32 \<Rightarrow> u32 \<Rightarrow> code_memory \<Rightarrow> code_memory"
  receive_hook_address :: u32
  reply_hook_address :: u32
  IOS_ENOENT :: int

definition be32 :: "u32 \<Rightarrow> u8 list" where
  "be32 v = [ucast (drop_bit 24 v), ucast (drop_bit 16 v), ucast (drop_bit 8 v), ucast v]"

definition write_spec :: "patch_env \<Rightarrow> bool" where
  "write_spec P \<longleftrightarrow> (\<forall>a v m x. DCWrite32 P a v m x = (if x - a < 4 then be32 v ! unat (x - a) else m x))"

section \<open>The patch\<close>

definition OH1_IOS_ReceiveMessage_ADDR1 :: u32 where "OH1_IOS_ReceiveMessage_ADDR1 = 0x138b365c"
definition OH1_IOS_ResourceReply_ADDR1 :: u32 where "OH1_IOS_ResourceReply_ADDR1 = 0x138b36f4"
definition OH1_IOS_ReceiveMessage_ADDR2 :: u32 where "OH1_IOS_ReceiveMessage_ADDR2 = 0x138b366c"
definition OH1_IOS_ResourceReply_ADDR2 :: u32 where "OH1_IOS_ResourceReply_ADDR2 = 0x138b3704"
definition OH1_DEV_OH1_QUEUEID_ADDR :: u32 where "OH1_DEV_OH1_QUEUEID_ADDR = 0x138b5004"

lemmas patch_addresses =
  OH1_IOS_ReceiveMessage_ADDR1_def OH1_IOS_ResourceReply_ADDR1_def OH1_IOS_ReceiveMessage_ADDR2_def
  OH1_IOS_ResourceReply_ADDR2_def OH1_DEV_OH1_QUEUEID_ADDR_def

text \<open>The version check: the addresses of the two functions.\<close>

definition oh1_version :: "code_memory \<Rightarrow> (u32 \<times> u32) option" where
  "oh1_version m =
     (let bytes = (ucast (load16 m OH1_IOS_ReceiveMessage_ADDR1) :: u32) in
      if bytes = 0x4778 then Some (OH1_IOS_ReceiveMessage_ADDR1, OH1_IOS_ResourceReply_ADDR1)
      else if bytes = 0xbd00 then Some (OH1_IOS_ReceiveMessage_ADDR2, OH1_IOS_ResourceReply_ADDR2)
      else None)"

definition Patch_OH1UsbModule :: "patch_env \<Rightarrow> code_memory \<Rightarrow> 'os world \<Rightarrow> int \<times> code_memory \<times> 'os world" where
  "Patch_OH1UsbModule P m W =
     (case oh1_version m of
        None \<Rightarrow> (IOS_ENOENT P, m, W)
      | Some (addr_recv, addr_reply) \<Rightarrow>
          let W1 = W \<lparr> orig_msg_queueid := sint (load32 m OH1_DEV_OH1_QUEUEID_ADDR) \<rparr>;
              m1 = DCWrite32 P addr_recv 0x4B004718 m;
              m2 = DCWrite32 P (addr_recv + 4) (receive_hook_address P) m1;
              m3 = DCWrite32 P addr_reply 0x4B004718 m2;
              m4 = DCWrite32 P (addr_reply + 4) (reply_hook_address P) m3
          in (0, m4, W1))"

section \<open>What the patched code does\<close>

text \<open>
  The two Thumb instructions \<open>ldr r3, [pc, #0]\<close> and \<open>bx r3\<close> at an address: the program counter
  reads as the address plus four, rounded down to a word.
\<close>

definition jump_target :: "code_memory \<Rightarrow> u32 \<Rightarrow> u32 option" where
  "jump_target m a =
     (if load16 m a = 0x4B00 \<and> load16 m (a + 2) = 0x4718 then Some (load32 m ((a + 4) AND NOT 3)) else None)"

lemma load32_be32:
  assumes "m a = ucast (drop_bit 24 v)" and "m (a + 1) = ucast (drop_bit 16 v)"
    and "m (a + 2) = ucast (drop_bit 8 v)" and "m (a + 3) = ucast v"
  shows "load32 m a = v"
proof -
  have e: "a + 2 + 1 = a + 3" by (simp add: add.assoc)
  have b: "ucast (drop_bit 24 v) = (ucast (drop_bit 8 (ucast (drop_bit 16 v) :: u16)) :: u8)"
    "ucast (drop_bit 16 v) = (ucast (ucast (drop_bit 16 v) :: u16) :: u8)"
    "ucast (drop_bit 8 v) = (ucast (drop_bit 8 (ucast v :: u16)) :: u8)" "ucast v = (ucast (ucast v :: u16) :: u8)"
    by (rule bit_word_eqI, auto simp: bit_simps)+
  have "load16 m a = ucast (drop_bit 16 v)" "load16 m (a + 2) = ucast v"
    unfolding load16_def e assms b by (rule mk16_split)+
  then show ?thesis
    unfolding load32_def by (intro bit_word_eqI) (auto simp: bit_simps dest: bit_imp_le_length)
qed

text \<open>A word and its neighbour, written one after the other.\<close>

lemma stub_written:
  assumes w: "write_spec P"
  defines "m' \<equiv> (\<lambda>a h m. DCWrite32 P (a + 4) h (DCWrite32 P a 0x4B004718 m))"
  shows "x - a < 8 \<Longrightarrow> m' a h m x = (be32 0x4B004718 @ be32 h) ! unat (x - a)"
    and "\<not> x - a < 8 \<Longrightarrow> m' a h m x = m x"
proof -
  have d: "x - (a + 4) = x - a - 4" by simp
  have i: "x - a - 4 < 4 \<longleftrightarrow> 4 \<le> x - a \<and> x - a < 8" and lt: "x - a < 4 \<Longrightarrow> x - a < 8"
    by (auto simp: word_less_nat_alt word_le_nat_alt unat_sub_if_size word_size split: if_splits)
  have n: "4 \<le> x - a \<Longrightarrow> unat (x - a) = unat (x - a - 4) + 4" "x - a < 4 \<Longrightarrow> unat (x - a) < 4"
    by (auto simp: word_less_nat_alt word_le_nat_alt unat_sub_if_size word_size)
  have l: "length (be32 v) = 4" for v by (simp add: be32_def)
  have wr: "DCWrite32 P a v m x = (if x - a < 4 then be32 v ! unat (x - a) else m x)" for a v m x
    using w by (simp add: write_spec_def)
  show "x - a < 8 \<Longrightarrow> m' a h m x = (be32 0x4B004718 @ be32 h) ! unat (x - a)"
    unfolding m'_def wr d i using n l by (auto simp: nth_append not_less)
  show "\<not> x - a < 8 \<Longrightarrow> m' a h m x = m x"
    unfolding m'_def wr d i using lt by auto
qed

definition stub :: "u32 \<Rightarrow> u8 list" where
  "stub h = be32 0x4B004718 @ be32 h"

lemma stub_jumps:
  assumes b: "\<And>k. k < 8 \<Longrightarrow> m (a + k) = stub h ! unat k" and "(a + 4) AND NOT 3 = a + 4"
  shows "jump_target m a = Some h"
proof -
  have e: "a + 4 + 1 = a + 5" "a + 4 + 2 = a + 6" "a + 4 + 3 = a + 7" "a + 2 + 1 = a + 3" by simp_all
  have k: "m a = 0x4B" "m (a + 1) = 0" "m (a + 2) = 0x47" "m (a + 3) = 0x18"
    "m (a + 4) = ucast (drop_bit 24 h)" "m (a + 5) = ucast (drop_bit 16 h)" "m (a + 6) = ucast (drop_bit 8 h)"
    "m (a + 7) = ucast h"
    using b [of 0] b [of 1] b [of 2] b [of 3] b [of 4] b [of 5] b [of 6] b [of 7]
    by (simp_all add: stub_def be32_def drop_bit_eq_div)
  have "load32 m (a + 4) = h" by (rule load32_be32) (simp_all only: e k)
  moreover have "load16 m a = 0x4B00" "load16 m (a + 2) = 0x4718"
    unfolding load16_def e k by (simp_all add: mk16_def)
  ultimately show ?thesis using assms(2) by (simp add: jump_target_def)
qed

text \<open>The memory after the patch, byte by byte.\<close>

definition patched :: "patch_env \<Rightarrow> u32 \<Rightarrow> u32 \<Rightarrow> code_memory \<Rightarrow> code_memory" where
  "patched P a b m = (\<lambda>x. if x - b < 8 then stub (reply_hook_address P) ! unat (x - b)
     else if x - a < 8 then stub (receive_hook_address P) ! unat (x - a) else m x)"

lemma patch_memory:
  assumes "write_spec P" and "oh1_version m = Some (a, b)"
  shows "Patch_OH1UsbModule P m W =
    (0, patched P a b m, W \<lparr> orig_msg_queueid := sint (load32 m OH1_DEV_OH1_QUEUEID_ADDR) \<rparr>)"
proof -
  have "DCWrite32 P (b + 4) (reply_hook_address P) (DCWrite32 P b 0x4B004718
      (DCWrite32 P (a + 4) (receive_hook_address P) (DCWrite32 P a 0x4B004718 m))) = patched P a b m"
    by (rule ext) (auto simp: patched_def stub_def stub_written [OF assms(1)])
  then show ?thesis using assms(2) by (simp add: Patch_OH1UsbModule_def Let_def)
qed

lemma version_addresses:
  assumes "oh1_version m = Some (a, b)"
  shows "(a + 4) AND NOT 3 = a + 4" and "(b + 4) AND NOT 3 = b + 4"
    and "k < 8 \<Longrightarrow> \<not> a + k - b < 8"
    and "oh1_version (patched P a b m) = None \<or> oh1_version (patched P a b m) = Some (a, b)"
proof -
  have far: "\<not> k + 0xFFFFFF68 < (8 :: u32)" if "k < 8" for k
    using that by (simp add: word_less_nat_alt unat_word_ariths)
  have v: "a = 0x138b365c \<and> b = 0x138b36f4 \<or> a = 0x138b366c \<and> b = 0x138b3704 \<and> (ucast (load16 m 0x138b365c) :: u32) = 0xbd00"
    using assms by (auto simp: oh1_version_def patch_addresses Let_def split: if_splits)
  then show "(a + 4) AND NOT 3 = a + 4" and "(b + 4) AND NOT 3 = b + 4" by auto
  have "a - b = 0xFFFFFF68" using v by auto
  then have "a + k - b = k + 0xFFFFFF68" by (metis add.commute add_diff_eq)
  then show "k < 8 \<Longrightarrow> \<not> a + k - b < 8" using far by metis
  show "oh1_version (patched P a b m) = None \<or> oh1_version (patched P a b m) = Some (a, b)"
    using v
  proof
    assume "a = 0x138b365c \<and> b = 0x138b36f4"
    then have "load16 (patched P a b m) 0x138b365c = 0x4B00"
      by (simp add: load16_def patched_def stub_def be32_def mk16_def drop_bit_eq_div)
    then show ?thesis by (simp add: oh1_version_def patch_addresses)
  next
    assume w: "a = 0x138b366c \<and> b = 0x138b3704 \<and> (ucast (load16 m 0x138b365c) :: u32) = 0xbd00"
    then have "load16 (patched P a b m) 0x138b365c = load16 m 0x138b365c" by (simp add: load16_def patched_def)
    then show ?thesis using w by (simp add: oh1_version_def patch_addresses)
  qed
qed

text \<open>C34: The installation of the hooks: for either known version of OH1 the two functions become jumps to the hooks, no other byte of the memory changes, the queue of OH1 is taken over, and a second installation writes nothing new; any other version is refused and left alone.\<close>

lemma hooks_installed:
  assumes "write_spec P"
  shows "case oh1_version m of
      None \<Rightarrow> Patch_OH1UsbModule P m W = (IOS_ENOENT P, m, W)
    | Some (recv, reply) \<Rightarrow>
        \<exists>m'. Patch_OH1UsbModule P m W = (0, m', W \<lparr> orig_msg_queueid := sint (load32 m OH1_DEV_OH1_QUEUEID_ADDR) \<rparr>) \<and>
          jump_target m' recv = Some (receive_hook_address P) \<and> jump_target m' reply = Some (reply_hook_address P) \<and>
          (\<forall>x. \<not> x - recv < 8 \<and> \<not> x - reply < 8 \<longrightarrow> m' x = m x) \<and>
          fst (snd (Patch_OH1UsbModule P m' W)) = m'"
proof (cases "oh1_version m")
  case None
  then show ?thesis by (simp add: Patch_OH1UsbModule_def)
next
  case (Some v)
  obtain a b where v: "oh1_version m = Some (a, b)" using Some by (cases v) simp
  note adr = version_addresses [OF v]
  let ?m = "patched P a b m"
  have "jump_target ?m a = Some (receive_hook_address P)" "jump_target ?m b = Some (reply_hook_address P)"
    using adr(1-3) by (intro stub_jumps; simp add: patched_def)+
  moreover have "fst (snd (Patch_OH1UsbModule P ?m W)) = ?m"
  proof (cases "oh1_version ?m")
    case None
    then show ?thesis by (simp add: Patch_OH1UsbModule_def)
  next
    case (Some v')
    then have "oh1_version ?m = Some (a, b)" using adr(4) [of P] by auto
    moreover have "patched P a b ?m = ?m" by (rule ext) (simp add: patched_def)
    ultimately show ?thesis using patch_memory [OF assms, of ?m a b W] by simp
  qed
  ultimately show ?thesis
    using patch_memory [OF assms v, of W] v by (simp add: patched_def)
qed

definition sample_patch_env :: patch_env where
  "sample_patch_env = \<lparr> DCWrite32 = (\<lambda>a v m x. if x - a < 4 then be32 v ! unat (x - a) else m x),
     receive_hook_address = 0x13700101, reply_hook_address = 0x13700201, IOS_ENOENT = - 6 \<rparr>"

definition old_module :: code_memory where
  "old_module = (\<lambda>_. 0)(0x138b365c := 0x47, 0x138b365d := 0x78, 0x138b5007 := 9)"

lemma hooks_installed_witness:
  "\<forall>W :: nat world. \<exists>m'. Patch_OH1UsbModule sample_patch_env old_module W = (0, m', W \<lparr> orig_msg_queueid := 9 \<rparr>) \<and>
    jump_target m' 0x138b365c = Some 0x13700101 \<and> m' 0x138b5007 = 9"
proof
  fix W :: "nat world"
  have w: "write_spec sample_patch_env" by (simp add: write_spec_def sample_patch_env_def)
  have v: "oh1_version old_module = Some (0x138b365c, 0x138b36f4)"
    by (simp add: oh1_version_def old_module_def load16_def patch_addresses mk16_def)
  have q: "sint (load32 old_module OH1_DEV_OH1_QUEUEID_ADDR) = 9"
    by (simp add: load32_def load16_def old_module_def mk16_def patch_addresses)
  have h: "receive_hook_address sample_patch_env = 0x13700101" by (simp add: sample_patch_env_def)
  obtain m' where m': "Patch_OH1UsbModule sample_patch_env old_module W = (0, m', W \<lparr> orig_msg_queueid := 9 \<rparr>)"
    "jump_target m' 0x138b365c = Some 0x13700101"
    "\<forall>x. \<not> x - 0x138b365c < 8 \<and> \<not> x - 0x138b36f4 < 8 \<longrightarrow> m' x = old_module x"
    using hooks_installed [OF w, of old_module W] unfolding v option.case prod.case q h by blast
  have "m' 0x138b5007 = old_module 0x138b5007" by (rule m'(3) [THEN spec, THEN mp]) simp
  then have "m' 0x138b5007 = 9" by (simp add: old_module_def)
  with m'(1,2) show "\<exists>m'. Patch_OH1UsbModule sample_patch_env old_module W = (0, m', W \<lparr> orig_msg_queueid := 9 \<rparr>) \<and>
    jump_target m' 0x138b365c = Some 0x13700101 \<and> m' 0x138b5007 = 9" by blast
qed

end
