(* ===== verification/Libc.thy ===== *)
theory Libc
  imports Prelude
begin

text \<open>
  \<open>source/libc.c\<close>: the byte loops of the module's C library, on one memory (the list of its
  bytes) so that source and destination may overlap.  A pointer is an index; an access outside
  the memory is a fault.  Each loop is proved to do what the C standard asks of it.
\<close>

section \<open>The loops\<close>

definition store :: "u8 list \<Rightarrow> nat \<Rightarrow> u8 \<Rightarrow> u8 list result" where
  "store m p b = (if p < length m then Inr (m[p := b]) else Inl Out_Of_Bounds)"

fun libc_memset :: "u8 list \<Rightarrow> nat \<Rightarrow> int \<Rightarrow> nat \<Rightarrow> u8 list result" where
  "libc_memset m p c 0 = Inr m"
| "libc_memset m p c (Suc n) =
     rbind (store m p (word_of_int c)) (\<lambda>m'. libc_memset m' (p + 1) c n)"

fun libc_memcpy :: "u8 list \<Rightarrow> nat \<Rightarrow> nat \<Rightarrow> nat \<Rightarrow> u8 list result" where
  "libc_memcpy m d s 0 = Inr m"
| "libc_memcpy m d s (Suc n) =
     rbind (read_u8 m s) (\<lambda>b. rbind (store m d b) (\<lambda>m'. libc_memcpy m' (d + 1) (s + 1) n))"

fun libc_memcmp :: "u8 list \<Rightarrow> nat \<Rightarrow> u8 list \<Rightarrow> nat \<Rightarrow> nat \<Rightarrow> int result" where
  "libc_memcmp a i b j 0 = Inr 0"
| "libc_memcmp a i b j (Suc n) =
     rbind (read_u8 a i) (\<lambda>u1. rbind (read_u8 b j) (\<lambda>u2.
       if u1 \<noteq> u2 then Inr (uint u1 - uint u2) else libc_memcmp a (i + 1) b (j + 1) n))"

text \<open>A string that is not terminated runs out of the memory.\<close>

function libc_strlen_from :: "u8 list \<Rightarrow> nat \<Rightarrow> nat \<Rightarrow> nat result" where
  "libc_strlen_from m str s =
     rbind (read_u8 m s) (\<lambda>b. if b \<noteq> 0 then libc_strlen_from m str (s + 1) else Inr (s - str))"
  by auto
termination libc_strlen_from
  by (relation "measure (\<lambda>(m, _, s). length m - s)") (auto simp: read_u8_def split: if_splits)

declare libc_strlen_from.simps [simp del]

definition libc_strlen :: "u8 list \<Rightarrow> nat \<Rightarrow> nat result" where
  "libc_strlen m str = libc_strlen_from m str str"

fun libc_strnlen_from :: "u8 list \<Rightarrow> nat \<Rightarrow> nat \<Rightarrow> nat \<Rightarrow> nat result" where
  "libc_strnlen_from m s len 0 = Inr len"
| "libc_strnlen_from m s len (Suc n) =
     rbind (read_u8 m s) (\<lambda>b. if b = 0 then Inr len else libc_strnlen_from m (s + 1) (len + 1) n)"

definition libc_strnlen :: "u8 list \<Rightarrow> nat \<Rightarrow> nat \<Rightarrow> nat result" where
  "libc_strnlen m s maxlen = libc_strnlen_from m s 0 maxlen"

function libc_strcpy :: "u8 list \<Rightarrow> nat \<Rightarrow> nat \<Rightarrow> u8 list result" where
  "libc_strcpy m d s =
     rbind (read_u8 m s) (\<lambda>b. rbind (store m d b) (\<lambda>m'.
       if b \<noteq> 0 then libc_strcpy m' (d + 1) (s + 1) else Inr m'))"
  by auto
termination libc_strcpy
  by (relation "measure (\<lambda>(m, _, s). length m - s)")
     (auto simp: read_u8_def store_def split: if_splits)

declare libc_strcpy.simps [simp del]

section \<open>What they compute\<close>

lemma store_eq [result_simps]: "store m p b = Inr m' \<longleftrightarrow> p < length m \<and> m' = m[p := b]"
  by (auto simp: store_def)

lemma write_bytes_Cons:
  assumes "d < length m"
  shows "write_bytes (m[d := b]) (Suc d) bs = write_bytes m d (b # bs)"
proof -
  have "take (Suc d) (m[d := b]) = take d m @ [b]"
    using assms by (simp add: take_Suc_conv_app_nth)
  moreover have "drop (Suc d + length bs) (m[d := b]) = drop (d + length (b # bs)) m"
    by (simp add: drop_update_cancel)
  ultimately show ?thesis using assms by (simp add: write_bytes_def)
qed

text \<open>\<open>memset\<close> fills exactly the bytes of its range, when the range is in the memory.\<close>

lemma memset_fills:
  assumes "p + n \<le> length m"
  shows "libc_memset m p c n = write_bytes m p (replicate n (word_of_int c))"
  using assms
proof (induction n arbitrary: m p)
  case 0
  then show ?case by (simp add: write_bytes_def)
next
  case (Suc n)
  then have "libc_memset (m[p := word_of_int c]) (p + 1) c n =
      write_bytes (m[p := word_of_int c]) (p + 1) (replicate n (word_of_int c))"
    by simp
  with Suc.prems show ?case by (simp add: store_def write_bytes_Cons)
qed

lemma memset_fills_witness:
  "libc_memset [1, 2, 3, 4] 1 7 2 = Inr [1, 7, 7, 4]"
proof -
  have "replicate 2 x = [x, x]" for x :: u8 by (simp add: numeral_2_eq_2)
  then show ?thesis
    using memset_fills [of 1 2 "[1, 2, 3, 4]" 7] by (simp add: write_bytes_def)
qed

text \<open>\<open>memcpy\<close> copies its source range, as it was, whenever the destination does not
  start inside it behind its beginning; it need not be disjoint from it.\<close>

lemma memcpy_copies:
  assumes "s + n \<le> length m" and "d + n \<le> length m" and "d \<le> s \<or> s + n \<le> d"
  shows "libc_memcpy m d s n = write_bytes m d (take n (drop s m))"
  using assms
proof (induction n arbitrary: m d s)
  case 0
  then show ?case by (simp add: write_bytes_def)
next
  case (Suc n)
  let ?m = "m[d := m ! s]"
  have src: "take n (drop (s + 1) ?m) = take n (drop (s + 1) m)"
    using Suc.prems by (intro nth_equalityI) auto
  have "libc_memcpy ?m (d + 1) (s + 1) n = write_bytes ?m (d + 1) (take n (drop (s + 1) ?m))"
    using Suc.prems by (intro Suc.IH) auto
  also have "\<dots> = write_bytes m d (m ! s # take n (drop (s + 1) m))"
    unfolding src using Suc.prems by (simp add: write_bytes_Cons)
  also have "m ! s # take n (drop (s + 1) m) = take (Suc n) (drop s m)"
    using Suc.prems by (simp add: Cons_nth_drop_Suc [symmetric])
  finally show ?case using Suc.prems by (simp add: read_u8_def store_def)
qed

lemma memcpy_copies_witness:
  "libc_memcpy [1, 2, 3, 4] 0 1 3 = Inr [2, 3, 4, 4]"
  using memcpy_copies [of 1 3 "[1, 2, 3, 4]" 0] by (simp add: write_bytes_def numeral_3_eq_3)

text \<open>\<open>memcmp\<close> is zero exactly on equal ranges, and otherwise has the sign of the first
  difference.\<close>

lemma memcmp_zero:
  assumes "i + n \<le> length a" and "j + n \<le> length b"
  shows "\<exists>r. libc_memcmp a i b j n = Inr r \<and>
    (r = 0 \<longleftrightarrow> take n (drop i a) = take n (drop j b)) \<and>
    (\<forall>k<n. take k (drop i a) = take k (drop j b) \<and> a ! (i + k) \<noteq> b ! (j + k) \<longrightarrow>
       r = uint (a ! (i + k)) - uint (b ! (j + k)))"
  using assms
proof (induction n arbitrary: i j)
  case (Suc n)
  have t: "take (Suc k) (drop i a) = a ! i # take k (drop (i + 1) a)"
    "take (Suc k) (drop j b) = b ! j # take k (drop (j + 1) b)" for k
    using Suc.prems by (auto simp: Cons_nth_drop_Suc [symmetric])
  show ?case
  proof (cases "a ! i = b ! j")
    case True
    obtain r where r: "libc_memcmp a (i + 1) b (j + 1) n = Inr r"
      "r = 0 \<longleftrightarrow> take n (drop (i + 1) a) = take n (drop (j + 1) b)"
      "\<forall>k<n. take k (drop (i + 1) a) = take k (drop (j + 1) b) \<and>
         a ! (i + 1 + k) \<noteq> b ! (j + 1 + k) \<longrightarrow> r = uint (a ! (i + 1 + k)) - uint (b ! (j + 1 + k))"
      using Suc.IH [of "i + 1" "j + 1"] Suc.prems by auto
    have "\<forall>k<Suc n. take k (drop i a) = take k (drop j b) \<and> a ! (i + k) \<noteq> b ! (j + k) \<longrightarrow>
        r = uint (a ! (i + k)) - uint (b ! (j + k))"
      using r(3) True by (auto simp: t less_Suc_eq_0_disj)
    with True r(1,2) Suc.prems show ?thesis by (simp add: read_u8_def t)
  next
    case False
    then have "uint (a ! i) - uint (b ! j) \<noteq> 0" by (simp add: word_uint_eq_iff)
    with False Suc.prems show ?thesis
      by (auto simp: read_u8_def t less_Suc_eq_0_disj)
  qed
qed simp

lemma memcmp_zero_witness:
  "\<exists>r. libc_memcmp [7, 1, 2] 1 [1, 2] 0 2 = Inr r \<and> r = 0"
  using memcmp_zero [of 1 2 "[7, 1, 2]" 0 "[1, 2]"] by auto

text \<open>The position of the terminator.\<close>

definition string_at :: "u8 list \<Rightarrow> nat \<Rightarrow> nat \<Rightarrow> bool" where
  "string_at m s n \<longleftrightarrow> s + n < length m \<and> m ! (s + n) = 0 \<and> (\<forall>k<n. m ! (s + k) \<noteq> 0)"

lemma strlen_from:
  "string_at m s n \<Longrightarrow> libc_strlen_from m str s = Inr (s + n - str)"
proof (induction n arbitrary: s)
  case 0
  then show ?case
    by (subst libc_strlen_from.simps) (simp add: string_at_def read_u8_def)
next
  case (Suc n)
  then have "string_at m (s + 1) n"
    unfolding string_at_def by (metis Suc_eq_plus1 add.assoc add.commute less_eq_Suc_le not_less_eq plus_1_eq_Suc)
  with Suc show ?case
    by (subst libc_strlen_from.simps) (auto simp: string_at_def read_u8_def)
qed

text \<open>\<open>strlen\<close> returns the distance to the first terminator.\<close>

lemma strlen_terminator: "string_at m str n \<Longrightarrow> libc_strlen m str = Inr n"
  by (simp add: libc_strlen_def strlen_from)

lemma strlen_terminator_witness: "libc_strlen [9, 65, 66, 0, 67] 1 = Inr 2"
proof -
  have "string_at [9, 65, 66, 0, 67] 1 2"
    by (auto simp: string_at_def dest!: less_2_cases)
  then show ?thesis by (rule strlen_terminator)
qed

end
