(* ===== verification/Conf.thy ===== *)
theory Conf
  imports Libc Fake_Wiimote_Mgr
begin

text \<open>
  \<open>source/conf.c\<close>, the accessors of the console's settings file SYSCONF, and the start-up code
  of \<open>source/main.c\<close> that uses them: reading and writing the file, and adding the fake
  Wiimotes to the list of paired controllers (\<open>BT.DINF\<close>).  The file is an array of bytes with
  a table of 16-bit big-endian offsets of its entries.
\<close>

section \<open>Entries\<close>

definition CONF_SIZE :: nat where "CONF_SIZE = 0x4000"
definition CONF_ENOENT :: int where "CONF_ENOENT = - 0x6002"
definition CONF_ETOOBIG :: int where "CONF_ETOOBIG = - 0x6003"
definition CONF_ENOTIMPL :: int where "CONF_ENOTIMPL = - 0x6005"
definition CONF_BIGARRAY :: u8 where "CONF_BIGARRAY = 1"
definition CONF_SMALLARRAY :: u8 where "CONF_SMALLARRAY = 2"
definition CONF_BYTE :: u8 where "CONF_BYTE = 3"
definition CONF_SHORT :: u8 where "CONF_SHORT = 4"
definition CONF_LONG :: u8 where "CONF_LONG = 5"
definition CONF_BOOL :: u8 where "CONF_BOOL = 7"

lemmas conf_consts [c_consts] =
  CONF_SIZE_def CONF_ENOENT_def CONF_ETOOBIG_def CONF_ENOTIMPL_def CONF_BIGARRAY_def
  CONF_SMALLARRAY_def CONF_BYTE_def CONF_SHORT_def CONF_LONG_def CONF_BOOL_def

text \<open>
  The search compares the name with every entry of the table in turn; the result is the
  position of the entry.  Names are given without their terminator.
\<close>

definition entry_matches :: "u8 list \<Rightarrow> u8 list \<Rightarrow> nat \<Rightarrow> bool result" where
  "entry_matches conf name entry =
     rbind (read_u8 conf entry) (\<lambda>b.
     if length name = unat (b AND 0x0F) + 1
     then rbind (libc_memcmp name 0 conf (entry + 1) (length name)) (\<lambda>r. Inr (r = 0))
     else Inr False)"

fun conf_search :: "u8 list \<Rightarrow> u8 list \<Rightarrow> nat \<Rightarrow> nat \<Rightarrow> nat option result" where
  "conf_search conf name pos 0 = Inr None"
| "conf_search conf name pos (Suc count) =
     rbind (read_be16 conf pos) (\<lambda>entry.
     rbind (entry_matches conf name (unat entry)) (\<lambda>found.
     if found then Inr (Some (unat entry)) else conf_search conf name (pos + 2) count))"

definition conf_find :: "u8 list \<Rightarrow> u8 list \<Rightarrow> nat option result" where
  "conf_find conf name = rbind (read_be16 conf 4) (\<lambda>count. conf_search conf name 6 (unat count))"

definition entry_length :: "u8 list \<Rightarrow> u8 list \<Rightarrow> nat \<Rightarrow> int result" where
  "entry_length conf name entry =
     rbind (read_u8 conf entry) (\<lambda>b.
     let ty = drop_bit 5 b in
     if ty = CONF_BIGARRAY then
       rbind (read_be16 conf (entry + length name + 1)) (\<lambda>n. Inr (uint n + 1))
     else if ty = CONF_SMALLARRAY then
       rbind (read_u8 conf (entry + length name + 1)) (\<lambda>n. Inr (uint n + 1))
     else if ty = CONF_BYTE then Inr 1
     else if ty = CONF_SHORT then Inr 2
     else if ty = CONF_LONG then Inr 4
     else if ty = CONF_BOOL then Inr 1
     else Inr CONF_ENOTIMPL)"

definition conf_get_length :: "u8 list \<Rightarrow> u8 list \<Rightarrow> int result" where
  "conf_get_length conf name =
     rbind (conf_find conf name) (\<lambda>r.
     case r of None \<Rightarrow> Inr CONF_ENOENT | Some entry \<Rightarrow> entry_length conf name entry)"

text \<open>The offset of an entry's data; arrays store their length before it.\<close>

definition data_offset :: "u8 list \<Rightarrow> u8 \<Rightarrow> nat" where
  "data_offset name ty =
     length name + (if ty = CONF_BIGARRAY then 3 else if ty = CONF_SMALLARRAY then 2 else 1)"

text \<open>The result is the return value and the buffer; the buffer is unchanged on an error.\<close>

definition conf_get :: "u8 list \<Rightarrow> u8 list \<Rightarrow> u8 list \<Rightarrow> nat \<Rightarrow> (int \<times> u8 list) result" where
  "conf_get conf name buffer len_max =
     rbind (conf_find conf name) (\<lambda>r.
     case r of
       None \<Rightarrow> Inr (CONF_ENOENT, buffer)
     | Some entry \<Rightarrow>
         rbind (conf_get_length conf name) (\<lambda>len.
         if len < 0 then Inr (len, buffer)
         else if len > int len_max then Inr (CONF_ETOOBIG, buffer)
         else
           rbind (read_u8 conf entry) (\<lambda>b.
           let ty = drop_bit 5 b in
           if ty = CONF_BIGARRAY \<or> ty = CONF_SMALLARRAY then
             rbind (read_bytes conf (entry + data_offset name ty) (nat len)) (\<lambda>d.
             rbind (write_bytes buffer 0 d) (\<lambda>buffer'. Inr (len, buffer')))
           else
             rbind (write_bytes buffer 0 (replicate len_max 0)) (\<lambda>buffer0.
             rbind (read_bytes conf (entry + data_offset name ty) (nat len)) (\<lambda>d.
             rbind (write_bytes buffer0 0 d) (\<lambda>buffer'. Inr (len, buffer')))))))"

text \<open>
  A buffer shorter than the entry is refused, but the copy takes the length of the entry, not
  that of the buffer.
\<close>

definition conf_set :: "u8 list \<Rightarrow> u8 list \<Rightarrow> u8 list \<Rightarrow> nat \<Rightarrow> (int \<times> u8 list) result" where
  "conf_set conf name buffer len_max =
     rbind (conf_find conf name) (\<lambda>r.
     case r of
       None \<Rightarrow> Inr (CONF_ENOENT, conf)
     | Some entry \<Rightarrow>
         rbind (conf_get_length conf name) (\<lambda>len.
         if len < 0 then Inr (len, conf)
         else if len < int len_max then Inr (CONF_ETOOBIG, conf)
         else
           rbind (read_u8 conf entry) (\<lambda>b.
           rbind (read_bytes buffer 0 (nat len)) (\<lambda>d.
           rbind (write_bytes conf (entry + data_offset name (drop_bit 5 b)) d) (\<lambda>conf'.
             Inr (len, conf'))))))"

section \<open>Paired controllers\<close>

definition CONF_PAD_MAX_REGISTERED :: nat where "CONF_PAD_MAX_REGISTERED = 10"
definition sizeof_conf_pad_device :: nat where "sizeof_conf_pad_device = 6 + 64"
definition sizeof_conf_pads_setting :: nat where
  "sizeof_conf_pads_setting = 1 + (10 + 4 + 1 + 1) * sizeof_conf_pad_device"

definition registered_bdaddr :: "nat \<Rightarrow> nat" where
  "registered_bdaddr i = 1 + i * sizeof_conf_pad_device"

definition registered_name :: "nat \<Rightarrow> nat" where
  "registered_name i = registered_bdaddr i + BDADDR_SIZE"

lemmas conf_pads_layout [c_consts] =
  CONF_PAD_MAX_REGISTERED_def sizeof_conf_pad_device_def sizeof_conf_pads_setting_def
  registered_bdaddr_def registered_name_def

definition baswap :: "bdaddr \<Rightarrow> bdaddr" where
  "baswap b = rev b"

definition BT_DINF :: "u8 list" where "BT_DINF = map of_char ''BT.DINF''"
definition BT_BAR :: "u8 list" where "BT_BAR = map of_char ''BT.BAR''"

text \<open>The name and its terminator, as \<open>snprintf\<close> writes them.\<close>

definition registered_fake_name :: "nat \<Rightarrow> u8 list" where
  "registered_fake_name i =
     map of_char ''Nintendo RVL-CNT-01 (Fake Wiimote '' @ [0x30 + of_nat i] @
     map of_char '')'' @ [0]"

text \<open>The loop over the registered entries counts the fake Wiimotes, in their order.\<close>

fun count_paired :: "u8 list \<Rightarrow> nat \<Rightarrow> nat \<Rightarrow> nat \<Rightarrow> nat result" where
  "count_paired pads i 0 paired = Inr paired"
| "count_paired pads i (Suc n) paired =
     rbind (read_bytes pads (registered_bdaddr i) BDADDR_SIZE) (\<lambda>b.
       count_paired pads (i + 1) n
         (if baswap b = FAKE_WIIMOTE_BDADDR paired then paired + 1 else paired))"

fun register_fakes :: "u8 list \<Rightarrow> nat \<Rightarrow> nat list \<Rightarrow> u8 list result" where
  "register_fakes pads start [] = Inr pads"
| "register_fakes pads start (i # is) =
     rbind (write_bytes pads (registered_bdaddr (start + i)) (baswap (FAKE_WIIMOTE_BDADDR i))) (\<lambda>p1.
     rbind (write_bytes p1 (registered_name (start + i)) (registered_fake_name i)) (\<lambda>p2.
       register_fakes p2 start is))"

text \<open>The new settings, or \<open>None\<close> when both fake Wiimotes are already paired.\<close>

definition patch_pads :: "u8 list \<Rightarrow> u8 list option result" where
  "patch_pads pads =
     rbind (read_u8 pads 0) (\<lambda>num_registered.
     rbind (count_paired pads 0 (unat num_registered) 0) (\<lambda>paired_count.
     if paired_count \<ge> 2 then Inr None
     else
       let count = 2 - paired_count;
           start = min (unat num_registered) (CONF_PAD_MAX_REGISTERED - 2)
       in rbind (register_fakes pads start [0..<count]) (\<lambda>p.
          rbind (write_bytes p 0 [of_nat (start + count)]) (\<lambda>p'. Inr (Some p')))))"

section \<open>Files and start-up\<close>

definition SYSCONF_PATH :: string where "SYSCONF_PATH = ''/shared2/sys/SYSCONF''"

definition read_conf :: "'os ext \<Rightarrow> u8 list \<Rightarrow> 'os \<Rightarrow> int \<times> u8 list \<times> 'os" where
  "read_conf E conf_buffer os =
     (let (fd, os1) = os_open E SYSCONF_PATH (IOS_OPEN_READ E) os in
      if fd < 0 then (fd, conf_buffer, os1)
      else let (ret, bs, os2) = os_read E fd 0x4000 os1
           in (ret, bs, os_close E fd os2))"

definition write_conf :: "'os ext \<Rightarrow> u8 list \<Rightarrow> 'os \<Rightarrow> int \<times> 'os" where
  "write_conf E conf_buffer os =
     (let (fd, os1) = os_open E SYSCONF_PATH (IOS_OPEN_WRITE E) os in
      if fd < 0 then (fd, os1)
      else let (ret, os2) = os_write E fd (take 0x4000 conf_buffer) os1
           in (ret, os_close E fd os2))"

definition patch_conf_bt_dinf :: "'os ext \<Rightarrow> u8 list \<Rightarrow> 'os \<Rightarrow> (int \<times> u8 list \<times> 'os) result" where
  "patch_conf_bt_dinf E conf_buffer os =
     rbind (conf_get conf_buffer BT_DINF (replicate sizeof_conf_pads_setting 0)
              sizeof_conf_pads_setting) (\<lambda>(ret, conf_pads).
     if ret \<noteq> int sizeof_conf_pads_setting then Inr (IOS_EINVAL E, conf_buffer, os)
     else
       rbind (patch_pads conf_pads) (\<lambda>r.
       case r of
         None \<Rightarrow> Inr (0, conf_buffer, os)
       | Some pads' \<Rightarrow>
           rbind (conf_set conf_buffer BT_DINF pads' sizeof_conf_pads_setting) (\<lambda>(_, conf').
           let (ret, os') = write_conf E conf' os
           in Inr (if ret \<noteq> int CONF_SIZE then IOS_EINVAL E else 0, conf', os'))))"

text \<open>\<open>main\<close> up to the installation of the hooks: the return value so far and the state.\<close>

definition main_configure :: "'os ext \<Rightarrow> 'os world \<Rightarrow> (int \<times> 'os world) result" where
  "main_configure E W =
     (let (ret, conf_buffer, os1) = read_conf E (replicate CONF_SIZE 0) (os_state (usb W));
          set_os = (\<lambda>os W. W \<lparr> usb := (usb W) \<lparr> os_state := os \<rparr> \<rparr>)
      in if ret \<noteq> int CONF_SIZE then Inr (IOS_EINVAL E, set_os os1 W)
         else
           rbind (conf_get conf_buffer BT_BAR (stack_bytes E 1 os1) 1) (\<lambda>(ret, bar).
           if ret \<noteq> 1 then Inr (IOS_EINVAL E, set_os os1 W)
           else
             let W1 = (set_os os1 W) \<lparr> s_sensor_bar_position_top := (bar ! 0 \<noteq> 0) \<rparr> in
             rbind (patch_conf_bt_dinf E conf_buffer os1) (\<lambda>(ret, _, os2).
               Inr (ret, set_os os2 W1))))"

end
