(* ===== verification/Conf_Patch.thy ===== *)
theory Conf_Patch
  imports Conf
begin

text \<open>
  What \<open>patch_conf_bt_dinf\<close> of \<open>source/main.c\<close> makes of the paired controllers in the system
  configuration: the first boot registers both fake Wiimotes and later boots leave the
  configuration alone, unless exactly one of them was registered before.
\<close>

section \<open>Entries\<close>

definition entry :: "u8 list \<Rightarrow> nat \<Rightarrow> bdaddr" where
  "entry pads i = take BDADDR_SIZE (drop (registered_bdaddr i) pads)"

text \<open>The fake Wiimotes found by the loop, counted from \<open>paired\<close>.\<close>

fun found :: "bdaddr list \<Rightarrow> nat \<Rightarrow> nat" where
  "found [] paired = paired"
| "found (b # bs) paired = found bs (if baswap b = FAKE_WIIMOTE_BDADDR paired then paired + 1 else paired)"

lemma found_append: "found (bs @ cs) paired = found cs (found bs paired)"
  by (induction bs arbitrary: paired) simp_all

lemma found_mono: "paired \<le> found bs paired"
proof (induction bs arbitrary: paired)
  case (Cons b bs)
  show ?case using Cons.IH [of paired] Cons.IH [of "paired + 1"] by simp
qed simp

lemma count_paired_found:
  assumes "registered_bdaddr (i + n) \<le> length pads"
  shows "count_paired pads i n paired = Inr (found (map (entry pads) [i..<i + n]) paired)"
  using assms
proof (induction n arbitrary: i paired)
  case (Suc n)
  have e: "read_bytes pads (registered_bdaddr i) BDADDR_SIZE = Inr (entry pads i)"
    using Suc.prems by (simp add: read_bytes_def entry_def BDADDR_SIZE_def c_consts)
  have u: "[i..<i + Suc n] = i # [Suc i..<Suc i + n]" by (simp add: upt_rec)
  have "registered_bdaddr (Suc i + n) \<le> length pads" using Suc.prems by simp
  then show ?case
    unfolding count_paired.simps e rbind_Inr u list.map(2) found.simps using Suc.IH [of "Suc i"] by simp
qed simp

lemma swapped [simp]: "baswap (baswap b) = b"
  by (simp add: baswap_def)

lemma fake_length [simp]: "length (FAKE_WIIMOTE_BDADDR i) = 6" "length (baswap (FAKE_WIIMOTE_BDADDR i)) = 6"
  by (simp_all add: FAKE_WIIMOTE_BDADDR_def baswap_def)

lemma name_length [simp]: "length (registered_fake_name i) = 37"
  by (simp add: registered_fake_name_def)

lemma fakes_differ [simp]: "FAKE_WIIMOTE_BDADDR 0 \<noteq> FAKE_WIIMOTE_BDADDR 1" "FAKE_WIIMOTE_BDADDR 0 \<noteq> FAKE_WIIMOTE_BDADDR (Suc 0)"
  by (simp_all add: FAKE_WIIMOTE_BDADDR_def)

text \<open>Writing one entry: address and name.\<close>

definition put_entry :: "nat \<Rightarrow> nat \<Rightarrow> u8 list \<Rightarrow> u8 list" where
  "put_entry k i pads = take (registered_bdaddr k) pads @ baswap (FAKE_WIIMOTE_BDADDR i) @
     registered_fake_name i @ drop (registered_bdaddr k + 43) pads"

lemma length_put_entry [simp]:
  "length pads = sizeof_conf_pads_setting \<Longrightarrow> k < 10 \<Longrightarrow> length (put_entry k i pads) = sizeof_conf_pads_setting"
  by (simp add: put_entry_def c_consts)

lemma nth_put_entry:
  assumes "length pads = sizeof_conf_pads_setting" and "k < 10" and "j < sizeof_conf_pads_setting"
  shows "put_entry k i pads ! j =
    (if registered_bdaddr k \<le> j \<and> j < registered_bdaddr k + 43
     then (baswap (FAKE_WIIMOTE_BDADDR i) @ registered_fake_name i) ! (j - registered_bdaddr k) else pads ! j)"
  using assms by (auto simp: put_entry_def nth_append c_consts)

lemma register_one:
  assumes "length pads = sizeof_conf_pads_setting" and "start + i < 10"
  shows "register_fakes pads start (i # is) = register_fakes (put_entry (start + i) i pads) start is"
proof -
  have b: "registered_name k = registered_bdaddr k + 6" for k by (simp add: c_consts BDADDR_SIZE_def)
  define p1 where "p1 = take (registered_bdaddr (start + i)) pads @ baswap (FAKE_WIIMOTE_BDADDR i) @
    drop (registered_bdaddr (start + i) + 6) pads"
  have l: "registered_bdaddr (start + i) + 43 \<le> length pads" using assms by (simp add: c_consts)
  have "write_bytes pads (registered_bdaddr (start + i)) (baswap (FAKE_WIIMOTE_BDADDR i)) = Inr p1"
    using l by (simp add: write_bytes_def p1_def)
  moreover have "write_bytes p1 (registered_name (start + i)) (registered_fake_name i) = Inr (put_entry (start + i) i pads)"
    using l by (simp add: write_bytes_def p1_def b put_entry_def add.commute)
  ultimately show ?thesis by simp
qed

lemma entry_nth:
  assumes "length p = sizeof_conf_pads_setting" "i < 10" "\<And>m. m < 6 \<Longrightarrow> p ! (registered_bdaddr i + m) = b ! m"
    "length b = 6"
  shows "entry p i = b"
  using assms by (intro nth_equalityI) (simp_all add: entry_def BDADDR_SIZE_def c_consts)

lemma fold_one_two: "fold f [0..<1] x = f 0 x" "fold f [0..<Suc 0] x = f 0 x" "fold f [0..<2] x = f 1 (f 0 x)"
  by (simp_all add: numeral_2_eq_2)

text \<open>The new entries and the count.\<close>

definition registered :: "nat \<Rightarrow> nat \<Rightarrow> u8 list \<Rightarrow> u8 list" where
  "registered s count pads =
     [of_nat (s + count)] @ drop 1 (fold (\<lambda>i. put_entry (s + i) i) [0..<count] pads)"

lemma patch_pads_registers:
  assumes "length pads = sizeof_conf_pads_setting" and "unat (pads ! 0) \<le> 10"
    and "found (map (entry pads) [0..<unat (pads ! 0)]) 0 = c" and "c < 2"
  shows "patch_pads pads = Inr (Some (registered (min (unat (pads ! 0)) 8) (2 - c) pads))"
proof -
  let ?s = "min (unat (pads ! 0)) 8"
  have r: "read_u8 pads 0 = Inr (pads ! 0)" using assms(1) by (simp add: read_u8_def c_consts)
  have cp: "count_paired pads 0 (unat (pads ! 0)) 0 = Inr c"
    using assms count_paired_found [of 0 "unat (pads ! 0)" pads] by (simp add: c_consts)
  have "register_fakes pads ?s [0..<2 - c] = Inr (fold (\<lambda>i. put_entry (?s + i) i) [0..<2 - c] pads)"
  proof -
    consider "c = 0" | "c = 1" using assms(4) by linarith
    then show ?thesis
      using assms(1) by cases (simp_all add: upt_rec numeral_2_eq_2 register_one del: register_fakes.simps(2))
  qed
  moreover have "length (fold (\<lambda>i. put_entry (?s + i) i) [0..<2 - c] pads) = sizeof_conf_pads_setting"
  proof -
    consider "c = 0" | "c = 1" using assms(4) by linarith
    then show ?thesis using assms(1) by cases (simp_all add: upt_rec numeral_2_eq_2)
  qed
  ultimately show ?thesis
    using assms(4)
    by (simp add: patch_pads_def r cp CONF_PAD_MAX_REGISTERED_def registered_def write_bytes_def Let_def
        sizeof_conf_pads_setting_def)
qed

lemma nth_registered:
  assumes "length pads = sizeof_conf_pads_setting" and "s \<le> 8" and "count = 1 \<or> count = 2"
    and "0 < j" "j < sizeof_conf_pads_setting"
  shows "registered s count pads ! j =
    (if registered_bdaddr (s + 1) \<le> j \<and> j < registered_bdaddr (s + 1) + 43 \<and> count = 2
     then (baswap (FAKE_WIIMOTE_BDADDR 1) @ registered_fake_name 1) ! (j - registered_bdaddr (s + 1))
     else if registered_bdaddr s \<le> j \<and> j < registered_bdaddr s + 43
     then (baswap (FAKE_WIIMOTE_BDADDR 0) @ registered_fake_name 0) ! (j - registered_bdaddr s)
     else pads ! j)"
proof -
  let ?p = "fold (\<lambda>i. put_entry (s + i) i) [0..<count] pads"
  have l: "length ?p = sizeof_conf_pads_setting"
    using assms(3) by (rule disjE) (use assms(1,2) in \<open>simp_all add: fold_one_two\<close>)
  have "registered s count pads ! j = ?p ! j"
    using assms(4,5) l by (cases j) (simp_all add: registered_def)
  moreover have "?p ! j = (if registered_bdaddr (s + 1) \<le> j \<and> j < registered_bdaddr (s + 1) + 43 \<and> count = 2
     then (baswap (FAKE_WIIMOTE_BDADDR 1) @ registered_fake_name 1) ! (j - registered_bdaddr (s + 1))
     else if registered_bdaddr s \<le> j \<and> j < registered_bdaddr s + 43
     then (baswap (FAKE_WIIMOTE_BDADDR 0) @ registered_fake_name 0) ! (j - registered_bdaddr s)
     else pads ! j)"
    using assms(3) by (rule disjE) (use assms(1,2,5) in \<open>simp_all add: fold_one_two nth_put_entry\<close>)
  ultimately show ?thesis by simp
qed

lemma length_registered [simp]:
  "length pads = sizeof_conf_pads_setting \<Longrightarrow> s \<le> 8 \<Longrightarrow> count = 1 \<or> count = 2 \<Longrightarrow>
   length (registered s count pads) = sizeof_conf_pads_setting"
  by (erule disjE) (simp_all add: registered_def fold_one_two, simp_all add: c_consts)

lemma registered_count [simp]: "s \<le> 8 \<Longrightarrow> count \<le> 2 \<Longrightarrow> unat (registered s count pads ! 0) = s + count"
  by (simp add: registered_def unat_word_ariths unat_of_nat)

lemma entry_registered:
  assumes "length pads = sizeof_conf_pads_setting" and "s \<le> 8" and "count = 1 \<or> count = 2"
  shows "i < s \<Longrightarrow> entry (registered s count pads) i = entry pads i"
    and "entry (registered s count pads) s = baswap (FAKE_WIIMOTE_BDADDR 0)"
    and "count = 2 \<Longrightarrow> entry (registered s count pads) (s + 1) = baswap (FAKE_WIIMOTE_BDADDR 1)"
proof -
  note n = nth_registered [OF assms] length_registered [OF assms]
  show "entry (registered s count pads) i = entry pads i" if "i < s"
    by (rule entry_nth) (use that assms(1,2) n in \<open>simp_all add: entry_def BDADDR_SIZE_def c_consts\<close>)
  show "entry (registered s count pads) s = baswap (FAKE_WIIMOTE_BDADDR 0)"
    by (rule entry_nth) (use assms(1,2) n in \<open>simp_all add: c_consts nth_append\<close>)
  show "entry (registered s count pads) (s + 1) = baswap (FAKE_WIIMOTE_BDADDR 1)" if "count = 2"
    by (rule entry_nth) (use that assms(1,2) n in \<open>simp_all add: c_consts nth_append\<close>)
qed

lemma found_registered:
  assumes "length pads = sizeof_conf_pads_setting" and "s \<le> 8" and "count = 1 \<or> count = 2"
  shows "found (map (entry (registered s count pads)) [0..<s + count]) 0 =
    found (baswap (FAKE_WIIMOTE_BDADDR 0) # (if count = 2 then [baswap (FAKE_WIIMOTE_BDADDR 1)] else []))
      (found (map (entry pads) [0..<s]) 0)"
proof -
  have "map (entry (registered s count pads)) [0..<s] = map (entry pads) [0..<s]"
    using entry_registered(1) [OF assms] by simp
  note m = arg_cong [OF this, of "\<lambda>bs. found bs 0"]
  show ?thesis
    using assms(3)
    by (rule disjE) (use m entry_registered(2,3) [OF assms] in \<open>simp_all add: found_append numeral_2_eq_2\<close>)
qed

lemma found_prefix: "s \<le> n \<Longrightarrow> found (map f [0..<s]) 0 \<le> found (map f [0..<n]) 0"
  using found_mono [of _ "map f [s..<n]"] upt_add_eq_append [of 0 s "n - s"]
  by (simp add: found_append)

section \<open>The first boot and the following ones\<close>

lemma unregistered_found:
  assumes "\<forall>i < unat (pads ! 0). entry pads i \<noteq> baswap (FAKE_WIIMOTE_BDADDR 0)" and "n \<le> unat (pads ! 0)"
  shows "found (map (entry pads) [0..<n]) 0 = 0"
  using assms(2)
proof (induction n)
  case (Suc n)
  then have "baswap (entry pads n) \<noteq> FAKE_WIIMOTE_BDADDR 0" using assms(1) swapped by (metis Suc_le_eq)
  then show ?case using Suc by (simp add: found_append)
qed simp

text \<open>The first boot registers two controllers; the configuration it leaves needs no patch.\<close>

lemma patch_pads_twice:
  assumes "length pads = sizeof_conf_pads_setting" and "unat (pads ! 0) \<le> 10"
    and "\<forall>i < unat (pads ! 0). entry pads i \<noteq> baswap (FAKE_WIIMOTE_BDADDR 0)"
  defines "s \<equiv> min (unat (pads ! 0)) 8"
  shows "patch_pads pads = Inr (Some (registered s 2 pads))" and "patch_pads (registered s 2 pads) = Inr None"
proof -
  let ?p = "registered s 2 pads"
  note z = unregistered_found [OF assms(3)]
  have s: "s \<le> 8" by (simp add: s_def)
  show "patch_pads pads = Inr (Some ?p)"
    using patch_pads_registers [OF assms(1,2) z] by (simp add: s_def)
  have l: "length ?p = sizeof_conf_pads_setting" and c: "unat (?p ! 0) = s + 2"
    using assms(1) s by simp_all
  have "found (map (entry ?p) [0..<s + 2]) 0 = 2"
    using found_registered [OF assms(1) s, of 2] z [of s] by (simp add: s_def)
  then have "count_paired ?p 0 (s + 2) 0 = Inr 2"
    using count_paired_found [of 0 "s + 2" ?p 0] l s by (simp add: c_consts)
  then show "patch_pads ?p = Inr None"
    using l c by (simp add: patch_pads_def read_u8_def c_consts)
qed

text \<open>The name of an entry: the bytes after its address, up to and with the terminator.\<close>

definition name_of_entry :: "u8 list \<Rightarrow> nat \<Rightarrow> u8 list" where
  "name_of_entry pads i = take 37 (drop (registered_name i) pads)"

lemma name_of_entry_nth:
  assumes "length p = sizeof_conf_pads_setting" "i < 10" "length n = 37"
    "\<And>m. m < 37 \<Longrightarrow> p ! (registered_bdaddr i + (m + 6)) = n ! m"
  shows "name_of_entry p i = n"
proof (rule nth_equalityI)
  show "length (name_of_entry p i) = length n" using assms by (simp add: name_of_entry_def c_consts BDADDR_SIZE_def)
  fix m
  assume "m < length (name_of_entry p i)"
  then have "m < 37" by (simp add: name_of_entry_def)
  moreover have "registered_name i + m = registered_bdaddr i + (m + 6)" "registered_name i + m < length p"
    using \<open>m < 37\<close> assms(1,2) by (simp_all add: c_consts BDADDR_SIZE_def)
  ultimately show "name_of_entry p i ! m = n ! m" using assms(4) [of m] by (simp add: name_of_entry_def add.assoc add.commute [of 6])
qed

lemma name_registered:
  assumes "length pads = sizeof_conf_pads_setting" and "s \<le> 8"
  shows "name_of_entry (registered s 2 pads) s = registered_fake_name 0"
    and "name_of_entry (registered s 2 pads) (s + 1) = registered_fake_name 1"
proof -
  have n: "registered s 2 pads ! (registered_bdaddr s + (m + 6)) = registered_fake_name 0 ! m"
    "registered s 2 pads ! (registered_bdaddr (s + 1) + (m + 6)) = registered_fake_name 1 ! m" if "m < 37" for m
    using that assms nth_registered [OF assms, of 2] by (simp_all add: c_consts nth_append)
  have l: "length (registered s 2 pads) = sizeof_conf_pads_setting" using assms by simp
  show "name_of_entry (registered s 2 pads) s = registered_fake_name 0"
    by (rule name_of_entry_nth [OF l]) (use assms(2) n(1) in simp_all)
  show "name_of_entry (registered s 2 pads) (s + 1) = registered_fake_name 1"
    by (rule name_of_entry_nth [OF l]) (use assms(2) n(2) in simp_all)
qed

text \<open>C35: On the first boot both fake Wiimotes are registered, with their addresses and with the names the Wii recognises, spelled out here with their terminators. With up to eight controllers registered they come after them; with nine or ten they overwrite the last two of the ten entries. The entries before them and everything after them stay as they were, and the next boot changes nothing.\<close>

lemma first_boot_registers_both:
  assumes "length pads = sizeof_conf_pads_setting" and "unat (pads ! 0) \<le> 10"
    and "\<forall>i < unat (pads ! 0). entry pads i \<noteq> baswap (FAKE_WIIMOTE_BDADDR 0)"
  defines "s \<equiv> min (unat (pads ! 0)) 8"
  shows "\<exists>p. patch_pads pads = Inr (Some p) \<and> length p = sizeof_conf_pads_setting \<and> unat (p ! 0) = s + 2 \<and>
    entry p s = [0xD0, 0x00, 0xDF, 0xBA, 0xED, 0xFE] \<and> entry p (s + 1) = [0xD1, 0x00, 0xDF, 0xBA, 0xED, 0xFE] \<and>
    name_of_entry p s = map of_char ''Nintendo RVL-CNT-01 (Fake Wiimote 0)'' @ [0] \<and>
    name_of_entry p (s + 1) = map of_char ''Nintendo RVL-CNT-01 (Fake Wiimote 1)'' @ [0] \<and>
    (\<forall>j. 0 < j \<and> j < registered_bdaddr s \<or> registered_bdaddr (s + 2) \<le> j \<and> j < sizeof_conf_pads_setting \<longrightarrow>
       p ! j = pads ! j) \<and>
    patch_pads p = Inr None"
proof -
  let ?p = "registered s 2 pads"
  have s: "s \<le> 8" by (simp add: s_def)
  have "patch_pads pads = Inr (Some ?p)" "patch_pads ?p = Inr None"
    using patch_pads_twice [OF assms(1-3)] by (simp_all add: s_def)
  moreover have "length ?p = sizeof_conf_pads_setting" "unat (?p ! 0) = s + 2" using assms(1) s by simp_all
  moreover have "\<forall>j. 0 < j \<and> j < registered_bdaddr s \<or> registered_bdaddr (s + 2) \<le> j \<and> j < sizeof_conf_pads_setting \<longrightarrow>
       ?p ! j = pads ! j"
    using s nth_registered [OF assms(1) s, of 2] by (auto simp: c_consts)
  moreover have "registered_fake_name 0 = map of_char ''Nintendo RVL-CNT-01 (Fake Wiimote 0)'' @ [0]"
    "registered_fake_name 1 = map of_char ''Nintendo RVL-CNT-01 (Fake Wiimote 1)'' @ [0]"
    by (simp_all add: registered_fake_name_def of_char_def)
  moreover have "baswap (FAKE_WIIMOTE_BDADDR 0) = [0xD0, 0x00, 0xDF, 0xBA, 0xED, 0xFE]"
    "baswap (FAKE_WIIMOTE_BDADDR 1) = [0xD1, 0x00, 0xDF, 0xBA, 0xED, 0xFE]"
    by (simp_all add: baswap_def FAKE_WIIMOTE_BDADDR_def)
  ultimately show ?thesis
    using entry_registered(2,3) [OF assms(1) s, of 2] name_registered [OF assms(1) s]
    by (intro exI [of _ ?p]) simp
qed

text \<open>C36: When only the first fake Wiimote is registered, the boot registers the first one again and not the second, and leaves a configuration that still counts one: the second fake Wiimote is never registered.\<close>

lemma second_fake_never_registered:
  assumes "length pads = sizeof_conf_pads_setting" and "unat (pads ! 0) \<le> 10"
    and "count_paired pads 0 (unat (pads ! 0)) 0 = Inr 1"
  defines "s \<equiv> min (unat (pads ! 0)) 8"
  shows "\<exists>p. patch_pads pads = Inr (Some p) \<and> length p = sizeof_conf_pads_setting \<and> unat (p ! 0) = s + 1 \<and>
    entry p s = baswap (FAKE_WIIMOTE_BDADDR 0) \<and> count_paired p 0 (unat (p ! 0)) 0 = Inr 1"
proof -
  have f: "found (map (entry pads) [0..<unat (pads ! 0)]) 0 = 1"
    using assms(2,3) count_paired_found [of 0 "unat (pads ! 0)" pads 0] assms(1) by (simp add: c_consts)
  let ?p = "registered s 1 pads"
  have s: "s \<le> 8" by (simp add: s_def)
  have "found (map (entry pads) [0..<s]) 0 \<le> 1"
    using found_prefix [of s "unat (pads ! 0)" "entry pads"] f by (simp add: s_def)
  then consider "found (map (entry pads) [0..<s]) 0 = 0" | "found (map (entry pads) [0..<s]) 0 = 1" by linarith
  then have "found (map (entry ?p) [0..<s + 1]) 0 = 1"
    by cases (use found_registered [OF assms(1) s, of 1] in simp_all)
  then have "count_paired ?p 0 (s + 1) 0 = Inr 1"
    using count_paired_found [of 0 "s + 1" ?p 0] assms(1) s by (simp add: c_consts)
  moreover have "patch_pads pads = Inr (Some ?p)"
    using patch_pads_registers [OF assms(1,2) f] by (simp add: s_def)
  ultimately show ?thesis using entry_registered(2) [OF assms(1) s, of 1] assms(1) s by auto
qed

text \<open>A configuration without controllers, and one with the first fake Wiimote only.\<close>

definition no_pads :: "u8 list" where
  "no_pads = replicate sizeof_conf_pads_setting 0"

definition one_pad :: "u8 list" where
  "one_pad = [1] @ baswap (FAKE_WIIMOTE_BDADDR 0) @ replicate (sizeof_conf_pads_setting - 7) 0"

lemma first_boot_registers_both_witness:
  "\<exists>p. patch_pads no_pads = Inr (Some p) \<and> unat (p ! 0) = 2 \<and>
    entry p 1 = [0xD1, 0x00, 0xDF, 0xBA, 0xED, 0xFE] \<and>
    name_of_entry p 1 = map of_char ''Nintendo RVL-CNT-01 (Fake Wiimote 1)'' @ [0] \<and>
    patch_pads p = Inr None"
proof -
  have n: "length no_pads = sizeof_conf_pads_setting" "no_pads ! 0 = 0"
    by (simp_all add: no_pads_def c_consts)
  show ?thesis using first_boot_registers_both [of no_pads] n by auto
qed

lemma second_fake_never_registered_witness:
  "\<exists>p. patch_pads one_pad = Inr (Some p) \<and> unat (p ! 0) = 2 \<and>
    entry p 1 = baswap (FAKE_WIIMOTE_BDADDR 0) \<and> count_paired p 0 2 0 = Inr 1"
proof -
  have n: "length one_pad = sizeof_conf_pads_setting" "one_pad ! 0 = 1"
    by (simp_all add: one_pad_def c_consts)
  have "entry one_pad 0 = baswap (FAKE_WIIMOTE_BDADDR 0)"
    by (simp add: entry_def one_pad_def c_consts BDADDR_SIZE_def)
  then have "count_paired one_pad 0 1 0 = Inr 1"
    using count_paired_found [of 0 1 one_pad 0] n by (simp add: c_consts)
  then show ?thesis using second_fake_never_registered [of one_pad] n
    by (auto simp del: count_paired.simps simp add: numeral_2_eq_2)
qed

end
