(* ===== verification/Settings_File.thy ===== *)
theory Settings_File
  imports Conf_Patch Sample_World
begin

text \<open>
  The settings file of the console as a map from names to data: what \<open>conf_find\<close>,
  \<open>conf_get\<close> and \<open>conf_set\<close> of \<open>source/conf.c\<close> do to a well laid out file, and what \<open>main\<close> makes
  of the file at the first boot and at the next.
\<close>

section \<open>The layout\<close>

definition be16_at :: "u8 list \<Rightarrow> nat \<Rightarrow> u16" where
  "be16_at m p = mk16 (m ! p) (m ! Suc p)"

definition entry_count :: "u8 list \<Rightarrow> nat" where
  "entry_count conf = unat (be16_at conf 4)"

definition entry_pos :: "u8 list \<Rightarrow> nat \<Rightarrow> nat" where
  "entry_pos conf i = unat (be16_at conf (6 + 2 * i))"

definition name_length :: "u8 list \<Rightarrow> nat \<Rightarrow> nat" where
  "name_length conf e = unat (conf ! e AND 0x0F) + 1"

definition entry_type :: "u8 list \<Rightarrow> nat \<Rightarrow> u8" where
  "entry_type conf e = drop_bit 5 (conf ! e)"

definition head_length :: "u8 list \<Rightarrow> nat \<Rightarrow> nat" where
  "head_length conf e = name_length conf e +
     (if entry_type conf e = CONF_BIGARRAY then 3 else if entry_type conf e = CONF_SMALLARRAY then 2 else 1)"

definition data_length :: "u8 list \<Rightarrow> nat \<Rightarrow> nat" where
  "data_length conf e =
     (let ty = entry_type conf e; p = e + name_length conf e + 1 in
      if ty = CONF_BIGARRAY then unat (be16_at conf p) + 1
      else if ty = CONF_SMALLARRAY then unat (conf ! p) + 1
      else if ty = CONF_SHORT then 2 else if ty = CONF_LONG then 4 else 1)"

definition entry_end :: "u8 list \<Rightarrow> nat \<Rightarrow> nat" where
  "entry_end conf e = e + head_length conf e + data_length conf e"

text \<open>The table and the entries lie in the file one beside the other, and every type is known.\<close>

definition laid_out :: "u8 list \<Rightarrow> bool" where
  "laid_out conf \<longleftrightarrow> 6 + 2 * entry_count conf \<le> length conf \<and>
     (\<forall>i < entry_count conf. 6 + 2 * entry_count conf \<le> entry_pos conf i \<and>
        entry_end conf (entry_pos conf i) \<le> length conf \<and>
        entry_type conf (entry_pos conf i) \<in> {CONF_BIGARRAY, CONF_SMALLARRAY, CONF_BYTE, CONF_SHORT, CONF_LONG, CONF_BOOL} \<and>
        (\<forall>j < entry_count conf. j = i \<or> entry_end conf (entry_pos conf i) \<le> entry_pos conf j \<or>
           entry_end conf (entry_pos conf j) \<le> entry_pos conf i))"

text \<open>The file as a map: the data of the first entry with a name.\<close>

definition entry_name :: "u8 list \<Rightarrow> nat \<Rightarrow> u8 list" where
  "entry_name conf e = take (name_length conf e) (drop (e + 1) conf)"

definition entry_data :: "u8 list \<Rightarrow> nat \<Rightarrow> u8 list" where
  "entry_data conf e = take (data_length conf e) (drop (e + head_length conf e) conf)"

definition entry_index :: "u8 list \<Rightarrow> u8 list \<Rightarrow> nat option" where
  "entry_index conf name = List.find (\<lambda>i. entry_name conf (entry_pos conf i) = name) [0..<entry_count conf]"

definition settings :: "u8 list \<Rightarrow> u8 list \<Rightarrow> u8 list option" where
  "settings conf name = map_option (\<lambda>i. entry_data conf (entry_pos conf i)) (entry_index conf name)"

lemma read_be16_at: "Suc p < length m \<Longrightarrow> read_be16 m p = Inr (be16_at m p)"
  by (simp add: read_be16_def read_u8_def be16_at_def)

lemma laid_outD:
  assumes "laid_out conf" and "i < entry_count conf"
  shows "6 + 2 * entry_count conf \<le> length conf" and "6 + 2 * entry_count conf \<le> entry_pos conf i"
    and "entry_end conf (entry_pos conf i) \<le> length conf"
    and "entry_type conf (entry_pos conf i) \<in> {CONF_BIGARRAY, CONF_SMALLARRAY, CONF_BYTE, CONF_SHORT, CONF_LONG, CONF_BOOL}"
    and "j < entry_count conf \<Longrightarrow> j \<noteq> i \<Longrightarrow> entry_end conf (entry_pos conf i) \<le> entry_pos conf j \<or>
      entry_end conf (entry_pos conf j) \<le> entry_pos conf i"
  using assms unfolding laid_out_def by blast+

lemma head_positive: "name_length conf e < head_length conf e" "0 < data_length conf e" "0 < name_length conf e"
  by (simp_all add: head_length_def data_length_def name_length_def Let_def)

lemma entry_index_Some:
  assumes "entry_index conf name = Some i"
  shows "i < entry_count conf" and "entry_name conf (entry_pos conf i) = name"
  using assms by (auto simp: entry_index_def find_Some_iff)

section \<open>The lookup\<close>

lemma entry_matches_name:
  assumes "e + head_length conf e < length conf"
  shows "entry_matches conf name e = Inr (entry_name conf e = name)"
proof -
  have b: "read_u8 conf e = Inr (conf ! e)" using assms by (simp add: read_u8_def)
  have n: "length (entry_name conf e) = name_length conf e"
    using assms head_positive(1) [of conf e] by (simp add: entry_name_def)
  show ?thesis
  proof (cases "length name = name_length conf e")
    case True
    then have "0 + length name \<le> length name" "(e + 1) + length name \<le> length conf"
      using assms head_positive(1) [of conf e] by simp_all
    from memcmp_zero [OF this] show ?thesis
      using True b by (auto simp: entry_matches_def entry_name_def name_length_def)
  next
    case False
    then have "entry_name conf e \<noteq> name" using n by metis
    then show ?thesis using False b by (simp add: entry_matches_def name_length_def)
  qed
qed

lemma conf_search_first:
  assumes "laid_out conf"
  shows "i + n \<le> entry_count conf \<Longrightarrow> conf_search conf name (6 + 2 * i) n =
    Inr (map_option (entry_pos conf) (List.find (\<lambda>i. entry_name conf (entry_pos conf i) = name) [i..<i + n]))"
proof (induction n arbitrary: i)
  case (Suc n)
  then have i: "i < entry_count conf" by simp
  note l = laid_outD [OF assms i]
  have r: "read_be16 conf (6 + 2 * i) = Inr (be16_at conf (6 + 2 * i))"
    using l(1) i by (intro read_be16_at) linarith
  have "entry_pos conf i + head_length conf (entry_pos conf i) < length conf"
    using l(3) head_positive(2) [of conf "entry_pos conf i"] by (simp add: entry_end_def)
  note m = entry_matches_name [OF this, of name]
  have s: "conf_search conf name (6 + 2 * i + 2) n =
    Inr (map_option (entry_pos conf) (List.find (\<lambda>i. entry_name conf (entry_pos conf i) = name) [Suc i..<Suc i + n]))"
    using Suc.IH [of "Suc i"] Suc.prems by simp
  have c: "conf_search conf name (6 + 2 * i) (Suc n) =
      (if entry_name conf (entry_pos conf i) = name then Inr (Some (entry_pos conf i))
       else conf_search conf name (6 + 2 * i + 2) n)"
    using r m by (simp add: entry_pos_def)
  have u: "[i..<i + Suc n] = i # [Suc i..<Suc i + n]" by (simp add: upt_conv_Cons del: upt_Suc)
  show ?case unfolding c u s by simp
qed simp

lemma conf_find_index:
  assumes "laid_out conf"
  shows "conf_find conf name = Inr (map_option (entry_pos conf) (entry_index conf name))"
proof -
  have "read_be16 conf 4 = Inr (be16_at conf 4)"
    using assms by (intro read_be16_at) (simp add: laid_out_def)
  then show ?thesis
    using conf_search_first [OF assms, of 0 "entry_count conf" name]
    by (simp add: conf_find_def entry_index_def entry_count_def)
qed

lemma entry_length_data:
  assumes l: "laid_out conf" and i: "entry_index conf name = Some i"
  defines "e \<equiv> entry_pos conf i"
  shows "entry_length conf name e = Inr (int (data_length conf e))"
proof -
  note ix = entry_index_Some [OF i] and d = laid_outD [OF l entry_index_Some(1) [OF i]]
  have e: "e + head_length conf e < length conf"
    using d(3) head_positive(2) [of conf e] by (simp add: entry_end_def e_def)
  have n: "length name = name_length conf e"
    using ix(2) e head_positive(1) [of conf e] by (auto simp: entry_name_def e_def [symmetric])
  have b: "read_u8 conf e = Inr (conf ! e)" using e by (simp add: read_u8_def)
  have big: "read_be16 conf (e + length name + 1) = Inr (be16_at conf (e + name_length conf e + 1))"
    if "entry_type conf e = CONF_BIGARRAY"
    using that e n by (subst read_be16_at) (simp_all add: head_length_def)
  have small: "read_u8 conf (e + length name + 1) = Inr (conf ! (e + name_length conf e + 1))"
    if "entry_type conf e = CONF_SMALLARRAY"
    using that e n by (simp add: head_length_def read_u8_def c_consts)
  have "entry_type conf e \<in> {CONF_BIGARRAY, CONF_SMALLARRAY, CONF_BYTE, CONF_SHORT, CONF_LONG, CONF_BOOL}"
    using d(4) by (simp add: e_def)
  then consider "entry_type conf e = CONF_BIGARRAY" | "entry_type conf e = CONF_SMALLARRAY"
    | "entry_type conf e = CONF_BYTE" | "entry_type conf e = CONF_SHORT" | "entry_type conf e = CONF_LONG"
    | "entry_type conf e = CONF_BOOL" by blast
  then show ?thesis
    using b big small
    by cases (simp_all add: entry_length_def data_length_def entry_type_def [symmetric] Let_def c_consts)
qed

lemma conf_get_length_data:
  assumes "laid_out conf" and "entry_index conf name = Some i"
  shows "conf_get_length conf name = Inr (int (data_length conf (entry_pos conf i)))"
  using conf_find_index [OF assms(1), of name] entry_length_data [OF assms] assms(2)
  by (simp add: conf_get_length_def)

section \<open>A change of one entry's data\<close>

definition data_changed :: "u8 list \<Rightarrow> nat \<Rightarrow> u8 list \<Rightarrow> bool" where
  "data_changed conf k conf' \<longleftrightarrow> length conf' = length conf \<and>
     (\<forall>p < length conf. p < entry_pos conf k + head_length conf (entry_pos conf k) \<or> entry_end conf (entry_pos conf k) \<le> p \<longrightarrow>
        conf' ! p = conf ! p)"

lemma data_changedD:
  assumes "data_changed conf k conf'" and "p < length conf"
    and "p < entry_pos conf k + head_length conf (entry_pos conf k) \<or> entry_end conf (entry_pos conf k) \<le> p"
  shows "conf' ! p = conf ! p"
  using assms by (auto simp: data_changed_def)

lemma table_kept:
  assumes l: "laid_out conf" and k: "k < entry_count conf" and c: "data_changed conf k conf'"
  shows "entry_count conf' = entry_count conf" and "i < entry_count conf \<Longrightarrow> entry_pos conf' i = entry_pos conf i"
proof -
  have b: "conf' ! p = conf ! p" if "p < 6 + 2 * entry_count conf" for p
    using that laid_outD(1,2) [OF l k] by (intro data_changedD [OF c]) linarith+
  show "entry_count conf' = entry_count conf" using b [of 4] b [of 5] by (simp add: entry_count_def be16_at_def)
  show "entry_pos conf' i = entry_pos conf i" if "i < entry_count conf"
    using b [of "6 + 2 * i"] b [of "Suc (6 + 2 * i)"] that by (simp add: entry_pos_def be16_at_def)
qed

lemma head_kept:
  assumes l: "laid_out conf" and k: "k < entry_count conf" and c: "data_changed conf k conf'"
    and i: "i < entry_count conf"
  defines "e \<equiv> entry_pos conf i"
  shows "p < head_length conf e \<Longrightarrow> conf' ! (e + p) = conf ! (e + p)"
    and "name_length conf' e = name_length conf e" and "entry_type conf' e = entry_type conf e"
    and "head_length conf' e = head_length conf e" and "data_length conf' e = data_length conf e"
    and "entry_name conf' e = entry_name conf e"
proof -
  note d = laid_outD [OF l i] and dk = laid_outD [OF l k]
  have pos: "0 < data_length conf e" "name_length conf e < head_length conf e" using head_positive by blast+
  show b: "conf' ! (e + p) = conf ! (e + p)" if "p < head_length conf e" for p
  proof (rule data_changedD [OF c])
    show "e + p < length conf" using d(3) that pos(1) by (simp add: entry_end_def e_def)
    show "e + p < entry_pos conf k + head_length conf (entry_pos conf k) \<or> entry_end conf (entry_pos conf k) \<le> e + p"
      using d(5) [OF k] that by (cases "k = i") (auto simp: entry_end_def e_def)
  qed
  have b0: "conf' ! e = conf ! e" using b [of 0] pos(2) by simp
  show n: "name_length conf' e = name_length conf e" and t: "entry_type conf' e = entry_type conf e"
    using b0 by (simp_all add: name_length_def entry_type_def)
  then show "head_length conf' e = head_length conf e" by (simp add: head_length_def)
  show "data_length conf' e = data_length conf e"
    using n t b [of "name_length conf e + 1"] b [of "name_length conf e + 2"]
    by (simp add: data_length_def Let_def be16_at_def head_length_def c_consts)
  have "length conf' = length conf" using c by (simp add: data_changed_def)
  moreover have "conf' ! Suc (e + p) = conf ! Suc (e + p)" if "p < name_length conf e" for p
    using b [of "Suc p"] that pos(2) by simp
  ultimately show "entry_name conf' e = entry_name conf e"
    using n pos(2) d(3) by (intro nth_equalityI) (auto simp: entry_name_def entry_end_def e_def)
qed

lemma laid_out_kept:
  assumes l: "laid_out conf" and k: "k < entry_count conf" and c: "data_changed conf k conf'"
  shows "laid_out conf'" and "entry_index conf' name = entry_index conf name"
    and "i < entry_count conf \<Longrightarrow> i \<noteq> k \<Longrightarrow> entry_data conf' (entry_pos conf' i) = entry_data conf (entry_pos conf i)"
proof -
  note t = table_kept [OF l k c] and h = head_kept [OF l k c]
  have len: "length conf' = length conf" using c by (simp add: data_changed_def)
  have e: "entry_end conf' (entry_pos conf i) = entry_end conf (entry_pos conf i)" if "i < entry_count conf" for i
    using h(4,5) [OF that] by (simp add: entry_end_def)
  show "laid_out conf'"
    unfolding laid_out_def len t(1)
  proof (intro conjI allI impI)
    show "6 + 2 * entry_count conf \<le> length conf" using l by (simp add: laid_out_def)
  next
    fix i assume i: "i < entry_count conf"
    note d = laid_outD [OF l i]
    show "6 + 2 * entry_count conf \<le> entry_pos conf' i" "entry_end conf' (entry_pos conf' i) \<le> length conf"
      "entry_type conf' (entry_pos conf' i) \<in> {CONF_BIGARRAY, CONF_SMALLARRAY, CONF_BYTE, CONF_SHORT, CONF_LONG, CONF_BOOL}"
      unfolding t(2) [OF i] h(3) [OF i] e [OF i] by (fact d)+
    show "j = i \<or> entry_end conf' (entry_pos conf' i) \<le> entry_pos conf' j \<or>
        entry_end conf' (entry_pos conf' j) \<le> entry_pos conf' i" if j: "j < entry_count conf" for j
      unfolding t(2) [OF i] t(2) [OF j] e [OF i] e [OF j] using d(5) [OF j] by blast
  qed
  show "entry_index conf' name = entry_index conf name"
    unfolding entry_index_def t(1) using t(2) h(6) by (intro find_cong) auto
  show "entry_data conf' (entry_pos conf' i) = entry_data conf (entry_pos conf i)" if i: "i < entry_count conf" and "i \<noteq> k"
  proof -
    note d = laid_outD [OF l i]
    have "conf' ! (entry_pos conf i + head_length conf (entry_pos conf i) + p) =
        conf ! (entry_pos conf i + head_length conf (entry_pos conf i) + p)" if "p < data_length conf (entry_pos conf i)" for p
      using d(3) d(5) [OF k] \<open>i \<noteq> k\<close> that by (intro data_changedD [OF c]) (auto simp: entry_end_def)
    then show ?thesis
      unfolding t(2) [OF i] entry_data_def h(4,5) [OF i]
      using len d(3) by (intro nth_equalityI) (auto simp: entry_end_def)
  qed
qed

section \<open>The file as a map\<close>

lemma entry_head:
  assumes "laid_out conf" and "entry_index conf name = Some i"
  defines "e \<equiv> entry_pos conf i"
  shows "e + data_offset name (entry_type conf e) = e + head_length conf e" and "read_u8 conf e = Inr (conf ! e)"
    and "e + head_length conf e + data_length conf e \<le> length conf"
proof -
  note ix = entry_index_Some [OF assms(2)] and d = laid_outD [OF assms(1) entry_index_Some(1) [OF assms(2)]]
  show e: "e + head_length conf e + data_length conf e \<le> length conf"
    using d(3) by (simp add: entry_end_def e_def)
  then show "read_u8 conf e = Inr (conf ! e)" using head_positive [of conf e] by (simp add: read_u8_def)
  have "length name = name_length conf e"
    using ix(2) e head_positive [of conf e] by (auto simp: entry_name_def e_def [symmetric])
  then show "e + data_offset name (entry_type conf e) = e + head_length conf e"
    by (simp add: data_offset_def head_length_def)
qed

text \<open>\<open>conf_get\<close> looks the name up and copies the data to the front of the buffer.\<close>

lemma conf_get_settings:
  assumes l: "laid_out conf"
  shows "settings conf name = None \<Longrightarrow> conf_get conf name buffer n = Inr (CONF_ENOENT, buffer)"
    and "settings conf name = Some d \<Longrightarrow> n < length d \<Longrightarrow> conf_get conf name buffer n = Inr (CONF_ETOOBIG, buffer)"
    and "settings conf name = Some d \<Longrightarrow> length buffer = length d \<Longrightarrow>
      conf_get conf name buffer (length d) = Inr (int (length d), d)"
proof -
  show "settings conf name = None \<Longrightarrow> conf_get conf name buffer n = Inr (CONF_ENOENT, buffer)"
    by (simp add: settings_def conf_get_def conf_find_index [OF l])
  have found: "\<exists>i. entry_index conf name = Some i \<and> entry_data conf (entry_pos conf i) = d \<and>
      length d = data_length conf (entry_pos conf i)" if s: "settings conf name = Some d"
  proof -
    obtain i where i: "entry_index conf name = Some i" "entry_data conf (entry_pos conf i) = d"
      using s by (auto simp: settings_def)
    then show ?thesis using entry_head(3) [OF l i(1)] by (auto simp: entry_data_def)
  qed
  show "settings conf name = Some d \<Longrightarrow> n < length d \<Longrightarrow> conf_get conf name buffer n = Inr (CONF_ETOOBIG, buffer)"
    using found conf_find_index [OF l, of name] conf_get_length_data [OF l] by (auto simp: conf_get_def)
  assume d: "settings conf name = Some d" and n: "length buffer = length d"
  obtain i where i: "entry_index conf name = Some i" "entry_data conf (entry_pos conf i) = d"
    "length d = data_length conf (entry_pos conf i)" using found [OF d] by blast
  let ?e = "entry_pos conf i"
  note h = entry_head [OF l i(1)]
  have r: "read_bytes conf (?e + data_offset name (drop_bit 5 (conf ! ?e))) (length d) = Inr d"
    using h(1,3) i(2,3) by (simp add: read_bytes_def entry_type_def [symmetric] entry_data_def)
  show "conf_get conf name buffer (length d) = Inr (int (length d), d)"
    using conf_find_index [OF l, of name] conf_get_length_data [OF l i(1)] i(1) i(3) [symmetric] h(2) r n
    by (simp add: conf_get_def Let_def write_bytes_ok)
qed

lemma conf_set_too_big:
  assumes l: "laid_out conf" and d: "settings conf name = Some d" and n: "length d < n"
  shows "conf_set conf name content n = Inr (CONF_ETOOBIG, conf)"
proof -
  obtain i where i: "entry_index conf name = Some i" "entry_data conf (entry_pos conf i) = d"
    using d by (auto simp: settings_def)
  then have "length d = data_length conf (entry_pos conf i)" using entry_head(3) [OF l i(1)] by (auto simp: entry_data_def)
  then show ?thesis
    using conf_find_index [OF l, of name] conf_get_length_data [OF l i(1)] i(1) n by (simp add: conf_set_def)
qed

text \<open>\<open>conf_set\<close> copies the length of the entry, also from a shorter buffer.\<close>

lemma conf_set_short_buffer:
  assumes l: "laid_out conf" and d: "settings conf name = Some d" and n: "length content = n" "n < length d"
  shows "conf_set conf name content n = Inl Out_Of_Bounds"
proof -
  obtain i where i: "entry_index conf name = Some i" "entry_data conf (entry_pos conf i) = d"
    using d by (auto simp: settings_def)
  then have "length d = data_length conf (entry_pos conf i)" using entry_head(3) [OF l i(1)] by (auto simp: entry_data_def)
  then show ?thesis
    using conf_find_index [OF l, of name] conf_get_length_data [OF l i(1)] entry_head(2) [OF l i(1)] i(1) n
    by (simp add: conf_set_def read_bytes_def)
qed

text \<open>\<open>conf_set\<close> updates the map at the name, when the buffer is as long as the entry.\<close>

lemma conf_set_settings:
  assumes l: "laid_out conf" and d: "settings conf name = Some d" and len: "length d \<le> length content" "n \<le> length d"
  shows "\<exists>conf'. conf_set conf name content n = Inr (int (length d), conf') \<and> laid_out conf' \<and>
    length conf' = length conf \<and> settings conf' = (settings conf)(name \<mapsto> take (length d) content)"
proof -
  obtain k where k: "entry_index conf name = Some k" "entry_data conf (entry_pos conf k) = d"
    using d by (auto simp: settings_def)
  let ?e = "entry_pos conf k" and ?v = "take (length d) content"
  note h = entry_head [OF l k(1)] and kc = entry_index_Some(1) [OF k(1)]
  have dl: "length d = data_length conf ?e" using h(3) k(2) by (auto simp: entry_data_def)
  let ?o = "?e + head_length conf ?e"
  define conf' where "conf' = take ?o conf @ ?v @ drop (?o + length d) conf"
  have off: "?e + data_offset name (drop_bit 5 (conf ! ?e)) = ?o" using h(1) unfolding entry_type_def .
  have w: "write_bytes conf ?o ?v = Inr conf'"
    using h(3) dl len(1) by (simp add: write_bytes_def conf'_def)
  have run: "conf_set conf name content n = Inr (int (length d), conf')"
    using conf_find_index [OF l, of name] conf_get_length_data [OF l k(1)] k(1) dl [symmetric] h(2) w len
    by (simp add: conf_set_def read_bytes_def off)
  have nth: "conf' ! p = (if ?o \<le> p \<and> p < ?o + length d then content ! (p - ?o) else conf ! p)" if "p < length conf" for p
    using nth_write_bytes [OF w that] len(1) by auto
  have "data_changed conf k conf'"
    using nth write_bytes_length [OF w] dl by (auto simp: data_changed_def entry_end_def)
  note kept = laid_out_kept [OF l kc this] and tk = table_kept [OF l kc this] and hk = head_kept [OF l kc this kc]
  have new: "entry_data conf' (entry_pos conf' k) = ?v"
    using dl h(3) len(1) by (simp add: tk(2) [OF kc] entry_data_def hk(4,5)) (simp add: conf'_def)
  have "settings conf' nm = ((settings conf)(name \<mapsto> ?v)) nm" for nm
  proof (cases "nm = name")
    case True
    then show ?thesis using new by (simp add: settings_def kept(2) k(1))
  next
    case False
    have "i \<noteq> k \<and> i < entry_count conf" if "entry_index conf nm = Some i" for i
      using entry_index_Some [OF that] entry_index_Some(2) [OF k(1)] False by auto
    then show ?thesis
      using False kept(3) by (auto simp: settings_def kept(2) split: option.split intro!: option.map_cong)
  qed
  then show ?thesis using run kept(1) write_bytes_length [OF w] by blast
qed

section \<open>The boot\<close>

text \<open>
  The file system: opening the file succeeds, the read after it returns the contents, the write
  after it replaces the beginning; closing makes it the contents of the file.
\<close>

definition file_spec :: "'os ext \<Rightarrow> ('os \<Rightarrow> u8 list) \<Rightarrow> bool" where
  "file_spec E disk \<longleftrightarrow>
     (\<forall>os mode. 0 \<le> fst (os_open E SYSCONF_PATH mode os)) \<and>
     (\<forall>os fd os1 r bs os2. os_open E SYSCONF_PATH (IOS_OPEN_READ E) os = (fd, os1) \<and>
        os_read E fd 0x4000 os1 = (r, bs, os2) \<longrightarrow>
        r = int (length bs) \<and> bs = take 0x4000 (disk os) \<and> disk (os_close E fd os2) = disk os) \<and>
     (\<forall>os fd os1 bs r os2. os_open E SYSCONF_PATH (IOS_OPEN_WRITE E) os = (fd, os1) \<and>
        os_write E fd bs os1 = (r, os2) \<longrightarrow>
        r = int (length bs) \<and> disk (os_close E fd os2) = bs @ drop (length bs) (disk os))"

lemma file_specD:
  assumes "file_spec E disk"
  shows "os_open E SYSCONF_PATH mode os = (fd, os1) \<Longrightarrow> 0 \<le> fd"
    and "os_open E SYSCONF_PATH (IOS_OPEN_READ E) os = (fd, os1) \<Longrightarrow> os_read E fd 0x4000 os1 = (r, bs, os2) \<Longrightarrow>
      r = int (length bs) \<and> bs = take 0x4000 (disk os) \<and> disk (os_close E fd os2) = disk os"
    and "os_open E SYSCONF_PATH (IOS_OPEN_WRITE E) os = (fd, os1) \<Longrightarrow> os_write E fd bs os1 = (r, os2) \<Longrightarrow>
      r = int (length bs) \<and> disk (os_close E fd os2) = bs @ drop (length bs) (disk os)"
proof -
  show "os_open E SYSCONF_PATH mode os = (fd, os1) \<Longrightarrow> 0 \<le> fd"
    using assms unfolding file_spec_def by (metis fst_conv)
qed (use assms in \<open>unfold file_spec_def, blast+\<close>)

lemma read_conf_file:
  assumes "file_spec E disk" and "length (disk os) = CONF_SIZE"
  shows "\<exists>os'. read_conf E buf os = (int CONF_SIZE, disk os, os') \<and> disk os' = disk os"
proof -
  obtain fd os1 where o: "os_open E SYSCONF_PATH (IOS_OPEN_READ E) os = (fd, os1)" by (metis surj_pair)
  obtain r bs os2 where r: "os_read E fd 0x4000 os1 = (r, bs, os2)" by (metis prod_cases3)
  show ?thesis
    using file_specD(1) [OF assms(1) o] file_specD(2) [OF assms(1) o r] o r assms(2)
    by (simp add: read_conf_def c_consts)
qed

lemma write_conf_file:
  assumes "file_spec E disk" and "length (disk os) = CONF_SIZE" and "length conf = CONF_SIZE"
  shows "\<exists>os'. write_conf E conf os = (int CONF_SIZE, os') \<and> disk os' = conf"
proof -
  obtain fd os1 where o: "os_open E SYSCONF_PATH (IOS_OPEN_WRITE E) os = (fd, os1)" by (metis surj_pair)
  have t: "take 0x4000 conf = conf" using assms(3) by (simp add: c_consts)
  obtain r os2 where r: "os_write E fd conf os1 = (r, os2)" by (metis surj_pair)
  show ?thesis
    using file_specD(1) [OF assms(1) o] file_specD(3) [OF assms(1) o r] o r t assms(2,3) by (simp add: write_conf_def)
qed

text \<open>One boot, on a file with the list of controllers.\<close>

lemma boot_once:
  assumes F: "file_spec E disk"
  defines "file \<equiv> (\<lambda>W :: 'os world. disk (os_state (usb W)))"
  assumes l: "laid_out (file W)" "length (file W) = CONF_SIZE"
    and bar: "settings (file W) BT_BAR = Some [bar]"
    and pads: "settings (file W) BT_DINF = Some pads" "length pads = sizeof_conf_pads_setting"
    and patch: "patch_pads pads = Inr r" "\<And>p. r = Some p \<Longrightarrow> length p = length pads"
  shows "\<exists>W'. main_configure E W = Inr (0, W') \<and> s_sensor_bar_position_top W' = (bar \<noteq> 0) \<and>
    laid_out (file W') \<and> length (file W') = CONF_SIZE \<and>
    (case r of None \<Rightarrow> file W' = file W
     | Some p \<Rightarrow> settings (file W') = (settings (file W))(BT_DINF \<mapsto> p))"
proof -
  let ?conf = "file W"
  obtain os1 where rd: "read_conf E (replicate CONF_SIZE 0) (os_state (usb W)) = (int CONF_SIZE, ?conf, os1)"
    and d1: "disk os1 = ?conf"
    using read_conf_file [OF F] l(2) unfolding file_def by blast
  have g1: "conf_get ?conf BT_BAR (stack_bytes E 1 os1) 1 = Inr (1, [bar])"
    using conf_get_settings(3) [OF l(1) bar, of "stack_bytes E 1 os1"] by simp
  have g2: "conf_get ?conf BT_DINF (replicate sizeof_conf_pads_setting 0) sizeof_conf_pads_setting =
      Inr (int sizeof_conf_pads_setting, pads)"
    using conf_get_settings(3) [OF l(1) pads(1), of "replicate sizeof_conf_pads_setting 0"] pads(2) by simp
  define W1 where "W1 = (W \<lparr> usb := (usb W) \<lparr> os_state := os1 \<rparr> \<rparr>) \<lparr> s_sensor_bar_position_top := (bar \<noteq> 0) \<rparr>"
  have main: "main_configure E W = rbind (patch_conf_bt_dinf E ?conf os1)
      (\<lambda>(ret, _, os2). Inr (ret, W1 \<lparr> usb := (usb W1) \<lparr> os_state := os2 \<rparr> \<rparr>))"
    by (simp add: main_configure_def rd g1 Let_def W1_def del: One_nat_def)
  show ?thesis
  proof (cases r)
    case None
    then have "patch_conf_bt_dinf E ?conf os1 = Inr (0, ?conf, os1)"
      using g2 patch(1) by (simp add: patch_conf_bt_dinf_def)
    then show ?thesis using main d1 l None by (simp add: W1_def file_def)
  next
    case (Some p)
    obtain conf' where c: "conf_set ?conf BT_DINF p sizeof_conf_pads_setting = Inr (int (length pads), conf')"
      "laid_out conf'" "length conf' = CONF_SIZE" "settings conf' = (settings ?conf)(BT_DINF \<mapsto> p)"
      using conf_set_settings [OF l(1) pads(1), of p sizeof_conf_pads_setting] patch(2) [OF Some] pads(2) l(2) by auto
    obtain os2 where w: "write_conf E conf' os1 = (int CONF_SIZE, os2)" "disk os2 = conf'"
      using write_conf_file [OF F, of os1 conf'] d1 l(2) c(3) by auto
    have "patch_conf_bt_dinf E ?conf os1 = Inr (0, conf', os2)"
      using g2 patch(1) c(1) w(1) by (simp add: patch_conf_bt_dinf_def Some)
    then show ?thesis using main c w(2) Some by (simp add: W1_def file_def)
  qed
qed

section \<open>Properties\<close>

text \<open>C32: The settings file is a map from names to data: a successful \<open>conf_set\<close> replaces the data of its name and nothing else and keeps the layout, \<open>conf_get\<close> then returns the data that was set, and a missing name or a size that does not fit is reported and changes nothing. Only a buffer shorter than the entry is not noticed by \<open>conf_set\<close>: it is read past its end.\<close>

lemma settings_roundtrip:
  assumes "laid_out conf"
  shows "case settings conf name of
      None \<Rightarrow> conf_set conf name content n = Inr (CONF_ENOENT, conf) \<and> conf_get conf name buffer n = Inr (CONF_ENOENT, buffer)
    | Some d \<Rightarrow>
        (n > length d \<longrightarrow> conf_set conf name content n = Inr (CONF_ETOOBIG, conf)) \<and>
        (n < length d \<longrightarrow> conf_get conf name buffer n = Inr (CONF_ETOOBIG, buffer)) \<and>
        (n < length d \<and> length content = n \<longrightarrow> conf_set conf name content n = Inl Out_Of_Bounds) \<and>
        (n \<le> length d \<and> length content = length d \<and> length buffer = length d \<longrightarrow>
          (\<exists>conf'. conf_set conf name content n = Inr (int (length d), conf') \<and> laid_out conf' \<and>
             settings conf' = (settings conf)(name \<mapsto> content) \<and>
             conf_get conf' name buffer (length d) = Inr (int (length d), content)))"
proof (cases "settings conf name")
  case None
  then have "conf_set conf name content n = Inr (CONF_ENOENT, conf)"
    using conf_find_index [OF assms, of name] by (simp add: conf_set_def settings_def)
  then show ?thesis using None conf_get_settings(1) [OF assms None] by simp
next
  case (Some d)
  have "conf_set conf name content n = Inr (CONF_ETOOBIG, conf)" if "length d < n"
    using conf_set_too_big [OF assms Some that] .
  moreover have "\<exists>conf'. conf_set conf name content n = Inr (int (length d), conf') \<and> laid_out conf' \<and>
      settings conf' = (settings conf)(name \<mapsto> content) \<and>
      conf_get conf' name buffer (length d) = Inr (int (length d), content)"
    if n: "n \<le> length d" "length content = length d" "length buffer = length d"
  proof -
    obtain conf' where c: "conf_set conf name content n = Inr (int (length d), conf')" "laid_out conf'"
      "settings conf' = (settings conf)(name \<mapsto> content)"
      using conf_set_settings [OF assms Some, of content n] n by auto
    then have "conf_get conf' name buffer (length content) = Inr (int (length content), content)"
      using n by (intro conf_get_settings(3)) simp_all
    then show ?thesis using c n(2) by auto
  qed
  moreover have "conf_set conf name content n = Inl Out_Of_Bounds" if "n < length d" "length content = n"
    using conf_set_short_buffer [OF assms Some that(2,1)] .
  ultimately show ?thesis using Some conf_get_settings(2) [OF assms Some] by simp
qed

text \<open>C33: The first boot on a well laid out settings file reads the position of the sensor bar, writes the list of controllers with both fake Wiimotes back and leaves every other setting as it was; the next boot writes nothing.\<close>

lemma boot_registers_once:
  assumes "file_spec E disk"
  defines "file \<equiv> (\<lambda>W :: 'os world. disk (os_state (usb W)))"
  assumes "laid_out (file W)" and "length (file W) = CONF_SIZE"
    and "settings (file W) BT_BAR = Some [bar]"
    and "settings (file W) BT_DINF = Some pads" and "length pads = sizeof_conf_pads_setting"
    and "unat (pads ! 0) \<le> 10" and "\<forall>i < unat (pads ! 0). entry pads i \<noteq> baswap (FAKE_WIIMOTE_BDADDR 0)"
  shows "\<exists>p W1 W2. patch_pads pads = Inr (Some p) \<and> main_configure E W = Inr (0, W1) \<and>
    s_sensor_bar_position_top W1 = (bar \<noteq> 0) \<and> laid_out (file W1) \<and>
    settings (file W1) = (settings (file W))(BT_DINF \<mapsto> p) \<and>
    main_configure E W1 = Inr (0, W2) \<and> file W2 = file W1"
proof -
  define s where "s = min (unat (pads ! 0)) 8"
  let ?p = "registered s 2 pads"
  have p: "patch_pads pads = Inr (Some ?p)" "patch_pads ?p = Inr None"
    using patch_pads_twice [OF assms(7-9)] by (simp_all add: s_def)
  have len: "length ?p = sizeof_conf_pads_setting" using assms(7) by (simp add: s_def)
  obtain W1 where W1: "main_configure E W = Inr (0, W1)" "s_sensor_bar_position_top W1 = (bar \<noteq> 0)"
    "laid_out (file W1)" "length (file W1) = CONF_SIZE" "settings (file W1) = (settings (file W))(BT_DINF \<mapsto> ?p)"
    using boot_once [OF assms(1), of W bar pads "Some ?p"] assms(3-7) p(1) len by (auto simp: file_def)
  have "BT_BAR \<noteq> BT_DINF" by (simp add: BT_BAR_def BT_DINF_def)
  then obtain W2 where "main_configure E W1 = Inr (0, W2)" "file W2 = file W1"
    using boot_once [OF assms(1), of W1 bar ?p None] W1(3-5) assms(5) p(2) len by (auto simp: file_def)
  then show ?thesis using W1 p(1) by blast
qed

section \<open>Witnesses\<close>

text \<open>A settings file with the position of the sensor bar and an empty list of controllers.\<close>

definition conf_head :: "u8 list" where
  "conf_head = [0x53, 0x43, 0x76, 0x30, 0, 2, 0, 10, 0, 18, 0x65] @ BT_BAR @ [1, 0x26] @ BT_DINF @ [0x04, 0x60]"

definition sample_conf :: "u8 list" where
  "sample_conf = conf_head @ no_pads @ replicate 15235 0"

definition file_ext :: "u8 list ext" where
  "file_ext = \<lparr> IOS_OK = 0, IOS_ENOMEM = - 22, IOS_IOCTLV = 7, IOS_MESSAGE_NOBLOCK = 1,
     injmessages_heap_data = 0x1000, usb_intr_hand_down_msg = 0x8000,
     usb_bulk_in_hand_down_msg = 0x8100, periodic_timer_cookie = 0x8200,
     os_heap_alloc = (\<lambda>_ _ os. (None, os)), os_heap_free = (\<lambda>_ _ os. os),
     os_message_queue_receive = (\<lambda>_ _ os. (- 8, 0, os)), os_message_queue_send = (\<lambda>_ _ _ os. (- 8, os)),
     os_message_queue_ack = (\<lambda>_ _ os. (0, os)),
     egc_input_device_suspend = (\<lambda>_ os. (0, os)), egc_input_device_resume = (\<lambda>_ os. (0, os)),
     egc_input_device_set_leds = (\<lambda>_ _ os. (0, os)), egc_input_device_set_rumble = (\<lambda>_ _ os. (0, os)),
     egc_handle_events = (\<lambda>os. (\<lambda>_. sample_device, [], os)),
     EGC_GAMEPAD_BUTTON = sample_button, EGC_GAMEPAD_BUTTON_COUNT = 16,
     EGC_GAMEPAD_AXIS = sample_axis, EGC_GAMEPAD_AXIS_COUNT = 4, EGC_GAMEPAD_TOUCH_RES = 4096,
     EGC_RUMBLE_MAX = 255, EGC_RUMBLE_OFF = 0, uninit = (\<lambda>_ _. 0xAA),
     os_heap_create = (\<lambda>os. (1, os)), os_message_queue_create = (\<lambda>_ os. (1, os)),
     os_create_timer = (\<lambda>os. (1, os)), egc_initialize = (\<lambda>os. os),
     IOS_EINVAL = - 4, IOS_OPEN_READ = 1, IOS_OPEN_WRITE = 2,
     os_open = (\<lambda>_ _ os. (3, os)), os_read = (\<lambda>_ n os. (int (length (take n os)), take n os, os)),
     os_write = (\<lambda>_ bs os. (int (length bs), bs @ drop (length bs) os)), os_close = (\<lambda>_ os. os),
     memmismatch = sample_mismatch, reverse_memcpy = (\<lambda>src n. rev (take n src)) \<rparr>"

lemma file_ext_spec: "file_spec file_ext (\<lambda>os. os)"
  by (auto simp: file_spec_def file_ext_def)

lemma conf_head_length [simp]: "length conf_head = 28"
  by (simp add: conf_head_def BT_BAR_def BT_DINF_def)

lemma sample_conf_nth:
  "i < 28 \<Longrightarrow> sample_conf ! i = conf_head ! i" "length sample_conf = CONF_SIZE"
  by (simp_all add: sample_conf_def nth_append no_pads_def c_consts)

lemma sample_entries:
  "entry_count sample_conf = 2" "entry_pos sample_conf 0 = 10" "entry_pos sample_conf (Suc 0) = 18"
  by (simp_all add: entry_count_def entry_pos_def be16_at_def sample_conf_nth)
    (simp_all add: conf_head_def mk16_def)

lemma sample_entry_heads:
  "name_length sample_conf 10 = 6" "entry_type sample_conf 10 = CONF_BYTE"
  "name_length sample_conf 18 = 7" "entry_type sample_conf 18 = CONF_BIGARRAY"
  by (simp_all add: name_length_def entry_type_def sample_conf_nth)
    (simp_all add: conf_head_def BT_BAR_def BT_DINF_def c_consts)

lemma sample_entry_sizes:
  "head_length sample_conf 10 = 7" "data_length sample_conf 10 = 1"
  "head_length sample_conf 18 = 10" "data_length sample_conf 18 = sizeof_conf_pads_setting"
  by (simp_all add: head_length_def data_length_def sample_entry_heads Let_def c_consts be16_at_def sample_conf_nth)
    (simp add: conf_head_def BT_BAR_def BT_DINF_def mk16_def)

lemma sample_laid_out: "laid_out sample_conf"
proof -
  have e: "entry_end sample_conf 10 = 18" "entry_end sample_conf 18 = 1149"
    by (simp_all add: entry_end_def sample_entry_sizes c_consts)
  have l: "length sample_conf = 16384" by (simp add: sample_conf_nth c_consts)
  show ?thesis
    unfolding laid_out_def l sample_entries
    by (auto simp: less_2_cases_iff sample_entries e sample_entry_heads)
qed

lemma sample_index: "entry_index sample_conf BT_BAR = Some 0" "entry_index sample_conf BT_DINF = Some 1"
proof -
  have n: "entry_name sample_conf 10 = BT_BAR" "entry_name sample_conf 18 = BT_DINF"
    by (simp_all only: entry_name_def sample_entry_heads)
      (simp_all add: sample_conf_def conf_head_def BT_BAR_def BT_DINF_def)
  moreover have "BT_BAR \<noteq> BT_DINF" by (simp add: BT_BAR_def BT_DINF_def)
  moreover have "[0..<2] = [0, Suc 0]" by (simp add: numeral_2_eq_2)
  ultimately show "entry_index sample_conf BT_BAR = Some 0" "entry_index sample_conf BT_DINF = Some 1"
    by (simp_all add: entry_index_def sample_entries)
qed

lemma sample_settings: "settings sample_conf BT_BAR = Some [1]" "settings sample_conf BT_DINF = Some no_pads"
  by (simp_all add: settings_def sample_index sample_entries entry_data_def sample_entry_sizes)
    (simp_all add: sample_conf_def conf_head_def BT_BAR_def BT_DINF_def no_pads_def)

definition boot_file :: "u8 list world" where
  "boot_file = \<lparr> usb = \<lparr> os_state = sample_conf, injmessages_heap_id = 0, inj_store = (\<lambda>_. None),
       ipc_store = (\<lambda>_. None), ready_usb_intr_msg_queue_id = 0, pending_usb_intr_msg_queue_id = 1,
       ready_usb_bulk_in_msg_queue_id = 2, pending_usb_bulk_in_msg_queue_id = 3,
       usb_intr_hand_down_msg_pending = False, usb_bulk_in_hand_down_msg_pending = False \<rparr>,
     hci = hci_state_initial, l2cap_starting_id = 0x40,
     fake_wiimotes = [idle_wiimote, idle_wiimote], input_devices = [input_device_zero],
     s_sensor_bar_position_top = False, egc_devices = (\<lambda>_. sample_device), orig_msg_queueid = 4,
     initialized = False \<rparr>"

lemma boot_registers_once_witness:
  "\<exists>p W1 W2. patch_pads no_pads = Inr (Some p) \<and> main_configure file_ext boot_file = Inr (0, W1) \<and>
    s_sensor_bar_position_top W1 \<and> settings (os_state (usb W1)) BT_DINF = Some p \<and>
    main_configure file_ext W1 = Inr (0, W2) \<and> os_state (usb W2) = os_state (usb W1)"
proof -
  have b: "os_state (usb boot_file) = sample_conf" by (simp add: boot_file_def)
  have n: "length no_pads = sizeof_conf_pads_setting" "unat (no_pads ! 0) = 0"
    by (simp_all add: no_pads_def c_consts)
  show ?thesis
    using boot_registers_once [OF file_ext_spec, of boot_file 1 no_pads]
      sample_laid_out sample_conf_nth(2) sample_settings n unfolding b by auto
qed

lemma settings_roundtrip_witness:
  "\<exists>conf'. conf_set sample_conf BT_BAR [0] 1 = Inr (1, conf') \<and>
    settings conf' = (settings sample_conf)(BT_BAR \<mapsto> [0]) \<and> conf_get conf' BT_BAR [7] 1 = Inr (1, [0])"
  using settings_roundtrip [OF sample_laid_out, of BT_BAR "[0]" 1 "[7]"] sample_settings(1) by auto

end
