(* ===== verification/Edge_Cases.thy ===== *)
theory Edge_Cases
  imports Settings_File Oh1_Hooks
begin

text \<open>
  Inputs at the edge of what the code expects, and values it confuses: lengths of the host that
  do not fit, and the wrong byte order, index or state.
\<close>

section \<open>Lengths that do not fit\<close>

text \<open>A signalling command that claims more bytes than are left: the remaining length wraps and
  the loop reads past the packet.\<close>

lemma command_past_packet:
  assumes "n \<noteq> 0" and "code \<notin> {L2CAP_CONNECT_REQ, L2CAP_CONNECT_RSP, L2CAP_CONFIG_REQ, L2CAP_CONFIG_RSP, L2CAP_DISCONNECT_REQ}"
  shows "handle_l2cap_signal_channel_request E j [code, ident, n, 0] 4 W = Inl Out_Of_Bounds"
proof -
  have l: "mk16 0 n = ucast n" by (simp add: mk16_def)
  have u: "0 < unat n" "unat n < 256" using assms(1) unsigned_less [of n] by (auto simp: unat_gt_0)
  have m: "handle_l2cap_signal_channel E j code ident [] (ucast n) W = Inr W"
    using assms(2) by (simp add: handle_l2cap_signal_channel_def)
  have w: "4 \<le> (4 - (4 + ucast n) :: u16)"
  proof -
    have x: "unat (ucast n :: u16) = unat n" using u(2) by (simp add: unsigned_ucast_eq take_bit_nat_eq_self)
    have "unat (0 - ucast n :: u16) = 65536 - unat n"
      using u by (subst unat_sub_if_size) (simp add: x word_size)
    then show ?thesis using u by (simp add: word_le_nat_alt)
  qed
  have past: "handle_l2cap_signal_channel_request E j [] (4 - (4 + ucast n)) W = Inl Out_Of_Bounds"
    using w by (subst handle_l2cap_signal_channel_request.simps) (simp add: c_consts read_le16_def read_u8_def)
  show ?thesis
    using m past by (subst handle_l2cap_signal_channel_request.simps)
      (simp add: c_consts read_le16_def read_u8_def l)
qed

text \<open>A configuration request without room for its flags: the size of its options wraps.\<close>

lemma short_config_request:
  assumes "j < length (fake_wiimotes W)" and "get_channel_info (fake_wiimotes W ! j) cid = Some ch"
  shows "handle_l2cap_signal_channel E j L2CAP_CONFIG_REQ ident (le16 cid @ le16 0) 2 W = Inl Out_Of_Bounds"
proof -
  have c: "config_options [] 65534 0 mtu = Inl Out_Of_Bounds" for mtu
    by (subst config_options.simps) (simp add: read_u8_def)
  have "mk16 0 0 = 0" by (simp add: mk16_def)
  then have r: "read_le16 (le16 cid @ le16 0) 0 = Inr cid" "read_le16 (le16 cid @ le16 0) 2 = Inr 0"
    by (simp_all add: read_le16_def read_u8_def le16_def)
  show ?thesis
    using assms c r by (simp add: handle_l2cap_signal_channel_def c_consts on_wm_state_def on_wm_def at_def
        handle_l2cap_config_req_def Let_def)
qed

text \<open>C31: Malformed signalling packets make the module read past the packet: a command that claims more bytes than are left (the remaining length wraps and the loop goes on), and a configuration request without room for its flags (the size of its options wraps).\<close>

lemma malformed_signal_overread:
  assumes "n \<noteq> 0" and "code \<notin> {L2CAP_CONNECT_REQ, L2CAP_CONNECT_RSP, L2CAP_CONFIG_REQ, L2CAP_CONFIG_RSP, L2CAP_DISCONNECT_REQ}"
    and "j < length (fake_wiimotes W)" and "get_channel_info (fake_wiimotes W ! j) cid = Some ch"
  shows "handle_l2cap_signal_channel_request E j [code, ident, n, 0] 4 W = Inl Out_Of_Bounds \<and>
    handle_l2cap_signal_channel E j L2CAP_CONFIG_REQ ident (le16 cid @ le16 0) 2 W = Inl Out_Of_Bounds"
  using command_past_packet [OF assms(1,2)] short_config_request [OF assms(3,4)] by blast

lemma malformed_signal_overread_witness:
  "handle_l2cap_signal_channel_request sample_ext 0 [8, 1, 200, 0] 4 sample_world = Inl Out_Of_Bounds \<and>
    handle_l2cap_signal_channel sample_ext 0 L2CAP_CONFIG_REQ 1 (le16 0x41 @ le16 0) 2 sample_world = Inl Out_Of_Bounds"
  by (rule malformed_signal_overread [where ch = HID_Intr_Chn])
    (simp_all add: c_consts get_channel_info_def sample_channel_def sample_wiimote_def fake_wiimote_init_state_def
      fake_wiimote_reset_extension_state_def invalidate_def Let_def)

section \<open>Confused values\<close>

text \<open>The host asks for a sniff interval \<open>v\<close> and is told the bytes of \<open>v\<close> in the other order.\<close>

lemma sniff_interval_swapped:
  assumes "heap_spec E" and "take 2 (drop i payload) = le16 v"
  shows "rbind (read_be16 payload i) (\<lambda>max_interval. inject_hci_event_mode_change E h 2 max_interval u) =
    inject_packet E Intr (hci_event_packet HCI_EVENT_MODE_CHANGE ([0] @ le16 h @ [2] @ be16 v)) u"
proof -
  have i: "Suc i < length payload" using arg_cong [OF assms(2), of length] by simp
  have "payload ! i = ucast v" "payload ! Suc i = ucast (drop_bit 8 v)"
    using arg_cong [OF assms(2), of "\<lambda>xs. xs ! 0"] arg_cong [OF assms(2), of "\<lambda>xs. xs ! 1"] i
    by (simp_all add: le16_def)
  then show ?thesis
    using i assms(1) by (simp add: read_be16_def read_u8_def inj_wire be16_def)
qed

text \<open>A new controller starts in the second mode of the pointer, not in the direct one.\<close>

lemma controller_starts_relative:
  "ir_emu_modes ! ir_emu_mode_idx (attach_device E p device d) = BM_IR_EMULATION_MODE_RELATIVE_ANALOG_AXIS"
  by (simp add: attach_device_def ir_emu_modes_def ir_mode_number_def)

text \<open>A controller without the sticks' buttons triggers the switch of the extension at its first sample.\<close>

lemma missing_buttons_trigger:
  assumes "\<not> has_button E device BUTTON_LEFT_STICK"
  shows "bm_check_switch_mapping btns False (switch_mapping_combo (attach_device E p device d)) = (True, True)"
  using assms by (simp add: attach_device_def button_combo_def bm_check_switch_mapping_def)

text \<open>A new connection of a Wiimote that had the Nunchuk: no extension is connected, but the
  registers identify the Nunchuk.\<close>

lemma stale_identifier:
  assumes "cur_extension w = WIIMOTE_EXT_NUNCHUK"
  shows "cur_extension (fake_wiimote_init_state i w) = WIIMOTE_EXT_NONE"
    and "Some (take 6 (drop ext_regs_identifier (extension_regs (fake_wiimote_init_state i w)))) =
      ext_id_code WIIMOTE_EXT_NUNCHUK"
proof -
  let ?regs = "extension_regs (fake_wiimote_init_state i w)"
  have "?regs ! (ext_regs_identifier + k) = EXT_ID_CODE_NUNCHUNK ! k" if "k < 6" for k
    using that assms by (simp add: fake_wiimote_init_state_def fake_wiimote_reset_extension_state_def Let_def
        ext_id_code_def nth_put c_consts)
  moreover have "length ?regs = 256"
    using assms by (simp add: fake_wiimote_init_state_def fake_wiimote_reset_extension_state_def Let_def
        ext_id_code_def c_consts)
  ultimately show "Some (take 6 (drop ext_regs_identifier ?regs)) = ext_id_code WIIMOTE_EXT_NUNCHUK"
    by (auto simp: ext_id_code_def c_consts intro!: nth_equalityI)
qed (simp add: fake_wiimote_init_state_def Let_def)

text \<open>A timer that could not be created is not noticed.\<close>

lemma failing_timer_unnoticed:
  assumes "\<And>n os. 0 \<le> fst (os_message_queue_create E n os)" and "\<not> initialized W"
  shows "fst (ensure_initalized E W) = 0" and "initialized (snd (ensure_initalized E W))"
  using assms by (auto simp: ensure_initalized_def create_queue_def init_globals_def Let_def case_prod_beta not_less)

end
