(* ===== verification/Header_Helpers.thy ===== *)
theory Header_Helpers
  imports Conf
begin

unbundle bit_operations_syntax

text \<open>
  The remaining inline functions of the headers: the event filter of \<open>include/hci.h\<close> and tests
  on L2CAP fields of \<open>include/l2cap.h\<close>, which no part of the module calls, and copying, comparing
  and printing a Bluetooth address of \<open>include/bluetooth.h\<close>; elsewhere an address is compared as
  a list.
\<close>

section \<open>The event filter\<close>

text \<open>A filter is an array of eight words; number 0 is counted as 256.\<close>

type_synonym hci_filter = "u32 list"

definition hci_filter_set :: "u8 \<Rightarrow> hci_filter \<Rightarrow> hci_filter" where
  "hci_filter_set b flt =
     (let off = unat (drop_bit 5 (b - 1))
      in flt[off := flt ! off OR push_bit (unat ((b - 1) AND 0x1F)) 1])"

definition hci_filter_clr :: "u8 \<Rightarrow> hci_filter \<Rightarrow> hci_filter" where
  "hci_filter_clr b flt =
     (let off = unat (drop_bit 5 (b - 1))
      in flt[off := flt ! off AND NOT (push_bit (unat ((b - 1) AND 0x1F)) 1)])"

definition hci_filter_test :: "u8 \<Rightarrow> hci_filter \<Rightarrow> int" where
  "hci_filter_test b flt =
     (let off = unat (drop_bit 5 (b - 1))
      in sint (flt ! off AND push_bit (unat ((b - 1) AND 0x1F)) 1))"

text \<open>A byte is its low and its high bits.\<close>

lemma low_bits: "x AND 0x1F = take_bit 5 (x :: u8)" "x AND 0x0F = take_bit 4 (x :: u8)"
  by (rule bit_word_eqI, auto simp: bit_simps less_8_cases)+

lemma byte_parts: "drop_bit n x = drop_bit n y \<Longrightarrow> take_bit n x = take_bit n y \<Longrightarrow> x = (y :: u8)"
  by (metis bits_ident)

lemma part_bounds: "unat (drop_bit 5 x) < 8" "unat (take_bit 5 x) < 32" "drop_bit 4 x < 16" "take_bit 4 x < (16 :: u8)"
  for x :: u8
  using unsigned_less [of x, where ?'a = nat]
  unfolding word_less_nat_alt unsigned_drop_bit_eq unsigned_take_bit_eq
  by (simp_all add: take_bit_eq_mod drop_bit_eq_div less_mult_imp_div_less)

lemma filter_same_bit:
  assumes "unat (drop_bit 5 (b - 1) :: u8) = unat (drop_bit 5 (c - 1) :: u8)"
    and "unat ((b - 1) AND 0x1F :: u8) = unat ((c - 1) AND 0x1F :: u8)"
  shows "b = c"
proof -
  have "b - 1 = c - 1"
    using assms unfolding low_bits word_unat_eq_iff [symmetric] by (rule byte_parts)
  then show ?thesis by simp
qed

lemma test_bit: "hci_filter_test b flt \<noteq> 0 \<longleftrightarrow> bit (flt ! unat (drop_bit 5 (b - 1))) (unat ((b - 1) AND 0x1F))"
proof -
  have "w AND push_bit k 1 \<noteq> 0 \<longleftrightarrow> bit w k" if "k < 32" for w :: u32 and k
    using that by (simp add: push_bit_of_1 and_exp_eq_0_iff_not_bit)
  then show ?thesis
    using part_bounds(2) by (simp add: hci_filter_test_def Let_def signed_eq_0_iff low_bits del: push_bit_of_1)
qed

text \<open>Setting and clearing change the answer for their number and no other.\<close>

lemma filter_set_test:
  assumes "length flt = 8"
  shows "hci_filter_test c (hci_filter_set b flt) \<noteq> 0 \<longleftrightarrow> c = b \<or> hci_filter_test c flt \<noteq> 0"
    and "hci_filter_test c (hci_filter_clr b flt) \<noteq> 0 \<longleftrightarrow> c \<noteq> b \<and> hci_filter_test c flt \<noteq> 0"
proof -
  define o1 k1 where "o1 = unat (drop_bit 5 (b - 1))" and "k1 = unat ((b - 1) AND 0x1F)"
  define o2 k2 where "o2 = unat (drop_bit 5 (c - 1))" and "k2 = unat ((c - 1) AND 0x1F)"
  have same: "c = b \<longleftrightarrow> o2 = o1 \<and> k2 = k1"
    using filter_same_bit [of c b] by (auto simp: o1_def k1_def o2_def k2_def)
  have len: "o1 < length flt" "k2 < 32"
    using part_bounds(1) [of "b - 1"] part_bounds(2) [of "c - 1"] assms by (simp_all add: o1_def k2_def low_bits)
  show "hci_filter_test c (hci_filter_set b flt) \<noteq> 0 \<longleftrightarrow> c = b \<or> hci_filter_test c flt \<noteq> 0"
    "hci_filter_test c (hci_filter_clr b flt) \<noteq> 0 \<longleftrightarrow> c \<noteq> b \<and> hci_filter_test c flt \<noteq> 0"
    unfolding test_bit hci_filter_set_def hci_filter_clr_def Let_def
      o1_def [symmetric] k1_def [symmetric] o2_def [symmetric] k2_def [symmetric] same
    using len by (auto simp: nth_list_update bit_or_iff bit_and_iff bit_not_iff bit_push_bit_iff bit_1_iff simp del: push_bit_of_1)
qed

section \<open>L2CAP fields\<close>

definition L2CAP_PSM_INVALID :: "u16 \<Rightarrow> bool" where
  "L2CAP_PSM_INVALID psm \<longleftrightarrow> psm AND 0x0101 \<noteq> 0x0001"

definition L2CAP_OPT_CFLAG :: "u16 \<Rightarrow> u16" where
  "L2CAP_OPT_CFLAG flags = flags AND 0x0001"

definition L2CAP_OPT_HINT :: "u8 \<Rightarrow> u8" where
  "L2CAP_OPT_HINT ty = ty AND 0x80"

text \<open>The channels of a Wiimote have valid multiplexers; the Wiimote's own options are no hints.\<close>

lemma own_fields_valid:
  "\<not> L2CAP_PSM_INVALID L2CAP_PSM_HID_CNTL" "\<not> L2CAP_PSM_INVALID L2CAP_PSM_HID_INTR"
  "L2CAP_OPT_HINT L2CAP_OPT_MTU = 0" "L2CAP_OPT_HINT L2CAP_OPT_FLUSH_TIMO = 0"
  by (simp_all add: L2CAP_PSM_INVALID_def L2CAP_OPT_HINT_def c_consts)

section \<open>Addresses\<close>

definition bacmp :: "bdaddr \<Rightarrow> bdaddr \<Rightarrow> int result" where
  "bacmp ba1 ba2 = libc_memcmp ba1 0 ba2 0 BDADDR_SIZE"

definition bacpy :: "bdaddr \<Rightarrow> bdaddr \<Rightarrow> bdaddr result" where
  "bacpy dst src = rbind (read_bytes src 0 BDADDR_SIZE) (write_bytes dst 0)"

lemma address_copy_compares_equal:
  assumes "length src = 6" and "length dst = 6" and "length other = 6"
  shows "\<exists>d. bacpy dst src = Inr d \<and> (\<exists>r. bacmp d other = Inr r \<and> (r = 0 \<longleftrightarrow> other = src))"
  using memcmp_zero [of 0 6 src 0 other] assms
  by (auto simp: bacpy_def bacmp_def read_bytes_def write_bytes_def BDADDR_SIZE_def)

definition hex_digit :: "u8 \<Rightarrow> char" where
  "hex_digit d = ''0123456789abcdef'' ! unat d"

definition hex2 :: "u8 \<Rightarrow> string" where
  "hex2 b = [hex_digit (drop_bit 4 b), hex_digit (b AND 0x0F)]"

text \<open>\<open>snprintf\<close> with \<open>"%02x:%02x:%02x:%02x:%02x:%02x"\<close>; the terminator is left out.\<close>

definition bdaddr_to_str :: "bdaddr \<Rightarrow> string" where
  "bdaddr_to_str b =
     hex2 (b ! 5) @ '':'' @ hex2 (b ! 4) @ '':'' @ hex2 (b ! 3) @ '':'' @ hex2 (b ! 2) @ '':'' @
     hex2 (b ! 1) @ '':'' @ hex2 (b ! 0)"

lemma hex_digit_inj: "d < 16 \<Longrightarrow> e < 16 \<Longrightarrow> hex_digit d = hex_digit e \<Longrightarrow> d = e"
proof -
  assume "d < 16" "e < 16" and eq: "hex_digit d = hex_digit e"
  then have "unat d < length ''0123456789abcdef''" "unat e < length ''0123456789abcdef''"
    by (simp_all add: word_less_nat_alt)
  moreover have "distinct ''0123456789abcdef''" by simp
  ultimately have "unat d = unat e" using eq unfolding hex_digit_def by (metis nth_eq_iff_index_eq)
  then show "d = e" by (simp only: word_unat_eq_iff)
qed

lemma hex2_inj: "hex2 b = hex2 c \<Longrightarrow> b = c"
proof -
  assume h: "hex2 b = hex2 c"
  show "b = c"
  proof (rule byte_parts [of 4])
    show "drop_bit 4 b = drop_bit 4 c" "take_bit 4 b = take_bit 4 c"
      using h hex_digit_inj [OF part_bounds(3) part_bounds(3)] hex_digit_inj [OF part_bounds(4) part_bounds(4)]
      unfolding hex2_def low_bits by blast+
  qed
qed

text \<open>The printed address fits its buffer of 18 bytes with the terminator, and determines the address.\<close>

lemma printed_address:
  assumes "length a = 6" and "length b = 6"
  shows "length (bdaddr_to_str a) + 1 = 18" and "bdaddr_to_str a = bdaddr_to_str b \<longleftrightarrow> a = b"
proof -
  have l: "length (hex2 x) = 2" for x by (simp add: hex2_def)
  show "length (bdaddr_to_str a) + 1 = 18" by (simp add: bdaddr_to_str_def l)
  show "bdaddr_to_str a = bdaddr_to_str b \<longleftrightarrow> a = b"
  proof
    assume "bdaddr_to_str a = bdaddr_to_str b"
    then have "hex2 (a ! 5) = hex2 (b ! 5)" "hex2 (a ! 4) = hex2 (b ! 4)" "hex2 (a ! 3) = hex2 (b ! 3)"
      "hex2 (a ! 2) = hex2 (b ! 2)" "hex2 (a ! 1) = hex2 (b ! 1)" "hex2 (a ! 0) = hex2 (b ! 0)"
      by (simp_all add: bdaddr_to_str_def hex2_def)
    then have "a ! k = b ! k" if "k < 6" for k
    proof -
      have "k \<in> {0, 1, 2, 3, 4, 5}" using that by auto
      then show ?thesis using hex2_inj \<open>hex2 (a ! 0) = hex2 (b ! 0)\<close> \<open>hex2 (a ! 1) = hex2 (b ! 1)\<close>
          \<open>hex2 (a ! 2) = hex2 (b ! 2)\<close> \<open>hex2 (a ! 3) = hex2 (b ! 3)\<close> \<open>hex2 (a ! 4) = hex2 (b ! 4)\<close>
          \<open>hex2 (a ! 5) = hex2 (b ! 5)\<close> by auto
    qed
    then show "a = b" using assms by (intro nth_equalityI) auto
  qed simp
qed

end
