(* ===== verification/Spec2Isabelle.thy ===== *)
theory Spec2Isabelle
  imports Channel_Fifo Requests Link_Host Report_Ticks Code_Patch Edge_Cases Header_Helpers
begin

text \<open>
  A verification library for fakemote, a module for the input/output processor of the Wii that
  presents USB game controllers to the console as Bluetooth remotes (fake Wiimotes).

  The program.  The module sits between the console's Bluetooth stack (the host) and OH1, the
  driver of the USB Bluetooth dongle.  It replaces two system calls of OH1: the one that receives
  the requests of the host and the one that answers them (\<open>source/main.c\<close>).  HCI commands and ACL
  data of the host that concern a fake Wiimote are answered by the module, everything else is
  forwarded; events and ACL data of the dongle are passed on.  The module needs to insert packets
  of its own into the two streams that the host reads (HCI events and incoming ACL data), so it
  keeps, per stream, a queue of waiting reads and a queue of data that waits for a read, and one
  static message with which it reads from the dongle.  A periodic timer drives the fake Wiimotes
  from the state of the game controllers.

  Theories and the code they model.
    \<open>Prelude\<close>: results with faults (\<open>Inl\<close> an assertion, a null pointer or an access out of bounds,
      \<open>Inr\<close> the value), byte memories, little- and big-endian fields, reachability.
    \<open>Ios\<close>: the interface to what is not part of the repository (the system calls of IOS and
      cios-lib, the embedded-game-controller library), one record \<open>'os ext\<close> of parameters over an
      abstract state \<open>'os\<close>, and the documented behaviour the properties rely on.
    \<open>Libc\<close>: \<open>source/libc.c\<close>.  \<open>Hci_Defs\<close>, \<open>L2cap_Defs\<close>, \<open>Wiimote_Regs\<close>: constants, packet and
      register layouts and packed fields of \<open>include/hci.h\<close>, \<open>include/l2cap.h\<close>,
      \<open>include/wiimote.h\<close>.
    \<open>Usb_Queues\<close>, \<open>Usb_Channel\<close>: the two queues per stream and the hand-down messages of
      \<open>source/main.c\<close>; state record \<open>usb\<close> with the stores of host messages (\<open>ipc_store\<close>) and of
      injected messages (\<open>inj_store\<close>).
    \<open>Injmessage\<close>: \<open>source/injmessage.c\<close>, every injector and the layers below it.
    \<open>Wiimote_Crypto\<close>: \<open>source/wiimote_crypto.c\<close>, the cipher of the extension port.
    \<open>Button_Map\<close>: \<open>source/button_map.c\<close> and the inline functions of its header.
    \<open>Fake_Wiimote_State\<close>, \<open>Memory_Spaces\<close>, \<open>Fake_Wiimote_Hid\<close>, \<open>Fake_Wiimote\<close>: record
      \<open>fake_wiimote\<close> and the functions of \<open>source/fake_wiimote.c\<close>: initialisation, memories and
      registers, reports, memory requests, extension port, L2CAP channels, output reports, tick.
    \<open>Input_Device\<close>: \<open>source/input_device.c\<close> and the record \<open>world\<close>, the state of the whole module.
      A pointer into one of the two static arrays is an index.
    \<open>Fake_Wiimote_Mgr\<close>: \<open>source/fake_wiimote_mgr.c\<close>.  \<open>Hci_Table\<close>, \<open>Hci_State\<close>:
      \<open>source/hci_state.c\<close>, the table of connection handles and the translation of packets.
    \<open>Oh1_Hooks\<close>: the two hooks, the dispatch of requests, start-up and the periodic tick.
    \<open>Conf\<close>: \<open>source/conf.c\<close> and the part of \<open>main\<close> that registers the fake Wiimotes.
    \<open>Code_Patch\<close>: \<open>Patch_OH1UsbModule\<close> of \<open>source/main.c\<close>, on a memory of bytes.
    \<open>Header_Helpers\<close>: the other inline functions of \<open>include/hci.h\<close>, \<open>include/l2cap.h\<close> and
      \<open>include/bluetooth.h\<close>.
  The names are those of the code where Isabelle allows them.

  What is shown.
    \<open>Channel_Fifo\<close> and \<open>Delivery\<close>: the queues, the heap and the hand-down message of a stream
      implement an abstract pipe of packets and reads, step by step; so, as long as nothing is
      refused (\<open>admits\<close> lists the conditions), the n-th read of the host gets the n-th packet,
      complete and once.  In every interleaving of injections, reads and replies, where the
      driver replies while it holds the message handed down (\<open>channel_step\<close> counts it), data and
      reads never wait together and the flag of the module is right.  What a refusal does.
    \<open>Pairing\<close>: the two arrays point into each other; every handler of the module is a sequence of
      the operations on an abstract pairing.  A run (\<open>module_step\<close>) is any sequence of timer ticks,
      replies of the dongle and requests of the host that do not fault; a tame run (\<open>tame_step\<close>) has
      no rejection of a connection of a Wiimote that is not active, the one command that breaks
      the pairing.  The locale \<open>pairing_law\<close> follows a law of the pairing through a run and is
      interpreted twice: a slot points to a Wiimote that points back in every run, and the two
      directions are inverse in tame runs, so that an input sample never meets a null pointer
      there.  What the rejection does; the delay before a controller is used again.
    \<open>Hci_Translation\<close>: virtual and physical handles, in both directions and for every kind of
      packet; the table meets the contract of the locale \<open>handle_translation\<close>; the relation
      \<open>handles_issued\<close> lists the handles handed out since a reset, and no handle is handed out twice
      among the first 256 (then the allocator starts again at 0).
    \<open>Hook_Loop\<close>: every handler touches the plumbing only through a fixed list of system calls, so
      what these leave alone the module leaves alone.  The blocking receive of the driver is
      specified by a prophecy, the messages that will arrive; the loop of the receive hook ends at
      the latest with the first of them that is for the driver.
    \<open>Slot_Invariant\<close>: what holds of one Wiimote and of one slot holds of all of them in every
      reachable state, when the operations on one of them keep it (locales \<open>slot_tick\<close> and
      \<open>slot_invariant\<close>).  \<open>Well_Formed\<close> interprets it with the values of the extension, the pointer and
      the mapping, the sizes of the memories and the ranges of the indices, in every run;
      \<open>Tick_Progress\<close> with what a tick needs: no step of the tick faults, up to one assertion, in
      tame runs with legal extension keys.
    \<open>Packet_Room\<close>, \<open>Link_Setup\<close>: injections that succeed; the set-up of a link refines an
      abstract link of two channel phases; what a heap that is used up does to it.
    \<open>Link_Host\<close>: a host that sees only the packets in the queue of the bulk endpoint (\<open>outbox\<close>),
      parses them and answers; with it a link completes in five rounds, with the packets sent
      given byte for byte.
    \<open>Report_Ticks\<close>: what a tick makes of a sample, and when it sends a report.
    \<open>Requests\<close>: a command of the host that concerns a real device, and an event of the dongle, from
      one end to the other through the hooks, the manager and the tracker.
    \<open>Wire_Packets\<close>: what the injectors put on the wire, byte for byte; one of them sends the
      uninitialised rest of its heap block; the completed-packets event.
    \<open>Host_Memory\<close>: the memories of a Wiimote as the host reads and writes them, the encrypted
      extension registers (locales \<open>memory_block\<close>, \<open>stream_cipher\<close>), the key generation.
    \<open>Wiimote_Crypto\<close>: known answers, the keys accepted for ten random bytes and their tables.
    \<open>Host_Reports\<close>: the data reports and how the host decodes them, the extension port.
    \<open>Button_Map\<close>: the pointer stays on the screen, the extension blocks decode, combinations.
    \<open>Conf_Patch\<close>: what a boot makes of the registered controllers.  \<open>Settings_File\<close>: a well laid
      out settings file is a map from names to data that \<open>conf_set\<close> updates at one name; the first
      boot adds the fake Wiimotes and keeps every other setting, the next writes nothing.
    \<open>Code_Patch\<close>: the patched functions jump to the hooks and no other byte changes.
    \<open>Edge_Cases\<close>: lengths that do not fit and confused values, where the code does
      not do what it means to.
    \<open>Sample_Ext\<close>, \<open>Sample_World\<close>: one concrete outside world on which the witnesses run.

  Loops and bounds.  Loops over static arrays are structural recursions over index lists; the
  loops over a signalling packet and over configuration options are functions with a measure
  (the buffer shrinks by a header in each round, the position stays below the size).  There is no
  fuel.  The loop of the receive hook ends when a message is for OH1 and may run for ever, so it
  is a partial function into \<open>option\<close>; \<open>Hook_Loop\<close> proves that it returns.  Integers that wrap in
  C are words of their width.  A failed assertion, which stops the module in \<open>__assert_func\<close>, is a
  fault.

  Not modelled.  The call of cios-lib that runs the patch (\<open>IOS_InitSystem\<close>) and the assembly of
  the entry (\<open>start.s\<close>); logging, the compiler macros and the linker script have no behaviour to
  state; the socket, unit and statistics structures of \<open>hci.h\<close> and \<open>l2cap.h\<close>, and the packets and
  options no part of the module builds or reads, come from a BSD stack and are not used.  The thread
  of the driver is the only one that runs the module's code, so there is no interleaving inside
  a hook; the host and the dongle act between two calls.
\<close>

end
